(* ===== verification/Prelude.thy ===== *)
theory Prelude
  imports Main "HOL-Library.Word" "HOL-Library.List_Lexorder" "HOL-Library.Char_ord"
begin

text \<open>
  Shared vocabulary of the development: the fact collections, the Go integer and string
  operations that several components use (\<^verbatim>\<open>%\<close>, 64-bit wrap-around, \<^verbatim>\<open>strconv\<close>,
  \<^verbatim>\<open>strings\<close>, \<^verbatim>\<open>fmt\<close>), and the generic facts about lists that the table models rest on.
  Strings are byte strings, as in Go: \<open>string\<close> is a list of 8-bit characters.
\<close>

named_theorems go_defs \<open>definitions of Go library operations\<close>
named_theorems peering_defs \<open>definitions of the peering rules\<close>
named_theorems repo_defs \<open>definitions of the table operations\<close>
named_theorems world_defs \<open>definitions of effects on the center's state\<close>
named_theorems handler_defs \<open>definitions of request handlers\<close>

section \<open>Integers\<close>

text \<open>Go's \<^verbatim>\<open>%\<close> truncates towards zero; \<^verbatim>\<open>int\<close> and \<^verbatim>\<open>int64\<close> wrap modulo \<open>2 ^ 64\<close>.\<close>

definition go_rem :: "int \<Rightarrow> int \<Rightarrow> int" where
  "go_rem a b = sgn a * (\<bar>a\<bar> mod \<bar>b\<bar>)"

definition wrap_int64 :: "int \<Rightarrow> int" where
  "wrap_int64 x = (x + 9223372036854775808) mod 18446744073709551616 - 9223372036854775808"

definition is_int64 :: "int \<Rightarrow> bool" where
  "is_int64 x \<longleftrightarrow> -9223372036854775808 \<le> x \<and> x \<le> 9223372036854775807"

section \<open>Characters and strings\<close>

definition is_digit :: "char \<Rightarrow> bool" where
  "is_digit c \<longleftrightarrow> 48 \<le> (of_char c :: nat) \<and> (of_char c :: nat) \<le> 57"

definition is_lower :: "char \<Rightarrow> bool" where
  "is_lower c \<longleftrightarrow> 97 \<le> (of_char c :: nat) \<and> (of_char c :: nat) \<le> 122"

definition is_upper :: "char \<Rightarrow> bool" where
  "is_upper c \<longleftrightarrow> 65 \<le> (of_char c :: nat) \<and> (of_char c :: nat) \<le> 90"

definition is_alnum :: "char \<Rightarrow> bool" where
  "is_alnum c \<longleftrightarrow> is_digit c \<or> is_lower c \<or> is_upper c"

definition digit_val :: "char \<Rightarrow> nat" where
  "digit_val c = of_char c - 48"

definition digit_char :: "nat \<Rightarrow> char" where
  "digit_char d = char_of (48 + d)"

text \<open>\<^verbatim>\<open>fmt.Sprintf("%d", n)\<close>: the decimal digits, most significant first.\<close>

fun show_nat :: "nat \<Rightarrow> string" where
  "show_nat n = (if n < 10 then [digit_char n] else show_nat (n div 10) @ [digit_char (n mod 10)])"

declare show_nat.simps [simp del]

definition show_int :: "int \<Rightarrow> string" where
  "show_int i = (if i < 0 then CHR ''-'' # show_nat (nat (- i)) else show_nat (nat i))"

text \<open>The value of a digit string, and \<^verbatim>\<open>strconv.Atoi\<close> / \<^verbatim>\<open>strconv.ParseInt(s, 10, 64)\<close>: an
  optional sign, at least one digit, digits only, and a range check.\<close>

fun digits_val :: "nat \<Rightarrow> string \<Rightarrow> nat" where
  "digits_val acc [] = acc"
| "digits_val acc (c # cs) = digits_val (acc * 10 + digit_val c) cs"

definition parse_digits :: "string \<Rightarrow> nat option" where
  "parse_digits s = (if s \<noteq> [] \<and> list_all is_digit s then Some (digits_val 0 s) else None)"

definition atoi :: "string \<Rightarrow> int option" where
  "atoi s =
     (let (neg, body) =
        (case s of [] \<Rightarrow> (False, [])
         | c # cs \<Rightarrow> if c = CHR ''-'' then (True, cs) else if c = CHR ''+'' then (False, cs) else (False, s))
      in case parse_digits body of
           None \<Rightarrow> None
         | Some n \<Rightarrow>
             (let v = (if neg then - int n else int n) in if is_int64 v then Some v else None))"

text \<open>\<^verbatim>\<open>strings.HasPrefix\<close>, \<^verbatim>\<open>TrimPrefix\<close>, \<^verbatim>\<open>TrimSuffix\<close>, \<^verbatim>\<open>ToLower\<close> (on ASCII letters).\<close>

fun has_prefix :: "'a list \<Rightarrow> 'a list \<Rightarrow> bool" where
  "has_prefix _ [] = True"
| "has_prefix [] (_ # _) = False"
| "has_prefix (x # xs) (p # ps) = (x = p \<and> has_prefix xs ps)"

definition trim_prefix :: "'a list \<Rightarrow> 'a list \<Rightarrow> 'a list" where
  "trim_prefix s p = (if has_prefix s p then drop (length p) s else s)"

definition trim_suffix :: "'a list \<Rightarrow> 'a list \<Rightarrow> 'a list" where
  "trim_suffix s p = (if has_prefix (rev s) (rev p) then take (length s - length p) s else s)"

definition to_lower_char :: "char \<Rightarrow> char" where
  "to_lower_char c = (if is_upper c then char_of ((of_char c :: nat) + 32) else c)"

definition to_lower :: "string \<Rightarrow> string" where
  "to_lower s = map to_lower_char s"

definition to_upper_char :: "char \<Rightarrow> char" where
  "to_upper_char c = (if is_lower c then char_of ((of_char c :: nat) - 32) else c)"

definition to_upper :: "string \<Rightarrow> string" where
  "to_upper s = map to_upper_char s"

definition equal_fold :: "string \<Rightarrow> string \<Rightarrow> bool" where
  "equal_fold s t \<longleftrightarrow> to_lower s = to_lower t"

text \<open>\<^verbatim>\<open>strings.Contains\<close>, \<^verbatim>\<open>HasSuffix\<close>, and \<^verbatim>\<open>TrimRight\<close> of one character.\<close>

fun contains :: "'a list \<Rightarrow> 'a list \<Rightarrow> bool" where
  "contains [] p = (p = [])"
| "contains (x # xs) p = (has_prefix (x # xs) p \<or> contains xs p)"

definition has_suffix :: "'a list \<Rightarrow> 'a list \<Rightarrow> bool" where
  "has_suffix s p = has_prefix (rev s) (rev p)"

definition trim_right :: "'a \<Rightarrow> 'a list \<Rightarrow> 'a list" where
  "trim_right c s = rev (dropWhile (\<lambda>x. x = c) (rev s))"

text \<open>\<^verbatim>\<open>strings.TrimSpace\<close>: the UTF-8 encodings of the code points with the Unicode property
  White\_Space, removed from both ends.\<close>

definition white_space :: "string list" where
  "white_space = map (map (\<lambda>n. char_of (n :: nat)))
     [[9], [10], [11], [12], [13], [32], [194, 133], [194, 160], [225, 154, 128],
      [226, 128, 128], [226, 128, 129], [226, 128, 130], [226, 128, 131], [226, 128, 132],
      [226, 128, 133], [226, 128, 134], [226, 128, 135], [226, 128, 136], [226, 128, 137],
      [226, 128, 138], [226, 128, 168], [226, 128, 169], [226, 128, 175], [226, 129, 159],
      [227, 128, 128]]"

fun trim_left_fuel :: "string list \<Rightarrow> nat \<Rightarrow> string \<Rightarrow> string" where
  "trim_left_fuel ws 0 s = s"
| "trim_left_fuel ws (Suc n) s =
     (case find (\<lambda>w. has_prefix s w) ws of
        None \<Rightarrow> s
      | Some w \<Rightarrow> trim_left_fuel ws n (drop (length w) s))"

text \<open>Every removed code point takes at least one byte, so the length of the string is enough fuel.\<close>

definition trim_left :: "string list \<Rightarrow> string \<Rightarrow> string" where
  "trim_left ws s = trim_left_fuel ws (length s) s"

definition trim_space :: "string \<Rightarrow> string" where
  "trim_space s = rev (trim_left (map rev white_space) (rev (trim_left white_space s)))"

text \<open>Splitting at every occurrence of a separator: the fields between the separators.\<close>

fun split_on :: "'a \<Rightarrow> 'a list \<Rightarrow> 'a list list" where
  "split_on c [] = [[]]"
| "split_on c (x # xs) =
     (if x = c then [] # split_on c xs
      else (case split_on c xs of [] \<Rightarrow> [[x]] | f # fs \<Rightarrow> (x # f) # fs))"

fun index_of :: "'a \<Rightarrow> 'a list \<Rightarrow> nat option" where
  "index_of c [] = None"
| "index_of c (x # xs) = (if x = c then Some 0 else map_option Suc (index_of c xs))"

definition last_index_of :: "'a \<Rightarrow> 'a list \<Rightarrow> nat option" where
  "last_index_of c xs = map_option (\<lambda>i. length xs - 1 - i) (index_of c (rev xs))"

section \<open>Facts about integers\<close>

lemma go_rem_nonneg: "0 \<le> a \<Longrightarrow> 0 < b \<Longrightarrow> go_rem a b = a mod b"
  by (cases "a = 0") (auto simp: go_rem_def)

lemma go_rem_bounds: "0 < b \<Longrightarrow> - b < go_rem a b \<and> go_rem a b < b"
proof -
  assume b: "0 < b"
  then have "0 \<le> \<bar>a\<bar> mod \<bar>b\<bar>" and "\<bar>a\<bar> mod \<bar>b\<bar> < b" by auto
  with b show ?thesis by (cases "a = 0"; cases "a < 0") (auto simp: go_rem_def)
qed

lemma wrap_int64_id [simp]: "is_int64 x \<Longrightarrow> wrap_int64 x = x"
  by (simp add: wrap_int64_def is_int64_def)

lemma wrap_int64_range: "is_int64 (wrap_int64 x)"
  using pos_mod_sign [of 18446744073709551616 "x + 9223372036854775808"]
    pos_mod_bound [of 18446744073709551616 "x + 9223372036854775808"]
  by (simp add: wrap_int64_def is_int64_def)

text \<open>The limits are those of 64-bit two's complement.\<close>

lemma is_int64_iff: "is_int64 x \<longleftrightarrow> - (2 ^ 63) \<le> x \<and> x < 2 ^ 63"
  by (auto simp: is_int64_def)

section \<open>Facts about decimal strings\<close>

lemma of_char_digit_char [simp]: "d < 10 \<Longrightarrow> (of_char (digit_char d) :: nat) = 48 + d"
  by (simp add: digit_char_def)

lemma is_digit_digit_char [simp]: "d < 10 \<Longrightarrow> is_digit (digit_char d)"
  by (simp add: is_digit_def)

lemma digit_val_digit_char [simp]: "d < 10 \<Longrightarrow> digit_val (digit_char d) = d"
  by (simp add: digit_val_def)

lemma digits_val_append: "digits_val acc (xs @ ys) = digits_val (digits_val acc xs) ys"
  by (induction xs arbitrary: acc) auto

lemma show_nat_nonempty [simp]: "show_nat n \<noteq> []"
  by (subst show_nat.simps) simp

lemma show_nat_digits: "list_all is_digit (show_nat n)"
proof (induction n rule: show_nat.induct)
  case (1 n)
  show ?case
  proof (cases "n < 10")
    case True then show ?thesis by (subst show_nat.simps) simp
  next
    case False
    with 1 have "list_all is_digit (show_nat (n div 10))" by simp
    with False show ?thesis by (subst show_nat.simps) simp
  qed
qed

lemma digits_val_show_nat: "digits_val 0 (show_nat n) = n"
proof (induction n rule: show_nat.induct)
  case (1 n)
  show ?case
  proof (cases "n < 10")
    case True then show ?thesis by (subst show_nat.simps) simp
  next
    case False
    with 1 have "digits_val 0 (show_nat (n div 10)) = n div 10" by simp
    with False show ?thesis by (subst show_nat.simps) (simp add: digits_val_append)
  qed
qed

lemma show_nat_hd: "hd (show_nat n) \<noteq> CHR ''-'' \<and> hd (show_nat n) \<noteq> CHR ''+''"
proof -
  have "is_digit (hd (show_nat n))"
    using show_nat_digits [of n] by (cases "show_nat n") auto
  then show ?thesis by (auto simp: is_digit_def)
qed

lemma parse_digits_show_nat: "parse_digits (show_nat n) = Some n"
  by (simp add: parse_digits_def show_nat_digits digits_val_show_nat)

lemma show_nat_cons: "\<exists>c cs. show_nat n = c # cs \<and> c \<noteq> CHR ''-'' \<and> c \<noteq> CHR ''+''"
  using show_nat_hd [of n] by (cases "show_nat n") auto

text \<open>Printing and parsing an \<^verbatim>\<open>int64\<close> is a round trip.\<close>

lemma atoi_show_int: "is_int64 i \<Longrightarrow> atoi (show_int i) = Some i"
proof -
  assume i: "is_int64 i"
  show ?thesis
  proof (cases "i < 0")
    case True
    with i show ?thesis by (simp add: atoi_def show_int_def parse_digits_show_nat)
  next
    case False
    obtain c cs where "show_nat (nat i) = c # cs" "c \<noteq> CHR ''-''" "c \<noteq> CHR ''+''"
      using show_nat_cons by blast
    with False i parse_digits_show_nat [of "nat i"] show ?thesis
      by (simp add: atoi_def show_int_def)
  qed
qed

lemma show_int_inj: "is_int64 i \<Longrightarrow> is_int64 j \<Longrightarrow> show_int i = show_int j \<Longrightarrow> i = j"
  by (metis atoi_show_int option.inject)

section \<open>Facts about trimming\<close>

text \<open>A string that starts and ends with a printable ASCII character is not changed.\<close>

definition printable :: "char \<Rightarrow> bool" where
  "printable c \<longleftrightarrow> 33 \<le> (of_char c :: nat) \<and> (of_char c :: nat) \<le> 127"

lemma white_space_not_printable:
  "\<forall>w \<in> set white_space. w \<noteq> [] \<and> \<not> printable (hd w)"
  "\<forall>w \<in> set (map rev white_space). w \<noteq> [] \<and> \<not> printable (hd w)"
  by (simp_all add: white_space_def printable_def)

lemma trim_left_printable:
  assumes "\<forall>w \<in> set ws. w \<noteq> [] \<and> \<not> printable (hd w)" "s = [] \<or> printable (hd s)"
  shows "trim_left ws s = s"
proof -
  have "\<not> has_prefix s w" if "w \<in> set ws" "s \<noteq> []" for w
    using assms that by (cases w; cases s) auto
  then have "s \<noteq> [] \<Longrightarrow> find (has_prefix s) ws = None" by (auto simp: find_None_iff)
  then show ?thesis by (cases s) (auto simp: trim_left_def)
qed

lemma length_trim_left_fuel: "length (trim_left_fuel ws n s) \<le> length s"
  by (induction ws n s rule: trim_left_fuel.induct) (auto split: option.splits intro: le_trans)

lemma length_trim_space: "length (trim_space s) \<le> length s"
  using length_trim_left_fuel [of white_space "length s" s]
    length_trim_left_fuel [of "map rev white_space" "length (trim_left white_space s)" "rev (trim_left white_space s)"]
  by (simp add: trim_space_def trim_left_def)

lemma trim_space_printable:
  "s = [] \<or> (printable (hd s) \<and> printable (last s)) \<Longrightarrow> trim_space s = s"
  by (auto simp: trim_space_def trim_left_printable white_space_not_printable hd_rev)

lemma char_of_32: "char_of (32 :: nat) = CHR '' ''"
proof -
  have "(32 :: nat) = of_char CHR '' ''" by simp
  then show ?thesis by (simp only: char_of_char)
qed

lemma ws_blank: "find (\<lambda>w. has_prefix (CHR '' '' # s) w) white_space = Some '' ''"
proof -
  have "white_space = map (map char_of) [[9], [10], [11], [12], [13 :: nat]] @ '' '' # drop 6 white_space"
    by (simp add: white_space_def char_of_32)
  moreover have "find (\<lambda>w. has_prefix (CHR '' '' # s) w) (map (map char_of) [[9], [10], [11], [12], [13 :: nat]] @ '' '' # xs) = Some '' ''" for xs
    by simp
  ultimately show ?thesis by metis
qed

lemma trim_space_blank: "trim_space ('' '' @ s) = trim_space s"
  by (simp add: trim_space_def trim_left_def ws_blank)

section \<open>Facts about lists\<close>

lemma replicate_numeral: "replicate (numeral k) x = x # replicate (pred_numeral k) x"
  by (simp add: numeral_eq_Suc)

lemma has_prefix_iff: "has_prefix s p \<longleftrightarrow> (\<exists>r. s = p @ r)"
  by (induction s p rule: has_prefix.induct) auto

lemma has_prefix_append [simp]: "has_prefix (p @ r) p"
  by (simp add: has_prefix_iff)

lemma trim_prefix_append [simp]: "trim_prefix (p @ r) p = r"
  by (simp add: trim_prefix_def)

lemma split_on_not_Nil [simp]: "split_on c xs \<noteq> []"
  by (induction xs) (auto split: list.splits)

lemma index_of_None_iff: "index_of c xs = None \<longleftrightarrow> c \<notin> set xs"
  by (induction xs) auto

lemma index_of_append: "c \<notin> set xs \<Longrightarrow> index_of c (xs @ c # ys) = Some (length xs)"
  by (induction xs) auto

lemma last_index_of_append: "c \<notin> set ys \<Longrightarrow> last_index_of c (xs @ c # ys) = Some (length xs)"
  by (simp add: last_index_of_def index_of_append)

lemma find_Some_in: "find P xs = Some x \<Longrightarrow> x \<in> set xs \<and> P x"
  by (induction xs) (auto split: if_splits)

lemma list_all_tl: "list_all P xs \<Longrightarrow> list_all P (tl xs)"
  by (cases xs) auto

end
