(* ===== verification/GoNet.thy ===== *)
theory GoNet
  imports Prelude
begin

unbundle bit_operations_syntax

text \<open>
  The parts of Go's \<^verbatim>\<open>net\<close> package that the center calls: splitting and joining
  \<^verbatim>\<open>host:port\<close> strings, parsing textual IP addresses into 16 bytes, printing them, and the
  link-local test. Addresses are lists of sixteen bytes, an IPv4 address in its
  IPv4-mapped form, as \<^verbatim>\<open>net.ParseIP\<close> returns them.
\<close>

type_synonym byte = "8 word"
type_synonym ip = "byte list"

section \<open>Host and port\<close>

definition split_host_port :: "string \<Rightarrow> (string \<times> string) option" where
  "split_host_port hp =
     (case last_index_of CHR '':'' hp of
        None \<Rightarrow> None
      | Some i \<Rightarrow>
          (if hp ! 0 = CHR ''['' then
             (case index_of CHR '']'' hp of
                None \<Rightarrow> None
              | Some e \<Rightarrow>
                  (if e + 1 = length hp then None
                   else if e + 1 \<noteq> i then None
                   else if CHR ''['' \<in> set (drop 1 hp) then None
                   else if CHR '']'' \<in> set (drop (e + 1) hp) then None
                   else Some (take (e - 1) (drop 1 hp), drop (i + 1) hp)))
           else if CHR '':'' \<in> set (take i hp) then None
           else if CHR ''['' \<in> set hp then None
           else if CHR '']'' \<in> set hp then None
           else Some (take i hp, drop (i + 1) hp)))"

definition join_host_port :: "string \<Rightarrow> string \<Rightarrow> string" where
  "join_host_port host port =
     (if CHR '':'' \<in> set host then CHR ''['' # host @ '']:'' @ port
      else host @ '':'' @ port)"

section \<open>Parsing addresses\<close>

definition hex_val :: "char \<Rightarrow> nat option" where
  "hex_val c =
     (if is_digit c then Some (of_char c - 48)
      else if 97 \<le> (of_char c :: nat) \<and> (of_char c :: nat) \<le> 102 then Some (of_char c - 87)
      else if 65 \<le> (of_char c :: nat) \<and> (of_char c :: nat) \<le> 70 then Some (of_char c - 55)
      else None)"

text \<open>An IPv4 octet: digits only, no superfluous leading zero, at most 255.\<close>

definition parse_octet :: "string \<Rightarrow> byte option" where
  "parse_octet s =
     (case parse_digits s of
        None \<Rightarrow> None
      | Some n \<Rightarrow>
          (if n \<le> 255 \<and> (length s = 1 \<or> hd s \<noteq> CHR ''0'') then Some (word_of_nat n) else None))"

definition parse_ipv4_fields :: "string \<Rightarrow> byte list option" where
  "parse_ipv4_fields s =
     (case map parse_octet (split_on CHR ''.'' s) of
        [Some a, Some b, Some c, Some d] \<Rightarrow> Some [a, b, c, d]
      | _ \<Rightarrow> None)"

text \<open>The leading hexadecimal digits of a string with their value, and the rest.\<close>

fun hex_run :: "nat \<Rightarrow> nat \<Rightarrow> string \<Rightarrow> nat \<times> nat \<times> string" where
  "hex_run n acc [] = (n, acc, [])"
| "hex_run n acc (c # cs) =
     (case hex_val c of None \<Rightarrow> (n, acc, c # cs) | Some v \<Rightarrow> hex_run (Suc n) (acc * 16 + v) cs)"

text \<open>
  The loop of \<^verbatim>\<open>netip.parseIPv6\<close>, one iteration at a time. \<open>bs\<close> are the bytes parsed so
  far, \<open>ell\<close> the position of the \<^verbatim>\<open>::\<close>, \<open>s\<close> what is left. An iteration fails, ends the loop
  with the whole string read, or goes on with the rest. \<open>k\<close> bounds the iterations: each one
  adds two bytes and the loop stops at sixteen, so eight are enough.
\<close>

datatype v6_outcome = V6_fail | V6_done "byte list" "nat option" | V6_more "byte list" "nat option" string

definition ipv6_embedded :: "byte list \<Rightarrow> nat option \<Rightarrow> string \<Rightarrow> v6_outcome" where
  "ipv6_embedded bs ell s =
     (if ell = None \<and> length bs \<noteq> 12 then V6_fail
      else if length bs + 4 > 16 then V6_fail
      else (case parse_ipv4_fields s of None \<Rightarrow> V6_fail | Some os \<Rightarrow> V6_done (bs @ os) ell))"

definition ipv6_after_group :: "byte list \<Rightarrow> nat option \<Rightarrow> string \<Rightarrow> v6_outcome" where
  "ipv6_after_group bs ell rest =
     (if rest = [] then V6_done bs ell
      else if hd rest \<noteq> CHR '':'' \<or> tl rest = [] then V6_fail
      else if hd (tl rest) = CHR '':'' then
        (if ell \<noteq> None then V6_fail
         else if tl (tl rest) = [] then V6_done bs (Some (length bs))
         else V6_more bs (Some (length bs)) (tl (tl rest)))
      else V6_more bs ell (tl rest))"

definition ipv6_step :: "byte list \<Rightarrow> nat option \<Rightarrow> string \<Rightarrow> v6_outcome" where
  "ipv6_step bs ell s =
     (let (n, v, rest) = hex_run 0 0 s in
      if n = 0 \<or> n > 4 then V6_fail
      else if rest \<noteq> [] \<and> hd rest = CHR ''.'' then ipv6_embedded bs ell s
      else ipv6_after_group (bs @ [word_of_nat (v div 256), word_of_nat (v mod 256)]) ell rest)"

fun ipv6_loop :: "nat \<Rightarrow> byte list \<Rightarrow> nat option \<Rightarrow> string \<Rightarrow> (byte list \<times> nat option \<times> string) option" where
  "ipv6_loop 0 bs ell s = Some (bs, ell, s)"
| "ipv6_loop (Suc k) bs ell s =
     (case ipv6_step bs ell s of
        V6_fail \<Rightarrow> None
      | V6_done bs' ell' \<Rightarrow> Some (bs', ell', [])
      | V6_more bs' ell' s' \<Rightarrow> ipv6_loop k bs' ell' s')"

definition parse_ipv6 :: "string \<Rightarrow> byte list option" where
  "parse_ipv6 s =
     (let (ell0, s0) =
        (case s of c # d # r \<Rightarrow> if c = CHR '':'' \<and> d = CHR '':'' then (Some 0, r) else (None, s)
         | _ \<Rightarrow> (None, s))
      in if ell0 \<noteq> None \<and> s0 = [] then Some (replicate 16 0)
         else case ipv6_loop 8 [] ell0 s0 of
           None \<Rightarrow> None
         | Some (bs, ell, rest) \<Rightarrow>
             (if rest \<noteq> [] then None
              else if length bs < 16 then
                (case ell of
                   None \<Rightarrow> None
                 | Some e \<Rightarrow> Some (take e bs @ replicate (16 - length bs) 0 @ drop e bs))
              else if ell \<noteq> None then None
              else Some bs))"

definition ipv4_mapped :: "byte list \<Rightarrow> ip" where
  "ipv4_mapped os = replicate 10 0 @ [255, 255] @ os"

text \<open>\<^verbatim>\<open>net.ParseIP\<close>: the first of the characters \<^verbatim>\<open>.\<close>, \<^verbatim>\<open>:\<close>, \<^verbatim>\<open>%\<close> decides the family, and an
  address with a zone is refused.\<close>

definition parse_ip :: "string \<Rightarrow> ip option" where
  "parse_ip s =
     (case find (\<lambda>c. c = CHR ''.'' \<or> c = CHR '':'' \<or> c = CHR ''%'') s of
        None \<Rightarrow> None
      | Some c \<Rightarrow>
          (if c = CHR ''.'' then map_option ipv4_mapped (parse_ipv4_fields s)
           else if c = CHR ''%'' then None
           else if CHR ''%'' \<in> set s then None
           else parse_ipv6 s))"

section \<open>Classification and printing\<close>

definition is_ipv4 :: "ip \<Rightarrow> bool" where
  "is_ipv4 b \<longleftrightarrow> take 12 b = replicate 10 0 @ [255, 255]"

text \<open>\<^verbatim>\<open>IP.IsLinkLocalUnicast\<close>: \<^verbatim>\<open>169.254/16\<close> for IPv4 and \<^verbatim>\<open>fe80::/10\<close> for IPv6.\<close>

definition is_link_local_unicast :: "ip \<Rightarrow> bool" where
  "is_link_local_unicast b =
     (if is_ipv4 b then b ! 12 = 169 \<and> b ! 13 = 254
      else b ! 0 = 254 \<and> (b ! 1 AND 192) = 128)"

definition hex_char :: "nat \<Rightarrow> char" where
  "hex_char d = (if d < 10 then char_of (48 + d) else char_of (87 + d))"

fun show_hex :: "nat \<Rightarrow> string" where
  "show_hex n = (if n < 16 then [hex_char n] else show_hex (n div 16) @ [hex_char (n mod 16)])"

declare show_hex.simps [simp del]

fun ip_groups :: "byte list \<Rightarrow> nat list" where
  "ip_groups (a # b # r) = (unat a * 256 + unat b) # ip_groups r"
| "ip_groups _ = []"

text \<open>The first longest run of at least two zero groups: its start and end.\<close>

definition zero_run :: "nat list \<Rightarrow> nat \<Rightarrow> nat" where
  "zero_run gs i = length (takeWhile (\<lambda>g. g = 0) (drop i gs))"

fun best_zero_run :: "nat list \<Rightarrow> nat list \<Rightarrow> nat \<times> nat \<Rightarrow> nat \<times> nat" where
  "best_zero_run gs [] best = best"
| "best_zero_run gs (i # is) (b, l) =
     (let n = zero_run gs i in
      if 2 \<le> n \<and> l < n then best_zero_run gs is (i, n) else best_zero_run gs is (b, l))"

fun join_with :: "string \<Rightarrow> string list \<Rightarrow> string" where
  "join_with sep [] = []"
| "join_with sep [x] = x"
| "join_with sep (x # y # r) = x @ sep @ join_with sep (y # r)"

definition ip_string :: "ip \<Rightarrow> string" where
  "ip_string b =
     (if is_ipv4 b then join_with ''.'' (map (\<lambda>o8. show_nat (unat o8)) (drop 12 b))
      else
        (let gs = ip_groups b; (z, l) = best_zero_run gs [0..<8] (0, 0)
         in if l = 0 then join_with '':'' (map show_hex gs)
            else join_with '':'' (map show_hex (take z gs)) @ ''::''
                 @ join_with '':'' (map show_hex (drop (z + l) gs))))"

section \<open>Networks\<close>

text \<open>\<^verbatim>\<open>net.ParseCIDR\<close> and \<^verbatim>\<open>IPNet.Contains\<close>. An IPv4 network is four bytes long, an IPv6 one sixteen; an
  address that maps an IPv4 one is compared as IPv4.\<close>

record ip_net =
  net_ip :: "byte list"
  net_mask :: "byte list"

definition to4 :: "byte list \<Rightarrow> byte list option" where
  "to4 b = (if length b = 4 then Some b else if length b = 16 \<and> is_ipv4 b then Some (drop 12 b) else None)"

definition cidr_mask :: "nat \<Rightarrow> nat \<Rightarrow> byte list" where
  "cidr_mask ones len = map (\<lambda>i. let k = min 8 (ones - 8 * i) in of_nat (256 - 2 ^ (8 - k))) [0..<len]"

definition parse_cidr :: "string \<Rightarrow> ip_net option" where
  "parse_cidr s =
     (case index_of CHR ''/'' s of
        None \<Rightarrow> None
      | Some i \<Rightarrow>
          (let addr = take i s; v4 = (CHR '':'' \<notin> set addr); len = (if v4 then 4 else 16) in
           case (parse_ip addr, parse_digits (drop (i + 1) s)) of
             (Some b, Some n) \<Rightarrow>
               (if n > 8 * len then None
                else (let m = cidr_mask n len in
                      Some \<lparr>net_ip = map2 (\<lambda>x y. x AND y) (drop (16 - len) b) m, net_mask = m\<rparr>))
           | _ \<Rightarrow> None))"

definition net_contains :: "ip_net \<Rightarrow> ip \<Rightarrow> bool" where
  "net_contains n b =
     (let nn = (case to4 (net_ip n) of Some x \<Rightarrow> x | None \<Rightarrow> net_ip n);
          m = (if length nn = 4 \<and> length (net_mask n) = 16 then drop 12 (net_mask n) else net_mask n);
          b' = (case to4 b of Some x \<Rightarrow> x | None \<Rightarrow> b) in
      length b' = length nn \<and> list_all (\<lambda>(x, y, k). (x AND k) = (y AND k)) (zip nn (zip b' m)))"

section \<open>Facts\<close>

lemma split_host_port_no_colon: "CHR '':'' \<notin> set s \<Longrightarrow> split_host_port s = None"
  by (simp add: split_host_port_def last_index_of_def index_of_None_iff [THEN iffD2])

text \<open>Joining and splitting is a round trip for hosts without brackets and ports without
  colons or brackets.\<close>

lemma split_join_plain:
  assumes "CHR '':'' \<notin> set h" "CHR ''['' \<notin> set h" "CHR '']'' \<notin> set h"
    and "CHR '':'' \<notin> set p" "CHR ''['' \<notin> set p" "CHR '']'' \<notin> set p"
  shows "split_host_port (h @ CHR '':'' # p) = Some (h, p)"
proof -
  have li: "last_index_of CHR '':'' (h @ CHR '':'' # p) = Some (length h)"
    using assms by (simp add: last_index_of_append)
  have h0: "(h @ CHR '':'' # p) ! 0 \<noteq> CHR ''[''"
    using assms by (cases h) auto
  show ?thesis using assms by (simp add: split_host_port_def li h0)
qed

lemma split_join_bracketed:
  assumes "CHR ''['' \<notin> set h" "CHR '']'' \<notin> set h"
    and "CHR '':'' \<notin> set p" "CHR ''['' \<notin> set p" "CHR '']'' \<notin> set p"
  shows "split_host_port (CHR ''['' # h @ CHR '']'' # CHR '':'' # p) = Some (h, p)"
proof -
  let ?s = "CHR ''['' # h @ CHR '']'' # CHR '':'' # p"
  have li: "last_index_of CHR '':'' ?s = Some (length h + 2)"
    using assms last_index_of_append [of "CHR '':''" p "CHR ''['' # h @ [CHR '']'']"] by simp
  have ix: "index_of CHR '']'' ?s = Some (length h + 1)"
    using assms index_of_append [of "CHR '']''" "CHR ''['' # h" "CHR '':'' # p"] by simp
  show ?thesis using assms unfolding split_host_port_def li ix by simp
qed

lemma split_join_host_port:
  assumes "CHR ''['' \<notin> set h" "CHR '']'' \<notin> set h"
    and "CHR '':'' \<notin> set p" "CHR ''['' \<notin> set p" "CHR '']'' \<notin> set p"
  shows "split_host_port (join_host_port h p) = Some (h, p)"
  using assms split_join_plain [of h p] split_join_bracketed [of h p]
  by (simp add: join_host_port_def)

lemma ipv6_loop_numeral [simp]:
  "ipv6_loop (numeral k) bs ell s =
     (case ipv6_step bs ell s of
        V6_fail \<Rightarrow> None
      | V6_done bs' ell' \<Rightarrow> Some (bs', ell', [])
      | V6_more bs' ell' s' \<Rightarrow> ipv6_loop (pred_numeral k) bs' ell' s')"
  by (simp add: numeral_eq_Suc)

lemmas parse_ip_eval = parse_ip_def parse_ipv4_fields_def parse_octet_def parse_digits_def is_digit_def
  digit_val_def parse_ipv6_def ipv6_step_def ipv6_after_group_def ipv6_embedded_def hex_val_def ipv4_mapped_def
  is_ipv4_def is_link_local_unicast_def replicate_numeral

lemma parse_ipv4_fields_length: "parse_ipv4_fields s = Some os \<Longrightarrow> length os = 4"
  by (auto simp: parse_ipv4_fields_def split: list.splits option.splits)

definition v6_ok :: "byte list \<Rightarrow> nat option \<Rightarrow> bool" where
  "v6_ok bs ell \<longleftrightarrow> length bs \<le> 16 \<and> (case ell of None \<Rightarrow> True | Some e \<Rightarrow> e \<le> length bs)"

lemma ipv6_embedded_ok:
  "ipv6_embedded bs ell s = V6_done bs' ell' \<Longrightarrow> v6_ok bs ell \<Longrightarrow> v6_ok bs' ell'"
  by (auto simp: ipv6_embedded_def v6_ok_def dest: parse_ipv4_fields_length
      split: if_splits option.splits)

lemma ipv6_embedded_no_more: "ipv6_embedded bs ell s \<noteq> V6_more bs' ell' s'"
  by (auto simp: ipv6_embedded_def split: if_splits option.splits)

lemma ipv6_after_group_ok:
  "ipv6_after_group bs ell s = V6_done bs' ell' \<Longrightarrow> v6_ok bs ell \<Longrightarrow> v6_ok bs' ell'"
  "ipv6_after_group bs ell s = V6_more bs' ell' s' \<Longrightarrow> v6_ok bs ell \<Longrightarrow> v6_ok bs' ell' \<and> bs' = bs"
  by (auto simp: ipv6_after_group_def v6_ok_def split: if_splits)

lemma v6_ok_group: "v6_ok bs ell \<Longrightarrow> length bs \<le> 14 \<Longrightarrow> v6_ok (bs @ [a, b]) ell"
  by (auto simp: v6_ok_def split: option.splits)

lemma ipv6_step_done_ok:
  "ipv6_step bs ell s = V6_done bs' ell' \<Longrightarrow> v6_ok bs ell \<Longrightarrow> length bs + 2 \<le> 16 \<Longrightarrow> v6_ok bs' ell'"
  by (auto simp: ipv6_step_def split: prod.splits if_splits
      dest: ipv6_after_group_ok(1) intro: ipv6_embedded_ok v6_ok_group)

lemma ipv6_step_more_ok:
  "ipv6_step bs ell s = V6_more bs' ell' s' \<Longrightarrow> v6_ok bs ell \<Longrightarrow> length bs + 2 \<le> 16 \<Longrightarrow>
   v6_ok bs' ell' \<and> length bs' = length bs + 2"
  by (auto simp: ipv6_step_def ipv6_embedded_no_more split: prod.splits if_splits
      dest!: ipv6_after_group_ok(2) intro: v6_ok_group)

lemma ipv6_loop_ok:
  "ipv6_loop k bs ell s = Some (bs', ell', r) \<Longrightarrow> v6_ok bs ell \<Longrightarrow> length bs + 2 * k \<le> 16 \<Longrightarrow>
   v6_ok bs' ell'"
  by (induction k arbitrary: bs ell s)
    (auto split: v6_outcome.splits dest: ipv6_step_done_ok ipv6_step_more_ok)

lemma parse_ipv6_length: "parse_ipv6 s = Some b \<Longrightarrow> length b = 16"
proof -
  assume p: "parse_ipv6 s = Some b"
  define r where "r = (case s of c # d # r \<Rightarrow> if c = CHR '':'' \<and> d = CHR '':'' then (Some 0, r) else (None, s)
         | _ \<Rightarrow> (None :: nat option, s))"
  obtain ell0 s0 where r: "r = (ell0, s0)" by (cases r)
  have e0: "v6_ok [] ell0"
    using r by (auto simp: r_def v6_ok_def split: list.splits if_splits)
  show ?thesis
  proof (cases "ell0 \<noteq> None \<and> s0 = []")
    case True
    with p r show ?thesis by (auto simp: parse_ipv6_def r_def [symmetric])
  next
    case False
    with p r obtain bs ell rest where l: "ipv6_loop 8 [] ell0 s0 = Some (bs, ell, rest)"
      by (auto simp: parse_ipv6_def r_def [symmetric] split: option.splits)
    have "v6_ok bs ell" using ipv6_loop_ok [OF l e0] by simp
    with p r l False show ?thesis
      by (auto simp: parse_ipv6_def r_def [symmetric] v6_ok_def split: if_splits option.splits)
  qed
qed

lemma parse_ip_length: "parse_ip s = Some b \<Longrightarrow> length b = 16"
  by (auto simp: parse_ip_def ipv4_mapped_def dest: parse_ipv4_fields_length parse_ipv6_length
      split: option.splits if_splits)

end
