(* ===== verification/Peering.thy ===== *)
theory Peering
  imports GoNet
begin

text \<open>
  \<^verbatim>\<open>internal/peering\<close>: interface naming, listen-port allocation, validation of the fields of
  a peering request, pre-shared key generation and \<^verbatim>\<open>BuildPendingPeer\<close>, with the peer
  record of \<^verbatim>\<open>internal/model\<close> and the copies of the validators in \<^verbatim>\<open>internal/handler\<close> and
  \<^verbatim>\<open>internal/ws\<close>.
\<close>

section \<open>The peer record\<close>

text \<open>Timestamps are milliseconds since the epoch; \<^verbatim>\<open>nil\<close> pointers are \<open>None\<close>.\<close>

record peer =
  ID :: string
  NodeID :: string
  RemoteASN :: int
  RemotePubkey :: string
  RemoteEndpoint :: string
  RemoteLLA :: string
  ContactEmail :: string
  WgListenPort :: int
  WgInterfaceName :: string
  BgpProtoName :: string
  BirdConfigFilename :: string
  WgManaged :: bool
  MTU :: "int option"
  WgPreSharedKey :: "string option"
  Status :: string
  RejectReason :: "string option"
  EndpointMismatchSince :: "int option"
  BGPSuspendedByEndpoint :: bool
  LastActiveAt :: "int option"
  InactivityWarningStage :: int
  CreatedAt :: int
  UpdatedAt :: int

text \<open>The zero value of the struct.\<close>

definition zero_peer :: peer where
  "zero_peer = \<lparr>ID = [], NodeID = [], RemoteASN = 0, RemotePubkey = [], RemoteEndpoint = [],
     RemoteLLA = [], ContactEmail = [], WgListenPort = 0, WgInterfaceName = [], BgpProtoName = [],
     BirdConfigFilename = [], WgManaged = False, MTU = None, WgPreSharedKey = None, Status = [],
     RejectReason = None, EndpointMismatchSince = None, BGPSuspendedByEndpoint = False,
     LastActiveAt = None, InactivityWarningStage = 0, CreatedAt = 0, UpdatedAt = 0\<rparr>"

section \<open>Interface name and port\<close>

definition DefaultWgPortPrefix :: int where
  "DefaultWgPortPrefix = 5"

definition WgInterfaceName_of :: "int \<Rightarrow> string" where
  "WgInterfaceName_of asn = ''dn42'' @ show_int asn"

definition WgPort :: "int \<Rightarrow> int \<Rightarrow> int" where
  "WgPort asn portPrefix =
     (let portPrefix' = (if portPrefix = 0 then DefaultWgPortPrefix else portPrefix)
      in wrap_int64 (wrap_int64 (portPrefix' * 10000) + go_rem asn 10000))"

section \<open>Validation\<close>

text \<open>A failed validation carries its message; the only other error is the failed key generation.\<close>

datatype validation_error = ValidationError string | GenerateError string

type_synonym 'a checked = "validation_error + 'a"

definition is_base64_char :: "char \<Rightarrow> bool" where
  "is_base64_char c \<longleftrightarrow> is_alnum c \<or> c = CHR ''+'' \<or> c = CHR ''/''"

text \<open>\<^verbatim>\<open>^[A-Za-z0-9+/]+=*$\<close>\<close>

definition base64Re :: "string \<Rightarrow> bool" where
  "base64Re s \<longleftrightarrow> takeWhile is_base64_char s \<noteq> [] \<and> list_all (\<lambda>c. c = CHR ''='') (dropWhile is_base64_char s)"

text \<open>One label of \<^verbatim>\<open>hostnameRe\<close>: one to 63 letters, digits or hyphens, no hyphen at either end. The three variables of the
  source for host names (\<^verbatim>\<open>peering/peering.go\<close>, \<^verbatim>\<open>handler/peer.go\<close>, \<^verbatim>\<open>ws/bot_peer_handler.go\<close>) hold the same pattern and are one
  definition here, as are those for base64.\<close>

definition hostname_label :: "string \<Rightarrow> bool" where
  "hostname_label s \<longleftrightarrow> s \<noteq> [] \<and> length s \<le> 63 \<and> is_alnum (hd s) \<and> is_alnum (last s)
     \<and> list_all (\<lambda>c. is_alnum c \<or> c = CHR ''-'') s"

definition hostnameRe :: "string \<Rightarrow> bool" where
  "hostnameRe s \<longleftrightarrow> list_all hostname_label (split_on CHR ''.'' s)"

definition ValidatePubkey :: "string \<Rightarrow> unit checked" where
  "ValidatePubkey pubkey =
     (if \<not> base64Re pubkey \<or> length pubkey < 40
      then Inl (ValidationError ''Invalid WireGuard public key (must be Base64)'')
      else Inr ())"

definition ValidateEndpoint :: "string \<Rightarrow> unit checked" where
  "ValidateEndpoint ep =
     (let err = Inl (ValidationError ''Invalid endpoint (format: IP:Port or [IPv6]:Port)'') in
      case split_host_port ep of
        None \<Rightarrow> err
      | Some (host, portStr) \<Rightarrow>
          (case atoi portStr of
             None \<Rightarrow> err
           | Some port \<Rightarrow>
               (if port < 1 \<or> port > 65535 then err
                else if parse_ip host = None \<and> \<not> hostnameRe host then err
                else Inr ())))"

definition ValidateLLA :: "string \<Rightarrow> unit checked" where
  "ValidateLLA lla =
     (case parse_ip lla of
        None \<Rightarrow> Inl (ValidationError ''Invalid link-local address (must be fe80::/10)'')
      | Some b \<Rightarrow>
          (if \<not> is_link_local_unicast b
           then Inl (ValidationError ''Invalid link-local address (must be fe80::/10)'')
           else Inr ()))"

definition ValidateMTU :: "int option \<Rightarrow> unit checked" where
  "ValidateMTU mtu =
     (case mtu of
        None \<Rightarrow> Inr ()
      | Some m \<Rightarrow>
          (if m < 576 \<or> m > 9000 then Inl (ValidationError ''MTU must be between 576 and 9000'')
           else Inr ()))"

text \<open>The bool-valued copies in \<^verbatim>\<open>internal/handler/peer.go\<close> and \<^verbatim>\<open>internal/ws/bot_peer_handler.go\<close>.\<close>

definition validateEndpoint :: "string \<Rightarrow> bool" where
  "validateEndpoint ep =
     (case split_host_port ep of
        None \<Rightarrow> False
      | Some (hostStr, portStr) \<Rightarrow>
          (case atoi portStr of
             None \<Rightarrow> False
           | Some port \<Rightarrow>
               (if port < 1 \<or> port > 65535 then False
                else if parse_ip hostStr \<noteq> None then True
                else hostnameRe hostStr)))"

definition validateLLA :: "string \<Rightarrow> bool" where
  "validateLLA lla = (case parse_ip lla of None \<Rightarrow> False | Some b \<Rightarrow> is_link_local_unicast b)"

definition botValidateEndpoint :: "string \<Rightarrow> bool" where
  "botValidateEndpoint ep =
     (case split_host_port ep of
        None \<Rightarrow> False
      | Some (hostStr, portStr) \<Rightarrow>
          (case atoi portStr of
             None \<Rightarrow> False
           | Some port \<Rightarrow>
               (if port < 1 \<or> port > 65535 then False
                else if parse_ip hostStr \<noteq> None then True
                else hostnameRe hostStr)))"

definition botValidateLLA :: "string \<Rightarrow> bool" where
  "botValidateLLA lla = (case parse_ip lla of None \<Rightarrow> False | Some b \<Rightarrow> is_link_local_unicast b)"

section \<open>Pre-shared keys\<close>

text \<open>\<^verbatim>\<open>base64.StdEncoding\<close>: three bytes become four characters, the last group is padded.\<close>

definition b64_char :: "nat \<Rightarrow> char" where
  "b64_char n =
     (if n < 26 then char_of (65 + n)
      else if n < 52 then char_of (71 + n)
      else if n < 62 then char_of (n - 4)
      else if n = 62 then CHR ''+'' else CHR ''/'')"

fun b64_encode :: "byte list \<Rightarrow> string" where
  "b64_encode [] = []"
| "b64_encode [a] =
     (let n = unat a * 65536 in
      [b64_char (n div 262144), b64_char (n div 4096 mod 64), CHR ''='', CHR ''=''])"
| "b64_encode [a, b] =
     (let n = unat a * 65536 + unat b * 256 in
      [b64_char (n div 262144), b64_char (n div 4096 mod 64), b64_char (n div 64 mod 64), CHR ''=''])"
| "b64_encode (a # b # c # r) =
     (let n = unat a * 65536 + unat b * 256 + unat c in
      [b64_char (n div 262144), b64_char (n div 4096 mod 64), b64_char (n div 64 mod 64), b64_char (n mod 64)]
      @ b64_encode r)"

definition b64_val :: "char \<Rightarrow> nat option" where
  "b64_val c =
     (if is_upper c then Some (of_char c - 65)
      else if is_lower c then Some (of_char c - 71)
      else if is_digit c then Some (of_char c + 4)
      else if c = CHR ''+'' then Some 62
      else if c = CHR ''/'' then Some 63
      else None)"

fun b64_decode :: "string \<Rightarrow> byte list option" where
  "b64_decode [] = Some []"
| "b64_decode (p # q # r # s # rest) =
     (case (b64_val p, b64_val q) of
        (Some vp, Some vq) \<Rightarrow>
          (if r = CHR ''='' then
             (if s = CHR ''='' \<and> rest = [] then Some [word_of_nat ((vp * 64 + vq) div 16)] else None)
           else (case b64_val r of
                   None \<Rightarrow> None
                 | Some vr \<Rightarrow>
                     (let m = vp * 4096 + vq * 64 + vr in
                      if s = CHR ''='' then
                        (if rest = [] then Some [word_of_nat (m div 1024), word_of_nat (m div 4 mod 256)] else None)
                      else (case b64_val s of
                              None \<Rightarrow> None
                            | Some vs \<Rightarrow>
                                (let n = m * 64 + vs in
                                 map_option (\<lambda>t. word_of_nat (n div 65536) # word_of_nat (n div 256 mod 256)
                                                 # word_of_nat (n mod 256) # t) (b64_decode rest))))))
      | _ \<Rightarrow> None)"
| "b64_decode _ = None"

text \<open>\<^verbatim>\<open>crypto/rand\<close> gives the 32 bytes or an error (\<open>None\<close>).\<close>

definition GeneratePSK :: "byte list option \<Rightarrow> string option" where
  "GeneratePSK rnd = map_option b64_encode rnd"

section \<open>Building a pending peer\<close>

record peering_input =
  in_ASN :: int
  in_NodeID :: string
  in_PortPrefix :: int
  in_Pubkey :: string
  in_Endpoint :: string
  in_LLA :: string
  in_MTU :: "int option"
  in_EnablePSK :: bool

definition BuildPendingPeer :: "byte list option \<Rightarrow> peering_input \<Rightarrow> peer checked" where
  "BuildPendingPeer rnd i =
     (if in_NodeID i = [] then Inl (ValidationError ''node_id is required'')
      else case ValidatePubkey (in_Pubkey i) of Inl e \<Rightarrow> Inl e | Inr _ \<Rightarrow>
      (case ValidateEndpoint (in_Endpoint i) of Inl e \<Rightarrow> Inl e | Inr _ \<Rightarrow>
      (case ValidateLLA (in_LLA i) of Inl e \<Rightarrow> Inl e | Inr _ \<Rightarrow>
      (case ValidateMTU (in_MTU i) of Inl e \<Rightarrow> Inl e | Inr _ \<Rightarrow>
      (case (if in_EnablePSK i then map_option Some (GeneratePSK rnd) else Some None) of
         None \<Rightarrow> Inl (GenerateError ''generate preshared key'')
       | Some psk \<Rightarrow>
           Inr (zero_peer\<lparr>
             NodeID := in_NodeID i,
             RemoteASN := in_ASN i,
             RemotePubkey := in_Pubkey i,
             RemoteEndpoint := in_Endpoint i,
             RemoteLLA := in_LLA i,
             WgListenPort := WgPort (in_ASN i) (in_PortPrefix i),
             WgInterfaceName := WgInterfaceName_of (in_ASN i),
             MTU := in_MTU i,
             WgPreSharedKey := psk,
             WgManaged := True,
             Status := ''pending''\<rparr>))))))"

text \<open>What every accepted configuration satisfies: the four validators hold of its fields.\<close>

definition valid_config :: "peer \<Rightarrow> bool" where
  "valid_config p \<longleftrightarrow>
     ValidatePubkey (RemotePubkey p) = Inr () \<and> ValidateEndpoint (RemoteEndpoint p) = Inr ()
     \<and> ValidateLLA (RemoteLLA p) = Inr () \<and> ValidateMTU (MTU p) = Inr ()"

section \<open>Facts about the validators\<close>

lemma checked_unit_iff: "(r :: unit checked) = Inr () \<longleftrightarrow> (\<forall>e. r \<noteq> Inl e)"
  by (cases r) auto

lemma ValidatePubkey_iff: "ValidatePubkey k = Inr () \<longleftrightarrow> base64Re k \<and> 40 \<le> length k"
  by (auto simp: ValidatePubkey_def)

lemma ValidateEndpoint_iff:
  "ValidateEndpoint ep = Inr () \<longleftrightarrow>
     (\<exists>host ps port. split_host_port ep = Some (host, ps) \<and> atoi ps = Some port \<and> 1 \<le> port \<and> port \<le> 65535
        \<and> (parse_ip host \<noteq> None \<or> hostnameRe host))"
  by (auto simp: ValidateEndpoint_def Let_def split: option.splits if_splits)

lemma ValidateLLA_iff:
  "ValidateLLA l = Inr () \<longleftrightarrow> (\<exists>b. parse_ip l = Some b \<and> is_link_local_unicast b)"
  by (auto simp: ValidateLLA_def split: option.splits if_splits)

lemma ValidateMTU_iff: "ValidateMTU m = Inr () \<longleftrightarrow> (\<forall>v. m = Some v \<longrightarrow> 576 \<le> v \<and> v \<le> 9000)"
  by (auto simp: ValidateMTU_def split: option.splits)

lemma ValidateEndpoint_bool: "validateEndpoint ep \<longleftrightarrow> ValidateEndpoint ep = Inr ()"
  by (auto simp: ValidateEndpoint_def validateEndpoint_def Let_def split: option.splits)

lemma ValidateLLA_bool: "validateLLA l \<longleftrightarrow> ValidateLLA l = Inr ()"
  by (auto simp: ValidateLLA_def validateLLA_def split: option.splits)

lemma botValidateEndpoint_eq: "botValidateEndpoint = validateEndpoint"
  by (simp add: fun_eq_iff botValidateEndpoint_def validateEndpoint_def)

lemma botValidateLLA_eq: "botValidateLLA = validateLLA"
  by (simp add: fun_eq_iff botValidateLLA_def validateLLA_def)

lemmas validator_bools = ValidateEndpoint_bool ValidateLLA_bool botValidateEndpoint_eq botValidateLLA_eq

lemmas host_eval = base64Re_def is_base64_char_def is_alnum_def is_digit_def is_lower_def is_upper_def
  split_host_port_def last_index_of_def atoi_def parse_digits_def digit_val_def is_int64_def

section \<open>Facts about base64\<close>

lemma of_char_small: "k < 256 \<Longrightarrow> (of_char (char_of (k :: nat)) :: nat) = k"
  by simp

lemma char_eq_of_char: "c = d \<longleftrightarrow> (of_char c :: nat) = of_char d"
  by simp

lemma b64_char_props:
  assumes "n < 64"
  shows "b64_val (b64_char n) = Some n \<and> b64_char n \<noteq> CHR ''='' \<and> is_base64_char (b64_char n)"
proof -
  consider "n < 26" | "26 \<le> n" "n < 52" | "52 \<le> n" "n < 62" | "n = 62" | "n = 63" using assms by linarith
  then show ?thesis
  proof cases
    case 1
    then have c: "(of_char (b64_char n) :: nat) = 65 + n" by (simp add: b64_char_def of_char_small)
    with 1 show ?thesis
      by (auto simp: b64_val_def is_base64_char_def is_alnum_def is_upper_def char_eq_of_char)
  next
    case 2
    then have c: "(of_char (b64_char n) :: nat) = 71 + n" by (simp add: b64_char_def of_char_small)
    with 2 show ?thesis
      by (auto simp: b64_val_def is_base64_char_def is_alnum_def is_upper_def is_lower_def char_eq_of_char)
  next
    case 3
    then have c: "(of_char (b64_char n) :: nat) = n - 4" by (simp add: b64_char_def of_char_small)
    with 3 show ?thesis
      by (auto simp: b64_val_def is_base64_char_def is_alnum_def is_upper_def is_lower_def is_digit_def char_eq_of_char)
  qed (simp_all add: b64_char_def b64_val_def is_base64_char_def is_upper_def is_lower_def is_digit_def)
qed

lemma unat_byte: "unat (a :: byte) < 256"
  using unsigned_less [of a] by simp

lemma word_of_unat [simp]: "word_of_nat (unat (a :: byte)) = a"
  by simp

lemma b64_hi: "n div 262144 * 64 + n div 4096 mod 64 = n div (4096 :: nat)"
  using div_mult_mod_eq [of "n div 4096" 64] by (simp add: div_mult2_eq [symmetric])

lemma b64_mid: "n div 262144 * 4096 + n div 4096 mod 64 * 64 + n div 64 mod 64 = n div (64 :: nat)"
proof -
  have "n div 4096 * 64 + n div 64 mod 64 = n div 64"
    using div_mult_mod_eq [of "n div 64" 64] by (simp add: div_mult2_eq [symmetric])
  moreover have "x * 4096 + y * 64 + z = (x * 64 + y) * 64 + z" for x y z :: nat by simp
  ultimately show ?thesis using b64_hi [of n] by metis
qed

lemma b64_div_small: "(a :: nat) < 256 \<Longrightarrow> b < 256 \<Longrightarrow> c < 256 \<Longrightarrow> (a * 65536 + b * 256 + c) div 262144 < 64"
  by (simp add: div_less_iff_less_mult)

lemma b64_bytes2:
  "a < 256 \<Longrightarrow> b < 256 \<Longrightarrow> (a * 1024 + b * 4) div 1024 = a \<and> (a * 1024 + b * 4) div 4 mod 256 = (b :: nat)"
proof -
  assume "a < 256" "b < 256"
  then have "(a * 1024 + b * 4) div 1024 = a" "(a * 1024 + b * 4) div 4 = a * 256 + b"
    by (auto intro!: div_nat_eqI)
  with \<open>b < 256\<close> show ?thesis by simp
qed

lemma b64_bytes3:
  "a < 256 \<Longrightarrow> b < 256 \<Longrightarrow> c < 256 \<Longrightarrow> (a * 65536 + b * 256 + c) div 65536 = a
     \<and> (a * 65536 + b * 256 + c) div 256 mod 256 = b \<and> (a * 65536 + b * 256 + c) mod 256 = (c :: nat)"
proof -
  assume l: "a < 256" "b < 256" "c < 256"
  then have d: "(a * 65536 + b * 256 + c) div 65536 = a" "(a * 65536 + b * 256 + c) div 256 = a * 256 + b"
    by (auto intro!: div_nat_eqI)
  have "(a * 65536 + b * 256 + c) mod 256 = ((a * 256 + b) * 256 + c) mod 256"
    by (simp add: mult.commute)
  also have "\<dots> = c" using l(3) by (simp only: mod_mult_self3 mod_less)
  finally show ?thesis using d l(2) by simp
qed

lemma b64_decode_group:
  assumes "x < 64" "y < 64" "z < 64" "t < 64"
  shows "b64_decode [b64_char x, b64_char y, CHR ''='', CHR ''=''] = Some [word_of_nat ((x * 64 + y) div 16)]"
    and "b64_decode [b64_char x, b64_char y, b64_char z, CHR ''='']
       = (let m = x * 4096 + y * 64 + z in Some [word_of_nat (m div 1024), word_of_nat (m div 4 mod 256)])"
    and "b64_decode (b64_char x # b64_char y # b64_char z # b64_char t # rest)
       = (let n = (x * 4096 + y * 64 + z) * 64 + t in
          map_option (\<lambda>r. word_of_nat (n div 65536) # word_of_nat (n div 256 mod 256) # word_of_nat (n mod 256) # r)
            (b64_decode rest))"
  using assms [THEN b64_char_props] by (simp_all add: Let_def)

lemma b64_decode_encode: "b64_decode (b64_encode bs) = Some bs"
proof (induction bs rule: b64_encode.induct)
  case 1
  show ?case by simp
next
  case (2 a)
  have d: "unat a * 65536 div 262144 < 64" "unat a * 65536 div 4096 mod 64 < 64"
    using b64_div_small [of "unat a" 0 0] unat_byte [of a] by simp_all
  show ?case
    unfolding b64_encode.simps Let_def b64_decode_group(1) [OF d d] b64_hi by simp
next
  case (3 a b)
  let ?n = "unat a * 65536 + unat b * 256"
  have d: "?n div 262144 < 64" "?n div 4096 mod 64 < 64" "?n div 64 mod 64 < 64"
    using b64_div_small [of "unat a" "unat b" 0] unat_byte [of a] unat_byte [of b] by simp_all
  have m: "?n div 64 = unat a * 1024 + unat b * 4" by simp
  show ?case
    unfolding b64_encode.simps Let_def b64_decode_group(2) [OF d d(3)] b64_mid
    unfolding m using b64_bytes2 [OF unat_byte unat_byte, of a b] by simp
next
  case (4 a b c r)
  let ?n = "unat a * 65536 + unat b * 256 + unat c"
  have d: "?n div 262144 < 64" "?n div 4096 mod 64 < 64" "?n div 64 mod 64 < 64" "?n mod 64 < 64"
    using b64_div_small [OF unat_byte unat_byte unat_byte, of a b c] by simp_all
  show ?case
    unfolding b64_encode.simps Let_def append.simps b64_decode_group(3) [OF d] b64_mid div_mult_mod_eq
    using b64_bytes3 [OF unat_byte unat_byte unat_byte, of a b c] 4 by simp
qed

lemma length_b64_encode: "length (b64_encode bs) = 4 * ((length bs + 2) div 3)"
proof (induction bs rule: b64_encode.induct)
  case (4 a b c r)
  have "(5 + length r) div 3 = Suc ((length r + 2) div 3)" using div_add_self2 [of 3 "length r + 2"] by simp
  with 4 show ?case by (simp add: Let_def)
qed (simp_all add: Let_def)

lemma list_all_base64: "list_all is_base64_char xs \<Longrightarrow> xs \<noteq> [] \<Longrightarrow> list_all (\<lambda>c. c = CHR ''='') ys \<Longrightarrow> base64Re (xs @ ys)"
proof -
  assume x: "list_all is_base64_char xs" "xs \<noteq> []" and y: "list_all (\<lambda>c. c = CHR ''='') ys"
  have e: "\<not> is_base64_char CHR ''=''" by code_simp
  have "takeWhile is_base64_char (xs @ ys) = xs" "dropWhile is_base64_char (xs @ ys) = ys"
    using x y e by (cases ys; simp add: list_all_iff)+
  with x y show ?thesis by (simp add: base64Re_def)
qed

lemma b64_encode_shape:
  "\<exists>xs ys. b64_encode bs = xs @ ys \<and> list_all is_base64_char xs \<and> list_all (\<lambda>c. c = CHR ''='') ys
     \<and> (bs \<noteq> [] \<longrightarrow> xs \<noteq> [])"
proof (induction bs rule: b64_encode.induct)
  case 1
  then show ?case by simp
next
  case (2 a)
  have d: "unat a * 65536 div 262144 < 64" using b64_div_small [of "unat a" 0 0] unat_byte [of a] by simp
  show ?case
    by (rule exI [of _ "take 2 (b64_encode [a])"], rule exI [of _ "drop 2 (b64_encode [a])"])
      (use d b64_char_props in \<open>simp add: Let_def\<close>)
next
  case (3 a b)
  have d: "(unat a * 65536 + unat b * 256) div 262144 < 64"
    using b64_div_small [of "unat a" "unat b" 0] unat_byte [of a] unat_byte [of b] by simp
  show ?case
    by (rule exI [of _ "take 3 (b64_encode [a, b])"], rule exI [of _ "drop 3 (b64_encode [a, b])"])
      (use d b64_char_props in \<open>simp add: Let_def\<close>)
next
  case (4 a b c r)
  then obtain xs ys where r: "b64_encode r = xs @ ys" "list_all is_base64_char xs" "list_all (\<lambda>c. c = CHR ''='') ys"
    by blast
  let ?n = "unat a * 65536 + unat b * 256 + unat c"
  let ?g = "[b64_char (?n div 262144), b64_char (?n div 4096 mod 64), b64_char (?n div 64 mod 64), b64_char (?n mod 64)]"
  have d: "?n div 262144 < 64" using b64_div_small [OF unat_byte unat_byte unat_byte] .
  have "b64_encode (a # b # c # r) = (?g @ xs) @ ys" using r by (simp add: Let_def)
  moreover have "list_all is_base64_char (?g @ xs)" using r d b64_char_props by simp
  ultimately show ?case using r by blast
qed

section \<open>Properties\<close>

text \<open>C34. Port allocation. For every ASN and every node prefix from 1 to 5 (0 meaning the
  default 5), the allocated listen port is a valid unprivileged UDP port in the block of
  ten thousand ports of that prefix, its last four digits are those of the ASN, and two ASNs get the same port on a node exactly when
  they agree modulo 10000: the collision that the handlers report as a port conflict.\<close>

theorem WgPort_block:
  assumes "0 \<le> asn" "0 \<le> asn'" "0 \<le> pfx" "pfx \<le> 5"
  shows "let blk = (if pfx = 0 then 5 else pfx) * 10000 in
         WgPort asn pfx mod 10000 = asn mod 10000 \<and> blk \<le> WgPort asn pfx \<and> WgPort asn pfx < blk + 10000 \<and> 1024 \<le> WgPort asn pfx \<and> WgPort asn pfx \<le> 65535
         \<and> (WgPort asn pfx = WgPort asn' pfx \<longleftrightarrow> asn mod 10000 = asn' mod 10000)"
proof -
  have r: "go_rem asn 10000 = asn mod 10000" "go_rem asn' 10000 = asn' mod 10000"
    using assms by (simp_all add: go_rem_nonneg)
  have b: "0 \<le> asn mod 10000" "asn mod 10000 < 10000" "0 \<le> asn' mod 10000" "asn' mod 10000 < 10000" by simp_all
  have w: "WgPort a pfx = (if pfx = 0 then 5 else pfx) * 10000 + go_rem a 10000" if "0 \<le> go_rem a 10000" "go_rem a 10000 < 10000" for a
    using assms that by (auto simp: WgPort_def DefaultWgPortPrefix_def is_int64_def)
  have "((if pfx = 0 then 5 else pfx) * 10000 + asn mod 10000) mod 10000 = asn mod 10000" by simp
  with assms r b w [of asn] w [of asn'] show ?thesis by (auto simp: Let_def)
qed

theorem WgPort_block_witness:
  "WgPort 4242420123 0 = 50123 \<and> WgPort 4242420123 0 \<noteq> WgPort 4242420124 0 \<and> WgPort 4242420123 0 = WgPort 4201270123 0
   \<and> WgPort 4242420123 0 \<le> 65535 \<and> WgPort 4242420123 0 mod 10000 = 123"
proof -
  have "WgPort 4242420123 0 = 50123" by (simp add: WgPort_def DefaultWgPortPrefix_def go_rem_def wrap_int64_def)
  then show ?thesis
    using WgPort_block [of 4242420123 4242420124 0] WgPort_block [of 4242420123 4201270123 0] by simp
qed

text \<open>Pre-shared keys. The key generated from 32 random bytes is 44 characters of standard
  base64, decodes back to exactly those bytes, passes the public key check that the agent
  side format shares, and no key is produced when the random source fails.\<close>

theorem GeneratePSK_roundtrip:
  "GeneratePSK None = None \<and>
   (length bs = 32 \<longrightarrow> (\<exists>k. GeneratePSK (Some bs) = Some k \<and> length k = 44 \<and> b64_decode k = Some bs
      \<and> ValidatePubkey k = Inr ()))"
proof -
  have "base64Re (b64_encode bs)" if "length bs = 32"
    using b64_encode_shape [of bs] list_all_base64 that by force
  then show ?thesis
    by (auto simp: GeneratePSK_def b64_decode_encode length_b64_encode ValidatePubkey_iff)
qed

theorem GeneratePSK_roundtrip_witness:
  "\<exists>k. GeneratePSK (Some (replicate 32 7)) = Some k \<and> length k = 44 \<and> b64_decode k = Some (replicate 32 7)"
  using GeneratePSK_roundtrip [of "replicate 32 7"] by auto

text \<open>Interface names. The interface name determines the ASN: removing the prefix and
  parsing the number gives the ASN back (what the agent's scan relies on), so two
  different ASNs never share an interface.\<close>

theorem WgInterfaceName_roundtrip:
  assumes "is_int64 asn" "is_int64 asn'"
  shows "atoi (trim_prefix (WgInterfaceName_of asn) ''dn42'') = Some asn
    \<and> (WgInterfaceName_of asn = WgInterfaceName_of asn' \<longleftrightarrow> asn = asn')"
proof -
  have t: "trim_prefix (WgInterfaceName_of a) ''dn42'' = show_int a" for a
    by (simp add: WgInterfaceName_of_def trim_prefix_def)
  then show ?thesis
    using assms show_int_inj by (auto simp: atoi_show_int WgInterfaceName_of_def)
qed

theorem WgInterfaceName_roundtrip_witness:
  "atoi (trim_prefix (WgInterfaceName_of 4242420001) ''dn42'') = Some 4242420001
   \<and> WgInterfaceName_of 4242420001 \<noteq> WgInterfaceName_of 64512"
  using WgInterfaceName_roundtrip [of 4242420001 64512] by (simp add: is_int64_def)

text \<open>C33. \<^verbatim>\<open>BuildPendingPeer\<close> succeeds exactly when the node is named, every field passes its
  validator and, if a key was requested, randomness was available; the peer it returns is
  pending, managed, carries the input unchanged, and has the canonical port and interface.\<close>

theorem BuildPendingPeer_correct:
  "BuildPendingPeer rnd i = Inr p \<longleftrightarrow>
     in_NodeID i \<noteq> [] \<and> valid_config p \<and> (in_EnablePSK i \<longrightarrow> rnd \<noteq> None) \<and>
     p = zero_peer\<lparr>NodeID := in_NodeID i, RemoteASN := in_ASN i, RemotePubkey := in_Pubkey i,
           RemoteEndpoint := in_Endpoint i, RemoteLLA := in_LLA i,
           WgListenPort := WgPort (in_ASN i) (in_PortPrefix i), WgInterfaceName := WgInterfaceName_of (in_ASN i),
           MTU := in_MTU i, WgPreSharedKey := (if in_EnablePSK i then GeneratePSK rnd else None),
           WgManaged := True, Status := ''pending''\<rparr>"
  by (cases "ValidatePubkey (in_Pubkey i)"; cases "ValidateEndpoint (in_Endpoint i)";
      cases "ValidateLLA (in_LLA i)"; cases "ValidateMTU (in_MTU i)"; cases rnd)
    (auto simp: BuildPendingPeer_def valid_config_def GeneratePSK_def)

theorem BuildPendingPeer_correct_witness:
  "\<exists>p. BuildPendingPeer None \<lparr>in_ASN = 4242420123, in_NodeID = ''node-1'', in_PortPrefix = 5,
     in_Pubkey = ''abcdefghijklmnopqrstuvwxyzABCDEFGHIJKLMN='', in_Endpoint = ''192.0.2.1:51820'',
     in_LLA = ''fe80::1'', in_MTU = None, in_EnablePSK = False\<rparr> = Inr p \<and> WgListenPort p = 50123
     \<and> Status p = ''pending''"
proof -
  have v: "ValidatePubkey ''abcdefghijklmnopqrstuvwxyzABCDEFGHIJKLMN='' = Inr ()"
    "ValidateEndpoint ''192.0.2.1:51820'' = Inr ()" "ValidateLLA ''fe80::1'' = Inr ()"
    "WgPort 4242420123 5 = 50123"
    by (simp_all add: ValidatePubkey_def ValidateEndpoint_def ValidateLLA_def host_eval parse_ip_eval
        WgPort_def go_rem_def wrap_int64_def)
  show ?thesis
    by (rule exI, rule conjI, rule BuildPendingPeer_correct [THEN iffD2])
      (use v in \<open>auto simp: valid_config_def ValidateMTU_def\<close>)
qed

text \<open>Port overflow. The prefix of a node is not range-checked anywhere, and the port is
  computed without a bound: with prefix 6 every ASN whose last four digits are 5536 or more
  gets a port above 65535, which no WireGuard interface can listen on.\<close>

theorem WgPort_can_exceed:
  "WgPort asn 6 > 65535 \<longleftrightarrow> go_rem asn 10000 > 5535"
proof -
  have "-10000 < go_rem asn 10000 \<and> go_rem asn 10000 < 10000" by (rule go_rem_bounds) simp
  then show ?thesis by (auto simp: WgPort_def is_int64_def)
qed

text \<open>The link-local check accepts IPv4 link-local addresses as well: every address in
  169.254.0.0/16 passes, although the error message promises fe80::/10.\<close>

theorem ValidateLLA_accepts_ipv4:
  "ValidateLLA ''169.254.1.1'' = Inr () \<and>
   (parse_ip lla = Some (ipv4_mapped [169, 254, a, b]) \<longrightarrow> ValidateLLA lla = Inr ())"
proof -
  have "is_link_local_unicast (ipv4_mapped [169, 254, a, b])" for a b by (simp add: parse_ip_eval)
  moreover have "parse_ip ''169.254.1.1'' = Some (ipv4_mapped [169, 254, 1, 1])" by (simp add: parse_ip_eval)
  ultimately show ?thesis by (simp add: ValidateLLA_def)
qed

theorem ValidateLLA_accepts_ipv4_witness:
  "parse_ip ''169.254.7.9'' = Some (ipv4_mapped [169, 254, 7, 9]) \<and> ValidateLLA ''169.254.7.9'' = Inr ()"
proof -
  have "parse_ip ''169.254.7.9'' = Some (ipv4_mapped [169, 254, 7, 9])" by (simp add: parse_ip_eval)
  then show ?thesis using ValidateLLA_accepts_ipv4 [of "''169.254.7.9''" 7 9] by blast
qed

end
