(* ===== verification/Json.thy ===== *)
theory Json
  imports Prelude
begin

text \<open>
  Decoded JSON values, shared by the response writer and the cache. A Go map is an association
  list whose lookup is the first entry of a key; a number keeps its literal. \<open>JTime\<close> is
  the JSON text of an instant (an RFC 3339 string), kept as the instant that it denotes.
  \<open>dec_int\<close>, \<open>dec_bool\<close> and \<open>dec_str\<close> are \<^verbatim>\<open>json.Unmarshal\<close> into an \<^verbatim>\<open>int\<close>, a \<^verbatim>\<open>bool\<close> and a
  \<^verbatim>\<open>string\<close>, where \<^verbatim>\<open>null\<close> leaves the zero value.
\<close>

datatype json =
    JNull
  | JBool bool
  | JNum string
  | JStr string
  | JTime int
  | JArr "json list"
  | JObj "(string \<times> json) list"

type_synonym obj = "(string \<times> json) list"

definition jint :: "int \<Rightarrow> json" where
  "jint n = JNum (show_int n)"

definition dec_int :: "json \<Rightarrow> int option" where
  "dec_int v = (case v of JNum s \<Rightarrow> atoi s | JNull \<Rightarrow> Some 0 | _ \<Rightarrow> None)"

definition dec_bool :: "json \<Rightarrow> bool option" where
  "dec_bool v = (case v of JBool b \<Rightarrow> Some b | JNull \<Rightarrow> Some False | _ \<Rightarrow> None)"

definition dec_str :: "json \<Rightarrow> string option" where
  "dec_str v = (case v of JStr s \<Rightarrow> Some s | JNull \<Rightarrow> Some [] | _ \<Rightarrow> None)"

definition dec_time :: "json \<Rightarrow> int option" where
  "dec_time v = (case v of JTime t \<Rightarrow> Some t | _ \<Rightarrow> None)"

lemma dec_int_jint [simp]: "is_int64 n \<Longrightarrow> dec_int (jint n) = Some n"
  by (simp add: dec_int_def jint_def atoi_show_int)

lemma dec_simps [simp]:
  "dec_bool (JBool b) = Some b" "dec_str (JStr s) = Some s" "dec_time (JTime t) = Some t"
  by (simp_all add: dec_bool_def dec_str_def dec_time_def)

end
