(* ===== verification/ApiVersion.thy ===== *)
theory ApiVersion
  imports Json
begin

text \<open>
  \<^verbatim>\<open>internal/apiversion\<close> and the response writer \<^verbatim>\<open>JSONVersioned\<close> of
  \<^verbatim>\<open>internal/handler/helpers.go\<close>: the known versions, header resolution, the registered
  version changes and the downgrade of a response from the latest shape to an older one.
  In-place mutation of the decoded value becomes a returned value.
\<close>

definition versions :: "string list" where
  "versions = [''2025-01-01'', ''2026-06-06'', ''2026-06-07'']"

definition Latest :: string where
  "Latest = last versions"

definition IsKnown :: "string \<Rightarrow> bool" where
  "IsKnown v = list_ex (\<lambda>x. x = v) versions"

definition Resolve :: "string \<Rightarrow> string option" where
  "Resolve header =
     (let h = trim_space header in
      if h = [] then Some Latest else if IsKnown h then Some h else None)"

definition ResourcePeer :: string where
  "ResourcePeer = ''peer''"

record version_change =
  vc_Version :: string
  vc_Resource :: string
  vc_Apply :: "obj \<Rightarrow> obj"

text \<open>Go's \<^verbatim>\<open>delete(m, k)\<close>.\<close>

definition obj_delete :: "string \<Rightarrow> obj \<Rightarrow> obj" where
  "obj_delete k m = filter (\<lambda>(k', _). k' \<noteq> k) m"

definition changes :: "version_change list" where
  "changes =
     [\<lparr>vc_Version = ''2026-06-06'', vc_Resource = ResourcePeer,
        vc_Apply = (\<lambda>m. obj_delete ''bgp_suspended_by_endpoint'' (obj_delete ''endpoint_mismatch_since'' m))\<rparr>,
      \<lparr>vc_Version = ''2026-06-07'', vc_Resource = ResourcePeer,
        vc_Apply = (\<lambda>m. obj_delete ''wg_preshared_key'' m)\<rparr>]"

definition changesForResourceNewestFirst :: "version_change list \<Rightarrow> string \<Rightarrow> version_change list" where
  "changesForResourceNewestFirst cs res = rev (sort_key vc_Version (filter (\<lambda>c. vc_Resource c = res) cs))"

definition apply_elem :: "(obj \<Rightarrow> obj) \<Rightarrow> json \<Rightarrow> json" where
  "apply_elem fn v = (case v of JObj m \<Rightarrow> JObj (fn m) | _ \<Rightarrow> v)"

text \<open>\<^verbatim>\<open>applyToValue\<close> with an empty list key: a bare object or a bare list.\<close>

definition applyBare :: "(obj \<Rightarrow> obj) \<Rightarrow> json \<Rightarrow> json" where
  "applyBare fn v =
     (case v of
        JObj m \<Rightarrow> JObj (fn m)
      | JArr els \<Rightarrow> JArr (map (apply_elem fn) els)
      | _ \<Rightarrow> v)"

definition applyToValue :: "(obj \<Rightarrow> obj) \<Rightarrow> string \<Rightarrow> json \<Rightarrow> json" where
  "applyToValue fn listKey v =
     (case v of
        JObj m \<Rightarrow>
          (if listKey \<noteq> [] then
             (case map_of m listKey of
                Some inner \<Rightarrow> JObj (map (\<lambda>(k, x). if k = listKey then (k, applyBare fn x) else (k, x)) m)
              | None \<Rightarrow> v)
           else JObj (fn m))
      | _ \<Rightarrow> applyBare fn v)"

fun downgrade_loop :: "version_change list \<Rightarrow> string \<Rightarrow> string \<Rightarrow> json \<Rightarrow> json" where
  "downgrade_loop [] target listKey v = v"
| "downgrade_loop (c # cs) target listKey v =
     downgrade_loop cs target listKey
       (if vc_Version c > target then applyToValue (vc_Apply c) listKey v else v)"

definition Downgrade :: "version_change list \<Rightarrow> string \<Rightarrow> string \<Rightarrow> json \<Rightarrow> string \<Rightarrow> json" where
  "Downgrade cs res target v listKey =
     (if target = Latest then v
      else downgrade_loop (changesForResourceNewestFirst cs res) target listKey v)"

text \<open>The body \<^verbatim>\<open>JSONVersioned\<close> writes; \<open>target\<close> is the version stored in the request's context
  (empty when the middleware did not run).\<close>

definition JSONVersioned :: "string \<Rightarrow> string \<Rightarrow> string \<Rightarrow> json \<Rightarrow> json" where
  "JSONVersioned target0 res listKey data =
     (let target = (if target0 = [] then Latest else target0) in
      if target = Latest then data else Downgrade changes res target data listKey)"

section \<open>Facts\<close>

definition obj_keys :: "obj \<Rightarrow> string set" where
  "obj_keys m = fst ` set m"

lemma map_of_obj_delete: "map_of (obj_delete k m) = (map_of m)(k := None)"
  by (induction m) (auto simp: obj_delete_def fun_eq_iff)

lemma obj_keys_delete: "obj_keys (obj_delete k m) = obj_keys m - {k}"
  by (auto simp: obj_keys_def obj_delete_def image_iff)

lemma obj_delete_commute: "obj_delete k (obj_delete k' m) = obj_delete k' (obj_delete k m)"
  by (auto simp: obj_delete_def intro: filter_cong)

lemma obj_delete_idem [simp]: "obj_delete k (obj_delete k m) = obj_delete k m"
  by (simp add: obj_delete_def)

lemma versions_sorted: "sorted_wrt (<) versions"
  by (simp add: versions_def less_char_def)

lemma Latest_eq: "Latest = ''2026-06-07''"
  by (simp add: Latest_def versions_def)

lemma IsKnown_iff: "IsKnown v \<longleftrightarrow> v \<in> set versions"
  by (simp add: IsKnown_def list_ex_iff)

lemma version_order:
  "''2026-06-07'' > ''2025-01-01''" "''2026-06-06'' > ''2025-01-01''" "''2026-06-07'' > ''2026-06-06''"
  by (simp_all add: less_char_def)

lemma changes_newest_first:
  "changesForResourceNewestFirst changes ResourcePeer = [changes ! 1, changes ! 0]"
  using version_order
  by (simp add: changesForResourceNewestFirst_def changes_def not_le less_imp_le)


text \<open>The fields that a version's peer objects must not show, oldest version first.\<close>

definition hidden_fields :: "string \<Rightarrow> string list" where
  "hidden_fields target =
     (if target = ''2025-01-01''
      then [''wg_preshared_key'', ''endpoint_mismatch_since'', ''bgp_suspended_by_endpoint'']
      else if target = ''2026-06-06'' then [''wg_preshared_key''] else [])"

definition strip :: "string list \<Rightarrow> obj \<Rightarrow> obj" where
  "strip ks m = filter (\<lambda>(k, _). k \<notin> set ks) m"

lemma applyToValue_comp:
  "applyToValue f lk (applyToValue g lk v) = applyToValue (\<lambda>m. f (g m)) lk v"
proof -
  have e: "apply_elem f (apply_elem g x) = apply_elem (\<lambda>m. f (g m)) x" for x
    by (cases x) (simp_all add: apply_elem_def)
  have b: "applyBare f (applyBare g x) = applyBare (\<lambda>m. f (g m)) x" for x
    by (cases x) (simp_all add: applyBare_def e)
  have k: "map_of (map (\<lambda>(k, x). if k = lk then (k, h x) else (k, x)) m) lk = map_option h (map_of m lk)"
    for h :: "json \<Rightarrow> json" and m
    by (induction m) auto
  show ?thesis
  proof (cases v)
    case (JObj m)
    then show ?thesis by (auto simp: applyToValue_def b k split: option.splits)
  qed (simp_all add: applyToValue_def applyBare_def e)
qed

lemma strip_obj_delete: "obj_delete k (strip ks m) = strip (ks @ [k]) m"
  by (auto simp: obj_delete_def strip_def intro: filter_cong)

lemma obj_delete_strip: "obj_delete k m = strip [k] m"
  by (auto simp: obj_delete_def strip_def intro: filter_cong)

lemma applyToValue_cong: "(\<And>m. f m = g m) \<Longrightarrow> applyToValue f lk v = applyToValue g lk v"
proof -
  assume "\<And>m. f m = g m"
  then have "f = g" by blast
  then show ?thesis by simp
qed

lemma changes_strip:
  "changesForResourceNewestFirst changes ResourcePeer =
     [\<lparr>vc_Version = ''2026-06-07'', vc_Resource = ResourcePeer, vc_Apply = strip [''wg_preshared_key'']\<rparr>,
      \<lparr>vc_Version = ''2026-06-06'', vc_Resource = ResourcePeer,
        vc_Apply = strip [''endpoint_mismatch_since'', ''bgp_suspended_by_endpoint'']\<rparr>]"
  unfolding changes_newest_first
  by (simp add: changes_def fun_eq_iff obj_delete_strip strip_obj_delete [unfolded obj_delete_strip])

lemma strip_append: "strip ls (strip ks m) = strip (ks @ ls) m"
  by (auto simp: strip_def intro: filter_cong)

lemma Downgrade_strip:
  assumes "target \<in> set versions"
  shows "Downgrade changes ResourcePeer target v lk =
     (if target = Latest then v else applyToValue (strip (hidden_fields target)) lk v)"
proof -
  consider "target = ''2025-01-01''" | "target = ''2026-06-06''" | "target = Latest"
    using assms by (auto simp: versions_def Latest_eq)
  then show ?thesis
  proof cases
    case 1
    then show ?thesis
      using version_order
      by (simp add: Downgrade_def changes_strip Latest_eq hidden_fields_def applyToValue_comp strip_append)
  next
    case 2
    then show ?thesis
      using version_order by (simp add: Downgrade_def changes_strip Latest_eq hidden_fields_def)
  qed (simp add: Downgrade_def)
qed

lemma strip_strip: "set ks \<subseteq> set ls \<Longrightarrow> strip ls (strip ks m) = strip ls m"
  by (auto simp: strip_def intro: filter_cong)

lemma applyToValue_id: "(\<And>m. f m = m) \<Longrightarrow> applyToValue f lk v = v"
proof -
  assume i: "\<And>m. f m = m"
  have b: "applyBare f x = x" for x
    using i by (cases x) (auto simp: applyBare_def apply_elem_def map_idI split: json.splits)
  show ?thesis
    using i b by (cases v) (auto simp: applyToValue_def b intro!: map_idI split: option.splits)
qed

section \<open>Properties\<close>

text \<open>Header negotiation. A blank header resolves to the latest version and a known version,
  with surrounding white space, to itself; whatever is resolved is a known version and
  every unknown header is refused.\<close>

theorem Resolve_correct:
  "(Resolve h = Some v \<longrightarrow> v \<in> set versions) \<and> (trim_space h = [] \<longrightarrow> Resolve h = Some Latest)
   \<and> (trim_space h \<in> set versions \<longrightarrow> Resolve h = Some (trim_space h))
   \<and> (Resolve h = None \<longleftrightarrow> trim_space h \<noteq> [] \<and> trim_space h \<notin> set versions)"
  by (auto simp: Resolve_def Let_def IsKnown_iff Latest_def versions_def split: if_splits)

theorem Resolve_correct_witness:
  "Resolve ''2026-06-06'' = Some ''2026-06-06'' \<and> Resolve [] = Some ''2026-06-07'' \<and> Resolve ''garbage'' = None"
proof -
  have t: "trim_space ''2026-06-06'' = ''2026-06-06''" "trim_space ''garbage'' = ''garbage''" "trim_space [] = []"
    by (simp_all add: trim_space_printable printable_def)
  show ?thesis
    using Resolve_correct [of "''2026-06-06''"] Resolve_correct [of "''garbage''"] Resolve_correct [of "[]"]
    unfolding t by (simp add: Latest_eq versions_def)
qed

text \<open>Downgrading a peer response to a known version removes exactly the fields introduced
  after that version from every peer object (a bare object, each object of a bare list, or
  the objects under the list key of a wrapper) and leaves everything else as it is; for the
  latest version the response is unchanged.\<close>

theorem JSONVersioned_strips:
  assumes "target \<in> set versions"
  shows "JSONVersioned target ResourcePeer lk data = applyToValue (strip (hidden_fields target)) lk data
    \<and> JSONVersioned Latest ResourcePeer lk data = data"
proof -
  have "target \<noteq> []" using assms by (auto simp: versions_def)
  moreover have "applyToValue (strip (hidden_fields Latest)) lk data = data"
    by (rule applyToValue_id) (simp add: strip_def hidden_fields_def Latest_eq)
  ultimately show ?thesis
    using Downgrade_strip [OF assms] by (auto simp: JSONVersioned_def Let_def Latest_eq)
qed

theorem JSONVersioned_strips_witness:
  "JSONVersioned ''2026-06-06'' ResourcePeer ''peers''
     (JObj [(''peers'', JArr [JObj [(''id'', JStr ''p1''), (''wg_preshared_key'', JStr ''k'')]]), (''total'', JNum ''1'')])
   = JObj [(''peers'', JArr [JObj [(''id'', JStr ''p1'')]]), (''total'', JNum ''1'')]"
proof -
  have "''2026-06-06'' \<in> set versions" by (simp add: versions_def)
  from JSONVersioned_strips [OF this, of "''peers''"] show ?thesis
    by (simp add: applyToValue_def applyBare_def apply_elem_def strip_def hidden_fields_def)
qed

text \<open>Downgrading composes along the version chain: going to an intermediate version first
  and to an older one afterwards gives the same response as going to the older one at once.\<close>

theorem Downgrade_chain:
  assumes "old \<in> set versions" "mid \<in> set versions" "old \<le> mid"
  shows "Downgrade changes ResourcePeer old (Downgrade changes ResourcePeer mid v lk) lk
       = Downgrade changes ResourcePeer old v lk"
proof -
  have "set (hidden_fields mid) \<subseteq> set (hidden_fields old)"
    using assms version_order by (auto simp: versions_def hidden_fields_def)
  moreover have "mid = Latest" if "old = Latest"
    using assms that version_order by (auto simp: versions_def Latest_eq)
  ultimately show ?thesis
    using assms
    by (auto simp: Downgrade_strip applyToValue_comp strip_strip intro!: applyToValue_cong)
qed

theorem Downgrade_chain_witness:
  "''2025-01-01'' \<le> ''2026-06-06'' \<and>
   Downgrade changes ResourcePeer ''2025-01-01'' (Downgrade changes ResourcePeer ''2026-06-06'' (JObj [(''id'', JNull)]) []) []
   = Downgrade changes ResourcePeer ''2025-01-01'' (JObj [(''id'', JNull)]) []"
proof -
  have h: "''2025-01-01'' \<in> set versions" "''2026-06-06'' \<in> set versions" by (simp_all add: versions_def)
  have l: "''2025-01-01'' \<le> ''2026-06-06''" using version_order(2) by (rule less_imp_le)
  show ?thesis using Downgrade_chain [OF h l] l by blast
qed

end
