(* ===== verification/Lock.thy ===== *)
theory Lock
  imports Prelude
begin

text \<open>
  \<^verbatim>\<open>internal/lock\<close> and the two \<^verbatim>\<open>acquirePeerLock\<close> helpers (\<^verbatim>\<open>internal/handler/lock.go\<close>,
  \<^verbatim>\<open>internal/ws/lock.go\<close>): the in-process locker, the Redis locker with its two Lua scripts, lease
  renewal, and the fail-open acquisition used by every peer mutation. Redis itself is a parameter
  (\<open>redis_ops\<close>) with its documented behaviour as the hypothesis \<open>redis_ok\<close>. The contract that a
  client of a locker relies on is the locale \<open>locker\<close>, interpreted on the in-process locker.
  Durations and instants are milliseconds.
\<close>

section \<open>The in-process locker\<close>

text \<open>\<open>None\<close> is the nil map of a zero \<^verbatim>\<open>LocalLocker\<close>; a missing key reads as \<open>False\<close>.\<close>

type_synonym local_locker = "(string \<rightharpoonup> bool) option"

record localLease =
  ll_key :: string

definition NewLocalLocker :: local_locker where
  "NewLocalLocker = Some Map.empty"

text \<open>\<^verbatim>\<open>Acquire\<close> returns the lease, whether the lock was taken, and the error. The outer \<open>option\<close> of
  the receiver is a nil pointer: then a fresh locker is used and the receiver stays nil.\<close>

definition local_Acquire ::
  "local_locker option \<Rightarrow> string \<Rightarrow> int \<Rightarrow> local_locker option \<times> localLease option \<times> bool \<times> string option" where
  "local_Acquire rcv key ttl =
     (let l = (case rcv of None \<Rightarrow> NewLocalLocker | Some l \<Rightarrow> l);
          m = (case l of None \<Rightarrow> Map.empty | Some m \<Rightarrow> m);
          put = (\<lambda>m'. map_option (\<lambda>_. Some m') rcv) in
      if m key = Some True then (put m, None, False, None)
      else (put (m(key \<mapsto> True)), Some \<lparr>ll_key = key\<rparr>, True, None))"

definition local_Refresh :: "local_locker option \<Rightarrow> localLease \<Rightarrow> int \<Rightarrow> string option" where
  "local_Refresh rcv l ttl = None"

definition local_Release :: "local_locker option \<Rightarrow> localLease \<Rightarrow> local_locker option" where
  "local_Release rcv l = map_option (map_option (\<lambda>m. m(ll_key l := None))) rcv"

section \<open>The Redis locker\<close>

text \<open>The Redis commands used here. \<open>r_get\<close>, \<open>r_del\<close> and \<open>r_pexpire\<close> are what a script calls inside
  the server; \<open>r_run\<close> sends a script, which the server runs atomically, or fails.\<close>

record 's redis_ops =
  r_get :: "'s \<Rightarrow> int \<Rightarrow> string \<Rightarrow> string option"
  r_setnx :: "'s \<Rightarrow> int \<Rightarrow> string \<Rightarrow> string \<Rightarrow> int \<Rightarrow> 's \<times> (string + bool)"
  r_del :: "'s \<Rightarrow> int \<Rightarrow> string \<Rightarrow> 's \<times> int"
  r_pexpire :: "'s \<Rightarrow> int \<Rightarrow> string \<Rightarrow> int \<Rightarrow> 's \<times> int"
  r_run :: "'s \<Rightarrow> ('s \<Rightarrow> 's \<times> int) \<Rightarrow> 's \<times> (string + int)"

record redisLease =
  rl_key :: string
  rl_token :: string

definition hex_char :: "nat \<Rightarrow> char" where
  "hex_char n = (if n < 10 then digit_char n else char_of (87 + n))"

definition hex_encode :: "8 word list \<Rightarrow> string" where
  "hex_encode bs = concat (map (\<lambda>b. [hex_char (unat b div 16), hex_char (unat b mod 16)]) bs)"

text \<open>\<^verbatim>\<open>crypto/rand\<close> gives the 16 bytes or an error.\<close>

definition randomToken :: "8 word list option \<Rightarrow> string option" where
  "randomToken rnd = map_option hex_encode rnd"

text \<open>A nil locker or a nil client is \<open>None\<close>.\<close>

definition redis_Acquire ::
  "('s redis_ops \<times> string) option \<Rightarrow> 8 word list option \<Rightarrow> 's \<Rightarrow> int \<Rightarrow> string \<Rightarrow> int
     \<Rightarrow> 's \<times> redisLease option \<times> bool \<times> string option" where
  "redis_Acquire l rnd s now key ttl =
     (case l of
        None \<Rightarrow> (s, None, False, Some ''redis locker not configured'')
      | Some (R, pre) \<Rightarrow>
          (case randomToken rnd of
             None \<Rightarrow> (s, None, False, Some ''rand'')
           | Some token \<Rightarrow>
               (let fullKey = pre @ ''lock:'' @ key in
                case r_setnx R s now fullKey token ttl of
                  (s', Inl err) \<Rightarrow> (s', None, False, Some err)
                | (s', Inr ok) \<Rightarrow>
                    (if \<not> ok then (s', None, ok, None)
                     else (s', Some \<lparr>rl_key = fullKey, rl_token = token\<rparr>, True, None)))))"

definition releaseScript :: "'s redis_ops \<Rightarrow> int \<Rightarrow> string \<Rightarrow> string \<Rightarrow> 's \<Rightarrow> 's \<times> int" where
  "releaseScript R now key tok s = (if r_get R s now key = Some tok then r_del R s now key else (s, 0))"

definition refreshScript :: "'s redis_ops \<Rightarrow> int \<Rightarrow> string \<Rightarrow> string \<Rightarrow> int \<Rightarrow> 's \<Rightarrow> 's \<times> int" where
  "refreshScript R now key tok ttl s =
     (if r_get R s now key = Some tok then r_pexpire R s now key ttl else (s, 0))"

definition redis_Refresh :: "'s redis_ops \<Rightarrow> 's \<Rightarrow> int \<Rightarrow> redisLease \<Rightarrow> int \<Rightarrow> 's \<times> string option" where
  "redis_Refresh R s now l ttl =
     (case r_run R s (refreshScript R now (rl_key l) (rl_token l) ttl) of
        (s', Inl err) \<Rightarrow> (s', Some err)
      | (s', Inr res) \<Rightarrow> (if res \<noteq> 1 then (s', Some ''lock lease lost'') else (s', None)))"

definition redis_Release :: "'s redis_ops \<Rightarrow> 's \<Rightarrow> int \<Rightarrow> redisLease \<Rightarrow> 's \<times> string option" where
  "redis_Release R s now l =
     (case r_run R s (releaseScript R now (rl_key l) (rl_token l)) of
        (s', Inl err) \<Rightarrow> (s', Some err)
      | (s', Inr _) \<Rightarrow> (s', None))"

text \<open>The documented behaviour of \<^verbatim>\<open>SET NX PX\<close>, \<^verbatim>\<open>DEL\<close>, \<^verbatim>\<open>PEXPIRE\<close> and of scripts, as what \<^verbatim>\<open>GET\<close>
  shows from the instant of the command on. A failed call says nothing.\<close>

definition setnx_ok :: "'s redis_ops \<Rightarrow> bool" where
  "setnx_ok R \<longleftrightarrow> (\<forall>s now k v ttl s' b. 0 < ttl \<longrightarrow> r_setnx R s now k v ttl = (s', Inr b) \<longrightarrow>
     b = (r_get R s now k = None) \<and>
     (\<forall>t \<ge> now. \<forall>k'. r_get R s' t k' =
        (if b \<and> k' = k then (if t < now + ttl then Some v else None) else r_get R s t k')))"

definition del_ok :: "'s redis_ops \<Rightarrow> bool" where
  "del_ok R \<longleftrightarrow> (\<forall>s now k s' n. r_del R s now k = (s', n) \<longrightarrow>
     n = (if r_get R s now k = None then 0 else 1) \<and>
     (\<forall>t \<ge> now. \<forall>k'. r_get R s' t k' = (if k' = k then None else r_get R s t k')))"

definition pexpire_ok :: "'s redis_ops \<Rightarrow> bool" where
  "pexpire_ok R \<longleftrightarrow> (\<forall>s now k ttl s' n. 0 < ttl \<longrightarrow> r_pexpire R s now k ttl = (s', n) \<longrightarrow>
     n = (if r_get R s now k = None then 0 else 1) \<and>
     (\<forall>t \<ge> now. \<forall>k'. r_get R s' t k' =
        (if k' = k then (if t < now + ttl then r_get R s now k else None) else r_get R s t k')))"

definition run_ok :: "'s redis_ops \<Rightarrow> bool" where
  "run_ok R \<longleftrightarrow> (\<forall>s f s' n. r_run R s f = (s', Inr n) \<longrightarrow> f s = (s', n))"

definition redis_ok :: "'s redis_ops \<Rightarrow> bool" where
  "redis_ok R \<longleftrightarrow> setnx_ok R \<and> del_ok R \<and> pexpire_ok R \<and> run_ok R"

section \<open>Renewal\<close>

text \<open>The ticker goroutine: \<open>n\<close> ticks arrive before the protected function ends. The first failed
  refresh cancels the context and ends the goroutine.\<close>

fun renew_loop :: "('s \<Rightarrow> 's \<times> string option) \<Rightarrow> nat \<Rightarrow> 's \<Rightarrow> 's \<times> string option" where
  "renew_loop refresh 0 s = (s, None)"
| "renew_loop refresh (Suc n) s =
     (case refresh s of
        (s', Some err) \<Rightarrow> (s', Some err)
      | (s', None) \<Rightarrow> renew_loop refresh n s')"

definition renewEvery :: "int \<Rightarrow> int" where
  "renewEvery ttl = (let r = ttl div 2 in if r < 1000 then 1000 else r)"

text \<open>One tick for a Redis lease: the state carries the instant of the last tick.\<close>

definition redis_tick :: "'s redis_ops \<Rightarrow> redisLease \<Rightarrow> int \<Rightarrow> 's \<times> int \<Rightarrow> ('s \<times> int) \<times> string option" where
  "redis_tick R l ttl st =
     (case st of (s, t) \<Rightarrow>
        (let t' = t + renewEvery ttl; (s', err) = redis_Refresh R s t' l ttl in ((s', t'), err)))"

text \<open>\<open>dur\<close> is how long the function runs. The result: the lock state after the renewals, whether the
  function saw its context cancelled, and the error returned.\<close>

definition WithRenewal ::
  "('s \<Rightarrow> 's \<times> string option) option \<Rightarrow> int \<Rightarrow> nat \<Rightarrow> 's \<Rightarrow> 's \<times> bool \<times> string option" where
  "WithRenewal lease ttl dur s =
     (case lease of
        None \<Rightarrow> (s, False, None)
      | Some refresh \<Rightarrow>
          (if ttl \<le> 0 then (s, False, None)
           else (let (s', err) = renew_loop refresh (dur div nat (renewEvery ttl)) s in
                 (s', err \<noteq> None, err))))"

section \<open>Acquisition for a peer mutation\<close>

definition peerLockTTL :: int where
  "peerLockTTL = 30000"

text \<open>The locker is its \<^verbatim>\<open>Acquire\<close> method, \<open>None\<close> when nil. The result: the lease whose release the
  returned function runs (\<open>None\<close> for the no-op), and \<open>busy\<close>. The copy in \<^verbatim>\<open>internal/ws/lock.go\<close> is
  the same text with the hub's locker.\<close>

definition acquirePeerLock ::
  "('s \<Rightarrow> string \<Rightarrow> int \<Rightarrow> 's \<times> 'l option \<times> bool \<times> string option) option \<Rightarrow> 's \<Rightarrow> string
     \<Rightarrow> 's \<times> 'l option \<times> bool" where
  "acquirePeerLock locker s key =
     (case locker of
        None \<Rightarrow> (s, None, False)
      | Some acquire \<Rightarrow>
          (case acquire s key peerLockTTL of (s', lease, ok, err) \<Rightarrow>
             if err \<noteq> None then (s', None, False)
             else if \<not> ok then (s', None, True)
             else (s', lease, False)))"

definition hub_acquirePeerLock ::
  "('s \<Rightarrow> string \<Rightarrow> int \<Rightarrow> 's \<times> 'l option \<times> bool \<times> string option) option \<Rightarrow> 's \<Rightarrow> string
     \<Rightarrow> 's \<times> 'l option \<times> bool" where
  "hub_acquirePeerLock locker s key =
     (case locker of
        None \<Rightarrow> (s, None, False)
      | Some acquire \<Rightarrow>
          (case acquire s key peerLockTTL of (s', lease, ok, err) \<Rightarrow>
             if err \<noteq> None then (s', None, False)
             else if \<not> ok then (s', None, True)
             else (s', lease, False)))"

section \<open>Interleaved clients\<close>

text \<open>Goroutines that run peer mutations: each asks for one lock through \<^verbatim>\<open>acquirePeerLock\<close>, and
  releases it when its handler returns. \<open>procs\<close> maps a goroutine to the key and the lease it holds.\<close>

datatype lock_event = Enter nat string | Leave nat

type_synonym 'l procs = "nat \<rightharpoonup> string \<times> 'l"

fun lock_exec ::
  "('s \<Rightarrow> string \<Rightarrow> int \<Rightarrow> 's \<times> 'l option \<times> bool \<times> string option) \<Rightarrow> ('s \<Rightarrow> 'l \<Rightarrow> 's)
     \<Rightarrow> 's \<times> 'l procs \<Rightarrow> lock_event \<Rightarrow> 's \<times> 'l procs" where
  "lock_exec acquire release (s, h) (Enter p key) =
     (if h p \<noteq> None then (s, h)
      else case acquirePeerLock (Some acquire) s key of
             (s', Some lease, busy) \<Rightarrow> (s', h(p \<mapsto> (key, lease)))
           | (s', None, busy) \<Rightarrow> (s', h))"
| "lock_exec acquire release (s, h) (Leave p) =
     (case h p of None \<Rightarrow> (s, h) | Some (key, lease) \<Rightarrow> (release s lease, h(p := None)))"

definition lock_run where
  "lock_run acquire release st evs = foldl (lock_exec acquire release) st evs"

text \<open>The contract of a locker whose leases do not expire. \<open>good\<close> are its well-formed states.\<close>

locale locker =
  fixes acquire :: "'s \<Rightarrow> string \<Rightarrow> int \<Rightarrow> 's \<times> 'l option \<times> bool \<times> string option"
    and release :: "'s \<Rightarrow> 'l \<Rightarrow> 's"
    and held :: "'s \<Rightarrow> string \<Rightarrow> bool"
    and lease_key :: "'l \<Rightarrow> string"
    and good :: "'s \<Rightarrow> bool"
  assumes acquire_held: "good s \<Longrightarrow> held s k \<Longrightarrow> acquire s k ttl = (s', r) \<Longrightarrow>
      r = (None, False, None) \<and> good s' \<and> held s' = held s"
    and acquire_free: "good s \<Longrightarrow> \<not> held s k \<Longrightarrow> acquire s k ttl = (s', r) \<Longrightarrow>
      \<exists>l. r = (Some l, True, None) \<and> lease_key l = k \<and> good s' \<and> held s' = (held s)(k := True)"
    and release_key: "good s \<Longrightarrow> good (release s l) \<and> held (release s l) = (held s)(lease_key l := False)"
begin

definition consistent :: "'s \<times> 'l procs \<Rightarrow> bool" where
  "consistent st \<longleftrightarrow> (case st of (s, h) \<Rightarrow> good s
     \<and> (\<forall>p k l. h p = Some (k, l) \<longrightarrow> lease_key l = k)
     \<and> (\<forall>p q k l l'. h p = Some (k, l) \<longrightarrow> h q = Some (k, l') \<longrightarrow> p = q)
     \<and> (\<forall>k. held s k \<longleftrightarrow> (\<exists>p l. h p = Some (k, l))))"

lemma peer_lock_cases:
  assumes "good s" "acquirePeerLock (Some acquire) s k = (s', lo, busy)"
  shows "held s k \<and> lo = None \<and> busy \<and> good s' \<and> held s' = held s
       \<or> \<not> held s k \<and> \<not> busy \<and> good s' \<and> held s' = (held s)(k := True)
         \<and> (\<exists>l. lo = Some l \<and> lease_key l = k)"
proof -
  obtain s1 r where a: "acquire s k peerLockTTL = (s1, r)" by (metis surj_pair)
  show ?thesis
  proof (cases "held s k")
    case True
    with acquire_held [OF assms(1) True a] assms(2) a show ?thesis by (simp add: acquirePeerLock_def)
  next
    case False
    with acquire_free [OF assms(1) False a] assms(2) a show ?thesis by (auto simp: acquirePeerLock_def)
  qed
qed

lemma consistent_enter:
  assumes "consistent (s, h)" "h p = None" "acquirePeerLock (Some acquire) s k = (s', lo, busy)"
  shows "consistent (lock_exec acquire release (s, h) (Enter p k))"
proof -
  have g: "good s" using assms(1) by (simp add: consistent_def)
  from peer_lock_cases [OF g assms(3)] show ?thesis
  proof
    assume "held s k \<and> lo = None \<and> busy \<and> good s' \<and> held s' = held s"
    with assms show ?thesis by (simp add: consistent_def)
  next
    assume f: "\<not> held s k \<and> \<not> busy \<and> good s' \<and> held s' = (held s)(k := True)
      \<and> (\<exists>l. lo = Some l \<and> lease_key l = k)"
    then obtain l where l: "lo = Some l" "lease_key l = k" by blast
    have nk: "\<And>q l'. h q \<noteq> Some (k, l')" using f assms(1) by (auto simp: consistent_def)
    have st: "lock_exec acquire release (s, h) (Enter p k) = (s', h(p \<mapsto> (k, l)))"
      using assms l by simp
    have "\<forall>k'. held s' k' \<longleftrightarrow> (\<exists>q l'. (h(p \<mapsto> (k, l))) q = Some (k', l'))"
    proof
      fix k'
      have "held s k' \<longleftrightarrow> (\<exists>q l'. h q = Some (k', l'))" using assms(1) by (simp add: consistent_def)
      with f assms(2) show "held s' k' \<longleftrightarrow> (\<exists>q l'. (h(p \<mapsto> (k, l))) q = Some (k', l'))"
        by (cases "k' = k") (auto, metis option.distinct(1))
    qed
    with st f nk l assms(1) show ?thesis by (auto simp: consistent_def)
  qed
qed

lemma consistent_leave:
  assumes "consistent (s, h)"
  shows "consistent (lock_exec acquire release (s, h) (Leave p))"
proof (cases "h p")
  case None with assms show ?thesis by simp
next
  case (Some kl)
  obtain k l where kl: "kl = (k, l)" by (cases kl)
  have g: "good s" and lk: "lease_key l = k" and u: "\<And>q l'. h q = Some (k, l') \<Longrightarrow> q = p"
    using assms Some kl by (auto simp: consistent_def)
  have rel: "good (release s l)" "held (release s l) = (held s)(k := False)"
    using release_key [OF g, of l] lk by simp_all
  have "\<forall>k'. held (release s l) k' \<longleftrightarrow> (\<exists>q l'. (h(p := None)) q = Some (k', l'))"
  proof
    fix k'
    have hk: "held s k' \<longleftrightarrow> (\<exists>q l'. h q = Some (k', l'))" using assms by (simp add: consistent_def)
    show "held (release s l) k' \<longleftrightarrow> (\<exists>q l'. (h(p := None)) q = Some (k', l'))"
    proof (cases "k' = k")
      case True
      with rel u show ?thesis by auto
    next
      case False
      then have "h q = Some (k', l') \<Longrightarrow> q \<noteq> p" for q l' using Some kl by auto
      with hk False rel show ?thesis by auto
    qed
  qed
  with rel Some kl assms show ?thesis by (auto simp: consistent_def split: if_splits)
qed

lemma consistent_event: "consistent st \<Longrightarrow> consistent (lock_exec acquire release st e)"
proof -
  assume c: "consistent st"
  obtain s h where st: "st = (s, h)" by (cases st)
  show ?thesis
  proof (cases e)
    case (Enter p k)
    obtain s' lo b where "acquirePeerLock (Some acquire) s k = (s', lo, b)" by (metis prod_cases3)
    with consistent_enter [of s h p k] c st Enter show ?thesis by (cases "h p") auto
  next
    case (Leave p)
    with consistent_leave c st show ?thesis by simp
  qed
qed

lemma consistent_run: "consistent st \<Longrightarrow> consistent (lock_run acquire release st evs)"
  unfolding lock_run_def by (induction evs arbitrary: st) (simp_all add: consistent_event)

lemma run_exclusive:
  assumes "good s" "\<And>k. \<not> held s k" "lock_run acquire release (s, Map.empty) evs = (s', h)"
  shows "h p = Some (k, l) \<Longrightarrow> h q = Some (k, l') \<Longrightarrow> p = q"
    and "held s' k \<longleftrightarrow> (\<exists>p l. h p = Some (k, l))"
proof -
  have "consistent (s, Map.empty)" using assms by (simp add: consistent_def)
  then have c: "consistent (s', h)" using consistent_run assms(3) by metis
  show "h p = Some (k, l) \<Longrightarrow> h q = Some (k, l') \<Longrightarrow> p = q"
    and "held s' k \<longleftrightarrow> (\<exists>p l. h p = Some (k, l))"
    using c by (auto simp: consistent_def)
qed

end

section \<open>The in-process locker keeps the contract\<close>

definition local_held :: "local_locker option \<Rightarrow> string \<Rightarrow> bool" where
  "local_held rcv k = (case rcv of Some (Some m) \<Rightarrow> m k = Some True | _ \<Rightarrow> False)"

definition local_good :: "local_locker option \<Rightarrow> bool" where
  "local_good rcv \<longleftrightarrow> rcv \<noteq> None"

interpretation local_lk: locker local_Acquire local_Release local_held ll_key local_good
proof unfold_locales
  fix s k ttl s' r
  assume "local_good s" "local_held s k" "local_Acquire s k ttl = (s', r)"
  then show "r = (None, False, None) \<and> local_good s' \<and> local_held s' = local_held s"
    by (auto simp: local_Acquire_def local_held_def local_good_def fun_eq_iff split: option.splits)
next
  fix s k ttl s' r
  assume "local_good s" "\<not> local_held s k" "local_Acquire s k ttl = (s', r)"
  then show "\<exists>l. r = (Some l, True, None) \<and> ll_key l = k \<and> local_good s' \<and> local_held s' = (local_held s)(k := True)"
    by (auto simp: local_Acquire_def local_held_def local_good_def fun_eq_iff split: option.splits)
next
  fix s l
  assume "local_good s"
  then show "local_good (local_Release s l) \<and> local_held (local_Release s l) = (local_held s)(ll_key l := False)"
    by (auto simp: local_Release_def local_held_def local_good_def fun_eq_iff split: option.splits)
qed

section \<open>The Redis locker\<close>

text \<open>A concrete server: values with their expiry instant.\<close>

definition sample_redis :: "(string \<rightharpoonup> string \<times> int) redis_ops" where
  "sample_redis =
     (let g = (\<lambda>s now k. case s k of Some (v, e) \<Rightarrow> if now < e then Some v else None | None \<Rightarrow> None) in
      \<lparr>r_get = g,
       r_setnx = (\<lambda>s now k v ttl. if g s now k = None then (s(k \<mapsto> (v, now + ttl)), Inr True) else (s, Inr False)),
       r_del = (\<lambda>s now k. (s(k := None), if g s now k = None then 0 else 1)),
       r_pexpire = (\<lambda>s now k ttl. case g s now k of None \<Rightarrow> (s(k := None), 0) | Some v \<Rightarrow> (s(k \<mapsto> (v, now + ttl)), 1)),
       r_run = (\<lambda>s f. case f s of (s', n) \<Rightarrow> (s', Inr n))\<rparr>)"

lemma sample_redis_ok: "redis_ok sample_redis"
  unfolding redis_ok_def
proof (intro conjI)
  show "setnx_ok sample_redis"
    by (auto simp: setnx_ok_def sample_redis_def Let_def split: option.splits if_splits)
  show "del_ok sample_redis"
    by (auto simp: del_ok_def sample_redis_def Let_def split: option.splits if_splits)
  show "pexpire_ok sample_redis"
    by (auto simp: pexpire_ok_def sample_redis_def Let_def split: option.splits if_splits)
  show "run_ok sample_redis"
    by (auto simp: run_ok_def sample_redis_def split: prod.splits)
qed

lemma redis_setnx:
  assumes "redis_ok R" "0 < ttl" "r_setnx R s now k v ttl = (s', Inr b)"
  shows "b = (r_get R s now k = None)"
    and "now \<le> t \<Longrightarrow> r_get R s' t k' =
      (if b \<and> k' = k then (if t < now + ttl then Some v else None) else r_get R s t k')"
  using assms unfolding redis_ok_def setnx_ok_def by blast+

lemma redis_script:
  "redis_ok R \<Longrightarrow> r_run R s f = (s', Inr n) \<Longrightarrow> f s = (s', n)"
  by (auto simp: redis_ok_def run_ok_def)

lemma redis_del:
  assumes "redis_ok R" "r_del R s now k = (s', n)"
  shows "now \<le> t \<Longrightarrow> r_get R s' t k' = (if k' = k then None else r_get R s t k')"
  using assms unfolding redis_ok_def del_ok_def by blast

lemma redis_pexpire:
  assumes "redis_ok R" "0 < ttl" "r_pexpire R s now k ttl = (s', n)"
  shows "n = (if r_get R s now k = None then 0 else 1)"
    and "now \<le> t \<Longrightarrow> r_get R s' t k' =
      (if k' = k then (if t < now + ttl then r_get R s now k else None) else r_get R s t k')"
  using assms unfolding redis_ok_def pexpire_ok_def by blast+

lemma redis_Acquire_cases:
  assumes "redis_Acquire (Some (R, pre)) rnd s now key ttl = (s', lease, ok, err)"
  obtains e where "lease = None" "\<not> ok" "err = Some e"
  | token b where "randomToken rnd = Some token" "r_setnx R s now (pre @ ''lock:'' @ key) token ttl = (s', Inr b)"
      "ok = b" "err = None" "lease = (if b then Some \<lparr>rl_key = pre @ ''lock:'' @ key, rl_token = token\<rparr> else None)"
  using assms
  by (cases "randomToken rnd"; cases "r_setnx R s now (pre @ ''lock:'' @ key) (the (randomToken rnd)) ttl")
     (auto simp: redis_Acquire_def Let_def split: sum.splits if_splits)

lemma redis_Refresh_ok:
  assumes "redis_ok R" "0 < ttl" "redis_Refresh R s now l ttl = (s', None)"
  shows "r_get R s now (rl_key l) = Some (rl_token l)"
    and "now \<le> t \<Longrightarrow> r_get R s' t k =
      (if k = rl_key l then (if t < now + ttl then Some (rl_token l) else None) else r_get R s t k)"
proof -
  let ?f = "refreshScript R now (rl_key l) (rl_token l) ttl"
  from assms(3) have "r_run R s ?f = (s', Inr 1)"
    by (auto simp: redis_Refresh_def split: prod.splits sum.splits if_splits)
  then have f: "?f s = (s', 1)" by (rule redis_script [OF assms(1)])
  then show g: "r_get R s now (rl_key l) = Some (rl_token l)"
    by (auto simp: refreshScript_def split: if_splits)
  with f have "r_pexpire R s now (rl_key l) ttl = (s', 1)" by (simp add: refreshScript_def)
  from redis_pexpire [OF assms(1,2) this] g
  show "now \<le> t \<Longrightarrow> r_get R s' t k =
      (if k = rl_key l then (if t < now + ttl then Some (rl_token l) else None) else r_get R s t k)" by simp
qed

text \<open>The lease is shown by the server from \<open>t\<close> until just before \<open>e\<close>.\<close>

definition redis_holds :: "'s redis_ops \<Rightarrow> 's \<Rightarrow> redisLease \<Rightarrow> int \<Rightarrow> int \<Rightarrow> bool" where
  "redis_holds R s l t e \<longleftrightarrow> (\<forall>u. t \<le> u \<longrightarrow> u < e \<longrightarrow> r_get R s u (rl_key l) = Some (rl_token l))"

definition redis_reachable :: "'s redis_ops \<Rightarrow> bool" where
  "redis_reachable R \<longleftrightarrow> (\<forall>s f. \<exists>s' n. r_run R s f = (s', Inr n))"

lemma renewEvery_less: "1000 < ttl \<Longrightarrow> 0 < renewEvery ttl \<and> renewEvery ttl < ttl"
  by (auto simp: renewEvery_def Let_def)

lemma redis_tick_keeps:
  assumes "redis_ok R" "redis_reachable R" "1000 < ttl" "redis_holds R s l t (t + ttl)"
  shows "\<exists>s'. redis_tick R l ttl (s, t) = ((s', t + renewEvery ttl), None)
     \<and> redis_holds R s' l (t + renewEvery ttl) (t + renewEvery ttl + ttl)"
proof -
  let ?t = "t + renewEvery ttl"
  have lt: "0 < renewEvery ttl" "renewEvery ttl < ttl" using renewEvery_less assms(3) by blast+
  then have g: "r_get R s ?t (rl_key l) = Some (rl_token l)" using assms(4) by (simp add: redis_holds_def)
  obtain s' n where run: "r_run R s (refreshScript R ?t (rl_key l) (rl_token l) ttl) = (s', Inr n)"
    using assms(2) unfolding redis_reachable_def by blast
  from redis_script [OF assms(1) this] g have p: "r_pexpire R s ?t (rl_key l) ttl = (s', n)"
    by (simp add: refreshScript_def)
  have pos: "0 < ttl" using assms(3) by simp
  have "n = 1" using redis_pexpire(1) [OF assms(1) pos p] g by simp
  with run have ref: "redis_Refresh R s ?t l ttl = (s', None)" by (simp add: redis_Refresh_def)
  have "redis_holds R s' l ?t (?t + ttl)"
    using redis_pexpire(2) [OF assms(1) pos p] g by (simp add: redis_holds_def)
  with ref show ?thesis by (simp add: redis_tick_def Let_def)
qed

lemma renew_loop_keeps:
  assumes "redis_ok R" "redis_reachable R" "1000 < ttl" "redis_holds R s l t (t + ttl)"
  shows "\<exists>s'. renew_loop (redis_tick R l ttl) n (s, t) = ((s', t + int n * renewEvery ttl), None)
     \<and> redis_holds R s' l (t + int n * renewEvery ttl) (t + int n * renewEvery ttl + ttl)"
  using assms(4)
proof (induction n arbitrary: s t)
  case 0
  then show ?case by simp
next
  case (Suc n)
  from redis_tick_keeps [OF assms(1-3) Suc.prems] obtain s1 where
    1: "redis_tick R l ttl (s, t) = ((s1, t + renewEvery ttl), None)"
    and 2: "redis_holds R s1 l (t + renewEvery ttl) (t + renewEvery ttl + ttl)" by blast
  from Suc.IH [OF 2] 1 show ?case by (simp add: algebra_simps)
qed

section \<open>Properties\<close>

text \<open>C35. Goroutines that interleave their peer mutations on the in-process locker in any order never
  hold the same key twice, and \<^verbatim>\<open>acquirePeerLock\<close> reports \<open>busy\<close> exactly for the keys that some
  goroutine holds: no key is leaked and none is shared.\<close>

theorem peer_lock_exclusive:
  assumes "lock_run local_Acquire local_Release (Some NewLocalLocker, Map.empty) evs = (s', h)"
  shows "(\<forall>p q k l l'. h p = Some (k, l) \<and> h q = Some (k, l') \<longrightarrow> p = q)
    \<and> (\<forall>k. snd (snd (acquirePeerLock (Some local_Acquire) s' k)) \<longleftrightarrow> (\<exists>p l. h p = Some (k, l)))"
proof -
  have init: "local_good (Some NewLocalLocker)" "\<And>k. \<not> local_held (Some NewLocalLocker) k"
    by (simp_all add: local_good_def local_held_def NewLocalLocker_def)
  note ex = local_lk.run_exclusive [OF init assms]
  have "local_lk.consistent (Some NewLocalLocker, Map.empty)" using init by (simp add: local_lk.consistent_def)
  from local_lk.consistent_run [OF this, of evs] assms have g: "local_good s'"
    by (simp add: local_lk.consistent_def)
  have b: "snd (snd (acquirePeerLock (Some local_Acquire) s' k)) \<longleftrightarrow> local_held s' k" for k
    using local_lk.peer_lock_cases [OF g, of k] by (cases "acquirePeerLock (Some local_Acquire) s' k") auto
  show ?thesis using ex b by blast
qed

theorem peer_lock_exclusive_witness:
  "\<exists>h s'. lock_run local_Acquire local_Release (Some NewLocalLocker, Map.empty)
      [Enter 1 ''peer:a'', Enter 2 ''peer:a'', Enter 3 ''peer:b'', Leave 1, Enter 2 ''peer:a''] = (s', h)
    \<and> (\<forall>p q k l l'. h p = Some (k, l) \<and> h q = Some (k, l') \<longrightarrow> p = q)
    \<and> h 2 = Some (''peer:a'', \<lparr>ll_key = ''peer:a''\<rparr>) \<and> h 1 = None"
proof -
  obtain s' h where r: "lock_run local_Acquire local_Release (Some NewLocalLocker, Map.empty)
      [Enter 1 ''peer:a'', Enter 2 ''peer:a'', Enter 3 ''peer:b'', Leave 1, Enter 2 ''peer:a''] = (s', h)"
    by (metis surj_pair)
  have "h 2 = Some (''peer:a'', \<lparr>ll_key = ''peer:a''\<rparr>) \<and> h 1 = None"
    using r by (auto simp: lock_run_def acquirePeerLock_def local_Acquire_def local_Release_def NewLocalLocker_def)
  with r peer_lock_exclusive [OF r] show ?thesis by blast
qed

text \<open>C36. The Redis locker. An acquisition succeeds exactly when no lease of the key is live, and then
  its own token is shown for \<open>ttl\<close> and expires after it, so a crashed holder does not block the key
  for ever. Releasing a lease removes the key only if the lease's token is still the one stored:
  a lease that has expired and been replaced never frees the new holder's lock.\<close>

theorem redis_lock_correct:
  assumes "redis_ok R" "0 < ttl"
    and acq: "redis_Acquire (Some (R, pre)) rnd s now key ttl = (s', lease, ok, None)"
    and rel: "redis_Release R s2 t2 l2 = (s3, None)"
  shows "(ok \<longleftrightarrow> r_get R s now (pre @ ''lock:'' @ key) = None) \<and> (ok \<longleftrightarrow> lease \<noteq> None)
    \<and> (\<forall>l. lease = Some l \<longrightarrow> redis_holds R s' l now (now + ttl) \<and> r_get R s' (now + ttl) (rl_key l) = None)
    \<and> (\<forall>t k. t2 \<le> t \<longrightarrow> r_get R s3 t k =
         (if k = rl_key l2 \<and> r_get R s2 t2 k = Some (rl_token l2) then None else r_get R s2 t k))"
proof (intro conjI)
  from acq obtain token b where
    a: "r_setnx R s now (pre @ ''lock:'' @ key) token ttl = (s', Inr b)" "ok = b"
      "lease = (if b then Some \<lparr>rl_key = pre @ ''lock:'' @ key, rl_token = token\<rparr> else None)"
    by (rule redis_Acquire_cases) auto
  note nx = redis_setnx [OF assms(1,2) a(1)]
  show "ok \<longleftrightarrow> r_get R s now (pre @ ''lock:'' @ key) = None" using nx(1) a(2) by simp
  show "ok \<longleftrightarrow> lease \<noteq> None" using a by simp
  show "\<forall>l. lease = Some l \<longrightarrow> redis_holds R s' l now (now + ttl) \<and> r_get R s' (now + ttl) (rl_key l) = None"
    using nx(2) a assms(2) by (auto simp: redis_holds_def split: if_splits)
  obtain n where "r_run R s2 (releaseScript R t2 (rl_key l2) (rl_token l2)) = (s3, Inr n)"
    using rel by (auto simp: redis_Release_def split: prod.splits sum.splits)
  then have sc: "releaseScript R t2 (rl_key l2) (rl_token l2) s2 = (s3, n)"
    by (rule redis_script [OF assms(1)])
  show "\<forall>t k. t2 \<le> t \<longrightarrow> r_get R s3 t k =
      (if k = rl_key l2 \<and> r_get R s2 t2 k = Some (rl_token l2) then None else r_get R s2 t k)"
    using sc redis_del [OF assms(1)] by (auto simp: releaseScript_def split: if_splits)
qed

theorem redis_lock_correct_witness:
  "\<exists>s' l s3. redis_Acquire (Some (sample_redis, ''ap:'')) (Some [1, 255]) Map.empty 0 ''peer:a'' 30000 = (s', Some l, True, None)
     \<and> redis_holds sample_redis s' l 0 30000
     \<and> redis_Release sample_redis s' 10 \<lparr>rl_key = ''ap:lock:peer:a'', rl_token = ''stale''\<rparr> = (s3, None)
     \<and> r_get sample_redis s3 10 ''ap:lock:peer:a'' = Some (rl_token l)"
proof -
  let ?l = "\<lparr>rl_key = ''ap:lock:peer:a'', rl_token = hex_encode [1, 255]\<rparr>"
  let ?s = "[''ap:lock:peer:a'' \<mapsto> (hex_encode [1, 255], 30000)] :: string \<rightharpoonup> string \<times> int"
  let ?z = "\<lparr>rl_key = ''ap:lock:peer:a'', rl_token = ''stale''\<rparr>"
  have a: "redis_Acquire (Some (sample_redis, ''ap:'')) (Some [1, 255]) Map.empty 0 ''peer:a'' 30000 = (?s, Some ?l, True, None)"
    by (simp add: redis_Acquire_def randomToken_def sample_redis_def Let_def)
  have h: "hex_encode [1, 255] \<noteq> ''stale''"
    by (simp add: hex_encode_def)
  then have r: "redis_Release sample_redis ?s 10 ?z = (?s, None)"
    by (simp add: redis_Release_def releaseScript_def sample_redis_def)
  note c = redis_lock_correct [OF sample_redis_ok, of 30000, OF _ a r]
  show ?thesis using a r c h by (auto simp: redis_holds_def)
qed

text \<open>C37. A renewed lease outlives its holder's work: with a reachable server and a time to live above
  one second, \<^verbatim>\<open>WithRenewal\<close> runs the function to its end without cancelling it, reports no error, and
  the lock is still held when the function returns, however long that takes.\<close>

theorem WithRenewal_keeps_lock:
  assumes "redis_ok R" "redis_reachable R" "1000 < ttl" "redis_holds R s l t (t + ttl)"
  shows "\<exists>s' t'. WithRenewal (Some (redis_tick R l ttl)) ttl dur (s, t) = ((s', t'), False, None)
     \<and> t' \<le> t + int dur \<and> redis_holds R s' l (t + int dur) (t' + ttl) \<and> t + int dur < t' + ttl"
proof -
  let ?r = "nat (renewEvery ttl)" and ?n = "dur div nat (renewEvery ttl)"
  have r: "0 < renewEvery ttl" "renewEvery ttl < ttl" using renewEvery_less assms(3) by blast+
  from renew_loop_keeps [OF assms, of ?n] obtain s' where
    s': "renew_loop (redis_tick R l ttl) ?n (s, t) = ((s', t + int ?n * renewEvery ttl), None)"
      "redis_holds R s' l (t + int ?n * renewEvery ttl) (t + int ?n * renewEvery ttl + ttl)" by blast
  have m: "int ?n * renewEvery ttl \<le> int dur" "int dur < int ?n * renewEvery ttl + renewEvery ttl"
  proof -
    have "int dur = int ?n * renewEvery ttl + int (dur mod ?r)"
      using r(1) div_mult_mod_eq [of dur ?r] by (metis nat_0_le less_imp_le of_nat_add of_nat_mult)
    moreover have "int (dur mod ?r) < renewEvery ttl" using r(1) by (simp add: zmod_int)
    ultimately show "int ?n * renewEvery ttl \<le> int dur" "int dur < int ?n * renewEvery ttl + renewEvery ttl"
      by simp_all
  qed
  have "redis_holds R s' l (t + int dur) (t + int ?n * renewEvery ttl + ttl)"
    using s'(2) m(1) by (simp add: redis_holds_def)
  moreover have "t + int dur < t + int ?n * renewEvery ttl + ttl" using m(2) r(2) by simp
  moreover have "WithRenewal (Some (redis_tick R l ttl)) ttl dur (s, t) = ((s', t + int ?n * renewEvery ttl), False, None)"
    using s'(1) assms(3) by (simp add: WithRenewal_def)
  ultimately show ?thesis using m(1) by auto
qed

theorem WithRenewal_keeps_lock_witness:
  "\<exists>s' t'. WithRenewal (Some (redis_tick sample_redis \<lparr>rl_key = ''k'', rl_token = ''t''\<rparr> 30000)) 30000 100000
       ([''k'' \<mapsto> (''t'', 30000)], 0) = ((s', t'), False, None)
     \<and> r_get sample_redis s' 100000 ''k'' = Some ''t''"
proof -
  have "redis_reachable sample_redis"
    by (auto simp: redis_reachable_def sample_redis_def Let_def split: prod.splits)
  moreover have "redis_holds sample_redis [''k'' \<mapsto> (''t'', 30000)] \<lparr>rl_key = ''k'', rl_token = ''t''\<rparr> 0 (0 + 30000)"
    by (simp add: redis_holds_def sample_redis_def)
  ultimately show ?thesis
    using WithRenewal_keeps_lock [OF sample_redis_ok, of 30000 "[''k'' \<mapsto> (''t'', 30000)]" "\<lparr>rl_key = ''k'', rl_token = ''t''\<rparr>" 0 100000]
    by (auto simp: redis_holds_def)
qed

end
