(* ===== verification/Cache.thy ===== *)
theory Cache
  imports Json
begin

text \<open>
  \<^verbatim>\<open>internal/cache\<close>: the two-level cache (Redis, and a local bolt file used when Redis is absent or
  as its fallback) behind the alert flags, the failure counters and the settings. Redis is a
  parameter (\<open>redis_kv\<close>) with the hypothesis \<open>kv_ok\<close>; the bolt file is a map of buckets whose write
  transactions commit or fail (\<open>c_txfail\<close> says which of the next ones fail). Instants and
  durations are milliseconds; envelopes keep whole seconds, as the code does.
  \<^verbatim>\<open>DeleteByPrefix\<close> is left out: it deletes under a moving bolt cursor.
\<close>

section \<open>State\<close>

type_synonym bucket = "(string \<times> json) list"
type_synonym bolt = "string \<rightharpoonup> bucket"

datatype kv_result = KvErr string | KvNil | KvVal json

record 's redis_kv =
  kv_get :: "'s \<Rightarrow> int \<Rightarrow> string \<Rightarrow> kv_result"
  kv_set :: "'s \<Rightarrow> int \<Rightarrow> string \<Rightarrow> json \<Rightarrow> int \<Rightarrow> 's \<times> string option"
  kv_del :: "'s \<Rightarrow> int \<Rightarrow> string \<Rightarrow> 's \<times> string option"
  kv_pttl :: "'s \<Rightarrow> int \<Rightarrow> string \<Rightarrow> int option"
  kv_eval :: "'s \<Rightarrow> ('s \<Rightarrow> 's \<times> int) \<Rightarrow> 's \<times> (string + int)"

text \<open>\<open>c_redis\<close> is the client (\<open>None\<close> when nil) and \<open>c_rs\<close> the state of the server behind it.\<close>

record 's cache =
  c_redis :: "'s redis_kv option"
  c_rs :: 's
  c_db :: "bolt option"
  c_txfail :: "bool list"
  c_prefix :: string
  c_fallback :: bool

definition BucketAlerts :: string where "BucketAlerts = ''alerts''"
definition BucketRegistry :: string where "BucketRegistry = ''registry''"
definition BucketRateLimit :: string where "BucketRateLimit = ''rate_limit''"
definition BucketSettings :: string where "BucketSettings = ''settings''"

definition cache_buckets :: "string list" where
  "cache_buckets = [BucketAlerts, BucketRegistry, BucketRateLimit, BucketSettings]"

text \<open>Keys (\<^verbatim>\<open>keys.go\<close>).\<close>

definition AlertBGPDown :: string where "AlertBGPDown = ''a:bgp_d:''"
definition AlertBGPFail :: string where "AlertBGPFail = ''a:bgp_f:''"
definition AlertHandshake :: string where "AlertHandshake = ''a:hs:''"
definition AlertNodeOff :: string where "AlertNodeOff = ''a:noff:''"
definition AlertLatency :: string where "AlertLatency = ''a:lat:''"
definition AlertEndpoint :: string where "AlertEndpoint = ''a:ep:''"
definition LatencyActive :: string where "LatencyActive = ''lat:act:''"
definition SettingVal :: string where "SettingVal = ''s:v:''"
definition SettingThr :: string where "SettingThr = ''s:t:''"
definition RateLimitASN :: string where "RateLimitASN = ''rl:a:''"
definition RateLimitIP :: string where "RateLimitIP = ''rl:ip:''"
definition SiteSettingVal :: string where "SiteSettingVal = ''ss:v:''"

lemmas key_prefix_defs = AlertBGPDown_def AlertBGPFail_def AlertHandshake_def AlertNodeOff_def
  AlertLatency_def AlertEndpoint_def LatencyActive_def SettingVal_def SettingThr_def SiteSettingVal_def

definition ASNKey :: "string \<Rightarrow> int \<Rightarrow> string" where "ASNKey pre asn = pre @ show_int asn"
definition PeerKey :: "string \<Rightarrow> string \<Rightarrow> string" where "PeerKey pre peerID = pre @ peerID"
definition SettingKey :: "string \<Rightarrow> string \<Rightarrow> string" where "SettingKey pre key = pre @ key"

definition NodeKey :: "string \<Rightarrow> string \<Rightarrow> string" where "NodeKey pre nodeID = pre @ nodeID"
definition IPKey :: "string \<Rightarrow> string \<Rightarrow> string" where "IPKey pre ip = pre @ ip"

definition redisKey :: "'s cache \<Rightarrow> string \<Rightarrow> string \<Rightarrow> string" where
  "redisKey c bkt key = c_prefix c @ bkt @ '':'' @ key"

text \<open>Opening: with a Redis client no bolt file is opened; without one and without the fallback
  there is no backend. \<open>boltOk\<close> says whether the file opens.\<close>

definition openWithConfig :: "(string \<times> bool) option \<Rightarrow> ('s redis_kv \<times> 's) option \<Rightarrow> 's \<Rightarrow> bool \<Rightarrow> string + 's cache" where
  "openWithConfig cfg redisClient s0 boltOk =
     (let (pre, fb) = (case cfg of None \<Rightarrow> ([], True) | Some (p, f) \<Rightarrow> (p, f)) in
      case redisClient of
        Some (R, s) \<Rightarrow> Inr \<lparr>c_redis = Some R, c_rs = s, c_db = None, c_txfail = [], c_prefix = pre, c_fallback = fb\<rparr>
      | None \<Rightarrow>
          (if \<not> fb then Inl ''cache has no backend: redis unavailable and local fallback disabled''
           else if \<not> boltOk then Inl ''bolt''
           else Inr \<lparr>c_redis = None, c_rs = s0,
                      c_db = Some (\<lambda>b. if b \<in> set cache_buckets then Some [] else None),
                      c_txfail = [], c_prefix = pre, c_fallback = fb\<rparr>))"

section \<open>The local store\<close>

definition bucket_put :: "string \<Rightarrow> json \<Rightarrow> bucket \<Rightarrow> bucket" where
  "bucket_put k v b = (k, v) # filter (\<lambda>(k', _). k' \<noteq> k) b"

definition bucket_delete :: "string \<Rightarrow> bucket \<Rightarrow> bucket" where
  "bucket_delete k b = filter (\<lambda>(k', _). k' \<noteq> k) b"

text \<open>A write transaction: \<open>f\<close> gives the new file or an error, which rolls it back.\<close>

definition bolt_update :: "(bolt \<Rightarrow> string + bolt) \<Rightarrow> 's cache \<Rightarrow> 's cache \<times> string option" where
  "bolt_update f c =
     (case c_db c of
        None \<Rightarrow> (c, Some ''bolt: no database'')
      | Some db \<Rightarrow>
          (case f db of
             Inl e \<Rightarrow> (c, Some e)
           | Inr db' \<Rightarrow>
               (let c' = c\<lparr>c_txfail := tl (c_txfail c)\<rparr> in
                if c_txfail c \<noteq> [] \<and> hd (c_txfail c) then (c', Some ''bolt: commit'')
                else (c'\<lparr>c_db := Some db'\<rparr>, None))))"

definition unix :: "int \<Rightarrow> int" where
  "unix now = now div 1000"

definition envelope :: "json \<Rightarrow> int \<Rightarrow> json" where
  "envelope v e = JObj [(''e'', jint e), (''v'', v)]"

text \<open>The value and expiry of an envelope; \<open>None\<close> when the stored bytes are not one.\<close>

definition open_envelope :: "json \<Rightarrow> (json \<times> int) option" where
  "open_envelope raw =
     (case raw of
        JObj m \<Rightarrow>
          (case (map_of m ''v'', (case map_of m ''e'' of None \<Rightarrow> Some 0 | Some j \<Rightarrow> dec_int j)) of
             (Some v, Some e) \<Rightarrow> Some (v, e)
           | _ \<Rightarrow> None)
      | _ \<Rightarrow> None)"

definition putLocal :: "int \<Rightarrow> string \<Rightarrow> string \<Rightarrow> json \<Rightarrow> int \<Rightarrow> 's cache \<Rightarrow> 's cache \<times> string option" where
  "putLocal now bkt key v ttl =
     bolt_update (\<lambda>db. case db bkt of
        None \<Rightarrow> Inr db
      | Some b \<Rightarrow> Inr (db(bkt \<mapsto> bucket_put key (if ttl > 0 then envelope v (unix (now + ttl)) else v) b)))"

definition getLocal :: "int \<Rightarrow> (json \<Rightarrow> 'a option) \<Rightarrow> string \<Rightarrow> string \<Rightarrow> bolt \<Rightarrow> 'a option \<times> bool \<times> string option" where
  "getLocal now dec bkt key db =
     (case db bkt of
        None \<Rightarrow> (None, False, None)
      | Some b \<Rightarrow>
          (case map_of b key of
             None \<Rightarrow> (None, False, None)
           | Some raw \<Rightarrow>
               (case open_envelope raw of
                  Some (v, e) \<Rightarrow>
                    (if e > 0 \<and> unix now > e then (None, False, None)
                     else (dec v, True, (if dec v = None then Some ''unmarshal'' else None)))
                | None \<Rightarrow> (case dec raw of Some x \<Rightarrow> (Some x, True, None) | None \<Rightarrow> (None, False, None)))))"

section \<open>The cache\<close>

definition cache_Put :: "int \<Rightarrow> string \<Rightarrow> string \<Rightarrow> json \<Rightarrow> int \<Rightarrow> 's cache \<Rightarrow> 's cache \<times> string option" where
  "cache_Put now bkt key v ttl c =
     (let (c1, redisErr, redisOK) =
            (case c_redis c of
               None \<Rightarrow> (c, None, False)
             | Some R \<Rightarrow> (case kv_set R (c_rs c) now (redisKey c bkt key) v ttl of
                           (s, err) \<Rightarrow> (c\<lparr>c_rs := s\<rparr>, err, err = None)));
          (c2, localErr) = (if c_fallback c1 \<and> c_db c1 \<noteq> None then putLocal now bkt key v ttl c1 else (c1, None)) in
      if redisErr \<noteq> None \<and> \<not> c_fallback c then (c2, redisErr)
      else if \<not> redisOK \<and> localErr \<noteq> None then (c2, localErr)
      else if c_redis c = None \<and> (\<not> c_fallback c \<or> c_db c = None) then (c2, Some ''cache has no available backend'')
      else (c2, None))"

text \<open>\<^verbatim>\<open>Get\<close> returns the decoded value, whether one was found, and the error. The local copy of a value
  read from Redis keeps the remaining time to live.\<close>

definition cache_Get :: "int \<Rightarrow> (json \<Rightarrow> 'a option) \<Rightarrow> string \<Rightarrow> string \<Rightarrow> 's cache \<Rightarrow> 's cache \<times> 'a option \<times> bool \<times> string option" where
  "cache_Get now dec bkt key c =
     (let loc = (\<lambda>c. case c_db c of None \<Rightarrow> (c, None, False, None) | Some db \<Rightarrow> (c, getLocal now dec bkt key db)) in
      case c_redis c of
        None \<Rightarrow> loc c
      | Some R \<Rightarrow>
          (case kv_get R (c_rs c) now (redisKey c bkt key) of
             KvVal raw \<Rightarrow>
               (case dec raw of
                  None \<Rightarrow> (c, None, False, None)
                | Some x \<Rightarrow>
                    (let c' = (if c_fallback c \<and> c_db c \<noteq> None then
                                 (case kv_pttl R (c_rs c) now (redisKey c bkt key) of
                                    Some ttl \<Rightarrow> if ttl > 0 then fst (putLocal now bkt key raw ttl c) else c
                                  | None \<Rightarrow> c)
                               else c)
                     in (c', Some x, True, None)))
           | KvNil \<Rightarrow> (c, None, False, None)
           | KvErr e \<Rightarrow> (if \<not> c_fallback c then (c, None, False, Some e) else loc c)))"

definition cache_Delete :: "int \<Rightarrow> string \<Rightarrow> string \<Rightarrow> 's cache \<Rightarrow> 's cache \<times> string option" where
  "cache_Delete now bkt key c =
     (let (c1, redisErr) =
            (case c_redis c of
               None \<Rightarrow> (c, None)
             | Some R \<Rightarrow> (case kv_del R (c_rs c) now (redisKey c bkt key) of (s, err) \<Rightarrow> (c\<lparr>c_rs := s\<rparr>, err))) in
      if c_db c1 = None then (c1, redisErr)
      else (let (c2, localErr) =
                  bolt_update (\<lambda>db. case db bkt of
                     None \<Rightarrow> Inr db | Some b \<Rightarrow> Inr (db(bkt \<mapsto> bucket_delete key b))) c1 in
            (c2, if redisErr \<noteq> None then redisErr else localErr)))"

text \<open>The counter script: an unreadable value counts as zero, and a running time to live is kept.\<close>

definition incrScript :: "'s redis_kv \<Rightarrow> int \<Rightarrow> string \<Rightarrow> int \<Rightarrow> 's \<Rightarrow> 's \<times> int" where
  "incrScript R now key ttl s =
     (let current = (case kv_get R s now key of KvVal v \<Rightarrow> (case v of JNum l \<Rightarrow> (case atoi l of Some n \<Rightarrow> n | None \<Rightarrow> 0) | _ \<Rightarrow> 0) | _ \<Rightarrow> 0);
          existingTTL = (case kv_pttl R s now key of Some t \<Rightarrow> t | None \<Rightarrow> -2);
          next = current + 1 in
      if existingTTL > 0 then (fst (kv_set R s now key (jint next) existingTTL), next)
      else if ttl > 0 then (fst (kv_set R s now key (jint next) ttl), next)
      else (fst (kv_set R s now key (jint next) 0), next))"

text \<open>The live count of a key in a local bucket.\<close>

definition counter_old :: "int \<Rightarrow> bucket \<Rightarrow> string \<Rightarrow> int" where
  "counter_old now b key =
     (case map_of b key of
        None \<Rightarrow> 0
      | Some raw \<Rightarrow>
          (case open_envelope raw of
             Some (v, e) \<Rightarrow> (if e = 0 \<or> unix now \<le> e then (case dec_int v of Some n \<Rightarrow> n | None \<Rightarrow> 0) else 0)
           | None \<Rightarrow> (case dec_int raw of Some n \<Rightarrow> n | None \<Rightarrow> 0)))"

definition cache_IncInt :: "int \<Rightarrow> string \<Rightarrow> string \<Rightarrow> int \<Rightarrow> 's cache \<Rightarrow> 's cache \<times> (string + int)" where
  "cache_IncInt now bkt key ttl c =
     (let loc = (\<lambda>c.
            case c_db c of
              None \<Rightarrow> (c, Inl ''cache has no available backend'')
            | Some db \<Rightarrow>
                (case db bkt of
                   None \<Rightarrow> (fst (bolt_update (\<lambda>_. Inl ''bucket not found'') c), Inl ''bucket not found'')
                 | Some b \<Rightarrow>
                     (let v = wrap_int64 (counter_old now b key + 1);
                          raw' = (if ttl > 0 then envelope (jint v) (unix (now + ttl)) else jint v) in
                      case bolt_update (\<lambda>db. Inr (db(bkt \<mapsto> bucket_put key raw' b))) c of
                        (c', Some e) \<Rightarrow> (c', Inl e)
                      | (c', None) \<Rightarrow> (c', Inr v)))) in
      case c_redis c of
        None \<Rightarrow> loc c
      | Some R \<Rightarrow>
          (case kv_eval R (c_rs c) (incrScript R now (redisKey c bkt key) ttl) of
             (s, Inr val) \<Rightarrow>
               (let c1 = c\<lparr>c_rs := s\<rparr> in
                (if c_fallback c \<and> c_db c \<noteq> None then fst (putLocal now bkt key (jint val) ttl c1) else c1, Inr val))
           | (s, Inl e) \<Rightarrow>
               (if \<not> c_fallback c then (c\<lparr>c_rs := s\<rparr>, Inl e) else loc (c\<lparr>c_rs := s\<rparr>))))"

section \<open>The contract of the cache\<close>

text \<open>What a client relies on: a value that was put is read back until it expires, a deleted one is
  gone, other keys do not change, and a failed operation changes nothing. \<open>view\<close> is the value a read
  at an instant finds.\<close>

locale kv_cache =
  fixes put :: "int \<Rightarrow> string \<Rightarrow> string \<Rightarrow> json \<Rightarrow> int \<Rightarrow> 'c \<Rightarrow> 'c \<times> string option"
    and delete :: "int \<Rightarrow> string \<Rightarrow> string \<Rightarrow> 'c \<Rightarrow> 'c \<times> string option"
    and view :: "'c \<Rightarrow> int \<Rightarrow> string \<Rightarrow> string \<Rightarrow> json option"
    and good :: "'c \<Rightarrow> bool"
    and bkts :: "string set"
  assumes put_ok: "good c \<Longrightarrow> 1000 \<le> now \<Longrightarrow> 0 < ttl \<Longrightarrow> is_int64 (now + ttl) \<Longrightarrow> bkt \<in> bkts \<Longrightarrow> put now bkt k v ttl c = (c', None) \<Longrightarrow>
      view c' t b' k' = (if b' = bkt \<and> k' = k then (if unix t > unix (now + ttl) then None else Some v) else view c t b' k')"
    and put_err: "good c \<Longrightarrow> put now bkt k v ttl c = (c', Some e) \<Longrightarrow> view c' = view c"
    and put_good: "good c \<Longrightarrow> good (fst (put now bkt k v ttl c))"
    and delete_ok: "good c \<Longrightarrow> bkt \<in> bkts \<Longrightarrow> delete now bkt k c = (c', None) \<Longrightarrow>
      view c' t b' k' = (if b' = bkt \<and> k' = k then None else view c t b' k')"
    and delete_err: "good c \<Longrightarrow> delete now bkt k c = (c', Some e) \<Longrightarrow> view c' = view c"
    and delete_good: "good c \<Longrightarrow> good (fst (delete now bkt k c))"
begin

text \<open>A boolean flag kept under a key: set for \<open>ttl\<close>, or deleted.\<close>

definition set_flag :: "int \<Rightarrow> string \<Rightarrow> string \<Rightarrow> int \<Rightarrow> bool \<Rightarrow> 'c \<Rightarrow> 'c \<times> string option" where
  "set_flag now bkt k ttl v c = (if v then put now bkt k (JBool True) ttl c else delete now bkt k c)"

definition flag :: "'c \<Rightarrow> int \<Rightarrow> string \<Rightarrow> string \<Rightarrow> bool" where
  "flag c t bkt k \<longleftrightarrow> view c t bkt k = Some (JBool True)"

lemma set_flag_good: "good c \<Longrightarrow> good (fst (set_flag now bkt k ttl v c))"
  by (simp add: set_flag_def put_good delete_good)

lemma flag_after_set:
  assumes "good c" "1000 \<le> now" "0 < ttl" "is_int64 (now + ttl)" "bkt \<in> bkts" "set_flag now bkt k ttl v c = (c', None)"
  shows "flag c' t b' k' \<longleftrightarrow>
    (if b' = bkt \<and> k' = k then v \<and> unix t \<le> unix (now + ttl) else flag c t b' k')"
proof (cases v)
  case True
  with assms have "put now bkt k (JBool True) ttl c = (c', None)" by (simp add: set_flag_def)
  from put_ok [OF assms(1-5) this, of t b' k'] True show ?thesis by (auto simp: flag_def)
next
  case False
  with assms have "delete now bkt k c = (c', None)" by (simp add: set_flag_def)
  from delete_ok [OF assms(1,5) this, of t b' k'] False show ?thesis by (auto simp: flag_def)
qed

lemma flag_after_failed_set:
  assumes "good c" "set_flag now bkt k ttl v c = (c', Some e)"
  shows "flag c' t b' k' \<longleftrightarrow> flag c t b' k'"
  using assms put_err [OF assms(1)] delete_err [OF assms(1)]
  by (cases v) (auto simp: set_flag_def flag_def)

end

section \<open>The single-node cache keeps the contract\<close>

definition local_mode :: "'s cache \<Rightarrow> bool" where
  "local_mode c \<longleftrightarrow> c_redis c = None \<and> c_fallback c
     \<and> (\<exists>db. c_db c = Some db \<and> (\<forall>b \<in> set cache_buckets. db b \<noteq> None))"

definition local_view :: "'s cache \<Rightarrow> int \<Rightarrow> string \<Rightarrow> string \<Rightarrow> json option" where
  "local_view c t bkt k = (case c_db c of None \<Rightarrow> None | Some db \<Rightarrow> fst (getLocal t Some bkt k db))"

lemma map_of_bucket_delete [simp]: "map_of (bucket_delete k b) = (map_of b)(k := None)"
  by (induction b) (auto simp: bucket_delete_def fun_eq_iff)

lemma map_of_bucket_put [simp]: "map_of (bucket_put k v b) = (map_of b)(k \<mapsto> v)"
  using map_of_bucket_delete [of k b] by (simp add: bucket_put_def bucket_delete_def)

lemma unix_int64: "is_int64 x \<Longrightarrow> is_int64 (unix x)"
  by (auto simp: is_int64_def unix_def)

lemma open_envelope_envelope [simp]: "is_int64 e \<Longrightarrow> open_envelope (envelope v e) = Some (v, e)"
  by (simp add: open_envelope_def envelope_def)

lemma unix_pos: "1000 \<le> now \<Longrightarrow> 0 < ttl \<Longrightarrow> 0 < unix (now + ttl)"
  by (simp add: unix_def)

lemma putLocal_cases:
  assumes "local_mode c" "c_db c = Some db"
  shows "putLocal now bkt key v ttl c = (c\<lparr>c_txfail := tl (c_txfail c)\<rparr>, Some ''bolt: commit'')
    \<or> putLocal now bkt key v ttl c = (c\<lparr>c_txfail := tl (c_txfail c), c_db := Some (case db bkt of None \<Rightarrow> db
       | Some b \<Rightarrow> db(bkt \<mapsto> bucket_put key (if ttl > 0 then envelope v (unix (now + ttl)) else v) b))\<rparr>, None)"
  using assms by (simp add: putLocal_def bolt_update_def Let_def split: option.split)

lemma cache_Put_local: "local_mode c \<Longrightarrow> cache_Put now bkt k v ttl c = putLocal now bkt k v ttl c"
  by (auto simp: cache_Put_def local_mode_def Let_def split: prod.splits)

lemma cache_Delete_cases:
  assumes "local_mode c" "c_db c = Some db"
  shows "cache_Delete now bkt key c = (c\<lparr>c_txfail := tl (c_txfail c)\<rparr>, Some ''bolt: commit'')
    \<or> cache_Delete now bkt key c = (c\<lparr>c_txfail := tl (c_txfail c), c_db := Some (case db bkt of None \<Rightarrow> db
       | Some b \<Rightarrow> db(bkt \<mapsto> bucket_delete key b))\<rparr>, None)"
  using assms by (simp add: cache_Delete_def local_mode_def bolt_update_def Let_def split: option.split)

lemma getLocal_put:
  assumes "1000 \<le> now" "0 < ttl" "is_int64 (now + ttl)" "db bkt = Some b"
  shows "fst (getLocal t Some b' k' (db(bkt \<mapsto> bucket_put k (envelope v (unix (now + ttl))) b))) =
    (if b' = bkt \<and> k' = k then (if unix t > unix (now + ttl) then None else Some v) else fst (getLocal t Some b' k' db))"
  using assms unix_pos [OF assms(1,2)] unix_int64 [OF assms(3)] by (auto simp: getLocal_def)

lemma getLocal_delete:
  assumes "db bkt = Some b"
  shows "fst (getLocal t Some b' k' (db(bkt \<mapsto> bucket_delete k b))) =
    (if b' = bkt \<and> k' = k then None else fst (getLocal t Some b' k' db))"
  using assms by (auto simp: getLocal_def)

interpretation local_kv: kv_cache cache_Put cache_Delete local_view local_mode "set cache_buckets"
proof unfold_locales
  fix c :: "'s cache" and now ttl :: int and bkt k v c' t b' k'
  assume a: "local_mode c" "1000 \<le> now" "0 < ttl" "is_int64 (now + ttl)" "bkt \<in> set cache_buckets"
    "cache_Put now bkt k v ttl c = (c', None)"
  from a(1,5) obtain db b where db: "c_db c = Some db" "db bkt = Some b" by (auto simp: local_mode_def)
  from putLocal_cases [OF a(1) db(1), of now bkt k v ttl] a(6) db a(3)
  have "c' = c\<lparr>c_txfail := tl (c_txfail c), c_db := Some (db(bkt \<mapsto> bucket_put k (envelope v (unix (now + ttl))) b))\<rparr>"
    by (auto simp: cache_Put_local [OF a(1)])
  then show "local_view c' t b' k' = (if b' = bkt \<and> k' = k then if unix (now + ttl) < unix t then None else Some v else local_view c t b' k')"
    using getLocal_put [of now ttl db bkt b] a(2-4) db by (simp add: local_view_def)
next
  fix c :: "'s cache" and now bkt k v ttl c' e
  assume a: "local_mode c" "cache_Put now bkt k v ttl c = (c', Some e)"
  from a(1) obtain db where db: "c_db c = Some db" by (auto simp: local_mode_def)
  from putLocal_cases [OF a(1) db, of now bkt k v ttl] a(2) show "local_view c' = local_view c"
    by (auto simp: cache_Put_local [OF a(1)] local_view_def fun_eq_iff)
next
  fix c :: "'s cache" and now bkt k v ttl
  assume a: "local_mode c"
  from a obtain db where db: "c_db c = Some db" by (auto simp: local_mode_def)
  from putLocal_cases [OF a db, of now bkt k v ttl] a db show "local_mode (fst (cache_Put now bkt k v ttl c))"
    by (auto simp: cache_Put_local [OF a] local_mode_def split: option.splits)
next
  fix c :: "'s cache" and now bkt k c' t b' k'
  assume a: "local_mode c" "bkt \<in> set cache_buckets" "cache_Delete now bkt k c = (c', None)"
  from a(1,2) obtain db b where db: "c_db c = Some db" "db bkt = Some b" by (auto simp: local_mode_def)
  from cache_Delete_cases [OF a(1) db(1), of now bkt k] a(3) db
  have "c' = c\<lparr>c_txfail := tl (c_txfail c), c_db := Some (db(bkt \<mapsto> bucket_delete k b))\<rparr>" by auto
  then show "local_view c' t b' k' = (if b' = bkt \<and> k' = k then None else local_view c t b' k')"
    using getLocal_delete [of db bkt b] db by (simp add: local_view_def)
next
  fix c :: "'s cache" and now bkt k c' e
  assume a: "local_mode c" "cache_Delete now bkt k c = (c', Some e)"
  from a(1) obtain db where db: "c_db c = Some db" by (auto simp: local_mode_def)
  from cache_Delete_cases [OF a(1) db, of now bkt k] a(2) show "local_view c' = local_view c"
    by (auto simp: local_view_def fun_eq_iff)
next
  fix c :: "'s cache" and now bkt k
  assume a: "local_mode c"
  from a obtain db where db: "c_db c = Some db" by (auto simp: local_mode_def)
  from cache_Delete_cases [OF a db, of now bkt k] a db show "local_mode (fst (cache_Delete now bkt k c))"
    by (auto simp: local_mode_def split: option.splits)
qed

lemma cache_Get_view:
  assumes "local_mode c"
  shows "local_view c now bkt k = None \<Longrightarrow> cache_Get now dec bkt k c = (c, None, False, None)"
    and "local_view c now bkt k = Some v \<Longrightarrow> dec v = Some x \<Longrightarrow> cache_Get now dec bkt k c = (c, Some x, True, None)"
  using assms
  by (auto simp: cache_Get_def local_mode_def local_view_def getLocal_def split: option.splits if_splits)

lemma cache_Get_state: "local_mode c \<Longrightarrow> fst (cache_Get now dec bkt k c) = c"
  by (auto simp: cache_Get_def local_mode_def)

lemma cache_IncInt_local:
  assumes "local_mode c" "c_db c = Some db" "db bkt = Some b" "0 < ttl" "cache_IncInt now bkt k ttl c = (c', Inr n)"
  shows "n = wrap_int64 (counter_old now b k + 1)"
    and "c' = c\<lparr>c_txfail := tl (c_txfail c),
      c_db := Some (db(bkt \<mapsto> bucket_put k (envelope (jint n) (unix (now + ttl))) b))\<rparr>"
proof -
  let ?v = "wrap_int64 (counter_old now b k + 1)"
  have "cache_IncInt now bkt k ttl c = (if c_txfail c \<noteq> [] \<and> hd (c_txfail c)
      then (c\<lparr>c_txfail := tl (c_txfail c)\<rparr>, Inl ''bolt: commit'')
      else (c\<lparr>c_txfail := tl (c_txfail c),
        c_db := Some (db(bkt \<mapsto> bucket_put k (envelope (jint ?v) (unix (now + ttl))) b))\<rparr>, Inr ?v))"
    using assms(1-4) by (simp add: cache_IncInt_def Let_def local_mode_def bolt_update_def)
  with assms(5) show "n = ?v"
    and "c' = c\<lparr>c_txfail := tl (c_txfail c),
      c_db := Some (db(bkt \<mapsto> bucket_put k (envelope (jint n) (unix (now + ttl))) b))\<rparr>"
    by (auto split: if_splits)
qed

lemma counter_old_envelope:
  "is_int64 n \<Longrightarrow> is_int64 e \<Longrightarrow> 0 < e \<Longrightarrow> counter_old t (bucket_put k (envelope (jint n) e) b) k = (if unix t \<le> e then n else 0)"
  by (simp add: counter_old_def)

section \<open>Properties\<close>

text \<open>C38. On a single node a cached value is read back, decoded, until the whole second after its time
  to live, and not later; deleting it makes it absent at once; a put or delete that fails leaves
  every key as it was, and one that succeeds leaves every other key as it was.\<close>

theorem cache_roundtrip:
  assumes "local_mode c" "1000 \<le> now" "0 < ttl" "is_int64 (now + ttl)" "bkt \<in> set cache_buckets"
    and dec: "dec v = Some x"
    and put: "cache_Put now bkt k v ttl c = (c1, err1)"
    and del: "cache_Delete now2 bkt k c1 = (c2, err2)"
  shows "(err1 = None \<longrightarrow> snd (cache_Get t dec bkt k c1) =
            (if unix t \<le> unix (now + ttl) then (Some x, True, None) else (None, False, None)))
     \<and> (err1 \<noteq> None \<longrightarrow> local_view c1 = local_view c)
     \<and> (err2 = None \<longrightarrow> snd (cache_Get t dec bkt k c2) = (None, False, None))
     \<and> (\<forall>b' k'. (b', k') \<noteq> (bkt, k) \<longrightarrow> local_view c2 t b' k' = local_view c t b' k')"
proof -
  have g1: "local_mode c1" using local_kv.put_good [OF assms(1), of now bkt k v ttl] put by simp
  have g2: "local_mode c2" using local_kv.delete_good [OF g1, of now2 bkt k] del by simp
  have v1: "err1 = None \<Longrightarrow> local_view c1 s b' k' =
      (if b' = bkt \<and> k' = k then (if unix s > unix (now + ttl) then None else Some v) else local_view c s b' k')" for s b' k'
    using local_kv.put_ok [OF assms(1-5)] put by blast
  have v1e: "err1 \<noteq> None \<Longrightarrow> local_view c1 = local_view c"
    using local_kv.put_err [OF assms(1)] put by blast
  have v2: "err2 = None \<Longrightarrow> local_view c2 s b' k' = (if b' = bkt \<and> k' = k then None else local_view c1 s b' k')" for s b' k'
    using local_kv.delete_ok [OF g1 assms(5)] del by blast
  have v2e: "err2 \<noteq> None \<Longrightarrow> local_view c2 = local_view c1"
    using local_kv.delete_err [OF g1] del by blast
  have "err1 = None \<Longrightarrow> snd (cache_Get t dec bkt k c1) =
      (if unix t \<le> unix (now + ttl) then (Some x, True, None) else (None, False, None))"
    using v1 [of t bkt k] cache_Get_view(1) [OF g1, of t bkt k dec] cache_Get_view(2) [OF g1, of t bkt k v dec x] dec
    by (cases "unix t \<le> unix (now + ttl)") auto
  moreover have "err2 = None \<Longrightarrow> snd (cache_Get t dec bkt k c2) = (None, False, None)"
    using v2 [of t bkt k] cache_Get_view(1) [OF g2, of t bkt k dec] by simp
  moreover have "(b', k') \<noteq> (bkt, k) \<Longrightarrow> local_view c2 t b' k' = local_view c t b' k'" for b' k'
    using v1 [of t b' k'] v1e v2 [of t b' k'] v2e by (cases err1; cases err2) auto
  ultimately show ?thesis using v1e by blast
qed

definition sample_cache :: "unit cache" where
  "sample_cache = \<lparr>c_redis = None, c_rs = (), c_db = Some (\<lambda>b. if b \<in> set cache_buckets then Some [] else None),
     c_txfail = [], c_prefix = [], c_fallback = True\<rparr>"

lemma sample_cache_open: "openWithConfig None None () True = Inr sample_cache"
  by (simp add: openWithConfig_def sample_cache_def)

lemma sample_cache_mode: "local_mode sample_cache"
  by (simp add: local_mode_def sample_cache_def)

theorem cache_roundtrip_witness:
  "\<exists>c1 c2. cache_Put 5000 BucketAlerts ''k'' (JBool True) 60000 sample_cache = (c1, None)
     \<and> snd (cache_Get 65000 dec_bool BucketAlerts ''k'' c1) = (Some True, True, None)
     \<and> snd (cache_Get 66000 dec_bool BucketAlerts ''k'' c1) = (None, False, None)
     \<and> cache_Delete 6000 BucketAlerts ''k'' c1 = (c2, None)
     \<and> snd (cache_Get 6000 dec_bool BucketAlerts ''k'' c2) = (None, False, None)"
proof -
  obtain c1 e1 where p: "cache_Put 5000 BucketAlerts ''k'' (JBool True) 60000 sample_cache = (c1, e1)" by (metis surj_pair)
  obtain c2 e2 where d: "cache_Delete 6000 BucketAlerts ''k'' c1 = (c2, e2)" by (metis surj_pair)
  note p' = p [unfolded cache_Put_local [OF sample_cache_mode]]
  have e1: "e1 = None" using p' by (auto simp: putLocal_def bolt_update_def sample_cache_def split: option.splits)
  have m1: "local_mode c1" using local_kv.put_good [OF sample_cache_mode, of 5000 BucketAlerts "''k''" "JBool True" 60000] p by simp
  have "c_txfail c1 = []" using p'
    by (auto simp: putLocal_def bolt_update_def sample_cache_def split: option.splits)
  then have e2: "e2 = None" using d m1 by (auto simp: cache_Delete_def bolt_update_def local_mode_def split: option.splits)
  have i: "is_int64 65000" "BucketAlerts \<in> set cache_buckets" by (simp_all add: is_int64_def cache_buckets_def)
  note r = cache_roundtrip [OF sample_cache_mode, of 5000 60000 BucketAlerts dec_bool "JBool True" True "''k''" c1 e1 6000 c2 e2]
  show ?thesis
    using r [of 65000] r [of 66000] r [of 6000] p d i e1 e2 by (simp add: unix_def)
qed

text \<open>Failure counters on a single node count by one and restart their window at every increment:
  an increment returns one more than the count that is still live (one, when the old count has
  expired), and the new count lives for the full time to live from now.\<close>

theorem cache_IncInt_counts:
  assumes "local_mode c" "bkt \<in> set cache_buckets" "1000 \<le> now" "0 < ttl" "is_int64 (now + ttl)"
    and "cache_IncInt now bkt k ttl c = (c1, Inr n)"
    and "now \<le> now2" "is_int64 (now2 + ttl)"
    and "cache_IncInt now2 bkt k ttl c1 = (c2, Inr m)"
  shows "m = (if unix now2 > unix (now + ttl) then 1 else wrap_int64 (n + 1))
    \<and> (\<forall>t. local_view c2 t bkt k = (if unix t > unix (now2 + ttl) then None else Some (jint m)))"
proof -
  from assms(1,2) obtain db b where db: "c_db c = Some db" "db bkt = Some b" by (auto simp: local_mode_def)
  note s1 = cache_IncInt_local [OF assms(1) db assms(4,6)]
  let ?b = "bucket_put k (envelope (jint n) (unix (now + ttl))) b"
  have m1: "local_mode c1" using assms(1) s1(2) db by (auto simp: local_mode_def)
  have db1: "c_db c1 = Some (db(bkt \<mapsto> ?b))" "(db(bkt \<mapsto> ?b)) bkt = Some ?b" using s1(2) by simp_all
  note s2 = cache_IncInt_local [OF m1 db1 assms(4,9)]
  have e: "is_int64 (unix (now + ttl))" "0 < unix (now + ttl)" using unix_int64 unix_pos assms(3-5) by blast+
  have n: "is_int64 n" using s1(1) wrap_int64_range by simp
  have one: "wrap_int64 1 = 1" by (simp add: is_int64_def)
  have "m = (if unix now2 > unix (now + ttl) then 1 else wrap_int64 (n + 1))"
    using s2(1) counter_old_envelope [OF n e] one by simp
  moreover have "local_view c2 t bkt k = (if unix t > unix (now2 + ttl) then None else Some (jint m))" for t
  proof -
    have now2: "1000 \<le> now2" using assms(3,7) by simp
    have "c_db c2 = Some ((db(bkt \<mapsto> ?b))(bkt \<mapsto> bucket_put k (envelope (jint m) (unix (now2 + ttl))) ?b))"
      unfolding s2(2) by simp
    with getLocal_put [OF now2 assms(4,8), of "db(bkt \<mapsto> ?b)" bkt ?b t bkt k k "jint m"] show ?thesis
      by (simp only: local_view_def option.case) simp
  qed
  ultimately show ?thesis by blast
qed

theorem cache_IncInt_counts_witness:
  "\<exists>c1 c2. cache_IncInt 5000 BucketAlerts ''k'' 60000 sample_cache = (c1, Inr 1)
     \<and> cache_IncInt 9000 BucketAlerts ''k'' 60000 c1 = (c2, Inr 2)
     \<and> local_view c2 69000 BucketAlerts ''k'' = Some (jint 2)"
proof -
  have i: "is_int64 65000" "is_int64 69000" "is_int64 65" "BucketAlerts \<in> set cache_buckets" "wrap_int64 1 = 1" "wrap_int64 2 = 2"
    by (simp_all add: is_int64_def cache_buckets_def)
  let ?db = "\<lambda>b. if b \<in> set cache_buckets then Some [] else None :: bucket option"
  let ?c1 = "sample_cache\<lparr>c_db := Some (?db(BucketAlerts \<mapsto> bucket_put ''k'' (envelope (jint 1) 65) []))\<rparr>"
  have a: "cache_IncInt 5000 BucketAlerts ''k'' 60000 sample_cache = (?c1, Inr 1)"
    using i by (simp add: cache_IncInt_def Let_def bolt_update_def sample_cache_def counter_old_def unix_def)
  obtain c2 r where b: "cache_IncInt 9000 BucketAlerts ''k'' 60000 ?c1 = (c2, r)" by (metis surj_pair)
  have r: "r = Inr 2"
    using b i counter_old_envelope [of 1 65 9000 "''k''" "[]"]
    by (auto simp: cache_IncInt_def Let_def bolt_update_def sample_cache_def unix_def is_int64_def)
  note t = cache_IncInt_counts [OF sample_cache_mode i(4), of 5000 60000 "''k''" ?c1 1 9000 c2 2]
  show ?thesis using a b r i t by (auto simp: unix_def)
qed

text \<open>With a Redis client there is no bolt file, whatever the fallback setting: when the fallback is
  on, a value whose write to Redis fails is dropped and the put still reports success.\<close>

theorem cache_Put_silent_loss:
  assumes "openWithConfig (Some (pre, True)) (Some (R, s)) s0 boltOk = Inr c"
    and "kv_set R s now (redisKey c bkt k) v ttl = (s, Some e)"
  shows "cache_Put now bkt k v ttl c = (c, None)"
  using assms by (auto simp: openWithConfig_def cache_Put_def)

theorem cache_Put_silent_loss_witness:
  "let R = \<lparr>kv_get = (\<lambda>_ _ _. KvErr ''i/o timeout''), kv_set = (\<lambda>s _ _ _ _. (s, Some ''i/o timeout'')),
             kv_del = (\<lambda>s _ _. (s, Some ''i/o timeout'')), kv_pttl = (\<lambda>_ _ _. None),
             kv_eval = (\<lambda>s _. (s, Inl ''i/o timeout''))\<rparr> :: unit redis_kv
   in \<forall>c. openWithConfig (Some ([], True)) (Some (R, ())) () True = Inr c \<longrightarrow>
        cache_Put 5000 BucketAlerts ''k'' (JBool True) 60000 c = (c, None)"
  unfolding Let_def by (intro allI impI, rule cache_Put_silent_loss, assumption) simp

end
