(* ===== verification/Registry.thy ===== *)
theory Registry
  imports Cache
begin

text \<open>
  \<^verbatim>\<open>internal/service/registry.go\<close>: the DN42 registry client, which reads contact addresses and PGP
  fingerprints from the registry's text objects and keeps them in the cache. The HTTP exchange is
  the parameter \<open>rs_get\<close> (URL and \<^verbatim>\<open>Authorization\<close> header to an error, or a status and a body).
\<close>

section \<open>Definitions\<close>

record registry_service =
  rs_token :: string
  rs_get :: "string \<Rightarrow> string option \<Rightarrow> string + int \<times> string"

definition newline :: char where
  "newline = CHR 0x0A"

definition fetchURL :: "registry_service \<Rightarrow> string \<Rightarrow> string + string" where
  "fetchURL s url =
     (case rs_get s url (if rs_token s \<noteq> [] then Some (''token '' @ rs_token s) else None) of
        Inl e \<Rightarrow> Inl e
      | Inr (status, body) \<Rightarrow>
          (if status = 404 then Inl ''not found''
           else if status \<noteq> 200 then Inl (''unexpected status: '' @ show_int status)
           else Inr (take 65536 body)))"

fun parse_field_lines :: "string \<Rightarrow> string list \<Rightarrow> string" where
  "parse_field_lines pre [] = []"
| "parse_field_lines pre (l # ls) =
     (let line = trim_space l in
      if has_prefix line pre then trim_space (trim_prefix line pre) else parse_field_lines pre ls)"

definition parseField :: "string \<Rightarrow> string \<Rightarrow> string" where
  "parseField data field = parse_field_lines (field @ '':'') (split_on newline data)"

definition parseAllFields :: "string \<Rightarrow> string \<Rightarrow> string list" where
  "parseAllFields data field =
     (let pre = field @ '':'' in
      map (\<lambda>l. trim_space (trim_prefix (trim_space l) pre))
        (filter (\<lambda>l. has_prefix (trim_space l) pre) (split_on newline data)))"

definition MaskEmail :: "string \<Rightarrow> string" where
  "MaskEmail email =
     (case index_of (CHR ''@'') email of
        None \<Rightarrow> ''***''
      | Some i \<Rightarrow>
          (let loc = take i email; domain = drop (Suc i) email in
           if length loc \<le> 1 then loc @ ''***@'' @ domain else [hd loc] @ ''***@'' @ domain))"

definition RegistryASN :: string where "RegistryASN = ''r:asn:''"
definition RegistryGPG :: string where "RegistryGPG = ''r:gpg:''"

definition registry_url :: "string \<Rightarrow> string \<Rightarrow> string" where
  "registry_url kind name = ''https://git.dn42.dev/dn42/registry/raw/branch/master/data/'' @ kind @ ''/'' @ name"

text \<open>The lookups return the cache they leave, and the error or the value.\<close>

definition registry_LookupASNEmail :: "registry_service \<Rightarrow> int \<Rightarrow> int \<Rightarrow> 's cache \<Rightarrow> 's cache \<times> (string + string)" where
  "registry_LookupASNEmail s now asn c =
     (case cache_Get now dec_str BucketRegistry (ASNKey RegistryASN asn) c of
        (c1, email, ok, _) \<Rightarrow>
          (if ok then (c1, Inr (case email of Some e \<Rightarrow> e | None \<Rightarrow> []))
           else
             (case fetchURL s (registry_url ''aut-num'' (''AS'' @ show_int asn)) of
                Inl e \<Rightarrow> (c1, Inl (''fetch aut-num: '' @ e))
              | Inr autNumData \<Rightarrow>
                  (let adminC = parseField autNumData ''admin-c'' in
                   if adminC = [] then (c1, Inl (''admin-c not found for AS'' @ show_int asn))
                   else
                     (case fetchURL s (registry_url ''person'' adminC) of
                        Inl e \<Rightarrow> (c1, Inl (''fetch person '' @ adminC @ '': '' @ e))
                      | Inr personData \<Rightarrow>
                          (let mail = parseField personData ''e-mail'' in
                           if mail = [] then (c1, Inl (''e-mail not found for person '' @ adminC))
                           else (fst (cache_Put now BucketRegistry (ASNKey RegistryASN asn) (JStr mail) 300000 c1), Inr mail)))))))"

text \<open>A cached list of fingerprints: \<^verbatim>\<open>null\<close> is the list the code caches when there are none.\<close>

definition dec_str_list :: "json \<Rightarrow> string list option" where
  "dec_str_list v = (case v of JNull \<Rightarrow> Some [] | JArr xs \<Rightarrow> those (map dec_str xs) | _ \<Rightarrow> None)"

definition enc_str_list :: "string list \<Rightarrow> json" where
  "enc_str_list xs = (if xs = [] then JNull else JArr (map JStr xs))"

definition pgp_fingerprints :: "string list \<Rightarrow> string list" where
  "pgp_fingerprints authLines =
     (let pre = ''pgp-fingerprint '';
          own = filter (\<lambda>a. has_prefix a pre) (map trim_space authLines) in
      filter (\<lambda>fp. fp \<noteq> []) (map (\<lambda>a. filter (\<lambda>ch. ch \<noteq> CHR '' '') (trim_space (trim_prefix a pre))) own))"

definition registry_LookupMntnerGPGFingerprints ::
  "registry_service \<Rightarrow> int \<Rightarrow> int \<Rightarrow> 's cache \<Rightarrow> 's cache \<times> (string + string list)" where
  "registry_LookupMntnerGPGFingerprints s now asn c =
     (let cacheKey = ASNKey RegistryGPG asn in
      case cache_Get now dec_str_list BucketRegistry cacheKey c of
        (c1, fps, ok, _) \<Rightarrow>
          (if ok then (c1, Inr (case fps of Some l \<Rightarrow> l | None \<Rightarrow> []))
           else
             (case fetchURL s (registry_url ''aut-num'' (''AS'' @ show_int asn)) of
                Inl e \<Rightarrow> (c1, Inl (''fetch aut-num: '' @ e))
              | Inr autNumData \<Rightarrow>
                  (let mntBy = parseField autNumData ''mnt-by'' in
                   if mntBy = [] then (c1, Inl (''mnt-by not found for AS'' @ show_int asn))
                   else
                     (case fetchURL s (registry_url ''mntner'' mntBy) of
                        Inl e \<Rightarrow> (c1, Inl (''fetch mntner '' @ mntBy @ '': '' @ e))
                      | Inr mntnerData \<Rightarrow>
                          (let fps = pgp_fingerprints (parseAllFields mntnerData ''auth'') in
                           (fst (cache_Put now BucketRegistry cacheKey (enc_str_list fps) 300000 c1), Inr fps)))))))"

definition keyservers :: "string \<Rightarrow> string list" where
  "keyservers fp =
     [''https://keys.openpgp.org/vks/v1/by-fingerprint/'' @ fp,
      ''https://keyserver.ubuntu.com/pks/lookup?op=get&search=0x'' @ fp @ ''&options=mr'',
      ''https://keys.mailvelope.com/api/v1/key?fingerprint='' @ fp]"

text \<open>The first key server that answers; \<open>Inl\<close> the error of the last one that did not.\<close>

fun try_keyservers :: "registry_service \<Rightarrow> string list \<Rightarrow> string \<Rightarrow> string + string" where
  "try_keyservers s [] lastErr = Inl lastErr"
| "try_keyservers s (u # us) lastErr = (case fetchURL s u of Inl e \<Rightarrow> try_keyservers s us e | Inr d \<Rightarrow> Inr d)"

definition registry_FetchGPGPublicKey :: "registry_service \<Rightarrow> int \<Rightarrow> string \<Rightarrow> 's cache \<Rightarrow> 's cache \<times> (string + string)" where
  "registry_FetchGPGPublicKey s now fingerprint c =
     (let cacheKey = PeerKey RegistryGPG (''pubkey:'' @ fingerprint) in
      case cache_Get now dec_str BucketRegistry cacheKey c of
        (c1, cached, ok, _) \<Rightarrow>
          (if ok \<and> (case cached of Some k \<Rightarrow> k \<noteq> [] | None \<Rightarrow> False) then (c1, Inr (the cached))
           else
             (case try_keyservers s (keyservers fingerprint) [] of
                Inl e \<Rightarrow> (c1, Inl (''public key not found on any keyserver (tried 3 servers); please upload your public key to keys.openpgp.org or keyserver.ubuntu.com: last error: '' @ e))
              | Inr d \<Rightarrow> (fst (cache_Put now BucketRegistry cacheKey (JStr d) 1800000 c1), Inr d))))"

section \<open>Lemmas\<close>

lemma parse_field_first:
  "\<not> (\<exists>l \<in> set pre. has_prefix (trim_space l) p) \<Longrightarrow> has_prefix (trim_space l) p \<Longrightarrow>
   parse_field_lines p (pre @ l # rest) = trim_space (trim_prefix (trim_space l) p)"
  by (induction pre) (auto simp: Let_def)

lemma parse_field_lines_iff:
  "parse_field_lines p ls = (case filter (\<lambda>l. has_prefix (trim_space l) p) ls of
     [] \<Rightarrow> [] | l # _ \<Rightarrow> trim_space (trim_prefix (trim_space l) p))"
  by (induction ls) (auto simp: Let_def)

text \<open>The single-valued reader returns the first of the values the other one lists.\<close>

lemma parseField_hd: "parseField data field = (case parseAllFields data field of [] \<Rightarrow> [] | v # _ \<Rightarrow> v)"
  by (simp add: parseField_def parseAllFields_def parse_field_lines_iff Let_def split: list.splits)

lemma pgp_fingerprints_no_blank: "fp \<in> set (pgp_fingerprints as) \<Longrightarrow> fp \<noteq> [] \<and> CHR '' '' \<notin> set fp"
  by (auto simp: pgp_fingerprints_def Let_def)

lemma MaskEmail_split:
  "CHR ''@'' \<notin> set u \<Longrightarrow> MaskEmail (u @ ''@'' @ d) = take 1 u @ ''***@'' @ d"
  by (cases u) (auto simp: MaskEmail_def Let_def index_of_append)

end
