(* ===== verification/AuthData.thy ===== *)
theory AuthData
  imports Prelude
begin

text \<open>
  The rows of the authentication tables (\<^verbatim>\<open>internal/model/model.go\<close>) and of the MCP key tables.
  Instants are milliseconds. A nullable column is an option where the Go field is a pointer; where
  the Go field is a plain string, SQL \<^verbatim>\<open>NULL\<close> reads as the empty string, as the driver scans it.
\<close>

record user_login_code =
  lc_ID :: string
  lc_ASN :: int
  lc_Email :: string
  lc_CodeHash :: string
  lc_ExpiresAt :: int
  lc_Used :: bool
  lc_FailedAttempts :: int
  lc_CreatedAt :: int

record gpg_challenge =
  gc_ID :: string
  gc_ASN :: int
  gc_Fingerprints :: "string list"
  gc_Challenge :: string
  gc_ExpiresAt :: int
  gc_Used :: bool
  gc_CreatedAt :: int

record auth_session =
  s_ID :: string
  s_SubjectType :: string
  s_ASN :: "int option"
  s_AdminID :: "string option"
  s_Email :: string
  s_ParentSessionID :: "string option"
  s_RefreshTokenHash :: string
  s_PreviousRefreshTokenHash :: string
  s_PreviousRefreshTokenValidUntil :: "int option"
  s_UserAgent :: string
  s_IPAddress :: string
  s_DeviceName :: string
  s_LoginMethod :: string
  s_CreatedAt :: int
  s_LastUsedAt :: "int option"
  s_ExpiresAt :: int
  s_RevokedAt :: "int option"
  s_RevokedReason :: string

record auth_device_grant =
  g_ID :: string
  g_DeviceCodeHash :: string
  g_UserCodeHash :: string
  g_ClientName :: string
  g_DeviceName :: string
  g_Version :: string
  g_Scopes :: "string list"
  g_Status :: string
  g_ApprovedASN :: "int option"
  g_ApprovedEmail :: string
  g_ApprovedBySessionID :: "string option"
  g_ExchangedSessionID :: "string option"
  g_RequestIP :: string
  g_RequestUserAgent :: string
  g_ApproveIP :: "string option"
  g_ApproveUserAgent :: string
  g_PollCount :: int
  g_LastPolledAt :: "int option"
  g_NextPollAfter :: "int option"
  g_CreatedAt :: int
  g_ExpiresAt :: int
  g_ApprovedAt :: "int option"
  g_DeniedAt :: "int option"
  g_ExchangedAt :: "int option"

record admin =
  ad_ID :: string
  ad_Email :: string
  ad_PasswordHash :: string

record mcp_key =
  k_ID :: string
  k_ASN :: int
  k_Name :: string
  k_KeyHash :: string
  k_KeyPrefix :: string
  k_Capabilities :: "string list"
  k_ExpiresAt :: "int option"
  k_LastUsedAt :: "int option"
  k_RevokedAt :: "int option"
  k_ScopeVersion :: int
  k_CreatedAt :: int

record admin_mcp_key =
  ak_ID :: string
  ak_AdminID :: string
  ak_Name :: string
  ak_KeyHash :: string
  ak_KeyPrefix :: string
  ak_Capabilities :: "string list"
  ak_ExpiresAt :: "int option"
  ak_LastUsedAt :: "int option"
  ak_RevokedAt :: "int option"
  ak_ScopeVersion :: int
  ak_CreatedAt :: int

record notification_pref =
  np_ASN :: int
  np_Channel :: string
  np_NotificationKey :: string
  np_Enabled :: bool

record pref_state =
  ps_SeenCatalogVersion :: int
  ps_WizardCompletedAt :: "int option"

record auth_tables =
  t_codes :: "user_login_code list"
  t_challenges :: "gpg_challenge list"
  t_sessions :: "auth_session list"
  t_grants :: "auth_device_grant list"
  t_admins :: "admin list"
  t_keys :: "mcp_key list"
  t_admin_keys :: "admin_mcp_key list"
  t_email_levels :: "int \<rightharpoonup> int"
  t_prefs :: "notification_pref list"
  t_pref_states :: "int \<rightharpoonup> pref_state"

definition no_auth :: auth_tables where
  "no_auth = \<lparr>t_codes = [], t_challenges = [], t_sessions = [], t_grants = [], t_admins = [], t_keys = [], t_admin_keys = [],
     t_email_levels = Map.empty, t_prefs = [], t_pref_states = Map.empty\<rparr>"

text \<open>The tables of the Telegram bot (migrations 024, 034, 058 and 059), without their serial keys except where a
  request names one.\<close>

record BotUserBinding =
  bb_TgUserID :: int
  bb_TgUsername :: string
  bb_ASN :: int
  bb_IsAdmin :: bool
  bb_BoundAt :: int
  bb_BoundVia :: string

record BotWebBindToken =
  wt_Token :: string
  wt_ASN :: int
  wt_ExpiresAt :: int
  wt_Used :: bool

record BotSetting =
  bs_SettingKey :: string
  bs_SettingValue :: string
  bs_SettingValueHash :: "string option"

record BotCommandStat =
  st_Command :: string
  st_TgUserID :: int
  st_Username :: string
  st_ChatID :: int
  st_CreatedAt :: int

record BotBlockedUser =
  bu_ID :: nat
  bu_TgUserID :: int
  bu_Username :: string
  bu_Reason :: string
  bu_BlockedBy :: string
  bu_BlockedAt :: int

record bot_tables =
  bt_tokens :: "BotWebBindToken list"
  bt_settings :: "BotSetting list"
  bt_stats :: "BotCommandStat list"
  bt_blocked :: "BotBlockedUser list"

definition no_bot :: bot_tables where
  "no_bot = \<lparr>bt_tokens = [], bt_settings = [], bt_stats = [], bt_blocked = []\<rparr>"

text \<open>A cookie the response sets; \<^verbatim>\<open>MaxAge < 0\<close> deletes it.\<close>

record cookie =
  ck_Name :: string
  ck_Value :: string
  ck_Path :: string
  ck_MaxAge :: int
  ck_HttpOnly :: bool
  ck_Secure :: bool
  ck_SameSite :: string

end
