(* ===== verification/MonitorData.thy ===== *)
theory MonitorData
  imports Json
begin

text \<open>
  What the monitoring code keeps beside the peers and nodes: the rows of \<^verbatim>\<open>peer_metrics\<close> and
  \<^verbatim>\<open>node_metrics\<close> (\<^verbatim>\<open>internal/model/model.go\<close>), the thresholds of the notification settings and the
  configured operator addresses. A round-trip time keeps its decimal literal; nothing here computes
  with it.
\<close>

record PeerMetric =
  pm_Time :: int
  pm_PeerID :: string
  pm_RxBytes :: int
  pm_TxBytes :: int
  pm_BGPState :: string
  pm_RttMs :: "string option"
  pm_LastHandshake :: "int option"
  pm_RoutesImported :: "int option"
  pm_RoutesExported :: "int option"
  pm_RoutesPreferred :: "int option"
  pm_BGPUptimeSecs :: "int option"
  pm_WgActualEndpoint :: string

record NodeMetric =
  nm_Time :: int
  nm_NodeID :: string
  nm_MemAllocMB :: "int option"
  nm_MemSysMB :: "int option"
  nm_NumGoroutine :: "int option"
  nm_UptimeSecs :: "int option"

record monitor =
  mo_thresholds :: "string \<rightharpoonup> string"
  mo_peer_metrics :: "PeerMetric list"
  mo_node_metrics :: "NodeMetric list"
  mo_adminEmails :: "string list"

definition no_monitor :: monitor where
  "no_monitor = \<lparr>mo_thresholds = Map.empty, mo_peer_metrics = [], mo_node_metrics = [], mo_adminEmails = []\<rparr>"

end
