(* ===== verification/World.thy ===== *)
theory World
  imports Peering Lock Cache Registry AuthData MonitorData "HOL-Library.State_Monad"
begin

text \<open>
  The state that the center's operations share, and the effects they have on it: the tables, the
  in-process locker, the single-node cache, the agents' connections, the commands sent to agents
  with their replies, audit entries and outgoing notifications. What the environment decides is a
  script in the state: which database calls fail, what agents reply, the identifiers and random
  bytes generated, what a registry lookup returns. An operation is a value of the state monad, so it
  reads in the order of the Go code; failures are values. Log output has no model.
\<close>

section \<open>Records\<close>

record node =
  n_ID :: string
  n_Name :: string
  n_Location :: string
  n_AgentToken :: string
  n_AgentPubkey :: string
  n_PublicIP :: string
  n_OurASN :: int
  n_OurLLA :: string
  n_OurWgPubkey :: string
  n_BirdPeerDir :: string
  n_WgDir :: string
  n_WgPortPrefix :: int
  n_Online :: bool
  n_Enabled :: bool
  n_AgentVersion :: string
  n_AgentState :: string
  n_AgentStateChangedAt :: int
  n_CreatedAt :: int

record audit_log =
  a_Action :: string
  a_Operator :: string
  a_TargetID :: "string option"
  a_Detail :: obj
  a_CreatedAt :: int

text \<open>The commands and replies of the agent protocol (\<^verbatim>\<open>internal/ws/protocol.go\<close>).\<close>

record PeerAddPayload =
  pa_PeerID :: string
  pa_ASN :: int
  pa_RemoteEndpoint :: string
  pa_RemoteWgPubkey :: string
  pa_RemoteLLA :: string
  pa_ListenPort :: int
  pa_WgInterface :: string
  pa_MTU :: "int option"
  pa_WgPreSharedKey :: "string option"

record PeerRemovePayload =
  pr_PeerID :: string
  pr_ASN :: int

record peerImportEntry =
  pi_ASN :: int
  pi_RemotePubkey :: string
  pi_RemoteEndpoint :: string
  pi_RemoteLLA :: string
  pi_WgListenPort :: int
  pi_WgInterface :: string
  pi_BgpProtoName :: string
  pi_BirdConfigFilename :: string
  pi_WgManaged :: bool

datatype agent_command =
    PeerAdd PeerAddPayload
  | PeerRemove PeerRemovePayload
  | PeersImport
  | BirdDisable string string
  | BirdEnable string string
  | BirdDetails
  | AgentUpdate json
  | AgentRollback
  | NetworkPing string int
  | NetworkTrace string int

record agent_message =
  m_Success :: "bool option"
  m_Error :: string
  m_Peers :: "peerImportEntry list"

text \<open>What \<^verbatim>\<open>SendCommand\<close> returns: an error before the command is queued, an error while waiting, or
  the agent's response.\<close>

datatype agent_reply = NotSent string | NoAnswer string | Answer agent_message

text \<open>\<^verbatim>\<open>resp.Success != nil && !*resp.Success\<close>\<close>

definition refused :: "agent_message \<Rightarrow> bool" where
  "refused m \<longleftrightarrow> m_Success m = Some False"

datatype db_error = DbFail | NoRows | UniqueViolation string | ForeignKeyViolation | CheckViolation | InvalidText

datatype notification =
    Email string string int
  | BotNotify int string string
  | AdminEmail string string
  | CodeEmail string int string
  | BotUser int string
  | BotAdmin string

datatype response = JSONResp int json | ErrorResp int string string | Panicked

record world =
  w_peers :: "peer list"
  w_nodes :: "node list"
  w_audit :: "audit_log list"
  w_bindings :: "BotUserBinding list"
  w_notification_settings :: "string \<rightharpoonup> string"
  w_site_settings :: "string \<rightharpoonup> string"
  w_locks :: "local_locker option"
  w_cache :: "unit cache"
  w_conns :: "string \<rightharpoonup> bool"
  w_sent :: "(string \<times> agent_command \<times> agent_reply) list"
  w_out :: "notification list"
  w_replies :: "agent_reply list"
  w_dbfail :: "bool list"
  w_uuids :: "string list"
  w_rand :: "byte list option list"
  w_registry :: registry_service
  w_auth :: auth_tables
  w_mon :: monitor
  w_bot :: bot_tables
  w_cookies :: "cookie list"
  w_headers :: "(string \<times> string) list"
  w_now :: int
  w_now_text :: string

type_synonym 'a M = "(world, 'a) state"

abbreviation ret :: "'a \<Rightarrow> 'a M" where
  "ret x \<equiv> State_Monad.return x"

section \<open>Effects\<close>

definition gets :: "(world \<Rightarrow> 'a) \<Rightarrow> 'a M" where
  "gets f = State (\<lambda>w. (f w, w))"

definition modify :: "(world \<Rightarrow> world) \<Rightarrow> unit M" where
  "modify f = State (\<lambda>w. ((), f w))"

text \<open>One round trip to the database: the script says whether it fails.\<close>

definition db_fails :: "world \<Rightarrow> bool" where
  "db_fails w = (case w_dbfail w of [] \<Rightarrow> False | b # _ \<Rightarrow> b)"

definition db_next :: "world \<Rightarrow> world" where
  "db_next w = w\<lparr>w_dbfail := tl (w_dbfail w)\<rparr>"

definition db_read :: "(world \<Rightarrow> db_error + 'a) \<Rightarrow> (db_error + 'a) M" where
  "db_read f = State (\<lambda>w. (if db_fails w then Inl DbFail else f (db_next w), db_next w))"

definition db_write :: "(world \<Rightarrow> db_error + 'a \<times> world) \<Rightarrow> (db_error + 'a) M" where
  "db_write f = State (\<lambda>w.
     if db_fails w then (Inl DbFail, db_next w)
     else case f (db_next w) of Inl e \<Rightarrow> (Inl e, db_next w) | Inr (x, w') \<Rightarrow> (Inr x, w'))"

definition time_now :: "int M" where
  "time_now = gets w_now"

definition notify :: "notification \<Rightarrow> unit M" where
  "notify n = modify (\<lambda>w. w\<lparr>w_out := w_out w @ [n]\<rparr>)"

text \<open>\<^verbatim>\<open>gen_random_uuid()\<close> and \<^verbatim>\<open>crypto/rand\<close> take the next value of their script.\<close>

definition fresh_uuid :: "world \<Rightarrow> string \<times> world" where
  "fresh_uuid w = (case w_uuids w of [] \<Rightarrow> ([], w) | u # us \<Rightarrow> (u, w\<lparr>w_uuids := us\<rparr>))"

definition rand_read :: "byte list option M" where
  "rand_read = State (\<lambda>w. case w_rand w of [] \<Rightarrow> (None, w) | r # rs \<Rightarrow> (r, w\<lparr>w_rand := rs\<rparr>))"

text \<open>\<^verbatim>\<open>AuditService.Log\<close>: one insert, whose error every caller drops.\<close>

definition audit_Log :: "string \<Rightarrow> string \<Rightarrow> string option \<Rightarrow> obj \<Rightarrow> unit M" where
  "audit_Log action operator targetID detail = do {
     _ \<leftarrow> db_write (\<lambda>w. Inr ((), w\<lparr>w_audit := w_audit w @
       [\<lparr>a_Action = action, a_Operator = operator, a_TargetID = targetID, a_Detail = detail, a_CreatedAt = w_now w\<rparr>]\<rparr>));
     ret ()
   }"

text \<open>\<^verbatim>\<open>Hub.SendCommand\<close> as its caller sees it; the hub itself is in theory \<open>Hub\<close>. A script that has
  run out is an agent that does not answer within the 30 seconds.\<close>

definition SendCommand :: "string \<Rightarrow> agent_command \<Rightarrow> agent_reply M" where
  "SendCommand nodeID cmd = State (\<lambda>w.
     case w_conns w nodeID of
       None \<Rightarrow> (NotSent (''agent not connected for node '' @ nodeID), w)
     | Some pendingAuth \<Rightarrow>
         (if pendingAuth then (NotSent (''agent for node '' @ nodeID @ '' has not completed handshake''), w)
          else (let r = (case w_replies w of [] \<Rightarrow> NoAnswer ''context deadline exceeded'' | r # _ \<Rightarrow> r) in
                (r, w\<lparr>w_replies := tl (w_replies w), w_sent := w_sent w @ [(nodeID, cmd, r)]\<rparr>))))"

definition IsOnline :: "string \<Rightarrow> bool M" where
  "IsOnline nodeID = gets (\<lambda>w. w_conns w nodeID = Some False)"

definition LookupASNEmail :: "int \<Rightarrow> string option M" where
  "LookupASNEmail asn = State (\<lambda>w.
     case registry_LookupASNEmail (w_registry w) (w_now w) asn (w_cache w) of
       (c, r) \<Rightarrow> (case r of Inl _ \<Rightarrow> None | Inr e \<Rightarrow> Some e, w\<lparr>w_cache := c\<rparr>))"

section \<open>Locking\<close>

definition lock_acquire :: "string \<Rightarrow> (localLease option \<times> bool) M" where
  "lock_acquire key = State (\<lambda>w.
     case acquirePeerLock (Some local_Acquire) (w_locks w) key of (s, lease, busy) \<Rightarrow> ((lease, busy), w\<lparr>w_locks := s\<rparr>))"

definition lock_release :: "localLease option \<Rightarrow> unit M" where
  "lock_release lease = modify (\<lambda>w. case lease of None \<Rightarrow> w | Some l \<Rightarrow> w\<lparr>w_locks := local_Release (w_locks w) l\<rparr>)"

text \<open>The shape of every locked handler: acquire, answer the conflict when busy, and release after the
  body (\<^verbatim>\<open>defer release()\<close>), also when it panics.\<close>

definition with_peer_lock :: "string \<Rightarrow> 'a \<Rightarrow> 'a M \<Rightarrow> 'a M" where
  "with_peer_lock key busy_resp body = do {
     (lease, busy) \<leftarrow> lock_acquire key;
     if busy then ret busy_resp
     else do { r \<leftarrow> body; lock_release lease; ret r }
   }"

section \<open>Settings\<close>

text \<open>\<^verbatim>\<open>GetSettingValue\<close>, \<^verbatim>\<open>GetSiteSettingValue\<close>: the cache, then the table; an error reads as the empty
  string and is cached for 30 seconds like any value.\<close>

definition cached_setting :: "string \<Rightarrow> (world \<Rightarrow> string \<rightharpoonup> string) \<Rightarrow> string \<Rightarrow> string M" where
  "cached_setting pre tbl key = do {
     now \<leftarrow> time_now;
     hit \<leftarrow> State (\<lambda>w. case cache_Get now dec_str BucketSettings (SettingKey pre key) (w_cache w) of
                     (c, v, ok, _) \<Rightarrow> (if ok then v else None, w\<lparr>w_cache := c\<rparr>));
     case hit of
       Some v \<Rightarrow> ret v
     | None \<Rightarrow> do {
         r \<leftarrow> db_read (\<lambda>w. case tbl w key of None \<Rightarrow> Inl NoRows | Some v \<Rightarrow> Inr v);
         let v = (case r of Inl _ \<Rightarrow> [] | Inr v \<Rightarrow> v);
         modify (\<lambda>w. w\<lparr>w_cache := fst (cache_Put now BucketSettings (SettingKey pre key) (JStr v) 30000 (w_cache w))\<rparr>);
         ret v
       }
   }"

definition GetSettingValue :: "string \<Rightarrow> string M" where
  "GetSettingValue key = cached_setting SettingVal w_notification_settings key"

definition GetSiteSettingValue :: "string \<Rightarrow> string M" where
  "GetSiteSettingValue key = cached_setting SiteSettingVal w_site_settings key"

definition refreshContactEmail :: "string \<Rightarrow> int \<Rightarrow> string M" where
  "refreshContactEmail storedEmail asn = do {
     fresh \<leftarrow> LookupASNEmail asn;
     ret (case fresh of None \<Rightarrow> storedEmail | Some e \<Rightarrow> e)
   }"

definition ClearPeerAlerts :: "string \<Rightarrow> unit M" where
  "ClearPeerAlerts peerID = modify (\<lambda>w.
     let del = (\<lambda>pre c. fst (cache_Delete (w_now w) BucketAlerts (PeerKey pre peerID) c)) in
     w\<lparr>w_cache := del AlertEndpoint (del AlertHandshake (del AlertBGPFail (del AlertBGPDown (w_cache w))))\<rparr>)"

section \<open>Running operations\<close>

lemma run_gets [simp]: "run_state (gets f) w = (f w, w)"
  by (simp add: gets_def)

lemma run_modify [simp]: "run_state (modify f) w = ((), f w)"
  by (simp add: modify_def)

lemma run_db_read [simp]:
  "run_state (db_read f) w = (if db_fails w then Inl DbFail else f (db_next w), db_next w)"
  by (simp add: db_read_def)

lemma run_db_write:
  "run_state (db_write f) w = (if db_fails w then (Inl DbFail, db_next w)
     else case f (db_next w) of Inl e \<Rightarrow> (Inl e, db_next w) | Inr (x, w') \<Rightarrow> (Inr x, w'))"
  by (simp add: db_write_def)

lemma db_next_sel [simp]:
  "w_peers (db_next w) = w_peers w" "w_nodes (db_next w) = w_nodes w" "w_audit (db_next w) = w_audit w"
  "w_locks (db_next w) = w_locks w" "w_cache (db_next w) = w_cache w" "w_conns (db_next w) = w_conns w"
  "w_sent (db_next w) = w_sent w" "w_out (db_next w) = w_out w" "w_replies (db_next w) = w_replies w"
  "w_uuids (db_next w) = w_uuids w" "w_rand (db_next w) = w_rand w" "w_registry (db_next w) = w_registry w"
  "w_now (db_next w) = w_now w" "w_now_text (db_next w) = w_now_text w" "w_bindings (db_next w) = w_bindings w"
  "w_notification_settings (db_next w) = w_notification_settings w" "w_site_settings (db_next w) = w_site_settings w"
  "w_dbfail (db_next w) = tl (w_dbfail w)" "w_auth (db_next w) = w_auth w" "w_cookies (db_next w) = w_cookies w"
  "w_headers (db_next w) = w_headers w" "w_mon (db_next w) = w_mon w" "w_bot (db_next w) = w_bot w"
  by (simp_all add: db_next_def)

lemma run_LookupASNEmail:
  "run_state (LookupASNEmail asn) w =
     (let r = registry_LookupASNEmail (w_registry w) (w_now w) asn (w_cache w) in
      (case snd r of Inl _ \<Rightarrow> None | Inr e \<Rightarrow> Some e, w\<lparr>w_cache := fst r\<rparr>))"
  by (simp add: LookupASNEmail_def Let_def split: prod.splits)

text \<open>Keeping a property of the state: the rules follow the shape of an operation.\<close>

definition keeps :: "(world \<Rightarrow> bool) \<Rightarrow> 'a M \<Rightarrow> bool" where
  "keeps I m \<longleftrightarrow> (\<forall>w. I w \<longrightarrow> I (snd (run_state m w)))"

named_theorems keeps_intros \<open>operations that keep a property\<close>

lemma keepsI: "(\<And>w. I w \<Longrightarrow> I (snd (run_state m w))) \<Longrightarrow> keeps I m"
  by (simp add: keeps_def)

lemma keepsD: "keeps I m \<Longrightarrow> I w \<Longrightarrow> run_state m w = (r, w') \<Longrightarrow> I w'"
  by (metis keeps_def snd_conv)

lemma keeps_return [keeps_intros]: "keeps I (ret x)"
  by (simp add: keeps_def)

lemma keeps_bind [keeps_intros]: "keeps I m \<Longrightarrow> (\<And>x. keeps I (f x)) \<Longrightarrow> keeps I (State_Monad.bind m f)"
  by (auto simp: keeps_def split: prod.splits)

lemma keeps_if [keeps_intros]: "(b \<Longrightarrow> keeps I m) \<Longrightarrow> (\<not> b \<Longrightarrow> keeps I n) \<Longrightarrow> keeps I (if b then m else n)"
  by simp

lemma keeps_sum [keeps_intros]:
  "(\<And>x. s = Inl x \<Longrightarrow> keeps I (f x)) \<Longrightarrow> (\<And>x. s = Inr x \<Longrightarrow> keeps I (g x)) \<Longrightarrow> keeps I (case s of Inl x \<Rightarrow> f x | Inr x \<Rightarrow> g x)"
  by (cases s) auto

lemma keeps_option [keeps_intros]:
  "(s = None \<Longrightarrow> keeps I m) \<Longrightarrow> (\<And>x. s = Some x \<Longrightarrow> keeps I (g x)) \<Longrightarrow> keeps I (case s of None \<Rightarrow> m | Some x \<Rightarrow> g x)"
  by (cases s) auto

lemma keeps_prod [keeps_intros]: "(\<And>x y. s = (x, y) \<Longrightarrow> keeps I (f x y)) \<Longrightarrow> keeps I (case s of (x, y) \<Rightarrow> f x y)"
  by (cases s) auto

lemma keeps_reply [keeps_intros]:
  "(\<And>e. keeps I (f e)) \<Longrightarrow> (\<And>e. keeps I (g e)) \<Longrightarrow> (\<And>m. keeps I (h m)) \<Longrightarrow>
   keeps I (case r of NotSent e \<Rightarrow> f e | NoAnswer e \<Rightarrow> g e | Answer m \<Rightarrow> h m)"
  by (cases r) auto

lemma keeps_let [keeps_intros]: "(\<And>x. keeps I (f x)) \<Longrightarrow> keeps I (let x = a in f x)"
  by simp

text \<open>Properties that do not look at the audit table, the locks, the cache, the outgoing notifications or
  the generated values, and that the next database call does not break.\<close>

definition insensitive :: "(world \<Rightarrow> bool) \<Rightarrow> bool" where
  "insensitive I \<longleftrightarrow> (\<forall>w x. I (w\<lparr>w_audit := x\<rparr>) = I w) \<and> (\<forall>w x. I (w\<lparr>w_locks := x\<rparr>) = I w)
     \<and> (\<forall>w x. I (w\<lparr>w_cache := x\<rparr>) = I w) \<and> (\<forall>w x. I (w\<lparr>w_out := x\<rparr>) = I w)
     \<and> (\<forall>w. I w \<longrightarrow> I (db_next w)) \<and> (\<forall>w x. I (w\<lparr>w_uuids := x\<rparr>) = I w)
     \<and> (\<forall>w x. I (w\<lparr>w_rand := x\<rparr>) = I w)"

lemma insensitiveD:
  assumes "insensitive I"
  shows "I (w\<lparr>w_audit := a\<rparr>) = I w" "I (w\<lparr>w_locks := l\<rparr>) = I w" "I (w\<lparr>w_cache := c\<rparr>) = I w"
    "I (w\<lparr>w_out := out\<rparr>) = I w" "I (w\<lparr>w_uuids := u\<rparr>) = I w" "I (w\<lparr>w_rand := rn\<rparr>) = I w"
  using assms by (simp_all add: insensitive_def)

lemma insensitive_db_next: "insensitive I \<Longrightarrow> I w \<Longrightarrow> I (db_next w)"
  by (simp add: insensitive_def)

lemma keeps_db_read [keeps_intros]: "insensitive I \<Longrightarrow> keeps I (db_read f)"
  by (simp add: keeps_def insensitive_db_next)

lemma keeps_db_write:
  "insensitive I \<Longrightarrow> (\<And>w x w'. I w \<Longrightarrow> f w = Inr (x, w') \<Longrightarrow> I w') \<Longrightarrow> keeps I (db_write f)"
  by (auto simp: keeps_def run_db_write insensitive_db_next split: sum.splits)
     (metis insensitive_db_next)

lemma keeps_gets [keeps_intros]: "keeps I (gets f)"
  by (simp add: keeps_def)

lemma keeps_audit_Log [keeps_intros]: "insensitive I \<Longrightarrow> keeps I (audit_Log a b c d)"
  unfolding audit_Log_def by (intro keeps_intros keeps_db_write) (auto simp: insensitiveD)

lemma keeps_notify [keeps_intros]: "insensitive I \<Longrightarrow> keeps I (notify n)"
  by (simp add: keeps_def notify_def insensitiveD)

lemma keeps_rand_read [keeps_intros]: "insensitive I \<Longrightarrow> keeps I rand_read"
  by (auto simp: keeps_def rand_read_def insensitiveD split: list.splits)

lemma keeps_time_now [keeps_intros]: "keeps I time_now"
  by (simp add: time_now_def keeps_gets)

lemma keeps_IsOnline [keeps_intros]: "keeps I (IsOnline n)"
  by (simp add: IsOnline_def keeps_gets)

lemma keeps_LookupASNEmail [keeps_intros]: "insensitive I \<Longrightarrow> keeps I (LookupASNEmail n)"
  by (auto simp: keeps_def LookupASNEmail_def insensitiveD split: prod.splits)

lemma keeps_refreshContactEmail [keeps_intros]: "insensitive I \<Longrightarrow> keeps I (refreshContactEmail e n)"
  unfolding refreshContactEmail_def by (intro keeps_intros)

lemma keeps_ClearPeerAlerts [keeps_intros]: "insensitive I \<Longrightarrow> keeps I (ClearPeerAlerts p)"
  by (simp add: keeps_def ClearPeerAlerts_def Let_def insensitiveD)

lemma keeps_cached_setting [keeps_intros]: "insensitive I \<Longrightarrow> keeps I (cached_setting p t k)"
  unfolding cached_setting_def
  by (intro keeps_intros; (auto simp: keeps_def insensitiveD split: prod.splits)?)

lemma keeps_GetSettingValue [keeps_intros]: "insensitive I \<Longrightarrow> keeps I (GetSettingValue k)"
  by (simp add: GetSettingValue_def keeps_cached_setting)

lemma keeps_GetSiteSettingValue [keeps_intros]: "insensitive I \<Longrightarrow> keeps I (GetSiteSettingValue k)"
  by (simp add: GetSiteSettingValue_def keeps_cached_setting)

lemma keeps_lock_acquire [keeps_intros]: "insensitive I \<Longrightarrow> keeps I (lock_acquire k)"
  by (auto simp: keeps_def lock_acquire_def insensitiveD split: prod.splits)

lemma keeps_lock_release [keeps_intros]: "insensitive I \<Longrightarrow> keeps I (lock_release l)"
  by (auto simp: keeps_def lock_release_def insensitiveD split: option.splits)

lemma keeps_with_peer_lock [keeps_intros]: "insensitive I \<Longrightarrow> keeps I m \<Longrightarrow> keeps I (with_peer_lock k r m)"
  unfolding with_peer_lock_def by (intro keeps_intros)

lemma keeps_SendCommand:
  "(\<And>w s r. I w \<Longrightarrow> I (w\<lparr>w_replies := r, w_sent := s\<rparr>)) \<Longrightarrow> keeps I (SendCommand n c)"
  by (auto simp: keeps_def SendCommand_def Let_def split: option.splits)

section \<open>Weakest preconditions\<close>

definition wp :: "'a M \<Rightarrow> ('a \<Rightarrow> world \<Rightarrow> bool) \<Rightarrow> world \<Rightarrow> bool" where
  "wp m Q w = (case run_state m w of (r, w') \<Rightarrow> Q r w')"

lemma wp_run: "wp m Q w \<Longrightarrow> run_state m w = (r, w') \<Longrightarrow> Q r w'"
  by (simp add: wp_def)

lemma wp_ret [simp]: "wp (ret x) Q w = Q x w"
  by (simp add: wp_def)

lemma wp_bind: "wp m (\<lambda>r. wp (f r) Q) w \<Longrightarrow> wp (State_Monad.bind m f) Q w"
  by (simp add: wp_def split: prod.splits)

lemma wp_mono: "wp m P w \<Longrightarrow> (\<And>r w'. P r w' \<Longrightarrow> Q r w') \<Longrightarrow> wp m Q w"
  by (auto simp: wp_def split: prod.splits)

named_theorems wp_control \<open>weakest preconditions of the control structures\<close>

lemma wp_if [wp_control]: "(b \<Longrightarrow> wp m Q w) \<Longrightarrow> (\<not> b \<Longrightarrow> wp n Q w) \<Longrightarrow> wp (if b then m else n) Q w"
  by simp

lemma wp_sum [wp_control]:
  "(\<And>x. s = Inl x \<Longrightarrow> wp (f x) Q w) \<Longrightarrow> (\<And>x. s = Inr x \<Longrightarrow> wp (g x) Q w) \<Longrightarrow> wp (case s of Inl x \<Rightarrow> f x | Inr x \<Rightarrow> g x) Q w"
  by (cases s) auto

lemma wp_option [wp_control]:
  "(s = None \<Longrightarrow> wp m Q w) \<Longrightarrow> (\<And>x. s = Some x \<Longrightarrow> wp (g x) Q w) \<Longrightarrow> wp (case s of None \<Rightarrow> m | Some x \<Rightarrow> g x) Q w"
  by (cases s) auto

lemma wp_reply [wp_control]:
  "(\<And>e. r = NotSent e \<Longrightarrow> wp (f e) Q w) \<Longrightarrow> (\<And>e. r = NoAnswer e \<Longrightarrow> wp (g e) Q w) \<Longrightarrow> (\<And>m. r = Answer m \<Longrightarrow> wp (h m) Q w) \<Longrightarrow>
   wp (case r of NotSent e \<Rightarrow> f e | NoAnswer e \<Rightarrow> g e | Answer m \<Rightarrow> h m) Q w"
  by (cases r) auto

lemma wp_db_error [wp_control]:
  "(e = DbFail \<Longrightarrow> wp f Q w) \<Longrightarrow> (e = NoRows \<Longrightarrow> wp g Q w) \<Longrightarrow> (\<And>c. e = UniqueViolation c \<Longrightarrow> wp (h c) Q w) \<Longrightarrow>
   (e = ForeignKeyViolation \<Longrightarrow> wp k Q w) \<Longrightarrow> (e = CheckViolation \<Longrightarrow> wp l Q w) \<Longrightarrow> (e = InvalidText \<Longrightarrow> wp n Q w) \<Longrightarrow>
   wp (case e of DbFail \<Rightarrow> f | NoRows \<Rightarrow> g | UniqueViolation c \<Rightarrow> h c | ForeignKeyViolation \<Rightarrow> k | CheckViolation \<Rightarrow> l | InvalidText \<Rightarrow> n) Q w"
  by (cases e) auto

lemma wp_pair [wp_control]: "(\<And>a b. p = (a, b) \<Longrightarrow> wp (f a b) Q w) \<Longrightarrow> wp (case p of (a, b) \<Rightarrow> f a b) Q w"
  by (cases p) auto

lemma wp_let [wp_control]: "wp (f a) Q w \<Longrightarrow> wp (let x = a in f x) Q w"
  by simp

lemma wp_retI [wp_control]: "Q x w \<Longrightarrow> wp (ret x) Q w"
  by simp

text \<open>No database call to come fails.\<close>

definition nofault :: "world \<Rightarrow> bool" where
  "nofault w \<longleftrightarrow> list_all Not (w_dbfail w)"

lemma nofault_next: "nofault w \<Longrightarrow> nofault (db_next w)"
  by (cases "w_dbfail w") (auto simp: nofault_def)

lemma nofault_not_fails: "nofault w \<Longrightarrow> \<not> db_fails w"
  by (cases "w_dbfail w") (auto simp: nofault_def db_fails_def)

lemma nofault_upd [simp]:
  "nofault (w\<lparr>w_audit := a\<rparr>) = nofault w" "nofault (w\<lparr>w_locks := b\<rparr>) = nofault w" "nofault (w\<lparr>w_cache := c\<rparr>) = nofault w"
  "nofault (w\<lparr>w_out := d\<rparr>) = nofault w" "nofault (w\<lparr>w_uuids := e\<rparr>) = nofault w" "nofault (w\<lparr>w_rand := f\<rparr>) = nofault w"
  "nofault (w\<lparr>w_peers := g\<rparr>) = nofault w" "nofault (w\<lparr>w_replies := h, w_sent := i\<rparr>) = nofault w"
  by (simp_all add: nofault_def)

end
