(* ===== verification/PeerRepo.thy ===== *)
theory PeerRepo
  imports World
begin

text \<open>
  \<^verbatim>\<open>internal/repository/peer.go\<close> and \<^verbatim>\<open>node.go\<close>: the statements on the tables \<^verbatim>\<open>peers\<close> and \<^verbatim>\<open>nodes\<close>, with the
  constraints of the migrations (primary keys, \<^verbatim>\<open>UNIQUE (node_id, remote_asn)\<close>,
  \<^verbatim>\<open>UNIQUE (node_id, wg_listen_port)\<close>, the reference to \<^verbatim>\<open>nodes\<close>). A table is the list of its rows;
  an \<^verbatim>\<open>ORDER BY\<close> with ties keeps the stored order. A statement that breaks a constraint is an error
  and changes nothing.
\<close>

section \<open>Table operations\<close>

definition find_peer :: "string \<Rightarrow> peer list \<Rightarrow> peer option" where
  "find_peer ident ps = find (\<lambda>p. ID p = ident) ps"

definition find_node :: "string \<Rightarrow> node list \<Rightarrow> node option" where
  "find_node ident ns = find (\<lambda>n. n_ID n = ident) ns"

definition row :: "'a option \<Rightarrow> db_error + 'a" where
  "row r = (case r of None \<Rightarrow> Inl NoRows | Some x \<Rightarrow> Inr x)"

text \<open>\<^verbatim>\<open>UPDATE peers SET ... WHERE id = ?\<close>: every row with the identifier.\<close>

definition update_peer :: "string \<Rightarrow> (peer \<Rightarrow> peer) \<Rightarrow> peer list \<Rightarrow> peer list" where
  "update_peer ident f ps = map (\<lambda>p. if ID p = ident then f p else p) ps"

definition delete_peer :: "string \<Rightarrow> peer list \<Rightarrow> peer list" where
  "delete_peer ident ps = filter (\<lambda>p. ID p \<noteq> ident) ps"

text \<open>The constraint that a new or changed row would break, given the other rows.\<close>

definition peer_conflict :: "peer \<Rightarrow> peer list \<Rightarrow> node list \<Rightarrow> db_error option" where
  "peer_conflict p others ns =
     (if list_ex (\<lambda>q. ID q = ID p) others then Some (UniqueViolation ''peers_pkey'')
      else if list_ex (\<lambda>q. NodeID q = NodeID p \<and> RemoteASN q = RemoteASN p) others
        then Some (UniqueViolation ''peers_node_id_remote_asn_key'')
      else if list_ex (\<lambda>q. NodeID q = NodeID p \<and> WgListenPort q = WgListenPort p) others
        then Some (UniqueViolation ''peers_node_port_unique'')
      else if find_node (NodeID p) ns = None then Some ForeignKeyViolation
      else None)"

definition insert_peer :: "peer \<Rightarrow> world \<Rightarrow> db_error + string \<times> world" where
  "insert_peer p w =
     (let (ident, w1) = (if ID p = [] then fresh_uuid w else (ID p, w));
          p' = p\<lparr>ID := ident,
                 CreatedAt := (if CreatedAt p = 0 then w_now w else CreatedAt p),
                 UpdatedAt := (if UpdatedAt p = 0 then w_now w else UpdatedAt p)\<rparr> in
      case peer_conflict p' (w_peers w) (w_nodes w) of
        Some e \<Rightarrow> Inl e
      | None \<Rightarrow> Inr (ident, w1\<lparr>w_peers := w_peers w1 @ [p']\<rparr>))"

section \<open>Reading peers\<close>

definition peers_GetByID :: "string \<Rightarrow> (db_error + peer) M" where
  "peers_GetByID ident = db_read (\<lambda>w. row (find_peer ident (w_peers w)))"

definition join_node :: "world \<Rightarrow> peer \<Rightarrow> (peer \<times> node) option" where
  "join_node w p = map_option (\<lambda>n. (p, n)) (find_node (NodeID p) (w_nodes w))"

definition peers_GetByIDWithNode :: "string \<Rightarrow> (db_error + peer \<times> node) M" where
  "peers_GetByIDWithNode ident = db_read (\<lambda>w. row (Option.bind (find_peer ident (w_peers w)) (join_node w)))"

definition peers_GetByIDAndASN :: "string \<Rightarrow> int \<Rightarrow> (db_error + peer) M" where
  "peers_GetByIDAndASN ident asn = db_read (\<lambda>w. row (find (\<lambda>p. ID p = ident \<and> RemoteASN p = asn) (w_peers w)))"

definition peers_GetByIDAndASNWithNode :: "string \<Rightarrow> int \<Rightarrow> (db_error + peer \<times> node) M" where
  "peers_GetByIDAndASNWithNode ident asn = db_read (\<lambda>w.
     row (Option.bind (find (\<lambda>p. ID p = ident \<and> RemoteASN p = asn) (w_peers w)) (join_node w)))"

definition peers_ListByASN :: "int \<Rightarrow> (db_error + (peer \<times> node) list) M" where
  "peers_ListByASN asn = db_read (\<lambda>w. Inr (List.map_filter (join_node w)
     (sort_key (\<lambda>p. - CreatedAt p) (filter (\<lambda>p. RemoteASN p = asn) (w_peers w)))))"

definition peers_ListByNode :: "string \<Rightarrow> (db_error + peer list) M" where
  "peers_ListByNode nodeID = db_read (\<lambda>w. Inr (filter (\<lambda>p. NodeID p = nodeID) (w_peers w)))"

definition peers_ListActiveByNode :: "string \<Rightarrow> (db_error + (string \<times> string \<times> string) list) M" where
  "peers_ListActiveByNode nodeID = db_read (\<lambda>w. Inr (map (\<lambda>(p, n). (ID p, ContactEmail p, n_Name n))
     (List.map_filter (join_node w) (filter (\<lambda>p. NodeID p = nodeID \<and> Status p = ''active'') (w_peers w)))))"

record ListParams =
  lp_Status :: string
  lp_NodeID :: string
  lp_ASN :: int
  lp_Page :: int
  lp_PageSize :: int

text \<open>\<^verbatim>\<open>List\<close>: the filters that are set, the total, and one page; the metrics columns are left out.
  The count and the page are two statements.\<close>

definition list_filter :: "ListParams \<Rightarrow> world \<Rightarrow> (peer \<times> node) list" where
  "list_filter params w = filter (\<lambda>(p, n).
       (lp_Status params \<noteq> [] \<longrightarrow> Status p = lp_Status params)
       \<and> (lp_ASN params > 0 \<longrightarrow> RemoteASN p = lp_ASN params)
       \<and> (lp_NodeID params \<noteq> [] \<longrightarrow> NodeID p = lp_NodeID params))
     (List.map_filter (join_node w) (w_peers w))"

definition list_page :: "ListParams \<Rightarrow> (peer \<times> node) list \<Rightarrow> (peer \<times> node) list" where
  "list_page params rows =
     (let page = (if lp_Page params < 1 then 1 else lp_Page params);
          size = (if lp_PageSize params < 1 then 20 else lp_PageSize params) in
      take (nat size) (drop (nat ((page - 1) * size)) (sort_key (\<lambda>(p, n). - CreatedAt p) rows)))"

definition peers_List :: "ListParams \<Rightarrow> (db_error + (peer \<times> node) list \<times> int) M" where
  "peers_List params = do {
     total \<leftarrow> db_read (\<lambda>w. Inr (int (length (list_filter params w))));
     case total of
       Inl e \<Rightarrow> ret (Inl e)
     | Inr t \<Rightarrow> do {
         rows \<leftarrow> db_read (\<lambda>w. Inr (list_page params (list_filter params w)));
         ret (case rows of Inl e \<Rightarrow> Inl e | Inr rs \<Rightarrow> Inr (rs, t))
       }
   }"

definition peers_ListAll :: "(db_error + peer list) M" where
  "peers_ListAll = db_read (\<lambda>w. Inr (sort_key CreatedAt (w_peers w)))"

definition peers_ExistsByNodeAndASN :: "string \<Rightarrow> int \<Rightarrow> (db_error + bool) M" where
  "peers_ExistsByNodeAndASN nodeID asn =
     db_read (\<lambda>w. Inr (list_ex (\<lambda>p. NodeID p = nodeID \<and> RemoteASN p = asn) (w_peers w)))"

definition peers_ResolvePeerIDByNodeAndASN :: "string \<Rightarrow> int \<Rightarrow> (db_error + string) M" where
  "peers_ResolvePeerIDByNodeAndASN nodeID asn = db_read (\<lambda>w.
     case find (\<lambda>p. NodeID p = nodeID \<and> RemoteASN p = asn) (w_peers w) of None \<Rightarrow> Inr [] | Some p \<Rightarrow> Inr (ID p))"

definition peers_ExistsByNodeAndPort :: "string \<Rightarrow> int \<Rightarrow> (db_error + bool) M" where
  "peers_ExistsByNodeAndPort nodeID port =
     db_read (\<lambda>w. Inr (list_ex (\<lambda>p. NodeID p = nodeID \<and> WgListenPort p = port) (w_peers w)))"

definition peers_CountPendingByASN :: "int \<Rightarrow> (db_error + int) M" where
  "peers_CountPendingByASN asn =
     db_read (\<lambda>w. Inr (int (length (filter (\<lambda>p. RemoteASN p = asn \<and> Status p = ''pending'') (w_peers w)))))"

section \<open>Writing peers\<close>

text \<open>\<^verbatim>\<open>Create\<close> returns the identifier that \<^verbatim>\<open>RETURNING id\<close> stores into the struct.\<close>

definition peers_Create :: "peer \<Rightarrow> (db_error + string) M" where
  "peers_Create p = db_write (insert_peer p)"

text \<open>The columns that a field map of \<^verbatim>\<open>UpdateStatus\<close> or \<^verbatim>\<open>UpdateFields\<close> sets. A string value equal to
  \<^verbatim>\<open>now()\<close> becomes the SQL expression, whatever the column.\<close>

datatype field =
    FStatus string
  | FRejectReason string
  | FRemotePubkey string
  | FRemoteEndpoint string
  | FRemoteLLA string
  | FMTU "int option"
  | FUpdatedAtNow

definition sql_text :: "string \<Rightarrow> string \<Rightarrow> string" where
  "sql_text nowText v = (if v = ''now()'' then nowText else v)"

fun set_field :: "int \<Rightarrow> string \<Rightarrow> field \<Rightarrow> peer \<Rightarrow> peer" where
  "set_field now txt (FStatus v) p = p\<lparr>Status := sql_text txt v\<rparr>"
| "set_field now txt (FRejectReason v) p = p\<lparr>RejectReason := Some (sql_text txt v)\<rparr>"
| "set_field now txt (FRemotePubkey v) p = p\<lparr>RemotePubkey := sql_text txt v\<rparr>"
| "set_field now txt (FRemoteEndpoint v) p = p\<lparr>RemoteEndpoint := sql_text txt v\<rparr>"
| "set_field now txt (FRemoteLLA v) p = p\<lparr>RemoteLLA := sql_text txt v\<rparr>"
| "set_field now txt (FMTU v) p = p\<lparr>MTU := v\<rparr>"
| "set_field now txt FUpdatedAtNow p = p\<lparr>UpdatedAt := now\<rparr>"

definition peers_UpdateFields :: "string \<Rightarrow> field list \<Rightarrow> (db_error + unit) M" where
  "peers_UpdateFields ident fs =
     db_write (\<lambda>w. Inr ((), w\<lparr>w_peers := update_peer ident (fold (set_field (w_now w) (w_now_text w)) fs) (w_peers w)\<rparr>))"

definition WithRejectReason :: "string \<Rightarrow> field list" where
  "WithRejectReason reason = [FRejectReason reason]"

definition peers_UpdateStatus :: "string \<Rightarrow> string \<Rightarrow> field list \<Rightarrow> (db_error + unit) M" where
  "peers_UpdateStatus ident status opts =
     db_write (\<lambda>w. Inr ((), w\<lparr>w_peers :=
       update_peer ident (fold (set_field (w_now w) (w_now_text w)) ([FStatus status, FUpdatedAtNow] @ opts)) (w_peers w)\<rparr>))"

definition peers_UpdateContactEmail :: "string \<Rightarrow> string \<Rightarrow> (db_error + unit) M" where
  "peers_UpdateContactEmail ident email =
     db_write (\<lambda>w. Inr ((), w\<lparr>w_peers := update_peer ident (\<lambda>p. p\<lparr>ContactEmail := email, UpdatedAt := w_now w\<rparr>) (w_peers w)\<rparr>))"

definition peers_Delete :: "string \<Rightarrow> (db_error + unit) M" where
  "peers_Delete ident = db_write (\<lambda>w. Inr ((), w\<lparr>w_peers := delete_peer ident (w_peers w)\<rparr>))"

text \<open>\<^verbatim>\<open>ImportPeer\<close>: an insert that does nothing on an existing (node, ASN); then the result is the empty
  identifier.\<close>

definition same_key :: "peer \<Rightarrow> peer \<Rightarrow> bool" where
  "same_key p q \<longleftrightarrow> NodeID q = NodeID p \<and> RemoteASN q = RemoteASN p"

definition peers_ImportPeer :: "peer \<Rightarrow> (db_error + string) M" where
  "peers_ImportPeer p = db_write (\<lambda>w.
     if list_ex (same_key p) (w_peers w) then Inr ([], w)
     else insert_peer (p\<lparr>ID := [], Status := ''active'', MTU := None, WgPreSharedKey := None, RejectReason := None,
                         EndpointMismatchSince := None, BGPSuspendedByEndpoint := False, LastActiveAt := None,
                         InactivityWarningStage := 0, CreatedAt := 0, UpdatedAt := 0\<rparr>) w)"

text \<open>\<^verbatim>\<open>ImportPeerFull\<close>: the action taken and the identifier stored into the struct (unchanged when
  skipped).\<close>

definition import_row :: "peer \<Rightarrow> peer" where
  "import_row p = p\<lparr>ID := [], Status := (if Status p = [] then ''pending'' else Status p), RejectReason := None,
     EndpointMismatchSince := None, BGPSuspendedByEndpoint := False, LastActiveAt := None,
     InactivityWarningStage := 0, CreatedAt := 0, UpdatedAt := 0\<rparr>"

definition overwrite_row :: "peer \<Rightarrow> int \<Rightarrow> peer \<Rightarrow> peer" where
  "overwrite_row p now q = q\<lparr>RemotePubkey := RemotePubkey p, RemoteEndpoint := RemoteEndpoint p, RemoteLLA := RemoteLLA p,
     ContactEmail := ContactEmail p, WgListenPort := WgListenPort p, WgInterfaceName := WgInterfaceName p,
     BgpProtoName := BgpProtoName p, BirdConfigFilename := BirdConfigFilename p, WgManaged := WgManaged p, MTU := MTU p,
     WgPreSharedKey := WgPreSharedKey p, Status := Status p, UpdatedAt := now\<rparr>"

definition upsert_peer :: "peer \<Rightarrow> bool \<Rightarrow> world \<Rightarrow> db_error + (string \<times> string) \<times> world" where
  "upsert_peer p overwrite w =
     (let p' = import_row p in
      case find (same_key p) (w_peers w) of
        None \<Rightarrow> (case insert_peer p' w of Inl e \<Rightarrow> Inl e | Inr (ident, w') \<Rightarrow> Inr ((''imported'', ident), w'))
      | Some q \<Rightarrow>
          (if \<not> overwrite then Inr ((''skipped'', ID p), w)
           else (let q' = overwrite_row p' (w_now w) q in
                 case peer_conflict q' (delete_peer (ID q) (w_peers w)) (w_nodes w) of
                   Some e \<Rightarrow> Inl e
                 | None \<Rightarrow> Inr ((''overwritten'', ID q), w\<lparr>w_peers := update_peer (ID q) (\<lambda>_. q') (w_peers w)\<rparr>))))"

definition peers_ImportPeerFull :: "peer \<Rightarrow> bool \<Rightarrow> (db_error + string \<times> string) M" where
  "peers_ImportPeerFull p overwrite = db_write (upsert_peer p overwrite)"

definition peers_SetEndpointMismatchSince :: "string \<Rightarrow> int option \<Rightarrow> (db_error + unit) M" where
  "peers_SetEndpointMismatchSince ident since =
     db_write (\<lambda>w. Inr ((), w\<lparr>w_peers := update_peer ident (\<lambda>p. p\<lparr>EndpointMismatchSince := since\<rparr>) (w_peers w)\<rparr>))"

definition peers_SetBGPSuspendedByEndpoint :: "string \<Rightarrow> bool \<Rightarrow> (db_error + unit) M" where
  "peers_SetBGPSuspendedByEndpoint ident b =
     db_write (\<lambda>w. Inr ((), w\<lparr>w_peers := update_peer ident (\<lambda>p. p\<lparr>BGPSuspendedByEndpoint := b\<rparr>) (w_peers w)\<rparr>))"

definition peers_MarkPeersActive :: "string list \<Rightarrow> int \<Rightarrow> (db_error + unit) M" where
  "peers_MarkPeersActive ids at =
     (if ids = [] then ret (Inr ())
      else db_write (\<lambda>w. Inr ((), w\<lparr>w_peers := map (\<lambda>p. if ID p \<in> set ids
              then p\<lparr>LastActiveAt := Some at, InactivityWarningStage := 0\<rparr> else p) (w_peers w)\<rparr>)))"

definition peers_SetInactivityWarningStage :: "string \<Rightarrow> int \<Rightarrow> (db_error + unit) M" where
  "peers_SetInactivityWarningStage ident stage =
     db_write (\<lambda>w. Inr ((), w\<lparr>w_peers := update_peer ident (\<lambda>p. p\<lparr>InactivityWarningStage := stage\<rparr>) (w_peers w)\<rparr>))"

definition peers_DeleteInactive :: "string \<Rightarrow> (db_error + bool) M" where
  "peers_DeleteInactive ident = db_write (\<lambda>w.
     Inr (list_ex (\<lambda>p. ID p = ident \<and> InactivityWarningStage p = 3) (w_peers w),
          w\<lparr>w_peers := filter (\<lambda>p. \<not> (ID p = ident \<and> InactivityWarningStage p = 3)) (w_peers w)\<rparr>))"

text \<open>\<^verbatim>\<open>ListInactiveActivePeers\<close>: the age is in milliseconds; the code divides it into days.\<close>

record InactivePeer =
  ip_PeerID :: string
  ip_NodeID :: string
  ip_RemoteASN :: int
  ip_ContactEmail :: string
  ip_Stage :: int
  ip_NodeName :: string
  ip_AgeMs :: int

definition peers_ListInactiveActivePeers :: "(db_error + InactivePeer list) M" where
  "peers_ListInactiveActivePeers = db_read (\<lambda>w. Inr (sort_key (\<lambda>r. - ip_AgeMs r)
     (map (\<lambda>(p, n). \<lparr>ip_PeerID = ID p, ip_NodeID = NodeID p, ip_RemoteASN = RemoteASN p, ip_ContactEmail = ContactEmail p,
                      ip_Stage = InactivityWarningStage p, ip_NodeName = n_Name n,
                      ip_AgeMs = w_now w - (case LastActiveAt p of None \<Rightarrow> UpdatedAt p | Some t \<Rightarrow> t)\<rparr>)
        (List.map_filter (join_node w) (filter (\<lambda>p. Status p = ''active'') (w_peers w))))))"

section \<open>Nodes\<close>

definition nodes_GetByID :: "string \<Rightarrow> (db_error + node) M" where
  "nodes_GetByID ident = db_read (\<lambda>w. row (find_node ident (w_nodes w)))"

definition nodes_GetByAgentToken :: "string \<Rightarrow> (db_error + node) M" where
  "nodes_GetByAgentToken token = db_read (\<lambda>w. row (find (\<lambda>n. n_AgentToken n = token \<and> n_Enabled n) (w_nodes w)))"

definition nodes_List :: "(db_error + node list) M" where
  "nodes_List = db_read (\<lambda>w. Inr (sort_key n_Name (w_nodes w)))"

definition nodes_ListEnabled :: "(db_error + node list) M" where
  "nodes_ListEnabled = db_read (\<lambda>w. Inr (sort_key n_Name (filter n_Enabled (w_nodes w))))"

definition update_node :: "string \<Rightarrow> (node \<Rightarrow> node) \<Rightarrow> world \<Rightarrow> world" where
  "update_node ident f w = w\<lparr>w_nodes := map (\<lambda>n. if n_ID n = ident then f n else n) (w_nodes w)\<rparr>"

definition nodes_SetOnline :: "string \<Rightarrow> bool \<Rightarrow> (db_error + unit) M" where
  "nodes_SetOnline ident online = db_write (\<lambda>w. Inr ((), update_node ident (\<lambda>n. n\<lparr>n_Online := online\<rparr>) w))"

definition nodes_SetAgentState :: "string \<Rightarrow> string \<Rightarrow> (db_error + unit) M" where
  "nodes_SetAgentState ident st = db_write (\<lambda>w. Inr ((), update_node ident
     (\<lambda>n. n\<lparr>n_AgentState := st, n_AgentStateChangedAt := w_now w, n_Online := (st = ''online'')\<rparr>) w))"

definition nodes_SetAgentVersion :: "string \<Rightarrow> string \<Rightarrow> (db_error + unit) M" where
  "nodes_SetAgentVersion ident version = db_write (\<lambda>w. Inr ((), update_node ident
     (\<lambda>n. n\<lparr>n_AgentVersion := version, n_AgentState := ''online'', n_Online := True\<rparr>) w))"

definition nodes_SetAgentToken :: "string \<Rightarrow> string \<Rightarrow> (db_error + unit) M" where
  "nodes_SetAgentToken ident token = db_write (\<lambda>w. Inr ((), update_node ident (\<lambda>n. n\<lparr>n_AgentToken := token\<rparr>) w))"

definition nodes_ResetAgentPubkey :: "string \<Rightarrow> (db_error + unit) M" where
  "nodes_ResetAgentPubkey ident = db_write (\<lambda>w. Inr ((), update_node ident (\<lambda>n. n\<lparr>n_AgentPubkey := []\<rparr>) w))"

definition nodes_SetAgentPubkey :: "string \<Rightarrow> string \<Rightarrow> (db_error + unit) M" where
  "nodes_SetAgentPubkey ident pubkey = db_write (\<lambda>w. Inr ((), update_node ident
     (\<lambda>n. if n_AgentPubkey n = [] then n\<lparr>n_AgentPubkey := pubkey\<rparr> else n) w))"

definition nodes_GetAgentPubkey :: "string \<Rightarrow> (db_error + string) M" where
  "nodes_GetAgentPubkey ident = db_read (\<lambda>w.
     row (map_option n_AgentPubkey (find (\<lambda>n. n_ID n = ident \<and> n_Enabled n) (w_nodes w))))"

definition nodes_MarkStaleUpdating :: "(db_error + unit) M" where
  "nodes_MarkStaleUpdating = db_write (\<lambda>w. Inr ((), w\<lparr>w_nodes := map (\<lambda>n.
     if n_AgentState n = ''updating'' \<and> n_AgentStateChangedAt n < w_now w - 300000
     then n\<lparr>n_AgentState := ''offline'', n_Online := False\<rparr> else n) (w_nodes w)\<rparr>))"

text \<open>\<^verbatim>\<open>DeleteWithPeers\<close>: two statements in one transaction; an error in either rolls both back.\<close>

definition nodes_DeleteWithPeers :: "string \<Rightarrow> (db_error + unit) M" where
  "nodes_DeleteWithPeers ident = State (\<lambda>w.
     case run_state (db_write (\<lambda>w. Inr ((), w\<lparr>w_peers := filter (\<lambda>p. NodeID p \<noteq> ident) (w_peers w)\<rparr>))) w of
       (Inl e, w1) \<Rightarrow> (Inl e, w1)
     | (Inr _, w1) \<Rightarrow>
         (case run_state (db_write (\<lambda>w. Inr ((), w\<lparr>w_nodes := filter (\<lambda>n. n_ID n \<noteq> ident) (w_nodes w)\<rparr>))) w1 of
            (Inl e, w2) \<Rightarrow> (Inl e, w2\<lparr>w_peers := w_peers w, w_nodes := w_nodes w\<rparr>)
          | (Inr _, w2) \<Rightarrow> (Inr (), w2)))"

section \<open>Bindings\<close>

definition bindings_GetByTgUserID :: "int \<Rightarrow> (db_error + BotUserBinding) M" where
  "bindings_GetByTgUserID tg = db_read (\<lambda>w. row (find (\<lambda>b. bb_TgUserID b = tg) (w_bindings w)))"

section \<open>Rows by identifier\<close>

text \<open>The contract of a table addressed by primary key, shared by \<^verbatim>\<open>peers\<close> and \<^verbatim>\<open>nodes\<close>.\<close>

locale row_store =
  fixes look :: "string \<Rightarrow> 'r list \<Rightarrow> 'r option"
    and upd :: "string \<Rightarrow> ('r \<Rightarrow> 'r) \<Rightarrow> 'r list \<Rightarrow> 'r list"
    and key :: "'r \<Rightarrow> string"
  assumes look_upd: "(\<And>r. key (f r) = key r) \<Longrightarrow>
      look i (upd j f rs) = (if i = j then map_option f (look i rs) else look i rs)"
    and look_in: "look i rs = Some r \<Longrightarrow> r \<in> set rs \<and> key r = i"
    and look_of: "distinct (map key rs) \<Longrightarrow> r \<in> set rs \<Longrightarrow> look (key r) rs = Some r"
    and upd_keys: "(\<And>r. key (f r) = key r) \<Longrightarrow> map key (upd j f rs) = map key rs"
begin

lemma look_upd_other: "(\<And>r. key (f r) = key r) \<Longrightarrow> i \<noteq> j \<Longrightarrow> look i (upd j f rs) = look i rs"
  by (simp add: look_upd)

lemma look_inj: "distinct (map key rs) \<Longrightarrow> r \<in> set rs \<Longrightarrow> r' \<in> set rs \<Longrightarrow> key r = key r' \<Longrightarrow> r = r'"
  using look_of by (metis option.inject)

lemma look_iff: "distinct (map key rs) \<Longrightarrow> look i rs = Some r \<longleftrightarrow> r \<in> set rs \<and> key r = i"
  using look_in look_of by blast

end

definition update_rows :: "string \<Rightarrow> (node \<Rightarrow> node) \<Rightarrow> node list \<Rightarrow> node list" where
  "update_rows nid f ns = map (\<lambda>n. if n_ID n = nid then f n else n) ns"

lemma update_node_rows: "update_node nid f w = w\<lparr>w_nodes := update_rows nid f (w_nodes w)\<rparr>"
  by (simp add: update_node_def update_rows_def)

lemma find_unique:
  "distinct (map k rs) \<Longrightarrow> r \<in> set rs \<Longrightarrow> find (\<lambda>x. k x = k r) rs = Some r"
  by (induction rs) (auto simp: image_iff)

interpretation peer_rows: row_store find_peer update_peer ID
proof
  fix f :: "peer \<Rightarrow> peer" and i j rs
  assume f: "\<And>r. ID (f r) = ID r"
  show "find_peer i (update_peer j f rs) = (if i = j then map_option f (find_peer i rs) else find_peer i rs)"
    by (induction rs) (auto simp: find_peer_def update_peer_def f)
  show "map ID (update_peer j f rs) = map ID rs"
    by (simp add: update_peer_def f)
next
  show "find_peer i rs = Some r \<Longrightarrow> r \<in> set rs \<and> ID r = i" for i rs r
    unfolding find_peer_def by (rule find_Some_in)
  show "distinct (map ID rs) \<Longrightarrow> r \<in> set rs \<Longrightarrow> find_peer (ID r) rs = Some r" for rs r
    unfolding find_peer_def by (rule find_unique)
qed

interpretation node_rows: row_store find_node update_rows n_ID
proof
  fix f :: "node \<Rightarrow> node" and i j rs
  assume f: "\<And>r. n_ID (f r) = n_ID r"
  show "find_node i (update_rows j f rs) = (if i = j then map_option f (find_node i rs) else find_node i rs)"
    by (induction rs) (auto simp: find_node_def update_rows_def f)
  show "map n_ID (update_rows j f rs) = map n_ID rs"
    by (simp add: update_rows_def f)
next
  show "find_node i rs = Some r \<Longrightarrow> r \<in> set rs \<and> n_ID r = i" for i rs r
    unfolding find_node_def by (rule find_Some_in)
  show "distinct (map n_ID rs) \<Longrightarrow> r \<in> set rs \<Longrightarrow> find_node (n_ID r) rs = Some r" for rs r
    unfolding find_node_def by (rule find_unique)
qed

lemma find_peer_delete: "find_peer i (delete_peer j ps) = (if i = j then None else find_peer i ps)"
  by (induction ps) (auto simp: find_peer_def delete_peer_def)

lemma find_peer_append: "find_peer i (ps @ [p]) = (case find_peer i ps of Some q \<Rightarrow> Some q | None \<Rightarrow> if ID p = i then Some p else None)"
  by (induction ps) (auto simp: find_peer_def)

lemma find_node_None: "find_node i ns = None \<longleftrightarrow> i \<notin> set (map n_ID ns)"
  by (induction ns) (auto simp: find_node_def)

lemma find_peer_None: "find_peer i ps = None \<longleftrightarrow> i \<notin> set (map ID ps)"
  by (induction ps) (auto simp: find_peer_def)

section \<open>The tables stay well formed\<close>

definition asn_key :: "peer \<Rightarrow> string \<times> int" where
  "asn_key p = (NodeID p, RemoteASN p)"

definition port_key :: "peer \<Rightarrow> string \<times> int" where
  "port_key p = (NodeID p, WgListenPort p)"

definition tables_ok :: "world \<Rightarrow> bool" where
  "tables_ok w \<longleftrightarrow> distinct (map ID (w_peers w)) \<and> distinct (map asn_key (w_peers w))
     \<and> distinct (map port_key (w_peers w)) \<and> list_all (\<lambda>p. NodeID p \<in> set (map n_ID (w_nodes w))) (w_peers w)
     \<and> distinct (map n_ID (w_nodes w))"

text \<open>What the constraints look at.\<close>

definition keys_of :: "peer \<Rightarrow> string \<times> string \<times> int \<times> int" where
  "keys_of p = (ID p, NodeID p, RemoteASN p, WgListenPort p)"

lemma keys_ofD: "keys_of (f p) = keys_of p \<Longrightarrow>
    ID (f p) = ID p \<and> NodeID (f p) = NodeID p \<and> asn_key (f p) = asn_key p \<and> port_key (f p) = port_key p"
  by (simp add: keys_of_def asn_key_def port_key_def)

lemma insensitive_tables_ok [simp]: "insensitive tables_ok"
  by (simp add: insensitive_def tables_ok_def)

lemma tables_ok_map:
  assumes "\<And>p. keys_of (f p) = keys_of p" "tables_ok w"
  shows "tables_ok (w\<lparr>w_peers := map f (w_peers w)\<rparr>)"
proof -
  have k: "ID (f p) = ID p" "NodeID (f p) = NodeID p" "asn_key (f p) = asn_key p" "port_key (f p) = port_key p" for p
    using keys_ofD [of f p] assms(1) by auto
  then have "ID \<circ> f = ID" "asn_key \<circ> f = asn_key" "port_key \<circ> f = port_key" by auto
  with assms(2) show ?thesis by (simp add: tables_ok_def list_all_iff k)
qed

lemma tables_ok_update:
  assumes "\<And>p. keys_of (f p) = keys_of p" "tables_ok w"
  shows "tables_ok (w\<lparr>w_peers := update_peer i f (w_peers w)\<rparr>)"
  unfolding update_peer_def by (rule tables_ok_map) (simp_all add: assms)

lemma tables_ok_filter: "tables_ok w \<Longrightarrow> tables_ok (w\<lparr>w_peers := filter P (w_peers w)\<rparr>)"
  by (auto simp: tables_ok_def list_all_iff distinct_map_filter)

lemma no_peer_conflict:
  "peer_conflict p others ns = None \<longleftrightarrow>
     ID p \<notin> set (map ID others) \<and> asn_key p \<notin> set (map asn_key others) \<and> port_key p \<notin> set (map port_key others)
     \<and> NodeID p \<in> set (map n_ID ns)"
proof -
  have "list_ex (\<lambda>q. NodeID q = NodeID p \<and> RemoteASN q = RemoteASN p) others \<longleftrightarrow> asn_key p \<in> set (map asn_key others)"
    by (induction others) (auto simp: asn_key_def)
  moreover have "list_ex (\<lambda>q. NodeID q = NodeID p \<and> WgListenPort q = WgListenPort p) others \<longleftrightarrow> port_key p \<in> set (map port_key others)"
    by (induction others) (auto simp: port_key_def)
  moreover have "list_ex (\<lambda>q. ID q = ID p) others \<longleftrightarrow> ID p \<in> set (map ID others)"
    by (induction others) auto
  ultimately show ?thesis by (simp add: peer_conflict_def find_node_None)
qed

lemma fresh_uuid_sel [simp]:
  "w_peers (snd (fresh_uuid w)) = w_peers w" "w_nodes (snd (fresh_uuid w)) = w_nodes w"
  "w_sent (snd (fresh_uuid w)) = w_sent w" "w_now (snd (fresh_uuid w)) = w_now w"
  by (simp_all add: fresh_uuid_def split: list.splits)

text \<open>The row that an insert stores.\<close>

definition new_row :: "peer \<Rightarrow> world \<Rightarrow> string \<Rightarrow> peer" where
  "new_row p w i = p\<lparr>ID := i, CreatedAt := (if CreatedAt p = 0 then w_now w else CreatedAt p),
     UpdatedAt := (if UpdatedAt p = 0 then w_now w else UpdatedAt p)\<rparr>"

lemma insert_peer_cases:
  assumes "insert_peer p w = Inr (i, w')"
  shows "peer_conflict (new_row p w i) (w_peers w) (w_nodes w) = None"
    and "w_peers w' = w_peers w @ [new_row p w i]" and "w_nodes w' = w_nodes w" and "w_sent w' = w_sent w"
    and "ID p = [] \<Longrightarrow> i = fst (fresh_uuid w)"
  using assms
  by (cases "ID p = []"; cases "fresh_uuid w"; use fresh_uuid_sel [of w] in \<open>auto simp: insert_peer_def new_row_def Let_def split: option.splits\<close>)+

lemma tables_ok_insert: "tables_ok w \<Longrightarrow> insert_peer p w = Inr (i, w') \<Longrightarrow> tables_ok w'"
  using insert_peer_cases [of p w i w'] by (simp add: tables_ok_def no_peer_conflict)

text \<open>Reads change nothing but the script.\<close>

lemma keeps_peer_reads [keeps_intros]:
  assumes "insensitive I"
  shows "keeps I (peers_GetByID a)" "keeps I (peers_GetByIDWithNode a)" "keeps I (peers_GetByIDAndASN a n)"
    "keeps I (peers_GetByIDAndASNWithNode a n)" "keeps I (peers_ListByASN n)" "keeps I (peers_ListByNode a)"
    "keeps I (peers_ListActiveByNode a)" "keeps I (peers_List lp)" "keeps I peers_ListAll"
    "keeps I (peers_ExistsByNodeAndASN a n)" "keeps I (peers_ResolvePeerIDByNodeAndASN a n)"
    "keeps I (peers_ExistsByNodeAndPort a n)" "keeps I (peers_CountPendingByASN n)"
    "keeps I peers_ListInactiveActivePeers" "keeps I (nodes_GetByID a)" "keeps I (nodes_GetByAgentToken a)"
    "keeps I nodes_List" "keeps I nodes_ListEnabled" "keeps I (nodes_GetAgentPubkey a)" "keeps I (bindings_GetByTgUserID n)"
  unfolding peers_GetByID_def peers_GetByIDWithNode_def peers_GetByIDAndASN_def peers_GetByIDAndASNWithNode_def
    peers_ListByASN_def peers_ListByNode_def peers_ListActiveByNode_def peers_List_def peers_ListAll_def
    peers_ExistsByNodeAndASN_def peers_ResolvePeerIDByNodeAndASN_def peers_ExistsByNodeAndPort_def
    peers_CountPendingByASN_def peers_ListInactiveActivePeers_def nodes_GetByID_def nodes_GetByAgentToken_def
    nodes_List_def nodes_ListEnabled_def nodes_GetAgentPubkey_def bindings_GetByTgUserID_def
  by (intro keeps_intros assms)+

lemma keys_of_set_field: "keys_of (set_field now txt f p) = keys_of p"
  by (cases f) (simp_all add: keys_of_def)

lemma keys_of_set_fields: "keys_of (fold (set_field now txt) fs p) = keys_of p"
  by (induction fs arbitrary: p) (simp_all add: keys_of_set_field)

lemma tables_ok_nodes:
  assumes "\<And>n. n_ID (f n) = n_ID n" "tables_ok w"
  shows "tables_ok (w\<lparr>w_nodes := map f (w_nodes w)\<rparr>)"
proof -
  have "n_ID \<circ> f = n_ID" using assms(1) by auto
  moreover have "(\<lambda>x. n_ID (f x)) ` set (w_nodes w) = n_ID ` set (w_nodes w)" using assms(1) by simp
  ultimately show ?thesis using assms(2) by (simp add: tables_ok_def image_image)
qed

lemma tables_ok_update_node:
  assumes "\<And>n. n_ID (f n) = n_ID n" "tables_ok w"
  shows "tables_ok (update_node i f w)"
  unfolding update_node_def by (rule tables_ok_nodes) (simp_all add: assms)

text \<open>An upsert replaces one row by one with the same identifier and key.\<close>

lemma tables_ok_replace:
  assumes "tables_ok w" "q \<in> set (w_peers w)" "ID q' = ID q"
    and "peer_conflict q' (delete_peer (ID q) (w_peers w)) (w_nodes w) = None"
  shows "tables_ok (w\<lparr>w_peers := update_peer (ID q) (\<lambda>_. q') (w_peers w)\<rparr>)"
proof -
  let ?ps = "w_peers w"
  have d: "distinct (map ID ?ps)" "distinct (map asn_key ?ps)" "distinct (map port_key ?ps)"
    using assms(1) by (simp_all add: tables_ok_def)
  note nc = assms(4) [unfolded no_peer_conflict delete_peer_def]
  have gen: "distinct (map k (update_peer (ID q) (\<lambda>_. q') ps))"
    if "distinct (map k ps)" "distinct (map ID ps)" "k q' \<notin> set (map k (filter (\<lambda>p. ID p \<noteq> ID q) ps))"
    for k :: "peer \<Rightarrow> 'k" and ps
    using that
  proof (induction ps)
    case (Cons p ps)
    show ?case
    proof (cases "ID p = ID q")
      case True
      then have "\<forall>x \<in> set ps. ID x \<noteq> ID q" using Cons.prems(2) by (auto simp: image_iff)
      then have "update_peer (ID q) (\<lambda>_. q') ps = ps" "filter (\<lambda>p. ID p \<noteq> ID q) ps = ps"
        by (auto simp: update_peer_def map_idI filter_id_conv)
      with True Cons.prems show ?thesis by (auto simp: update_peer_def)
    next
      case False
      with Cons show ?thesis by (auto simp: update_peer_def split: if_splits)
    qed
  qed (simp add: update_peer_def)
  have "list_all (\<lambda>p. NodeID p \<in> set (map n_ID (w_nodes w))) (update_peer (ID q) (\<lambda>_. q') ?ps)"
    using assms(1) nc by (auto simp: tables_ok_def list_all_iff update_peer_def)
  with gen [OF d(1) d(1)] gen [OF d(2) d(1)] gen [OF d(3) d(1)] nc assms(1)
  show ?thesis by (simp add: tables_ok_def)
qed

lemma find_same_key: "find (same_key p) ps = Some q \<Longrightarrow> q \<in> set ps \<and> NodeID q = NodeID p \<and> RemoteASN q = RemoteASN p"
  using find_Some_in [of "same_key p" ps q] by (simp add: same_key_def)

lemma keeps_tables_ok_Create [keeps_intros]: "keeps tables_ok (peers_Create p)"
  unfolding peers_Create_def by (rule keeps_db_write) (auto intro: tables_ok_insert)

lemma keeps_tables_ok_ImportPeer [keeps_intros]: "keeps tables_ok (peers_ImportPeer p)"
  unfolding peers_ImportPeer_def by (rule keeps_db_write) (auto intro: tables_ok_insert split: if_splits)

lemma tables_ok_upsert: "tables_ok w \<Longrightarrow> upsert_peer p ow w = Inr (x, w') \<Longrightarrow> tables_ok w'"
proof (cases "find (same_key p) (w_peers w)")
  case None
  assume "tables_ok w" "upsert_peer p ow w = Inr (x, w')"
  with None show ?thesis by (auto simp: upsert_peer_def Let_def split: sum.splits intro: tables_ok_insert)
next
  case (Some q)
  let ?q = "overwrite_row (import_row p) (w_now w) q"
  assume t: "tables_ok w" and r: "upsert_peer p ow w = Inr (x, w')"
  have "ID ?q = ID q" by (simp add: overwrite_row_def)
  with tables_ok_replace [OF t, of q ?q] find_same_key [OF Some] r Some t show ?thesis
    by (auto simp: upsert_peer_def Let_def split: if_splits option.splits)
qed

lemma keeps_tables_ok_ImportPeerFull [keeps_intros]: "keeps tables_ok (peers_ImportPeerFull p ow)"
  unfolding peers_ImportPeerFull_def by (rule keeps_db_write) (auto intro: tables_ok_upsert)

lemma keeps_update_write:
  assumes "\<And>w p. keys_of (f w p) = keys_of p"
  shows "keeps tables_ok (db_write (\<lambda>w. Inr ((), w\<lparr>w_peers := update_peer i (f w) (w_peers w)\<rparr>)))"
  by (rule keeps_db_write) (auto intro!: tables_ok_update simp: assms)

lemma keeps_update_node_write:
  assumes "\<And>w n. n_ID (f w n) = n_ID n"
  shows "keeps tables_ok (db_write (\<lambda>w. Inr ((), update_node i (f w) w)))"
  by (rule keeps_db_write) (auto intro!: tables_ok_update_node simp: assms)

lemma keeps_tables_ok_updates [keeps_intros]:
  "keeps tables_ok (peers_UpdateFields i fs)" "keeps tables_ok (peers_UpdateStatus i st fs)"
  "keeps tables_ok (peers_UpdateContactEmail i e)" "keeps tables_ok (peers_SetEndpointMismatchSince i t)"
  "keeps tables_ok (peers_SetBGPSuspendedByEndpoint i b)" "keeps tables_ok (peers_SetInactivityWarningStage i n)"
  unfolding peers_UpdateFields_def peers_UpdateStatus_def peers_UpdateContactEmail_def
    peers_SetEndpointMismatchSince_def peers_SetBGPSuspendedByEndpoint_def peers_SetInactivityWarningStage_def
  by (-, (rule keeps_update_write; (rule keys_of_set_fields | simp add: keys_of_def))+)

lemma keeps_tables_ok_deletes [keeps_intros]:
  "keeps tables_ok (peers_Delete i)" "keeps tables_ok (peers_DeleteInactive i)" "keeps tables_ok (peers_MarkPeersActive is t)"
proof -
  show "keeps tables_ok (peers_Delete i)" "keeps tables_ok (peers_DeleteInactive i)"
    unfolding peers_Delete_def delete_peer_def peers_DeleteInactive_def
    by (-, (rule keeps_db_write; auto intro!: tables_ok_filter)+)
  show "keeps tables_ok (peers_MarkPeersActive is t)"
    unfolding peers_MarkPeersActive_def
    by (intro keeps_intros keeps_db_write) (auto intro!: tables_ok_map simp: keys_of_def)
qed

lemma keeps_tables_ok_nodes [keeps_intros]:
  "keeps tables_ok (nodes_SetOnline i b)" "keeps tables_ok (nodes_SetAgentState i a)" "keeps tables_ok (nodes_SetAgentVersion i a)"
  "keeps tables_ok (nodes_SetAgentToken i a)" "keeps tables_ok (nodes_ResetAgentPubkey i)" "keeps tables_ok (nodes_SetAgentPubkey i a)"
  "keeps tables_ok nodes_MarkStaleUpdating"
proof -
  show "keeps tables_ok nodes_MarkStaleUpdating"
    unfolding nodes_MarkStaleUpdating_def by (rule keeps_db_write) (auto intro!: tables_ok_nodes)
qed (unfold nodes_SetOnline_def nodes_SetAgentState_def nodes_SetAgentVersion_def nodes_SetAgentToken_def
    nodes_ResetAgentPubkey_def nodes_SetAgentPubkey_def, (rule keeps_update_node_write; simp)+)

lemma tables_ok_delete_node:
  assumes "tables_ok w"
  shows "tables_ok (w\<lparr>w_peers := filter (\<lambda>p. NodeID p \<noteq> i) (w_peers w), w_nodes := filter (\<lambda>n. n_ID n \<noteq> i) (w_nodes w)\<rparr>)"
  using assms by (auto simp: tables_ok_def list_all_iff distinct_map_filter)

lemma keeps_tables_ok_DeleteWithPeers [keeps_intros]: "keeps tables_ok (nodes_DeleteWithPeers i)"
proof (rule keepsI)
  fix w assume t: "tables_ok w"
  from tables_ok_delete_node [OF t, of i] t show "tables_ok (snd (run_state (nodes_DeleteWithPeers i) w))"
    by (auto simp: nodes_DeleteWithPeers_def run_db_write insensitive_db_next tables_ok_def db_next_def)
qed

lemma keeps_tables_ok_SendCommand [keeps_intros]: "keeps tables_ok (SendCommand n c)"
  by (rule keeps_SendCommand) (simp add: tables_ok_def)

end
