(* ===== verification/AdminPeer.thy ===== *)
theory AdminPeer
  imports PeerRepo ApiVersion
begin

text \<open>
  \<^verbatim>\<open>internal/handler/admin_peer.go\<close>: the operators' handlers on peers (approve, reject, suspend,
  unsuspend, delete, edit, contact address, import from an agent, JSON export and import), and
  \<^verbatim>\<open>decodePeerUpdateJSON\<close> with the request bodies. A body that does not decode is \<open>None\<close>. A nil node
  dereferenced after a failed lookup is the response \<open>Panicked\<close>.
\<close>

section \<open>Payloads and bodies\<close>

definition jopt :: "('a \<Rightarrow> json) \<Rightarrow> 'a option \<Rightarrow> json" where
  "jopt f v = (case v of None \<Rightarrow> JNull | Some x \<Rightarrow> f x)"

definition status_body :: "string \<Rightarrow> json" where
  "status_body s = JObj [(''status'', JStr s)]"

definition operation_in_progress :: response where
  "operation_in_progress =
     ErrorResp 409 ''operation_in_progress'' ''Another operation is in progress for this peer, please retry''"

text \<open>The \<^verbatim>\<open>peer.add\<close> payload built from a stored row.\<close>

definition add_payload :: "peer \<Rightarrow> PeerAddPayload" where
  "add_payload p = \<lparr>pa_PeerID = ID p, pa_ASN = RemoteASN p, pa_RemoteEndpoint = RemoteEndpoint p,
     pa_RemoteWgPubkey = RemotePubkey p, pa_RemoteLLA = RemoteLLA p, pa_ListenPort = WgListenPort p,
     pa_WgInterface = WgInterfaceName p, pa_MTU = MTU p, pa_WgPreSharedKey = WgPreSharedKey p\<rparr>"

definition remove_payload :: "peer \<Rightarrow> PeerRemovePayload" where
  "remove_payload p = \<lparr>pr_PeerID = ID p, pr_ASN = RemoteASN p\<rparr>"

record peerUpdateBody =
  ub_RemotePubkey :: "string option"
  ub_RemoteEndpoint :: "string option"
  ub_RemoteLLA :: "string option"
  ub_MTU :: "int option"
  ub_MTUSet :: bool

text \<open>Decoding an optional field into a pointer: absent and \<^verbatim>\<open>null\<close> give nil, a value of another type is
  an error (the outer \<open>None\<close>). Keys are compared exactly; keys in another letter case are not modelled.\<close>

definition opt_field :: "(json \<Rightarrow> 'a option) \<Rightarrow> string \<Rightarrow> obj \<Rightarrow> 'a option option" where
  "opt_field dec k m =
     (case map_of m k of
        None \<Rightarrow> Some None
      | Some JNull \<Rightarrow> Some None
      | Some v \<Rightarrow> (case dec v of None \<Rightarrow> None | Some x \<Rightarrow> Some (Some x)))"

definition decodePeerUpdateJSON :: "json option \<Rightarrow> peerUpdateBody option" where
  "decodePeerUpdateJSON body =
     (case body of
        Some (JObj raw) \<Rightarrow>
          (case (opt_field dec_str ''remote_pubkey'' raw, opt_field dec_str ''remote_endpoint'' raw,
                 opt_field dec_str ''remote_lla'' raw, opt_field dec_int ''mtu'' raw) of
             (Some pk, Some ep, Some lla, Some mtu) \<Rightarrow>
               Some \<lparr>ub_RemotePubkey = pk, ub_RemoteEndpoint = ep, ub_RemoteLLA = lla, ub_MTU = mtu,
                      ub_MTUSet = (map_of raw ''mtu'' \<noteq> None)\<rparr>
           | _ \<Rightarrow> None)
      | Some JNull \<Rightarrow> Some \<lparr>ub_RemotePubkey = None, ub_RemoteEndpoint = None, ub_RemoteLLA = None, ub_MTU = None, ub_MTUSet = False\<rparr>
      | _ \<Rightarrow> None)"

section \<open>Approval\<close>

record approvePeerResult =
  ap_NodeName :: string
  ap_NodeLocation :: string
  ap_NodePublicIP :: string
  ap_NodeOurLLA :: string
  ap_NodeOurWgPubkey :: string

datatype approve_outcome = Approved approvePeerResult | ApproveError string | ApprovePanic

definition rollback_failed :: "agent_reply \<Rightarrow> bool" where
  "rollback_failed r = (case r of Answer m \<Rightarrow> refused m | _ \<Rightarrow> True)"

definition rollback_err :: "agent_reply \<Rightarrow> json" where
  "rollback_err r = (case r of Answer m \<Rightarrow> JNull | _ \<Rightarrow> JObj [])"

definition approvePeerCore :: "string \<Rightarrow> string \<Rightarrow> approve_outcome M" where
  "approvePeerCore peerID actor = do {
     r \<leftarrow> peers_GetByID peerID;
     case r of
       Inl e \<Rightarrow> ret (ApproveError ''peer not found'')
     | Inr peer \<Rightarrow>
         if Status peer \<noteq> ''pending'' then ret (ApproveError ''peer not found or not pending'')
         else do {
           resp \<leftarrow> SendCommand (NodeID peer) (PeerAdd (add_payload peer));
           case resp of
             NotSent e \<Rightarrow> ret (ApproveError (''agent unreachable: '' @ e))
           | NoAnswer e \<Rightarrow> ret (ApproveError (''agent unreachable: '' @ e))
           | Answer m \<Rightarrow>
               if refused m then ret (ApproveError (''agent failed to configure peer: '' @ m_Error m))
               else do {
                 u \<leftarrow> peers_UpdateStatus peerID ''active'' [];
                 case u of
                   Inl e \<Rightarrow> do {
                     rb \<leftarrow> SendCommand (NodeID peer) (PeerRemove (remove_payload peer));
                     _ \<leftarrow> (if rollback_failed rb
                           then audit_Log ''peer.approve.diverged'' actor (Some peerID)
                                  [(''asn'', jint (RemoteASN peer)), (''rollback_err'', rollback_err rb)]
                           else ret ());
                     ret (ApproveError ''failed to update peer status in DB'')
                   }
                 | Inr _ \<Rightarrow> do {
                     n \<leftarrow> nodes_GetByID (NodeID peer);
                     email \<leftarrow> refreshContactEmail (ContactEmail peer) (RemoteASN peer);
                     case n of
                       Inl _ \<Rightarrow> ret ApprovePanic
                     | Inr node \<Rightarrow> do {
                         notify (Email ''peer-approved'' email (RemoteASN peer));
                         audit_Log ''peer.approve'' actor (Some peerID) [(''asn'', jint (RemoteASN peer))];
                         ret (Approved \<lparr>ap_NodeName = n_Name node, ap_NodeLocation = n_Location node,
                           ap_NodePublicIP = n_PublicIP node, ap_NodeOurLLA = n_OurLLA node,
                           ap_NodeOurWgPubkey = n_OurWgPubkey node\<rparr>)
                       }
                   }
               }
         }
   }"

definition ApprovePeer :: "string \<Rightarrow> string \<Rightarrow> response M" where
  "ApprovePeer peerID adminEmail =
     with_peer_lock (''peer:'' @ peerID) operation_in_progress (do {
       r \<leftarrow> approvePeerCore peerID adminEmail;
       ret (case r of
          Approved _ \<Rightarrow> JSONResp 200 (status_body ''active'')
        | ApproveError e \<Rightarrow> ErrorResp 500 ''approve_failed'' e
        | ApprovePanic \<Rightarrow> Panicked)
     })"

section \<open>Rejection\<close>

text \<open>No lock is taken here. \<open>body\<close> is the decoded reason.\<close>

definition RejectPeer :: "string \<Rightarrow> string \<Rightarrow> string option \<Rightarrow> response M" where
  "RejectPeer peerID adminEmail body =
     (case body of
        None \<Rightarrow> ret (ErrorResp 400 ''bad_request'' ''Rejection reason is required'')
      | Some reason \<Rightarrow>
          if reason = [] then ret (ErrorResp 400 ''bad_request'' ''Rejection reason is required'')
          else do {
            r \<leftarrow> peers_GetByID peerID;
            case r of
              Inl _ \<Rightarrow> ret (ErrorResp 404 ''peer_not_found'' ''Peer not found or not in pending status'')
            | Inr peer \<Rightarrow>
                if Status peer \<noteq> ''pending''
                then ret (ErrorResp 404 ''peer_not_found'' ''Peer not found or not in pending status'')
                else do {
                  n \<leftarrow> nodes_GetByID (NodeID peer);
                  u \<leftarrow> peers_UpdateStatus peerID ''rejected'' (WithRejectReason reason);
                  case u of
                    Inl _ \<Rightarrow> ret (ErrorResp 500 ''internal_error'' ''failed to update peer status'')
                  | Inr _ \<Rightarrow> do {
                      s \<leftarrow> GetSettingValue ''peer_rejected_enabled'';
                      email \<leftarrow> (if s = ''true'' then refreshContactEmail (ContactEmail peer) (RemoteASN peer) else ret []);
                      if s = ''true'' \<and> (case n of Inl _ \<Rightarrow> True | Inr _ \<Rightarrow> False) then ret Panicked
                      else do {
                        _ \<leftarrow> (if s = ''true'' then notify (Email ''peer-rejected'' email (RemoteASN peer)) else ret ());
                        audit_Log ''peer.reject'' adminEmail (Some peerID)
                          [(''asn'', jint (RemoteASN peer)), (''reason'', JStr reason)];
                        ret (JSONResp 200 (status_body ''rejected''))
                      }
                    }
                }
          })"

section \<open>Suspension\<close>

definition SuspendPeer :: "string \<Rightarrow> string \<Rightarrow> string \<Rightarrow> response M" where
  "SuspendPeer peerID adminEmail reason =
     with_peer_lock (''peer:'' @ peerID) operation_in_progress (do {
       r \<leftarrow> peers_GetByID peerID;
       case r of
         Inl _ \<Rightarrow> ret (ErrorResp 404 ''peer_not_found'' ''Peer not found or not active'')
       | Inr peer \<Rightarrow>
           if Status peer \<noteq> ''active'' then ret (ErrorResp 404 ''peer_not_found'' ''Peer not found or not active'')
           else do {
             n \<leftarrow> nodes_GetByID (NodeID peer);
             resp \<leftarrow> SendCommand (NodeID peer) (PeerRemove (remove_payload peer));
             case resp of
               NotSent e \<Rightarrow> ret (ErrorResp 503 ''agent_error'' (''Failed to reach agent: '' @ e))
             | NoAnswer e \<Rightarrow> ret (ErrorResp 503 ''agent_error'' (''Failed to reach agent: '' @ e))
             | Answer m \<Rightarrow>
                 if refused m then ret (ErrorResp 500 ''agent_error'' (''Agent failed to remove peer: '' @ m_Error m))
                 else do {
                   u \<leftarrow> peers_UpdateStatus peerID ''suspended'' [];
                   case u of
                     Inl _ \<Rightarrow> do {
                       _ \<leftarrow> SendCommand (NodeID peer) (PeerAdd (add_payload peer));
                       ret (ErrorResp 500 ''internal_error'' ''failed to update peer status'')
                     }
                   | Inr _ \<Rightarrow> do {
                       audit_Log ''peer.suspend'' adminEmail (Some peerID) [(''asn'', jint (RemoteASN peer))];
                       s \<leftarrow> GetSettingValue ''peer_suspended_enabled'';
                       email \<leftarrow> (if s = ''true'' then refreshContactEmail (ContactEmail peer) (RemoteASN peer) else ret []);
                       if s = ''true'' \<and> (case n of Inl _ \<Rightarrow> True | Inr _ \<Rightarrow> False) then ret Panicked
                       else do {
                         _ \<leftarrow> (if s = ''true'' then notify (Email ''peer-suspended'' email (RemoteASN peer)) else ret ());
                         ClearPeerAlerts peerID;
                         ret (JSONResp 200 (status_body ''suspended''))
                       }
                     }
                 }
           }
     })"

definition UnsuspendPeer :: "string \<Rightarrow> string \<Rightarrow> response M" where
  "UnsuspendPeer peerID adminEmail =
     with_peer_lock (''peer:'' @ peerID) operation_in_progress (do {
       r \<leftarrow> peers_GetByID peerID;
       case r of
         Inl _ \<Rightarrow> ret (ErrorResp 404 ''peer_not_found'' ''Peer not found or not suspended'')
       | Inr peer \<Rightarrow>
           if Status peer \<noteq> ''suspended'' then ret (ErrorResp 404 ''peer_not_found'' ''Peer not found or not suspended'')
           else do {
             n \<leftarrow> nodes_GetByID (NodeID peer);
             resp \<leftarrow> SendCommand (NodeID peer) (PeerAdd (add_payload peer));
             case resp of
               NotSent e \<Rightarrow> ret (ErrorResp 503 ''agent_error'' (''Failed to reach agent: '' @ e))
             | NoAnswer e \<Rightarrow> ret (ErrorResp 503 ''agent_error'' (''Failed to reach agent: '' @ e))
             | Answer m \<Rightarrow>
                 if refused m then ret (ErrorResp 500 ''agent_error'' (''Agent failed to add peer: '' @ m_Error m))
                 else do {
                   u \<leftarrow> peers_UpdateStatus peerID ''active'' [];
                   case u of
                     Inl _ \<Rightarrow> do {
                       _ \<leftarrow> SendCommand (NodeID peer) (PeerRemove (remove_payload peer));
                       ret (ErrorResp 500 ''internal_error'' ''failed to update peer status'')
                     }
                   | Inr _ \<Rightarrow> do {
                       audit_Log ''peer.unsuspend'' adminEmail (Some peerID) [(''asn'', jint (RemoteASN peer))];
                       s \<leftarrow> GetSettingValue ''peer_unsuspended_enabled'';
                       email \<leftarrow> (if s = ''true'' then refreshContactEmail (ContactEmail peer) (RemoteASN peer) else ret []);
                       if s = ''true'' \<and> (case n of Inl _ \<Rightarrow> True | Inr _ \<Rightarrow> False) then ret Panicked
                       else do {
                         _ \<leftarrow> (if s = ''true'' then notify (Email ''peer-unsuspended'' email (RemoteASN peer)) else ret ());
                         ret (JSONResp 200 (status_body ''active''))
                       }
                     }
                 }
           }
     })"

section \<open>Deletion\<close>

text \<open>The error answers to a \<^verbatim>\<open>peer.remove\<close> that failed.\<close>

definition remove_refusal :: "agent_reply \<Rightarrow> response option" where
  "remove_refusal resp =
     (case resp of
        NotSent e \<Rightarrow> Some (ErrorResp 503 ''agent_error'' (''Failed to reach agent: '' @ e))
      | NoAnswer e \<Rightarrow> Some (ErrorResp 503 ''agent_error'' (''Failed to reach agent: '' @ e))
      | Answer m \<Rightarrow> if refused m then Some (ErrorResp 500 ''agent_error'' (''Agent failed to remove peer: '' @ m_Error m)) else None)"

definition DeletePeer :: "string \<Rightarrow> string \<Rightarrow> response M" where
  "DeletePeer peerID adminEmail =
     with_peer_lock (''peer:'' @ peerID) operation_in_progress (do {
       r \<leftarrow> peers_GetByID peerID;
       case r of
         Inl _ \<Rightarrow> ret (ErrorResp 404 ''peer_not_found'' ''Peer not found'')
       | Inr peer \<Rightarrow> do {
           n \<leftarrow> nodes_GetByID (NodeID peer);
           stop \<leftarrow> (if Status peer = ''active'' then do {
               resp \<leftarrow> SendCommand (NodeID peer) (PeerRemove (remove_payload peer));
               ret (remove_refusal resp)
             } else ret None);
           case stop of
             Some resp \<Rightarrow> ret resp
           | None \<Rightarrow> do {
               d \<leftarrow> peers_Delete peerID;
               case d of
                 Inl _ \<Rightarrow> ret (ErrorResp 500 ''internal_error'' ''Failed to delete peer'')
               | Inr _ \<Rightarrow> do {
                   audit_Log ''peer.admin_delete'' adminEmail (Some peerID) [(''asn'', jint (RemoteASN peer))];
                   s \<leftarrow> GetSettingValue ''peer_deleted_enabled'';
                   _ \<leftarrow> (if s = ''true'' \<and> ContactEmail peer \<noteq> []
                         then notify (Email ''peer-deleted'' (ContactEmail peer) (RemoteASN peer)) else ret ());
                   notify (BotNotify (RemoteASN peer) ''peer_deleted'' ''peer.deleted'');
                   ClearPeerAlerts peerID;
                   ret (JSONResp 200 (status_body ''deleted''))
                 }
             }
         }
     })"

section \<open>Editing\<close>

text \<open>The field checks shared by the operators' and the users' update handlers, in their order.\<close>

definition check_update :: "peerUpdateBody \<Rightarrow> response option" where
  "check_update body =
     (if ub_RemotePubkey body = None \<and> ub_RemoteEndpoint body = None \<and> ub_RemoteLLA body = None \<and> \<not> ub_MTUSet body
      then Some (ErrorResp 400 ''bad_request'' ''No fields to update'')
      else if (case ub_RemotePubkey body of None \<Rightarrow> False | Some k \<Rightarrow> \<not> base64Re k \<or> length k < 40)
      then Some (ErrorResp 400 ''bad_request'' ''Invalid WireGuard public key (must be Base64)'')
      else if (case ub_RemoteEndpoint body of None \<Rightarrow> False | Some e \<Rightarrow> \<not> validateEndpoint e)
      then Some (ErrorResp 400 ''bad_request'' ''Invalid endpoint (format: IP:Port or [IPv6]:Port)'')
      else if (case ub_RemoteLLA body of None \<Rightarrow> False | Some l \<Rightarrow> \<not> validateLLA l)
      then Some (ErrorResp 400 ''bad_request'' ''Invalid link-local address (must be fe80::/10)'')
      else if ub_MTUSet body \<and> (case ub_MTU body of None \<Rightarrow> False | Some m \<Rightarrow> m < 576 \<or> m > 9000)
      then Some (ErrorResp 400 ''bad_request'' ''MTU must be between 576 and 9000'')
      else None)"

text \<open>The row with the body's fields merged in.\<close>

definition merge_update :: "peerUpdateBody \<Rightarrow> peer \<Rightarrow> peer" where
  "merge_update body p = p\<lparr>
     RemotePubkey := (case ub_RemotePubkey body of None \<Rightarrow> RemotePubkey p | Some k \<Rightarrow> k),
     RemoteEndpoint := (case ub_RemoteEndpoint body of None \<Rightarrow> RemoteEndpoint p | Some e \<Rightarrow> e),
     RemoteLLA := (case ub_RemoteLLA body of None \<Rightarrow> RemoteLLA p | Some l \<Rightarrow> l),
     MTU := (if ub_MTUSet body then ub_MTU body else MTU p)\<rparr>"

datatype reconfigure_error = RemoveUnreachable string | RemoveRefused string | AddUnreachable string | AddRefused string

text \<open>An active peer is removed from the agent and added with the new settings; when the second step
  fails the old settings are added again, once, and the outcome of that is not looked at. The
  operators', the users' and the bot's update handlers each contain this sequence.\<close>

definition reconfigure_agent :: "peer \<Rightarrow> peer \<Rightarrow> reconfigure_error option M" where
  "reconfigure_agent peer new = do {
     removeResp \<leftarrow> SendCommand (NodeID peer) (PeerRemove (remove_payload peer));
     case removeResp of
       NotSent e \<Rightarrow> ret (Some (RemoveUnreachable e))
     | NoAnswer e \<Rightarrow> ret (Some (RemoveUnreachable e))
     | Answer m \<Rightarrow>
         if refused m then ret (Some (RemoveRefused (m_Error m)))
         else do {
           addResp \<leftarrow> SendCommand (NodeID peer) (PeerAdd (add_payload new));
           case addResp of
             NotSent e \<Rightarrow> do { _ \<leftarrow> SendCommand (NodeID peer) (PeerAdd (add_payload peer)); ret (Some (AddUnreachable e)) }
           | NoAnswer e \<Rightarrow> do { _ \<leftarrow> SendCommand (NodeID peer) (PeerAdd (add_payload peer)); ret (Some (AddUnreachable e)) }
           | Answer m' \<Rightarrow>
               if refused m'
               then do { _ \<leftarrow> SendCommand (NodeID peer) (PeerAdd (add_payload peer)); ret (Some (AddRefused (m_Error m'))) }
               else ret None
         }
   }"

definition reconfigure_response :: "reconfigure_error \<Rightarrow> response" where
  "reconfigure_response e =
     (case e of
        RemoveUnreachable x \<Rightarrow> ErrorResp 503 ''agent_error'' (''Failed to remove old peer config: '' @ x)
      | RemoveRefused x \<Rightarrow> ErrorResp 500 ''agent_error'' (''Agent rejected peer removal: '' @ x)
      | AddUnreachable x \<Rightarrow> ErrorResp 500 ''agent_error'' (''Failed to re-add peer (rollback attempted): '' @ x)
      | AddRefused x \<Rightarrow> ErrorResp 500 ''agent_error'' (''Agent rejected peer re-add (rollback attempted): '' @ x))"

definition update_fields :: "peer \<Rightarrow> field list" where
  "update_fields new = [FRemotePubkey (RemotePubkey new), FRemoteEndpoint (RemoteEndpoint new), FRemoteLLA (RemoteLLA new),
     FMTU (MTU new), FUpdatedAtNow]"

text \<open>From the merged settings to the response: an active peer is reconfigured first, then the row is
  written. The three update handlers differ only in their messages and in the audit record.\<close>

definition commit_update :: "string \<Rightarrow> peer \<Rightarrow> peer \<Rightarrow> (reconfigure_error \<Rightarrow> 'r) \<Rightarrow> 'r \<Rightarrow> 'r M \<Rightarrow> 'r M" where
  "commit_update peerID peer new refusedBy dbFailed succeed = do {
     err \<leftarrow> (if Status peer = ''active'' then reconfigure_agent peer new else ret None);
     case err of
       Some e \<Rightarrow> ret (refusedBy e)
     | None \<Rightarrow> do {
         u \<leftarrow> peers_UpdateFields peerID (update_fields new);
         case u of
           Inl _ \<Rightarrow> ret dbFailed
         | Inr _ \<Rightarrow> succeed
       }
   }"

text \<open>The audit detail of an update: the settings that were touched.\<close>

definition update_changes :: "peerUpdateBody \<Rightarrow> peer \<Rightarrow> obj" where
  "update_changes body p =
     (if ub_RemotePubkey body \<noteq> None then [(''remote_pubkey'', JStr ''updated'')] else [])
     @ (if ub_RemoteEndpoint body \<noteq> None then [(''remote_endpoint'', JStr ''updated'')] else [])
     @ (if ub_RemoteLLA body \<noteq> None then [(''remote_lla'', JStr ''updated'')] else [])
     @ (if ub_MTUSet body then [(''old_mtu'', jopt jint (MTU p)), (''new_mtu'', jopt jint (ub_MTU body))] else [])"

definition UpdatePeer :: "string \<Rightarrow> string \<Rightarrow> json option \<Rightarrow> response M" where
  "UpdatePeer peerID adminEmail raw =
     with_peer_lock (''peer:'' @ peerID) operation_in_progress
       (case decodePeerUpdateJSON raw of
          None \<Rightarrow> ret (ErrorResp 400 ''bad_request'' ''Invalid JSON body'')
        | Some body \<Rightarrow>
            (case check_update body of
               Some e \<Rightarrow> ret e
             | None \<Rightarrow> do {
                 r \<leftarrow> peers_GetByID peerID;
                 case r of
                   Inl _ \<Rightarrow> ret (ErrorResp 404 ''peer_not_found'' ''Peer not found'')
                 | Inr peer \<Rightarrow> do {
                     _ \<leftarrow> nodes_GetByID (NodeID peer);
                     commit_update peerID peer (merge_update body peer) reconfigure_response
                       (ErrorResp 500 ''internal_error'' ''Agent commands succeeded but DB update failed'')
                       (do {
                          audit_Log ''peer.update'' adminEmail (Some peerID)
                            (update_changes body peer @ [(''asn'', jint (RemoteASN peer))]);
                          ret (JSONResp 200 (status_body ''updated''))
                        })
                   }
               }))"

record contact_body =
  cb_Email :: string
  cb_Retry :: bool

definition UpdateContactEmail :: "string \<Rightarrow> string \<Rightarrow> contact_body option \<Rightarrow> response M" where
  "UpdateContactEmail peerID adminEmail raw =
     (case raw of
        None \<Rightarrow> ret (ErrorResp 400 ''bad_request'' ''Invalid JSON body'')
      | Some body \<Rightarrow>
          if cb_Email body = [] \<and> \<not> cb_Retry body
          then ret (ErrorResp 400 ''bad_request'' ''Provide email or set retry=true'')
          else do {
            r \<leftarrow> peers_GetByID peerID;
            case r of
              Inl _ \<Rightarrow> ret (ErrorResp 404 ''peer_not_found'' ''Peer not found'')
            | Inr peer \<Rightarrow> do {
                fresh \<leftarrow> (if cb_Retry body then LookupASNEmail (RemoteASN peer) else ret None);
                case (if cb_Retry body then map_option (\<lambda>e. (e, ''registry'')) fresh else Some (cb_Email body, ''manual'')) of
                  None \<Rightarrow> ret (ErrorResp 400 ''registry_error'' ''Registry lookup failed'')
                | Some (newEmail, source) \<Rightarrow> do {
                    u \<leftarrow> peers_UpdateContactEmail peerID newEmail;
                    case u of
                      Inl _ \<Rightarrow> ret (ErrorResp 500 ''internal_error'' ''Failed to update contact email'')
                    | Inr _ \<Rightarrow> do {
                        audit_Log ''peer.email_updated'' adminEmail (Some peerID)
                          [(''asn'', jint (RemoteASN peer)), (''source'', JStr source)];
                        ret (JSONResp 200 (JObj [(''email'', JStr newEmail)]))
                      }
                  }
              }
          })"

section \<open>Import from an agent\<close>

record import_count =
  ic_inserted :: nat
  ic_skipped :: nat
  ic_dbErrors :: nat
  ic_missing :: "(string \<times> int) list"

definition import_peer_row :: "string \<Rightarrow> string \<Rightarrow> bool \<Rightarrow> peerImportEntry \<Rightarrow> peer" where
  "import_peer_row nodeID email wgManaged p = zero_peer\<lparr>NodeID := nodeID, RemoteASN := pi_ASN p,
     RemotePubkey := pi_RemotePubkey p, RemoteEndpoint := pi_RemoteEndpoint p, RemoteLLA := pi_RemoteLLA p,
     ContactEmail := email, WgListenPort := pi_WgListenPort p, WgInterfaceName := pi_WgInterface p,
     BgpProtoName := pi_BgpProtoName p, BirdConfigFilename := pi_BirdConfigFilename p, WgManaged := wgManaged\<rparr>"

fun import_node_loop :: "string \<Rightarrow> string \<Rightarrow> peerImportEntry list \<Rightarrow> import_count \<Rightarrow> import_count M" where
  "import_node_loop nodeID adminEmail [] c = ret c"
| "import_node_loop nodeID adminEmail (p # ps) c = do {
     lookup \<leftarrow> LookupASNEmail (pi_ASN p);
     let email = (case lookup of None \<Rightarrow> [] | Some e \<Rightarrow> e);
     let wgManaged = (pi_WgManaged p \<or> (pi_BgpProtoName p = [] \<and> pi_BirdConfigFilename p = []));
     r \<leftarrow> peers_ImportPeer (import_peer_row nodeID email wgManaged p);
     c' \<leftarrow> (case r of
         Inl _ \<Rightarrow> ret (c\<lparr>ic_dbErrors := ic_dbErrors c + 1\<rparr>)
       | Inr peerID \<Rightarrow>
           if peerID = [] then ret (c\<lparr>ic_skipped := ic_skipped c + 1\<rparr>)
           else do {
             audit_Log ''peer.import_peer'' adminEmail (Some peerID)
               [(''asn'', jint (pi_ASN p)), (''node_id'', JStr nodeID), (''wg_managed'', JBool wgManaged)];
             ret (c\<lparr>ic_inserted := ic_inserted c + 1,
                    ic_missing := (if email = [] \<and> lookup = None then ic_missing c @ [(peerID, pi_ASN p)] else ic_missing c)\<rparr>)
           });
     import_node_loop nodeID adminEmail ps c'
   }"

definition jnat :: "nat \<Rightarrow> json" where
  "jnat n = jint (int n)"

definition ImportNodePeers :: "string \<Rightarrow> string \<Rightarrow> response M" where
  "ImportNodePeers nodeID adminEmail = do {
     resp \<leftarrow> SendCommand nodeID PeersImport;
     case resp of
       NotSent e \<Rightarrow> ret (ErrorResp 503 ''agent_error'' (''Failed to reach agent: '' @ e))
     | NoAnswer e \<Rightarrow> ret (ErrorResp 503 ''agent_error'' (''Failed to reach agent: '' @ e))
     | Answer m \<Rightarrow>
         if refused m then ret (ErrorResp 500 ''agent_error'' (''Agent scan failed: '' @ m_Error m))
         else do {
           c \<leftarrow> import_node_loop nodeID adminEmail (m_Peers m) \<lparr>ic_inserted = 0, ic_skipped = 0, ic_dbErrors = 0, ic_missing = []\<rparr>;
           audit_Log ''peer.import'' adminEmail (Some nodeID)
             [(''inserted'', jnat (ic_inserted c)), (''skipped'', jnat (ic_skipped c)), (''db_errors'', jnat (ic_dbErrors c)),
              (''total'', jnat (length (m_Peers m))), (''missing_email'', jnat (length (ic_missing c)))];
           ret (JSONResp 200 (JObj [(''status'', JStr ''completed''), (''inserted'', jnat (ic_inserted c)),
             (''skipped'', jnat (ic_skipped c)), (''db_errors'', jnat (ic_dbErrors c)), (''total'', jnat (length (m_Peers m)))]))
         }
   }"

section \<open>JSON export and import\<close>

record peerExportEntry =
  pe_NodeID :: string
  pe_NodeName :: string
  pe_RemoteASN :: int
  pe_RemotePubkey :: string
  pe_RemoteEndpoint :: string
  pe_RemoteLLA :: string
  pe_ContactEmail :: string
  pe_WgListenPort :: int
  pe_WgInterfaceName :: string
  pe_BgpProtoName :: string
  pe_BirdConfigFilename :: string
  pe_WgManaged :: bool
  pe_MTU :: "int option"
  pe_WgPreSharedKey :: "string option"
  pe_Status :: string

definition export_entry :: "(string \<Rightarrow> string) \<Rightarrow> peer \<Rightarrow> peerExportEntry" where
  "export_entry nodeNames p = \<lparr>pe_NodeID = NodeID p, pe_NodeName = nodeNames (NodeID p), pe_RemoteASN = RemoteASN p,
     pe_RemotePubkey = RemotePubkey p, pe_RemoteEndpoint = RemoteEndpoint p, pe_RemoteLLA = RemoteLLA p,
     pe_ContactEmail = ContactEmail p, pe_WgListenPort = WgListenPort p, pe_WgInterfaceName = WgInterfaceName p,
     pe_BgpProtoName = BgpProtoName p, pe_BirdConfigFilename = BirdConfigFilename p, pe_WgManaged = WgManaged p,
     pe_MTU = MTU p, pe_WgPreSharedKey = WgPreSharedKey p, pe_Status = Status p\<rparr>"

text \<open>The entries of the file; \<open>None\<close> when the peers cannot be loaded. The bytes of the file are not
  modelled.\<close>

definition ExportPeers :: "string \<Rightarrow> peerExportEntry list option M" where
  "ExportPeers adminEmail = do {
     r \<leftarrow> peers_ListAll;
     case r of
       Inl _ \<Rightarrow> ret None
     | Inr peers \<Rightarrow> do {
         ns \<leftarrow> nodes_List;
         let nodeNames = (\<lambda>i. case ns of Inl _ \<Rightarrow> []
                                 | Inr nodes \<Rightarrow> (case find_node i (rev nodes) of None \<Rightarrow> [] | Some n \<Rightarrow> n_Name n));
         let entries = map (export_entry nodeNames) peers;
         audit_Log ''peer.export'' adminEmail None [(''count'', jnat (length entries))];
         ret (Some entries)
       }
   }"

definition entry_peer :: "peerExportEntry \<Rightarrow> peer" where
  "entry_peer e = zero_peer\<lparr>NodeID := pe_NodeID e, RemoteASN := pe_RemoteASN e, RemotePubkey := pe_RemotePubkey e,
     RemoteEndpoint := pe_RemoteEndpoint e, RemoteLLA := pe_RemoteLLA e, ContactEmail := pe_ContactEmail e,
     WgListenPort := pe_WgListenPort e, WgInterfaceName := pe_WgInterfaceName e, BgpProtoName := pe_BgpProtoName e,
     BirdConfigFilename := pe_BirdConfigFilename e, WgManaged := pe_WgManaged e, MTU := pe_MTU e,
     WgPreSharedKey := pe_WgPreSharedKey e, Status := pe_Status e\<rparr>"

record import_state =
  is_imported :: nat
  is_overwritten :: nat
  is_skipped :: nat
  is_errors :: "(string \<times> int \<times> string) list"
  is_nodeExists :: "string \<rightharpoonup> bool"

definition count_action :: "string \<Rightarrow> string \<Rightarrow> string \<Rightarrow> peerExportEntry \<Rightarrow> import_state \<Rightarrow> import_state M" where
  "count_action adminEmail action peerID e st =
     (if action = ''imported'' then do {
        audit_Log ''peer.import_peer'' adminEmail (Some peerID)
          [(''asn'', jint (pe_RemoteASN e)), (''node_id'', JStr (pe_NodeID e)), (''source'', JStr ''json'')];
        ret (st\<lparr>is_imported := is_imported st + 1\<rparr>)
      } else if action = ''overwritten'' then do {
        audit_Log ''peer.import_peer'' adminEmail (Some peerID)
          [(''asn'', jint (pe_RemoteASN e)), (''node_id'', JStr (pe_NodeID e)), (''source'', JStr ''json''), (''overwrite'', JBool True)];
        ret (st\<lparr>is_overwritten := is_overwritten st + 1\<rparr>)
      } else if action = ''skipped'' then ret (st\<lparr>is_skipped := is_skipped st + 1\<rparr>)
      else ret st)"

text \<open>Whether the node of an entry exists, asked once per node.\<close>

definition node_check :: "string \<Rightarrow> import_state \<Rightarrow> (bool \<times> import_state) M" where
  "node_check nodeID st =
     (case is_nodeExists st nodeID of
        Some ok \<Rightarrow> ret (ok, st)
      | None \<Rightarrow> do {
          n \<leftarrow> nodes_GetByID nodeID;
          let ok = (case n of Inl _ \<Rightarrow> False | Inr _ \<Rightarrow> True);
          ret (ok, st\<lparr>is_nodeExists := (is_nodeExists st)(nodeID \<mapsto> ok)\<rparr>)
        })"

definition import_one :: "string \<Rightarrow> bool \<Rightarrow> peerExportEntry \<Rightarrow> import_state \<Rightarrow> import_state M" where
  "import_one adminEmail overwrite e st =
     (if pe_NodeID e = [] then ret (st\<lparr>is_errors := is_errors st @ [([], pe_RemoteASN e, ''missing node_id'')]\<rparr>)
      else if pe_RemoteASN e \<le> 0
      then ret (st\<lparr>is_errors := is_errors st @ [(pe_NodeID e, pe_RemoteASN e, ''invalid remote_asn'')]\<rparr>)
      else do {
        (ok, st1) \<leftarrow> node_check (pe_NodeID e) st;
        if \<not> ok then ret (st1\<lparr>is_errors := is_errors st1 @ [(pe_NodeID e, pe_RemoteASN e, ''node not found'')]\<rparr>)
        else do {
          r \<leftarrow> peers_ImportPeerFull (entry_peer e) overwrite;
          case r of
            Inl _ \<Rightarrow> ret (st1\<lparr>is_errors := is_errors st1 @ [(pe_NodeID e, pe_RemoteASN e, ''db error'')]\<rparr>)
          | Inr (action, peerID) \<Rightarrow> count_action adminEmail action peerID e st1
        }
      })"

fun import_loop :: "string \<Rightarrow> bool \<Rightarrow> peerExportEntry list \<Rightarrow> import_state \<Rightarrow> import_state M" where
  "import_loop adminEmail overwrite [] st = ret st"
| "import_loop adminEmail overwrite (e # es) st = do {
     st' \<leftarrow> import_one adminEmail overwrite e st;
     import_loop adminEmail overwrite es st'
   }"

definition import_start :: import_state where
  "import_start = \<lparr>is_imported = 0, is_overwritten = 0, is_skipped = 0, is_errors = [], is_nodeExists = Map.empty\<rparr>"

text \<open>\<open>entries\<close> is the decoded body, \<open>None\<close> when it is neither an export object nor an array.\<close>

definition ImportPeers :: "string \<Rightarrow> bool \<Rightarrow> peerExportEntry list option \<Rightarrow> (response \<times> import_state) M" where
  "ImportPeers adminEmail overwrite entries =
     (case entries of
        None \<Rightarrow> ret (ErrorResp 400 ''invalid_json'' ''Body must be a peer export object or a JSON array of peers'', import_start)
      | Some es \<Rightarrow> do {
          st \<leftarrow> import_loop adminEmail overwrite es import_start;
          audit_Log ''peer.import_json'' adminEmail None
            [(''imported'', jnat (is_imported st)), (''overwritten'', jnat (is_overwritten st)), (''skipped'', jnat (is_skipped st)),
             (''errors'', jnat (length (is_errors st))), (''total'', jnat (length es)), (''overwrite'', JBool overwrite)];
          ret (JSONResp 200 (JObj [(''status'', JStr ''completed''), (''imported'', jnat (is_imported st)),
            (''overwritten'', jnat (is_overwritten st)), (''skipped'', jnat (is_skipped st)), (''total'', jnat (length es))]), st)
        })"

section \<open>Reading\<close>

text \<open>The desired and the expected state that \<^verbatim>\<open>GetPeer\<close> reports.\<close>

definition agent_sync :: "peer \<Rightarrow> bool \<Rightarrow> string \<times> string" where
  "agent_sync p agentOnline =
     (if \<not> WgManaged p then (''manual'', ''manual'')
      else if Status p = ''active'' then (''configured'', if agentOnline then ''expected_configured'' else ''agent_offline'')
      else if Status p = ''suspended'' then (''absent'', ''removed'')
      else if Status p = ''pending'' then (''absent'', ''pending'')
      else if Status p = ''rejected'' then (''absent'', ''rejected'')
      else (''unknown'', ''unknown''))"

text \<open>The query parameters of \<^verbatim>\<open>ListPeers\<close>.\<close>

definition list_params :: "string \<Rightarrow> string \<Rightarrow> string \<Rightarrow> string \<Rightarrow> string \<Rightarrow> ListParams" where
  "list_params status asnStr nodeID pageStr perPageStr =
     \<lparr>lp_Status = status, lp_NodeID = nodeID,
      lp_ASN = (case atoi asnStr of Some a \<Rightarrow> a | None \<Rightarrow> 0),
      lp_Page = (case atoi pageStr of Some p \<Rightarrow> if p > 0 then p else 1 | None \<Rightarrow> 1),
      lp_PageSize = (case atoi perPageStr of Some n \<Rightarrow> if n > 0 \<and> n \<le> 200 then n else 20 | None \<Rightarrow> 20)\<rparr>"

end
