(* ===== verification/PeerHandler.thy ===== *)
theory PeerHandler
  imports AdminPeer
begin

text \<open>
  \<^verbatim>\<open>internal/handler/peer.go\<close>: the handlers a network operator calls on its own peers. The AS number
  is the one of the authenticated session. Users only reach rows of that number.
\<close>

section \<open>Creation\<close>

record createPeerReq =
  cr_NodeID :: string
  cr_RemotePubkey :: string
  cr_RemoteEndpoint :: string
  cr_RemoteLLA :: string
  cr_MTU :: "int option"
  cr_EnablePSK :: bool

definition user_operation_in_progress :: response where
  "user_operation_in_progress = ErrorResp 409 ''operation_in_progress'' ''Another peer operation is in progress, please retry''"

definition check_create :: "createPeerReq \<Rightarrow> response option" where
  "check_create req =
     (if cr_NodeID req = [] then Some (ErrorResp 400 ''bad_request'' ''node_id is required'')
      else if \<not> base64Re (cr_RemotePubkey req) \<or> length (cr_RemotePubkey req) < 40
      then Some (ErrorResp 400 ''bad_request'' ''Invalid WireGuard public key (must be Base64)'')
      else if \<not> validateEndpoint (cr_RemoteEndpoint req)
      then Some (ErrorResp 400 ''bad_request'' ''Invalid endpoint (format: IP:Port or [IPv6]:Port)'')
      else if \<not> validateLLA (cr_RemoteLLA req)
      then Some (ErrorResp 400 ''bad_request'' ''Invalid link-local address (must be fe80::/10)'')
      else if (case cr_MTU req of None \<Rightarrow> False | Some m \<Rightarrow> m < 576 \<or> m > 9000)
      then Some (ErrorResp 400 ''bad_request'' ''MTU must be between 576 and 9000'')
      else None)"

definition created_body :: "string \<Rightarrow> string \<Rightarrow> int \<Rightarrow> string \<Rightarrow> int option \<Rightarrow> string option \<Rightarrow> json" where
  "created_body peerID status wgPort wgIfName mtu psk =
     JObj [(''id'', JStr peerID), (''status'', JStr status), (''wg_listen_port'', jint wgPort),
           (''wg_interface_name'', JStr wgIfName), (''mtu'', jopt jint mtu), (''wg_preshared_key'', jopt JStr psk)]"

text \<open>The row that \<^verbatim>\<open>Create\<close> inserts.\<close>

definition new_peer :: "createPeerReq \<Rightarrow> int \<Rightarrow> string \<Rightarrow> int \<Rightarrow> string option \<Rightarrow> int \<Rightarrow> peer" where
  "new_peer req asn email wgPort psk now = zero_peer\<lparr>NodeID := cr_NodeID req, RemoteASN := asn,
     RemotePubkey := cr_RemotePubkey req, RemoteEndpoint := cr_RemoteEndpoint req, RemoteLLA := cr_RemoteLLA req,
     ContactEmail := email, WgListenPort := wgPort, WgInterfaceName := WgInterfaceName_of asn, WgManaged := True,
     MTU := cr_MTU req, WgPreSharedKey := psk, Status := ''pending'', CreatedAt := now, UpdatedAt := now\<rparr>"

definition contains_port :: "string \<Rightarrow> bool" where
  "contains_port s = list_ex (\<lambda>i. has_prefix (drop i s) ''port'') [0..<Suc (length s)]"

text \<open>After the insert: the audit record, the automatic approval when the site asks for it, and the
  notifications of a request that stays pending.\<close>

definition create_finish :: "createPeerReq \<Rightarrow> int \<Rightarrow> string \<Rightarrow> int \<Rightarrow> string option \<Rightarrow> string \<Rightarrow> response M" where
  "create_finish req asn email wgPort psk peerID = do {
     audit_Log ''peer.create'' (''AS'' @ show_int asn) (Some peerID)
       [(''node_id'', JStr (cr_NodeID req)), (''asn'', jint asn)];
     auto \<leftarrow> GetSiteSettingValue ''auto_approve_peers'';
     a \<leftarrow> (if auto = ''true'' then approvePeerCore peerID ''system:auto-approve''
           else ret (ApproveError ''not automatic''));
     case a of
       Approved _ \<Rightarrow> ret (JSONResp 201 (created_body peerID ''active'' wgPort (WgInterfaceName_of asn) (cr_MTU req) psk))
     | ApprovePanic \<Rightarrow> ret Panicked
     | ApproveError _ \<Rightarrow> do {
         notify (Email ''peer-submitted'' email asn);
         notify (BotNotify asn ''peer_submitted'' ''peer.submitted'');
         ret (JSONResp 201 (created_body peerID ''pending'' wgPort (WgInterfaceName_of asn) (cr_MTU req) psk))
       }
   }"

definition create_insert :: "createPeerReq \<Rightarrow> int \<Rightarrow> string \<Rightarrow> int \<Rightarrow> string option \<Rightarrow> response M" where
  "create_insert req asn email wgPort psk = do {
     now \<leftarrow> time_now;
     c \<leftarrow> peers_Create (new_peer req asn email wgPort psk now);
     case c of
       Inl (UniqueViolation con) \<Rightarrow>
         (if contains_port con
          then ret (ErrorResp 409 ''port_conflict'' ''computed WireGuard port conflicts with an existing peer on this node'')
          else ret (ErrorResp 500 ''internal_error'' ''Failed to create peer''))
     | Inl _ \<Rightarrow> ret (ErrorResp 500 ''internal_error'' ''Failed to create peer'')
     | Inr peerID \<Rightarrow> create_finish req asn email wgPort psk peerID
   }"

text \<open>From the existence check to the response, under the lock of (node, ASN). Errors of the three
  read-only checks read as \<^verbatim>\<open>false\<close> and zero.\<close>

definition create_locked :: "createPeerReq \<Rightarrow> int \<Rightarrow> node \<Rightarrow> response M" where
  "create_locked req asn node = do {
     ex \<leftarrow> peers_ExistsByNodeAndASN (cr_NodeID req) asn;
     if (case ex of Inl _ \<Rightarrow> False | Inr b \<Rightarrow> b)
     then ret (ErrorResp 409 ''peer_exists'' ''You already have a peer on this node'')
     else do {
       lookup \<leftarrow> LookupASNEmail asn;
       let email = (case lookup of None \<Rightarrow> [] | Some e \<Rightarrow> e);
       let wgPort = WgPort asn (n_WgPortPrefix node);
       pend \<leftarrow> peers_CountPendingByASN asn;
       if (case pend of Inl _ \<Rightarrow> False | Inr n \<Rightarrow> n \<ge> 10)
       then ret (ErrorResp 429 ''too_many_pending'' ''You have too many pending peer requests'')
       else do {
         pex \<leftarrow> peers_ExistsByNodeAndPort (cr_NodeID req) wgPort;
         if (case pex of Inl _ \<Rightarrow> False | Inr b \<Rightarrow> b)
         then ret (ErrorResp 409 ''port_conflict'' (''WireGuard port '' @ show_int wgPort @ '' is already used on this node; your ASN shares a port suffix with an existing peer. Please contact the administrator.''))
         else if \<not> cr_EnablePSK req then create_insert req asn email wgPort None
         else do {
           rnd \<leftarrow> rand_read;
           case GeneratePSK rnd of
             None \<Rightarrow> ret (ErrorResp 500 ''internal_error'' ''Failed to generate pre-shared key'')
           | Some key \<Rightarrow> create_insert req asn email wgPort (Some key)
         }
       }
     }
   }"

definition Create :: "int \<Rightarrow> createPeerReq option \<Rightarrow> response M" where
  "Create asn raw = do {
     enabled \<leftarrow> GetSiteSettingValue ''peer_creation_enabled'';
     if enabled \<noteq> ''true'' then ret (ErrorResp 403 ''peer_creation_disabled'' ''Peer creation is currently disabled'')
     else case raw of
       None \<Rightarrow> ret (ErrorResp 400 ''bad_request'' ''Invalid JSON body'')
     | Some req \<Rightarrow>
         (case check_create req of
            Some e \<Rightarrow> ret e
          | None \<Rightarrow> do {
              n \<leftarrow> nodes_GetByID (cr_NodeID req);
              case n of
                Inl _ \<Rightarrow> ret (ErrorResp 400 ''invalid_node'' ''Node not found or disabled'')
              | Inr node \<Rightarrow>
                  if \<not> n_Enabled node then ret (ErrorResp 400 ''invalid_node'' ''Node not found or disabled'')
                  else with_peer_lock (''peer-create:'' @ cr_NodeID req @ '':'' @ show_int asn) user_operation_in_progress
                         (create_locked req asn node)
            })
   }"

section \<open>Deletion and update\<close>

definition Delete :: "int \<Rightarrow> string \<Rightarrow> response M" where
  "Delete asn peerID =
     with_peer_lock (''peer:'' @ peerID) user_operation_in_progress (do {
       r \<leftarrow> peers_GetByIDAndASN peerID asn;
       case r of
         Inl _ \<Rightarrow> ret (ErrorResp 404 ''peer_not_found'' ''Peer not found'')
       | Inr peer \<Rightarrow> do {
           stop \<leftarrow> (if Status peer = ''active'' then do {
               resp \<leftarrow> SendCommand (NodeID peer) (PeerRemove (remove_payload peer));
               ret (remove_refusal resp)
             } else ret None);
           case stop of
             Some resp \<Rightarrow> ret resp
           | None \<Rightarrow> do {
               d \<leftarrow> peers_Delete peerID;
               case d of
                 Inl _ \<Rightarrow> ret (ErrorResp 500 ''internal_error'' ''Failed to delete peer'')
               | Inr _ \<Rightarrow> do {
                   audit_Log ''peer.delete'' (''AS'' @ show_int asn) (Some peerID) [];
                   notify (BotNotify asn ''peer_deleted'' ''peer.deleted'');
                   ret (JSONResp 200 (status_body ''deleted''))
                 }
             }
         }
     })"

definition Update :: "int \<Rightarrow> string \<Rightarrow> json option \<Rightarrow> response M" where
  "Update asn peerID raw =
     with_peer_lock (''peer:'' @ peerID) user_operation_in_progress
       (case decodePeerUpdateJSON raw of
          None \<Rightarrow> ret (ErrorResp 400 ''bad_request'' ''Invalid JSON body'')
        | Some body \<Rightarrow>
            (case check_update body of
               Some e \<Rightarrow> ret e
             | None \<Rightarrow> do {
                 r \<leftarrow> peers_GetByIDAndASN peerID asn;
                 case r of
                   Inl _ \<Rightarrow> ret (ErrorResp 404 ''peer_not_found'' ''Peer not found'')
                 | Inr peer \<Rightarrow>
                     if Status peer \<noteq> ''pending'' \<and> Status peer \<noteq> ''active''
                     then ret (ErrorResp 400 ''bad_request'' ''Only pending or active peers can be edited'')
                     else commit_update peerID peer (merge_update body peer) reconfigure_response
                       (ErrorResp 500 ''internal_error'' ''Failed to update peer'')
                       (do {
                          audit_Log ''peer.user_update'' (''AS'' @ show_int asn) (Some peerID) (update_changes body peer);
                          ret (JSONResp 200 (status_body ''updated''))
                        })
               }))"

section \<open>Reading\<close>

text \<open>The fields of a listed peer that the API versions treat differently come from the row; the others
  are constant per row.\<close>

definition peer_json :: "peer \<Rightarrow> node \<Rightarrow> json" where
  "peer_json p n = JObj (
     [(''id'', JStr (ID p)), (''node_id'', JStr (NodeID p)), (''remote_asn'', jint (RemoteASN p)),
      (''remote_pubkey'', JStr (RemotePubkey p)), (''remote_endpoint'', JStr (RemoteEndpoint p)),
      (''remote_lla'', JStr (RemoteLLA p)), (''contact_email'', JStr (ContactEmail p)),
      (''wg_listen_port'', jint (WgListenPort p)), (''wg_interface_name'', JStr (WgInterfaceName p)),
      (''wg_managed'', JBool (WgManaged p)), (''status'', JStr (Status p))]
     @ (case RejectReason p of None \<Rightarrow> [] | Some r \<Rightarrow> [(''reject_reason'', JStr r)])
     @ (case EndpointMismatchSince p of None \<Rightarrow> [] | Some t \<Rightarrow> [(''endpoint_mismatch_since'', jint t)])
     @ [(''bgp_suspended_by_endpoint'', JBool (BGPSuspendedByEndpoint p)), (''created_at'', jint (CreatedAt p)),
        (''updated_at'', jint (UpdatedAt p)), (''node_name'', JStr (n_Name n)), (''node_location'', JStr (n_Location n))]
     @ (case MTU p of None \<Rightarrow> [] | Some m \<Rightarrow> [(''mtu'', jint m)])
     @ (case WgPreSharedKey p of None \<Rightarrow> [] | Some k \<Rightarrow> [(''wg_preshared_key'', JStr k)]))"

definition List_peers :: "string \<Rightarrow> int \<Rightarrow> response M" where
  "List_peers version asn = do {
     r \<leftarrow> peers_ListByASN asn;
     ret (case r of
        Inl _ \<Rightarrow> ErrorResp 500 ''internal_error'' ''Failed to fetch peers''
      | Inr rows \<Rightarrow> JSONResp 200 (JSONVersioned version ResourcePeer [] (JArr (map (\<lambda>(p, n). peer_json p n) rows))))
   }"

definition detail_json :: "peer \<Rightarrow> node \<Rightarrow> json" where
  "detail_json p n =
     (case peer_json p n of
        JObj m \<Rightarrow> JObj (m @ [(''node_public_ip'', JStr (n_PublicIP n)), (''node_our_lla'', JStr (n_OurLLA n)),
                             (''node_our_wg_pubkey'', JStr (n_OurWgPubkey n))])
      | v \<Rightarrow> v)"

definition Get :: "string \<Rightarrow> int \<Rightarrow> string \<Rightarrow> response M" where
  "Get version asn peerID = do {
     r \<leftarrow> peers_GetByIDAndASNWithNode peerID asn;
     ret (case r of
        Inl _ \<Rightarrow> ErrorResp 404 ''peer_not_found'' ''Peer not found''
      | Inr (p, n) \<Rightarrow> JSONResp 200 (JSONVersioned version ResourcePeer [] (detail_json p n)))
   }"

definition CreationStatus :: "response M" where
  "CreationStatus = do {
     v \<leftarrow> GetSiteSettingValue ''peer_creation_enabled'';
     ret (JSONResp 200 (JObj [(''enabled'', JBool (v = ''true''))]))
   }"

section \<open>The same operations over the bot\<close>

text \<open>\<^verbatim>\<open>internal/ws/bot_peer_handler.go\<close>. The bot names a Telegram user, whose binding gives the AS number.\<close>

record bot_create =
  bc_TgUserID :: int
  bc_NodeID :: string
  bc_RemotePubkey :: string
  bc_RemoteEndpoint :: string
  bc_RemoteLLA :: string
  bc_MTU :: "int option"

text \<open>A result payload: success, and the error or the identifier.\<close>

type_synonym bot_result = "bool \<times> string"

definition handleBotUserPeerCreate :: "bot_create \<Rightarrow> bot_result M" where
  "handleBotUserPeerCreate payload = do {
     b \<leftarrow> bindings_GetByTgUserID (bc_TgUserID payload);
     case b of
       Inl _ \<Rightarrow> ret (False, ''not bound'')
     | Inr binding \<Rightarrow> do {
         n \<leftarrow> nodes_GetByID (bc_NodeID payload);
         case n of
           Inl _ \<Rightarrow> ret (False, ''node not found or disabled'')
         | Inr node \<Rightarrow>
             if \<not> n_Enabled node then ret (False, ''node not found or disabled'')
             else case BuildPendingPeer None
                    \<lparr>in_ASN = bb_ASN binding, in_NodeID = bc_NodeID payload, in_PortPrefix = n_WgPortPrefix node,
                     in_Pubkey = bc_RemotePubkey payload, in_Endpoint = bc_RemoteEndpoint payload,
                     in_LLA = bc_RemoteLLA payload, in_MTU = bc_MTU payload, in_EnablePSK = False\<rparr> of
               Inl (ValidationError e) \<Rightarrow> ret (False, e)
             | Inl (GenerateError e) \<Rightarrow> ret (False, e)
             | Inr peer \<Rightarrow>
                 with_peer_lock (''peer-create:'' @ bc_NodeID payload @ '':'' @ show_int (bb_ASN binding))
                   (False, ''another peer operation is in progress, please retry'')
                   (do {
                      ex \<leftarrow> peers_ExistsByNodeAndASN (bc_NodeID payload) (bb_ASN binding);
                      if (case ex of Inl _ \<Rightarrow> False | Inr e \<Rightarrow> e) then ret (False, ''peer already exists for this node'')
                      else do {
                        email \<leftarrow> LookupASNEmail (bb_ASN binding);
                        c \<leftarrow> peers_Create (peer\<lparr>ContactEmail := (case email of None \<Rightarrow> [] | Some e \<Rightarrow> e)\<rparr>);
                        ret (case c of Inl _ \<Rightarrow> (False, ''create failed (port or peer conflict)'') | Inr i \<Rightarrow> (True, i))
                      }
                    })
       }
   }"

text \<open>The row is read before the lock is taken; the agent's answer is dropped.\<close>

definition handleBotUserPeerDelete :: "int \<Rightarrow> string \<Rightarrow> bot_result M" where
  "handleBotUserPeerDelete tgUserID peerID = do {
     b \<leftarrow> bindings_GetByTgUserID tgUserID;
     case b of
       Inl _ \<Rightarrow> ret (False, ''not bound'')
     | Inr binding \<Rightarrow> do {
         r \<leftarrow> peers_GetByIDAndASN peerID (bb_ASN binding);
         case r of
           Inl _ \<Rightarrow> ret (False, ''peer not found'')
         | Inr peer \<Rightarrow>
             with_peer_lock (''peer:'' @ ID peer) (False, ''another peer operation is in progress, please retry'')
               (do {
                  conn \<leftarrow> gets (\<lambda>w. w_conns w (NodeID peer));
                  _ \<leftarrow> (if Status peer = ''active'' \<and> conn \<noteq> None
                        then do { _ \<leftarrow> SendCommand (NodeID peer) (PeerRemove (remove_payload peer)); ret () } else ret ());
                  d \<leftarrow> peers_Delete (ID peer);
                  case d of
                    Inl _ \<Rightarrow> ret (False, ''delete failed'')
                  | Inr _ \<Rightarrow> do { ClearPeerAlerts (ID peer); ret (True, []) }
                })
       }
   }"

definition bot_check_update :: "peerUpdateBody \<Rightarrow> string option" where
  "bot_check_update body =
     (if ub_RemotePubkey body = None \<and> ub_RemoteEndpoint body = None \<and> ub_RemoteLLA body = None \<and> \<not> ub_MTUSet body
      then Some ''no fields to update''
      else if (case ub_RemotePubkey body of None \<Rightarrow> False
               | Some k \<Rightarrow> (let pk = trim_space k in \<not> base64Re pk \<or> length pk < 40))
      then Some ''invalid WireGuard public key (must be Base64)''
      else if (case ub_RemoteEndpoint body of None \<Rightarrow> False | Some e \<Rightarrow> \<not> botValidateEndpoint e)
      then Some ''invalid endpoint (format: IP:Port or [IPv6]:Port)''
      else if (case ub_RemoteLLA body of None \<Rightarrow> False | Some l \<Rightarrow> \<not> botValidateLLA l)
      then Some ''invalid link-local address (must be fe80::/10)''
      else if ub_MTUSet body \<and> (case ub_MTU body of None \<Rightarrow> False | Some m \<Rightarrow> m < 576 \<or> m > 9000)
      then Some ''MTU must be between 576 and 9000''
      else None)"

definition bot_reconfigure_message :: "reconfigure_error \<Rightarrow> string" where
  "bot_reconfigure_message e =
     (case e of
        RemoveUnreachable x \<Rightarrow> ''failed to remove old peer config: '' @ x
      | RemoveRefused x \<Rightarrow> ''agent rejected peer removal: '' @ x
      | AddUnreachable x \<Rightarrow> ''failed to re-add peer (rollback attempted): '' @ x
      | AddRefused x \<Rightarrow> ''agent rejected peer re-add (rollback attempted): '' @ x)"

definition handleBotUserPeerUpdate :: "int \<Rightarrow> string \<Rightarrow> peerUpdateBody \<Rightarrow> bot_result M" where
  "handleBotUserPeerUpdate tgUserID peerID body = do {
     b \<leftarrow> bindings_GetByTgUserID tgUserID;
     case b of
       Inl _ \<Rightarrow> ret (False, ''not bound'')
     | Inr binding \<Rightarrow>
         (case bot_check_update body of
            Some e \<Rightarrow> ret (False, e)
          | None \<Rightarrow>
              with_peer_lock (''peer:'' @ peerID) (False, ''another peer operation is in progress, please retry'')
                (do {
                   r \<leftarrow> peers_GetByIDAndASN peerID (bb_ASN binding);
                   case r of
                     Inl _ \<Rightarrow> ret (False, ''peer not found'')
                   | Inr peer \<Rightarrow>
                       if Status peer \<noteq> ''pending'' \<and> Status peer \<noteq> ''active''
                       then ret (False, ''only pending or active peers can be edited'')
                       else commit_update (ID peer) peer (merge_update body peer) (\<lambda>e. (False, bot_reconfigure_message e))
                         (False, ''failed to update peer'')
                         (do {
                            audit_Log ''peer.user_update'' (''AS'' @ show_int (bb_ASN binding)) (Some (ID peer)) (update_changes body peer);
                            ret (True, [])
                          })
                 }))
   }"

end
