(* ===== verification/Sync.thy ===== *)
theory Sync
  imports PeerHandler
begin

text \<open>
  What the handlers do to the pair (database, agents). \<open>agent_view\<close> is the configuration that the
  agents have acknowledged, \<open>expected\<close> the one the table asks for, and \<open>in_sync\<close> says that they agree; \<open>agents_may\<close>
  holds of the configurations the agents may really have when answers got lost.
  The calculus of weakest preconditions follows the handlers step by step; the rules of the table
  operations and of \<open>SendCommand\<close> say what each does to the rows and to the acknowledged view.
\<close>

section \<open>The acknowledged configuration\<close>

type_synonym agent_conf = "string \<times> string \<rightharpoonup> PeerAddPayload"

definition acked :: "agent_reply \<Rightarrow> bool" where
  "acked r = (case r of Answer m \<Rightarrow> \<not> refused m | _ \<Rightarrow> False)"

fun agent_apply :: "string \<times> agent_command \<times> agent_reply \<Rightarrow> agent_conf \<Rightarrow> agent_conf" where
  "agent_apply (n, PeerAdd pa, r) v = (if acked r then v((n, pa_PeerID pa) \<mapsto> pa) else v)"
| "agent_apply (n, PeerRemove pr, r) v = (if acked r then v((n, pr_PeerID pr) := None) else v)"
| "agent_apply (n, _, r) v = v"

definition agent_view :: "world \<Rightarrow> agent_conf" where
  "agent_view w = fold agent_apply (w_sent w) Map.empty"

text \<open>What the agents may really have. An acknowledged command has been applied and a refused one has not; a
  command whose answer did not come may or may not have been applied. \<open>unsure\<close> collects the peers of the commands
  without answer, until a later command on the same peer is acknowledged.\<close>

inductive agents_may :: "(string \<times> agent_command \<times> agent_reply) list \<Rightarrow> agent_conf \<Rightarrow> bool" where
  start: "agents_may [] Map.empty"
| told: "agents_may es c \<Longrightarrow> agents_may (es @ [e]) (agent_apply e c)"
| silent: "agents_may es c \<Longrightarrow> acked a \<Longrightarrow> agents_may (es @ [(n, cmd, NoAnswer s)]) (agent_apply (n, cmd, a) c)"

fun command_key :: "string \<Rightarrow> agent_command \<Rightarrow> (string \<times> string) set" where
  "command_key n (PeerAdd pa) = {(n, pa_PeerID pa)}"
| "command_key n (PeerRemove pr) = {(n, pr_PeerID pr)}"
| "command_key n _ = {}"

fun unsure_step :: "string \<times> agent_command \<times> agent_reply \<Rightarrow> (string \<times> string) set \<Rightarrow> (string \<times> string) set" where
  "unsure_step (n, cmd, r) u = (case r of NoAnswer _ \<Rightarrow> u \<union> command_key n cmd | _ \<Rightarrow> if acked r then u - command_key n cmd else u)"

definition unsure :: "(string \<times> agent_command \<times> agent_reply) list \<Rightarrow> (string \<times> string) set" where
  "unsure es = fold unsure_step es {}"

lemma apply_other: "k \<notin> command_key n cmd \<Longrightarrow> agent_apply (n, cmd, r) c k = c k"
  by (cases cmd) auto

lemma apply_cong: "c k = v k \<Longrightarrow> agent_apply e c k = agent_apply e v k"
  by (cases "(e, c)" rule: agent_apply.cases) auto

lemma apply_acked: "acked r \<Longrightarrow> k \<in> command_key n cmd \<Longrightarrow> agent_apply (n, cmd, r) c k = agent_apply (n, cmd, r) v k"
  by (cases cmd) auto

lemma agents_may_known: "agents_may es c \<Longrightarrow> k \<notin> unsure es \<Longrightarrow> c k = fold agent_apply es Map.empty k"
proof (induction rule: agents_may.induct)
  case (told es c e)
  obtain n cmd r where e: "e = (n, cmd, r)" by (cases e)
  show ?case
  proof (cases "k \<in> unsure es")
    case True
    then have "acked r" "k \<in> command_key n cmd"
      using told.prems e by (auto simp: unsure_def split: agent_reply.splits if_splits)
    then show ?thesis by (simp add: e apply_acked [of r k n cmd c])
  next
    case False
    with told.IH have "c k = fold agent_apply es Map.empty k" .
    then show ?thesis by (simp add: apply_cong [of c k "fold agent_apply es Map.empty"])
  qed
next
  case (silent es c a n cmd s)
  then have "k \<notin> unsure es" "k \<notin> command_key n cmd" by (auto simp: unsure_def)
  with silent.IH show ?case by (simp add: apply_other)
qed simp

definition expected :: "peer list \<Rightarrow> agent_conf" where
  "expected ps = (\<lambda>(n, i). case find_peer i ps of
      Some p \<Rightarrow> if NodeID p = n \<and> Status p = ''active'' then Some (add_payload p) else None
    | None \<Rightarrow> None)"

definition in_sync :: "world \<Rightarrow> bool" where
  "in_sync w \<longleftrightarrow> agent_view w = expected (w_peers w)"

section \<open>Weakest preconditions\<close>

text \<open>A step leads to the rows \<open>ps\<close> and the acknowledged configuration \<open>v\<close>, and changes neither the nodes
  nor the clock; later database calls do not start to fail.\<close>

definition becomes :: "world \<Rightarrow> world \<Rightarrow> peer list \<Rightarrow> agent_conf \<Rightarrow> bool" where
  "becomes w w' ps v \<longleftrightarrow> w_peers w' = ps \<and> agent_view w' = v \<and> w_nodes w' = w_nodes w
     \<and> w_now_text w' = w_now_text w \<and> w_now w' = w_now w \<and> (nofault w \<longrightarrow> nofault w')"

abbreviation same :: "world \<Rightarrow> world \<Rightarrow> bool" where
  "same w w' \<equiv> becomes w w' (w_peers w) (agent_view w)"

lemma same_refl: "same w w"
  by (simp add: becomes_def)

lemma becomes_trans: "becomes w w1 ps v \<Longrightarrow> becomes w1 w2 ps' v' \<Longrightarrow> becomes w w2 ps' v'"
  by (auto simp: becomes_def)

lemma becomes_same: "becomes w w1 ps v \<Longrightarrow> same w1 w2 \<Longrightarrow> becomes w w2 ps v"
  by (auto simp: becomes_def)

lemma agent_view_upd [simp]:
  "agent_view (w\<lparr>w_audit := a\<rparr>) = agent_view w" "agent_view (w\<lparr>w_locks := b\<rparr>) = agent_view w"
  "agent_view (w\<lparr>w_cache := c\<rparr>) = agent_view w" "agent_view (w\<lparr>w_out := d\<rparr>) = agent_view w"
  "agent_view (w\<lparr>w_uuids := e\<rparr>) = agent_view w" "agent_view (w\<lparr>w_rand := f\<rparr>) = agent_view w"
  "agent_view (w\<lparr>w_peers := g\<rparr>) = agent_view w" "agent_view (db_next w) = agent_view w"
  by (simp_all add: agent_view_def)

lemma same_db_next: "same w (db_next w)"
  using nofault_next by (simp add: becomes_def)

lemma insensitive_becomes [simp]: "insensitive (\<lambda>w'. becomes w w' ps v)"
  unfolding insensitive_def by (auto simp: becomes_def nofault_next)

lemma wp_quiet:
  assumes "\<And>I. insensitive I \<Longrightarrow> keeps I m" "\<And>r w'. same w w' \<Longrightarrow> Q r w'"
  shows "wp m Q w"
proof -
  have "keeps (same w) m" by (rule assms(1)) simp
  from keepsD [OF this same_refl] assms(2) show ?thesis by (auto simp: wp_def split: prod.splits)
qed

named_theorems wp_rules \<open>weakest preconditions of the operations\<close>

declare wp_bind [wp_rules] wp_control [wp_rules]

lemma wp_audit_Log [wp_rules]: "(\<And>w'. same w w' \<Longrightarrow> Q () w') \<Longrightarrow> wp (audit_Log a b c d) Q w"
  by (rule wp_quiet) (auto intro: keeps_intros)

lemma wp_notify [wp_rules]: "(\<And>w'. same w w' \<Longrightarrow> Q () w') \<Longrightarrow> wp (notify n) Q w"
  by (rule wp_quiet) (auto intro: keeps_intros)

lemma wp_ClearPeerAlerts [wp_rules]: "(\<And>w'. same w w' \<Longrightarrow> Q () w') \<Longrightarrow> wp (ClearPeerAlerts i) Q w"
  by (rule wp_quiet) (auto intro: keeps_intros)

lemma wp_GetSettingValue [wp_rules]: "(\<And>s w'. same w w' \<Longrightarrow> Q s w') \<Longrightarrow> wp (GetSettingValue k) Q w"
  by (rule wp_quiet) (auto intro: keeps_intros)

lemma wp_GetSiteSettingValue [wp_rules]: "(\<And>s w'. same w w' \<Longrightarrow> Q s w') \<Longrightarrow> wp (GetSiteSettingValue k) Q w"
  by (rule wp_quiet) (auto intro: keeps_intros)

lemma wp_refreshContactEmail [wp_rules]: "(\<And>s w'. same w w' \<Longrightarrow> Q s w') \<Longrightarrow> wp (refreshContactEmail e n) Q w"
  by (rule wp_quiet) (auto intro: keeps_intros)

lemma wp_LookupASNEmail [wp_rules]: "(\<And>s w'. same w w' \<Longrightarrow> Q s w') \<Longrightarrow> wp (LookupASNEmail n) Q w"
  by (rule wp_quiet) (auto intro: keeps_intros)

lemma wp_rand_read [wp_rules]: "(\<And>s w'. same w w' \<Longrightarrow> Q s w') \<Longrightarrow> wp rand_read Q w"
  by (rule wp_quiet) (auto intro: keeps_intros)

lemma wp_time_now [wp_rules]: "(\<And>w'. same w w' \<Longrightarrow> Q (w_now w) w') \<Longrightarrow> wp time_now Q w"
  by (simp add: wp_def time_now_def same_refl)

text \<open>Reads: an error only without a matching row or with a failing database.\<close>

lemma wp_db_read:
  assumes "\<And>e w'. same w w' \<Longrightarrow> nofault w \<longrightarrow> f (db_next w) = Inl e \<Longrightarrow> Q (Inl e) w'"
    and "\<And>x w'. same w w' \<Longrightarrow> f (db_next w) = Inr x \<Longrightarrow> Q (Inr x) w'"
  shows "wp (db_read f) Q w"
  using assms [OF same_db_next] nofault_not_fails [of w]
  by (cases "f (db_next w)") (auto simp: wp_def)

lemma row_simps [simp]: "row r = Inl e \<longleftrightarrow> r = None \<and> e = NoRows" "row r = Inr x \<longleftrightarrow> r = Some x"
  by (auto simp: row_def split: option.splits)

lemma wp_peers_GetByID [wp_rules]:
  assumes "\<And>e w'. same w w' \<Longrightarrow> nofault w \<longrightarrow> find_peer i (w_peers w) = None \<Longrightarrow> Q (Inl e) w'"
    and "\<And>p w'. same w w' \<Longrightarrow> find_peer i (w_peers w) = Some p \<Longrightarrow> Q (Inr p) w'"
  shows "wp (peers_GetByID i) Q w"
  unfolding peers_GetByID_def by (rule wp_db_read) (use assms in auto)

lemma find_by_asn:
  assumes "distinct (map ID ps)" "find (\<lambda>p. ID p = i \<and> RemoteASN p = asn) ps = Some p"
  shows "find_peer i ps = Some p \<and> RemoteASN p = asn"
  using find_Some_in [OF assms(2)] peer_rows.look_of [OF assms(1), of p] by auto

lemma wp_peers_GetByIDAndASN [wp_rules]:
  assumes "distinct (map ID (w_peers w))" "\<And>e w'. same w w' \<Longrightarrow> Q (Inl e) w'"
    and "\<And>p w'. same w w' \<Longrightarrow> find_peer i (w_peers w) = Some p \<Longrightarrow> RemoteASN p = asn \<Longrightarrow> Q (Inr p) w'"
  shows "wp (peers_GetByIDAndASN i asn) Q w"
  unfolding peers_GetByIDAndASN_def
  by (rule wp_db_read; rule assms(2,3)) (use find_by_asn [OF assms(1), of i asn] in simp_all)

lemma wp_nodes_GetByID [wp_rules]:
  assumes "\<And>e w'. same w w' \<Longrightarrow> nofault w \<longrightarrow> find_node i (w_nodes w) = None \<Longrightarrow> Q (Inl e) w'"
    and "\<And>n w'. same w w' \<Longrightarrow> find_node i (w_nodes w) = Some n \<Longrightarrow> Q (Inr n) w'"
  shows "wp (nodes_GetByID i) Q w"
  unfolding nodes_GetByID_def by (rule wp_db_read) (use assms in auto)

lemma wp_exists_checks [wp_rules]:
  "(\<And>r w'. same w w' \<Longrightarrow> Q r w') \<Longrightarrow> wp (peers_ExistsByNodeAndASN a n) Q w"
  "(\<And>r w'. same w w' \<Longrightarrow> Q r w') \<Longrightarrow> wp (peers_ExistsByNodeAndPort a n) Q w"
  by (rule wp_quiet, auto intro: keeps_intros)+

lemma wp_CountPending [wp_rules]: "(\<And>r w'. same w w' \<Longrightarrow> Q r w') \<Longrightarrow> wp (peers_CountPendingByASN n) Q w"
  by (rule wp_quiet) (auto intro: keeps_intros)

lemma wp_bindings [wp_rules]:
  assumes "\<And>e w'. same w w' \<Longrightarrow> Q (Inl e) w'"
    and "\<And>b w'. same w w' \<Longrightarrow> find (\<lambda>b. bb_TgUserID b = n) (w_bindings w) = Some b \<Longrightarrow> Q (Inr b) w'"
  shows "wp (bindings_GetByTgUserID n) Q w"
  unfolding bindings_GetByTgUserID_def by (rule wp_db_read) (use assms in auto)

lemma wp_gets [wp_rules]: "(\<And>w'. same w w' \<Longrightarrow> Q (f w) w') \<Longrightarrow> wp (gets f) Q w"
  by (simp add: wp_def same_refl)

text \<open>Writes: nothing changes on an error.\<close>

lemma wp_write_rows:
  assumes "\<And>w. f w = Inr ((), w\<lparr>w_peers := g w\<rparr>)" "\<And>w. g (db_next w) = g w"
    and "\<And>e w'. same w w' \<Longrightarrow> \<not> nofault w \<Longrightarrow> Q (Inl e) w'"
    and "\<And>w'. becomes w w' (g w) (agent_view w) \<Longrightarrow> Q (Inr ()) w'"
  shows "wp (db_write f) Q w"
proof (cases "db_fails w")
  case True
  then show ?thesis using assms(3) [OF same_db_next] nofault_not_fails [of w] by (auto simp: wp_def run_db_write)
next
  case False
  have "becomes w ((db_next w)\<lparr>w_peers := g w\<rparr>) (g w) (agent_view w)"
    using nofault_next [of w] by (simp add: becomes_def)
  from assms(4) [OF this] False show ?thesis by (simp add: wp_def run_db_write assms(1,2))
qed

definition set_status :: "int \<Rightarrow> string \<Rightarrow> peer \<Rightarrow> peer" where
  "set_status now st p = p\<lparr>Status := st, UpdatedAt := now\<rparr>"

definition set_rejected :: "int \<Rightarrow> string \<Rightarrow> peer \<Rightarrow> peer" where
  "set_rejected now reason p = p\<lparr>Status := ''rejected'', UpdatedAt := now, RejectReason := Some reason\<rparr>"

lemma fold_status:
  "st \<noteq> ''now()'' \<Longrightarrow> fold (set_field now txt) ([FStatus st, FUpdatedAtNow] @ []) = set_status now st"
  "fold (set_field now txt) ([FStatus ''rejected'', FUpdatedAtNow] @ WithRejectReason r) = set_rejected now (sql_text txt r)"
  by (simp_all add: sql_text_def WithRejectReason_def set_status_def set_rejected_def fun_eq_iff)

lemma wp_UpdateStatus [wp_rules]:
  assumes "st \<noteq> ''now()''" "\<And>e w'. same w w' \<Longrightarrow> \<not> nofault w \<Longrightarrow> Q (Inl e) w'"
    and "\<And>w'. becomes w w' (update_peer i (set_status (w_now w) st) (w_peers w)) (agent_view w) \<Longrightarrow> Q (Inr ()) w'"
  shows "wp (peers_UpdateStatus i st []) Q w"
  unfolding peers_UpdateStatus_def fold_status(1) [OF assms(1)] by (rule wp_write_rows [OF refl]) (use assms in auto)

lemma wp_UpdateStatus_rejected [wp_rules]:
  assumes "\<And>e w'. same w w' \<Longrightarrow> \<not> nofault w \<Longrightarrow> Q (Inl e) w'"
    and "\<And>w'. becomes w w' (update_peer i (set_rejected (w_now w) (sql_text (w_now_text w) r)) (w_peers w)) (agent_view w) \<Longrightarrow> Q (Inr ()) w'"
  shows "wp (peers_UpdateStatus i ''rejected'' (WithRejectReason r)) Q w"
  unfolding peers_UpdateStatus_def fold_status(2) by (rule wp_write_rows [OF refl]) (use assms in auto)

text \<open>The row after an edit.\<close>

definition apply_edit :: "int \<Rightarrow> string \<Rightarrow> peer \<Rightarrow> peer \<Rightarrow> peer" where
  "apply_edit now txt new p = p\<lparr>RemotePubkey := sql_text txt (RemotePubkey new), RemoteEndpoint := sql_text txt (RemoteEndpoint new),
     RemoteLLA := sql_text txt (RemoteLLA new), MTU := MTU new, UpdatedAt := now\<rparr>"

lemma fold_update_fields: "fold (set_field now txt) (update_fields new) = apply_edit now txt new"
  by (simp add: update_fields_def apply_edit_def fun_eq_iff)

lemma wp_UpdateFields [wp_rules]:
  assumes "\<And>e w'. same w w' \<Longrightarrow> \<not> nofault w \<Longrightarrow> Q (Inl e) w'"
    and "\<And>w'. becomes w w' (update_peer i (apply_edit (w_now w) (w_now_text w) new) (w_peers w)) (agent_view w) \<Longrightarrow> Q (Inr ()) w'"
  shows "wp (peers_UpdateFields i (update_fields new)) Q w"
  unfolding peers_UpdateFields_def fold_update_fields by (rule wp_write_rows [OF refl]) (use assms in auto)

lemma wp_UpdateContactEmail [wp_rules]:
  assumes "\<And>e w'. same w w' \<Longrightarrow> \<not> nofault w \<Longrightarrow> Q (Inl e) w'"
    and "\<And>w'. becomes w w' (update_peer i (\<lambda>p. p\<lparr>ContactEmail := em, UpdatedAt := w_now w\<rparr>) (w_peers w)) (agent_view w) \<Longrightarrow> Q (Inr ()) w'"
  shows "wp (peers_UpdateContactEmail i em) Q w"
  unfolding peers_UpdateContactEmail_def by (rule wp_write_rows [OF refl]) (use assms in auto)

lemma wp_Delete [wp_rules]:
  assumes "\<And>e w'. same w w' \<Longrightarrow> \<not> nofault w \<Longrightarrow> Q (Inl e) w'"
    and "\<And>w'. becomes w w' (delete_peer i (w_peers w)) (agent_view w) \<Longrightarrow> Q (Inr ()) w'"
  shows "wp (peers_Delete i) Q w"
  unfolding peers_Delete_def by (rule wp_write_rows [OF refl]) (use assms in auto)

lemma agent_view_fresh: "agent_view (snd (fresh_uuid w)) = agent_view w" "nofault (snd (fresh_uuid w)) = nofault w"
  "w_now_text (snd (fresh_uuid w)) = w_now_text w"
  by (simp_all add: fresh_uuid_def agent_view_def nofault_def split: list.splits)

lemma insert_peer_frame:
  assumes "insert_peer p w = Inr (i, w')"
  shows "becomes w w' (w_peers w @ [new_row p w i]) (agent_view w)"
  using insert_peer_cases [OF assms] assms agent_view_fresh [of w] fresh_uuid_sel [of w]
  by (cases "fresh_uuid w")
     (auto simp: becomes_def insert_peer_def Let_def agent_view_def split: option.splits if_splits)

lemma new_row_db_next [simp]: "new_row p (db_next w) i = new_row p w i"
  by (simp add: new_row_def)

lemma wp_Create [wp_rules]:
  assumes "\<And>e w'. same w w' \<Longrightarrow> Q (Inl e) w'"
    and "\<And>i w'. becomes w w' (w_peers w @ [new_row p w i]) (agent_view w)
           \<Longrightarrow> peer_conflict (new_row p w i) (w_peers w) (w_nodes w) = None \<Longrightarrow> Q (Inr i) w'"
  shows "wp (peers_Create p) Q w"
proof (cases "insert_peer p (db_next w)")
  case (Inl e)
  then show ?thesis using assms(1) [OF same_db_next] by (simp add: peers_Create_def wp_def run_db_write)
next
  case (Inr r)
  obtain i w' where r: "r = (i, w')" by (cases r)
  note c = insert_peer_cases [OF Inr [unfolded r]]
  have "becomes w w' (w_peers w @ [new_row p w i]) (agent_view w)"
    using insert_peer_frame [OF Inr [unfolded r]] same_db_next [of w] by (auto simp: becomes_def)
  from assms(2) [OF this] c(1) Inr r show ?thesis
    using assms(1) [OF same_db_next] by (simp add: peers_Create_def wp_def run_db_write)
qed

text \<open>A command changes the acknowledged configuration exactly when it is acknowledged.\<close>

lemma wp_SendCommand [wp_rules]:
  assumes "\<And>r w'. becomes w w' (w_peers w) (agent_apply (n, c, r) (agent_view w)) \<Longrightarrow> Q r w'"
  shows "wp (SendCommand n c) Q w"
proof -
  have no: "agent_apply (n, c, NotSent e) v = v" for e v by (cases c) (simp_all add: acked_def)
  have snoc: "agent_view (w\<lparr>w_replies := x, w_sent := w_sent w @ [(n, c, r)]\<rparr>) = agent_apply (n, c, r) (agent_view w)" for x r
    by (simp add: agent_view_def)
  show ?thesis
    unfolding wp_def SendCommand_def
    by (auto split: option.splits simp: Let_def intro!: assms simp: becomes_def no snoc)
qed

lemma wp_outcome [wp_rules]:
  "(\<And>x. r = Approved x \<Longrightarrow> wp (f x) Q w) \<Longrightarrow> (\<And>e. r = ApproveError e \<Longrightarrow> wp (g e) Q w) \<Longrightarrow> (r = ApprovePanic \<Longrightarrow> wp h Q w) \<Longrightarrow>
   wp (case r of Approved x \<Rightarrow> f x | ApproveError e \<Rightarrow> g e | ApprovePanic \<Rightarrow> h) Q w"
  by (cases r) auto

lemma wp_validation [wp_rules]:
  "(\<And>e. r = ValidationError e \<Longrightarrow> wp (f e) Q w) \<Longrightarrow> (\<And>e. r = GenerateError e \<Longrightarrow> wp (g e) Q w) \<Longrightarrow>
   wp (case r of ValidationError e \<Rightarrow> f e | GenerateError e \<Rightarrow> g e) Q w"
  by (cases r) auto

text \<open>A locked handler: the body runs, or the conflict is answered, and only the lock table changes
  besides.\<close>

lemma wp_with_peer_lock [wp_rules]:
  assumes "\<And>w'. same w w' \<Longrightarrow> Q r w'"
    and "\<And>w'. same w w' \<Longrightarrow> wp m (\<lambda>x w1. \<forall>w2. same w1 w2 \<longrightarrow> Q x w2) w'"
  shows "wp (with_peer_lock k r m) Q w"
  unfolding with_peer_lock_def
proof (rule wp_bind, rule wp_quiet)
  show "insensitive I \<Longrightarrow> keeps I (lock_acquire k)" for I by (rule keeps_lock_acquire)
next
  fix x :: "localLease option \<times> bool" and w1 assume s: "same w w1"
  obtain lease busy where x: "x = (lease, busy)" by (cases x)
  have "wp (State_Monad.bind m (\<lambda>r. State_Monad.bind (lock_release lease) (\<lambda>_. ret r))) Q w1"
    by (rule wp_bind, rule wp_mono [OF assms(2) [OF s]], rule wp_bind, rule wp_quiet)
       (auto intro: keeps_intros)
  with assms(1) [OF s] x show "wp (case x of (lease, busy) \<Rightarrow> if busy then ret r
      else State_Monad.bind m (\<lambda>r. State_Monad.bind (lock_release lease) (\<lambda>_. ret r))) Q w1" by simp
qed

section \<open>How single steps move the expected configuration\<close>

lemma find_peer_ID: "find_peer i ps = Some p \<Longrightarrow> ID p = i"
  using peer_rows.look_in by blast

lemma expected_update:
  assumes "find_peer i ps = Some p" "\<And>q. ID (f q) = ID q" "NodeID (f p) = NodeID p"
  shows "expected (update_peer i f ps) =
    (expected ps)((NodeID p, i) := (if Status (f p) = ''active'' then Some (add_payload (f p)) else None))"
  using assms by (auto simp: expected_def fun_eq_iff peer_rows.look_upd)

lemma expected_delete:
  assumes "find_peer i ps = Some p"
  shows "expected (delete_peer i ps) = (expected ps)((NodeID p, i) := None)"
  using assms by (auto simp: expected_def fun_eq_iff find_peer_delete)

lemma expected_inactive:
  "find_peer i ps = Some p \<Longrightarrow> Status p \<noteq> ''active'' \<Longrightarrow> (expected ps)((NodeID p, i) := None) = expected ps"
  by (auto simp: expected_def fun_eq_iff)

lemma expected_active:
  "find_peer i ps = Some p \<Longrightarrow> Status p = ''active'' \<Longrightarrow> (expected ps)((NodeID p, i) \<mapsto> add_payload p) = expected ps"
  by (auto simp: expected_def fun_eq_iff)

lemma expected_append: "Status q \<noteq> ''active'' \<Longrightarrow> expected (ps @ [q]) = expected ps"
  by (auto simp: expected_def fun_eq_iff find_peer_append split: option.splits)

lemma payload_keys [simp]:
  "pa_PeerID (add_payload p) = ID p" "pr_PeerID (remove_payload p) = ID p"
  "add_payload (p\<lparr>Status := s\<rparr>) = add_payload p" "add_payload (p\<lparr>UpdatedAt := u\<rparr>) = add_payload p"
  "add_payload (p\<lparr>RejectReason := rr\<rparr>) = add_payload p" "add_payload (p\<lparr>ContactEmail := ce\<rparr>) = add_payload p"
  by (simp_all add: add_payload_def remove_payload_def)

lemma acked_simps [simp]: "acked (NotSent e) = False" "acked (NoAnswer e) = False" "acked (Answer m) = (\<not> refused m)"
  by (simp_all add: acked_def)

lemma set_status_simps [simp]:
  "ID (set_status t st p) = ID p" "NodeID (set_status t st p) = NodeID p" "Status (set_status t st p) = st"
  "RemoteASN (set_status t st p) = RemoteASN p" "add_payload (set_status t st p) = add_payload p"
  "ID (set_rejected t r p) = ID p" "NodeID (set_rejected t r p) = NodeID p" "Status (set_rejected t r p) = ''rejected''"
  "RemoteASN (set_rejected t r p) = RemoteASN p" "add_payload (set_rejected t r p) = add_payload p"
  by (simp_all add: set_status_def set_rejected_def)

lemma apply_edit_simps [simp]:
  "ID (apply_edit t x new p) = ID p" "NodeID (apply_edit t x new p) = NodeID p" "Status (apply_edit t x new p) = Status p"
  "RemoteASN (apply_edit t x new p) = RemoteASN p"
  by (simp_all add: apply_edit_def)

lemma rollback_failed_acked [simp]: "rollback_failed r \<longleftrightarrow> \<not> acked r"
  by (cases r) (auto simp: rollback_failed_def)

lemma remove_refusal_None [simp]: "remove_refusal r = None \<longleftrightarrow> acked r"
  by (cases r) (auto simp: remove_refusal_def)

lemma remove_refusal_Some: "remove_refusal r = Some x \<Longrightarrow> \<not> acked r"
  by (cases "acked r") (auto simp flip: remove_refusal_None)

text \<open>The facts that close a handler's verification conditions.\<close>

lemmas sync_simps = becomes_def in_sync_def expected_update expected_delete expected_inactive expected_active expected_append
  find_peer_ID remove_refusal_Some

end
