(* ===== verification/Lifecycle.thy ===== *)
theory Lifecycle
  imports Sync
begin

text \<open>
  The peer lifecycle as an abstract machine (\<open>peer_step\<close>), and the refinement that every handler makes
  only steps of it.
\<close>

section \<open>Requests\<close>

text \<open>The requests that change peers one at a time, with the identity of the caller: an operator's
  address, the AS number of a session, or a Telegram user.\<close>

datatype request =
    ReqApprove string string
  | ReqReject string string "string option"
  | ReqSuspend string string string
  | ReqUnsuspend string string
  | ReqAdminDelete string string
  | ReqAdminUpdate string string "json option"
  | ReqContact string string "contact_body option"
  | ReqCreate int "createPeerReq option"
  | ReqDelete int string
  | ReqUpdate int string "json option"
  | ReqBotCreate bot_create
  | ReqBotDelete int string
  | ReqBotUpdate int string peerUpdateBody

definition bot_response :: "bot_result \<Rightarrow> response" where
  "bot_response r = (if fst r then JSONResp 200 (JStr (snd r)) else ErrorResp 400 ''bot'' (snd r))"

fun serve :: "request \<Rightarrow> response M" where
  "serve (ReqApprove i a) = ApprovePeer i a"
| "serve (ReqReject i a b) = RejectPeer i a b"
| "serve (ReqSuspend i a r) = SuspendPeer i a r"
| "serve (ReqUnsuspend i a) = UnsuspendPeer i a"
| "serve (ReqAdminDelete i a) = DeletePeer i a"
| "serve (ReqAdminUpdate i a b) = UpdatePeer i a b"
| "serve (ReqContact i a b) = UpdateContactEmail i a b"
| "serve (ReqCreate n r) = Create n r"
| "serve (ReqDelete n i) = Delete n i"
| "serve (ReqUpdate n i b) = Update n i b"
| "serve (ReqBotCreate b) = do { r \<leftarrow> handleBotUserPeerCreate b; ret (bot_response r) }"
| "serve (ReqBotDelete t i) = do { r \<leftarrow> handleBotUserPeerDelete t i; ret (bot_response r) }"
| "serve (ReqBotUpdate t i b) = do { r \<leftarrow> handleBotUserPeerUpdate t i b; ret (bot_response r) }"

section \<open>The abstract machine\<close>

text \<open>Who acts: an operator may touch every row, a user only rows of its AS number.\<close>

definition may :: "int option \<Rightarrow> peer \<Rightarrow> bool" where
  "may who p \<longleftrightarrow> who = None \<or> who = Some (RemoteASN p)"

text \<open>An edit changes the settings, the contact address and the time stamp, nothing else.\<close>

definition edit_of :: "peer \<Rightarrow> peer \<Rightarrow> bool" where
  "edit_of p q \<longleftrightarrow> (\<exists>k e l m c u. q = p\<lparr>RemotePubkey := k, RemoteEndpoint := e, RemoteLLA := l, MTU := m, ContactEmail := c, UpdatedAt := u\<rparr>)"

inductive peer_step :: "int option \<Rightarrow> peer list \<Rightarrow> peer list \<Rightarrow> bool" where
  create: "Status q = ''pending'' \<Longrightarrow> may who q \<Longrightarrow> valid_config q \<Longrightarrow> find_peer (ID q) ps = None \<Longrightarrow> peer_step who ps (ps @ [q])"
| create_approved: "Status q = ''pending'' \<Longrightarrow> may who q \<Longrightarrow> valid_config q \<Longrightarrow> find_peer (ID q) ps = None \<Longrightarrow>
    peer_step who ps (ps @ [set_status t ''active'' q])"
| approve: "find_peer i ps = Some p \<Longrightarrow> Status p = ''pending'' \<Longrightarrow> peer_step None ps (update_peer i (set_status t ''active'') ps)"
| reject: "find_peer i ps = Some p \<Longrightarrow> Status p = ''pending'' \<Longrightarrow> peer_step None ps (update_peer i (set_rejected t r) ps)"
| suspend: "find_peer i ps = Some p \<Longrightarrow> Status p = ''active'' \<Longrightarrow> peer_step None ps (update_peer i (set_status t ''suspended'') ps)"
| unsuspend: "find_peer i ps = Some p \<Longrightarrow> Status p = ''suspended'' \<Longrightarrow> peer_step None ps (update_peer i (set_status t ''active'') ps)"
| remove: "find_peer i ps = Some p \<Longrightarrow> may who p \<Longrightarrow> peer_step who ps (delete_peer i ps)"
| edit: "find_peer i ps = Some p \<Longrightarrow> may who p \<Longrightarrow> (\<And>q. edit_of q (f q)) \<Longrightarrow> peer_step who ps (update_peer i f ps)"

inductive_cases peer_stepE: "peer_step who ps ps'"

text \<open>A request makes at most one step.\<close>

definition peer_act :: "int option \<Rightarrow> peer list \<Rightarrow> peer list \<Rightarrow> bool" where
  "peer_act who ps ps' \<longleftrightarrow> ps' = ps \<or> peer_step who ps ps'"

lemma peer_act_refl [simp]: "peer_act who ps ps"
  by (simp add: peer_act_def)

lemma peer_step_act: "peer_step who ps ps' \<Longrightarrow> peer_act who ps ps'"
  by (simp add: peer_act_def)

lemma edit_of_apply_edit: "edit_of p (apply_edit t x new p)"
  unfolding edit_of_def apply_edit_def
  by (rule exI [of _ "sql_text x (RemotePubkey new)"], rule exI [of _ "sql_text x (RemoteEndpoint new)"],
      rule exI [of _ "sql_text x (RemoteLLA new)"], rule exI [of _ "MTU new"], rule exI [of _ "ContactEmail p"],
      rule exI [of _ t]) simp

lemma edit_of_contact: "edit_of p (p\<lparr>ContactEmail := c, UpdatedAt := t\<rparr>)"
  unfolding edit_of_def
  by (rule exI [of _ "RemotePubkey p"], rule exI [of _ "RemoteEndpoint p"], rule exI [of _ "RemoteLLA p"], rule exI [of _ "MTU p"],
      rule exI [of _ c], rule exI [of _ t]) simp

section \<open>What approval and reconfiguration do\<close>

text \<open>An approval that succeeds activates exactly the pending row and leaves the agent with its settings;
  one that fails leaves the rows alone, and the agent too unless the database failed.\<close>

definition approve_post :: "string \<Rightarrow> world \<Rightarrow> approve_outcome \<Rightarrow> world \<Rightarrow> bool" where
  "approve_post i w r w' \<longleftrightarrow>
     (\<exists>p. find_peer i (w_peers w) = Some p \<and> Status p = ''pending'' \<and> (\<forall>e. r \<noteq> ApproveError e)
        \<and> (r = ApprovePanic \<longrightarrow> nofault w \<longrightarrow> find_node (NodeID p) (w_nodes w) = None)
        \<and> becomes w w' (update_peer i (set_status (w_now w) ''active'') (w_peers w)) ((agent_view w)((NodeID p, i) \<mapsto> add_payload p)))
     \<or> (\<exists>e. r = ApproveError e \<and> same w w')
     \<or> (\<exists>e p. r = ApproveError e \<and> \<not> nofault w \<and> find_peer i (w_peers w) = Some p \<and> Status p = ''pending''
        \<and> (becomes w w' (w_peers w) ((agent_view w)((NodeID p, i) := None))
           \<or> becomes w w' (w_peers w) ((agent_view w)((NodeID p, i) \<mapsto> add_payload p))))"

lemma approve_postI:
  "same w w' \<Longrightarrow> approve_post i w (ApproveError e) w'"
  "find_peer i (w_peers w) = Some p \<Longrightarrow> Status p = ''pending'' \<Longrightarrow> nofault w \<longrightarrow> find_node (NodeID p) (w_nodes w) = None \<Longrightarrow>
     becomes w w' (update_peer i (set_status (w_now w) ''active'') (w_peers w)) ((agent_view w)((NodeID p, i) \<mapsto> add_payload p)) \<Longrightarrow>
     approve_post i w ApprovePanic w'"
  "find_peer i (w_peers w) = Some p \<Longrightarrow> Status p = ''pending'' \<Longrightarrow>
     becomes w w' (update_peer i (set_status (w_now w) ''active'') (w_peers w)) ((agent_view w)((NodeID p, i) \<mapsto> add_payload p)) \<Longrightarrow>
     approve_post i w (Approved x) w'"
  "find_peer i (w_peers w) = Some p \<Longrightarrow> Status p = ''pending'' \<Longrightarrow> \<not> nofault w \<Longrightarrow>
     becomes w w' (w_peers w) ((agent_view w)((NodeID p, i) := None)) \<Longrightarrow> approve_post i w (ApproveError e) w'"
  "find_peer i (w_peers w) = Some p \<Longrightarrow> Status p = ''pending'' \<Longrightarrow> \<not> nofault w \<Longrightarrow>
     becomes w w' (w_peers w) ((agent_view w)((NodeID p, i) \<mapsto> add_payload p)) \<Longrightarrow> approve_post i w (ApproveError e) w'"
  unfolding approve_post_def by auto

lemma wp_approve [wp_rules]:
  assumes "\<And>r w'. approve_post i w r w' \<Longrightarrow> Q r w'"
  shows "wp (approvePeerCore i actor) Q w"
proof (rule wp_mono [OF _ assms])
  show "wp (approvePeerCore i actor) (approve_post i w) w"
    unfolding approvePeerCore_def
    apply (intro wp_rules; clarsimp)
    apply (rule approve_postI(1), clarsimp simp: becomes_def; fail)+
    apply (rule approve_postI(5), assumption, assumption, clarsimp simp: becomes_def, clarsimp simp: becomes_def find_peer_ID)
    apply (rule approve_postI(4), assumption, assumption, clarsimp simp: becomes_def, clarsimp simp: becomes_def find_peer_ID)
    apply (rule approve_postI(2), assumption, assumption, clarsimp simp: becomes_def, clarsimp simp: becomes_def find_peer_ID)
    apply (rule approve_postI(3), assumption, assumption, clarsimp simp: becomes_def find_peer_ID)
    done
qed


text \<open>A reconfiguration ends with the new settings acknowledged, or with an error; after an error the
  agent keeps the old settings, has them again, or has lost the peer.\<close>

definition reconf_post :: "peer \<Rightarrow> peer \<Rightarrow> world \<Rightarrow> reconfigure_error option \<Rightarrow> world \<Rightarrow> bool" where
  "reconf_post peer new w r w' \<longleftrightarrow>
     (r = None \<and> becomes w w' (w_peers w) ((agent_view w)((NodeID peer, ID peer) \<mapsto> add_payload new)))
     \<or> (r \<noteq> None \<and> (same w w'
         \<or> becomes w w' (w_peers w) ((agent_view w)((NodeID peer, ID peer) \<mapsto> add_payload peer))
         \<or> becomes w w' (w_peers w) ((agent_view w)((NodeID peer, ID peer) := None))))"

lemma reconf_postI:
  "becomes w w' (w_peers w) ((agent_view w)((NodeID peer, ID peer) \<mapsto> add_payload new)) \<Longrightarrow> reconf_post peer new w None w'"
  "same w w' \<Longrightarrow> reconf_post peer new w (Some e) w'"
  "becomes w w' (w_peers w) ((agent_view w)((NodeID peer, ID peer) \<mapsto> add_payload peer)) \<Longrightarrow> reconf_post peer new w (Some e) w'"
  "becomes w w' (w_peers w) ((agent_view w)((NodeID peer, ID peer) := None)) \<Longrightarrow> reconf_post peer new w (Some e) w'"
  by (auto simp: reconf_post_def)

lemma wp_reconfigure [wp_rules]:
  assumes "ID new = ID peer" "\<And>r w'. reconf_post peer new w r w' \<Longrightarrow> Q r w'"
  shows "wp (reconfigure_agent peer new) Q w"
proof (rule wp_mono [OF _ assms(2)])
  show "wp (reconfigure_agent peer new) (reconf_post peer new w) w"
    unfolding reconfigure_agent_def using assms(1)
    apply (intro wp_rules; clarsimp split: if_splits)
    apply (rule reconf_postI(2), assumption)+
    apply (rule reconf_postI(3), clarsimp simp: becomes_def)
    apply (rule reconf_postI(4), clarsimp simp: becomes_def)
    apply (rule reconf_postI(3), clarsimp simp: becomes_def)
    apply (rule reconf_postI(4), clarsimp simp: becomes_def)
    apply (rule reconf_postI(3), clarsimp simp: becomes_def)
    apply (rule reconf_postI(4), clarsimp simp: becomes_def)
    apply (rule reconf_postI(1), clarsimp simp: becomes_def)
    done
qed

section \<open>The handlers stay in step with the agents\<close>

lemma sync_approve:
  assumes "nofault w" "in_sync w" shows "wp (ApprovePeer i a) (\<lambda>r w'. in_sync w') w"
  unfolding ApprovePeer_def using assms
  by (intro wp_rules; (clarsimp simp: approve_post_def)?; (elim disjE)?; clarsimp simp: sync_simps)

lemma sync_reject:
  assumes "nofault w" "in_sync w" shows "wp (RejectPeer i a b) (\<lambda>r w'. in_sync w') w"
  unfolding RejectPeer_def using assms by (intro wp_rules; clarsimp; clarsimp simp: sync_simps)

lemma sync_suspend:
  assumes "nofault w" "in_sync w" shows "wp (SuspendPeer i a r) (\<lambda>r w'. in_sync w') w"
  unfolding SuspendPeer_def using assms by (intro wp_rules; clarsimp; clarsimp simp: sync_simps)

lemma sync_unsuspend:
  assumes "nofault w" "in_sync w" shows "wp (UnsuspendPeer i a) (\<lambda>r w'. in_sync w') w"
  unfolding UnsuspendPeer_def using assms by (intro wp_rules; clarsimp; clarsimp simp: sync_simps)

lemma sync_admin_delete:
  assumes "nofault w" "in_sync w" shows "wp (DeletePeer i a) (\<lambda>r w'. in_sync w') w"
  unfolding DeletePeer_def using assms by (intro wp_rules; clarsimp; clarsimp simp: sync_simps)

lemma sync_contact:
  assumes "nofault w" "in_sync w" shows "wp (UpdateContactEmail i a b) (\<lambda>r w'. in_sync w') w"
  unfolding UpdateContactEmail_def using assms
  by (intro wp_rules; clarsimp split: if_splits option.splits; (intro wp_rules)?; clarsimp simp: sync_simps)

lemma sync_delete:
  assumes "nofault w" "in_sync w" "distinct (map ID (w_peers w))" shows "wp (Delete n i) (\<lambda>r w'. in_sync w') w"
  unfolding Delete_def using assms by (intro wp_rules; clarsimp; clarsimp simp: sync_simps)


text \<open>A creation leaves everything alone, or appends one pending row that breaks no constraint, which an
  automatic approval may activate at once.\<close>

definition create_post :: "(peer \<Rightarrow> bool) \<Rightarrow> world \<Rightarrow> world \<Rightarrow> bool" where
  "create_post P w w' \<longleftrightarrow> same w w' \<or>
     (\<exists>q. P q \<and> Status q = ''pending'' \<and> peer_conflict q (w_peers w) (w_nodes w) = None \<and>
       (becomes w w' (w_peers w @ [q]) (agent_view w)
        \<or> becomes w w' (update_peer (ID q) (set_status (w_now w) ''active'') (w_peers w @ [q]))
            ((agent_view w)((NodeID q, ID q) \<mapsto> add_payload q))
        \<or> \<not> nofault w \<and> (becomes w w' (w_peers w @ [q]) ((agent_view w)((NodeID q, ID q) := None))
            \<or> becomes w w' (w_peers w @ [q]) ((agent_view w)((NodeID q, ID q) \<mapsto> add_payload q)))))"

lemma find_new_row: "peer_conflict q ps ns = None \<Longrightarrow> find_peer (ID q) (ps @ [q]) = Some q"
  using find_peer_None [of "ID q" ps] by (simp add: no_peer_conflict find_peer_append)

lemma create_postI:
  "same w w' \<Longrightarrow> create_post P w w'"
  "P q \<Longrightarrow> Status q = ''pending'' \<Longrightarrow> peer_conflict q (w_peers w) (w_nodes w) = None \<Longrightarrow>
     becomes w w' (w_peers w @ [q]) (agent_view w) \<Longrightarrow> create_post P w w'"
  by (auto simp: create_post_def)

lemma create_post_approve:
  assumes "P q" "Status q = ''pending''" "peer_conflict q (w_peers w) (w_nodes w) = None"
    "becomes w w1 (w_peers w @ [q]) (agent_view w)" "approve_post (ID q) w1 r w2" "same w2 w'"
  shows "create_post P w w'"
proof -
  have f: "find_peer (ID q) (w_peers w1) = Some q" using find_new_row [OF assms(3)] assms(4) by (simp add: becomes_def)
  note b = assms(4,6)
  from assms(5)
  have "becomes w w' (update_peer (ID q) (set_status (w_now w) ''active'') (w_peers w @ [q])) ((agent_view w)((NodeID q, ID q) \<mapsto> add_payload q))
      \<or> becomes w w' (w_peers w @ [q]) (agent_view w)
      \<or> \<not> nofault w \<and> (becomes w w' (w_peers w @ [q]) ((agent_view w)((NodeID q, ID q) := None))
            \<or> becomes w w' (w_peers w @ [q]) ((agent_view w)((NodeID q, ID q) \<mapsto> add_payload q)))"
    unfolding approve_post_def using b f by (elim disjE exE conjE; simp add: becomes_def; blast?)
  with assms(1-3) show ?thesis unfolding create_post_def by blast
qed

text \<open>The row a request asks for.\<close>

definition requested :: "int \<Rightarrow> string \<Rightarrow> int \<Rightarrow> peer \<Rightarrow> bool" where
  "requested asn nid prefix q \<longleftrightarrow> RemoteASN q = asn \<and> NodeID q = nid \<and> WgListenPort q = WgPort asn prefix
     \<and> WgInterfaceName q = WgInterfaceName_of asn \<and> WgManaged q \<and> valid_config q"

lemma new_row_simps [simp]:
  "ID (new_row p w i) = i" "Status (new_row p w i) = Status p" "RemoteASN (new_row p w i) = RemoteASN p"
  "NodeID (new_row p w i) = NodeID p" "WgListenPort (new_row p w i) = WgListenPort p" "WgInterfaceName (new_row p w i) = WgInterfaceName p"
  "WgManaged (new_row p w i) = WgManaged p" "RemotePubkey (new_row p w i) = RemotePubkey p" "RemoteEndpoint (new_row p w i) = RemoteEndpoint p"
  "RemoteLLA (new_row p w i) = RemoteLLA p" "MTU (new_row p w i) = MTU p" "WgPreSharedKey (new_row p w i) = WgPreSharedKey p"
  "ContactEmail (new_row p w i) = ContactEmail p"
  by (simp_all add: new_row_def)

lemma new_peer_simps [simp]:
  "Status (new_peer req asn email port psk now) = ''pending''" "ID (new_peer req asn email port psk now) = []"
  "RemoteASN (new_peer req asn email port psk now) = asn" "NodeID (new_peer req asn email port psk now) = cr_NodeID req"
  by (simp_all add: new_peer_def zero_peer_def)

lemma requested_new:
  assumes "check_create req = None"
  shows "requested asn (cr_NodeID req) prefix (new_row (new_peer req asn email (WgPort asn prefix) psk now) w i)"
  using assms
  by (auto simp: requested_def new_peer_def valid_config_def check_create_def ValidatePubkey_def validator_bools
      ValidateMTU_def split: if_splits option.splits)



lemma becomes_state: "becomes w w' ps v \<Longrightarrow> w_peers w' = ps" "becomes w w' ps v \<Longrightarrow> agent_view w' = v"
   "becomes w w' ps v \<Longrightarrow> w_nodes w' = w_nodes w" "becomes w w' ps v \<Longrightarrow> w_now w' = w_now w"
   "becomes w w' ps v \<Longrightarrow> w_now_text w' = w_now_text w" "becomes w w' ps v \<Longrightarrow> nofault w \<Longrightarrow> nofault w'"
  by (simp_all add: becomes_def)



lemma becomes_into: "becomes w w1 ps v \<Longrightarrow> same w1 w2 \<Longrightarrow> same w2 w3 \<Longrightarrow> becomes w w3 ps v"
  by (auto simp: becomes_def)

lemma wp_create_finish:
  assumes "P q" "Status q = ''pending''" "peer_conflict q (w_peers w) (w_nodes w) = None"
    "becomes w w1 (w_peers w @ [q]) (agent_view w)"
  shows "wp (create_finish req asn email port psk (ID q)) (\<lambda>r. create_post P w) w1"
proof -
  note fin = create_post_approve [of P q w, OF assms(1-3)] and plain = create_postI(2) [of P q w, OF assms(1-3)]
  show ?thesis
    unfolding create_finish_def
    by (insert assms(4), intro wp_rules; (rule fin [rotated], assumption)?; (rule plain)?; (clarsimp simp: becomes_def; fail)?)
qed


lemma wp_create_insert:
  assumes "check_create req = None" 
  shows "wp (create_insert req asn email (WgPort asn prefix) psk) (\<lambda>r. create_post (requested asn (cr_NodeID req) prefix) w) w"
proof -
  have fin: "wp (create_finish req asn email (WgPort asn prefix) psk i) (\<lambda>r. create_post (requested asn (cr_NodeID req) prefix) w) w2"
    if "same w w1" "becomes w1 w2 (w_peers w1 @ [new_row (new_peer req asn email (WgPort asn prefix) psk (w_now w)) w1 i]) (agent_view w1)"
      "peer_conflict (new_row (new_peer req asn email (WgPort asn prefix) psk (w_now w)) w1 i) (w_peers w1) (w_nodes w1) = None" for w1 w2 i
  proof -
    let ?q = "new_row (new_peer req asn email (WgPort asn prefix) psk (w_now w)) w1 i"
    from that have "peer_conflict ?q (w_peers w) (w_nodes w) = None" "becomes w w2 (w_peers w @ [?q]) (agent_view w)"
      by (simp_all add: becomes_def)
    from wp_create_finish [of "requested asn (cr_NodeID req) prefix" ?q, OF requested_new [OF assms] _ this] show ?thesis by simp
  qed
  show ?thesis
    unfolding create_insert_def
    by (intro wp_rules; clarsimp?; (rule create_postI(1))?; (clarsimp simp: becomes_def; fail)?; rule fin; assumption)
qed

lemma wp_create_locked:
  assumes "check_create req = None"
  shows "wp (create_locked req asn node) (\<lambda>r. create_post (requested asn (cr_NodeID req) (n_WgPortPrefix node)) w) w"
proof -
  have ins: "wp (create_insert req asn email (WgPort asn (n_WgPortPrefix node)) psk)
      (\<lambda>r. create_post (requested asn (cr_NodeID req) (n_WgPortPrefix node)) w) w'" if "same w w'" for w' email psk
    by (rule wp_mono [OF wp_create_insert [OF assms]])
       (use that in \<open>auto simp: create_post_def becomes_def\<close>)
  show ?thesis
    unfolding create_locked_def
    by (intro wp_rules; (rule ins)?; (rule create_postI(1))?; (clarsimp simp: becomes_def; fail)?)
qed

lemma create_post_same: "create_post P w1 w2 \<Longrightarrow> same w w1 \<Longrightarrow> same w2 w3 \<Longrightarrow> create_post P w w3"
  unfolding create_post_def by (elim disjE exE conjE) (auto simp: becomes_def)

lemma wp_Create_post:
  "wp (Create asn raw) (\<lambda>r w'. \<exists>nid prefix. create_post (requested asn nid prefix) w w') w"
proof -
  have lk: "wp (create_locked req asn node) (\<lambda>x w1. \<forall>w2. same w1 w2 \<longrightarrow> (\<exists>nid prefix. create_post (requested asn nid prefix) w w2)) w'"
    if "same w w'" "check_create req = None" for w' req node
    by (rule wp_mono [OF wp_create_locked [OF that(2)]]) (use create_post_same [OF _ that(1)] in blast)
  show ?thesis
    unfolding Create_def
    apply (intro wp_rules; (rule lk)?; (rule exI, rule exI, rule create_postI(1))?; (clarsimp simp: becomes_def; fail)?)
    done
qed

lemma BuildPendingPeer_requested:
  assumes "BuildPendingPeer rnd i = Inr p"
  shows "requested (in_ASN i) (in_NodeID i) (in_PortPrefix i) p \<and> Status p = ''pending''"
  using assms unfolding BuildPendingPeer_def
  by (cases "ValidatePubkey (in_Pubkey i)"; cases "ValidateEndpoint (in_Endpoint i)"; cases "ValidateLLA (in_LLA i)";
      cases "ValidateMTU (in_MTU i)"; cases rnd) (auto simp: requested_def valid_config_def GeneratePSK_def split: if_splits)

lemma requested_row: "requested asn nid prefix (new_row (p\<lparr>ContactEmail := e\<rparr>) w i) = requested asn nid prefix p"
  by (simp add: requested_def valid_config_def)

text \<open>The AS number a Telegram user is bound to.\<close>

definition bound_asn :: "world \<Rightarrow> int \<Rightarrow> int" where
  "bound_asn w tg = (case find (\<lambda>b. bb_TgUserID b = tg) (w_bindings w) of Some b \<Rightarrow> bb_ASN b | None \<Rightarrow> 0)"

lemma bound_asn_Some [simp]: "find (\<lambda>b. bb_TgUserID b = tg) (w_bindings w) = Some b \<Longrightarrow> bound_asn w tg = bb_ASN b"
  by (simp add: bound_asn_def)

lemma wp_BotCreate_post:
  "wp (handleBotUserPeerCreate b) (\<lambda>r w'. \<exists>nid prefix. create_post (requested (bound_asn w (bc_TgUserID b)) nid prefix) w w') w"
proof -
  have fin: "create_post (requested asn (bc_NodeID b) prefix) w w3"
    if "BuildPendingPeer None \<lparr>in_ASN = asn, in_NodeID = bc_NodeID b, in_PortPrefix = prefix, in_Pubkey = k,
        in_Endpoint = ep, in_LLA = l, in_MTU = m, in_EnablePSK = False\<rparr> = Inr peer"
      "becomes w1 w2 (w_peers w1 @ [new_row (peer\<lparr>ContactEmail := e\<rparr>) w1 i]) (agent_view w1)"
      "peer_conflict (new_row (peer\<lparr>ContactEmail := e\<rparr>) w1 i) (w_peers w1) (w_nodes w1) = None" "same w w1" "same w2 w3"
    for asn prefix k ep l m peer w1 w2 w3 e i
  proof (rule create_postI(2) [where q = "new_row (peer\<lparr>ContactEmail := e\<rparr>) w1 i"])
    show "requested asn (bc_NodeID b) prefix (new_row (peer\<lparr>ContactEmail := e\<rparr>) w1 i)"
      "Status (new_row (peer\<lparr>ContactEmail := e\<rparr>) w1 i) = ''pending''"
      using BuildPendingPeer_requested [OF that(1)] by (simp_all add: requested_row)
  qed (use that(2-) in \<open>simp_all add: becomes_def\<close>)
  show ?thesis
    unfolding handleBotUserPeerCreate_def
    apply (intro wp_rules; (rule allI)?; (rule impI)?; rule exI, rule exI; (rule create_postI(1), clarsimp simp: becomes_def; fail)?)
    apply (clarsimp, rule fin, assumption, assumption, assumption)
    apply (clarsimp simp: becomes_def)+
    done
qed

lemma sync_of_create_post: "create_post P w w' \<Longrightarrow> nofault w \<Longrightarrow> in_sync w \<Longrightarrow> in_sync w'"
  unfolding create_post_def
  by (elim disjE exE conjE; clarsimp simp: sync_simps find_new_row)

lemma sync_create:
  assumes "nofault w" "in_sync w" shows "wp (Create n req) (\<lambda>r w'. in_sync w') w"
  by (rule wp_mono [OF wp_Create_post]) (use sync_of_create_post assms in blast)

lemma sync_bot_create:
  assumes "nofault w" "in_sync w" shows "wp (handleBotUserPeerCreate b) (\<lambda>r w'. in_sync w') w"
  by (rule wp_mono [OF wp_BotCreate_post]) (use sync_of_create_post assms in blast)

text \<open>An update. The new values never read as the SQL text \<^verbatim>\<open>now()\<close> when the stored ones do not.\<close>

definition plain_row :: "peer \<Rightarrow> bool" where
  "plain_row p \<longleftrightarrow> RemotePubkey p \<noteq> ''now()'' \<and> RemoteEndpoint p \<noteq> ''now()'' \<and> RemoteLLA p \<noteq> ''now()''"

lemma not_now [simp]:
  "\<not> validateLLA ''now()''" "\<not> validateEndpoint ''now()''" "length (trim_space ''now()'') < 40"
proof -
  show "\<not> validateLLA ''now()''" by (simp add: validateLLA_def parse_ip_eval)
  show "\<not> validateEndpoint ''now()''" by (simp add: validateEndpoint_def host_eval)
  show "length (trim_space ''now()'') < 40" using length_trim_space [of "''now()''"] by simp
qed

definition plain_body :: "peerUpdateBody \<Rightarrow> bool" where
  "plain_body b \<longleftrightarrow> ub_RemotePubkey b \<noteq> Some ''now()'' \<and> ub_RemoteEndpoint b \<noteq> Some ''now()'' \<and> ub_RemoteLLA b \<noteq> Some ''now()''"

lemma plain_checked: "check_update b = None \<Longrightarrow> plain_body b" "bot_check_update b = None \<Longrightarrow> plain_body b"
  by (auto simp: check_update_def bot_check_update_def plain_body_def botValidateEndpoint_eq botValidateLLA_eq Let_def split: if_splits)

lemma merge_update_simps [simp]:
  "ID (merge_update b p) = ID p" "NodeID (merge_update b p) = NodeID p" "Status (merge_update b p) = Status p"
  "RemoteASN (merge_update b p) = RemoteASN p"
  by (simp_all add: merge_update_def)

lemma payload_of_edit:
  assumes "plain_row p" "plain_body b"
  shows "add_payload (apply_edit t x (merge_update b p) p) = add_payload (merge_update b p)"
  using assms
  by (auto simp: add_payload_def apply_edit_def merge_update_def plain_row_def plain_body_def sql_text_def split: option.splits)

text \<open>An update leaves everything alone, or changes the row and the agent alike; when the agent refuses the
  new settings the old ones are back or the peer is gone from the agent, and the caller sees an error.\<close>

definition update_post :: "('r \<Rightarrow> bool) \<Rightarrow> string \<Rightarrow> peerUpdateBody \<Rightarrow> world \<Rightarrow> 'r \<Rightarrow> world \<Rightarrow> bool" where
  "update_post E i b w r w' \<longleftrightarrow> same w w' \<or>
     (\<exists>p. find_peer i (w_peers w) = Some p \<and>
       (becomes w w' (update_peer i (apply_edit (w_now w) (w_now_text w) (merge_update b p)) (w_peers w))
          (if Status p = ''active'' then (agent_view w)((NodeID p, i) \<mapsto> add_payload (merge_update b p)) else agent_view w)
        \<or> Status p = ''active'' \<and> E r \<and> (becomes w w' (w_peers w) ((agent_view w)((NodeID p, i) \<mapsto> add_payload p))
             \<or> becomes w w' (w_peers w) ((agent_view w)((NodeID p, i) := None)))
        \<or> \<not> nofault w \<and> E r \<and> Status p = ''active'' \<and> becomes w w' (w_peers w) ((agent_view w)((NodeID p, i) \<mapsto> add_payload (merge_update b p)))))"

lemma sync_of_update_post:
  assumes "update_post E i b w r w'" "nofault w" "in_sync w" "list_all plain_row (w_peers w)" "plain_body b"
  shows "in_sync w' \<or> E r \<and> (\<exists>p. find_peer i (w_peers w) = Some p \<and> Status p = ''active'' \<and> w_peers w' = w_peers w
      \<and> agent_view w' = (expected (w_peers w))((NodeID p, i) := None))"
proof -
  have plain: "plain_row p" if "find_peer i (w_peers w) = Some p" for p
    using that assms(4) peer_rows.look_in by (fastforce simp: list_all_iff)
  show ?thesis
    using assms(1-3) unfolding update_post_def
    by (elim disjE exE conjE; clarsimp simp: sync_simps payload_of_edit [OF plain assms(5)] split: if_splits)
qed

lemma update_postI:
  "same w w' \<Longrightarrow> update_post E i b w r w'"
  "find_peer i (w_peers w) = Some p \<Longrightarrow>
     becomes w w' (update_peer i (apply_edit (w_now w) (w_now_text w) (merge_update b p)) (w_peers w))
       (if Status p = ''active'' then (agent_view w)((NodeID p, i) \<mapsto> add_payload (merge_update b p)) else agent_view w)
     \<Longrightarrow> update_post E i b w r w'"
  "find_peer i (w_peers w) = Some p \<Longrightarrow> Status p = ''active'' \<Longrightarrow> E r \<Longrightarrow>
     becomes w w' (w_peers w) ((agent_view w)((NodeID p, i) \<mapsto> add_payload p)) \<or> becomes w w' (w_peers w) ((agent_view w)((NodeID p, i) := None))
     \<Longrightarrow> update_post E i b w r w'"
  "find_peer i (w_peers w) = Some p \<Longrightarrow> Status p = ''active'' \<Longrightarrow> \<not> nofault w \<Longrightarrow> E r \<Longrightarrow>
     becomes w w' (w_peers w) ((agent_view w)((NodeID p, i) \<mapsto> add_payload (merge_update b p)))
     \<Longrightarrow> update_post E i b w r w'"
  unfolding update_post_def by blast+

lemma wp_commit_update:
  assumes "find_peer i (w_peers w) = Some p" "E bad" "\<And>e. E (refusedBy e)"
    and "\<And>r w'. update_post E i b w r w' \<Longrightarrow> Q r w'"
  shows "wp (commit_update i p (merge_update b p) refusedBy bad (do { audit_Log c d e f; ret ok })) Q w"
proof (rule wp_mono [OF _ assms(4)])
  note ID = find_peer_ID [OF assms(1)] and P = assms(1)
  have error: "update_post E i b w r w'" if "reconf_post p (merge_update b p) w (Some e) w'" "Status p = ''active''" "E r" for e r w'
    using that(1) update_postI(1) [of w w'] update_postI(3) [of i w p E r w', OF P that(2,3)] unfolding reconf_post_def ID by auto
  show "wp (commit_update i p (merge_update b p) refusedBy bad (do { audit_Log c d e f; ret ok })) (update_post E i b w) w"
    unfolding commit_update_def
    apply (intro wp_rules; clarsimp?)
        apply (rule update_postI(4) [OF P]; clarsimp simp: becomes_def reconf_post_def ID assms(2); fail)
       apply (rule update_postI(2) [OF P], clarsimp simp: becomes_def reconf_post_def ID; fail)
      apply (rule error, assumption, assumption, rule assms(3))
     apply (rule update_postI(1), assumption)
    apply (rule update_postI(2) [OF P], clarsimp simp: becomes_def; fail)
    done
qed

lemma update_post_same:
  assumes "update_post E i b w1 r w2" "same w w1" "same w2 w3"
  shows "update_post E i b w r w3"
  using assms unfolding update_post_def by (elim disjE exE conjE) (simp_all add: becomes_def split: if_splits)

definition failure :: "response \<Rightarrow> bool" where
  "failure r \<longleftrightarrow> (\<exists>c k m. r = ErrorResp c k m)"

lemma failure_simps [simp]: "failure (ErrorResp c k m)" "\<not> failure (JSONResp c b)" "failure (reconfigure_response e)"
  by (auto simp: failure_def reconfigure_response_def split: reconfigure_error.splits)

text \<open>The outcome of a whole update request whose accepted bodies satisfy \<open>C\<close>.\<close>

definition updates :: "(peerUpdateBody \<Rightarrow> bool) \<Rightarrow> ('r \<Rightarrow> bool) \<Rightarrow> string \<Rightarrow> world \<Rightarrow> 'r \<Rightarrow> world \<Rightarrow> bool" where
  "updates C E i w r w' \<longleftrightarrow> same w w' \<or> (\<exists>b. C b \<and> update_post E i b w r w')"

lemma updates_nothing: "same w w' \<Longrightarrow> updates C E i w r w'"
  by (simp add: updates_def)

lemma updates_something: "update_post E i b w1 r w2 \<Longrightarrow> C b \<Longrightarrow> same w w1 \<Longrightarrow> same w2 w3 \<Longrightarrow> updates C E i w r w3"
  unfolding updates_def by (rule disjI2, rule exI [of _ b], rule conjI, assumption, rule update_post_same)

lemmas wp_commit_http = wp_commit_update [where E = failure] and wp_commit_bot = wp_commit_update [where E = "\<lambda>r. \<not> fst r"]

lemma wp_UpdatePeer_post:
  "wp (UpdatePeer i a raw) (\<lambda>r w'. updates (\<lambda>b. check_update b = None) failure i w r w') w"
  unfolding UpdatePeer_def
  by (intro wp_commit_http wp_rules; clarsimp?; (rule updates_nothing, clarsimp simp: becomes_def; fail)?;
      (erule updates_something)?; clarsimp simp: becomes_def)

lemma wp_Update_post:
  assumes "distinct (map ID (w_peers w))"
  shows "wp (Update n i raw) (\<lambda>r w'. updates (\<lambda>b. check_update b = None) failure i w r w') w"
  unfolding Update_def
  apply (insert assms)
  apply (intro wp_commit_http wp_rules; clarsimp?; (rule updates_nothing, clarsimp simp: becomes_def; fail)?;
      (erule updates_something)?; clarsimp simp: becomes_def)
  done

lemma wp_BotUpdate_post:
  assumes "distinct (map ID (w_peers w))"
  shows "wp (handleBotUserPeerUpdate n i b) (\<lambda>r w'. updates (\<lambda>b. bot_check_update b = None) (\<lambda>r. \<not> fst r) i w r w') w"
  unfolding handleBotUserPeerUpdate_def
  apply (insert assms)
  apply (intro wp_commit_bot wp_rules; (clarsimp simp: find_peer_ID)?; (rule updates_nothing, clarsimp simp: becomes_def; fail)?;
      (erule updates_something)?; clarsimp simp: becomes_def)
  done

section \<open>The handlers refine the abstract machine\<close>

lemma becomes_peers: "becomes w w' ps v \<Longrightarrow> w_peers w' = ps"
  by (simp add: becomes_def)

lemma update_new_row:
  assumes "peer_conflict q ps ns = None" shows "update_peer (ID q) f (ps @ [q]) = ps @ [f q]"
proof -
  have "\<forall>p\<in>set ps. ID p \<noteq> ID q" using assms by (metis image_eqI list.set_map no_peer_conflict)
  then have "map (\<lambda>p. if ID p = ID q then f p else p) ps = ps" by (induction ps) auto
  then show ?thesis by (simp add: update_peer_def)
qed

lemma act_of_create_post:
  assumes "create_post (requested asn nid prefix) w w'"
  shows "peer_act (Some asn) (w_peers w) (w_peers w')"
proof -
  from assms have "w_peers w' = w_peers w \<or> (\<exists>q. requested asn nid prefix q \<and> Status q = ''pending'' \<and>
      peer_conflict q (w_peers w) (w_nodes w) = None \<and>
      (w_peers w' = w_peers w @ [q] \<or> w_peers w' = w_peers w @ [set_status (w_now w) ''active'' q]))"
    unfolding create_post_def becomes_def by (elim disjE exE conjE) (use update_new_row in auto)
  moreover have "peer_act (Some asn) (w_peers w) (w_peers w @ [q])" "peer_act (Some asn) (w_peers w) (w_peers w @ [set_status t ''active'' q])"
    if "requested asn nid prefix q" "Status q = ''pending''" "peer_conflict q (w_peers w) (w_nodes w) = None" for q t
  proof -
    have m: "may (Some asn) q" "valid_config q" using that(1) by (simp_all add: requested_def may_def)
    have f: "find_peer (ID q) (w_peers w) = None" using that(3) by (simp add: no_peer_conflict find_peer_None)
    show "peer_act (Some asn) (w_peers w) (w_peers w @ [q])" by (rule peer_step_act, rule peer_step.create [OF that(2) m f])
    show "peer_act (Some asn) (w_peers w) (w_peers w @ [set_status t ''active'' q])"
      by (rule peer_step_act, rule peer_step.create_approved [OF that(2) m f])
  qed
  ultimately show ?thesis by auto
qed

lemma act_of_update_post:
  assumes "find_peer i ps = Some p" "update_post E i b w r w'" "w_peers w = ps" "may who p" "w_peers w' = ps'"
  shows "peer_act who ps ps'"
proof -
  have "peer_step who ps (update_peer i (apply_edit t x new) ps)" for t x new
    using peer_step.edit [OF assms(1,4) edit_of_apply_edit] .
  with assms(2,3,5) show ?thesis
    unfolding update_post_def becomes_def peer_act_def by (elim disjE exE conjE) auto
qed

lemma may_None [simp]: "may None p" and may_own [simp]: "RemoteASN p = a \<Longrightarrow> may (Some a) p"
  by (simp_all add: may_def)

lemma peer_step_contact:
  "find_peer i ps = Some p \<Longrightarrow> may who p \<Longrightarrow> peer_step who ps (update_peer i (\<lambda>p. p\<lparr>ContactEmail := c, UpdatedAt := t\<rparr>) ps)"
  by (rule peer_step.edit) (auto intro: edit_of_contact)

lemmas one_step = peer_step.approve [THEN peer_step_act] peer_step.reject [THEN peer_step_act] peer_step.suspend [THEN peer_step_act]
  peer_step.unsuspend [THEN peer_step_act] peer_step.remove [THEN peer_step_act] peer_step_contact [THEN peer_step_act]

lemma act_approve: "wp (ApprovePeer i a) (\<lambda>r w'. peer_act None (w_peers w) (w_peers w')) w"
  unfolding ApprovePeer_def
  by (intro wp_rules; (clarsimp simp: approve_post_def)?; (elim disjE)?; clarsimp simp: becomes_def; (elim disjE conjE)?;
      (erule one_step(1); simp)?; simp)

lemma act_reject: "wp (RejectPeer i a b) (\<lambda>r w'. peer_act None (w_peers w) (w_peers w')) w"
  unfolding RejectPeer_def by (intro wp_rules; clarsimp dest!: becomes_peers; erule one_step(2); simp)

lemma act_suspend: "wp (SuspendPeer i a r) (\<lambda>r w'. peer_act None (w_peers w) (w_peers w')) w"
  unfolding SuspendPeer_def by (intro wp_rules; clarsimp dest!: becomes_peers; erule one_step(3); simp)

lemma act_unsuspend: "wp (UnsuspendPeer i a) (\<lambda>r w'. peer_act None (w_peers w) (w_peers w')) w"
  unfolding UnsuspendPeer_def by (intro wp_rules; clarsimp dest!: becomes_peers; erule one_step(4); simp)

lemma act_admin_delete: "wp (DeletePeer i a) (\<lambda>r w'. peer_act None (w_peers w) (w_peers w')) w"
  unfolding DeletePeer_def by (intro wp_rules; clarsimp dest!: becomes_peers; erule one_step(5); simp)

lemma act_contact: "wp (UpdateContactEmail i a b) (\<lambda>r w'. peer_act None (w_peers w) (w_peers w')) w"
  unfolding UpdateContactEmail_def
  by (intro wp_rules; clarsimp dest!: becomes_peers split: if_splits; (erule one_step(6); simp)?)

lemma act_admin_update: "wp (UpdatePeer i a raw) (\<lambda>r w'. peer_act None (w_peers w) (w_peers w')) w"
  unfolding UpdatePeer_def
  by (intro wp_commit_http wp_rules; clarsimp dest!: becomes_peers; erule act_of_update_post, assumption; simp)

lemma act_update:
  assumes "distinct (map ID (w_peers w))" shows "wp (Update n i raw) (\<lambda>r w'. peer_act (Some n) (w_peers w) (w_peers w')) w"
  unfolding Update_def
  by (insert assms, intro wp_commit_http wp_rules; clarsimp dest!: becomes_peers; erule act_of_update_post, assumption; simp)

lemma act_delete:
  assumes "distinct (map ID (w_peers w))" shows "wp (Delete n i) (\<lambda>r w'. peer_act (Some n) (w_peers w) (w_peers w')) w"
  unfolding Delete_def
  by (insert assms, intro wp_rules; clarsimp dest!: becomes_peers; erule one_step(5); simp)

lemma act_bot_update:
  assumes "distinct (map ID (w_peers w))"
  shows "wp (handleBotUserPeerUpdate t i b) (\<lambda>r w'. peer_act (Some (bound_asn w t)) (w_peers w) (w_peers w')) w"
  unfolding handleBotUserPeerUpdate_def
  by (insert assms, intro wp_commit_bot wp_rules; clarsimp simp: find_peer_ID dest!: becomes_peers; erule act_of_update_post, assumption; simp)

lemma act_bot_delete:
  assumes "distinct (map ID (w_peers w))"
  shows "wp (handleBotUserPeerDelete t i) (\<lambda>r w'. peer_act (Some (bound_asn w t)) (w_peers w) (w_peers w')) w"
  unfolding handleBotUserPeerDelete_def
  by (insert assms, intro wp_rules; clarsimp simp: find_peer_ID dest!: becomes_peers; erule one_step(5); simp)

section \<open>Requests as a whole\<close>

text \<open>On whose behalf a request runs.\<close>

fun actor :: "world \<Rightarrow> request \<Rightarrow> int option" where
  "actor w (ReqCreate n r) = Some n"
| "actor w (ReqDelete n i) = Some n"
| "actor w (ReqUpdate n i b) = Some n"
| "actor w (ReqBotCreate b) = Some (bound_asn w (bc_TgUserID b))"
| "actor w (ReqBotDelete t i) = Some (bound_asn w t)"
| "actor w (ReqBotUpdate t i b) = Some (bound_asn w t)"
| "actor w _ = None"

lemma act_create: "wp (Create n req) (\<lambda>r w'. peer_act (Some n) (w_peers w) (w_peers w')) w"
  by (rule wp_mono [OF wp_Create_post]) (use act_of_create_post in blast)

lemma act_bot_create: "wp (handleBotUserPeerCreate b) (\<lambda>r w'. peer_act (Some (bound_asn w (bc_TgUserID b))) (w_peers w) (w_peers w')) w"
  by (rule wp_mono [OF wp_BotCreate_post]) (use act_of_create_post in blast)

lemma wp_bot: "wp m (\<lambda>r w'. Q w') w \<Longrightarrow> wp (do { r \<leftarrow> m; ret (bot_response r) }) (\<lambda>r w'. Q w') w"
  by (rule wp_bind) (simp add: wp_def)

lemma serve_act:
  assumes "tables_ok w" shows "wp (serve r) (\<lambda>resp w'. peer_act (actor w r) (w_peers w) (w_peers w')) w"
proof -
  have d: "distinct (map ID (w_peers w))" using assms by (simp add: tables_ok_def)
  show ?thesis
    by (cases r; simp only: serve.simps actor.simps)
       (rule act_approve act_reject act_suspend act_unsuspend act_admin_delete act_admin_update act_contact act_create
          act_delete [OF d] act_update [OF d] wp_bot [OF act_bot_create] wp_bot [OF act_bot_delete [OF d]] wp_bot [OF act_bot_update [OF d]])+
qed

lemma keeps_commit_update:
  assumes "keeps tables_ok m" shows "keeps tables_ok (commit_update i p new f bad m)"
  unfolding commit_update_def reconfigure_agent_def by (intro keeps_intros assms; simp)

lemma keeps_approve: "keeps tables_ok (approvePeerCore i a)"
  unfolding approvePeerCore_def by (intro keeps_intros; simp)

lemma keeps_outcome [keeps_intros]:
  "(\<And>x. keeps I (f x)) \<Longrightarrow> (\<And>e. keeps I (g e)) \<Longrightarrow> keeps I h \<Longrightarrow>
   keeps I (case r of Approved x \<Rightarrow> f x | ApproveError e \<Rightarrow> g e | ApprovePanic \<Rightarrow> h)"
  by (cases r) auto

lemma keeps_db_error [keeps_intros]:
  "keeps I f \<Longrightarrow> keeps I g \<Longrightarrow> (\<And>c. keeps I (h c)) \<Longrightarrow> keeps I k \<Longrightarrow> keeps I l \<Longrightarrow> keeps I n \<Longrightarrow>
   keeps I (case e of DbFail \<Rightarrow> f | NoRows \<Rightarrow> g | UniqueViolation c \<Rightarrow> h c | ForeignKeyViolation \<Rightarrow> k | CheckViolation \<Rightarrow> l | InvalidText \<Rightarrow> n)"
  by (cases e) auto

lemma keeps_validation [keeps_intros]:
  "(\<And>e. keeps I (f e)) \<Longrightarrow> (\<And>e. keeps I (g e)) \<Longrightarrow> keeps I (case r of ValidationError e \<Rightarrow> f e | GenerateError e \<Rightarrow> g e)"
  by (cases r) auto

lemmas keeps_parts = keeps_intros keeps_approve keeps_commit_update insensitive_tables_ok

lemma keeps_admin:
  "keeps tables_ok (ApprovePeer i a)" "keeps tables_ok (RejectPeer i a b)" "keeps tables_ok (SuspendPeer i a s)"
  "keeps tables_ok (UnsuspendPeer i a)" "keeps tables_ok (DeletePeer i a)" "keeps tables_ok (UpdatePeer i a j)"
  "keeps tables_ok (UpdateContactEmail i a c)"
  unfolding ApprovePeer_def RejectPeer_def SuspendPeer_def UnsuspendPeer_def DeletePeer_def UpdatePeer_def UpdateContactEmail_def
  by (intro keeps_parts)+

lemma keeps_user:
  "keeps tables_ok (Create n req)" "keeps tables_ok (Delete n i)" "keeps tables_ok (Update n i j)"
  unfolding Create_def create_locked_def create_insert_def create_finish_def Delete_def Update_def
  by (intro keeps_parts)+

lemma keeps_bot:
  "keeps tables_ok (handleBotUserPeerCreate c)" "keeps tables_ok (handleBotUserPeerDelete t i)" "keeps tables_ok (handleBotUserPeerUpdate t i u)"
  unfolding handleBotUserPeerCreate_def handleBotUserPeerDelete_def handleBotUserPeerUpdate_def
  by (intro keeps_parts)+

lemma keeps_serve: "keeps tables_ok (serve r)"
  by (cases r) (simp_all add: keeps_admin keeps_user keeps_bot keeps_bind keeps_return)

section \<open>What the abstract machine guarantees\<close>

lemma filter_update_peer:
  "(\<And>q. q \<in> set ps \<Longrightarrow> ID q = i \<Longrightarrow> \<not> P q \<and> \<not> P (f q)) \<Longrightarrow> filter P (update_peer i f ps) = filter P ps"
  by (induction ps) (auto simp: update_peer_def)

lemma filter_delete_peer: "(\<And>q. q \<in> set ps \<Longrightarrow> ID q = i \<Longrightarrow> \<not> P q) \<Longrightarrow> filter P (delete_peer i ps) = filter P ps"
  by (induction ps) (auto simp: delete_peer_def)

lemma only_row: "distinct (map ID ps) \<Longrightarrow> find_peer i ps = Some p \<Longrightarrow> q \<in> set ps \<Longrightarrow> ID q = i \<Longrightarrow> q = p"
  using peer_rows.look_of [of ps q] by auto

lemma edit_of_same: "edit_of p q \<Longrightarrow> ID q = ID p \<and> NodeID q = NodeID p \<and> RemoteASN q = RemoteASN p \<and> Status q = Status p
    \<and> WgListenPort q = WgListenPort p \<and> WgInterfaceName q = WgInterfaceName p \<and> WgPreSharedKey q = WgPreSharedKey p"
  by (auto simp: edit_of_def)

lemma peer_step_isolated:
  assumes "peer_step who ps ps'" "who = Some n" "distinct (map ID ps)"
  shows "filter (\<lambda>p. RemoteASN p \<noteq> n) ps' = filter (\<lambda>p. RemoteASN p \<noteq> n) ps"
  using assms
proof cases
  case (remove i p)
  then show ?thesis using only_row [OF assms(3) remove(2)] assms(2) by (auto simp: may_def intro!: filter_delete_peer)
next
  case (edit i p f)
  then show ?thesis using only_row [OF assms(3) edit(2)] assms(2) edit_of_same [OF edit(4)] by (auto simp: may_def intro!: filter_update_peer)
qed (auto simp: may_def)

text \<open>The status machine.\<close>

definition next_status :: "string \<Rightarrow> string \<Rightarrow> bool" where
  "next_status s t \<longleftrightarrow> (s, t) \<in> {(''pending'', ''active''), (''pending'', ''rejected''), (''active'', ''suspended''), (''suspended'', ''active'')}"

definition row_change :: "peer \<Rightarrow> peer \<Rightarrow> bool" where
  "row_change p q \<longleftrightarrow> NodeID q = NodeID p \<and> RemoteASN q = RemoteASN p \<and> WgListenPort q = WgListenPort p
     \<and> WgInterfaceName q = WgInterfaceName p \<and> WgPreSharedKey q = WgPreSharedKey p
     \<and> (Status q = Status p \<or> next_status (Status p) (Status q))"

lemma row_change_refl [simp]: "row_change p p"
  by (simp add: row_change_def)

lemma row_change_set_status: "next_status (Status p) s \<Longrightarrow> row_change p (set_status t s p)"
  by (simp add: row_change_def set_status_def)

lemma row_change_rejected: "Status p = ''pending'' \<Longrightarrow> row_change p (set_rejected t r p)"
  by (simp add: row_change_def set_rejected_def next_status_def)

lemma row_change_edit: "edit_of p q \<Longrightarrow> row_change p q"
  using edit_of_same by (auto simp: row_change_def)

lemma find_update_peer:
  assumes "\<And>q. ID (f q) = ID q" "find_peer j ps = Some p" "find_peer j (update_peer i f ps) = Some q"
  shows "q = (if j = i then f p else p)"
  using assms(2,3) by (auto simp: peer_rows.look_upd assms(1) split: if_splits)

lemma peer_step_row:
  assumes "peer_step who ps ps'" "find_peer j ps = Some p" "find_peer j ps' = Some q"
  shows "row_change p q"
  using assms(1)
proof cases
  case (approve i p' t)
  then have "q = (if j = i then set_status t ''active'' p else p)" using assms by (intro find_update_peer) auto
  then show ?thesis using approve assms(2) row_change_set_status [of p "''active''" t] by (auto simp: next_status_def)
next
  case (reject i p' t r)
  then have "q = (if j = i then set_rejected t r p else p)" using assms by (intro find_update_peer) auto
  then show ?thesis using reject assms(2) row_change_rejected by auto
next
  case (suspend i p' t)
  then have "q = (if j = i then set_status t ''suspended'' p else p)" using assms by (intro find_update_peer) auto
  then show ?thesis using suspend assms(2) row_change_set_status [of p "''suspended''" t] by (auto simp: next_status_def)
next
  case (unsuspend i p' t)
  then have "q = (if j = i then set_status t ''active'' p else p)" using assms by (intro find_update_peer) auto
  then show ?thesis using unsuspend assms(2) row_change_set_status [of p "''active''" t] by (auto simp: next_status_def)
next
  case (edit i p' f)
  then have "q = (if j = i then f p else p)" using assms edit_of_same [OF edit(4)] by (intro find_update_peer) auto
  then show ?thesis using edit row_change_edit by auto
qed (use assms in \<open>auto simp: find_peer_append find_peer_delete split: if_splits\<close>)

lemma peer_act_row: "peer_act who ps ps' \<Longrightarrow> find_peer j ps = Some p \<Longrightarrow> find_peer j ps' = Some q \<Longrightarrow> row_change p q"
  using peer_step_row by (auto simp: peer_act_def)

lemma peer_act_isolated:
  "peer_act (Some n) ps ps' \<Longrightarrow> distinct (map ID ps) \<Longrightarrow> filter (\<lambda>p. RemoteASN p \<noteq> n) ps' = filter (\<lambda>p. RemoteASN p \<noteq> n) ps"
  using peer_step_isolated by (auto simp: peer_act_def)


section \<open>Reachable states\<close>

text \<open>The operations that touch peers, the imports included.\<close>

datatype operation = OpRequest request | OpImportNode string string | OpImport string bool "peerExportEntry list option"

fun perform :: "operation \<Rightarrow> world \<Rightarrow> world" where
  "perform (OpRequest r) w = snd (run_state (serve r) w)"
| "perform (OpImportNode n a) w = snd (run_state (ImportNodePeers n a) w)"
| "perform (OpImport a ow es) w = snd (run_state (ImportPeers a ow es) w)"

text \<open>Between operations the environment may change everything but the tables and the command log: time
  passes, agents answer, connections come and go, the database fails, settings change.\<close>

definition env_step :: "world \<Rightarrow> world \<Rightarrow> bool" where
  "env_step w w' \<longleftrightarrow> w_peers w' = w_peers w \<and> w_nodes w' = w_nodes w \<and> w_sent w' = w_sent w"

inductive reachable :: "world \<Rightarrow> world \<Rightarrow> bool" for w0 where
  start: "reachable w0 w0"
| env: "reachable w0 w \<Longrightarrow> env_step w w' \<Longrightarrow> reachable w0 w'"
| op: "reachable w0 w \<Longrightarrow> reachable w0 (perform f w)"

lemma keeps_import_node: "keeps tables_ok (import_node_loop n a es c)"
  by (induction es arbitrary: c) (simp_all only: import_node_loop.simps, intro keeps_parts, intro keeps_parts, assumption)

lemma keeps_import_one: "keeps tables_ok (import_one a ow e st)"
  unfolding import_one_def node_check_def count_action_def by (intro keeps_parts)

lemma keeps_import_loop: "keeps tables_ok (import_loop a ow es st)"
  by (induction es arbitrary: st) (simp_all add: keeps_bind keeps_return keeps_import_one)

lemma keeps_imports: "keeps tables_ok (ImportNodePeers n a)" "keeps tables_ok (ImportPeers a ow es)"
  unfolding ImportNodePeers_def ImportPeers_def
  by (intro keeps_parts keeps_import_node, intro keeps_parts keeps_import_loop)

lemma perform_tables_ok: "tables_ok w \<Longrightarrow> tables_ok (perform f w)"
  using keeps_serve keeps_imports by (cases f) (simp_all add: keeps_def)

lemma env_step_tables_ok: "env_step w w' \<Longrightarrow> tables_ok w \<Longrightarrow> tables_ok w'"
  by (simp add: env_step_def tables_ok_def)

lemma reachable_tables_ok: "reachable w0 w \<Longrightarrow> tables_ok w0 \<Longrightarrow> tables_ok w"
  by (induction rule: reachable.induct) (auto intro: perform_tables_ok env_step_tables_ok)

section \<open>Stored settings stay valid\<close>

definition valid_rows :: "world \<Rightarrow> bool" where
  "valid_rows w \<longleftrightarrow> list_all valid_config (w_peers w)"

lemma valid_config_status [simp]:
  "valid_config (set_status t s p) = valid_config p" "valid_config (set_rejected t r p) = valid_config p"
  "valid_config (p\<lparr>ContactEmail := c, UpdatedAt := t\<rparr>) = valid_config p"
  by (simp_all add: valid_config_def set_status_def set_rejected_def)

lemma list_all_update:
  "list_all P ps \<Longrightarrow> (\<And>q. P q \<Longrightarrow> P (f q)) \<Longrightarrow> list_all P (update_peer i f ps)"
  "list_all P ps \<Longrightarrow> list_all P (delete_peer i ps)"
  by (induction ps) (auto simp: update_peer_def delete_peer_def)

lemma list_all_update_row:
  assumes "list_all P ps" "distinct (map ID ps)" "find_peer i ps = Some p" "P p \<Longrightarrow> P (f p)"
  shows "list_all P (update_peer i f ps)"
  using assms(1) only_row [OF assms(2,3)] assms(4) by (auto simp: update_peer_def list_all_iff)

lemma valid_config_not_now: "valid_config p \<Longrightarrow> plain_row p"
  by (auto simp: valid_config_def plain_row_def ValidatePubkey_iff ValidateEndpoint_bool [symmetric] ValidateLLA_bool [symmetric])

lemma valid_merge:
  assumes "valid_config p" "check_update b = None"
  shows "valid_config (apply_edit t x (merge_update b p) p)"
proof -
  have new: "valid_config (merge_update b p)"
    using assms
    by (auto simp: valid_config_def merge_update_def check_update_def ValidatePubkey_iff ValidateMTU_iff validator_bools
        split: if_splits option.splits)
  have "plain_row (merge_update b p)" by (rule valid_config_not_now [OF new])
  then have "valid_config (apply_edit t x (merge_update b p) p) = valid_config (merge_update b p)"
    by (simp add: valid_config_def apply_edit_def plain_row_def sql_text_def)
  with new show ?thesis by simp
qed

lemma valid_of_create_post: "create_post (requested asn nid prefix) w w' \<Longrightarrow> valid_rows w \<Longrightarrow> valid_rows w'"
  unfolding create_post_def
  by (elim disjE exE conjE; clarsimp simp: valid_rows_def requested_def update_new_row dest!: becomes_peers)

lemma valid_of_updates:
  assumes "updates (\<lambda>b. check_update b = None) E i w r w'" "valid_rows w" "distinct (map ID (w_peers w))"
  shows "valid_rows w'"
proof -
  have "list_all valid_config (update_peer i (apply_edit t x (merge_update b p)) (w_peers w))"
    if "find_peer i (w_peers w) = Some p" "check_update b = None" for b p t x
    using assms(2,3) that valid_merge by (intro list_all_update_row) (auto simp: valid_rows_def)
  then show ?thesis
    using assms(1,2) unfolding updates_def update_post_def valid_rows_def by (elim disjE exE conjE) (auto dest!: becomes_peers)
qed

lemma valid_simple:
  assumes "valid_rows w"
  shows "wp (ApprovePeer i a) (\<lambda>r w'. valid_rows w') w" "wp (RejectPeer i a b) (\<lambda>r w'. valid_rows w') w"
    "wp (SuspendPeer i a s) (\<lambda>r w'. valid_rows w') w" "wp (UnsuspendPeer i a) (\<lambda>r w'. valid_rows w') w"
    "wp (DeletePeer i a) (\<lambda>r w'. valid_rows w') w" "wp (UpdateContactEmail i a c) (\<lambda>r w'. valid_rows w') w"
  subgoal unfolding ApprovePeer_def using assms
    by (intro wp_rules; (clarsimp simp: approve_post_def)?; (elim disjE)?; clarsimp simp: valid_rows_def list_all_update dest!: becomes_peers;
        (elim disjE)?; clarsimp dest!: becomes_peers)
  subgoal unfolding RejectPeer_def using assms by (intro wp_rules; clarsimp simp: valid_rows_def list_all_update dest!: becomes_peers)
  subgoal unfolding SuspendPeer_def using assms by (intro wp_rules; clarsimp simp: valid_rows_def list_all_update dest!: becomes_peers)
  subgoal unfolding UnsuspendPeer_def using assms by (intro wp_rules; clarsimp simp: valid_rows_def list_all_update dest!: becomes_peers)
  subgoal unfolding DeletePeer_def using assms by (intro wp_rules; clarsimp simp: valid_rows_def list_all_update dest!: becomes_peers)
  subgoal unfolding UpdateContactEmail_def using assms
    by (intro wp_rules; clarsimp simp: valid_rows_def list_all_update dest!: becomes_peers split: if_splits)
  done

lemma valid_deletes:
  assumes "valid_rows w" "distinct (map ID (w_peers w))"
  shows "wp (Delete n i) (\<lambda>r w'. valid_rows w') w" "wp (handleBotUserPeerDelete t i) (\<lambda>r w'. valid_rows w') w"
  unfolding Delete_def handleBotUserPeerDelete_def
  by (insert assms, (intro wp_rules; clarsimp simp: valid_rows_def list_all_update dest!: becomes_peers)+)

fun is_bot_update :: "request \<Rightarrow> bool" where
  "is_bot_update (ReqBotUpdate t i b) = True"
| "is_bot_update _ = False"

lemma serve_valid:
  assumes "tables_ok w" "valid_rows w" "\<not> is_bot_update r"
  shows "wp (serve r) (\<lambda>resp w'. valid_rows w') w"
proof -
  have d: "distinct (map ID (w_peers w))" using assms(1) by (simp add: tables_ok_def)
  note v = valid_simple [OF assms(2)] valid_deletes [OF assms(2) d]
  have c: "wp (Create n q) (\<lambda>r w'. valid_rows w') w" for n q
    by (rule wp_mono [OF wp_Create_post]) (use valid_of_create_post assms(2) in blast)
  have bc: "wp (handleBotUserPeerCreate b) (\<lambda>r w'. valid_rows w') w" for b
    by (rule wp_mono [OF wp_BotCreate_post]) (use valid_of_create_post assms(2) in blast)
  have u: "wp (UpdatePeer i a j) (\<lambda>r w'. valid_rows w') w" for i a j
    by (rule wp_mono [OF wp_UpdatePeer_post]) (erule valid_of_updates [OF _ assms(2) d])
  have uu: "wp (Update n i j) (\<lambda>r w'. valid_rows w') w" for i j n
    by (rule wp_mono [OF wp_Update_post [OF d]]) (erule valid_of_updates [OF _ assms(2) d])
  show ?thesis
    using assms(3) by (cases r) (simp_all add: v c bc u uu wp_bot)
qed

section \<open>Requests keep the agents in step\<close>

fun is_update :: "request \<Rightarrow> bool" where
  "is_update (ReqAdminUpdate i a b) = True"
| "is_update (ReqUpdate n i b) = True"
| "is_update (ReqBotUpdate t i b) = True"
| "is_update _ = False"

fun is_bot_delete :: "request \<Rightarrow> bool" where
  "is_bot_delete (ReqBotDelete t i) = True"
| "is_bot_delete _ = False"

text \<open>The agent of an active row does not carry it any more, everything else agrees.\<close>

definition lost_peer :: "world \<Rightarrow> bool" where
  "lost_peer w \<longleftrightarrow> (\<exists>p \<in> set (w_peers w). Status p = ''active'' \<and> agent_view w = (expected (w_peers w))((NodeID p, ID p) := None))"

lemma sync_of_updates:
  assumes "updates C E i w r w'" "\<And>b. C b \<Longrightarrow> plain_body b" "nofault w" "in_sync w" "list_all plain_row (w_peers w)"
  shows "in_sync w' \<or> E r \<and> lost_peer w'"
proof -
  have lost: "lost_peer w'" if "find_peer i (w_peers w) = Some p" "Status p = ''active''" "w_peers w' = w_peers w"
      "agent_view w' = (expected (w_peers w))((NodeID p, i) := None)" for p
    using that peer_rows.look_in [OF that(1)] unfolding lost_peer_def by (intro bexI [of _ p]) auto
  have "in_sync w'" if "same w w'" using that assms(4) by (simp add: becomes_def in_sync_def)
  moreover have "in_sync w' \<or> E r \<and> lost_peer w'" if "update_post E i b w r w'" "C b" for b
    using sync_of_update_post [OF that(1) assms(3,4,5) assms(2) [OF that(2)]] lost by auto
  ultimately show ?thesis using assms(1) unfolding updates_def by auto
qed

lemma serve_sync:
  assumes "nofault w" "in_sync w" "tables_ok w" "list_all plain_row (w_peers w)" "\<not> is_bot_delete r"
  shows "wp (serve r) (\<lambda>resp w'. in_sync w' \<or> is_update r \<and> failure resp \<and> lost_peer w') w"
proof -
  have d: "distinct (map ID (w_peers w))" using assms(3) by (simp add: tables_ok_def)
  note s = sync_approve sync_reject sync_suspend sync_unsuspend sync_admin_delete sync_contact sync_create sync_delete sync_bot_create
  note S = s [OF assms(1,2)]
  have weak: "wp m (\<lambda>resp w'. in_sync w' \<or> B resp w') w" if "wp m (\<lambda>resp w'. in_sync w') w" for m :: "response M" and B
    by (rule wp_mono [OF that]) simp
  have u: "wp (UpdatePeer i a j) (\<lambda>resp w'. in_sync w' \<or> failure resp \<and> lost_peer w') w" for i a j
    by (rule wp_mono [OF wp_UpdatePeer_post]) (erule sync_of_updates [OF _ _ assms(1,2,4)], erule plain_checked)
  have uu: "wp (Update n i j) (\<lambda>resp w'. in_sync w' \<or> failure resp \<and> lost_peer w') w" for i j n
    by (rule wp_mono [OF wp_Update_post [OF d]]) (erule sync_of_updates [OF _ _ assms(1,2,4)], erule plain_checked)
  have bu: "wp (do { r \<leftarrow> handleBotUserPeerUpdate t i b; ret (bot_response r) }) (\<lambda>resp w'. in_sync w' \<or> failure resp \<and> lost_peer w') w" for t i b
    by (rule wp_bind, rule wp_mono [OF wp_BotUpdate_post [OF d]], drule sync_of_updates [OF _ _ assms(1,2,4)], erule plain_checked)
       (auto simp: bot_response_def)
  show ?thesis
    using assms(5) by (cases r) (simp_all add: weak S d u uu bu wp_bot)
qed

end
