(* ===== verification/AuthRepo.thy ===== *)
theory AuthRepo
  imports PeerRepo
begin

text \<open>
  \<^verbatim>\<open>internal/repository/auth.go\<close> and \<^verbatim>\<open>admin.go\<close>: login codes, GPG challenges, sessions and device grants,
  on tables with the constraints of migrations 003, 033, 055 and 060. An update returns whether it
  changed a row. Where a query asks for no order among equal keys, rows come in table order.
\<close>

section \<open>Tables\<close>

definition upd :: "('r \<Rightarrow> bool) \<Rightarrow> ('r \<Rightarrow> 'r) \<Rightarrow> 'r list \<Rightarrow> 'r list" where
  "upd P f rs = map (\<lambda>r. if P r then f r else r) rs"

abbreviation codes :: "world \<Rightarrow> user_login_code list" where "codes w \<equiv> t_codes (w_auth w)"
abbreviation challenges :: "world \<Rightarrow> gpg_challenge list" where "challenges w \<equiv> t_challenges (w_auth w)"
abbreviation sessions :: "world \<Rightarrow> auth_session list" where "sessions w \<equiv> t_sessions (w_auth w)"
abbreviation grants :: "world \<Rightarrow> auth_device_grant list" where "grants w \<equiv> t_grants (w_auth w)"

definition set_codes :: "user_login_code list \<Rightarrow> world \<Rightarrow> world" where
  "set_codes x w = w\<lparr>w_auth := (w_auth w)\<lparr>t_codes := x\<rparr>\<rparr>"

definition set_challenges :: "gpg_challenge list \<Rightarrow> world \<Rightarrow> world" where
  "set_challenges x w = w\<lparr>w_auth := (w_auth w)\<lparr>t_challenges := x\<rparr>\<rparr>"

definition set_sessions :: "auth_session list \<Rightarrow> world \<Rightarrow> world" where
  "set_sessions x w = w\<lparr>w_auth := (w_auth w)\<lparr>t_sessions := x\<rparr>\<rparr>"

definition set_grants :: "auth_device_grant list \<Rightarrow> world \<Rightarrow> world" where
  "set_grants x w = w\<lparr>w_auth := (w_auth w)\<lparr>t_grants := x\<rparr>\<rparr>"

text \<open>A given identifier, or the column default.\<close>

definition take_id :: "string \<Rightarrow> world \<Rightarrow> string \<times> world" where
  "take_id i w = (if i = [] then fresh_uuid w else (i, w))"

text \<open>An address literal that the \<^verbatim>\<open>INET\<close> columns take.\<close>

definition inet_ok :: "string \<Rightarrow> bool" where
  "inet_ok s \<longleftrightarrow> parse_ip s \<noteq> None"

section \<open>Login codes and challenges\<close>

text \<open>The model has no default for \<^verbatim>\<open>created_at\<close> here, and no caller sets it: the zero time is stored.\<close>

definition CreateLoginCode :: "user_login_code \<Rightarrow> (db_error + unit) M" where
  "CreateLoginCode c = db_write (\<lambda>w.
     let (i, w1) = take_id (lc_ID c) w in
     if list_ex (\<lambda>d. lc_ID d = i) (codes w) then Inl (UniqueViolation ''user_login_codes_pkey'')
     else Inr ((), set_codes (codes w @ [c\<lparr>lc_ID := i\<rparr>]) w1))"

definition live_code :: "int \<Rightarrow> int \<Rightarrow> user_login_code \<Rightarrow> bool" where
  "live_code asn now c \<longleftrightarrow> lc_ASN c = asn \<and> \<not> lc_Used c \<and> lc_ExpiresAt c > now \<and> lc_FailedAttempts c < 5"

definition GetLatestValidLoginCode :: "int \<Rightarrow> (db_error + user_login_code) M" where
  "GetLatestValidLoginCode asn = db_read (\<lambda>w.
     case sort_key (\<lambda>c. - lc_CreatedAt c) (filter (live_code asn (w_now w)) (codes w)) of
       [] \<Rightarrow> Inl NoRows | c # _ \<Rightarrow> Inr c)"

definition MarkLoginCodeUsed :: "string \<Rightarrow> (db_error + bool) M" where
  "MarkLoginCodeUsed i = db_write (\<lambda>w.
     let P = (\<lambda>c. lc_ID c = i \<and> \<not> lc_Used c) in
     Inr (list_ex P (codes w), set_codes (upd P (\<lambda>c. c\<lparr>lc_Used := True\<rparr>) (codes w)) w))"

definition IncrementLoginCodeFailures :: "string \<Rightarrow> (db_error + unit) M" where
  "IncrementLoginCodeFailures i = db_write (\<lambda>w.
     Inr ((), set_codes (upd (\<lambda>c. lc_ID c = i) (\<lambda>c. c\<lparr>lc_FailedAttempts := lc_FailedAttempts c + 1\<rparr>) (codes w)) w))"

definition CreateGPGChallenge :: "gpg_challenge \<Rightarrow> (db_error + string) M" where
  "CreateGPGChallenge c = db_write (\<lambda>w.
     let (i, w1) = take_id (gc_ID c) w in
     if list_ex (\<lambda>d. gc_ID d = i) (challenges w) then Inl (UniqueViolation ''gpg_challenges_pkey'')
     else Inr (i, set_challenges (challenges w @ [c\<lparr>gc_ID := i\<rparr>]) w1))"

definition GetGPGChallenge :: "string \<Rightarrow> int \<Rightarrow> (db_error + gpg_challenge) M" where
  "GetGPGChallenge i asn = db_read (\<lambda>w.
     row (find (\<lambda>c. gc_ID c = i \<and> gc_ASN c = asn \<and> \<not> gc_Used c \<and> gc_ExpiresAt c > w_now w) (challenges w)))"

definition MarkGPGChallengeUsed :: "string \<Rightarrow> (db_error + bool) M" where
  "MarkGPGChallengeUsed i = db_write (\<lambda>w.
     let P = (\<lambda>c. gc_ID c = i \<and> \<not> gc_Used c) in
     Inr (list_ex P (challenges w), set_challenges (upd P (\<lambda>c. c\<lparr>gc_Used := True\<rparr>) (challenges w)) w))"

section \<open>Sessions\<close>

text \<open>The check of migration 055 on the subject of a session.\<close>

definition subject_ok :: "auth_session \<Rightarrow> bool" where
  "subject_ok s \<longleftrightarrow>
     (s_SubjectType s = ''user'' \<and> s_ASN s \<noteq> None \<and> s_AdminID s = None)
   \<or> (s_SubjectType s = ''admin'' \<and> s_AdminID s \<noteq> None \<and> s_ASN s = None \<and> s_ParentSessionID s = None)
   \<or> (s_SubjectType s = ''impersonation'' \<and> s_ASN s \<noteq> None \<and> s_AdminID s \<noteq> None \<and> s_ParentSessionID s \<noteq> None)"

definition session_conflict :: "auth_session \<Rightarrow> world \<Rightarrow> db_error option" where
  "session_conflict s w =
     (if \<not> inet_ok (s_IPAddress s) then Some InvalidText
      else if \<not> subject_ok s then Some CheckViolation
      else if list_ex (\<lambda>t. s_ID t = s_ID s) (sessions w) then Some (UniqueViolation ''auth_sessions_pkey'')
      else if s_RefreshTokenHash s \<noteq> [] \<and> list_ex (\<lambda>t. s_RefreshTokenHash t = s_RefreshTokenHash s) (sessions w)
        then Some (UniqueViolation ''auth_sessions_refresh_token_hash_key'')
      else if s_PreviousRefreshTokenHash s \<noteq> [] \<and>
              list_ex (\<lambda>t. s_PreviousRefreshTokenHash t = s_PreviousRefreshTokenHash s) (sessions w)
        then Some (UniqueViolation ''auth_sessions_previous_refresh_token_hash_key'')
      else if (case s_AdminID s of None \<Rightarrow> False | Some a \<Rightarrow> \<not> list_ex (\<lambda>d. ad_ID d = a) (t_admins (w_auth w)))
        then Some ForeignKeyViolation
      else if (case s_ParentSessionID s of None \<Rightarrow> False | Some p \<Rightarrow> \<not> list_ex (\<lambda>t. s_ID t = p) (sessions w))
        then Some ForeignKeyViolation
      else None)"

text \<open>The row as stored: the column defaults filled in.\<close>

definition session_row :: "string \<Rightarrow> int \<Rightarrow> auth_session \<Rightarrow> auth_session" where
  "session_row i now s = s\<lparr>s_ID := i, s_CreatedAt := (if s_CreatedAt s = 0 then now else s_CreatedAt s)\<rparr>"

definition insert_session :: "auth_session \<Rightarrow> world \<Rightarrow> db_error + auth_session \<times> world" where
  "insert_session s w =
     (let (i, w1) = take_id (s_ID s) w;
          s' = session_row i (w_now w) s in
      case session_conflict s' w of
        Some e \<Rightarrow> Inl e
      | None \<Rightarrow> Inr (s', set_sessions (sessions w @ [s']) w1))"

definition CreateAuthSession :: "auth_session \<Rightarrow> (db_error + auth_session) M" where
  "CreateAuthSession s = db_write (insert_session s)"

definition find_session :: "string \<Rightarrow> world \<Rightarrow> auth_session option" where
  "find_session i w = find (\<lambda>s. s_ID s = i) (sessions w)"

definition GetAuthSession :: "string \<Rightarrow> (db_error + auth_session) M" where
  "GetAuthSession i = db_read (\<lambda>w. row (find_session i w))"

definition live_session :: "int \<Rightarrow> auth_session \<Rightarrow> bool" where
  "live_session now s \<longleftrightarrow> s_RevokedAt s = None \<and> s_ExpiresAt s > now"

definition GetAuthSessionByRefreshHash :: "string \<Rightarrow> (db_error + auth_session) M" where
  "GetAuthSessionByRefreshHash hash = db_read (\<lambda>w.
     row (find (\<lambda>s. hash \<noteq> [] \<and> s_RefreshTokenHash s = hash \<and> live_session (w_now w) s) (sessions w)))"

definition GetAuthSessionByPreviousRefreshHash :: "string \<Rightarrow> (db_error + auth_session) M" where
  "GetAuthSessionByPreviousRefreshHash hash = db_read (\<lambda>w.
     row (find (\<lambda>s. hash \<noteq> [] \<and> s_PreviousRefreshTokenHash s = hash
        \<and> (case s_PreviousRefreshTokenValidUntil s of None \<Rightarrow> False | Some t \<Rightarrow> t > w_now w)
        \<and> live_session (w_now w) s) (sessions w)))"

text \<open>A rotation keeps the expiry. The unique columns reject a hash that another row has.\<close>

definition rotates :: "string \<Rightarrow> string \<Rightarrow> int \<Rightarrow> auth_session \<Rightarrow> bool" where
  "rotates i oldHash now s \<longleftrightarrow> s_ID s = i \<and> oldHash \<noteq> [] \<and> s_RefreshTokenHash s = oldHash \<and> live_session now s"

definition rotated :: "string \<Rightarrow> string \<Rightarrow> int \<Rightarrow> auth_session \<Rightarrow> auth_session" where
  "rotated oldHash newHash now s = s\<lparr>s_RefreshTokenHash := newHash, s_PreviousRefreshTokenHash := oldHash,
     s_PreviousRefreshTokenValidUntil := Some (now + 10000), s_LastUsedAt := Some now\<rparr>"

definition RotateAuthSessionRefresh :: "string \<Rightarrow> string \<Rightarrow> string \<Rightarrow> (db_error + bool) M" where
  "RotateAuthSessionRefresh i oldHash newHash = db_write (\<lambda>w.
     let P = rotates i oldHash (w_now w) in
     if list_ex P (sessions w) \<and> list_ex (\<lambda>s. s_ID s \<noteq> i \<and> (s_RefreshTokenHash s = newHash \<or> s_PreviousRefreshTokenHash s = oldHash)) (sessions w)
     then Inl (UniqueViolation ''auth_sessions_refresh_token_hash_key'')
     else Inr (list_ex P (sessions w), set_sessions (upd P (rotated oldHash newHash (w_now w)) (sessions w)) w))"

definition TouchAuthSession :: "string \<Rightarrow> (db_error + unit) M" where
  "TouchAuthSession i = db_write (\<lambda>w.
     Inr ((), set_sessions (upd (\<lambda>s. s_ID s = i \<and> s_RevokedAt s = None) (\<lambda>s. s\<lparr>s_LastUsedAt := Some (w_now w)\<rparr>) (sessions w)) w))"

definition revoked :: "string \<Rightarrow> int \<Rightarrow> auth_session \<Rightarrow> auth_session" where
  "revoked reason now s = s\<lparr>s_RevokedAt := Some now, s_RevokedReason := reason, s_RefreshTokenHash := []\<rparr>"

definition RevokeAuthSession :: "string \<Rightarrow> string \<Rightarrow> (db_error + bool) M" where
  "RevokeAuthSession i reason = db_write (\<lambda>w.
     let P = (\<lambda>s. s_ID s = i \<and> s_RevokedAt s = None) in
     Inr (list_ex P (sessions w), set_sessions (upd P (revoked reason (w_now w)) (sessions w)) w))"

definition RevokeChildAuthSessions :: "string \<Rightarrow> string \<Rightarrow> (db_error + unit) M" where
  "RevokeChildAuthSessions parentID reason = db_write (\<lambda>w.
     Inr ((), set_sessions (upd (\<lambda>s. s_ParentSessionID s = Some parentID \<and> s_RevokedAt s = None)
       (revoked reason (w_now w)) (sessions w)) w))"

text \<open>\<^verbatim>\<open>last_used_at DESC NULLS LAST, created_at DESC\<close>\<close>

definition by_last_use :: "auth_session list \<Rightarrow> auth_session list" where
  "by_last_use ss =
     (let xs = sort_key (\<lambda>s. - s_CreatedAt s) ss in
      sort_key (\<lambda>s. - the (s_LastUsedAt s)) (filter (\<lambda>s. s_LastUsedAt s \<noteq> None) xs) @ filter (\<lambda>s. s_LastUsedAt s = None) xs)"

definition ListUserAuthSessions :: "int \<Rightarrow> (db_error + auth_session list) M" where
  "ListUserAuthSessions asn = db_read (\<lambda>w. Inr (by_last_use
     (filter (\<lambda>s. s_SubjectType s = ''user'' \<and> s_ASN s = Some asn \<and> live_session (w_now w) s) (sessions w))))"

definition ListAdminAuthSessions :: "string \<Rightarrow> (db_error + auth_session list) M" where
  "ListAdminAuthSessions adminID = db_read (\<lambda>w. Inr (by_last_use
     (filter (\<lambda>s. s_SubjectType s = ''admin'' \<and> s_AdminID s = Some adminID \<and> live_session (w_now w) s) (sessions w))))"

definition admins_GetByEmail :: "string \<Rightarrow> (db_error + admin) M" where
  "admins_GetByEmail email = db_read (\<lambda>w. row (find (\<lambda>a. ad_Email a = email) (t_admins (w_auth w))))"

section \<open>Device grants\<close>

definition CreateAuthDeviceGrant :: "auth_device_grant \<Rightarrow> (db_error + auth_device_grant) M" where
  "CreateAuthDeviceGrant g = db_write (\<lambda>w.
     let (i, w1) = take_id (g_ID g) w;
         g' = g\<lparr>g_ID := i, g_CreatedAt := (if g_CreatedAt g = 0 then w_now w else g_CreatedAt g)\<rparr> in
     if \<not> inet_ok (g_RequestIP g) then Inl InvalidText
     else if list_ex (\<lambda>h. g_ID h = i) (grants w) then Inl (UniqueViolation ''auth_device_grants_pkey'')
     else if list_ex (\<lambda>h. g_DeviceCodeHash h = g_DeviceCodeHash g) (grants w) then Inl (UniqueViolation ''auth_device_grants_device_code_hash_key'')
     else if list_ex (\<lambda>h. g_UserCodeHash h = g_UserCodeHash g) (grants w) then Inl (UniqueViolation ''auth_device_grants_user_code_hash_key'')
     else Inr (g', set_grants (grants w @ [g']) w1))"

definition GetAuthDeviceGrantByUserCodeHash :: "string \<Rightarrow> (db_error + auth_device_grant) M" where
  "GetAuthDeviceGrantByUserCodeHash hash = db_read (\<lambda>w. row (find (\<lambda>g. g_UserCodeHash g = hash) (grants w)))"

definition grant_decided :: "int \<Rightarrow> string \<Rightarrow> int option \<Rightarrow> string \<Rightarrow> string \<Rightarrow> string \<Rightarrow> string \<Rightarrow> auth_device_grant \<Rightarrow> auth_device_grant" where
  "grant_decided now decision asn email sessionID ip userAgent g =
     (let g1 = g\<lparr>g_Status := decision, g_ApproveUserAgent := userAgent, g_ApproveIP := (if ip \<noteq> [] then Some ip else None)\<rparr> in
      if decision = ''approved''
      then g1\<lparr>g_ApprovedASN := asn, g_ApprovedEmail := email, g_ApprovedBySessionID := Some sessionID, g_ApprovedAt := Some now\<rparr>
      else g1\<lparr>g_DeniedAt := Some now\<rparr>)"

definition pending_grant :: "string \<Rightarrow> int \<Rightarrow> auth_device_grant \<Rightarrow> bool" where
  "pending_grant userCodeHash now g \<longleftrightarrow> g_UserCodeHash g = userCodeHash \<and> g_Status g = ''pending'' \<and> g_ExpiresAt g > now"

definition AuthorizeAuthDeviceGrant ::
  "string \<Rightarrow> string \<Rightarrow> int option \<Rightarrow> string \<Rightarrow> string \<Rightarrow> string \<Rightarrow> string \<Rightarrow> (db_error + auth_device_grant) M" where
  "AuthorizeAuthDeviceGrant userCodeHash decision asn email sessionID ip userAgent =
     (if decision \<noteq> ''approved'' \<and> decision \<noteq> ''denied'' then ret (Inl InvalidText)
      else db_write (\<lambda>w.
        let P = pending_grant userCodeHash (w_now w);
            f = grant_decided (w_now w) decision asn email sessionID ip userAgent in
        if ip \<noteq> [] \<and> \<not> inet_ok ip then Inl InvalidText
        else case find P (grants w) of
          None \<Rightarrow> Inl NoRows
        | Some g \<Rightarrow>
            (if decision = ''approved'' \<and> find_session sessionID w = None then Inl ForeignKeyViolation
             else Inr (f g, set_grants (upd P f (grants w)) w))))"

definition polled :: "int \<Rightarrow> int \<Rightarrow> auth_device_grant \<Rightarrow> auth_device_grant" where
  "polled now interval g = g\<lparr>g_PollCount := g_PollCount g + 1, g_LastPolledAt := Some now, g_NextPollAfter := Some (now + interval)\<rparr>"

definition PollAuthDeviceGrant :: "string \<Rightarrow> int \<Rightarrow> (db_error + auth_device_grant) M" where
  "PollAuthDeviceGrant deviceCodeHash interval = db_write (\<lambda>w.
     let P = (\<lambda>g. g_DeviceCodeHash g = deviceCodeHash); f = polled (w_now w) interval in
     case find P (grants w) of None \<Rightarrow> Inl NoRows | Some g \<Rightarrow> Inr (f g, set_grants (upd P f (grants w)) w))"

text \<open>One transaction: the grant moves to \<^verbatim>\<open>exchanged\<close>, the session is inserted and the grant points to it;
  any failure leaves both tables as they were.\<close>

definition exchangeable :: "string \<Rightarrow> int \<Rightarrow> auth_device_grant \<Rightarrow> bool" where
  "exchangeable deviceCodeHash now g \<longleftrightarrow> g_DeviceCodeHash g = deviceCodeHash \<and> g_Status g = ''approved''
     \<and> g_ExchangedAt g = None \<and> g_ExpiresAt g > now"

definition exchange_subject_ok :: "auth_session \<Rightarrow> auth_device_grant \<Rightarrow> bool" where
  "exchange_subject_ok s g \<longleftrightarrow>
     (if s_SubjectType s = ''user'' then g_ApprovedASN g \<noteq> None \<and> g_ApprovedEmail g \<noteq> []
      else if s_SubjectType s = ''admin'' then s_AdminID s \<noteq> None \<and> g_ApprovedBySessionID g \<noteq> None \<and> g_ApprovedEmail g \<noteq> []
      else False)"

definition ExchangeAuthDeviceGrant :: "string \<Rightarrow> auth_session \<Rightarrow> (db_error + auth_device_grant \<times> auth_session) M" where
  "ExchangeAuthDeviceGrant deviceCodeHash s = db_write (\<lambda>w.
     let P = exchangeable deviceCodeHash (w_now w) in
     case find P (grants w) of
       None \<Rightarrow> Inl NoRows
     | Some g \<Rightarrow>
         (if \<not> exchange_subject_ok s g then Inl InvalidText
          else case insert_session s w of
            Inl e \<Rightarrow> Inl e
          | Inr (s', w1) \<Rightarrow>
              (let f = (\<lambda>g. g\<lparr>g_Status := ''exchanged'', g_ExchangedAt := Some (w_now w), g_ExchangedSessionID := Some (s_ID s')\<rparr>) in
               Inr ((f g, s'), set_grants (upd P f (grants w1)) w1))))"

end
