(* ===== verification/Sha256.thy ===== *)
theory Sha256
  imports Prelude "HOL-Library.Word"
begin

unbundle bit_operations_syntax

text \<open>
  \<^verbatim>\<open>crypto/sha256\<close>, \<^verbatim>\<open>crypto/hmac\<close> and \<^verbatim>\<open>encoding/hex\<close> as the center uses them: tokens and device
  codes are stored as the hexadecimal SHA-256, or HMAC-SHA-256, of the secret. Bytes are the
  characters of a string; a message is compressed in blocks of sixteen 32-bit words whose
  arithmetic wraps around.
\<close>

type_synonym w32 = "32 word"
type_synonym digest = "w32 \<times> w32 \<times> w32 \<times> w32 \<times> w32 \<times> w32 \<times> w32 \<times> w32"

definition rotr :: "nat \<Rightarrow> w32 \<Rightarrow> w32" where
  "rotr n x = drop_bit n x OR push_bit (32 - n) x"

definition round_constants :: "w32 list" where
  "round_constants =
    [1116352408, 1899447441, 3049323471, 3921009573, 961987163, 1508970993,
     2453635748, 2870763221, 3624381080, 310598401, 607225278, 1426881987,
     1925078388, 2162078206, 2614888103, 3248222580, 3835390401, 4022224774,
     264347078, 604807628, 770255983, 1249150122, 1555081692, 1996064986,
     2554220882, 2821834349, 2952996808, 3210313671, 3336571891, 3584528711,
     113926993, 338241895, 666307205, 773529912, 1294757372, 1396182291,
     1695183700, 1986661051, 2177026350, 2456956037, 2730485921, 2820302411,
     3259730800, 3345764771, 3516065817, 3600352804, 4094571909, 275423344,
     430227734, 506948616, 659060556, 883997877, 958139571, 1322822218,
     1537002063, 1747873779, 1955562222, 2024104815, 2227730452, 2361852424,
     2428436474, 2756734187, 3204031479, 3329325298]"

definition initial_digest :: digest where
  "initial_digest = (1779033703, 3144134277, 1013904242, 2773480762, 1359893119, 2600822924, 528734635, 1541459225)"

text \<open>The rounds of one block: the list holds the sixteen newest words of the schedule.\<close>

fun sha_rounds :: "w32 list \<Rightarrow> w32 list \<Rightarrow> digest \<Rightarrow> digest" where
  "sha_rounds (k # ks) (w # ws) (a, b, c, d, e, f, g, h) =
     (let t1 = h + (rotr 6 e XOR rotr 11 e XOR rotr 25 e) + ((e AND f) XOR (NOT e AND g)) + k + w;
          t2 = (rotr 2 a XOR rotr 13 a XOR rotr 22 a) + ((a AND b) XOR (a AND c) XOR (b AND c));
          x = ws ! 0; y = ws ! 13;
          new = (rotr 17 y XOR rotr 19 y XOR drop_bit 10 y) + ws ! 8 + (rotr 7 x XOR rotr 18 x XOR drop_bit 3 x) + w in
      sha_rounds ks (ws @ [new]) (t1 + t2, a, b, c, d + t1, e, f, g))"
| "sha_rounds _ _ s = s"

definition compress :: "digest \<Rightarrow> w32 list \<Rightarrow> digest" where
  "compress s block =
     (case (s, sha_rounds round_constants block s) of
        ((a, b, c, d, e, f, g, h), (a', b', c', d', e', f', g', h')) \<Rightarrow>
          (a + a', b + b', c + c', d + d', e + e', f + f', g + g', h + h'))"

definition be_bytes :: "nat \<Rightarrow> nat \<Rightarrow> string" where
  "be_bytes n v = map (\<lambda>i. char_of (v div 256 ^ i)) (rev [0..<n])"

definition be_value :: "string \<Rightarrow> nat" where
  "be_value s = foldl (\<lambda>v c. 256 * v + of_char c) 0 s"

fun chunks :: "nat \<Rightarrow> 'a list \<Rightarrow> 'a list list" where
  "chunks n xs = (if n = 0 \<or> xs = [] then [] else take n xs # chunks n (drop n xs))"

declare chunks.simps [simp del]

definition sha_pad :: "string \<Rightarrow> string" where
  "sha_pad m = m @ char_of (128::nat) # replicate ((119 - length m mod 64) mod 64) (char_of (0::nat)) @ be_bytes 8 (8 * length m mod 2 ^ 64)"

definition Sum256 :: "string \<Rightarrow> string" where
  "Sum256 m =
     (case foldl compress initial_digest (map (\<lambda>b. map (\<lambda>q. word_of_nat (be_value q)) (chunks 4 b)) (chunks 64 (sha_pad m))) of
        (a, b, c, d, e, f, g, h) \<Rightarrow> concat (map (\<lambda>w. be_bytes 4 (unat w)) [a, b, c, d, e, f, g, h]))"

definition hex_digits :: string where
  "hex_digits = ''0123456789abcdef''"

definition hex_encode :: "string \<Rightarrow> string" where
  "hex_encode s = concat (map (\<lambda>c. [hex_digits ! (of_char c div 16), hex_digits ! (of_char c mod 16)]) s)"

definition hmac_sha256 :: "string \<Rightarrow> string \<Rightarrow> string" where
  "hmac_sha256 key m =
     (let k = (if length key > 64 then Sum256 key else key);
          k0 = k @ replicate (64 - length k) (char_of (0::nat));
          pad = (\<lambda>p. map (\<lambda>c. char_of ((of_char c :: nat) XOR p)) k0) in
      Sum256 (pad 92 @ Sum256 (pad 54 @ m)))"
end
