(* ===== verification/Middleware.thy ===== *)
theory Middleware
  imports AuthRepo ApiVersion Sha256
begin

text \<open>
  \<^verbatim>\<open>internal/middleware/middleware.go\<close>: what a request passes before its handler runs. The JWT library
  and the UUID parser are parameters (\<open>jwt_lib\<close>), with the documented behaviour that the theorems use
  as the hypothesis \<open>jwt_ok\<close>. A middleware takes the next handler as an argument; the values it puts
  into the request context are the record \<open>req_ctx\<close>. Log output and the Sentry telemetry have no model.
  The background \<^verbatim>\<open>Touch\<close> of a session or key is taken to run before the handler.
\<close>

section \<open>Requests\<close>

record http_request =
  rq_Method :: string
  rq_Path :: string
  rq_RemoteAddr :: string
  rq_Host :: string
  rq_TLS :: bool
  rq_Header :: "string \<Rightarrow> string"
  rq_Cookie :: "string \<Rightarrow> string option"

record req_ctx =
  cx_request_id :: "string option"
  cx_role :: "string option"
  cx_asn :: "int option"
  cx_admin_id :: "string option"
  cx_email :: "string option"
  cx_session_id :: "string option"
  cx_mcp_key_id :: "string option"
  cx_admin_mcp_key_id :: "string option"
  cx_mcp_capabilities :: "string list option"
  cx_api_version :: "string option"

definition empty_ctx :: req_ctx where
  "empty_ctx = \<lparr>cx_request_id = None, cx_role = None, cx_asn = None, cx_admin_id = None, cx_email = None, cx_session_id = None,
     cx_mcp_key_id = None, cx_admin_mcp_key_id = None, cx_mcp_capabilities = None, cx_api_version = None\<rparr>"

definition or_empty :: "string option \<Rightarrow> string" where
  "or_empty v = (case v of Some x \<Rightarrow> x | None \<Rightarrow> [])"

definition GetRequestID :: "req_ctx \<Rightarrow> string" where "GetRequestID cx = or_empty (cx_request_id cx)"
definition GetAPIVersion :: "req_ctx \<Rightarrow> string" where "GetAPIVersion cx = or_empty (cx_api_version cx)"
definition GetASN :: "req_ctx \<Rightarrow> int" where "GetASN cx = (case cx_asn cx of Some a \<Rightarrow> a | None \<Rightarrow> 0)"
definition GetEmail :: "req_ctx \<Rightarrow> string" where "GetEmail cx = or_empty (cx_email cx)"
definition GetAdminID :: "req_ctx \<Rightarrow> string" where "GetAdminID cx = or_empty (cx_admin_id cx)"
definition GetSessionID :: "req_ctx \<Rightarrow> string" where "GetSessionID cx = or_empty (cx_session_id cx)"
definition GetRole :: "req_ctx \<Rightarrow> string" where "GetRole cx = or_empty (cx_role cx)"
definition GetMCPKeyID :: "req_ctx \<Rightarrow> string" where "GetMCPKeyID cx = or_empty (cx_mcp_key_id cx)"
definition GetAdminMCPKeyID :: "req_ctx \<Rightarrow> string" where "GetAdminMCPKeyID cx = or_empty (cx_admin_mcp_key_id cx)"
definition GetMCPCapabilities :: "req_ctx \<Rightarrow> string list" where
  "GetMCPCapabilities cx = (case cx_mcp_capabilities cx of Some c \<Rightarrow> c | None \<Rightarrow> [])"

lemmas ctx_getters = GetRequestID_def GetAPIVersion_def GetASN_def GetEmail_def GetAdminID_def GetSessionID_def GetRole_def
  GetMCPKeyID_def GetAdminMCPKeyID_def GetMCPCapabilities_def or_empty_def

definition set_header :: "string \<Rightarrow> string \<Rightarrow> unit M" where
  "set_header k v = modify (\<lambda>w. w\<lparr>w_headers := (k, v) # filter (\<lambda>(k', _). k' \<noteq> k) (w_headers w)\<rparr>)"

type_synonym 'a handler = "req_ctx \<Rightarrow> 'a M"

section \<open>General middleware\<close>

definition new_uuid :: "string M" where
  "new_uuid = State fresh_uuid"

definition RequestID :: "'a handler \<Rightarrow> 'a handler" where
  "RequestID next cx = do {
     i \<leftarrow> new_uuid;
     set_header ''X-Request-ID'' i;
     next (cx\<lparr>cx_request_id := Some i\<rparr>)
   }"

definition APIVersion :: "http_request \<Rightarrow> response handler \<Rightarrow> response handler" where
  "APIVersion rq next cx =
     (case Resolve (rq_Header rq ''Autopeer-Version'') of
        None \<Rightarrow> ret (ErrorResp 400 ''invalid_api_version''
                  (''Unknown Autopeer-Version: '' @ trim_space (rq_Header rq ''Autopeer-Version'')))
      | Some v \<Rightarrow> do {
          set_header ''Autopeer-Version'' v;
          next (cx\<lparr>cx_api_version := Some v\<rparr>)
        })"

text \<open>The configured origins: whether \<^verbatim>\<open>*\<close> is among them, and the others without blanks and trailing slashes.\<close>

definition cors_origins :: "string \<Rightarrow> bool \<times> string list" where
  "cors_origins allowed =
     (let os = map (\<lambda>x. trim_right (CHR ''/'') (trim_space x)) (split_on (CHR '','') allowed) in
      (''*'' \<in> set os, filter (\<lambda>x. x \<noteq> ''*'' \<and> x \<noteq> []) os))"

definition CORS :: "string \<Rightarrow> http_request \<Rightarrow> response handler \<Rightarrow> response handler" where
  "CORS allowedOrigins rq next cx =
     (let (allowAll, originSet) = cors_origins allowedOrigins;
          reqOrigin = trim_right (CHR ''/'') (rq_Header rq ''Origin'') in
      do {
        (if allowAll \<or> reqOrigin \<in> set originSet then do {
           set_header ''Access-Control-Allow-Origin'' reqOrigin;
           set_header ''Access-Control-Allow-Credentials'' ''true'';
           set_header ''Vary'' ''Origin''
         } else ret ());
        set_header ''Access-Control-Allow-Methods'' ''GET, POST, PUT, DELETE, OPTIONS'';
        set_header ''Access-Control-Allow-Headers'' ''Content-Type, Authorization, Autopeer-Version'';
        set_header ''Access-Control-Expose-Headers'' ''X-Request-ID, Autopeer-Version'';
        set_header ''Access-Control-Max-Age'' ''86400'';
        if rq_Method rq = ''OPTIONS'' then ret (JSONResp 204 JNull) else next cx
      })"

text \<open>A handler's panic becomes an internal error.\<close>

definition Recover :: "response handler \<Rightarrow> response handler" where
  "Recover next cx = do {
     r \<leftarrow> next cx;
     ret (if r = Panicked then ErrorResp 500 ''internal_error'' ''Internal server error'' else r)
   }"

definition IsLongLivedRequest :: "http_request \<Rightarrow> bool" where
  "IsLongLivedRequest rq \<longleftrightarrow>
     (let path = rq_Path rq in
      equal_fold (rq_Header rq ''Upgrade'') ''websocket'' \<or> contains (to_lower (rq_Header rq ''Connection'')) ''upgrade''
    \<or> contains path ''/ws'' \<or> contains path ''/stream''
    \<or> (rq_Method rq = ''GET'' \<and> (has_suffix path ''/mcp'' \<or> contains path ''/mcp/'')))"

definition normalizeMetricPath :: "(string \<Rightarrow> bool) \<Rightarrow> string \<Rightarrow> string" where
  "normalizeMetricPath is_uuid path =
     (if path = [] \<or> path = ''/'' then path
      else join_with ''/'' (map (\<lambda>part.
             if part = [] then part
             else if is_uuid part then ''{uuid}''
             else if atoi part \<noteq> None then ''{number}''
             else part) (split_on (CHR ''/'') path)))"

section \<open>Client addresses\<close>

definition host_of :: "string \<Rightarrow> string" where
  "host_of addr = (case split_host_port addr of Some (h, _) \<Rightarrow> h | None \<Rightarrow> [])"

definition RealIP :: "http_request \<Rightarrow> ip_net list \<Rightarrow> string" where
  "RealIP rq trustedNets =
     (let host = host_of (rq_RemoteAddr rq);
          xrip = rq_Header rq ''X-Real-IP'';
          xff = rq_Header rq ''X-Forwarded-For'' in
      case parse_ip host of
        None \<Rightarrow> host
      | Some b \<Rightarrow>
          (if list_ex (\<lambda>n. net_contains n b) trustedNets
           then (if xrip \<noteq> [] then xrip else if xff \<noteq> [] then hd (split_on (CHR '','') xff) else host)
           else host))"

definition ParseTrustedProxies :: "string \<Rightarrow> ip_net list" where
  "ParseTrustedProxies cidr =
     (if cidr = [] then []
      else List.map_filter (\<lambda>x.
             let s = trim_space x in
             if s = [] then None
             else parse_cidr (if CHR ''/'' \<in> set s then s else s @ ''/32'')) (split_on (CHR '','') cidr))"

section \<open>Tokens\<close>

record Claims =
  c_Role :: string
  c_ASN :: int
  c_Email :: string
  c_SessionID :: string
  c_TokenID :: string
  c_Type :: string
  c_LoginMethod :: string
  c_ImpersonatedByAdminID :: string
  c_ParentSessionID :: string
  c_Subject :: string
  c_IssuedAt :: int
  c_NotBefore :: int
  c_ExpiresAt :: int

record auth_config =
  cfg_JWTSecret :: string
  cfg_UserAccessTokenTTL :: int
  cfg_AdminAccessTokenTTL :: int
  cfg_UserRefreshTokenTTL :: int
  cfg_AdminRefreshTokenTTL :: int
  cfg_ImpersonationTokenTTL :: int
  cfg_CORSOrigin :: string
  cfg_TurnstileSiteKey :: string
  cfg_TurnstileSecretKey :: string

text \<open>\<open>SignedString key claims\<close> signs with HS256; \<open>ParseWithClaims keyfunc now token\<close> asks \<open>keyfunc\<close> for the
  key of the token's algorithm and returns the claims of a token that is well-formed, correctly
  signed and valid at \<open>now\<close> (seconds).\<close>

record jwt_lib =
  SignedString :: "string \<Rightarrow> Claims \<Rightarrow> string option"
  ParseWithClaims :: "(string \<Rightarrow> string option) \<Rightarrow> int \<Rightarrow> string \<Rightarrow> Claims option"

text \<open>Documented behaviour: a signed token is accepted within its validity under the same key, and accepted
  tokens are within their validity and under a key that \<open>keyfunc\<close> gave.\<close>

definition jwt_ok :: "jwt_lib \<Rightarrow> bool" where
  "jwt_ok J \<longleftrightarrow>
     (\<forall>k c t kf now. SignedString J k c = Some t \<longrightarrow> kf ''HS256'' = Some k \<longrightarrow> c_NotBefore c \<le> now \<longrightarrow> now < c_ExpiresAt c \<longrightarrow>
        ParseWithClaims J kf now t = Some c)
   \<and> (\<forall>kf now t c. ParseWithClaims J kf now t = Some c \<longrightarrow> c_NotBefore c \<le> now \<and> now < c_ExpiresAt c \<and> (\<exists>alg. kf alg \<noteq> None))"

definition sign_claims :: "jwt_lib \<Rightarrow> auth_config \<Rightarrow> Claims \<Rightarrow> int \<Rightarrow> string option M" where
  "sign_claims J cfg c ttl = do {
     now \<leftarrow> time_now;
     i \<leftarrow> new_uuid;
     ret (SignedString J (cfg_JWTSecret cfg) (c\<lparr>c_TokenID := i, c_Type := ''access'',
        c_IssuedAt := unix now, c_NotBefore := unix now, c_ExpiresAt := unix (now + ttl)\<rparr>))
   }"

definition no_claims :: Claims where
  "no_claims = \<lparr>c_Role = [], c_ASN = 0, c_Email = [], c_SessionID = [], c_TokenID = [], c_Type = [], c_LoginMethod = [],
     c_ImpersonatedByAdminID = [], c_ParentSessionID = [], c_Subject = [], c_IssuedAt = 0, c_NotBefore = 0, c_ExpiresAt = 0\<rparr>"

definition SignUserSessionJWT :: "jwt_lib \<Rightarrow> auth_config \<Rightarrow> int \<Rightarrow> string \<Rightarrow> string \<Rightarrow> string \<Rightarrow> int \<Rightarrow> string option M" where
  "SignUserSessionJWT J cfg asn email sessionID loginMethod ttl =
     sign_claims J cfg (no_claims\<lparr>c_Role := ''user'', c_ASN := asn, c_Email := email, c_SessionID := sessionID,
       c_LoginMethod := loginMethod, c_Subject := show_int asn\<rparr>) (if ttl \<le> 0 then cfg_UserAccessTokenTTL cfg else ttl)"

definition SignUserJWT :: "jwt_lib \<Rightarrow> auth_config \<Rightarrow> int \<Rightarrow> string \<Rightarrow> string option M" where
  "SignUserJWT J cfg asn email = SignUserSessionJWT J cfg asn email [] [] (cfg_UserAccessTokenTTL cfg)"

definition SignAdminSessionJWT :: "jwt_lib \<Rightarrow> auth_config \<Rightarrow> string \<Rightarrow> string \<Rightarrow> string \<Rightarrow> int \<Rightarrow> string option M" where
  "SignAdminSessionJWT J cfg adminID email sessionID ttl =
     sign_claims J cfg (no_claims\<lparr>c_Role := ''admin'', c_Email := email, c_SessionID := sessionID, c_Subject := adminID\<rparr>)
       (if ttl \<le> 0 then cfg_AdminAccessTokenTTL cfg else ttl)"

definition SignAdminJWT :: "jwt_lib \<Rightarrow> auth_config \<Rightarrow> string \<Rightarrow> string \<Rightarrow> string option M" where
  "SignAdminJWT J cfg adminID email = SignAdminSessionJWT J cfg adminID email [] (cfg_AdminAccessTokenTTL cfg)"

definition SignImpersonationJWT :: "jwt_lib \<Rightarrow> auth_config \<Rightarrow> int \<Rightarrow> string \<Rightarrow> string \<Rightarrow> string \<Rightarrow> string \<Rightarrow> string option M" where
  "SignImpersonationJWT J cfg asn email sessionID adminID parentSessionID =
     sign_claims J cfg (no_claims\<lparr>c_Role := ''user'', c_ASN := asn, c_Email := email, c_SessionID := sessionID,
       c_LoginMethod := ''impersonation'', c_ImpersonatedByAdminID := adminID, c_ParentSessionID := parentSessionID,
       c_Subject := show_int asn\<rparr>) (if cfg_ImpersonationTokenTTL cfg \<le> 0 then 900000 else cfg_ImpersonationTokenTTL cfg)"

definition parseJWT :: "jwt_lib \<Rightarrow> auth_config \<Rightarrow> int \<Rightarrow> string \<Rightarrow> Claims option" where
  "parseJWT J cfg now tokenStr =
     (case ParseWithClaims J (\<lambda>alg. if alg \<noteq> ''HS256'' then None else Some (cfg_JWTSecret cfg)) (unix now) tokenStr of
        None \<Rightarrow> None
      | Some c \<Rightarrow> (if c_Type c \<noteq> [] \<and> c_Type c \<noteq> ''access'' then None else Some c))"

definition ExtractClaims :: "jwt_lib \<Rightarrow> auth_config \<Rightarrow> int \<Rightarrow> http_request \<Rightarrow> Claims option" where
  "ExtractClaims J cfg now rq =
     (let auth = rq_Header rq ''Authorization'' in
      if auth = [] \<or> \<not> has_prefix auth ''Bearer '' then None
      else parseJWT J cfg now (trim_prefix auth ''Bearer ''))"

section \<open>Who may call\<close>

definition session_inactive :: "int \<Rightarrow> auth_session \<Rightarrow> bool" where
  "session_inactive now s \<longleftrightarrow> s_RevokedAt s \<noteq> None \<or> now > s_ExpiresAt s"

definition session_role_mismatch :: "Claims \<Rightarrow> auth_session \<Rightarrow> bool" where
  "session_role_mismatch c s \<longleftrightarrow>
     (c_Role c = ''admin'' \<and> s_SubjectType s \<noteq> ''admin'')
   \<or> (c_Role c = ''user'' \<and> s_SubjectType s \<noteq> ''user'' \<and> s_SubjectType s \<noteq> ''impersonation'')"

definition parent_active :: "int \<Rightarrow> auth_session \<Rightarrow> bool M" where
  "parent_active now s =
     (case (if s_SubjectType s = ''impersonation'' then s_ParentSessionID s else None) of
        None \<Rightarrow> ret True
      | Some pid \<Rightarrow> do {
          p \<leftarrow> GetAuthSession pid;
          ret (case p of Inl _ \<Rightarrow> False | Inr parent \<Rightarrow> \<not> session_inactive now parent)
        })"

text \<open>\<^verbatim>\<open>validateSession\<close>: whether the session of the claims, if they have one, is usable.\<close>

definition validateSession :: "Claims \<Rightarrow> bool M" where
  "validateSession c =
     (if c_SessionID c = [] then ret True
      else do {
        now \<leftarrow> time_now;
        r \<leftarrow> GetAuthSession (c_SessionID c);
        case r of
          Inl _ \<Rightarrow> ret False
        | Inr s \<Rightarrow>
            (if session_inactive now s \<or> session_role_mismatch c s then ret False
             else do {
               ok \<leftarrow> parent_active now s;
               if \<not> ok then ret False
               else do { _ \<leftarrow> TouchAuthSession (c_SessionID c); ret True }
             })
      })"

definition contextWithClaims :: "req_ctx \<Rightarrow> Claims \<Rightarrow> req_ctx" where
  "contextWithClaims cx c =
     (let cx1 = cx\<lparr>cx_role := Some (c_Role c), cx_asn := Some (c_ASN c), cx_email := Some (c_Email c), cx_session_id := Some (c_SessionID c)\<rparr> in
      if c_Role c = ''admin'' then cx1\<lparr>cx_admin_id := Some (c_Subject c)\<rparr> else cx1)"

definition requireAuth :: "jwt_lib \<Rightarrow> auth_config \<Rightarrow> string \<Rightarrow> bool \<Rightarrow> http_request \<Rightarrow> response handler \<Rightarrow> response handler" where
  "requireAuth J cfg role anyRole rq next cx = do {
     now \<leftarrow> time_now;
     case ExtractClaims J cfg now rq of
       None \<Rightarrow> ret (ErrorResp 401 ''unauthorized'' ''Invalid or missing token'')
     | Some c \<Rightarrow>
         (if \<not> anyRole \<and> c_Role c \<noteq> role then ret (ErrorResp 403 ''forbidden'' ''Access denied'')
          else if anyRole \<and> c_Role c \<noteq> ''user'' \<and> c_Role c \<noteq> ''admin''
          then ret (ErrorResp 403 ''forbidden'' ''Authentication required'')
          else do {
            ok \<leftarrow> validateSession c;
            if \<not> ok then ret (ErrorResp 401 ''unauthorized'' ''Session expired or revoked'')
            else next (contextWithClaims cx c)
          })
   }"

definition RequireUserWithSessions :: "jwt_lib \<Rightarrow> auth_config \<Rightarrow> http_request \<Rightarrow> response handler \<Rightarrow> response handler" where
  "RequireUserWithSessions J cfg = requireAuth J cfg ''user'' False"

definition RequireAnyAuthWithSessions :: "jwt_lib \<Rightarrow> auth_config \<Rightarrow> http_request \<Rightarrow> response handler \<Rightarrow> response handler" where
  "RequireAnyAuthWithSessions J cfg = requireAuth J cfg [] True"

definition RequireAdminWithSessions :: "jwt_lib \<Rightarrow> auth_config \<Rightarrow> http_request \<Rightarrow> response handler \<Rightarrow> response handler" where
  "RequireAdminWithSessions J cfg = requireAuth J cfg ''admin'' False"

text \<open>The variants without sessions.\<close>

definition RequireUser :: "jwt_lib \<Rightarrow> auth_config \<Rightarrow> http_request \<Rightarrow> response handler \<Rightarrow> response handler" where
  "RequireUser J cfg rq next cx = do {
     now \<leftarrow> time_now;
     case ExtractClaims J cfg now rq of
       None \<Rightarrow> ret (ErrorResp 401 ''unauthorized'' ''Invalid or missing token'')
     | Some c \<Rightarrow>
         (if c_Role c \<noteq> ''user'' then ret (ErrorResp 403 ''forbidden'' ''User access required'')
          else next (cx\<lparr>cx_role := Some (c_Role c), cx_asn := Some (c_ASN c), cx_email := Some (c_Email c)\<rparr>))
   }"

definition RequireAnyAuth :: "jwt_lib \<Rightarrow> auth_config \<Rightarrow> http_request \<Rightarrow> response handler \<Rightarrow> response handler" where
  "RequireAnyAuth J cfg rq next cx = do {
     now \<leftarrow> time_now;
     case ExtractClaims J cfg now rq of
       None \<Rightarrow> ret (ErrorResp 401 ''unauthorized'' ''Invalid or missing token'')
     | Some c \<Rightarrow>
         (if c_Role c \<noteq> ''user'' \<and> c_Role c \<noteq> ''admin'' then ret (ErrorResp 403 ''forbidden'' ''Authentication required'')
          else next (cx\<lparr>cx_role := Some (c_Role c), cx_asn := Some (c_ASN c), cx_email := Some (c_Email c)\<rparr>))
   }"

definition RequireAdmin :: "jwt_lib \<Rightarrow> auth_config \<Rightarrow> http_request \<Rightarrow> response handler \<Rightarrow> response handler" where
  "RequireAdmin J cfg rq next cx = do {
     now \<leftarrow> time_now;
     case ExtractClaims J cfg now rq of
       None \<Rightarrow> ret (ErrorResp 401 ''unauthorized'' ''Invalid or missing token'')
     | Some c \<Rightarrow>
         (if c_Role c \<noteq> ''admin'' then ret (ErrorResp 403 ''forbidden'' ''Admin access required'')
          else next (cx\<lparr>cx_role := Some (c_Role c), cx_admin_id := Some (c_Subject c), cx_email := Some (c_Email c)\<rparr>))
   }"

section \<open>MCP keys\<close>

definition GetUserKeyByHash :: "string \<Rightarrow> (db_error + mcp_key) M" where
  "GetUserKeyByHash hash = db_read (\<lambda>w. row (find (\<lambda>k. k_KeyHash k = hash) (t_keys (w_auth w))))"

definition GetAdminKeyByHash :: "string \<Rightarrow> (db_error + admin_mcp_key) M" where
  "GetAdminKeyByHash hash = db_read (\<lambda>w. row (find (\<lambda>k. ak_KeyHash k = hash) (t_admin_keys (w_auth w))))"

definition TouchUserKey :: "string \<Rightarrow> (db_error + unit) M" where
  "TouchUserKey i = db_write (\<lambda>w. Inr ((), w\<lparr>w_auth := (w_auth w)\<lparr>t_keys :=
     upd (\<lambda>k. k_ID k = i) (\<lambda>k. k\<lparr>k_LastUsedAt := Some (w_now w)\<rparr>) (t_keys (w_auth w))\<rparr>\<rparr>))"

definition TouchAdminKey :: "string \<Rightarrow> (db_error + unit) M" where
  "TouchAdminKey i = db_write (\<lambda>w. Inr ((), w\<lparr>w_auth := (w_auth w)\<lparr>t_admin_keys :=
     upd (\<lambda>k. ak_ID k = i) (\<lambda>k. k\<lparr>ak_LastUsedAt := Some (w_now w)\<rparr>) (t_admin_keys (w_auth w))\<rparr>\<rparr>))"

definition expired :: "int \<Rightarrow> int option \<Rightarrow> bool" where
  "expired now e = (case e of None \<Rightarrow> False | Some t \<Rightarrow> now > t)"

definition RequireMCPKey :: "http_request \<Rightarrow> response handler \<Rightarrow> response handler" where
  "RequireMCPKey rq next cx =
     (let auth = rq_Header rq ''Authorization''; rawKey = trim_prefix auth ''Bearer '' in
      if auth = [] \<or> \<not> has_prefix auth ''Bearer '' then ret (ErrorResp 401 ''unauthorized'' ''Missing MCP API key'')
      else if has_prefix rawKey ''ap_mcp_admin_'' then ret (ErrorResp 401 ''unauthorized'' ''Invalid MCP API key format'')
      else if \<not> has_prefix rawKey ''ap_mcp_'' then ret (ErrorResp 401 ''unauthorized'' ''Invalid MCP API key format'')
      else do {
        r \<leftarrow> GetUserKeyByHash (hex_encode (Sum256 rawKey));
        now \<leftarrow> time_now;
        case r of
          Inl _ \<Rightarrow> ret (ErrorResp 401 ''unauthorized'' ''Invalid or revoked MCP API key'')
        | Inr key \<Rightarrow>
            (if expired now (k_ExpiresAt key) then ret (ErrorResp 401 ''unauthorized'' ''MCP API key has expired'')
             else if k_RevokedAt key \<noteq> None then ret (ErrorResp 401 ''unauthorized'' ''MCP API key has been revoked'')
             else do {
               _ \<leftarrow> TouchUserKey (k_ID key);
               next (cx\<lparr>cx_role := Some ''user'', cx_asn := Some (k_ASN key), cx_mcp_key_id := Some (k_ID key),
                        cx_mcp_capabilities := Some (k_Capabilities key)\<rparr>)
             })
      })"

definition RequireAdminMCPKey :: "http_request \<Rightarrow> response handler \<Rightarrow> response handler" where
  "RequireAdminMCPKey rq next cx =
     (let auth = rq_Header rq ''Authorization''; rawKey = trim_prefix auth ''Bearer '' in
      if auth = [] \<or> \<not> has_prefix auth ''Bearer '' then ret (ErrorResp 401 ''unauthorized'' ''Missing admin MCP API key'')
      else if \<not> has_prefix rawKey ''ap_mcp_admin_'' then ret (ErrorResp 401 ''unauthorized'' ''Invalid admin MCP API key format'')
      else do {
        r \<leftarrow> GetAdminKeyByHash (hex_encode (Sum256 rawKey));
        now \<leftarrow> time_now;
        case r of
          Inl _ \<Rightarrow> ret (ErrorResp 401 ''unauthorized'' ''Invalid or revoked admin MCP API key'')
        | Inr key \<Rightarrow>
            (if expired now (ak_ExpiresAt key) then ret (ErrorResp 401 ''unauthorized'' ''Admin MCP API key has expired'')
             else if ak_RevokedAt key \<noteq> None then ret (ErrorResp 401 ''unauthorized'' ''Admin MCP API key has been revoked'')
             else do {
               _ \<leftarrow> TouchAdminKey (ak_ID key);
               next (cx\<lparr>cx_role := Some ''admin'', cx_admin_id := Some (ak_AdminID key), cx_admin_mcp_key_id := Some (ak_ID key),
                        cx_mcp_capabilities := Some (ak_Capabilities key)\<rparr>)
             })
      })"

end
