(* ===== verification/Notifications.thy ===== *)
theory Notifications
  imports AuthRepo
begin

text \<open>
  \<^verbatim>\<open>internal/service/notifications.go\<close>, the gates of \<^verbatim>\<open>internal/service/email.go\<close> and the preference handlers
  (\<^verbatim>\<open>internal/handler/email_preferences.go\<close>, \<^verbatim>\<open>telegram_binding.go\<close>): which mails and bot messages an
  operator of an AS number receives. The texts of the catalog are left out. The gate functions are
  wired as in \<^verbatim>\<open>cmd/center/deps.go\<close>. \<open>smtp\<close> says whether the transport takes a message for a recipient.
\<close>

section \<open>The catalog\<close>

definition NotificationCatalogVersion :: int where "NotificationCatalogVersion = 1"

datatype notification_kind = NKNormal | NKCritical | NKRequired

record notification_option =
  no_Key :: string
  no_Channel :: string
  no_Group :: string
  no_LegacyLevel :: int
  no_IntroducedVersion :: int
  no_Kind :: notification_kind
  no_RequiresDisableConfirmation :: bool

definition mk_option :: "string \<Rightarrow> string \<Rightarrow> string \<Rightarrow> int \<Rightarrow> int \<Rightarrow> notification_kind \<Rightarrow> bool \<Rightarrow> notification_option" where
  "mk_option key channel grp level ver kind conf = \<lparr>no_Key = key, no_Channel = channel, no_Group = grp, no_LegacyLevel = level,
     no_IntroducedVersion = ver, no_Kind = kind, no_RequiresDisableConfirmation = conf\<rparr>"

definition NotificationAuthLoginCode :: string where "NotificationAuthLoginCode = ''auth_login_code''"

definition notificationOptions :: "notification_option list" where
  "notificationOptions =
    [
     mk_option ''auth_login_code'' ''email'' ''account'' 0 1 NKRequired True,
     mk_option ''peer_submitted'' ''email'' ''peer_lifecycle'' 2 1 NKNormal False,
     mk_option ''peer_approved'' ''email'' ''peer_lifecycle'' 1 1 NKNormal False,
     mk_option ''peer_rejected'' ''email'' ''peer_lifecycle'' 1 1 NKNormal False,
     mk_option ''peer_suspended'' ''email'' ''peer_lifecycle'' 1 1 NKNormal False,
     mk_option ''peer_unsuspended'' ''email'' ''peer_lifecycle'' 1 1 NKNormal False,
     mk_option ''peer_deleted'' ''email'' ''peer_lifecycle'' 1 1 NKNormal False,
     mk_option ''peer_bgp_down'' ''email'' ''connectivity'' 2 1 NKNormal False,
     mk_option ''peer_bgp_recovered'' ''email'' ''connectivity'' 2 1 NKNormal False,
     mk_option ''peer_handshake_stale'' ''email'' ''connectivity'' 2 1 NKNormal False,
     mk_option ''peer_latency_high'' ''email'' ''monitoring'' 3 1 NKNormal False,
     mk_option ''peer_latency_recovered'' ''email'' ''monitoring'' 3 1 NKNormal False,
     mk_option ''peer_mtu_updated'' ''email'' ''peer_lifecycle'' 1 1 NKNormal False,
     mk_option ''peer_submitted'' ''telegram'' ''peer_lifecycle'' 0 2 NKNormal False,
     mk_option ''peer_approved'' ''telegram'' ''peer_lifecycle'' 0 2 NKNormal False,
     mk_option ''peer_rejected'' ''telegram'' ''peer_lifecycle'' 0 2 NKNormal False,
     mk_option ''peer_suspended'' ''telegram'' ''peer_lifecycle'' 0 2 NKNormal False,
     mk_option ''peer_unsuspended'' ''telegram'' ''peer_lifecycle'' 0 2 NKNormal False,
     mk_option ''peer_deleted'' ''telegram'' ''peer_lifecycle'' 0 2 NKNormal False,
     mk_option ''peer_bgp_down'' ''telegram'' ''connectivity'' 0 2 NKNormal False,
     mk_option ''peer_bgp_recovered'' ''telegram'' ''connectivity'' 0 2 NKNormal False,
     mk_option ''peer_handshake_stale'' ''telegram'' ''connectivity'' 0 2 NKNormal False,
     mk_option ''peer_latency_high'' ''telegram'' ''monitoring'' 0 2 NKNormal False,
     mk_option ''peer_latency_recovered'' ''telegram'' ''monitoring'' 0 2 NKNormal False,
     mk_option ''peer_endpoint_mismatch'' ''email'' ''connectivity'' 2 1 NKNormal False,
     mk_option ''peer_endpoint_recovered'' ''email'' ''connectivity'' 2 1 NKNormal False,
     mk_option ''peer_endpoint_mismatch'' ''telegram'' ''connectivity'' 0 2 NKNormal False,
     mk_option ''peer_endpoint_recovered'' ''telegram'' ''connectivity'' 0 2 NKNormal False
    ]"

definition NotificationOptionsForChannel :: "string \<Rightarrow> notification_option list" where
  "NotificationOptionsForChannel channel = filter (\<lambda>x. no_Channel x = channel) notificationOptions"

definition NotificationOptionByKey :: "string \<Rightarrow> notification_option option" where
  "NotificationOptionByKey key = find (\<lambda>x. no_Key x = key) notificationOptions"

definition LegacyEnabledNotificationKeys :: "int \<Rightarrow> string list" where
  "LegacyEnabledNotificationKeys level =
     map no_Key (filter (\<lambda>x. no_Channel x = ''email'' \<and>
       (no_Key x = NotificationAuthLoginCode \<or> no_LegacyLevel x > 0 \<and> level \<ge> no_LegacyLevel x)) notificationOptions)"

definition telegramDefaultEnabledKeys :: "string list" where
  "telegramDefaultEnabledKeys = map no_Key (filter (\<lambda>x. no_Channel x = ''telegram'') notificationOptions)"

definition filterKeysByGroup :: "string list \<Rightarrow> string \<Rightarrow> string list" where
  "filterKeysByGroup keys grp =
     map no_Key (filter (\<lambda>x. no_Group x = grp \<and> no_Channel x = ''telegram'' \<and> no_Key x \<in> set keys) notificationOptions)"

text \<open>The presets offered per channel: level, name and enabled keys.\<close>

definition NotificationPresets :: "(int \<times> string \<times> string list) list" where
  "NotificationPresets =
     [(0, ''none'', LegacyEnabledNotificationKeys 0), (1, ''urgent'', LegacyEnabledNotificationKeys 1),
      (2, ''general'', LegacyEnabledNotificationKeys 2), (3, ''all'', LegacyEnabledNotificationKeys 3)]"

definition NotificationPresetsForChannel :: "string \<Rightarrow> (int \<times> string \<times> string list) list" where
  "NotificationPresetsForChannel channel =
     (if channel = ''telegram''
      then [(0, ''none'', []), (1, ''important'', filterKeysByGroup telegramDefaultEnabledKeys ''peer_lifecycle''),
            (2, ''all'', telegramDefaultEnabledKeys)]
      else NotificationPresets)"

section \<open>Preferences in the database\<close>

definition GetEmailLevel :: "int \<Rightarrow> (db_error + int) M" where
  "GetEmailLevel asn = db_read (\<lambda>w. Inr (case t_email_levels (w_auth w) asn of Some l \<Rightarrow> l | None \<Rightarrow> 0))"

definition UpsertEmailPreference :: "int \<Rightarrow> int \<Rightarrow> (db_error + unit) M" where
  "UpsertEmailPreference asn level = db_write (\<lambda>w.
     if level < 0 \<or> level > 3 then Inl CheckViolation
     else Inr ((), w\<lparr>w_auth := (w_auth w)\<lparr>t_email_levels := (t_email_levels (w_auth w))(asn \<mapsto> level)\<rparr>\<rparr>))"

definition ListNotificationPreferences :: "int \<Rightarrow> string \<Rightarrow> (db_error + notification_pref list) M" where
  "ListNotificationPreferences asn channel =
     db_read (\<lambda>w. Inr (filter (\<lambda>p. np_ASN p = asn \<and> np_Channel p = channel) (t_prefs (w_auth w))))"

text \<open>One transaction: the rows of the channel are replaced.\<close>

definition UpsertNotificationPreferences :: "int \<Rightarrow> string \<Rightarrow> notification_pref list \<Rightarrow> (db_error + unit) M" where
  "UpsertNotificationPreferences asn channel prefs = db_write (\<lambda>w.
     let rest = filter (\<lambda>p. \<not> (np_ASN p = asn \<and> np_Channel p = channel)) (t_prefs (w_auth w));
         key = (\<lambda>p. (np_ASN p, np_Channel p, np_NotificationKey p)) in
     if distinct (map key prefs) \<and> list_all (\<lambda>p. key p \<notin> set (map key rest)) prefs
     then Inr ((), w\<lparr>w_auth := (w_auth w)\<lparr>t_prefs := rest @ prefs\<rparr>\<rparr>)
     else Inl (UniqueViolation ''peer_notification_preferences_pkey''))"

definition GetNotificationPreferenceState :: "int \<Rightarrow> (db_error + pref_state) M" where
  "GetNotificationPreferenceState asn = db_read (\<lambda>w. row (t_pref_states (w_auth w) asn))"

definition UpsertNotificationPreferenceState :: "int \<Rightarrow> pref_state \<Rightarrow> (db_error + unit) M" where
  "UpsertNotificationPreferenceState asn st = db_write (\<lambda>w.
     Inr ((), w\<lparr>w_auth := (w_auth w)\<lparr>t_pref_states := (t_pref_states (w_auth w))(asn \<mapsto> st)\<rparr>\<rparr>))"

section \<open>Gates\<close>

definition pref_enabled :: "string \<Rightarrow> notification_pref list \<Rightarrow> bool" where
  "pref_enabled key prefs = (case find (\<lambda>p. np_NotificationKey p = key) prefs of None \<Rightarrow> False | Some p \<Rightarrow> np_Enabled p)"

definition IsNotificationEnabledForASN :: "int \<Rightarrow> string \<Rightarrow> bool M" where
  "IsNotificationEnabledForASN asn key =
     (case NotificationOptionByKey key of
        None \<Rightarrow> ret False
      | Some opt \<Rightarrow> do {
          prefs \<leftarrow> ListNotificationPreferences asn (no_Channel opt);
          case prefs of
            Inr (p # ps) \<Rightarrow> ret (pref_enabled key (p # ps))
          | _ \<Rightarrow> do {
              level \<leftarrow> GetEmailLevel asn;
              let l = (case level of Inl _ \<Rightarrow> 0 | Inr l \<Rightarrow> l);
              ret (key = NotificationAuthLoginCode \<or> no_LegacyLevel opt > 0 \<and> l \<ge> no_LegacyLevel opt)
            }
        })"

definition IsTelegramNotificationEnabledForASN :: "int \<Rightarrow> string \<Rightarrow> bool M" where
  "IsTelegramNotificationEnabledForASN asn key = do {
     prefs \<leftarrow> ListNotificationPreferences asn ''telegram'';
     ret (case prefs of Inl _ \<Rightarrow> False | Inr ps \<Rightarrow> pref_enabled key ps)
   }"

text \<open>The mails of \<^verbatim>\<open>EmailService\<close> that ask the gate first: template and key.\<close>

definition gated_templates :: "(string \<times> string) list" where
  "gated_templates =
     [(''verification-code'', ''auth_login_code''), (''peer-submitted'', ''peer_submitted''), (''peer-approved'', ''peer_approved''),
      (''peer-rejected'', ''peer_rejected''), (''peer-suspended'', ''peer_suspended''), (''peer-unsuspended'', ''peer_unsuspended''),
      (''peer-deleted'', ''peer_deleted''), (''peer-bgp-down'', ''peer_bgp_down''), (''peer-bgp-recovered'', ''peer_bgp_recovered''),
      (''peer-handshake-stale'', ''peer_handshake_stale''), (''peer-latency-high'', ''peer_latency_high''),
      (''peer-latency-recovered'', ''peer_latency_recovered''), (''peer-mtu-updated'', ''peer_mtu_updated'')]"

text \<open>\<open>send_gated\<close> is \<^verbatim>\<open>SendVerificationCode\<close>, \<^verbatim>\<open>SendPeerSubmitted\<close> and the others: a suppressed mail is no error.\<close>

definition send_gated :: "(string \<Rightarrow> bool) \<Rightarrow> notification \<Rightarrow> string \<Rightarrow> int \<Rightarrow> string \<Rightarrow> bool M" where
  "send_gated smtp n to asn template = do {
     ok \<leftarrow> (case map_of gated_templates template of None \<Rightarrow> ret True | Some key \<Rightarrow> IsNotificationEnabledForASN asn key);
     if \<not> ok then ret True
     else if smtp to then do { notify n; ret True }
     else ret False
   }"

definition SendVerificationCode :: "(string \<Rightarrow> bool) \<Rightarrow> string \<Rightarrow> int \<Rightarrow> string \<Rightarrow> bool M" where
  "SendVerificationCode smtp to asn code = send_gated smtp (CodeEmail to asn code) to asn ''verification-code''"

section \<open>Handlers\<close>

text \<open>\<^verbatim>\<open>Get\<close>: the level in force.\<close>

definition emailpref_Get :: "int \<Rightarrow> response M" where
  "emailpref_Get asn = do {
     level \<leftarrow> GetEmailLevel asn;
     ret (JSONResp 200 (JObj [(''email_level'', jint (case level of Inl _ \<Rightarrow> 0 | Inr l \<Rightarrow> l))]))
   }"

definition emailpref_Update :: "int option \<Rightarrow> int \<Rightarrow> response M" where
  "emailpref_Update body asn =
     (case body of
        None \<Rightarrow> ret (ErrorResp 400 ''bad_request'' ''Invalid JSON body'')
      | Some level \<Rightarrow>
          (if level < 0 \<or> level > 3 then ret (ErrorResp 400 ''bad_request'' ''email_level must be between 0 and 3'')
           else do {
             r \<leftarrow> UpsertEmailPreference asn level;
             case r of
               Inl _ \<Rightarrow> ret (ErrorResp 500 ''internal_error'' ''Failed to update email preferences'')
             | Inr _ \<Rightarrow> ret (JSONResp 200 (JObj [(''email_level'', jint level)]))
           }))"

text \<open>The options as shown: whether enabled, and whether newer than the version last seen.\<close>

definition shown_options :: "int \<Rightarrow> notification_pref list \<Rightarrow> int \<Rightarrow> (string \<times> bool \<times> bool) list" where
  "shown_options level prefs seenVersion =
     map (\<lambda>x. (no_Key x,
               (if prefs = [] then no_Key x \<in> set (LegacyEnabledNotificationKeys level) else pref_enabled (no_Key x) prefs),
               no_IntroducedVersion x > seenVersion)) (NotificationOptionsForChannel ''email'')"

definition GetNotifications :: "int \<Rightarrow> response M" where
  "GetNotifications asn = do {
     lv \<leftarrow> GetEmailLevel asn;
     let level = (case lv of Inl _ \<Rightarrow> 0 | Inr l \<Rightarrow> l);
     prefs \<leftarrow> ListNotificationPreferences asn ''email'';
     case prefs of
       Inl _ \<Rightarrow> ret (ErrorResp 500 ''internal_error'' ''Failed to load notification preferences'')
     | Inr ps \<Rightarrow> do {
         st \<leftarrow> GetNotificationPreferenceState asn;
         (if (case st of Inl e \<Rightarrow> e \<noteq> NoRows | Inr _ \<Rightarrow> False)
          then ret (ErrorResp 500 ''internal_error'' ''Failed to load notification preference state'')
          else (let seen = (case st of Inl _ \<Rightarrow> 0 | Inr s \<Rightarrow> ps_SeenCatalogVersion s);
                    opts = shown_options level ps seen;
                    unseen = list_ex (\<lambda>(_, _, new). new) opts in
                ret (JSONResp 200 (JObj
                  [(''mode'', JStr (if ps = [] then ''legacy'' else ''explicit'')), (''email_level'', jint level),
                   (''seen_catalog_version'', jint seen), (''current_catalog_version'', jint NotificationCatalogVersion),
                   (''needs_wizard'', JBool (ps = [] \<or> unseen)), (''has_unseen_options'', JBool unseen),
                   (''options'', JArr (map (\<lambda>(k, e, new). JObj [(''key'', JStr k), (''enabled'', JBool e), (''is_new'', JBool new)]) opts))]))))
       }
   }"

record update_notifications_body =
  un_EnabledKeys :: "string list"
  un_ConfirmedDisabledCriticalKeys :: "string list"
  un_SeenCatalogVersion :: int
  un_WizardCompleted :: bool

text \<open>\<^verbatim>\<open>gpgAvailable\<close> as \<^verbatim>\<open>deps.go\<close> wires it.\<close>

definition gpgAvailable :: "int \<Rightarrow> bool M" where
  "gpgAvailable asn = State (\<lambda>w.
     case registry_LookupMntnerGPGFingerprints (w_registry w) (w_now w) asn (w_cache w) of
       (c, r) \<Rightarrow> (case r of Inl _ \<Rightarrow> False | Inr fps \<Rightarrow> fps \<noteq> [], w\<lparr>w_cache := c\<rparr>))"

definition hasAlternativeRequiredCapability :: "int \<Rightarrow> string \<Rightarrow> bool M" where
  "hasAlternativeRequiredCapability asn key = (if key = NotificationAuthLoginCode then gpgAvailable asn else ret False)"

text \<open>The loop over the options: the keys that need a confirmation, and those that must not be disabled.\<close>

fun check_options :: "int \<Rightarrow> string list \<Rightarrow> string list \<Rightarrow> notification_option list \<Rightarrow> (string list \<times> string list) M" where
  "check_options asn enabled confirmed [] = ret ([], [])"
| "check_options asn enabled confirmed (x # xs) = do {
     let off = no_Key x \<notin> set enabled;
     failed \<leftarrow> (if no_Kind x = NKRequired \<and> off
               then do { alt \<leftarrow> hasAlternativeRequiredCapability asn (no_Key x); ret (\<not> alt) } else ret False);
     (cs, fs) \<leftarrow> check_options asn enabled confirmed xs;
     ret ((if no_RequiresDisableConfirmation x \<and> off \<and> no_Key x \<notin> set confirmed then no_Key x # cs else cs),
          (if failed then no_Key x # fs else fs))
   }"

definition prefs_of :: "int \<Rightarrow> string \<Rightarrow> string list \<Rightarrow> notification_pref list" where
  "prefs_of asn channel enabled =
     map (\<lambda>x. \<lparr>np_ASN = asn, np_Channel = channel, np_NotificationKey = no_Key x, np_Enabled = (no_Key x \<in> set enabled)\<rparr>)
       (NotificationOptionsForChannel channel)"

definition UpdateNotifications :: "update_notifications_body option \<Rightarrow> int \<Rightarrow> response M" where
  "UpdateNotifications body asn =
     (case body of
        None \<Rightarrow> ret (ErrorResp 400 ''bad_request'' ''Invalid JSON body'')
      | Some b \<Rightarrow> do {
          (confirmationRequired, preconditionFailed) \<leftarrow>
            check_options asn (un_EnabledKeys b) (un_ConfirmedDisabledCriticalKeys b) (NotificationOptionsForChannel ''email'');
          if confirmationRequired \<noteq> [] then ret (ErrorResp 400 ''confirmation_required'' ''Disabling critical notifications requires confirmation.'')
          else if preconditionFailed \<noteq> []
          then ret (ErrorResp 412 ''precondition_failed'' ''This notification cannot be disabled until another required capability is available.'')
          else do {
            r \<leftarrow> UpsertNotificationPreferences asn ''email'' (prefs_of asn ''email'' (un_EnabledKeys b));
            case r of
              Inl _ \<Rightarrow> ret (ErrorResp 500 ''internal_error'' ''Failed to update notification preferences'')
            | Inr _ \<Rightarrow> do {
                now \<leftarrow> time_now;
                let seen = max (un_SeenCatalogVersion b) NotificationCatalogVersion;
                r2 \<leftarrow> UpsertNotificationPreferenceState asn
                  \<lparr>ps_SeenCatalogVersion = seen, ps_WizardCompletedAt = (if un_WizardCompleted b then Some now else None)\<rparr>;
                case r2 of
                  Inl _ \<Rightarrow> ret (ErrorResp 500 ''internal_error'' ''Failed to update notification preference state'')
                | Inr _ \<Rightarrow> ret (JSONResp 200 (JObj [(''status'', JStr ''ok''), (''enabled_keys'', JArr (map JStr (un_EnabledKeys b))),
                                                  (''seen_catalog_version'', jint seen)]))
              }
          }
        })"

definition bindings_GetByASN :: "int \<Rightarrow> (db_error + BotUserBinding) M" where
  "bindings_GetByASN asn = db_read (\<lambda>w. row (find (\<lambda>b. bb_ASN b = asn) (w_bindings w)))"

definition GetTelegramNotifications :: "int \<Rightarrow> response M" where
  "GetTelegramNotifications asn = do {
     b \<leftarrow> bindings_GetByASN asn;
     case b of
       Inl _ \<Rightarrow> ret (JSONResp 200 (JObj [(''bound'', JBool False), (''channel'', JStr ''telegram'')]))
     | Inr _ \<Rightarrow> do {
         prefs \<leftarrow> ListNotificationPreferences asn ''telegram'';
         case prefs of
           Inl _ \<Rightarrow> ret (ErrorResp 500 ''internal_error'' ''Failed to load telegram notification preferences'')
         | Inr ps \<Rightarrow> ret (JSONResp 200 (JObj [(''bound'', JBool True), (''channel'', JStr ''telegram''),
             (''options'', JArr (map (\<lambda>x. JObj [(''key'', JStr (no_Key x)), (''enabled'', JBool (pref_enabled (no_Key x) ps))])
                (NotificationOptionsForChannel ''telegram'')))]))
       }
   }"

definition UpdateTelegramNotifications :: "string list option \<Rightarrow> int \<Rightarrow> response M" where
  "UpdateTelegramNotifications body asn = do {
     b \<leftarrow> bindings_GetByASN asn;
     case b of
       Inl _ \<Rightarrow> ret (ErrorResp 412 ''not_bound'' ''Telegram account not bound. Bind your Telegram account first.'')
     | Inr _ \<Rightarrow>
         (case body of
            None \<Rightarrow> ret (ErrorResp 400 ''bad_request'' ''Invalid JSON body'')
          | Some enabled \<Rightarrow> do {
              r \<leftarrow> UpsertNotificationPreferences asn ''telegram'' (prefs_of asn ''telegram'' enabled);
              case r of
                Inl _ \<Rightarrow> ret (ErrorResp 500 ''internal_error'' ''Failed to update telegram notification preferences'')
              | Inr _ \<Rightarrow> ret (JSONResp 200 (JObj [(''status'', JStr ''ok''), (''enabled_keys'', JArr (map JStr enabled))]))
            })
   }"

section \<open>Choices are kept\<close>

text \<open>The switch of the login code is the first of the options and the only required one.\<close>

definition login_option :: notification_option where
  "login_option = mk_option ''auth_login_code'' ''email'' ''account'' 0 1 NKRequired True"

lemma email_options:
  "NotificationOptionsForChannel ''email'' = login_option # tl (NotificationOptionsForChannel ''email'')"
  "list_all (\<lambda>x. no_Kind x \<noteq> NKRequired) (tl (NotificationOptionsForChannel ''email''))"
  "distinct (map no_Key (NotificationOptionsForChannel ''email''))"
  "list_all (\<lambda>x. map_option no_Channel (NotificationOptionByKey (no_Key x)) = Some ''email'') (NotificationOptionsForChannel ''email'')"
  by (simp_all add: NotificationOptionsForChannel_def NotificationOptionByKey_def notificationOptions_def mk_option_def login_option_def)

lemma check_options_quiet:
  "list_all (\<lambda>x. no_Kind x \<noteq> NKRequired) xs \<Longrightarrow> \<exists>cs. run_state (check_options asn en cf xs) w = ((cs, []), w)"
  by (induction xs) auto

lemma check_options_email:
  "\<exists>cs. run_state (check_options asn en cf (NotificationOptionsForChannel ''email'')) w =
     (if NotificationAuthLoginCode \<in> set en then ((cs, []), w)
      else ((cs, if fst (run_state (gpgAvailable asn) w) then [] else [NotificationAuthLoginCode]), snd (run_state (gpgAvailable asn) w)))"
proof -
  let ?t = "tl (NotificationOptionsForChannel ''email'')"
  have k: "no_Key login_option = NotificationAuthLoginCode" "no_Kind login_option = NKRequired"
    by (simp_all add: login_option_def mk_option_def NotificationAuthLoginCode_def)
  obtain g w1 where g: "run_state (gpgAvailable asn) w = (g, w1)" by fastforce
  obtain cs where cs: "run_state (check_options asn en cf ?t) w = ((cs, []), w)" using check_options_quiet [OF email_options(2)] by blast
  obtain cs1 where cs1: "run_state (check_options asn en cf ?t) w1 = ((cs1, []), w1)" using check_options_quiet [OF email_options(2)] by blast
  show ?thesis
    by (subst email_options(1)) (simp add: k hasAlternativeRequiredCapability_def Let_def g cs cs1)
qed

lemma gpgAvailable_auth: "w_auth (snd (run_state (gpgAvailable asn) w)) = w_auth w"
  by (simp add: gpgAvailable_def split: prod.splits)

lemma enabled_prefs: "x \<in> set xs \<Longrightarrow> distinct (map no_Key xs) \<Longrightarrow>
   pref_enabled (no_Key x) (map (\<lambda>x. \<lparr>np_ASN = asn, np_Channel = ch, np_NotificationKey = no_Key x, np_Enabled = (no_Key x \<in> set en)\<rparr>) xs)
     = (no_Key x \<in> set en)"
  by (induction xs) (auto simp: pref_enabled_def)

lemma UpdateNotifications_stores:
  assumes "run_state (UpdateNotifications (Some b) asn) w = (JSONResp st j, w')"
  shows "filter (\<lambda>p. np_ASN p = asn \<and> np_Channel p = ''email'') (t_prefs (w_auth w')) = prefs_of asn ''email'' (un_EnabledKeys b)
    \<and> (NotificationAuthLoginCode \<in> set (un_EnabledKeys b) \<or> fst (run_state (gpgAvailable asn) w))"
proof -
  obtain cs where c: "run_state (check_options asn (un_EnabledKeys b) (un_ConfirmedDisabledCriticalKeys b) (NotificationOptionsForChannel ''email'')) w =
     (if NotificationAuthLoginCode \<in> set (un_EnabledKeys b) then ((cs, []), w)
      else ((cs, if fst (run_state (gpgAvailable asn) w) then [] else [NotificationAuthLoginCode]), snd (run_state (gpgAvailable asn) w)))"
    using check_options_email by blast
  have f: "filter (\<lambda>p. np_ASN p = asn \<and> np_Channel p = ''email'') (prefs_of asn ''email'' en) = prefs_of asn ''email'' en"
    "filter (\<lambda>p. np_ASN p = asn \<and> np_Channel p = ''email'') (filter (\<lambda>p. np_ASN p = asn \<longrightarrow> np_Channel p \<noteq> ''email'') xs) = []" for en xs
    by (auto simp: prefs_of_def filter_empty_conv)
  show ?thesis using assms c
    by (auto simp: UpdateNotifications_def UpsertNotificationPreferences_def UpsertNotificationPreferenceState_def run_db_write Let_def f time_now_def simp del: filter_filter
        split: if_splits prod.splits sum.splits)
qed


lemma enabled_after:
  assumes "filter (\<lambda>p. np_ASN p = asn \<and> np_Channel p = ''email'') (t_prefs (w_auth w)) = prefs_of asn ''email'' en" "nofault w"
    "x \<in> set (NotificationOptionsForChannel ''email'')"
  shows "fst (run_state (IsNotificationEnabledForASN asn (no_Key x)) w) = (no_Key x \<in> set en)"
proof -
  obtain opt where opt: "NotificationOptionByKey (no_Key x) = Some opt" "no_Channel opt = ''email''"
    using email_options(4) assms(3) by (auto simp: list_all_iff)
  have ne: "prefs_of asn ''email'' en \<noteq> []" using assms(3) by (auto simp: prefs_of_def)
  have "pref_enabled (no_Key x) (prefs_of asn ''email'' en) = (no_Key x \<in> set en)"
    unfolding prefs_of_def by (rule enabled_prefs [OF assms(3) email_options(3)])
  then show ?thesis using ne assms(1) nofault_not_fails [OF assms(2)]
    by (cases "prefs_of asn ''email'' en") (simp_all add: IsNotificationEnabledForASN_def opt ListNotificationPreferences_def)
qed

text \<open>C32. Notification choices are kept. After a successful update of the mail preferences the gate that the senders ask,
  \<^verbatim>\<open>IsNotificationEnabledForASN\<close>, lets a kind of mail of the catalog pass exactly when its key was among the enabled ones (an
  alert mail needs the mail level of the AS number besides, which this update does not set); and the mail with the login
  code can only be switched off when, at that moment, a GPG key of the AS number is registered as another way
  to log in.\<close>

theorem notification_choice_kept:
  assumes "run_state (UpdateNotifications (Some b) asn) w = (JSONResp st j, w')" "nofault w'"
    "x \<in> set (NotificationOptionsForChannel ''email'')"
  shows "fst (run_state (IsNotificationEnabledForASN asn (no_Key x)) w') = (no_Key x \<in> set (un_EnabledKeys b))
    \<and> (NotificationAuthLoginCode \<in> set (un_EnabledKeys b) \<or> fst (run_state (gpgAvailable asn) w))"
  using UpdateNotifications_stores [OF assms(1)] enabled_after [OF _ assms(2,3)] by blast

definition pref_world :: world where
  "pref_world = \<lparr>w_peers = [], w_nodes = [], w_audit = [], w_bindings = [], w_notification_settings = Map.empty,
     w_site_settings = Map.empty, w_locks = None, w_cache = sample_cache, w_conns = Map.empty, w_sent = [], w_out = [],
     w_replies = [], w_dbfail = [], w_uuids = [], w_rand = [], w_registry = \<lparr>rs_token = [], rs_get = (\<lambda>_ _. Inl ''offline'')\<rparr>,
     w_auth = no_auth, w_mon = no_monitor, w_bot = no_bot, w_cookies = [], w_headers = [], w_now = 1000, w_now_text = ''2025-01-01''\<rparr>"

definition pref_body :: update_notifications_body where
  "pref_body = \<lparr>un_EnabledKeys = [''auth_login_code'', ''peer_approved''], un_ConfirmedDisabledCriticalKeys = [], un_SeenCatalogVersion = 1,
     un_WizardCompleted = True\<rparr>"

lemma pref_run: "\<exists>j w'. run_state (UpdateNotifications (Some pref_body) 4242420456) pref_world = (JSONResp 200 j, w') \<and> nofault w'"
  by (simp add: UpdateNotifications_def pref_body_def pref_world_def NotificationOptionsForChannel_def notificationOptions_def mk_option_def
      UpsertNotificationPreferences_def UpsertNotificationPreferenceState_def run_db_write db_fails_def prefs_of_def no_auth_def time_now_def
      nofault_def Let_def)

theorem notification_choice_kept_witness:
  "\<exists>j w'. run_state (UpdateNotifications (Some pref_body) 4242420456) pref_world = (JSONResp 200 j, w')
     \<and> fst (run_state (IsNotificationEnabledForASN 4242420456 ''auth_login_code'') w')"
proof -
  obtain j w' where r: "run_state (UpdateNotifications (Some pref_body) 4242420456) pref_world = (JSONResp 200 j, w')" "nofault w'"
    using pref_run by blast
  have "login_option \<in> set (NotificationOptionsForChannel ''email'')" by (subst email_options(1)) simp
  from notification_choice_kept [OF r this] r show ?thesis by (auto simp: login_option_def mk_option_def pref_body_def)
qed

end
