(* ===== verification/AuthHandler.thy ===== *)
theory AuthHandler
  imports Middleware Notifications
begin

text \<open>
  \<^verbatim>\<open>internal/handler/auth.go\<close>: login by e-mailed code, by GPG signature and by password, device
  authorization, impersonation, refresh-token rotation, logout and device lists. The third-party
  code is the parameter \<open>auth_lib\<close>: JWT, bcrypt, OpenPGP, the Turnstile service and the mail
  transport. Bodies arrive decoded, \<open>None\<close> standing for a body that does not decode. Cookies and
  headers of the response are collected in the state. The handlers run with the site-setting reader
  wired, as \<^verbatim>\<open>cmd/center/deps.go\<close> does before the server starts.
\<close>

section \<open>Library code\<close>

record pgp_block =
  pb_Bytes :: string
  pb_Signature :: string

record pgp_entity =
  en_Fingerprint :: string

record auth_lib =
  al_jwt :: jwt_lib
  al_GenerateFromPassword :: "string \<Rightarrow> string \<Rightarrow> string option"
  al_CompareHashAndPassword :: "string \<Rightarrow> string \<Rightarrow> bool"
  al_clearsign :: "string \<Rightarrow> pgp_block option \<times> string"
  al_ReadArmoredKeyRing :: "string \<Rightarrow> string + pgp_entity list"
  al_ReadKeyRing :: "string \<Rightarrow> string + pgp_entity list"
  al_VerifySignature :: "pgp_block \<Rightarrow> pgp_entity list \<Rightarrow> string + pgp_entity"
  al_siteverify :: "(string \<times> string) list \<Rightarrow> string + bool"
  al_smtp :: "string \<Rightarrow> bool"

datatype 'a reply = Reply int 'a | Fail int string string

section \<open>Random values and hashes\<close>

definition bytes_str :: "byte list \<Rightarrow> string" where
  "bytes_str bs = map (\<lambda>b. char_of (unat b)) bs"

fun bit_len :: "nat \<Rightarrow> nat" where
  "bit_len n = (if n = 0 then 0 else Suc (bit_len (n div 2)))"

declare bit_len.simps [simp del]

text \<open>\<^verbatim>\<open>rand.Int\<close>: bytes are read and masked to the bit length of the bound until a value is below it.\<close>

fun rand_below :: "nat \<Rightarrow> byte list option list \<Rightarrow> nat option \<times> byte list option list" where
  "rand_below m [] = (None, [])"
| "rand_below m (None # rs) = (None, rs)"
| "rand_below m (Some bs # rs) =
     (let v = foldl (\<lambda>v b. 256 * v + unat b) 0 bs mod 2 ^ bit_len (m - 1) in
      if v < m then (Some v, rs) else rand_below m rs)"

definition rand_int :: "nat \<Rightarrow> nat option M" where
  "rand_int m = State (\<lambda>w. case rand_below m (w_rand w) of (r, rs) \<Rightarrow> (r, w\<lparr>w_rand := rs\<rparr>))"

definition pad6 :: "nat \<Rightarrow> string" where
  "pad6 n = (let s = show_nat n in replicate (6 - length s) (CHR ''0'') @ s)"

definition generateCode :: "string option M" where
  "generateCode = do { n \<leftarrow> rand_int 1000000; ret (map_option pad6 n) }"

definition hashRefreshToken :: "string \<Rightarrow> string" where
  "hashRefreshToken token = hex_encode (Sum256 token)"

definition generateRefreshToken :: "(string \<times> string) option M" where
  "generateRefreshToken = do {
     b \<leftarrow> rand_read;
     ret (map_option (\<lambda>bs. (hex_encode (bytes_str bs), hashRefreshToken (hex_encode (bytes_str bs)))) b)
   }"

definition deviceGrantTTL :: int where "deviceGrantTTL = 600000"
definition devicePollInterval :: int where "devicePollInterval = 5000"
definition deviceUserAlphabet :: string where "deviceUserAlphabet = ''ABCDEFGHJKLMNPQRSTUVWXYZ23456789''"

definition hashDeviceSecret :: "string \<Rightarrow> string \<Rightarrow> string \<Rightarrow> string" where
  "hashDeviceSecret secret kind value = hex_encode (hmac_sha256 secret (''autopeer-device-auth:'' @ kind @ '':'' @ value))"

definition raw_url_b64 :: "byte list \<Rightarrow> string" where
  "raw_url_b64 bs = map (\<lambda>c. if c = CHR ''+'' then CHR ''-'' else if c = CHR ''/'' then CHR ''_'' else c)
     (filter (\<lambda>c. c \<noteq> CHR ''='') (b64_encode bs))"

definition generateDeviceCode :: "string \<Rightarrow> (string \<times> string) option M" where
  "generateDeviceCode secret = do {
     b \<leftarrow> rand_read;
     ret (map_option (\<lambda>bs. let raw = ''ap_dev_'' @ raw_url_b64 bs in (raw, hashDeviceSecret secret ''device'' raw)) b)
   }"

fun draw_letters :: "nat \<Rightarrow> string option M" where
  "draw_letters 0 = ret (Some [])"
| "draw_letters (Suc n) = do {
     i \<leftarrow> rand_int (length deviceUserAlphabet);
     case i of
       None \<Rightarrow> ret None
     | Some k \<Rightarrow> do { rest \<leftarrow> draw_letters n; ret (map_option (\<lambda>r. deviceUserAlphabet ! k # r) rest) }
   }"

definition generateDeviceUserCode :: "string \<Rightarrow> (string \<times> string) option M" where
  "generateDeviceUserCode secret = do {
     n \<leftarrow> draw_letters 8;
     ret (map_option (\<lambda>s. (take 4 s @ ''-'' @ drop 4 s, hashDeviceSecret secret ''user'' s)) n)
   }"

definition normalizeDeviceUserCode :: "string \<Rightarrow> string" where
  "normalizeDeviceUserCode code = filter (\<lambda>c. c \<noteq> CHR ''-'' \<and> c \<noteq> CHR '' '') (to_upper (trim_space code))"

definition validDeviceUserCode :: "string \<Rightarrow> bool" where
  "validDeviceUserCode code \<longleftrightarrow> length code = 8 \<and> list_all (\<lambda>c. c \<in> set deviceUserAlphabet) code"

definition normalizeDeviceScopes :: "string list \<Rightarrow> string + string list" where
  "normalizeDeviceScopes scopes =
     (case scopes of
        [] \<Rightarrow> Inr [''user'']
      | [s] \<Rightarrow> (let scope = to_lower (trim_space s) in
                if scope = ''user'' \<or> scope = ''admin'' then Inr [scope] else Inl ''unsupported scope'')
      | _ \<Rightarrow> Inl ''exactly one scope is supported'')"

fun first_scope :: "string list \<Rightarrow> string" where
  "first_scope [] = ''user''"
| "first_scope (raw # r) =
     (let scope = to_lower (trim_space raw) in
      if scope = ''admin'' then ''admin'' else if scope = ''user'' then ''user'' else first_scope r)"

definition deviceGrantScope :: "auth_device_grant \<Rightarrow> string" where
  "deviceGrantScope g = first_scope (g_Scopes g)"

fun firstNonEmptyString :: "string list \<Rightarrow> string" where
  "firstNonEmptyString [] = []"
| "firstNonEmptyString (v # vs) = (if trim_space v \<noteq> [] then trim_space v else firstNonEmptyString vs)"

section \<open>Request data\<close>

definition UserAgent :: "http_request \<Rightarrow> string" where
  "UserAgent rq = rq_Header rq ''User-Agent''"

definition getClientIP :: "http_request \<Rightarrow> string" where
  "getClientIP rq = host_of (rq_RemoteAddr rq)"

definition requestDeviceName :: "http_request \<Rightarrow> string" where
  "requestDeviceName rq =
     (let ua = trim_space (UserAgent rq) in
      if ua = [] then ''Unknown device'' else if length ua > 80 then take 80 ua else ua)"

fun pick_origin :: "string list \<Rightarrow> string \<Rightarrow> string" where
  "pick_origin [] fallback = fallback"
| "pick_origin (rawOrigin # r) fallback =
     (let origin = trim_right (CHR ''/'') (trim_space rawOrigin) in
      if origin = [] \<or> origin = ''*'' then pick_origin r fallback
      else if equal_fold origin ''https://www.example.com'' then origin
      else pick_origin r (if fallback = [] then origin else fallback))"

definition frontendBaseURL :: "http_request \<Rightarrow> auth_config \<Rightarrow> string" where
  "frontendBaseURL rq cfg =
     (let origin = pick_origin (split_on (CHR '','') (cfg_CORSOrigin cfg)) [];
          proto = (if \<not> rq_TLS rq \<and> equal_fold (rq_Header rq ''X-Forwarded-Proto'') ''http'' then ''http'' else ''https'');
          forwardedHost = trim_space (rq_Header rq ''X-Forwarded-Host'') in
      if origin \<noteq> [] then origin
      else proto @ ''://'' @ (if forwardedHost \<noteq> [] then forwardedHost else rq_Host rq))"

definition setRefreshCookie :: "http_request \<Rightarrow> string \<Rightarrow> int \<Rightarrow> unit M" where
  "setRefreshCookie rq token maxAge = modify (\<lambda>w. w\<lparr>w_cookies := w_cookies w @
     [\<lparr>ck_Name = ''refresh_token'', ck_Value = token, ck_Path = ''/api/v1/auth'', ck_MaxAge = maxAge, ck_HttpOnly = True,
       ck_Secure = (rq_TLS rq \<or> equal_fold (rq_Header rq ''X-Forwarded-Proto'') ''https''), ck_SameSite = ''Lax''\<rparr>]\<rparr>)"

definition clearRefreshCookie :: "http_request \<Rightarrow> unit M" where
  "clearRefreshCookie rq = setRefreshCookie rq [] (-1)"

definition NoStore :: "unit M" where
  "NoStore = do {
     set_header ''Cache-Control'' ''no-store'';
     set_header ''Pragma'' ''no-cache'';
     set_header ''Expires'' ''0''
   }"

text \<open>\<^verbatim>\<open>int(d.Seconds())\<close>: whole seconds, towards zero.\<close>

definition secs :: "int \<Rightarrow> int" where
  "secs d = (if d \<ge> 0 then d div 1000 else - ((- d) div 1000))"

section \<open>Rate limits\<close>

definition dec_times :: "json \<Rightarrow> int list option" where
  "dec_times v =
     (case v of
        JObj m \<Rightarrow> (case map_of m ''times'' of
                     None \<Rightarrow> Some [] | Some JNull \<Rightarrow> Some [] | Some (JArr xs) \<Rightarrow> those (map dec_time xs) | Some _ \<Rightarrow> None)
      | JNull \<Rightarrow> Some []
      | _ \<Rightarrow> None)"

definition enc_times :: "int list \<Rightarrow> json" where
  "enc_times ts = JObj [(''times'', JArr (map JTime ts))]"

definition cache_read :: "(json \<Rightarrow> 'a option) \<Rightarrow> string \<Rightarrow> string \<Rightarrow> 'a option M" where
  "cache_read dec bkt key = State (\<lambda>w.
     case cache_Get (w_now w) dec bkt key (w_cache w) of (c, v, ok, _) \<Rightarrow> (if ok then v else None, w\<lparr>w_cache := c\<rparr>))"

definition cache_write :: "string \<Rightarrow> string \<Rightarrow> json \<Rightarrow> int \<Rightarrow> unit M" where
  "cache_write bkt key v ttl = modify (\<lambda>w. w\<lparr>w_cache := fst (cache_Put (w_now w) bkt key v ttl (w_cache w))\<rparr>)"

text \<open>The sliding window of one minute per address, as one atomic step under the mutex of the handler.
  \<^verbatim>\<open>RegistryHandler.checkIPRate\<close> (\<^verbatim>\<open>handler/registry.go\<close>), which counts under the same key with a mutex of its own, has no model.\<close>

definition checkIPRate :: "string \<Rightarrow> nat \<Rightarrow> bool M" where
  "checkIPRate ip limit = do {
     now \<leftarrow> time_now;
     entry \<leftarrow> cache_read dec_times BucketRateLimit (IPKey RateLimitIP ip);
     let fresh = filter (\<lambda>t. t > now - 60000) (case entry of Some ts \<Rightarrow> ts | None \<Rightarrow> []);
     if length fresh \<ge> limit then do {
       cache_write BucketRateLimit (IPKey RateLimitIP ip) (enc_times fresh) 120000;
       ret False
     } else do {
       cache_write BucketRateLimit (IPKey RateLimitIP ip) (enc_times (fresh @ [now])) 120000;
       ret True
     }
   }"

text \<open>Whether the instant kept under a key is less than \<open>d\<close> ago.\<close>

definition recently :: "string \<Rightarrow> int \<Rightarrow> bool M" where
  "recently key d = do {
     now \<leftarrow> time_now;
     prev \<leftarrow> cache_read dec_time BucketRateLimit key;
     ret (case prev of Some t \<Rightarrow> now - t < d | None \<Rightarrow> False)
   }"

definition mark_now :: "string \<Rightarrow> unit M" where
  "mark_now key = do { now \<leftarrow> time_now; cache_write BucketRateLimit key (JTime now) 120000 }"

definition verifyTurnstileToken :: "auth_lib \<Rightarrow> string \<Rightarrow> string \<Rightarrow> string \<Rightarrow> string + bool" where
  "verifyTurnstileToken L secretKey token remoteIP =
     al_siteverify L ([(''secret'', secretKey), (''response'', token)] @ (if remoteIP \<noteq> [] then [(''remoteip'', remoteIP)] else []))"

definition verifyTurnstile :: "auth_lib \<Rightarrow> auth_config \<Rightarrow> http_request \<Rightarrow> string \<Rightarrow> bool" where
  "verifyTurnstile L cfg rq token =
     (if cfg_TurnstileSecretKey cfg = [] then True
      else if token = [] then False
      else case verifyTurnstileToken L (cfg_TurnstileSecretKey cfg) token (getClientIP rq) of Inl _ \<Rightarrow> False | Inr ok \<Rightarrow> ok)"

section \<open>Starting a session\<close>

record authUserResponse =
  au_Role :: string
  au_ASN :: "int option"
  au_Email :: string

record authResponse =
  ar_Token :: string
  ar_AccessToken :: string
  ar_ExpiresIn :: int
  ar_RefreshExpiresIn :: int
  ar_ASN :: int
  ar_Session :: auth_session
  ar_User :: "authUserResponse option"

definition new_session :: "string \<Rightarrow> int option \<Rightarrow> string option \<Rightarrow> string option \<Rightarrow> string \<Rightarrow> string \<Rightarrow> http_request \<Rightarrow> string \<Rightarrow> string \<Rightarrow> int \<Rightarrow> auth_session" where
  "new_session subject asn adminID parent email hash rq device method expires =
     \<lparr>s_ID = [], s_SubjectType = subject, s_ASN = asn, s_AdminID = adminID, s_Email = email, s_ParentSessionID = parent,
       s_RefreshTokenHash = hash, s_PreviousRefreshTokenHash = [], s_PreviousRefreshTokenValidUntil = None,
       s_UserAgent = UserAgent rq, s_IPAddress = RealIP rq [], s_DeviceName = device, s_LoginMethod = method,
       s_CreatedAt = 0, s_LastUsedAt = None, s_ExpiresAt = expires, s_RevokedAt = None, s_RevokedReason = []\<rparr>"

definition createUserSession ::
  "auth_lib \<Rightarrow> auth_config \<Rightarrow> http_request \<Rightarrow> int \<Rightarrow> string \<Rightarrow> string \<Rightarrow> authResponse option M" where
  "createUserSession L cfg rq asn email loginMethod = do {
     tok \<leftarrow> generateRefreshToken;
     case tok of
       None \<Rightarrow> ret None
     | Some (rawRefresh, refreshHash) \<Rightarrow> do {
         now \<leftarrow> time_now;
         r \<leftarrow> CreateAuthSession (new_session ''user'' (Some asn) None None email refreshHash rq (requestDeviceName rq) loginMethod
                (now + cfg_UserRefreshTokenTTL cfg));
         case r of
           Inl _ \<Rightarrow> ret None
         | Inr session \<Rightarrow> do {
             token \<leftarrow> SignUserSessionJWT (al_jwt L) cfg asn email (s_ID session) loginMethod (cfg_UserAccessTokenTTL cfg);
             case token of
               None \<Rightarrow> ret None
             | Some t \<Rightarrow> do {
                 setRefreshCookie rq rawRefresh (secs (cfg_UserRefreshTokenTTL cfg));
                 ret (Some \<lparr>ar_Token = t, ar_AccessToken = t, ar_ExpiresIn = secs (cfg_UserAccessTokenTTL cfg),
                   ar_RefreshExpiresIn = secs (cfg_UserRefreshTokenTTL cfg), ar_ASN = asn, ar_Session = session,
                   ar_User = Some \<lparr>au_Role = ''user'', au_ASN = Some asn, au_Email = email\<rparr>\<rparr>)
               }
           }
       }
   }"

definition createAdminSession :: "auth_lib \<Rightarrow> auth_config \<Rightarrow> http_request \<Rightarrow> string \<Rightarrow> string \<Rightarrow> authResponse option M" where
  "createAdminSession L cfg rq adminID email = do {
     tok \<leftarrow> generateRefreshToken;
     case tok of
       None \<Rightarrow> ret None
     | Some (rawRefresh, refreshHash) \<Rightarrow> do {
         now \<leftarrow> time_now;
         r \<leftarrow> CreateAuthSession (new_session ''admin'' None (Some adminID) None email refreshHash rq (requestDeviceName rq) ''password''
                (now + cfg_AdminRefreshTokenTTL cfg));
         case r of
           Inl _ \<Rightarrow> ret None
         | Inr session \<Rightarrow> do {
             token \<leftarrow> SignAdminSessionJWT (al_jwt L) cfg adminID email (s_ID session) (cfg_AdminAccessTokenTTL cfg);
             case token of
               None \<Rightarrow> ret None
             | Some t \<Rightarrow> do {
                 setRefreshCookie rq rawRefresh (secs (cfg_AdminRefreshTokenTTL cfg));
                 ret (Some \<lparr>ar_Token = t, ar_AccessToken = t, ar_ExpiresIn = secs (cfg_AdminAccessTokenTTL cfg),
                   ar_RefreshExpiresIn = secs (cfg_AdminRefreshTokenTTL cfg), ar_ASN = 0, ar_Session = session,
                   ar_User = Some \<lparr>au_Role = ''admin'', au_ASN = None, au_Email = email\<rparr>\<rparr>)
               }
           }
       }
   }"

definition createImpersonationSession ::
  "auth_lib \<Rightarrow> auth_config \<Rightarrow> http_request \<Rightarrow> int \<Rightarrow> string \<Rightarrow> string \<Rightarrow> string \<Rightarrow> bool \<Rightarrow> authResponse option M" where
  "createImpersonationSession L cfg rq asn email adminID parentSessionID persistRefresh = do {
     tok \<leftarrow> generateRefreshToken;
     case tok of
       None \<Rightarrow> ret None
     | Some (rawRefresh, refreshHash) \<Rightarrow> do {
         now \<leftarrow> time_now;
         r \<leftarrow> CreateAuthSession (new_session ''impersonation'' (Some asn) (Some adminID) (Some parentSessionID) email refreshHash rq
                (requestDeviceName rq) ''impersonation'' (now + cfg_ImpersonationTokenTTL cfg));
         case r of
           Inl _ \<Rightarrow> ret None
         | Inr session \<Rightarrow> do {
             token \<leftarrow> SignImpersonationJWT (al_jwt L) cfg asn email (s_ID session) adminID parentSessionID;
             case token of
               None \<Rightarrow> ret None
             | Some t \<Rightarrow> do {
                 (if persistRefresh then setRefreshCookie rq rawRefresh (secs (cfg_ImpersonationTokenTTL cfg)) else ret ());
                 ret (Some \<lparr>ar_Token = t, ar_AccessToken = t, ar_ExpiresIn = secs (cfg_ImpersonationTokenTTL cfg),
                   ar_RefreshExpiresIn = 0, ar_ASN = asn, ar_Session = session,
                   ar_User = Some \<lparr>au_Role = ''user'', au_ASN = Some asn, au_Email = email\<rparr>\<rparr>)
               }
           }
       }
   }"

end
