(* ===== verification/AuthFlows.thy ===== *)
theory AuthFlows
  imports AuthHandler
begin

text \<open>
  The handlers of \<^verbatim>\<open>internal/handler/auth.go\<close>. Every early return is a branch; a handler that starts or
  refreshes a session returns an \<open>authResponse\<close>.
\<close>

section \<open>Login by e-mailed code\<close>

definition login_disabled :: "'a reply" where
  "login_disabled = Fail 403 ''login_disabled'' ''User login is currently disabled''"

definition bad_json :: "'a reply" where
  "bad_json = Fail 400 ''bad_request'' ''Invalid JSON body''"

definition with_login_enabled :: "'a reply M \<Rightarrow> 'a reply M" where
  "with_login_enabled m = do {
     v \<leftarrow> GetSiteSettingValue ''user_login_enabled'';
     if v \<noteq> ''true'' then ret login_disabled else m
   }"

definition RequestCode :: "auth_lib \<Rightarrow> auth_config \<Rightarrow> http_request \<Rightarrow> (int \<times> string) option \<Rightarrow> (string \<times> int) reply M" where
  "RequestCode L cfg rq req = with_login_enabled
     (case req of
        None \<Rightarrow> ret bad_json
      | Some (asn, turnstile) \<Rightarrow>
          (if asn \<le> 0 then ret (Fail 400 ''bad_request'' ''Invalid ASN'')
           else if \<not> verifyTurnstile L cfg rq turnstile
           then ret (Fail 403 ''turnstile_failed'' ''Bot verification failed. Please try again.'')
           else do {
             early \<leftarrow> recently (ASNKey RateLimitASN asn) 60000;
             if early then ret (Fail 429 ''rate_limited'' ''Please wait 60 seconds before requesting a new code'')
             else do {
               ok \<leftarrow> checkIPRate (getClientIP rq) 5;
               if \<not> ok then ret (Fail 429 ''rate_limited'' ''Too many requests from this IP'')
               else do {
                 lookup \<leftarrow> LookupASNEmail asn;
                 case lookup of
                   None \<Rightarrow> ret (Fail 404 ''asn_not_found'' ''ASN not found in DN42 registry'')
                 | Some email \<Rightarrow> do {
                     gen \<leftarrow> generateCode;
                     case gen of
                       None \<Rightarrow> ret (Fail 500 ''internal_error'' ''Failed to generate verification code'')
                     | Some code \<Rightarrow> do {
                         salt \<leftarrow> rand_read;
                         case (case salt of None \<Rightarrow> None | Some bs \<Rightarrow> al_GenerateFromPassword L (bytes_str bs) code) of
                           None \<Rightarrow> ret (Fail 500 ''internal_error'' ''Failed to process verification code'')
                         | Some codeHash \<Rightarrow> do {
                             now \<leftarrow> time_now;
                             r \<leftarrow> CreateLoginCode \<lparr>lc_ID = [], lc_ASN = asn, lc_Email = email, lc_CodeHash = codeHash,
                                    lc_ExpiresAt = now + 600000, lc_Used = False, lc_FailedAttempts = 0, lc_CreatedAt = 0\<rparr>;
                             case r of
                               Inl _ \<Rightarrow> ret (Fail 500 ''internal_error'' ''Failed to store verification code'')
                             | Inr _ \<Rightarrow> do {
                                 sent \<leftarrow> SendVerificationCode (al_smtp L) email asn code;
                                 if \<not> sent then ret (Fail 500 ''email_error'' ''Failed to send verification email'')
                                 else do {
                                   mark_now (ASNKey RateLimitASN asn);
                                   ret (Reply 200 (MaskEmail email, 600))
                                 }
                               }
                           }
                       }
                   }
               }
             }
           }))"

definition verify_key :: "int \<Rightarrow> string" where
  "verify_key asn = PeerKey RateLimitASN (''verify:'' @ show_int asn)"

definition invalid_code :: "'a reply" where
  "invalid_code = Fail 401 ''invalid_code'' ''Invalid or expired verification code''"

definition VerifyCode :: "auth_lib \<Rightarrow> auth_config \<Rightarrow> http_request \<Rightarrow> (int \<times> string) option \<Rightarrow> authResponse reply M" where
  "VerifyCode L cfg rq req = with_login_enabled
     (case req of
        None \<Rightarrow> ret bad_json
      | Some (asn, code) \<Rightarrow>
          (if asn \<le> 0 \<or> code = [] then ret (Fail 400 ''bad_request'' ''ASN and code are required'')
           else do {
             ok \<leftarrow> checkIPRate (getClientIP rq) 10;
             if \<not> ok then ret (Fail 429 ''rate_limited'' ''Too many attempts from this IP'')
             else do {
               early \<leftarrow> recently (verify_key asn) 3000;
               if early then ret (Fail 429 ''rate_limited'' ''Too many verification attempts, please wait'')
               else do {
                 found \<leftarrow> GetLatestValidLoginCode asn;
                 case found of
                   Inl _ \<Rightarrow> ret invalid_code
                 | Inr loginCode \<Rightarrow>
                     (if \<not> al_CompareHashAndPassword L (lc_CodeHash loginCode) code then do {
                        _ \<leftarrow> IncrementLoginCodeFailures (lc_ID loginCode);
                        mark_now (verify_key asn);
                        ret invalid_code
                      } else do {
                        used \<leftarrow> MarkLoginCodeUsed (lc_ID loginCode);
                        if used \<noteq> Inr True then ret (Fail 401 ''invalid_code'' ''code already used'')
                        else do {
                          resp \<leftarrow> createUserSession L cfg rq asn (lc_Email loginCode) ''email'';
                          case resp of
                            None \<Rightarrow> ret (Fail 500 ''internal_error'' ''Failed to generate token'')
                          | Some a \<Rightarrow> do {
                              audit_Log ''user.login'' (''AS'' @ show_int asn) None [(''asn'', jint asn)];
                              ret (Reply 200 a)
                            }
                        }
                      })
               }
             }
           }))"

section \<open>Login by password\<close>

definition AdminLogin :: "auth_lib \<Rightarrow> auth_config \<Rightarrow> http_request \<Rightarrow> (string \<times> string \<times> string) option \<Rightarrow> authResponse reply M" where
  "AdminLogin L cfg rq req =
     (case req of
        None \<Rightarrow> ret bad_json
      | Some (email, password, turnstile) \<Rightarrow>
          (if email = [] \<or> password = [] then ret (Fail 400 ''bad_request'' ''Email and password are required'')
           else if \<not> verifyTurnstile L cfg rq turnstile
           then ret (Fail 403 ''turnstile_failed'' ''Bot verification failed. Please try again.'')
           else do {
             ok \<leftarrow> checkIPRate (''admin:'' @ getClientIP rq) 5;
             if \<not> ok then ret (Fail 429 ''rate_limited'' ''Too many login attempts, please try again later'')
             else do {
               found \<leftarrow> admins_GetByEmail email;
               case found of
                 Inl _ \<Rightarrow> ret (Fail 401 ''invalid_credentials'' ''Invalid email or password'')
               | Inr adm \<Rightarrow>
                   (if \<not> al_CompareHashAndPassword L (ad_PasswordHash adm) password
                    then ret (Fail 401 ''invalid_credentials'' ''Invalid email or password'')
                    else do {
                      resp \<leftarrow> createAdminSession L cfg rq (ad_ID adm) email;
                      case resp of
                        None \<Rightarrow> ret (Fail 500 ''internal_error'' ''Failed to generate token'')
                      | Some a \<Rightarrow> do {
                          audit_Log ''admin.login'' email None [];
                          ret (Reply 200 a)
                        }
                    })
             }
           }))"

section \<open>Login by GPG signature\<close>

definition LookupMntnerGPGFingerprints :: "int \<Rightarrow> (string + string list) M" where
  "LookupMntnerGPGFingerprints asn = State (\<lambda>w.
     case registry_LookupMntnerGPGFingerprints (w_registry w) (w_now w) asn (w_cache w) of (c, r) \<Rightarrow> (r, w\<lparr>w_cache := c\<rparr>))"

definition FetchGPGPublicKey :: "string \<Rightarrow> (string + string) M" where
  "FetchGPGPublicKey fp = State (\<lambda>w.
     case registry_FetchGPGPublicKey (w_registry w) (w_now w) fp (w_cache w) of (c, r) \<Rightarrow> (r, w\<lparr>w_cache := c\<rparr>))"

definition CheckGPGAvailability :: "int option \<Rightarrow> bool reply M" where
  "CheckGPGAvailability req =
     (case req of
        None \<Rightarrow> ret bad_json
      | Some asn \<Rightarrow>
          (if asn \<le> 0 then ret (Fail 400 ''bad_request'' ''Invalid ASN'')
           else do {
             fps \<leftarrow> LookupMntnerGPGFingerprints asn;
             ret (Reply 200 (case fps of Inl _ \<Rightarrow> False | Inr l \<Rightarrow> l \<noteq> []))
           }))"

definition RequestGPGChallenge :: "auth_lib \<Rightarrow> auth_config \<Rightarrow> http_request \<Rightarrow> (int \<times> string) option \<Rightarrow> (string \<times> string \<times> int) reply M" where
  "RequestGPGChallenge L cfg rq req = with_login_enabled
     (case req of
        None \<Rightarrow> ret bad_json
      | Some (asn, turnstile) \<Rightarrow>
          (if asn \<le> 0 then ret (Fail 400 ''bad_request'' ''Invalid ASN'')
           else if \<not> verifyTurnstile L cfg rq turnstile
           then ret (Fail 403 ''turnstile_failed'' ''Bot verification failed. Please try again.'')
           else do {
             early \<leftarrow> recently (ASNKey RateLimitASN asn) 60000;
             if early then ret (Fail 429 ''rate_limited'' ''Please wait 60 seconds before requesting a new challenge'')
             else do {
               ok \<leftarrow> checkIPRate (getClientIP rq) 5;
               if \<not> ok then ret (Fail 429 ''rate_limited'' ''Too many requests from this IP'')
               else do {
                 fps \<leftarrow> LookupMntnerGPGFingerprints asn;
                 case fps of
                   Inl _ \<Rightarrow> ret (Fail 404 ''asn_not_found'' ''ASN not found in DN42 registry'')
                 | Inr fingerprints \<Rightarrow>
                     (if fingerprints = [] then ret (Fail 404 ''gpg_not_supported'' ''No GPG key found in your mntner object'')
                      else do {
                        b \<leftarrow> rand_read;
                        case b of
                          None \<Rightarrow> ret (Fail 500 ''internal_error'' ''Failed to generate challenge'')
                        | Some bs \<Rightarrow> do {
                            let challengeText = hex_encode (bytes_str bs);
                            now \<leftarrow> time_now;
                            r \<leftarrow> CreateGPGChallenge \<lparr>gc_ID = [], gc_ASN = asn, gc_Fingerprints = fingerprints,
                                   gc_Challenge = challengeText, gc_ExpiresAt = now + 600000, gc_Used = False, gc_CreatedAt = 0\<rparr>;
                            case r of
                              Inl _ \<Rightarrow> ret (Fail 500 ''internal_error'' ''Failed to store challenge'')
                            | Inr i \<Rightarrow> do {
                                mark_now (ASNKey RateLimitASN asn);
                                ret (Reply 200 (i, challengeText, 600))
                              }
                          }
                      })
               }
             }
           }))"

fun after_first :: "'a list \<Rightarrow> 'a list \<Rightarrow> 'a list option" where
  "after_first p [] = (if p = [] then Some [] else None)"
| "after_first p (x # xs) = (if has_prefix (x # xs) p then Some (drop (length p) (x # xs)) else after_first p xs)"

definition tryDecodeDetachedSignature :: "auth_lib \<Rightarrow> string \<Rightarrow> string \<Rightarrow> pgp_block option" where
  "tryDecodeDetachedSignature L signedMsg challenge =
     (case after_first ''-----BEGIN PGP SIGNATURE-----'' signedMsg of
        None \<Rightarrow> None
      | Some rest \<Rightarrow> fst (al_clearsign L (''-----BEGIN PGP SIGNED MESSAGE-----'' @ [newline] @ ''Hash: SHA256'' @ [newline, newline]
                           @ challenge @ [newline] @ ''-----BEGIN PGP SIGNATURE-----'' @ rest)))"

definition fingerprint_listed :: "string list \<Rightarrow> string \<Rightarrow> bool" where
  "fingerprint_listed fps signer \<longleftrightarrow> list_ex (\<lambda>fp. to_lower (filter (\<lambda>c. c \<noteq> CHR '' '') fp) = to_lower signer) fps"

definition read_keyring :: "auth_lib \<Rightarrow> string \<Rightarrow> string + pgp_entity list" where
  "read_keyring L d = (case al_ReadArmoredKeyRing L d of Inr es \<Rightarrow> Inr es | Inl _ \<Rightarrow> al_ReadKeyRing L d)"

fun fetch_keyring :: "auth_lib \<Rightarrow> string list \<Rightarrow> pgp_entity list M" where
  "fetch_keyring L [] = ret []"
| "fetch_keyring L (fp # fps) = do {
     k \<leftarrow> FetchGPGPublicKey fp;
     rest \<leftarrow> fetch_keyring L fps;
     ret (case k of Inl _ \<Rightarrow> rest | Inr d \<Rightarrow> (case read_keyring L d of Inl _ \<Rightarrow> rest | Inr es \<Rightarrow> es @ rest))
   }"

text \<open>The signer's fingerprint and where the key came from, or the error text.\<close>

definition verifySignatureWithKeyring :: "auth_lib \<Rightarrow> pgp_block \<Rightarrow> string list \<Rightarrow> string \<Rightarrow> (string + string \<times> string) M" where
  "verifySignatureWithKeyring L block expected userPublicKey =
     (if trim_space userPublicKey \<noteq> [] then
        ret (case read_keyring L userPublicKey of
               Inl e \<Rightarrow> Inl (''failed to parse the GPG public key you provided: '' @ e)
             | Inr [] \<Rightarrow> Inl ''the GPG public key you provided contains no valid keys''
             | Inr es \<Rightarrow>
                 (case al_VerifySignature L block es of
                    Inl e \<Rightarrow> Inl (''cryptographic signature verification failed with your provided key: '' @ e)
                  | Inr signer \<Rightarrow>
                      (let fp = hex_encode (en_Fingerprint signer) in
                       if \<not> fingerprint_listed expected fp
                       then Inl (''the GPG key you provided (fingerprint: '' @ fp @ '') does not match any fingerprint in your mntner object'')
                       else Inr (fp, ''user_provided''))))
      else do {
        keyring \<leftarrow> fetch_keyring L expected;
        ret (if keyring = []
             then Inl (''your GPG public key could not be found on any public keyserver. You can also paste your public key directly on the verification page. Fingerprints checked: '' @ join_with '', '' expected)
             else case al_VerifySignature L block keyring of
               Inl e \<Rightarrow> Inl (''cryptographic signature verification failed: '' @ e)
             | Inr signer \<Rightarrow>
                 (let fp = hex_encode (en_Fingerprint signer) in
                  if \<not> fingerprint_listed expected fp then Inl ''GPG key fingerprint does not match your mntner object''
                  else Inr (fp, ''keyserver'')))
      })"

record verifyGPGReq =
  vg_ASN :: int
  vg_ChallengeID :: string
  vg_SignedMessage :: string
  vg_PublicKey :: string

definition decode_signed :: "auth_lib \<Rightarrow> string \<Rightarrow> string \<Rightarrow> pgp_block option" where
  "decode_signed L msg challenge =
     (case al_clearsign L msg of
        (Some b, _) \<Rightarrow> Some b
      | (None, rest) \<Rightarrow> (if contains rest ''BEGIN PGP SIGNATURE'' then tryDecodeDetachedSignature L msg challenge else None))"

definition VerifyGPGSignature :: "auth_lib \<Rightarrow> auth_config \<Rightarrow> http_request \<Rightarrow> verifyGPGReq option \<Rightarrow> authResponse reply M" where
  "VerifyGPGSignature L cfg rq body = with_login_enabled
     (case body of
        None \<Rightarrow> ret bad_json
      | Some req \<Rightarrow>
          (if vg_ASN req \<le> 0 \<or> vg_ChallengeID req = [] \<or> vg_SignedMessage req = []
           then ret (Fail 400 ''bad_request'' ''ASN, challenge_id, and signed_message are required'')
           else do {
             ok \<leftarrow> checkIPRate (getClientIP rq) 10;
             if \<not> ok then ret (Fail 429 ''rate_limited'' ''Too many attempts from this IP'')
             else do {
               found \<leftarrow> GetGPGChallenge (vg_ChallengeID req) (vg_ASN req);
               case found of
                 Inl _ \<Rightarrow> ret (Fail 401 ''invalid_challenge'' ''Invalid or expired challenge'')
               | Inr ch \<Rightarrow>
                   (case decode_signed L (vg_SignedMessage req) (gc_Challenge ch) of
                      None \<Rightarrow> ret (Fail 400 ''invalid_signature''
                        ''Could not parse GPG signed message. Use: echo \"<challenge>\" | gpg --clearsign'')
                    | Some block \<Rightarrow>
                        (if trim_space (pb_Bytes block) \<noteq> trim_space (gc_Challenge ch)
                         then ret (Fail 401 ''invalid_signature'' ''Signed text does not match the challenge'')
                         else do {
                           v \<leftarrow> verifySignatureWithKeyring L block (gc_Fingerprints ch) (vg_PublicKey req);
                           case v of
                             Inl e \<Rightarrow> ret (Fail 401 ''invalid_signature'' e)
                           | Inr (fp, keySource) \<Rightarrow> do {
                               used \<leftarrow> MarkGPGChallengeUsed (vg_ChallengeID req);
                               if used \<noteq> Inr True then ret (Fail 401 ''invalid_challenge'' ''Challenge already used'')
                               else do {
                                 lookup \<leftarrow> LookupASNEmail (vg_ASN req);
                                 resp \<leftarrow> createUserSession L cfg rq (vg_ASN req) (or_empty lookup) ''gpg'';
                                 case resp of
                                   None \<Rightarrow> ret (Fail 500 ''internal_error'' ''Failed to generate token'')
                                 | Some a \<Rightarrow> do {
                                     audit_Log ''user.login_gpg'' (''AS'' @ show_int (vg_ASN req)) None
                                       [(''asn'', jint (vg_ASN req)), (''fingerprint'', JStr fp), (''key_source'', JStr keySource)];
                                     ret (Reply 200 a)
                                   }
                               }
                             }
                         }))
             }
           }))"

section \<open>Device authorization\<close>

record deviceCodeReq =
  dr_ClientName :: string
  dr_DeviceName :: string
  dr_Version :: string
  dr_Scopes :: "string list"

record deviceCodeResp =
  dc_DeviceCode :: string
  dc_UserCode :: string
  dc_VerificationURI :: string
  dc_VerificationURIComplete :: string
  dc_ExpiresIn :: int
  dc_Interval :: int

definition clip :: "nat \<Rightarrow> string \<Rightarrow> string" where
  "clip n s = (if length s > n then take n s else s)"

text \<open>\<^verbatim>\<open>url.QueryEscape\<close>\<close>

definition query_escape :: "string \<Rightarrow> string" where
  "query_escape s = concat (map (\<lambda>c.
     if is_alnum c \<or> c \<in> set ''-_.~'' then [c]
     else if c = CHR '' '' then ''+''
     else CHR ''%'' # to_upper (hex_encode [c])) s)"

definition DeviceCode :: "auth_config \<Rightarrow> http_request \<Rightarrow> deviceCodeReq option \<Rightarrow> deviceCodeResp reply M" where
  "DeviceCode cfg rq body = do {
     NoStore;
     ok \<leftarrow> checkIPRate (getClientIP rq) 20;
     if \<not> ok then ret (Fail 429 ''rate_limited'' ''Too many device authorization requests'')
     else case body of
       None \<Rightarrow> ret bad_json
     | Some req \<Rightarrow>
         (case normalizeDeviceScopes (dr_Scopes req) of
            Inl _ \<Rightarrow> ret (Fail 400 ''unsupported_scope'' ''Only one user or admin scope is supported'')
          | Inr scopes \<Rightarrow> do {
              dev \<leftarrow> generateDeviceCode (cfg_JWTSecret cfg);
              case dev of
                None \<Rightarrow> ret (Fail 500 ''internal_error'' ''Failed to generate device code'')
              | Some (deviceCode, deviceHash) \<Rightarrow> do {
                  usr \<leftarrow> generateDeviceUserCode (cfg_JWTSecret cfg);
                  case usr of
                    None \<Rightarrow> ret (Fail 500 ''internal_error'' ''Failed to generate user code'')
                  | Some (userCode, userHash) \<Rightarrow> do {
                      now \<leftarrow> time_now;
                      r \<leftarrow> CreateAuthDeviceGrant
                        \<lparr>g_ID = [], g_DeviceCodeHash = deviceHash, g_UserCodeHash = userHash,
                          g_ClientName = clip 80 (firstNonEmptyString [dr_ClientName req, ''autopeer-tui'']),
                          g_DeviceName = clip 120 (firstNonEmptyString [dr_DeviceName req, requestDeviceName rq]),
                          g_Version = clip 40 (trim_space (dr_Version req)), g_Scopes = scopes, g_Status = ''pending'',
                          g_ApprovedASN = None, g_ApprovedEmail = [], g_ApprovedBySessionID = None, g_ExchangedSessionID = None,
                          g_RequestIP = RealIP rq [], g_RequestUserAgent = UserAgent rq, g_ApproveIP = None, g_ApproveUserAgent = [],
                          g_PollCount = 0, g_LastPolledAt = None, g_NextPollAfter = None, g_CreatedAt = 0,
                          g_ExpiresAt = now + deviceGrantTTL, g_ApprovedAt = None, g_DeniedAt = None, g_ExchangedAt = None\<rparr>;
                      case r of
                        Inl _ \<Rightarrow> ret (Fail 500 ''internal_error'' ''Failed to store device authorization request'')
                      | Inr _ \<Rightarrow>
                          (let uri = frontendBaseURL rq cfg @ ''/cli/activate'' in
                           ret (Reply 200 \<lparr>dc_DeviceCode = deviceCode, dc_UserCode = userCode, dc_VerificationURI = uri,
                             dc_VerificationURIComplete = uri @ ''?user_code='' @ query_escape userCode,
                             dc_ExpiresIn = secs deviceGrantTTL, dc_Interval = secs devicePollInterval\<rparr>))
                    }
                }
            })
   }"

text \<open>The claims that may authorize a device, or the refusal.\<close>

definition deviceAuthorizeClaims :: "auth_lib \<Rightarrow> auth_config \<Rightarrow> int \<Rightarrow> http_request \<Rightarrow> (int \<times> string \<times> string) + Claims" where
  "deviceAuthorizeClaims L cfg now rq =
     (case ExtractClaims (al_jwt L) cfg now rq of
        None \<Rightarrow> Inl (401, ''unauthorized'', ''Invalid or missing token'')
      | Some c \<Rightarrow>
          (if c_Role c \<noteq> ''user'' \<and> c_Role c \<noteq> ''admin''
           then Inl (403, ''forbidden'', ''A user or admin session is required to authorize TUI devices'')
           else if c_LoginMethod c = ''impersonation'' \<or> c_ImpersonatedByAdminID c \<noteq> [] \<or> c_ParentSessionID c \<noteq> []
           then Inl (403, ''forbidden'', ''Impersonation sessions cannot authorize TUI devices'')
           else Inr c))"

definition deviceGrantAuthorizeForbidden :: "Claims \<Rightarrow> auth_device_grant \<Rightarrow> (int \<times> string \<times> string) option" where
  "deviceGrantAuthorizeForbidden c g =
     (if deviceGrantScope g = ''admin'' \<and> c_Role c \<noteq> ''admin''
      then Some (403, ''forbidden'', ''Only admin sessions can authorize admin TUI devices'')
      else if deviceGrantScope g = ''user'' \<and> c_Role c \<noteq> ''user''
      then Some (403, ''forbidden'', ''Only user sessions can authorize user TUI devices'')
      else None)"

definition fail :: "int \<times> string \<times> string \<Rightarrow> 'a reply" where
  "fail e = (case e of (st, code, msg) \<Rightarrow> Fail st code msg)"

record deviceRequestResp =
  dq_UserCode :: string
  dq_ClientName :: string
  dq_DeviceName :: string
  dq_Version :: string
  dq_Scopes :: "string list"
  dq_Status :: string
  dq_CreatedAt :: int
  dq_ExpiresAt :: int

definition device_not_found :: "'a reply" where
  "device_not_found = Fail 404 ''device_request_not_found'' ''Device authorization request not found or expired''"

definition DeviceRequest :: "auth_lib \<Rightarrow> auth_config \<Rightarrow> http_request \<Rightarrow> string \<Rightarrow> deviceRequestResp reply M" where
  "DeviceRequest L cfg rq userCode = do {
     NoStore;
     now \<leftarrow> time_now;
     case deviceAuthorizeClaims L cfg now rq of
       Inl e \<Rightarrow> ret (fail e)
     | Inr c \<Rightarrow>
         (let normalized = normalizeDeviceUserCode userCode in
          if \<not> validDeviceUserCode normalized then ret (Fail 400 ''bad_request'' ''Invalid device code'')
          else do {
            r \<leftarrow> GetAuthDeviceGrantByUserCodeHash (hashDeviceSecret (cfg_JWTSecret cfg) ''user'' normalized);
            case r of
              Inl _ \<Rightarrow> ret device_not_found
            | Inr g \<Rightarrow>
                (if now > g_ExpiresAt g then ret device_not_found
                 else case deviceGrantAuthorizeForbidden c g of
                   Some e \<Rightarrow> ret (fail e)
                 | None \<Rightarrow> ret (Reply 200 \<lparr>dq_UserCode = take 4 normalized @ ''-'' @ drop 4 normalized, dq_ClientName = g_ClientName g,
                     dq_DeviceName = g_DeviceName g, dq_Version = g_Version g, dq_Scopes = g_Scopes g, dq_Status = g_Status g,
                     dq_CreatedAt = g_CreatedAt g, dq_ExpiresAt = g_ExpiresAt g\<rparr>))
          })
   }"

definition DeviceAuthorize :: "auth_lib \<Rightarrow> auth_config \<Rightarrow> http_request \<Rightarrow> req_ctx \<Rightarrow> (string \<times> string) option \<Rightarrow> string reply M" where
  "DeviceAuthorize L cfg rq cx body = do {
     NoStore;
     now \<leftarrow> time_now;
     case deviceAuthorizeClaims L cfg now rq of
       Inl e \<Rightarrow> ret (fail e)
     | Inr c \<Rightarrow>
         (case body of
            None \<Rightarrow> ret bad_json
          | Some (userCode, dec) \<Rightarrow>
              (let normalized = normalizeDeviceUserCode userCode; d = to_lower (trim_space dec);
                   userCodeHash = hashDeviceSecret (cfg_JWTSecret cfg) ''user'' normalized in
               if \<not> validDeviceUserCode normalized then ret (Fail 400 ''bad_request'' ''Invalid device code'')
               else if d \<noteq> ''approve'' \<and> d \<noteq> ''deny'' \<and> d \<noteq> ''denied''
               then ret (Fail 400 ''bad_request'' ''Decision must be approve or deny'')
               else do {
                 r \<leftarrow> GetAuthDeviceGrantByUserCodeHash userCodeHash;
                 case r of
                   Inl _ \<Rightarrow> ret device_not_found
                 | Inr existing \<Rightarrow>
                     (if now > g_ExpiresAt existing then ret device_not_found
                      else case deviceGrantAuthorizeForbidden c existing of
                        Some e \<Rightarrow> ret (fail e)
                      | None \<Rightarrow> do {
                          let decision = (if d = ''approve'' then ''approved'' else ''denied'');
                          let approvedASN = (if deviceGrantScope existing = ''user'' then Some (GetASN cx) else None);
                          a \<leftarrow> AuthorizeAuthDeviceGrant userCodeHash decision approvedASN (GetEmail cx) (GetSessionID cx)
                                 (RealIP rq []) (UserAgent rq);
                          case a of
                            Inl _ \<Rightarrow> ret (Fail 409 ''device_request_inactive'' ''Device authorization request is not pending or has expired'')
                          | Inr g \<Rightarrow> do {
                              audit_Log ''auth.device_authorize''
                                (if c_Role c = ''user'' then ''AS'' @ show_int (GetASN cx) else GetEmail cx) None
                                [(''grant_id'', JStr (g_ID g)), (''decision'', JStr decision), (''client'', JStr (g_ClientName g)),
                                 (''device'', JStr (g_DeviceName g)), (''scope'', JStr (deviceGrantScope g))];
                              ret (Reply 200 (g_Status g))
                            }
                        })
               }))
   }"

definition device_name_of :: "auth_device_grant \<Rightarrow> string" where
  "device_name_of g = (let d = trim_space (g_DeviceName g) in if d = [] then ''AutoPeer TUI'' else d)"

definition createDeviceUserSession :: "auth_lib \<Rightarrow> auth_config \<Rightarrow> http_request \<Rightarrow> auth_device_grant \<Rightarrow> authResponse option M" where
  "createDeviceUserSession L cfg rq g =
     (case g_ApprovedASN g of
        None \<Rightarrow> ret None
      | Some asn \<Rightarrow>
          (if g_ApprovedEmail g = [] then ret None
           else do {
             tok \<leftarrow> generateRefreshToken;
             case tok of
               None \<Rightarrow> ret None
             | Some (rawRefresh, refreshHash) \<Rightarrow> do {
                 now \<leftarrow> time_now;
                 r \<leftarrow> ExchangeAuthDeviceGrant (g_DeviceCodeHash g)
                        (new_session ''user'' (Some asn) None None (g_ApprovedEmail g) refreshHash rq (device_name_of g) ''device_cli''
                          (now + cfg_UserRefreshTokenTTL cfg));
                 case r of
                   Inl _ \<Rightarrow> ret None
                 | Inr (_, session) \<Rightarrow> do {
                     token \<leftarrow> SignUserSessionJWT (al_jwt L) cfg asn (g_ApprovedEmail g) (s_ID session) ''device_cli'' (cfg_UserAccessTokenTTL cfg);
                     case token of
                       None \<Rightarrow> ret None
                     | Some t \<Rightarrow> do {
                         setRefreshCookie rq rawRefresh (secs (cfg_UserRefreshTokenTTL cfg));
                         ret (Some \<lparr>ar_Token = t, ar_AccessToken = t, ar_ExpiresIn = secs (cfg_UserAccessTokenTTL cfg),
                           ar_RefreshExpiresIn = secs (cfg_UserRefreshTokenTTL cfg), ar_ASN = asn, ar_Session = session,
                           ar_User = Some \<lparr>au_Role = ''user'', au_ASN = Some asn, au_Email = g_ApprovedEmail g\<rparr>\<rparr>)
                       }
                   }
               }
           }))"

definition createDeviceAdminSession :: "auth_lib \<Rightarrow> auth_config \<Rightarrow> http_request \<Rightarrow> auth_device_grant \<Rightarrow> authResponse option M" where
  "createDeviceAdminSession L cfg rq g =
     (case g_ApprovedBySessionID g of
        None \<Rightarrow> ret None
      | Some sid \<Rightarrow>
          (if g_ApprovedEmail g = [] then ret None
           else do {
             ap \<leftarrow> GetAuthSession sid;
             now \<leftarrow> time_now;
             case ap of
               Inl _ \<Rightarrow> ret None
             | Inr approver \<Rightarrow>
                 (case s_AdminID approver of
                    None \<Rightarrow> ret None
                  | Some adminID \<Rightarrow>
                      (if s_SubjectType approver \<noteq> ''admin'' \<or> session_inactive now approver then ret None
                       else do {
                         tok \<leftarrow> generateRefreshToken;
                         case tok of
                           None \<Rightarrow> ret None
                         | Some (rawRefresh, refreshHash) \<Rightarrow> do {
                             r \<leftarrow> ExchangeAuthDeviceGrant (g_DeviceCodeHash g)
                                    (new_session ''admin'' None (Some adminID) None (s_Email approver) refreshHash rq (device_name_of g)
                                      ''device_cli'' (now + cfg_AdminRefreshTokenTTL cfg));
                             case r of
                               Inl _ \<Rightarrow> ret None
                             | Inr (_, session) \<Rightarrow> do {
                                 token \<leftarrow> SignAdminSessionJWT (al_jwt L) cfg adminID (s_Email approver) (s_ID session) (cfg_AdminAccessTokenTTL cfg);
                                 case token of
                                   None \<Rightarrow> ret None
                                 | Some t \<Rightarrow> do {
                                     setRefreshCookie rq rawRefresh (secs (cfg_AdminRefreshTokenTTL cfg));
                                     ret (Some \<lparr>ar_Token = t, ar_AccessToken = t, ar_ExpiresIn = secs (cfg_AdminAccessTokenTTL cfg),
                                       ar_RefreshExpiresIn = secs (cfg_AdminRefreshTokenTTL cfg), ar_ASN = 0, ar_Session = session,
                                       ar_User = Some \<lparr>au_Role = ''admin'', au_ASN = None, au_Email = s_Email approver\<rparr>\<rparr>)
                                   }
                               }
                           }
                       }))
           }))"

definition DeviceToken :: "auth_lib \<Rightarrow> auth_config \<Rightarrow> http_request \<Rightarrow> (string \<times> string) option \<Rightarrow> authResponse reply M" where
  "DeviceToken L cfg rq body = do {
     NoStore;
     ok \<leftarrow> checkIPRate (getClientIP rq) 60;
     if \<not> ok then do {
       set_header ''Retry-After'' (show_int (2 * secs devicePollInterval));
       ret (Fail 429 ''slow_down'' ''Slow down device authorization polling'')
     }
     else case body of
       None \<Rightarrow> ret bad_json
     | Some (grantType, deviceCode) \<Rightarrow>
         (if grantType \<noteq> ''urn:ietf:params:oauth:grant-type:device_code'' \<or> trim_space deviceCode = []
          then ret (Fail 400 ''unsupported_grant_type'' ''Invalid device authorization grant'')
          else do {
            r \<leftarrow> PollAuthDeviceGrant (hashDeviceSecret (cfg_JWTSecret cfg) ''device'' (trim_space deviceCode)) devicePollInterval;
            now \<leftarrow> time_now;
            case r of
              Inl _ \<Rightarrow> ret (Fail 400 ''expired_token'' ''Invalid or expired device code'')
            | Inr g \<Rightarrow>
                (if now > g_ExpiresAt g then ret (Fail 400 ''expired_token'' ''Device code expired'')
                 else if g_Status g = ''pending'' then ret (Fail 400 ''authorization_pending'' ''Authorization is still pending'')
                 else if g_Status g = ''denied'' then ret (Fail 400 ''access_denied'' ''Device authorization was denied'')
                 else if g_Status g = ''exchanged'' then ret (Fail 400 ''expired_token'' ''Device code was already exchanged'')
                 else if g_Status g = ''approved'' then do {
                   resp \<leftarrow> (if deviceGrantScope g = ''admin'' then createDeviceAdminSession L cfg rq g else createDeviceUserSession L cfg rq g);
                   case resp of
                     None \<Rightarrow> ret (Fail 401 ''expired_token'' ''Device code could not be exchanged'')
                   | Some a \<Rightarrow> do {
                       audit_Log ''auth.device_exchange''
                         (case ar_User a of
                            Some u \<Rightarrow> if au_Role u = ''user'' then ''AS'' @ show_int (ar_ASN a) else au_Email u
                          | None \<Rightarrow> []) None
                         [(''grant_id'', JStr (g_ID g)), (''session'', JStr (s_ID (ar_Session a))), (''client'', JStr (g_ClientName g)),
                          (''device'', JStr (g_DeviceName g)), (''scope'', JStr (deviceGrantScope g))];
                       ret (Reply 200 a)
                     }
                 }
                 else ret (Fail 400 ''expired_token'' ''Device authorization request is inactive''))
          })
   }"

section \<open>Impersonation\<close>

definition AdminLoginAs :: "auth_lib \<Rightarrow> auth_config \<Rightarrow> http_request \<Rightarrow> req_ctx \<Rightarrow> (int \<times> bool) option \<Rightarrow> authResponse reply M" where
  "AdminLoginAs L cfg rq cx body =
     (if GetAdminID cx = [] \<or> GetSessionID cx = []
      then ret (Fail 401 ''session_required'' ''Session-backed admin login is required'')
      else case body of
        None \<Rightarrow> ret bad_json
      | Some (asn, persist) \<Rightarrow>
          (if asn \<le> 0 then ret (Fail 400 ''bad_request'' ''Invalid ASN'')
           else do {
             lookup \<leftarrow> LookupASNEmail asn;
             case lookup of
               None \<Rightarrow> ret (Fail 404 ''asn_not_found'' ''ASN not found in DN42 registry'')
             | Some email \<Rightarrow> do {
                 resp \<leftarrow> createImpersonationSession L cfg rq asn email (GetAdminID cx) (GetSessionID cx) persist;
                 case resp of
                   None \<Rightarrow> ret (Fail 500 ''internal_error'' ''Failed to generate token'')
                 | Some a \<Rightarrow> do {
                     audit_Log ''admin.login_as'' (GetEmail cx) None [(''asn'', jint asn), (''email'', JStr (MaskEmail email))];
                     ret (Reply 200 a)
                   }
               }
           }))"

section \<open>Refresh and logout\<close>

text \<open>The access token for a session that is being refreshed: refusal, or the signed token with its life
  time and the life time of the cookie.\<close>

definition refresh_token_for ::
  "auth_lib \<Rightarrow> auth_config \<Rightarrow> auth_session \<Rightarrow> (int \<times> string \<times> string) + ((string option \<times> int \<times> int) M)" where
  "refresh_token_for L cfg s =
     (if s_SubjectType s = ''admin'' then
        (case s_AdminID s of
           None \<Rightarrow> Inl (401, ''unauthorized'', ''Invalid admin session'')
         | Some a \<Rightarrow> Inr (do {
             t \<leftarrow> SignAdminSessionJWT (al_jwt L) cfg a (s_Email s) (s_ID s) (cfg_AdminAccessTokenTTL cfg);
             ret (t, secs (cfg_AdminAccessTokenTTL cfg), cfg_AdminRefreshTokenTTL cfg) }))
      else if s_SubjectType s = ''user'' then
        (case s_ASN s of
           None \<Rightarrow> Inl (401, ''unauthorized'', ''Invalid user session'')
         | Some a \<Rightarrow> Inr (do {
             t \<leftarrow> SignUserSessionJWT (al_jwt L) cfg a (s_Email s) (s_ID s) (s_LoginMethod s) (cfg_UserAccessTokenTTL cfg);
             ret (t, secs (cfg_UserAccessTokenTTL cfg), cfg_UserRefreshTokenTTL cfg) }))
      else if s_SubjectType s = ''impersonation'' then
        (case (s_ASN s, s_AdminID s, s_ParentSessionID s) of
           (Some a, Some adm, Some p) \<Rightarrow> Inr (do {
             t \<leftarrow> SignImpersonationJWT (al_jwt L) cfg a (s_Email s) (s_ID s) adm p;
             ret (t, secs (cfg_ImpersonationTokenTTL cfg), cfg_ImpersonationTokenTTL cfg) })
         | _ \<Rightarrow> Inl (401, ''unauthorized'', ''Invalid impersonation session''))
      else Inl (401, ''unauthorized'', ''Session cannot be refreshed''))"

definition refresh_user :: "auth_session \<Rightarrow> authUserResponse option" where
  "refresh_user s =
     (if s_SubjectType s = ''admin'' then Some \<lparr>au_Role = ''admin'', au_ASN = None, au_Email = s_Email s\<rparr>
      else if s_SubjectType s = ''user'' \<or> s_SubjectType s = ''impersonation''
      then Some \<lparr>au_Role = ''user'', au_ASN = s_ASN s, au_Email = s_Email s\<rparr> else None)"

definition refresh_reuse :: "http_request \<Rightarrow> string \<Rightarrow> unit M" where
  "refresh_reuse rq oldHash = do {
     r \<leftarrow> GetAuthSessionByPreviousRefreshHash oldHash;
     case r of
       Inl _ \<Rightarrow> ret ()
     | Inr reused \<Rightarrow> do {
         _ \<leftarrow> RevokeAuthSession (s_ID reused) ''refresh_reuse_detected'';
         _ \<leftarrow> RevokeChildAuthSessions (s_ID reused) ''refresh_reuse_detected'';
         audit_Log ''auth.refresh_reuse'' (s_ID reused) None
           [(''session_id'', JStr (s_ID reused)), (''ip'', JStr (RealIP rq [])), (''user_agent'', JStr (UserAgent rq))]
       }
   }"

definition Refresh :: "auth_lib \<Rightarrow> auth_config \<Rightarrow> http_request \<Rightarrow> authResponse reply M" where
  "Refresh L cfg rq =
     (let cookie = or_empty (rq_Cookie rq ''refresh_token''); oldHash = hashRefreshToken cookie in
      if trim_space cookie = [] then ret (Fail 401 ''unauthorized'' ''Missing refresh token'')
      else do {
        found \<leftarrow> GetAuthSessionByRefreshHash oldHash;
        case found of
          Inl _ \<Rightarrow> do {
            refresh_reuse rq oldHash;
            clearRefreshCookie rq;
            ret (Fail 401 ''unauthorized'' ''Invalid refresh token'')
          }
        | Inr session \<Rightarrow> do {
            tok \<leftarrow> generateRefreshToken;
            case tok of
              None \<Rightarrow> ret (Fail 500 ''internal_error'' ''Failed to rotate token'')
            | Some (rawRefresh, newHash) \<Rightarrow>
                (case refresh_token_for L cfg session of
                   Inl e \<Rightarrow> ret (fail e)
                 | Inr sign \<Rightarrow> do {
                     (token, expiresIn, refreshTTL) \<leftarrow> sign;
                     case token of
                       None \<Rightarrow> ret (Fail 500 ''internal_error'' ''Failed to generate token'')
                     | Some t \<Rightarrow> do {
                         ok \<leftarrow> RotateAuthSessionRefresh (s_ID session) oldHash newHash;
                         if ok \<noteq> Inr True then do {
                           clearRefreshCookie rq;
                           ret (Fail 401 ''unauthorized'' ''Refresh token was already used'')
                         } else do {
                           setRefreshCookie rq rawRefresh (secs refreshTTL);
                           again \<leftarrow> GetAuthSession (s_ID session);
                           now \<leftarrow> time_now;
                           let s = (case again of Inl _ \<Rightarrow> session | Inr x \<Rightarrow> x);
                           ret (Reply 200 \<lparr>ar_Token = t, ar_AccessToken = t, ar_ExpiresIn = expiresIn,
                             ar_RefreshExpiresIn = secs (s_ExpiresAt s - now), ar_ASN = (case s_ASN s of Some a \<Rightarrow> a | None \<Rightarrow> 0),
                             ar_Session = s, ar_User = refresh_user s\<rparr>)
                         }
                       }
                   })
          }
      })"

definition Logout :: "http_request \<Rightarrow> req_ctx \<Rightarrow> unit reply M" where
  "Logout rq cx =
     (let sid = GetSessionID cx in
      if sid = [] then do { clearRefreshCookie rq; ret (Reply 200 ()) }
      else do {
        s \<leftarrow> GetAuthSession sid;
        (if (case s of Inl _ \<Rightarrow> False | Inr x \<Rightarrow> s_SubjectType x = ''impersonation'' \<and> s_ParentSessionID x \<noteq> None)
         then do { _ \<leftarrow> RevokeAuthSession sid ''impersonation_logout''; ret () }
         else do {
           _ \<leftarrow> RevokeAuthSession sid ''logout'';
           _ \<leftarrow> RevokeChildAuthSessions sid ''parent_logout'';
           clearRefreshCookie rq
         });
        ret (Reply 200 ())
      })"

section \<open>Devices\<close>

definition session_required :: "'a reply" where
  "session_required = Fail 401 ''session_required'' ''Session-backed login is required''"

definition impersonating :: "auth_lib \<Rightarrow> auth_config \<Rightarrow> int \<Rightarrow> http_request \<Rightarrow> bool" where
  "impersonating L cfg now rq =
     (case ExtractClaims (al_jwt L) cfg now rq of None \<Rightarrow> False | Some c \<Rightarrow> c_LoginMethod c = ''impersonation'')"

definition with_own_devices :: "auth_lib \<Rightarrow> auth_config \<Rightarrow> http_request \<Rightarrow> req_ctx \<Rightarrow> 'a reply M \<Rightarrow> 'a reply M" where
  "with_own_devices L cfg rq cx m =
     (if GetSessionID cx = [] then ret session_required
      else do {
        now \<leftarrow> time_now;
        if impersonating L cfg now rq then ret (Fail 403 ''forbidden'' ''Impersonation sessions cannot manage user devices'') else m
      })"

definition ListUserDevices :: "auth_lib \<Rightarrow> auth_config \<Rightarrow> http_request \<Rightarrow> req_ctx \<Rightarrow> auth_session list reply M" where
  "ListUserDevices L cfg rq cx = with_own_devices L cfg rq cx (do {
     r \<leftarrow> ListUserAuthSessions (GetASN cx);
     ret (case r of Inl _ \<Rightarrow> Fail 500 ''internal_error'' ''Failed to list devices'' | Inr ss \<Rightarrow> Reply 200 ss)
   })"

definition device_missing :: "'a reply" where
  "device_missing = Fail 404 ''device_not_found'' ''Device not found''"

definition RevokeUserDevice :: "auth_lib \<Rightarrow> auth_config \<Rightarrow> http_request \<Rightarrow> req_ctx \<Rightarrow> string \<Rightarrow> unit reply M" where
  "RevokeUserDevice L cfg rq cx i = with_own_devices L cfg rq cx (do {
     s \<leftarrow> GetAuthSession i;
     case s of
       Inl _ \<Rightarrow> ret device_missing
     | Inr session \<Rightarrow>
         (if s_ASN session \<noteq> Some (GetASN cx) \<or> s_SubjectType session \<noteq> ''user'' then ret device_missing
          else do {
            r \<leftarrow> RevokeAuthSession i ''user_revoked'';
            case r of
              Inl _ \<Rightarrow> ret (Fail 500 ''internal_error'' ''Failed to revoke device'')
            | Inr _ \<Rightarrow> do {
                (if i = GetSessionID cx then clearRefreshCookie rq else ret ());
                ret (Reply 200 ())
              }
          })
   })"

fun revoke_others :: "string \<Rightarrow> auth_session list \<Rightarrow> unit M" where
  "revoke_others current [] = ret ()"
| "revoke_others current (s # ss) = do {
     (if s_ID s = current then ret () else do { _ \<leftarrow> RevokeAuthSession (s_ID s) ''user_revoked_other''; ret () });
     revoke_others current ss
   }"

definition RevokeOtherUserDevices :: "auth_lib \<Rightarrow> auth_config \<Rightarrow> http_request \<Rightarrow> req_ctx \<Rightarrow> unit reply M" where
  "RevokeOtherUserDevices L cfg rq cx = with_own_devices L cfg rq cx (do {
     r \<leftarrow> ListUserAuthSessions (GetASN cx);
     case r of
       Inl _ \<Rightarrow> ret (Fail 500 ''internal_error'' ''Failed to list devices'')
     | Inr ss \<Rightarrow> do { revoke_others (GetSessionID cx) ss; ret (Reply 200 ()) }
   })"

definition ListAdminDevices :: "req_ctx \<Rightarrow> auth_session list reply M" where
  "ListAdminDevices cx =
     (if GetSessionID cx = [] then ret session_required
      else do {
        r \<leftarrow> ListAdminAuthSessions (GetAdminID cx);
        ret (case r of Inl _ \<Rightarrow> Fail 500 ''internal_error'' ''Failed to list devices'' | Inr ss \<Rightarrow> Reply 200 ss)
      })"

definition RevokeAdminDevice :: "http_request \<Rightarrow> req_ctx \<Rightarrow> string \<Rightarrow> unit reply M" where
  "RevokeAdminDevice rq cx i =
     (if GetSessionID cx = [] then ret session_required
      else do {
        s \<leftarrow> GetAuthSession i;
        case s of
          Inl _ \<Rightarrow> ret device_missing
        | Inr session \<Rightarrow>
            (if s_AdminID session \<noteq> Some (GetAdminID cx) \<or> s_SubjectType session \<noteq> ''admin'' then ret device_missing
             else do {
               r \<leftarrow> RevokeAuthSession i ''admin_revoked'';
               case r of
                 Inl _ \<Rightarrow> ret (Fail 500 ''internal_error'' ''Failed to revoke device'')
               | Inr _ \<Rightarrow> do {
                   _ \<leftarrow> RevokeChildAuthSessions i ''parent_revoked'';
                   (if i = GetSessionID cx then clearRefreshCookie rq else ret ());
                   ret (Reply 200 ())
                 }
             })
      })"

section \<open>Public information\<close>

definition GetTurnstileConfig :: "auth_config \<Rightarrow> (bool \<times> string) reply M" where
  "GetTurnstileConfig cfg = ret (Reply 200 (cfg_TurnstileSiteKey cfg \<noteq> [] \<and> cfg_TurnstileSecretKey cfg \<noteq> [], cfg_TurnstileSiteKey cfg))"

definition LoginStatus :: "bool reply M" where
  "LoginStatus = do { v \<leftarrow> GetSiteSettingValue ''user_login_enabled''; ret (Reply 200 (v = ''true'')) }"

end
