(* ===== verification/Session.thy ===== *)
theory Session
  imports AuthFlows
begin

text \<open>
  How the authentication tables change over time. Every handler of \<open>AuthFlows\<close> is shown to stay within
  the relation \<open>auth_step\<close>: session rows keep their subject and expiry and stay revoked once revoked,
  login codes forget no failure, device grants are decided and exchanged once, and the keys of the
  session table stay unique. \<open>auth_run\<close> chains requests; the properties of the login, refresh and
  device flows are at the end.
\<close>


section \<open>How operations change the authentication tables\<close>

text \<open>\<open>steps R m\<close>: one run of \<open>m\<close> relates the state before to the state after by \<open>R\<close>.\<close>

definition steps :: "(world \<Rightarrow> world \<Rightarrow> bool) \<Rightarrow> 'a M \<Rightarrow> bool" where
  "steps R m \<longleftrightarrow> (\<forall>w. R w (snd (run_state m w)))"

text \<open>What an operation without effect on the authentication tables leaves as it was.\<close>

definition calm :: "world \<Rightarrow> world \<Rightarrow> bool" where
  "calm w w' \<longleftrightarrow> w_auth w' = w_auth w \<and> w_now w' = w_now w \<and> (nofault w \<longrightarrow> nofault w')"

text \<open>Relations that such operations stay within, and that chain.\<close>

definition auth_rel :: "(world \<Rightarrow> world \<Rightarrow> bool) \<Rightarrow> bool" where
  "auth_rel R \<longleftrightarrow> (\<forall>w w'. calm w w' \<longrightarrow> R w w') \<and> transp R"

named_theorems steps_intros \<open>operations that stay within a relation\<close>

lemma auth_relD: "auth_rel R \<Longrightarrow> calm w w' \<Longrightarrow> R w w'"
  by (simp add: auth_rel_def)

lemma calm_rel: "auth_rel calm"
  by (auto simp: auth_rel_def calm_def transp_def)

lemma calm_db_next: "calm w (db_next w)"
  by (simp add: calm_def nofault_next)

lemma calm_upd [simp]:
  "calm w (w'\<lparr>w_cookies := a\<rparr>) = calm w w'" "calm w (w'\<lparr>w_headers := b\<rparr>) = calm w w'" "calm w (w'\<lparr>w_cache := c\<rparr>) = calm w w'"
  "calm w (w'\<lparr>w_rand := d\<rparr>) = calm w w'" "calm w (w'\<lparr>w_uuids := e\<rparr>) = calm w w'" "calm w (w'\<lparr>w_audit := f\<rparr>) = calm w w'"
  "calm w (w'\<lparr>w_out := g\<rparr>) = calm w w'" "calm w w"
  by (simp_all add: calm_def nofault_def)

lemma steps_quiet: "auth_rel R \<Longrightarrow> (\<And>w. calm w (snd (run_state m w))) \<Longrightarrow> steps R m"
  by (simp add: steps_def auth_relD)

lemma steps_return [steps_intros]: "auth_rel R \<Longrightarrow> steps R (ret x)"
  by (rule steps_quiet) simp_all

lemma steps_bind [steps_intros]:
  assumes "auth_rel R" "steps R m" "\<And>x. steps R (f x)"
  shows "steps R (State_Monad.bind m f)"
  using assms by (auto simp: steps_def auth_rel_def split: prod.splits) (metis snd_conv transpD)

lemma steps_if [steps_intros]: "(b \<Longrightarrow> steps R m) \<Longrightarrow> (\<not> b \<Longrightarrow> steps R n) \<Longrightarrow> steps R (if b then m else n)"
  by simp

lemma steps_sum [steps_intros]:
  "(\<And>x. s = Inl x \<Longrightarrow> steps R (f x)) \<Longrightarrow> (\<And>x. s = Inr x \<Longrightarrow> steps R (g x)) \<Longrightarrow> steps R (case s of Inl x \<Rightarrow> f x | Inr x \<Rightarrow> g x)"
  by (cases s) auto

lemma steps_option [steps_intros]:
  "(s = None \<Longrightarrow> steps R m) \<Longrightarrow> (\<And>x. s = Some x \<Longrightarrow> steps R (g x)) \<Longrightarrow> steps R (case s of None \<Rightarrow> m | Some x \<Rightarrow> g x)"
  by (cases s) auto

lemma steps_prod [steps_intros]: "(\<And>x y. s = (x, y) \<Longrightarrow> steps R (f x y)) \<Longrightarrow> steps R (case s of (x, y) \<Rightarrow> f x y)"
  by (cases s) auto

lemma steps_list [steps_intros]:
  "(s = [] \<Longrightarrow> steps R m) \<Longrightarrow> (\<And>x xs. s = x # xs \<Longrightarrow> steps R (g x xs)) \<Longrightarrow> steps R (case s of [] \<Rightarrow> m | x # xs \<Rightarrow> g x xs)"
  by (cases s) auto

lemma steps_let [steps_intros]: "(\<And>x. steps R (f x)) \<Longrightarrow> steps R (let x = a in f x)"
  by simp

lemma quiet_auth [steps_intros]:
  assumes "auth_rel R"
  shows "steps R (gets f)" "steps R (db_read g)" "steps R time_now" "steps R (set_header k v)" "steps R (setRefreshCookie rq t a)"
    "steps R (cache_read dec b key)" "steps R (cache_write b key j ttl)" "steps R rand_read" "steps R (rand_int n)" "steps R new_uuid"
    "steps R (audit_Log a1 a2 a3 a4)" "steps R (LookupASNEmail asn)" "steps R (LookupMntnerGPGFingerprints asn)"
    "steps R (FetchGPGPublicKey fp)" "steps R (notify n')" "steps R (gpgAvailable asn)"
  by (rule steps_quiet [OF assms],
      auto simp: time_now_def set_header_def setRefreshCookie_def cache_read_def cache_write_def rand_read_def rand_int_def new_uuid_def
        fresh_uuid_def audit_Log_def run_db_write LookupASNEmail_def LookupMntnerGPGFingerprints_def FetchGPGPublicKey_def notify_def
        gpgAvailable_def calm_db_next split: prod.splits list.splits)+


lemma quiet_settings [steps_intros]:
  assumes R: "auth_rel R"
  shows "steps R (cached_setting pre tbl key)" "steps R (GetSettingValue key)" "steps R (GetSiteSettingValue key)"
proof -
  show c: "steps R (cached_setting pre tbl key)" for pre tbl key
    unfolding cached_setting_def
    by (intro steps_intros R steps_quiet; (auto split: prod.splits)?)
  show "steps R (GetSettingValue key)" "steps R (GetSiteSettingValue key)"
    by (simp_all add: GetSettingValue_def GetSiteSettingValue_def c)
qed

lemma quiet_reads [steps_intros]:
  assumes R: "auth_rel R"
  shows "steps R (GetLatestValidLoginCode asn)" "steps R (GetGPGChallenge i asn)" "steps R (GetAuthSession i)"
    "steps R (GetAuthSessionByRefreshHash h)" "steps R (GetAuthSessionByPreviousRefreshHash h)" "steps R (ListUserAuthSessions asn)"
    "steps R (ListAdminAuthSessions adm)" "steps R (admins_GetByEmail e)" "steps R (GetAuthDeviceGrantByUserCodeHash h)"
    "steps R (GetEmailLevel asn)" "steps R (ListNotificationPreferences asn ch)" "steps R (GetNotificationPreferenceState asn)"
    "steps R (bindings_GetByASN asn)" "steps R (GetUserKeyByHash h)" "steps R (GetAdminKeyByHash h)"
  unfolding GetLatestValidLoginCode_def GetGPGChallenge_def GetAuthSession_def GetAuthSessionByRefreshHash_def
    GetAuthSessionByPreviousRefreshHash_def ListUserAuthSessions_def ListAdminAuthSessions_def admins_GetByEmail_def
    GetAuthDeviceGrantByUserCodeHash_def GetEmailLevel_def ListNotificationPreferences_def GetNotificationPreferenceState_def
    bindings_GetByASN_def GetUserKeyByHash_def GetAdminKeyByHash_def
  by (rule quiet_auth [OF R])+

lemma quiet_draw_letters [steps_intros]: "auth_rel R \<Longrightarrow> steps R (draw_letters n)"
  by (induction n) (auto intro!: steps_intros)

lemma quiet_fetch_keyring [steps_intros]: "auth_rel R \<Longrightarrow> steps R (fetch_keyring L fps)"
  by (induction fps) (auto intro!: steps_intros)

lemma quiet_helpers [steps_intros]:
  assumes R: "auth_rel R"
  shows "steps R (clearRefreshCookie rq)" "steps R NoStore" "steps R (checkIPRate ip n)" "steps R (recently key d)" "steps R (mark_now key)"
    "steps R generateCode" "steps R generateRefreshToken" "steps R (generateDeviceCode sec)" "steps R (generateDeviceUserCode sec)"
    "steps R (verifySignatureWithKeyring L blk fps pk)"
  unfolding clearRefreshCookie_def NoStore_def checkIPRate_def recently_def mark_now_def generateCode_def generateRefreshToken_def
    generateDeviceCode_def generateDeviceUserCode_def verifySignatureWithKeyring_def
  by (intro steps_intros R)+

lemma quiet_sign [steps_intros]:
  assumes R: "auth_rel R"
  shows "steps R (sign_claims J cfg c ttl)" "steps R (SignUserSessionJWT J cfg asn e sid lm ttl)" "steps R (SignUserJWT J cfg asn e)"
    "steps R (SignAdminSessionJWT J cfg adm e sid ttl)" "steps R (SignAdminJWT J cfg adm e)"
    "steps R (SignImpersonationJWT J cfg asn e sid adm par)"
proof -
  show s: "steps R (sign_claims J cfg c ttl)" for c ttl
    unfolding sign_claims_def by (intro steps_intros R)
  show "steps R (SignUserSessionJWT J cfg asn e sid lm ttl)" "steps R (SignUserJWT J cfg asn e)"
    "steps R (SignAdminSessionJWT J cfg adm e sid ttl)" "steps R (SignAdminJWT J cfg adm e)"
    "steps R (SignImpersonationJWT J cfg asn e sid adm par)"
    by (simp_all add: SignUserSessionJWT_def SignUserJWT_def SignAdminSessionJWT_def SignAdminJWT_def SignImpersonationJWT_def s)
qed

lemma quiet_gate [steps_intros]:
  assumes R: "auth_rel R"
  shows "steps R (IsNotificationEnabledForASN asn key)" "steps R (send_gated smtp n to asn tm)" "steps R (SendVerificationCode smtp to asn code)"
proof -
  show i: "steps R (IsNotificationEnabledForASN asn key)" for asn key
    unfolding IsNotificationEnabledForASN_def by (intro steps_intros R)
  show g: "steps R (send_gated smtp n to asn tm)" for n to asn tm
    unfolding send_gated_def by (intro steps_intros R i)
  show "steps R (SendVerificationCode smtp to asn code)"
    unfolding SendVerificationCode_def by (rule g)
qed

lemma steps_login_enabled [steps_intros]: "auth_rel R \<Longrightarrow> steps R m \<Longrightarrow> steps R (with_login_enabled m)"
  unfolding with_login_enabled_def by (intro steps_intros)

lemma steps_own_devices [steps_intros]: "auth_rel R \<Longrightarrow> steps R m \<Longrightarrow> steps R (with_own_devices L cfg rq cx m)"
  unfolding with_own_devices_def by (intro steps_intros)

lemma steps_db_write:
  assumes R: "auth_rel R" and "\<And>w x w'. f w = Inr (x, w') \<Longrightarrow> R w w'"
  shows "steps R (db_write f)"
proof -
  have "R w (snd (run_state (db_write f) w))" for w
  proof -
    have n: "R w (db_next w)" by (rule auth_relD [OF R calm_db_next])
    have "R (db_next w) w'" if "f (db_next w) = Inr (x, w')" for x w' using assms(2) that .
    moreover have "R w b" if "R (db_next w) b" for b
      using R n that unfolding auth_rel_def by (metis transpD)
    ultimately show ?thesis using n by (auto simp: run_db_write split: sum.splits)
  qed
  then show ?thesis by (simp add: steps_def)
qed


section \<open>Tables that grow\<close>

text \<open>A table after some operations: the rows of before, each changed within \<open>P\<close>, and new rows behind them.\<close>

definition grows :: "('r \<Rightarrow> 'r \<Rightarrow> bool) \<Rightarrow> 'r list \<Rightarrow> 'r list \<Rightarrow> bool" where
  "grows P a b \<longleftrightarrow> (\<exists>old new. b = old @ new \<and> list_all2 P a old)"

lemma grows_refl: "(\<And>x. P x x) \<Longrightarrow> grows P a a"
  unfolding grows_def by (rule exI [of _ a], rule exI [of _ "[]"]) (simp add: list.rel_refl)

lemma grows_snoc: "(\<And>x. P x x) \<Longrightarrow> grows P a (a @ b)"
  unfolding grows_def by (rule exI [of _ a], rule exI [of _ b]) (simp add: list.rel_refl)

lemma grows_upd: "(\<And>x. P x x) \<Longrightarrow> (\<And>x. Q x \<Longrightarrow> P x (f x)) \<Longrightarrow> grows P a (upd Q f a)"
  unfolding grows_def by (rule exI [of _ "upd Q f a"], rule exI [of _ "[]"]) (auto simp: upd_def list_all2_conv_all_nth)

lemma grows_trans:
  assumes P: "\<And>x y z. P x y \<Longrightarrow> P y z \<Longrightarrow> P x z" and "grows P a b" "grows P b c"
  shows "grows P a c"
proof -
  obtain o1 n1 o2 n2 where s: "b = o1 @ n1" "list_all2 P a o1" "c = o2 @ n2" "list_all2 P b o2"
    using assms(2,3) unfolding grows_def by blast
  then obtain p q where o2: "o2 = p @ q" "list_all2 P o1 p" "list_all2 P n1 q"
    by (metis list_all2_append1)
  have "list_all2 P a p" using list_all2_trans [OF P s(2) o2(2)] .
  then show ?thesis unfolding grows_def using s(3) o2(1) by auto
qed

lemma grows_find:
  assumes "grows P a b" "find Q a = Some x" "\<And>x y. P x y \<Longrightarrow> Q y = Q x"
  shows "\<exists>y. find Q b = Some y \<and> P x y"
proof -
  obtain old new where o: "b = old @ new" "list_all2 P a old" using assms(1) unfolding grows_def by blast
  show ?thesis using o(2) assms(2) unfolding o(1)
    by (induction rule: list_all2_induct) (auto simp: assms(3) split: if_splits)
qed

lemma grows_all:
  assumes "grows P a b" "x \<in> set a"
  shows "\<exists>y \<in> set b. P x y"
proof -
  obtain old new where o: "b = old @ new" "list_all2 P a old" using assms(1) unfolding grows_def by blast
  have "\<exists>y \<in> set old. P x y" using o(2) assms(2) by (induction rule: list_all2_induct) auto
  then show ?thesis using o(1) by auto
qed

section \<open>The session tables\<close>

text \<open>The keys of the session table: identifiers and refresh hashes are unique, subjects pass the check of
  the table, and parents exist.\<close>

definition sessions_ok :: "auth_session list \<Rightarrow> bool" where
  "sessions_ok ss \<longleftrightarrow> distinct (map s_ID ss)
     \<and> (\<forall>s \<in> set ss. \<forall>t \<in> set ss. s_RefreshTokenHash s \<noteq> [] \<longrightarrow> s_RefreshTokenHash s = s_RefreshTokenHash t \<longrightarrow> s_ID s = s_ID t)
     \<and> (\<forall>s \<in> set ss. subject_ok s \<and> (\<forall>p. s_ParentSessionID s = Some p \<longrightarrow> p \<in> s_ID ` set ss))"

text \<open>What can happen to a row: everything but the refresh hashes, the time of last use and the
  revocation stays, and a revocation stays.\<close>

definition session_step :: "auth_session \<Rightarrow> auth_session \<Rightarrow> bool" where
  "session_step s t \<longleftrightarrow> s_ID t = s_ID s \<and> s_SubjectType t = s_SubjectType s \<and> s_ASN t = s_ASN s \<and> s_AdminID t = s_AdminID s
     \<and> s_Email t = s_Email s \<and> s_ParentSessionID t = s_ParentSessionID s \<and> s_LoginMethod t = s_LoginMethod s
     \<and> s_CreatedAt t = s_CreatedAt s \<and> s_ExpiresAt t = s_ExpiresAt s
     \<and> (s_RevokedAt s \<noteq> None \<longrightarrow> s_RevokedAt t = s_RevokedAt s \<and> s_RevokedReason t = s_RevokedReason s \<and> s_RefreshTokenHash t = s_RefreshTokenHash s)"


text \<open>A login code keeps its subject, is never unused again and forgets no failure.\<close>

definition code_step :: "user_login_code \<Rightarrow> user_login_code \<Rightarrow> bool" where
  "code_step c d \<longleftrightarrow> lc_ID d = lc_ID c \<and> lc_ASN d = lc_ASN c \<and> lc_Email d = lc_Email c \<and> lc_CodeHash d = lc_CodeHash c
     \<and> lc_ExpiresAt d = lc_ExpiresAt c \<and> lc_CreatedAt d = lc_CreatedAt c \<and> (lc_Used c \<longrightarrow> lc_Used d) \<and> lc_FailedAttempts c \<le> lc_FailedAttempts d"

text \<open>A device grant is decided once and exchanged once.\<close>

definition grant_step :: "auth_device_grant \<Rightarrow> auth_device_grant \<Rightarrow> bool" where
  "grant_step g h \<longleftrightarrow> g_ID h = g_ID g \<and> g_DeviceCodeHash h = g_DeviceCodeHash g \<and> g_UserCodeHash h = g_UserCodeHash g
     \<and> g_Scopes h = g_Scopes g \<and> g_ExpiresAt h = g_ExpiresAt g
     \<and> (g_Status g \<noteq> ''pending'' \<longrightarrow> g_ApprovedASN h = g_ApprovedASN g \<and> g_ApprovedEmail h = g_ApprovedEmail g
          \<and> g_ApprovedBySessionID h = g_ApprovedBySessionID g
          \<and> (g_Status h = g_Status g \<and> g_ExchangedSessionID h = g_ExchangedSessionID g
             \<or> g_Status g = ''approved'' \<and> g_Status h = ''exchanged''))"

lemma step_refl [simp]: "session_step s s" "code_step c c" "grant_step g g"
  by (simp_all add: session_step_def code_step_def grant_step_def)

lemma step_trans:
  "session_step s t \<Longrightarrow> session_step t u \<Longrightarrow> session_step s u" "code_step a b \<Longrightarrow> code_step b c \<Longrightarrow> code_step a c"
  "grant_step g h \<Longrightarrow> grant_step h k \<Longrightarrow> grant_step g k"
    apply (auto simp: session_step_def code_step_def)[2]
  apply (clarsimp simp: grant_step_def)
  apply (cases "g_Status g = ''pending''"; auto)
  done

text \<open>The unique columns that polls and decisions look up.\<close>

definition grants_ok :: "auth_device_grant list \<Rightarrow> bool" where
  "grants_ok gs \<longleftrightarrow> distinct (map g_DeviceCodeHash gs) \<and> distinct (map g_UserCodeHash gs)"

lemma grants_ok_upd: "(\<And>g. P g \<Longrightarrow> grant_step g (f g)) \<Longrightarrow> grants_ok gs \<Longrightarrow> grants_ok (upd P f gs)"
proof -
  assume "\<And>g. P g \<Longrightarrow> grant_step g (f g)"
  then have "map g_DeviceCodeHash (upd P f gs) = map g_DeviceCodeHash gs" "map g_UserCodeHash (upd P f gs) = map g_UserCodeHash gs"
    by (auto simp: upd_def grant_step_def)
  then show "grants_ok gs \<Longrightarrow> grants_ok (upd P f gs)" by (simp add: grants_ok_def)
qed

definition auth_step :: "world \<Rightarrow> world \<Rightarrow> bool" where
  "auth_step w w' \<longleftrightarrow> grows session_step (sessions w) (sessions w') \<and> grows code_step (codes w) (codes w')
     \<and> grows grant_step (grants w) (grants w') \<and> (sessions_ok (sessions w) \<longrightarrow> sessions_ok (sessions w'))
     \<and> (grants_ok (grants w) \<longrightarrow> grants_ok (grants w')) \<and> w_now w' = w_now w"

lemma auth_step_rel: "auth_rel auth_step"
  unfolding auth_rel_def auth_step_def transp_def calm_def
  by (auto intro: grows_refl grows_trans [OF step_trans(1)] grows_trans [OF step_trans(2)] grows_trans [OF step_trans(3)])

lemma set_tables [simp]:
  "sessions (set_sessions x w) = x" "sessions (set_codes c w) = sessions w" "sessions (set_challenges d w) = sessions w"
  "sessions (set_grants g w) = sessions w" "grants (set_grants g w) = g" "grants (set_sessions x w) = grants w"
  "grants (set_codes c w) = grants w" "grants (set_challenges d w) = grants w" "codes (set_codes c w) = c"
  "codes (set_sessions x w) = codes w" "codes (set_grants g w) = codes w" "codes (set_challenges d w) = codes w"
  "challenges (set_challenges d w) = d"
  "w_now (set_sessions x w) = w_now w" "w_now (set_codes c w) = w_now w" "w_now (set_challenges d w) = w_now w" "w_now (set_grants g w) = w_now w"
  by (simp_all add: set_sessions_def set_codes_def set_challenges_def set_grants_def)

lemma fresh_uuid_auth: "fresh_uuid w = (i, w1) \<Longrightarrow> w_auth w1 = w_auth w \<and> w_now w1 = w_now w"
  by (auto simp: fresh_uuid_def split: list.splits)

lemma take_id_auth: "take_id i w = (j, w1) \<Longrightarrow> w_auth w1 = w_auth w \<and> w_now w1 = w_now w"
  using fresh_uuid_auth by (auto simp: take_id_def split: if_splits)

lemma insert_session_shape:
  assumes "insert_session s w = Inr (s', w')"
  shows "sessions w' = sessions w @ [s']" "session_conflict s' w = None" "grants w' = grants w" "w_now w' = w_now w"
    "\<exists>i. s' = session_row i (w_now w) s" "codes w' = codes w"
proof -
  obtain i w1 where i: "take_id (s_ID s) w = (i, w1)" by fastforce
  have w1: "w_auth w1 = w_auth w" "w_now w1 = w_now w" using take_id_auth [OF i] by simp_all
  let ?s = "session_row i (w_now w) s"
  have "session_conflict ?s w = None" "s' = ?s" "w' = set_sessions (sessions w @ [?s]) w1"
    using assms by (auto simp: insert_session_def i Let_def split: option.splits)
  then show "sessions w' = sessions w @ [s']" "session_conflict s' w = None" "grants w' = grants w" "w_now w' = w_now w"
    "\<exists>i. s' = session_row i (w_now w) s" "codes w' = codes w"
    using w1 by auto
qed

lemma sessions_ok_hash:
  "sessions_ok ss \<Longrightarrow> s \<in> set ss \<Longrightarrow> t \<in> set ss \<Longrightarrow> s_RefreshTokenHash s \<noteq> [] \<Longrightarrow> s_RefreshTokenHash s = s_RefreshTokenHash t \<Longrightarrow> s_ID s = s_ID t"
  unfolding sessions_ok_def by blast

lemma sessions_ok_insert:
  assumes ok: "sessions_ok (sessions w)" and c: "session_conflict s w = None"
  shows "sessions_ok (sessions w @ [s])"
proof -
  have sub: "subject_ok s" using c by (simp add: session_conflict_def split: if_splits)
  have new: "s_ID t \<noteq> s_ID s" if "t \<in> set (sessions w)" for t
    using c that by (auto simp: session_conflict_def list_ex_iff split: if_splits)
  have hash: "s_RefreshTokenHash t \<noteq> s_RefreshTokenHash s" if "t \<in> set (sessions w)" "s_RefreshTokenHash s \<noteq> []" for t
    using c that by (auto simp: session_conflict_def list_ex_iff split: if_splits)
  have par: "p \<in> s_ID ` set (sessions w)" if "s_ParentSessionID s = Some p" for p
    using c that by (auto simp: session_conflict_def list_ex_iff split: if_splits)
  have "distinct (map s_ID (sessions w @ [s]))" using ok new by (simp add: sessions_ok_def) (metis imageE)
  moreover have "s_ID x = s_ID y" if "x \<in> set (sessions w @ [s])" "y \<in> set (sessions w @ [s])"
      "s_RefreshTokenHash x \<noteq> []" "s_RefreshTokenHash x = s_RefreshTokenHash y" for x y
  proof (cases "x \<in> set (sessions w) \<and> y \<in> set (sessions w)")
    case True
    then show ?thesis using sessions_ok_hash [OF ok _ _ that(3,4)] by blast
  next
    case False
    then have "x = s \<or> y = s" using that(1,2) by auto
    then show ?thesis using that hash [of x] hash [of y] by auto
  qed
  moreover have "subject_ok x \<and> (\<forall>p. s_ParentSessionID x = Some p \<longrightarrow> p \<in> s_ID ` set (sessions w @ [s]))"
    if "x \<in> set (sessions w @ [s])" for x
    using that ok sub par by (auto simp: sessions_ok_def)
  ultimately show ?thesis unfolding sessions_ok_def by blast
qed

text \<open>Changes that keep the identifiers, subjects and parents, and give no row a hash that another row has.\<close>

lemma sessions_ok_upd:
  assumes "sessions_ok ss" "\<And>s. P s \<Longrightarrow> session_step s (f s)"
    "\<And>s t. P s \<Longrightarrow> s \<in> set ss \<Longrightarrow> t \<in> set ss \<Longrightarrow> s_RefreshTokenHash (f s) \<noteq> [] \<Longrightarrow>
       s_RefreshTokenHash (f s) = s_RefreshTokenHash (if P t then f t else t) \<Longrightarrow> s_ID s = s_ID t"
  shows "sessions_ok (upd P f ss)"
proof -
  let ?u = "\<lambda>s. if P s then f s else s"
  have keep: "s_ID (?u s) = s_ID s" "s_ParentSessionID (?u s) = s_ParentSessionID s" "subject_ok (?u s) = subject_ok s" for s
    using assms(2) [of s] by (auto simp: session_step_def subject_ok_def)
  have hash: "s_ID s = s_ID t"
    if "s \<in> set ss" "t \<in> set ss" "s_RefreshTokenHash (?u s) \<noteq> []" "s_RefreshTokenHash (?u s) = s_RefreshTokenHash (?u t)" for s t
  proof -
    consider "P s" | "\<not> P s" "P t" | "\<not> P s" "\<not> P t" by blast
    then show ?thesis
    proof cases
      case 1
      then show ?thesis using assms(3) [of s t] that by simp
    next
      case 2
      then have "s_ID t = s_ID s" using that by (intro assms(3) [of t s]) simp_all
      then show ?thesis by simp
    next
      case 3
      then show ?thesis using sessions_ok_hash [OF assms(1) that(1,2)] that(3,4) by simp
    qed
  qed
  have ids: "map s_ID (upd P f ss) = map s_ID ss" by (simp add: upd_def keep)
  have mem: "\<exists>s \<in> set ss. x = ?u s" if "x \<in> set (upd P f ss)" for x using that by (auto simp: upd_def)
  have "distinct (map s_ID (upd P f ss))" using ids assms(1) by (simp add: sessions_ok_def)
  moreover have "s_ID x = s_ID y" if xy: "x \<in> set (upd P f ss)" "y \<in> set (upd P f ss)"
      "s_RefreshTokenHash x \<noteq> []" "s_RefreshTokenHash x = s_RefreshTokenHash y" for x y
  proof -
    obtain s t where "s \<in> set ss" "t \<in> set ss" "x = ?u s" "y = ?u t" using mem xy(1,2) by blast
    then show ?thesis using hash [of s t] xy(3,4) keep(1) [of s] keep(1) [of t] by simp
  qed
  moreover have "subject_ok x \<and> (\<forall>p. s_ParentSessionID x = Some p \<longrightarrow> p \<in> s_ID ` set (upd P f ss))" if x: "x \<in> set (upd P f ss)" for x
  proof -
    obtain s where s: "s \<in> set ss" "x = ?u s" using mem [OF x] by blast
    have "s_ID ` set (upd P f ss) = s_ID ` set ss" using arg_cong [OF ids, of set] by simp
    then show ?thesis using s keep(2,3) [of s] assms(1) by (simp add: sessions_ok_def)
  qed
  ultimately show ?thesis unfolding sessions_ok_def by blast
qed


subsection \<open>The operations\<close>

lemma auth_step_sessions:
  assumes "sessions w' = upd P f (sessions w)" "codes w' = codes w" "grants w' = grants w" "w_now w' = w_now w"
    "\<And>s. P s \<Longrightarrow> session_step s (f s)"
    "\<And>s t. sessions_ok (sessions w) \<Longrightarrow> P s \<Longrightarrow> s \<in> set (sessions w) \<Longrightarrow> t \<in> set (sessions w) \<Longrightarrow> s_RefreshTokenHash (f s) \<noteq> [] \<Longrightarrow>
       s_RefreshTokenHash (f s) = s_RefreshTokenHash (if P t then f t else t) \<Longrightarrow> s_ID s = s_ID t"
  shows "auth_step w w'"
  unfolding auth_step_def assms(1-4)
  by (intro conjI grows_upd grows_refl impI sessions_ok_upd assms(5,6) step_refl refl)

lemma auth_step_codes:
  "sessions w' = sessions w \<Longrightarrow> grows code_step (codes w) (codes w') \<Longrightarrow> grants w' = grants w \<Longrightarrow> w_now w' = w_now w \<Longrightarrow> auth_step w w'"
  by (simp add: auth_step_def grows_refl)

lemma auth_step_grants:
  "sessions w' = sessions w \<Longrightarrow> codes w' = codes w \<Longrightarrow> grows grant_step (grants w) (grants w') \<Longrightarrow>
   (grants_ok (grants w) \<Longrightarrow> grants_ok (grants w')) \<Longrightarrow> w_now w' = w_now w \<Longrightarrow> auth_step w w'"
  by (simp add: auth_step_def grows_refl)

lemma auth_step_insert: "insert_session s w = Inr (s', w') \<Longrightarrow> auth_step w w'"
  using insert_session_shape [of s w s' w'] by (simp add: auth_step_def grows_refl grows_snoc sessions_ok_insert)

lemma revoked_step: "s_RevokedAt s = None \<Longrightarrow> session_step s (revoked reason now s)"
  by (simp add: session_step_def revoked_def)

lemma steps_sessions [steps_intros]:
  "steps auth_step (CreateAuthSession s)" "steps auth_step (TouchAuthSession i)" "steps auth_step (RevokeAuthSession i reason)"
  "steps auth_step (RevokeChildAuthSessions i reason)" "steps auth_step (RotateAuthSessionRefresh i h h')"
proof -
  show "steps auth_step (CreateAuthSession s)"
    unfolding CreateAuthSession_def by (rule steps_db_write [OF auth_step_rel auth_step_insert])
  show "steps auth_step (TouchAuthSession i)"
    unfolding TouchAuthSession_def
    by (rule steps_db_write [OF auth_step_rel], clarsimp, rule auth_step_sessions [OF set_tables(1)])
       (auto simp: session_step_def split: if_splits dest: sessions_ok_hash)
  show "steps auth_step (RevokeAuthSession i reason)"
    unfolding RevokeAuthSession_def Let_def
    by (rule steps_db_write [OF auth_step_rel], clarsimp, rule auth_step_sessions [OF set_tables(1)])
       (auto simp: revoked_step revoked_def session_step_def)
  show "steps auth_step (RevokeChildAuthSessions i reason)"
    unfolding RevokeChildAuthSessions_def
    by (rule steps_db_write [OF auth_step_rel], clarsimp, rule auth_step_sessions [OF set_tables(1)])
       (auto simp: revoked_step revoked_def session_step_def)
  show "steps auth_step (RotateAuthSessionRefresh i h h')"
    unfolding RotateAuthSessionRefresh_def Let_def
    apply (rule steps_db_write [OF auth_step_rel], clarsimp split: if_splits, rule auth_step_sessions [OF set_tables(1)])
    by (auto simp: rotates_def rotated_def live_session_def session_step_def list_ex_iff split: if_splits)
qed


lemma steps_codes [steps_intros]:
  "steps auth_step (CreateLoginCode c)" "steps auth_step (MarkLoginCodeUsed i)" "steps auth_step (IncrementLoginCodeFailures i)"
  "steps auth_step (CreateGPGChallenge ch)" "steps auth_step (MarkGPGChallengeUsed i)"
proof -
  show "steps auth_step (CreateLoginCode c)" "steps auth_step (CreateGPGChallenge ch)"
    unfolding CreateLoginCode_def CreateGPGChallenge_def Let_def
    by (rule steps_db_write [OF auth_step_rel], clarsimp split: prod.splits if_split_asm dest!: take_id_auth simp del: if_split;
        rule auth_step_codes; (simp add: grows_refl grows_snoc set_codes_def set_challenges_def)?)+
  show "steps auth_step (MarkLoginCodeUsed i)" "steps auth_step (IncrementLoginCodeFailures i)" "steps auth_step (MarkGPGChallengeUsed i)"
    unfolding MarkLoginCodeUsed_def IncrementLoginCodeFailures_def MarkGPGChallengeUsed_def Let_def
    by (rule steps_db_write [OF auth_step_rel], clarsimp, rule auth_step_codes; (simp add: grows_refl grows_upd code_step_def)?)+
qed

lemma decided_step: "pending_grant uh now g \<Longrightarrow> grant_step g (grant_decided now d asn e sid ip ua g)"
  by (simp add: pending_grant_def grant_step_def grant_decided_def Let_def)

lemma steps_grants [steps_intros]:
  "steps auth_step (CreateAuthDeviceGrant g)" "steps auth_step (AuthorizeAuthDeviceGrant uh d asn e sid ip ua)"
  "steps auth_step (PollAuthDeviceGrant dh iv)" "steps auth_step (ExchangeAuthDeviceGrant dh s)"
proof -
  show "steps auth_step (CreateAuthDeviceGrant g)"
    unfolding CreateAuthDeviceGrant_def Let_def
    by (rule steps_db_write [OF auth_step_rel], clarsimp split: prod.splits if_split_asm dest!: take_id_auth simp del: if_split;
        rule auth_step_grants; (simp add: grows_snoc grants_ok_def list_ex_iff image_iff, metis?)?)
  show "steps auth_step (AuthorizeAuthDeviceGrant uh d asn e sid ip ua)"
    unfolding AuthorizeAuthDeviceGrant_def Let_def
    by (intro steps_intros auth_step_rel steps_db_write) 
       (clarsimp split: option.splits if_splits, rule auth_step_grants;
        (simp add: grows_upd grants_ok_upd decided_step)?)+
  show "steps auth_step (PollAuthDeviceGrant dh iv)"
    unfolding PollAuthDeviceGrant_def Let_def
    by (rule steps_db_write [OF auth_step_rel], clarsimp split: option.splits, rule auth_step_grants;
        (simp add: grows_upd grants_ok_upd grant_step_def polled_def)?)
  show "steps auth_step (ExchangeAuthDeviceGrant dh s)"
  proof (unfold ExchangeAuthDeviceGrant_def Let_def, rule steps_db_write [OF auth_step_rel], goal_cases)
    case (1 w x w')
    then obtain s' w1 where i: "insert_session s w = Inr (s', w1)"
      and w': "w' = set_grants (upd (exchangeable dh (w_now w)) (\<lambda>g. g\<lparr>g_Status := ''exchanged'', g_ExchangedAt := Some (w_now w),
        g_ExchangedSessionID := Some (s_ID s')\<rparr>) (grants w1)) w1"
      by (auto split: option.splits if_splits sum.splits)
    have "auth_step w1 w'"
      unfolding w' by (rule auth_step_grants) (auto intro!: grows_upd grants_ok_upd simp: exchangeable_def grant_step_def)
    with auth_step_insert [OF i] show ?case
      using auth_step_rel unfolding auth_rel_def by (metis transpD)
  qed
qed


subsection \<open>The handlers\<close>

lemma steps_starters [steps_intros]:
  "steps auth_step (createUserSession L cfg rq asn e lm)" "steps auth_step (createAdminSession L cfg rq adm e)"
  "steps auth_step (createImpersonationSession L cfg rq asn e adm par pr)"
  "steps auth_step (createDeviceUserSession L cfg rq g)" "steps auth_step (createDeviceAdminSession L cfg rq g)"
  unfolding createUserSession_def createAdminSession_def createImpersonationSession_def createDeviceUserSession_def
    createDeviceAdminSession_def
  by (intro steps_intros auth_step_rel)+

lemma steps_logins [steps_intros]:
  "steps auth_step (RequestCode L cfg rq b1)" "steps auth_step (VerifyCode L cfg rq b2)" "steps auth_step (AdminLogin L cfg rq b3)"
  "steps auth_step (RequestGPGChallenge L cfg rq b4)" "steps auth_step (VerifyGPGSignature L cfg rq b5)"
  "steps auth_step (CheckGPGAvailability b6)" "steps auth_step (AdminLoginAs L cfg rq cx b7)"
  unfolding RequestCode_def VerifyCode_def AdminLogin_def RequestGPGChallenge_def VerifyGPGSignature_def CheckGPGAvailability_def
    AdminLoginAs_def Let_def
  by (intro steps_intros auth_step_rel)+

lemma steps_devices [steps_intros]:
  "steps auth_step (DeviceCode cfg rq b1)" "steps auth_step (DeviceRequest L cfg rq uc)" "steps auth_step (DeviceAuthorize L cfg rq cx b2)"
  "steps auth_step (DeviceToken L cfg rq b3)"
  unfolding DeviceCode_def DeviceRequest_def DeviceAuthorize_def DeviceToken_def Let_def
  by (intro steps_intros auth_step_rel)+

lemma steps_revoke_others [steps_intros]: "steps auth_step (revoke_others cur ss)"
  by (induction ss) (auto intro!: steps_intros auth_step_rel)

lemma steps_session_handlers [steps_intros]:
  "steps auth_step (Refresh L cfg rq)" "steps auth_step (Logout rq cx)" "steps auth_step (ListUserDevices L cfg rq cx)"
  "steps auth_step (RevokeUserDevice L cfg rq cx i)" "steps auth_step (RevokeOtherUserDevices L cfg rq cx)"
  "steps auth_step (ListAdminDevices cx)" "steps auth_step (RevokeAdminDevice rq cx i)"
proof -
  have sign: "refresh_token_for L cfg s = Inr m \<Longrightarrow> steps auth_step m" for s m
    by (auto simp: refresh_token_for_def split: if_splits option.splits prod.splits intro!: steps_intros auth_step_rel)
  show "steps auth_step (Refresh L cfg rq)"
    unfolding Refresh_def refresh_reuse_def Let_def
    by (intro steps_intros auth_step_rel; (erule sign)?)
  show "steps auth_step (Logout rq cx)" "steps auth_step (ListUserDevices L cfg rq cx)"
    "steps auth_step (RevokeUserDevice L cfg rq cx i)" "steps auth_step (RevokeOtherUserDevices L cfg rq cx)"
    "steps auth_step (ListAdminDevices cx)" "steps auth_step (RevokeAdminDevice rq cx i)"
    unfolding Logout_def ListUserDevices_def RevokeUserDevice_def RevokeOtherUserDevices_def ListAdminDevices_def RevokeAdminDevice_def Let_def
    by (intro steps_intros auth_step_rel)+
qed

lemma steps_validateSession [steps_intros]: "steps auth_step (validateSession c)"
  unfolding validateSession_def parent_active_def by (intro steps_intros auth_step_rel)

section \<open>Requests\<close>

definition enc_session :: "auth_session \<Rightarrow> json" where
  "enc_session s = JObj ([(''id'', JStr (s_ID s)), (''subject_type'', JStr (s_SubjectType s))]
     @ (case s_ASN s of None \<Rightarrow> [] | Some a \<Rightarrow> [(''asn'', jint a)])
     @ (case s_AdminID s of None \<Rightarrow> [] | Some a \<Rightarrow> [(''admin_id'', JStr a)])
     @ [(''created_at'', JTime (s_CreatedAt s)), (''expires_at'', JTime (s_ExpiresAt s))])"

definition enc_auth :: "authResponse \<Rightarrow> json" where
  "enc_auth a = JObj ([(''token'', JStr (ar_Token a)), (''access_token'', JStr (ar_AccessToken a)), (''expires_in'', jint (ar_ExpiresIn a))]
     @ (if ar_RefreshExpiresIn a = 0 then [] else [(''refresh_expires_in'', jint (ar_RefreshExpiresIn a))])
     @ (if ar_ASN a = 0 then [] else [(''asn'', jint (ar_ASN a))]) @ [(''session'', enc_session (ar_Session a))])"

definition respond :: "('a \<Rightarrow> json) \<Rightarrow> 'a reply \<Rightarrow> response" where
  "respond enc r = (case r of Reply st x \<Rightarrow> JSONResp st (enc x) | Fail st code msg \<Rightarrow> ErrorResp st code msg)"

definition answer :: "('a \<Rightarrow> json) \<Rightarrow> 'a reply M \<Rightarrow> response M" where
  "answer enc m = do { r \<leftarrow> m; ret (respond enc r) }"

definition enc_ok :: "'a \<Rightarrow> json" where
  "enc_ok _ = JObj [(''ok'', JBool True)]"

text \<open>The authentication routes (\<^verbatim>\<open>cmd/center/routes.go\<close>). Of the bodies of lists and device codes only the
  success is kept.\<close>

datatype auth_call =
    CallRequestCode "(int \<times> string) option"
  | CallVerifyCode "(int \<times> string) option"
  | CallRequestGPG "(int \<times> string) option"
  | CallVerifyGPG "verifyGPGReq option"
  | CallCheckGPG "int option"
  | CallDeviceCode "deviceCodeReq option"
  | CallDeviceToken "(string \<times> string) option"
  | CallAdminLogin "(string \<times> string \<times> string) option"
  | CallRefresh
  | CallLogout
  | CallDeviceRequest string
  | CallDeviceAuthorize "(string \<times> string) option"
  | CallListDevices
  | CallRevokeOthers
  | CallRevokeDevice string
  | CallLoginAs "(int \<times> bool) option"
  | CallListAdminDevices
  | CallRevokeAdminDevice string

definition serve_auth :: "auth_lib \<Rightarrow> auth_config \<Rightarrow> http_request \<Rightarrow> auth_call \<Rightarrow> response M" where
  "serve_auth L cfg rq call =
     (let J = al_jwt L;
          any = (\<lambda>h. RequireAnyAuthWithSessions J cfg rq h empty_ctx);
          user = (\<lambda>h. RequireUserWithSessions J cfg rq h empty_ctx);
          adm = (\<lambda>h. RequireAdminWithSessions J cfg rq h empty_ctx) in
      case call of
        CallRequestCode b \<Rightarrow> answer enc_ok (RequestCode L cfg rq b)
      | CallVerifyCode b \<Rightarrow> answer enc_auth (VerifyCode L cfg rq b)
      | CallRequestGPG b \<Rightarrow> answer enc_ok (RequestGPGChallenge L cfg rq b)
      | CallVerifyGPG b \<Rightarrow> answer enc_auth (VerifyGPGSignature L cfg rq b)
      | CallCheckGPG b \<Rightarrow> answer (\<lambda>v. JObj [(''available'', JBool v)]) (CheckGPGAvailability b)
      | CallDeviceCode b \<Rightarrow> answer enc_ok (DeviceCode cfg rq b)
      | CallDeviceToken b \<Rightarrow> answer enc_auth (DeviceToken L cfg rq b)
      | CallAdminLogin b \<Rightarrow> answer enc_auth (AdminLogin L cfg rq b)
      | CallRefresh \<Rightarrow> answer enc_auth (Refresh L cfg rq)
      | CallLogout \<Rightarrow> any (\<lambda>cx. answer enc_ok (Logout rq cx))
      | CallDeviceRequest c \<Rightarrow> any (\<lambda>cx. answer enc_ok (DeviceRequest L cfg rq c))
      | CallDeviceAuthorize b \<Rightarrow> any (\<lambda>cx. answer (\<lambda>st. JObj [(''ok'', JBool True), (''status'', JStr st)]) (DeviceAuthorize L cfg rq cx b))
      | CallListDevices \<Rightarrow> user (\<lambda>cx. answer (\<lambda>ss. JArr (map enc_session ss)) (ListUserDevices L cfg rq cx))
      | CallRevokeOthers \<Rightarrow> user (\<lambda>cx. answer enc_ok (RevokeOtherUserDevices L cfg rq cx))
      | CallRevokeDevice i \<Rightarrow> user (\<lambda>cx. answer enc_ok (RevokeUserDevice L cfg rq cx i))
      | CallLoginAs b \<Rightarrow> adm (\<lambda>cx. answer enc_auth (AdminLoginAs L cfg rq cx b))
      | CallListAdminDevices \<Rightarrow> adm (\<lambda>cx. answer (\<lambda>ss. JArr (map enc_session ss)) (ListAdminDevices cx))
      | CallRevokeAdminDevice i \<Rightarrow> adm (\<lambda>cx. answer enc_ok (RevokeAdminDevice rq cx i)))"

text \<open>Any sequence of authentication requests, between which time passes and other parts of the center run.\<close>

inductive auth_run :: "auth_lib \<Rightarrow> auth_config \<Rightarrow> world \<Rightarrow> world \<Rightarrow> bool" for L cfg w where
  start: "auth_run L cfg w w"
| call: "auth_run L cfg w w1 \<Longrightarrow> run_state (serve_auth L cfg rq c) w1 = (r, w2) \<Longrightarrow> auth_run L cfg w w2"
| env: "auth_run L cfg w w1 \<Longrightarrow> w_auth w2 = w_auth w1 \<Longrightarrow> w_now w1 \<le> w_now w2 \<Longrightarrow> auth_run L cfg w w2"

lemma steps_answer [steps_intros]: "auth_rel R \<Longrightarrow> steps R m \<Longrightarrow> steps R (answer enc m)"
  unfolding answer_def by (intro steps_intros)

lemma steps_requireAuth [steps_intros]:
  "(\<And>cx. steps auth_step (h cx)) \<Longrightarrow> steps auth_step (requireAuth J cfg role anyR rq h cx0)"
  unfolding requireAuth_def by (intro steps_intros auth_step_rel)

lemma steps_serve_auth: "steps auth_step (serve_auth L cfg rq c)"
  by (cases c; simp add: serve_auth_def Let_def RequireAnyAuthWithSessions_def RequireUserWithSessions_def RequireAdminWithSessions_def;
      intro steps_intros auth_step_rel)

definition auth_later :: "world \<Rightarrow> world \<Rightarrow> bool" where
  "auth_later w w' \<longleftrightarrow> grows session_step (sessions w) (sessions w') \<and> grows code_step (codes w) (codes w')
     \<and> grows grant_step (grants w) (grants w') \<and> (sessions_ok (sessions w) \<longrightarrow> sessions_ok (sessions w'))
     \<and> (grants_ok (grants w) \<longrightarrow> grants_ok (grants w')) \<and> w_now w \<le> w_now w'"

lemma auth_run_later: "auth_run L cfg w w' \<Longrightarrow> auth_later w w'"
proof (induction rule: auth_run.induct)
  case start
  show ?case by (simp add: auth_later_def grows_refl)
next
  case (call w1 rq c r w2)
  have "auth_step w1 w2" using steps_serve_auth [of L cfg rq c] call.hyps(2) unfolding steps_def by (metis snd_conv)
  with call.IH show ?case unfolding auth_later_def auth_step_def
    by (auto intro: grows_trans [OF step_trans(1)] grows_trans [OF step_trans(2)] grows_trans [OF step_trans(3)])
next
  case (env w1 w2)
  then show ?case by (auto simp: auth_later_def)
qed

lemma later_session:
  "auth_later w w' \<Longrightarrow> find_session i w = Some s \<Longrightarrow> \<exists>t. find_session i w' = Some t \<and> session_step s t"
  unfolding find_session_def auth_later_def by (elim conjE, erule (1) grows_find) (simp add: session_step_def)

section \<open>Weakest preconditions\<close>

lemma wp_calm: "steps calm m \<Longrightarrow> (\<And>r w'. calm w w' \<Longrightarrow> Q r w') \<Longrightarrow> wp m Q w"
  by (simp add: steps_def wp_def split: prod.splits) (metis snd_conv)

lemma wp_auth_read:
  assumes "\<And>w'. calm w w' \<Longrightarrow> nofault w \<longrightarrow> False \<Longrightarrow> Q (Inl DbFail) w'"
    "\<And>w'. calm w w' \<Longrightarrow> Q (f (db_next w)) w'"
  shows "wp (db_read f) Q w"
  using assms calm_db_next nofault_not_fails by (auto simp: wp_def)

definition touched :: "string \<Rightarrow> world \<Rightarrow> world \<Rightarrow> bool" where
  "touched i w w' \<longleftrightarrow> w_now w' = w_now w \<and> (nofault w \<longrightarrow> nofault w')
     \<and> (w_auth w' = w_auth w \<or> w_auth w' = (w_auth w)\<lparr>t_sessions := upd (\<lambda>s. s_ID s = i \<and> s_RevokedAt s = None)
          (\<lambda>s. s\<lparr>s_LastUsedAt := Some (w_now w)\<rparr>) (sessions w)\<rparr>)"

lemma calm_touched: "calm w w' \<Longrightarrow> touched i w' w'' \<Longrightarrow> touched i w w''"
  by (auto simp: calm_def touched_def)

lemma nofault_set [simp]:
  "nofault (set_sessions a w) = nofault w" "nofault (set_codes b w) = nofault w" "nofault (set_challenges c w) = nofault w"
  "nofault (set_grants d w) = nofault w"
  by (simp_all add: nofault_def set_sessions_def set_codes_def set_challenges_def set_grants_def)

lemma wp_TouchAuthSession:
  assumes "\<And>r w'. touched i w w' \<Longrightarrow> Q r w'"
  shows "wp (TouchAuthSession i) Q w"
proof -
  have "touched i w (db_next w)" by (simp add: touched_def nofault_next)
  moreover have "touched i w (set_sessions (upd (\<lambda>s. s_ID s = i \<and> s_RevokedAt s = None) (\<lambda>s. s\<lparr>s_LastUsedAt := Some (w_now w)\<rparr>)
      (sessions w)) (db_next w))"
    by (simp add: touched_def nofault_next) (simp add: set_sessions_def)
  ultimately show ?thesis using assms by (simp add: wp_def TouchAuthSession_def run_db_write)
qed

lemma wp_GetAuthSession:
  assumes "\<And>e w'. calm w w' \<Longrightarrow> nofault w \<longrightarrow> find_session i w = None \<Longrightarrow> Q (Inl e) w'"
    "\<And>s w'. calm w w' \<Longrightarrow> find_session i w = Some s \<Longrightarrow> Q (Inr s) w'"
  shows "wp (GetAuthSession i) Q w"
  unfolding GetAuthSession_def
proof (rule wp_auth_read)
  fix w' assume c: "calm w w'"
  show "Q (row (find_session i (db_next w))) w'"
    using assms c by (cases "find_session i w") (auto simp: row_def find_session_def)
qed (use assms in blast)

lemma find_calm: "calm w w' \<Longrightarrow> find_session i w' = find_session i w"
  by (simp add: calm_def find_session_def)

lemma wp_now [simp]: "wp time_now Q w = Q (w_now w) w"
  by (simp add: wp_def time_now_def)

lemma calm_trans: "calm a b \<Longrightarrow> calm b c \<Longrightarrow> calm a c"
  by (auto simp: calm_def)

lemma calm_sel: "calm w w' \<Longrightarrow> w_auth w' = w_auth w" "calm w w' \<Longrightarrow> w_now w' = w_now w" "calm w w' \<Longrightarrow> nofault w \<Longrightarrow> nofault w'"
  by (simp_all add: calm_def)

text \<open>The parent of an impersonation is active; other sessions have no parent to ask.\<close>

definition parent_ok :: "world \<Rightarrow> auth_session \<Rightarrow> bool" where
  "parent_ok w s \<longleftrightarrow> (s_SubjectType s = ''impersonation'' \<longrightarrow> (\<forall>p. s_ParentSessionID s = Some p \<longrightarrow>
     (\<exists>q. find_session p w = Some q \<and> \<not> session_inactive (w_now w) q)))"

lemma wp_parent_active:
  assumes "\<And>w'. calm w w' \<Longrightarrow> nofault w \<longrightarrow> \<not> parent_ok w s \<Longrightarrow> Q False w'"
    "\<And>w'. calm w w' \<Longrightarrow> parent_ok w s \<Longrightarrow> Q True w'"
  shows "wp (parent_active (w_now w) s) Q w"
proof (cases "if s_SubjectType s = ''impersonation'' then s_ParentSessionID s else None")
  case None
  then show ?thesis using assms(2) [of w] by (simp add: parent_active_def parent_ok_def split: if_splits)
next
  case (Some p)
  then have P: "parent_ok w s \<longleftrightarrow> (\<exists>q. find_session p w = Some q \<and> \<not> session_inactive (w_now w) q)"
    by (simp add: parent_ok_def split: if_splits)
  show ?thesis unfolding parent_active_def Some option.case
  proof (rule wp_bind, rule wp_GetAuthSession)
    fix q w' assume "calm w w'" "find_session p w = Some q"
    then show "wp (ret (case Inr q of Inl _ \<Rightarrow> False | Inr parent \<Rightarrow> \<not> session_inactive (w_now w) parent)) Q w'"
      using assms P by (cases "session_inactive (w_now w) q") auto
  qed (use assms(1) P in auto)
qed

text \<open>Whether the session of some claims can be used.\<close>

definition usable :: "world \<Rightarrow> Claims \<Rightarrow> bool" where
  "usable w c \<longleftrightarrow> c_SessionID c = [] \<or>
     (\<exists>s. find_session (c_SessionID c) w = Some s \<and> \<not> session_inactive (w_now w) s \<and> \<not> session_role_mismatch c s \<and> parent_ok w s)"

lemma calm_parent_ok: "calm w w' \<Longrightarrow> parent_ok w' s = parent_ok w s"
  by (simp add: parent_ok_def calm_sel find_calm)

lemma wp_validateSession:
  assumes no: "\<And>w'. calm w w' \<Longrightarrow> nofault w \<longrightarrow> \<not> usable w c \<Longrightarrow> Q False w'"
    and yes: "\<And>w'. usable w c \<Longrightarrow> touched (c_SessionID c) w w' \<Longrightarrow> Q True w'"
  shows "wp (validateSession c) Q w"
proof (cases "c_SessionID c = []")
  case True
  then show ?thesis using yes [of w] by (simp add: validateSession_def usable_def touched_def)
next
  case False
  let ?i = "c_SessionID c"
  have touch: "wp (do { _ \<leftarrow> TouchAuthSession ?i; ret True }) Q w'" if "calm w w'" "usable w c" for w'
    by (rule wp_bind, rule wp_TouchAuthSession) (use that yes calm_touched in simp)
  have row: "wp (do { ok \<leftarrow> parent_active (w_now w) s; if \<not> ok then ret False else do { _ \<leftarrow> TouchAuthSession ?i; ret True } }) Q w1"
    if c: "calm w w1" and U: "usable w c \<longleftrightarrow> parent_ok w s" for w1 s
    using calm_sel(2,3) [OF c] c
    by (intro wp_bind) (rule wp_parent_active [of w1, unfolded calm_sel(2) [OF c]],
        auto simp: calm_parent_ok [OF c] U intro: no touch calm_trans)
  show ?thesis
    unfolding validateSession_def if_not_P [OF False]
    by (rule wp_bind, unfold wp_now, rule wp_bind, rule wp_GetAuthSession)
       (auto simp: usable_def False intro!: row no)
qed

end
