(* ===== verification/AuthProps.thy ===== *)
theory AuthProps
  imports Session
begin

text \<open>
  What the login, session and device handlers guarantee, from the step relation of \<open>Session\<close>: who the
  guards of the routes let through, that a session ends for good, what a refresh changes and what a
  replayed one does, whom a device session belongs to, and when a login code is accepted.
\<close>

section \<open>Who gets through\<close>

text \<open>What the guard asks of a request: an acceptable token with a fitting role whose session can be used.\<close>

definition admits :: "jwt_lib \<Rightarrow> auth_config \<Rightarrow> string \<Rightarrow> bool \<Rightarrow> http_request \<Rightarrow> world \<Rightarrow> Claims \<Rightarrow> bool" where
  "admits J cfg role anyR rq w c \<longleftrightarrow> ExtractClaims J cfg (w_now w) rq = Some c
     \<and> (if anyR then c_Role c = ''user'' \<or> c_Role c = ''admin'' else c_Role c = role) \<and> usable w c"

lemma wp_requireAuth:
  assumes no: "\<And>st code msg w'. calm w w' \<Longrightarrow> st = 401 \<or> st = 403 \<Longrightarrow> nofault w \<longrightarrow> (\<forall>c. \<not> admits J cfg role anyR rq w c) \<Longrightarrow>
      Q (ErrorResp st code msg) w'"
    and yes: "\<And>c w'. admits J cfg role anyR rq w c \<Longrightarrow> touched (c_SessionID c) w w' \<Longrightarrow> wp (next (contextWithClaims cx c)) Q w'"
  shows "wp (requireAuth J cfg role anyR rq next cx) Q w"
proof (cases "ExtractClaims J cfg (w_now w) rq")
  case None
  then show ?thesis using no [of w] by (simp add: requireAuth_def admits_def wp_bind)
next
  case (Some c)
  let ?den = "(\<not> anyR \<and> c_Role c \<noteq> role) \<or> (anyR \<and> c_Role c \<noteq> ''user'' \<and> c_Role c \<noteq> ''admin'')"
  have adm: "admits J cfg role anyR rq w d \<longleftrightarrow> d = c \<and> \<not> ?den \<and> usable w c" for d
    using Some by (auto simp: admits_def)
  show ?thesis
  proof (cases ?den)
    case True
    then show ?thesis using no [of w] adm by (auto simp: requireAuth_def Some intro!: wp_bind)
  next
    case False
    have "wp (do { ok \<leftarrow> validateSession c; if \<not> ok then ret (ErrorResp 401 ''unauthorized'' ''Session expired or revoked'')
            else next (contextWithClaims cx c) }) Q w"
      by (intro wp_bind wp_validateSession) (use no yes adm False in auto)
    then show ?thesis using False by (auto simp: requireAuth_def Some intro!: wp_bind)
  qed
qed

lemma requireAuth_guard:
  assumes "run_state (requireAuth J cfg role anyR rq next cx) w = out"
  shows "(\<exists>c w1. admits J cfg role anyR rq w c \<and> touched (c_SessionID c) w w1 \<and> out = run_state (next (contextWithClaims cx c)) w1)
    \<or> (\<exists>st code msg w1. out = (ErrorResp st code msg, w1) \<and> (st = 401 \<or> st = 403) \<and> calm w w1
        \<and> (nofault w \<longrightarrow> (\<forall>c. \<not> admits J cfg role anyR rq w c)))"
proof -
  have "wp (requireAuth J cfg role anyR rq next cx) (\<lambda>r w'.
      (\<exists>c w1. admits J cfg role anyR rq w c \<and> touched (c_SessionID c) w w1 \<and> (r, w') = run_state (next (contextWithClaims cx c)) w1)
    \<or> (\<exists>st code msg w1. (r, w') = (ErrorResp st code msg, w1) \<and> (st = 401 \<or> st = 403) \<and> calm w w1
        \<and> (nofault w \<longrightarrow> (\<forall>c. \<not> admits J cfg role anyR rq w c)))) w" (is "wp ?m ?Q w")
  proof (rule wp_requireAuth)
    fix c w1 assume c: "admits J cfg role anyR rq w c" "touched (c_SessionID c) w w1"
    obtain a b where r: "run_state (next (contextWithClaims cx c)) w1 = (a, b)" by fastforce
    show "wp (next (contextWithClaims cx c)) ?Q w1" unfolding wp_def r prod.case
      by (rule disjI1, rule exI [of _ c], rule exI [of _ w1]) (simp add: c r)
  qed blast
  then show ?thesis using assms by (auto simp: wp_def split: prod.splits)
qed

section \<open>Revocation is final\<close>

lemma inactive_stays:
  assumes "auth_run L cfg w w'" "find_session i w = Some s" "session_inactive (w_now w) s"
  shows "\<exists>t. find_session i w' = Some t \<and> session_inactive (w_now w') t"
proof -
  have l: "auth_later w w'" using auth_run_later [OF assms(1)] .
  obtain t where t: "find_session i w' = Some t" "session_step s t" using later_session [OF l assms(2)] by blast
  then show ?thesis using l assms(3) by (auto simp: session_inactive_def session_step_def auth_later_def)
qed

text \<open>The claims that the end of session \<open>i\<close> shuts out: its own, and those of impersonations started from it.\<close>

definition depends_on :: "string \<Rightarrow> world \<Rightarrow> Claims \<Rightarrow> bool" where
  "depends_on i w c \<longleftrightarrow> c_SessionID c = i \<or> (\<exists>s. find_session (c_SessionID c) w = Some s \<and> c_SessionID c \<noteq> []
     \<and> s_SubjectType s = ''impersonation'' \<and> s_ParentSessionID s = Some i)"

lemma inactive_unusable:
  "find_session i w = Some t \<Longrightarrow> session_inactive (w_now w) t \<Longrightarrow> i \<noteq> [] \<Longrightarrow> depends_on i w c \<Longrightarrow> \<not> usable w c"
  by (auto simp: usable_def depends_on_def parent_ok_def)

lemma unusable_rejected:
  assumes "\<not> usable w c" "ExtractClaims J cfg (w_now w) rq = Some c"
  shows "\<exists>st code msg. (st = 401 \<or> st = 403) \<and> fst (run_state (requireAuth J cfg role anyR rq next cx) w) = ErrorResp st code msg"
  using requireAuth_guard [of J cfg role anyR rq "next" cx w, OF refl] assms unfolding admits_def by fastforce

lemma find_upd_session:
  assumes "\<And>s. P s \<Longrightarrow> s_ID (f s) = s_ID s"
  shows "find (\<lambda>s. s_ID s = i) (upd P f ss) = map_option (\<lambda>s. if P s then f s else s) (find (\<lambda>s. s_ID s = i) ss)"
  using assms by (induction ss) (auto simp: upd_def)


definition ended :: "string \<Rightarrow> world \<Rightarrow> bool" where
  "ended i w \<longleftrightarrow> (\<exists>t. find_session i w = Some t \<and> session_inactive (w_now w) t)"

lemma ended_step: "auth_step w w' \<Longrightarrow> ended i w \<Longrightarrow> ended i w'"
proof -
  assume st: "auth_step w w'" and "ended i w"
  then obtain s where s: "find_session i w = Some s" "session_inactive (w_now w) s" by (auto simp: ended_def)
  have "auth_later w w'" using st by (simp add: auth_step_def auth_later_def)
  then obtain t where "find_session i w' = Some t" "session_step s t" using later_session s(1) by blast
  then show "ended i w'" using s(2) st by (auto simp: ended_def session_inactive_def session_step_def auth_step_def)
qed

lemma wp_ended: "steps auth_step m \<Longrightarrow> ended i w \<Longrightarrow> (\<And>r w'. ended i w' \<Longrightarrow> Q r w') \<Longrightarrow> wp m Q w"
  by (auto simp: steps_def wp_def split: prod.splits) (metis ended_step snd_conv)

lemma run_RevokeAuthSession:
  "nofault w \<Longrightarrow> run_state (RevokeAuthSession i reason) w =
     (let P = (\<lambda>s. s_ID s = i \<and> s_RevokedAt s = None) in
      (Inr (list_ex P (sessions w)), set_sessions (upd P (revoked reason (w_now w)) (sessions w)) (db_next w)))"
  by (simp add: RevokeAuthSession_def run_db_write nofault_not_fails Let_def)

lemma revoke_ends:
  assumes "nofault w" "find_session i w = Some s" "run_state (RevokeAuthSession i reason) w = (r, w')"
  shows "(\<exists>b. r = Inr b) \<and> ended i w' \<and> nofault w'"
proof -
  let ?P = "\<lambda>s. s_ID s = i \<and> s_RevokedAt s = None"
  have w': "w' = set_sessions (upd ?P (revoked reason (w_now w)) (sessions w)) (db_next w)" "\<exists>b. r = Inr b"
    using assms(1,3) by (auto simp: run_RevokeAuthSession Let_def)
  have "find_session i w' = Some (if ?P s then revoked reason (w_now w) s else s)"
    using assms(2) unfolding w' find_session_def set_tables by (subst find_upd_session) (simp_all add: revoked_def)
  moreover have "s_ID s = i" using assms(2) by (auto simp: find_session_def find_Some_iff)
  moreover have "nofault w'" unfolding w' using assms(1) by (simp add: nofault_next)
  ultimately show ?thesis using w'(2) by (auto simp: ended_def session_inactive_def revoked_def)
qed

lemma wp_RevokeAuthSession:
  "nofault w \<Longrightarrow> find_session i w \<noteq> None \<Longrightarrow> (\<And>b w'. ended i w' \<Longrightarrow> nofault w' \<Longrightarrow> Q (Inr b) w') \<Longrightarrow> wp (RevokeAuthSession i reason) Q w"
  using revoke_ends by (auto simp: wp_def split: prod.splits) blast

text \<open>The requests that end a session, and which one they end.\<close>

fun ends :: "auth_call \<Rightarrow> Claims \<Rightarrow> string" where
  "ends (CallRevokeDevice i) c = i"
| "ends (CallRevokeAdminDevice i) c = i"
| "ends _ c = c_SessionID c"

definition ending_call :: "auth_call \<Rightarrow> bool" where
  "ending_call call = (case call of CallLogout \<Rightarrow> True | CallRevokeDevice i \<Rightarrow> i \<noteq> [] | CallRevokeAdminDevice i \<Rightarrow> i \<noteq> [] | _ \<Rightarrow> False)"

lemma Logout_ends:
  "nofault w \<Longrightarrow> find_session (GetSessionID cx) w \<noteq> None \<Longrightarrow> GetSessionID cx \<noteq> [] \<Longrightarrow>
   wp (Logout rq cx) (\<lambda>r w'. ended (GetSessionID cx) w') w"
  unfolding Logout_def Let_def
  apply (simp, intro wp_bind, rule wp_calm [OF quiet_reads(3) [OF calm_rel]])
  subgoal for r w'
    using calm_sel(3) [of w w'] find_calm [of w w']
    by (intro wp_control wp_bind wp_RevokeAuthSession wp_ended [of "RevokeChildAuthSessions a b" for a b] wp_ended [of "clearRefreshCookie a" for a]
        steps_intros auth_step_rel) auto
  done


lemma wp_nowI: "Q (w_now w) w \<Longrightarrow> wp time_now Q w"
  by simp

lemmas wp_ending = wp_control wp_bind wp_nowI wp_GetAuthSession wp_RevokeAuthSession
  wp_ended [of "RevokeChildAuthSessions a b" for a b] wp_ended [of "clearRefreshCookie a" for a] steps_intros auth_step_rel

lemma RevokeUserDevice_ends: "nofault w \<Longrightarrow> wp (RevokeUserDevice L cfg rq cx i) (\<lambda>r w'. (\<exists>x. r = Reply 200 x) \<longrightarrow> ended i w') w"
  unfolding RevokeUserDevice_def with_own_devices_def
  by (intro wp_ending; auto simp: session_required_def device_missing_def calm_sel(3) find_calm)

lemma RevokeAdminDevice_ends: "nofault w \<Longrightarrow> wp (RevokeAdminDevice rq cx i) (\<lambda>r w'. (\<exists>x. r = Reply 200 x) \<longrightarrow> ended i w') w"
  unfolding RevokeAdminDevice_def
  by (intro wp_ending; auto simp: session_required_def device_missing_def calm_sel(3) find_calm)

lemma touched_sel: "touched i w w' \<Longrightarrow> nofault w \<Longrightarrow> nofault w'" "touched i w w' \<Longrightarrow> w_now w' = w_now w"
  by (simp_all add: touched_def)

lemma touched_find: "touched i w w' \<Longrightarrow> find_session j w \<noteq> None \<Longrightarrow> find_session j w' \<noteq> None"
  by (auto simp: touched_def find_session_def find_upd_session)

lemma usable_find: "usable w c \<Longrightarrow> c_SessionID c \<noteq> [] \<Longrightarrow> find_session (c_SessionID c) w \<noteq> None"
  by (auto simp: usable_def)

lemma GetSessionID_claims [simp]: "GetSessionID (contextWithClaims cx c) = c_SessionID c"
  by (simp add: GetSessionID_def contextWithClaims_def Let_def or_empty_def)

lemma wp_answer: "wp m (\<lambda>r. Q (respond enc r)) w \<Longrightarrow> wp (answer enc m) Q w"
  unfolding answer_def by (intro wp_bind wp_control) (erule wp_mono, simp)

lemma call_ends:
  assumes "ending_call call" "nofault w" "ExtractClaims (al_jwt L) cfg (w_now w) rq = Some c" "c_SessionID c \<noteq> []"
  shows "wp (serve_auth L cfg rq call) (\<lambda>r w'. (\<exists>b. r = JSONResp 200 b) \<longrightarrow> ended (ends call c) w') w"
proof -
  have reply: "wp (answer enc m) (\<lambda>r w'. (\<exists>b. r = JSONResp 200 b) \<longrightarrow> P w') w'"
    if "wp m (\<lambda>r w'. (\<exists>x. r = Reply 200 x) \<longrightarrow> P w') w'" for enc m P w'
    by (rule wp_answer, rule wp_mono [OF that]) (auto simp: respond_def split: reply.splits)
  have own: "d = c" if "admits J cfg role anyR rq w d" "J = al_jwt L" for d J role anyR using that assms(3) by (simp add: admits_def)
  note t = touched_sel(1) [OF _ assms(2)] touched_find usable_find
  consider "call = CallLogout" | i where "call = CallRevokeDevice i" | i where "call = CallRevokeAdminDevice i"
    using assms(1) by (cases call) (auto simp: ending_call_def)
  then show ?thesis
  proof cases
    case 1
    show ?thesis unfolding 1 serve_auth_def Let_def auth_call.case RequireAnyAuthWithSessions_def
    proof (rule wp_requireAuth)
      fix d w1 assume d: "admits (al_jwt L) cfg [] True rq w d" "touched (c_SessionID d) w w1"
      have "wp (Logout rq (contextWithClaims empty_ctx d)) (\<lambda>r w'. ended (c_SessionID c) w') w1"
        using Logout_ends [of w1 "contextWithClaims empty_ctx d" rq] d assms(4) own [OF d(1)] t(1) [OF d(2)] t(2) [OF d(2)] t(3) [of w d]
        by (simp add: admits_def)
      then show "wp (answer enc_ok (Logout rq (contextWithClaims empty_ctx d))) (\<lambda>r w'. (\<exists>b. r = JSONResp 200 b) \<longrightarrow> ended (ends CallLogout c) w') w1"
        by (intro reply) (auto elim: wp_mono)
    qed simp
  next
    case 2
    show ?thesis unfolding 2 serve_auth_def Let_def auth_call.case RequireUserWithSessions_def
      by (rule wp_requireAuth) (auto intro!: reply RevokeUserDevice_ends t)
  next
    case 3
    show ?thesis unfolding 3 serve_auth_def Let_def auth_call.case RequireAdminWithSessions_def
      by (rule wp_requireAuth) (auto intro!: reply RevokeAdminDevice_ends t)
  qed
qed


text \<open>C23. A session ends for good. After a successful logout, or a successful revocation of a device, with the
  database answering, and after any further authentication requests and any time, every request whose
  token belongs to that session, or to an impersonation started from it, is answered 401 or 403 by
  the guards of the routes, whatever role they ask for.\<close>

theorem session_end_is_final:
  assumes "run_state (serve_auth L cfg rq call) w = (JSONResp 200 b, w1)" "ending_call call" "nofault w"
    "ExtractClaims (al_jwt L) cfg (w_now w) rq = Some c" "c_SessionID c \<noteq> []"
    "auth_run L cfg w1 w2"
    "ExtractClaims (al_jwt L) cfg (w_now w2) rq2 = Some d" "depends_on (ends call c) w2 d"
  shows "\<exists>st code msg. (st = 401 \<or> st = 403)
    \<and> fst (run_state (requireAuth (al_jwt L) cfg role anyR rq2 next cx) w2) = ErrorResp st code msg"
proof -
  have i: "ends call c \<noteq> []" using assms(2,5) by (cases call) (auto simp: ending_call_def)
  have "ended (ends call c) w1" using wp_run [OF call_ends [OF assms(2-5)] assms(1)] by blast
  then obtain t where "find_session (ends call c) w2 = Some t" "session_inactive (w_now w2) t"
    using inactive_stays [OF assms(6)] by (auto simp: ended_def)
  from unusable_rejected [OF inactive_unusable [OF this i assms(8)] assms(7)] show ?thesis .
qed

section \<open>A small set of sessions\<close>

text \<open>An operator's session with an impersonation started from it, and a user's session; a token for each.\<close>

definition sample_claims :: "(string \<times> Claims) list" where
  "sample_claims =
     [(''tok-admin'', no_claims\<lparr>c_Role := ''admin'', c_Email := ''noc@example.net'', c_SessionID := ''s-admin'', c_Type := ''access'',
         c_Subject := ''adm'', c_ExpiresAt := 900\<rparr>),
      (''tok-imp'', no_claims\<lparr>c_Role := ''user'', c_ASN := 4242420123, c_SessionID := ''s-imp'', c_Type := ''access'',
         c_LoginMethod := ''impersonation'', c_ExpiresAt := 900\<rparr>),
      (''tok-user'', no_claims\<lparr>c_Role := ''user'', c_ASN := 4242420456, c_Email := ''u@example.net'', c_SessionID := ''s-user'',
         c_Type := ''access'', c_Subject := ''4242420456'', c_ExpiresAt := 900\<rparr>)]"

definition sample_jwt :: jwt_lib where
  "sample_jwt = \<lparr>SignedString = (\<lambda>k c. if k = ''secret'' then map_of (map (\<lambda>(t, c). (c, t)) sample_claims) c else None),
     ParseWithClaims = (\<lambda>kf now t. if kf ''HS256'' = Some ''secret'' then
        (case map_of sample_claims t of None \<Rightarrow> None
         | Some c \<Rightarrow> if c_NotBefore c \<le> now \<and> now < c_ExpiresAt c then Some c else None) else None)\<rparr>"

definition sample_lib :: auth_lib where
  "sample_lib = \<lparr>al_jwt = sample_jwt, al_GenerateFromPassword = (\<lambda>salt p. Some (CHR ''$'' # p)),
     al_CompareHashAndPassword = (\<lambda>h p. h = CHR ''$'' # p), al_clearsign = (\<lambda>m. (None, m)), al_ReadArmoredKeyRing = (\<lambda>_. Inl ''no key''),
     al_ReadKeyRing = (\<lambda>_. Inl ''no key''), al_VerifySignature = (\<lambda>_ _. Inl ''no key''), al_siteverify = (\<lambda>_. Inr True), al_smtp = (\<lambda>_. True)\<rparr>"

definition sample_cfg :: auth_config where
  "sample_cfg = \<lparr>cfg_JWTSecret = ''secret'', cfg_UserAccessTokenTTL = 900000, cfg_AdminAccessTokenTTL = 900000,
     cfg_UserRefreshTokenTTL = 86400000, cfg_AdminRefreshTokenTTL = 86400000, cfg_ImpersonationTokenTTL = 900000,
     cfg_CORSOrigin = ''https://peer.example.net'', cfg_TurnstileSiteKey = [], cfg_TurnstileSecretKey = []\<rparr>"

definition bearer :: "string \<Rightarrow> http_request" where
  "bearer t = \<lparr>rq_Method = ''POST'', rq_Path = ''/'', rq_RemoteAddr = ''192.0.2.9:40000'', rq_Host = ''center'', rq_TLS = True,
     rq_Header = (\<lambda>h. if h = ''Authorization'' then ''Bearer '' @ t else []), rq_Cookie = (\<lambda>_. None)\<rparr>"

definition sample_session :: "string \<Rightarrow> string \<Rightarrow> auth_session" where
  "sample_session i typ = \<lparr>s_ID = i, s_SubjectType = typ, s_ASN = (if typ = ''admin'' then None else Some 4242420456),
     s_AdminID = (if typ = ''user'' then None else Some ''adm''), s_Email = ''u@example.net'',
     s_ParentSessionID = (if typ = ''impersonation'' then Some ''s-admin'' else None), s_RefreshTokenHash = [],
     s_PreviousRefreshTokenHash = [], s_PreviousRefreshTokenValidUntil = None, s_UserAgent = [], s_IPAddress = ''192.0.2.9'',
     s_DeviceName = [], s_LoginMethod = ''email'', s_CreatedAt = 500, s_LastUsedAt = None, s_ExpiresAt = 5000000, s_RevokedAt = None,
     s_RevokedReason = []\<rparr>"

definition auth_world :: world where
  "auth_world = \<lparr>w_peers = [], w_nodes = [], w_audit = [], w_bindings = [], w_notification_settings = Map.empty,
     w_site_settings = [''user_login_enabled'' \<mapsto> ''true''], w_locks = None, w_cache = sample_cache, w_conns = Map.empty, w_sent = [], w_out = [],
     w_replies = [], w_dbfail = [], w_uuids = [''u1'', ''u2'', ''u3''], w_rand = [], w_registry = \<lparr>rs_token = [], rs_get = (\<lambda>_ _. Inl ''offline'')\<rparr>,
     w_auth = no_auth\<lparr>t_sessions := [sample_session ''s-admin'' ''admin'', sample_session ''s-imp'' ''impersonation'', sample_session ''s-user'' ''user'']\<rparr>, w_mon = no_monitor, w_bot = no_bot,
     w_cookies = [], w_headers = [], w_now = 1000, w_now_text = ''2025-01-01''\<rparr>"

lemma auth_nofault: "nofault auth_world"
  by (simp add: nofault_def auth_world_def)

lemma claims_of:
  "ExtractClaims sample_jwt sample_cfg 1000 (bearer ''tok-admin'') = Some (the (map_of sample_claims ''tok-admin''))"
  "ExtractClaims sample_jwt sample_cfg 1000 (bearer ''tok-imp'') = Some (the (map_of sample_claims ''tok-imp''))"
  "ExtractClaims sample_jwt sample_cfg 1000 (bearer ''tok-user'') = Some (the (map_of sample_claims ''tok-user''))"
  by (simp_all add: ExtractClaims_def parseJWT_def sample_jwt_def sample_cfg_def bearer_def sample_claims_def no_claims_def unix_def Let_def trim_prefix_def)

lemmas sample_auth_defs = auth_world_def sample_session_def sample_lib_def no_auth_def sample_claims_def no_claims_def

lemma logout_run:
  "\<exists>w1. run_state (serve_auth sample_lib sample_cfg (bearer ''tok-admin'') CallLogout) auth_world = (JSONResp 200 (enc_ok ()), w1)
     \<and> w_now w1 = 1000 \<and> find_session ''s-imp'' w1 = Some (revoked ''parent_logout'' 1000 (sample_session ''s-imp'' ''impersonation''))"
  using claims_of(1)
  by (simp add: serve_auth_def Let_def RequireAnyAuthWithSessions_def requireAuth_def validateSession_def parent_active_def time_now_def
      sample_auth_defs GetAuthSession_def TouchAuthSession_def RevokeAuthSession_def RevokeChildAuthSessions_def run_db_write db_fails_def
      find_session_def row_def session_inactive_def session_role_mismatch_def answer_def respond_def Logout_def set_sessions_def upd_def
      clearRefreshCookie_def setRefreshCookie_def revoked_def db_next_def)

theorem session_end_is_final_witness:
  "\<exists>w1. run_state (serve_auth sample_lib sample_cfg (bearer ''tok-admin'') CallLogout) auth_world = (JSONResp 200 (enc_ok ()), w1)
     \<and> (\<exists>st code msg. (st = 401 \<or> st = 403) \<and>
          fst (run_state (RequireUserWithSessions sample_jwt sample_cfg (bearer ''tok-imp'') (\<lambda>_. ret (JSONResp 200 JNull)) empty_ctx) w1)
            = ErrorResp st code msg)"
proof -
  obtain w1 where w1: "run_state (serve_auth sample_lib sample_cfg (bearer ''tok-admin'') CallLogout) auth_world = (JSONResp 200 (enc_ok ()), w1)"
    "w_now w1 = 1000" "find_session ''s-imp'' w1 = Some (revoked ''parent_logout'' 1000 (sample_session ''s-imp'' ''impersonation''))"
    using logout_run by blast
  have J: "al_jwt sample_lib = sample_jwt" by (simp add: sample_lib_def)
  show ?thesis unfolding RequireUserWithSessions_def
    using session_end_is_final [OF w1(1) _ auth_nofault _ _ auth_run.start, of "the (map_of sample_claims ''tok-admin'')" "bearer ''tok-imp''"
        "the (map_of sample_claims ''tok-imp'')", unfolded J] w1 claims_of(1,2)
    by (simp add: ending_call_def depends_on_def sample_claims_def no_claims_def revoked_def sample_session_def auth_world_def)
qed

section \<open>What the guard promises\<close>

text \<open>The requests that a route for some roles admits: a bearer token that the library accepts under the secret
  with HS256 now, of type access (or of none), with one of the roles. A token that names a session needs that session
  stored, not revoked and not past its expiry; of subject admin for an admin, of a user or an impersonation for a
  user; and an impersonation that has a parent needs the parent active in the same sense.\<close>

definition active_at :: "int \<Rightarrow> auth_session \<Rightarrow> bool" where
  "active_at now s \<longleftrightarrow> s_RevokedAt s = None \<and> now \<le> s_ExpiresAt s"

definition bearer_claims :: "jwt_lib \<Rightarrow> auth_config \<Rightarrow> int \<Rightarrow> http_request \<Rightarrow> Claims \<Rightarrow> bool" where
  "bearer_claims J cfg now rq c \<longleftrightarrow> (\<exists>t. rq_Header rq ''Authorization'' = ''Bearer '' @ t
     \<and> ParseWithClaims J (\<lambda>alg. if alg = ''HS256'' then Some (cfg_JWTSecret cfg) else None) (unix now) t = Some c \<and> c_Type c \<in> {[], ''access''})"

definition may_pass :: "jwt_lib \<Rightarrow> auth_config \<Rightarrow> string set \<Rightarrow> http_request \<Rightarrow> world \<Rightarrow> Claims \<Rightarrow> bool" where
  "may_pass J cfg roles rq w c \<longleftrightarrow> bearer_claims J cfg (w_now w) rq c \<and> c_Role c \<in> roles
     \<and> (c_SessionID c \<noteq> [] \<longrightarrow> (\<exists>s. find_session (c_SessionID c) w = Some s \<and> active_at (w_now w) s
          \<and> (c_Role c = ''admin'' \<longrightarrow> s_SubjectType s = ''admin'') \<and> (c_Role c = ''user'' \<longrightarrow> s_SubjectType s \<in> {''user'', ''impersonation''})
          \<and> (\<forall>p. s_SubjectType s = ''impersonation'' \<and> s_ParentSessionID s = Some p \<longrightarrow> (\<exists>q. find_session p w = Some q \<and> active_at (w_now w) q))))"

lemma ExtractClaims_bearer: "ExtractClaims J cfg now rq = Some c \<longleftrightarrow> bearer_claims J cfg now rq c"
proof -
  have k: "(\<lambda>alg. if alg \<noteq> ''HS256'' then None else Some (cfg_JWTSecret cfg)) = (\<lambda>alg. if alg = ''HS256'' then Some (cfg_JWTSecret cfg) else None)"
    by (simp add: fun_eq_iff)
  show ?thesis
  proof (cases "\<exists>t. rq_Header rq ''Authorization'' = ''Bearer '' @ t")
    case True
    then obtain t where t: "rq_Header rq ''Authorization'' = ''Bearer '' @ t" by blast
    then have "ExtractClaims J cfg now rq = parseJWT J cfg now t" by (simp add: ExtractClaims_def trim_prefix_def)
    with t show ?thesis by (auto simp: parseJWT_def bearer_claims_def k split: option.splits)
  next
    case False
    then have "\<not> has_prefix (rq_Header rq ''Authorization'') ''Bearer ''" by (auto simp: has_prefix_iff)
    with False show ?thesis by (auto simp: ExtractClaims_def bearer_claims_def)
  qed
qed

lemma admits_may_pass: "admits J cfg role anyR rq w c \<longleftrightarrow> may_pass J cfg (if anyR then {''user'', ''admin''} else {role}) rq w c"
  by (auto simp: admits_def may_pass_def ExtractClaims_bearer usable_def parent_ok_def session_inactive_def session_role_mismatch_def active_at_def)

text \<open>C24. The guard of the authenticated routes. The handler behind it runs exactly when the request carries a token
  that is accepted now, with a role that the route admits, whose session (if it names one) is stored, not
  revoked, not expired and of the kind of the role, and whose parent session, for an impersonation, is
  active too; it runs with the role, AS number, address and session of the token in its context, and the
  operator's identifier for an admin, on a state in which at most the time of last use of that session has changed. Any
  other request is answered 401 or 403 and changes no authentication table. Only a failing database refuses
  a request that qualifies.\<close>

theorem guard_correct:
  assumes "run_state (requireAuth J cfg role anyR rq next cx) w = out"
  shows "(\<exists>c w1. may_pass J cfg (if anyR then {''user'', ''admin''} else {role}) rq w c \<and> touched (c_SessionID c) w w1
      \<and> out = run_state (next (cx\<lparr>cx_role := Some (c_Role c), cx_asn := Some (c_ASN c), cx_email := Some (c_Email c), cx_session_id := Some (c_SessionID c),
          cx_admin_id := (if c_Role c = ''admin'' then Some (c_Subject c) else cx_admin_id cx)\<rparr>)) w1)
    \<or> (\<exists>st code msg w1. out = (ErrorResp st code msg, w1) \<and> (st = 401 \<or> st = 403) \<and> calm w w1
        \<and> (nofault w \<longrightarrow> (\<forall>c. \<not> may_pass J cfg (if anyR then {''user'', ''admin''} else {role}) rq w c)))"
proof -
  have cx: "contextWithClaims cx c = cx\<lparr>cx_role := Some (c_Role c), cx_asn := Some (c_ASN c), cx_email := Some (c_Email c),
      cx_session_id := Some (c_SessionID c), cx_admin_id := (if c_Role c = ''admin'' then Some (c_Subject c) else cx_admin_id cx)\<rparr>" for c
    by (simp add: contextWithClaims_def Let_def)
  show ?thesis using requireAuth_guard [OF assms] unfolding admits_may_pass cx .
qed

theorem guard_correct_witness:
  "\<exists>w1. touched ''s-user'' auth_world w1
     \<and> run_state (RequireUserWithSessions sample_jwt sample_cfg (bearer ''tok-user'') (\<lambda>cx. ret (JSONResp 200 (jint (GetASN cx)))) empty_ctx) auth_world
         = (JSONResp 200 (jint 4242420456), w1)"
proof -
  let ?c = "the (map_of sample_claims ''tok-user'')"
  have now: "w_now auth_world = 1000" by (simp add: auth_world_def)
  have b: "bearer_claims sample_jwt sample_cfg 1000 (bearer ''tok-user'') d \<longleftrightarrow> d = ?c" for d
    using claims_of(3) by (auto simp: ExtractClaims_bearer [symmetric])
  have a: "may_pass sample_jwt sample_cfg {''user''} (bearer ''tok-user'') auth_world d \<longleftrightarrow> d = ?c" for d
    by (auto simp: may_pass_def now b) (simp_all add: sample_auth_defs find_session_def active_at_def)
  have "c_SessionID ?c = ''s-user''" "c_ASN ?c = 4242420456" by (simp_all add: sample_claims_def no_claims_def)
  with guard_correct [of sample_jwt sample_cfg "''user''" False "bearer ''tok-user''" "\<lambda>cx. ret (JSONResp 200 (jint (GetASN cx)))" empty_ctx auth_world, OF refl]
    a auth_nofault show ?thesis by (auto simp: RequireUserWithSessions_def GetASN_def)
qed

section \<open>Refreshing a session\<close>

lemma wp_db_readI: "(db_fails w \<Longrightarrow> Q (Inl DbFail) (db_next w)) \<Longrightarrow> (\<not> db_fails w \<Longrightarrow> Q (f (db_next w)) (db_next w)) \<Longrightarrow> wp (db_read f) Q w"
  by (simp add: wp_def)

lemma wp_GetByRefreshHash:
  assumes "\<And>e. Q (Inl e) (db_next w)"
    "\<And>s. s \<in> set (sessions w) \<Longrightarrow> s_RefreshTokenHash s = h \<Longrightarrow> h \<noteq> [] \<Longrightarrow> live_session (w_now w) s \<Longrightarrow> Q (Inr s) (db_next w)"
  shows "wp (GetAuthSessionByRefreshHash h) Q w"
  unfolding GetAuthSessionByRefreshHash_def
  by (rule wp_db_readI) (use assms in \<open>auto simp: row_def find_Some_iff split: option.splits\<close>)

lemma wp_generateRefreshToken:
  assumes "\<And>w'. calm w w' \<Longrightarrow> Q None w'" "\<And>raw w'. calm w w' \<Longrightarrow> Q (Some (raw, hashRefreshToken raw)) w'"
  shows "wp generateRefreshToken Q w"
proof -
  obtain b w' where b: "run_state rand_read w = (b, w')" by fastforce
  have "calm w w'" using quiet_auth(8) [OF calm_rel] b by (metis steps_def snd_conv)
  then show ?thesis using assms by (cases b) (auto simp: generateRefreshToken_def wp_def b)
qed

lemma wp_Rotate:
  assumes "\<And>r w'. r \<noteq> Inr True \<Longrightarrow> sessions w' = sessions w \<Longrightarrow> Q r w'"
    "\<And>s. s \<in> set (sessions w) \<Longrightarrow> rotates i h (w_now w) s \<Longrightarrow>
       list_all (\<lambda>t. s_ID t \<noteq> i \<longrightarrow> s_PreviousRefreshTokenHash t \<noteq> h) (sessions w) \<Longrightarrow>
       Q (Inr True) (set_sessions (upd (rotates i h (w_now w)) (rotated h h' (w_now w)) (sessions w)) (db_next w))"
  shows "wp (RotateAuthSessionRefresh i h h') Q w"
proof -
  have none: "upd P f ss = ss" if "\<not> list_ex P ss" for P f and ss :: "auth_session list"
    using that by (auto simp: upd_def list_ex_iff intro!: map_idI)
  show ?thesis
  proof (cases "list_ex (rotates i h (w_now w)) (sessions w)")
    case True
    then show ?thesis using assms unfolding RotateAuthSessionRefresh_def wp_def Let_def
      by (auto simp: run_db_write list_ex_iff list_all_iff split: sum.splits)
  next
    case False
    then show ?thesis using assms(1) none [OF False] unfolding RotateAuthSessionRefresh_def wp_def Let_def
      by (auto simp: run_db_write)
  qed
qed

definition refresh_cookie :: "http_request \<Rightarrow> string" where
  "refresh_cookie rq = or_empty (rq_Cookie rq ''refresh_token'')"

text \<open>A session table after a rotation of session \<open>s\<close>: the session was neither revoked nor expired and its stored hash
  was that of the presented token; its row has the hash of the new one, remembers the old one for ten seconds,
  which no other row does, and was used now; nothing else changes.\<close>

definition rotation :: "auth_session \<Rightarrow> string \<Rightarrow> string \<Rightarrow> world \<Rightarrow> world \<Rightarrow> bool" where
  "rotation s old raw w w' \<longleftrightarrow> find_session (s_ID s) w = Some s \<and> s_RevokedAt s = None \<and> w_now w < s_ExpiresAt s
     \<and> s_RefreshTokenHash s = hashRefreshToken old
     \<and> list_all (\<lambda>t. s_ID t \<noteq> s_ID s \<longrightarrow> s_PreviousRefreshTokenHash t \<noteq> hashRefreshToken old) (sessions w)
     \<and> sessions w' = map (\<lambda>t. if t = s then s\<lparr>s_RefreshTokenHash := hashRefreshToken raw, s_PreviousRefreshTokenHash := hashRefreshToken old,
          s_PreviousRefreshTokenValidUntil := Some (w_now w + 10000), s_LastUsedAt := Some (w_now w)\<rparr> else t) (sessions w)"

lemma sessions_ok_find: "sessions_ok (sessions w) \<Longrightarrow> s \<in> set (sessions w) \<Longrightarrow> find_session (s_ID s) w = Some s"
proof -
  assume ok: "sessions_ok (sessions w)" and s: "s \<in> set (sessions w)"
  then have "\<exists>t. find_session (s_ID s) w = Some t" by (cases "find_session (s_ID s) w") (auto simp: find_session_def find_None_iff)
  then obtain t where t: "find_session (s_ID s) w = Some t" by blast
  then have "t \<in> set (sessions w)" "s_ID t = s_ID s" by (auto simp: find_session_def find_Some_iff)
  then have "t = s" using ok s by (auto simp: sessions_ok_def distinct_map inj_on_def)
  then show ?thesis using t by simp
qed

lemma quiet_refresh_sign: "refresh_token_for L cfg s = Inr m \<Longrightarrow> auth_rel R \<Longrightarrow> steps R m"
  by (auto simp: refresh_token_for_def split: if_splits option.splits prod.splits intro!: steps_intros)

lemma wp_any: "(\<And>r w'. Q r w') \<Longrightarrow> wp m Q w"
  by (simp add: wp_def split: prod.splits)

lemma wp_setRefreshCookie:
  "(\<And>w'. w_auth w' = w_auth w \<Longrightarrow> w_cookies w' \<noteq> [] \<Longrightarrow> ck_Value (last (w_cookies w')) = t \<Longrightarrow> Q () w') \<Longrightarrow> wp (setRefreshCookie rq t age) Q w"
  by (simp add: wp_def setRefreshCookie_def)

lemma rotates_unique:
  assumes "sessions_ok (sessions w)" "s \<in> set (sessions w)" "s_RefreshTokenHash s = h" "h \<noteq> []" "live_session (w_now w) s"
  shows "upd (rotates (s_ID s) h (w_now w)) f (sessions w) = map (\<lambda>t. if t = s then f s else t) (sessions w)"
proof -
  have "rotates (s_ID s) h (w_now w) t \<longleftrightarrow> t = s" if "t \<in> set (sessions w)" for t
  proof -
    have "s_ID t = s_ID s \<longleftrightarrow> t = s" using that assms(1,2) by (auto simp: sessions_ok_def distinct_map inj_on_def)
    then show ?thesis using assms(3-5) by (auto simp: rotates_def)
  qed
  then show ?thesis by (simp add: upd_def)
qed

lemma wp_Refresh:
  assumes ok: "sessions_ok (sessions w)"
  shows "wp (Refresh L cfg rq) (\<lambda>r w'. (\<exists>a. r = Reply 200 a) \<longrightarrow>
     w_cookies w' \<noteq> [] \<and> (\<exists>s. rotation s (refresh_cookie rq) (ck_Value (last (w_cookies w'))) w w')) w" (is "wp _ ?Q w")
proof -
  let ?h = "hashRefreshToken (refresh_cookie rq)"
  have rot: "wp (do { ok \<leftarrow> RotateAuthSessionRefresh (s_ID s) ?h (hashRefreshToken raw);
         if ok \<noteq> Inr True then do { clearRefreshCookie rq; ret (Fail 401 e1 e2) }
         else do { setRefreshCookie rq raw age; again \<leftarrow> GetAuthSession (s_ID s); now \<leftarrow> time_now; ret (Reply 200 (f again now)) } }) ?Q w'"
    if s: "s \<in> set (sessions w)" "s_RefreshTokenHash s = ?h" "?h \<noteq> []" "live_session (w_now w) s" and c: "calm w w'" for s raw age e1 e2 f w'
  proof (intro wp_bind wp_Rotate)
    fix t assume only: "list_all (\<lambda>t. s_ID t \<noteq> s_ID s \<longrightarrow> s_PreviousRefreshTokenHash t \<noteq> ?h) (sessions w')"
    show "wp (if Inr True \<noteq> Inr True then do { clearRefreshCookie rq; ret (Fail 401 e1 e2) }
         else do { setRefreshCookie rq raw age; again \<leftarrow> GetAuthSession (s_ID s); now \<leftarrow> time_now; ret (Reply 200 (f again now)) }) ?Q
       (set_sessions (upd (rotates (s_ID s) ?h (w_now w')) (rotated ?h (hashRefreshToken raw) (w_now w')) (sessions w')) (db_next w'))"
      using s only sessions_ok_find [OF ok s(1)] rotates_unique [OF ok s]
      by (simp add: calm_sel [OF c])
         (auto intro!: wp_bind wp_setRefreshCookie wp_db_readI exI [of _ s] simp: GetAuthSession_def rotation_def set_sessions_def rotated_def live_session_def)
  qed (simp, rule wp_bind, rule wp_any, simp)
  show ?thesis
    unfolding Refresh_def Let_def refresh_cookie_def [symmetric]
    apply (intro wp_control wp_bind wp_GetByRefreshHash wp_generateRefreshToken wp_any [of _ "refresh_reuse rq h" for h]
         wp_any [of _ "clearRefreshCookie rq"])
    apply (simp_all add: fail_def split: prod.splits)
    apply (rule wp_calm [OF quiet_refresh_sign [OF _ calm_rel]], assumption)
    apply (intro wp_control; clarsimp)
    apply (rule rot; (simp; fail)?)
    using calm_trans calm_db_next apply blast
    done
qed

text \<open>C26. A successful refresh rotates the refresh token of one session. The session is neither revoked nor expired and
  its stored hash is that of the presented cookie; afterwards its row has the hash of the value of the cookie
  that the response sets, keeps the old hash as the previous one until ten seconds from now, has now as its time of last
  use, and is otherwise as it was: in particular its expiry is not extended. No other row changes.\<close>

theorem refresh_rotates:
  assumes "run_state (Refresh L cfg rq) w = (Reply 200 a, w')" "sessions_ok (sessions w)"
  shows "w_cookies w' \<noteq> [] \<and> (\<exists>s. find_session (s_ID s) w = Some s \<and> s_RevokedAt s = None \<and> w_now w < s_ExpiresAt s
    \<and> s_RefreshTokenHash s = hashRefreshToken (refresh_cookie rq)
    \<and> sessions w' = map (\<lambda>t. if t = s then s\<lparr>s_RefreshTokenHash := hashRefreshToken (ck_Value (last (w_cookies w'))),
          s_PreviousRefreshTokenHash := hashRefreshToken (refresh_cookie rq), s_PreviousRefreshTokenValidUntil := Some (w_now w + 10000),
          s_LastUsedAt := Some (w_now w)\<rparr> else t) (sessions w))"
  using wp_run [OF wp_Refresh [OF assms(2)] assms(1)] unfolding rotation_def by blast

text \<open>The request with the cookie of the user's session, whose row has the hash of it.\<close>

definition refresh_request :: http_request where
  "refresh_request = (bearer [])\<lparr>rq_Cookie := (\<lambda>n. if n = ''refresh_token'' then Some ''c0ffee'' else None)\<rparr>"

definition refresh_world :: world where
  "refresh_world = auth_world\<lparr>w_auth := no_auth\<lparr>t_sessions := [(sample_session ''s-user'' ''user'')\<lparr>s_RefreshTokenHash := hashRefreshToken ''c0ffee''\<rparr>]\<rparr>,
     w_rand := [Some (replicate 32 7)]\<rparr>"

definition any_jwt :: jwt_lib where
  "any_jwt = \<lparr>SignedString = (\<lambda>k c. Some ''t''), ParseWithClaims = (\<lambda>_ _ _. None)\<rparr>"

lemma length_hash: "length (hashRefreshToken t) = 64"
proof -
  have hex: "length (hex_encode s) = 2 * length s" for s by (induction s) (auto simp: hex_encode_def)
  have "length (Sum256 t) = 32" by (simp add: Sum256_def be_bytes_def split: prod.splits)
  then show ?thesis by (simp add: hashRefreshToken_def hex)
qed

lemma hash_nonempty [simp]: "hashRefreshToken t \<noteq> []"
  using length_hash [of t] by auto

lemma refresh_run:
  "\<exists>a w'. run_state (Refresh (sample_lib\<lparr>al_jwt := any_jwt\<rparr>) sample_cfg refresh_request) refresh_world = (Reply 200 a, w')"
  by (simp add: Refresh_def Let_def refresh_request_def bearer_def trim_space_printable printable_def GetAuthSessionByRefreshHash_def db_fails_def refresh_world_def
      auth_world_def sample_session_def no_auth_def live_session_def row_def generateRefreshToken_def rand_read_def refresh_token_for_def
      SignUserSessionJWT_def sign_claims_def time_now_def new_uuid_def fresh_uuid_def any_jwt_def sample_lib_def RotateAuthSessionRefresh_def
      run_db_write rotates_def setRefreshCookie_def GetAuthSession_def or_empty_def)

lemma refresh_world_ok: "sessions_ok (sessions refresh_world)" "refresh_cookie refresh_request = ''c0ffee''"
  by (simp_all add: sessions_ok_def refresh_world_def auth_world_def sample_session_def no_auth_def subject_ok_def refresh_cookie_def refresh_request_def
      or_empty_def)

theorem refresh_rotates_witness:
  "\<exists>a w' t. run_state (Refresh (sample_lib\<lparr>al_jwt := any_jwt\<rparr>) sample_cfg refresh_request) refresh_world = (Reply 200 a, w')
     \<and> sessions w' = [t] \<and> s_RefreshTokenHash t = hashRefreshToken (ck_Value (last (w_cookies w')))
     \<and> s_PreviousRefreshTokenHash t = hashRefreshToken ''c0ffee'' \<and> s_PreviousRefreshTokenValidUntil t = Some 11000 \<and> s_ExpiresAt t = 5000000"
proof -
  obtain a w' where r: "run_state (Refresh (sample_lib\<lparr>al_jwt := any_jwt\<rparr>) sample_cfg refresh_request) refresh_world = (Reply 200 a, w')"
    using refresh_run by blast
  from refresh_rotates [OF r refresh_world_ok(1)] obtain s where s: "find_session (s_ID s) refresh_world = Some s"
    "sessions w' = map (\<lambda>t. if t = s then s\<lparr>s_RefreshTokenHash := hashRefreshToken (ck_Value (last (w_cookies w'))),
          s_PreviousRefreshTokenHash := hashRefreshToken (refresh_cookie refresh_request), s_PreviousRefreshTokenValidUntil := Some (w_now refresh_world + 10000),
          s_LastUsedAt := Some (w_now refresh_world)\<rparr> else t) (sessions refresh_world)" by blast
  have "s \<in> set (sessions refresh_world)" using s(1) by (auto simp: find_session_def find_Some_iff)
  then have s': "s = (sample_session ''s-user'' ''user'')\<lparr>s_RefreshTokenHash := hashRefreshToken ''c0ffee''\<rparr>" by (simp add: refresh_world_def)
  have "sessions refresh_world = [s]" "w_now refresh_world = 1000" by (simp_all add: s' refresh_world_def auth_world_def)
  moreover have "s_ExpiresAt s = 5000000" by (simp add: s' sample_session_def)
  ultimately show ?thesis using s(2) r by (simp add: refresh_world_ok)
qed








lemma wp_audit: "(\<And>w'. w_auth w' = w_auth w \<Longrightarrow> w_now w' = w_now w \<Longrightarrow> Q () w') \<Longrightarrow> wp (audit_Log a b c d) Q w"
  by (simp add: wp_def audit_Log_def run_db_write)






section \<open>Device codes\<close>

definition grant_of :: "string \<Rightarrow> world \<Rightarrow> auth_device_grant option" where
  "grant_of h w = find (\<lambda>g. g_DeviceCodeHash g = h) (grants w)"

lemma grant_of_calm: "calm w w' \<Longrightarrow> grant_of h w' = grant_of h w"
  by (simp add: calm_def grant_of_def)

lemma grant_of_upd:
  assumes "grants w' = upd P f (grants w)" "\<And>g. g_DeviceCodeHash (f g) = g_DeviceCodeHash g"
  shows "grant_of h w' = map_option (\<lambda>g. if P g then f g else g) (grant_of h w)"
proof -
  have "find (\<lambda>g. g_DeviceCodeHash g = h) (upd P f gs) = map_option (\<lambda>g. if P g then f g else g) (find (\<lambda>g. g_DeviceCodeHash g = h) gs)" for gs
    using assms(2) by (induction gs) (auto simp: upd_def)
  then show ?thesis by (simp add: grant_of_def assms(1))
qed

text \<open>A grant that has been traded for a session stays so.\<close>

lemma exchanged_stays:
  assumes "auth_run L cfg w w'" "grant_of h w = Some g" "g_Status g = ''exchanged''"
  shows "\<exists>g'. grant_of h w' = Some g' \<and> g_Status g' = ''exchanged''"
proof -
  have "grows grant_step (grants w) (grants w')" using auth_run_later [OF assms(1)] by (simp add: auth_later_def)
  then obtain g' where "grant_of h w' = Some g'" "grant_step g g'"
    using grows_find [of grant_step "grants w" "grants w'" "\<lambda>g. g_DeviceCodeHash g = h" g] assms(2)
    by (auto simp: grant_of_def grant_step_def)
  then show ?thesis using assms(3) by (auto simp: grant_step_def)
qed

lemma wp_Poll:
  assumes "\<And>e w'. Q (Inl e) w'"
    "\<And>g w'. grant_of h w = Some g \<Longrightarrow> grant_of h w' = Some (polled (w_now w) iv g) \<Longrightarrow> sessions w' = sessions w \<Longrightarrow> w_now w' = w_now w \<Longrightarrow>
       (grants_ok (grants w) \<Longrightarrow> grants_ok (grants w')) \<Longrightarrow> Q (Inr (polled (w_now w) iv g)) w'"
  shows "wp (PollAuthDeviceGrant h iv) Q w"
proof (cases "grant_of h w")
  case None
  then show ?thesis using assms(1) by (simp add: wp_def PollAuthDeviceGrant_def run_db_write Let_def grant_of_def)
next
  case (Some g)
  let ?w = "set_grants (upd (\<lambda>g. g_DeviceCodeHash g = h) (polled (w_now w) iv) (grants w)) (db_next w)"
  have "g_DeviceCodeHash g = h" using Some by (auto simp: grant_of_def find_Some_iff)
  then have "grant_of h ?w = Some (polled (w_now w) iv g)"
    by (subst grant_of_upd [of ?w "\<lambda>g. g_DeviceCodeHash g = h" "polled (w_now w) iv" w]) (simp_all add: Some polled_def)
  moreover have "grants_ok (grants w) \<Longrightarrow> grants_ok (grants ?w)"
    unfolding set_tables by (rule grants_ok_upd) (simp_all add: grant_step_def polled_def)
  ultimately show ?thesis using assms Some by (simp add: wp_def PollAuthDeviceGrant_def run_db_write Let_def grant_of_def)
qed

text \<open>Trading a grant: the new session is stored, and the grant of the code points to it.\<close>

definition traded :: "string \<Rightarrow> auth_session \<Rightarrow> world \<Rightarrow> bool" where
  "traded h s w \<longleftrightarrow> s \<in> set (sessions w)
     \<and> (\<exists>g. grant_of h w = Some g \<and> g_Status g = ''exchanged'' \<and> g_ExchangedSessionID g = Some (s_ID s))"

lemma traded_calm: "calm w w' \<Longrightarrow> traded h s w' = traded h s w"
  by (simp add: traded_def grant_of_calm calm_sel)

lemma grants_ok_find:
  assumes "grants_ok (grants w)" "find P (grants w) = Some g" "g_DeviceCodeHash g = h"
  shows "grant_of h w = Some g"
proof -
  have g: "g \<in> set (grants w)" using assms(2) by (auto simp: find_Some_iff)
  obtain g' where g': "grant_of h w = Some g'" using g assms(3) by (cases "grant_of h w") (auto simp: grant_of_def find_None_iff)
  then have "g' \<in> set (grants w)" "g_DeviceCodeHash g' = h" by (auto simp: grant_of_def find_Some_iff)
  then have "g' = g" using assms(1,3) g by (auto simp: grants_ok_def distinct_map inj_on_def)
  then show ?thesis using g' by simp
qed

lemma wp_Exchange:
  assumes ok: "grants_ok (grants w)" and no: "\<And>e w'. Q (Inl e) w'"
    and yes: "\<And>i g w'. traded h (session_row i (w_now w) s) w' \<Longrightarrow> Q (Inr (g, session_row i (w_now w) s)) w'"
  shows "wp (ExchangeAuthDeviceGrant h s) Q w"
proof -
  obtain r w' where r: "run_state (ExchangeAuthDeviceGrant h s) w = (r, w')" by fastforce
  have "Q r w'"
  proof (cases r)
    case (Inr x)
    let ?P = "exchangeable h (w_now w)"
    obtain g s' w1 where f: "find ?P (grants w) = Some g" and i: "insert_session s (db_next w) = Inr (s', w1)"
      and x: "w' = set_grants (upd ?P (\<lambda>g. g\<lparr>g_Status := ''exchanged'', g_ExchangedAt := Some (w_now w),
        g_ExchangedSessionID := Some (s_ID s')\<rparr>) (grants w1)) w1" "snd x = s'"
      using r Inr by (auto simp: ExchangeAuthDeviceGrant_def run_db_write Let_def split: if_splits option.splits sum.splits)
    note sh = insert_session_shape [OF i]
    obtain j where j: "s' = session_row j (w_now w) s" using sh(5) by auto
    have "?P g" using f by (auto simp: find_Some_iff)
    then have "g_DeviceCodeHash g = h" by (simp add: exchangeable_def)
    then have "grant_of h w1 = Some g" using grants_ok_find [OF ok f] sh(3) by (simp add: grant_of_def)
    then have "grant_of h w' = Some (g\<lparr>g_Status := ''exchanged'', g_ExchangedAt := Some (w_now w), g_ExchangedSessionID := Some (s_ID s')\<rparr>)"
      using \<open>?P g\<close> by (subst grant_of_upd [of w' ?P _ w1]) (simp_all add: x(1))
    then have "traded h s' w'" using sh(1) by (simp add: traded_def x(1))
    then show ?thesis using yes [of j w' "fst x"] Inr x(2) j by (cases x) simp
  qed (use no in simp)
  then show ?thesis by (simp add: wp_def r)
qed

text \<open>Whom a device session belongs to: the AS number that was approved, or the operator of the session that
  approved.\<close>

definition device_owner :: "auth_device_grant \<Rightarrow> world \<Rightarrow> auth_session \<Rightarrow> bool" where
  "device_owner g w s \<longleftrightarrow>
     (if deviceGrantScope g = ''admin''
      then \<exists>i ap. g_ApprovedBySessionID g = Some i \<and> find_session i w = Some ap \<and> s_SubjectType ap = ''admin'' \<and> \<not> session_inactive (w_now w) ap
             \<and> s_SubjectType s = ''admin'' \<and> s_AdminID s = s_AdminID ap \<and> s_Email s = s_Email ap
      else s_SubjectType s = ''user'' \<and> s_ASN s = g_ApprovedASN g \<and> g_ApprovedASN g \<noteq> None \<and> s_Email s = g_ApprovedEmail g)"

lemma row_sel [simp]:
  "s_SubjectType (session_row i now s) = s_SubjectType s" "s_ASN (session_row i now s) = s_ASN s"
  "s_AdminID (session_row i now s) = s_AdminID s" "s_Email (session_row i now s) = s_Email s"
  by (simp_all add: session_row_def)

lemma new_session_sel [simp]:
  "s_SubjectType (new_session t asn adm par e h rq d m x) = t" "s_ASN (new_session t asn adm par e h rq d m x) = asn"
  "s_AdminID (new_session t asn adm par e h rq d m x) = adm" "s_Email (new_session t asn adm par e h rq d m x) = e"
  by (simp_all add: new_session_def)

lemmas wp_device = wp_control wp_bind wp_nowI wp_GetAuthSession wp_Exchange wp_generateRefreshToken
  wp_calm [OF quiet_sign(2) [OF calm_rel]] wp_calm [OF quiet_sign(4) [OF calm_rel]] wp_calm [OF quiet_auth(5) [OF calm_rel]]

lemma wp_createDeviceUserSession:
  assumes "grants_ok (grants w)" "deviceGrantScope g \<noteq> ''admin''" "\<And>w'. Q None w'"
    "\<And>a w'. device_owner g w (ar_Session a) \<Longrightarrow> traded (g_DeviceCodeHash g) (ar_Session a) w' \<Longrightarrow> Q (Some a) w'"
  shows "wp (createDeviceUserSession L cfg rq g) Q w"
  unfolding createDeviceUserSession_def
  by (intro wp_device; (rule assms(3))?)
     (use assms(1,2,4) in \<open>auto simp: device_owner_def traded_calm calm_sel\<close>)

lemma wp_createDeviceAdminSession:
  assumes "grants_ok (grants w)" "deviceGrantScope g = ''admin''" "\<And>w'. Q None w'"
    "\<And>a w'. device_owner g w (ar_Session a) \<Longrightarrow> traded (g_DeviceCodeHash g) (ar_Session a) w' \<Longrightarrow> Q (Some a) w'"
  shows "wp (createDeviceAdminSession L cfg rq g) Q w"
  unfolding createDeviceAdminSession_def
  by (intro wp_device; (rule assms(3))?)
     (use assms(1,2,4) in \<open>auto simp: device_owner_def traded_calm calm_sel find_calm\<close>)

definition device_hash :: "auth_config \<Rightarrow> string \<Rightarrow> string" where
  "device_hash cfg code = hashDeviceSecret (cfg_JWTSecret cfg) ''device'' (trim_space code)"

lemma polled_sel [simp]:
  "g_Status (polled now iv g) = g_Status g" "g_ExpiresAt (polled now iv g) = g_ExpiresAt g" "g_DeviceCodeHash (polled now iv g) = g_DeviceCodeHash g"
  "deviceGrantScope (polled now iv g) = deviceGrantScope g"
  by (simp_all add: polled_def deviceGrantScope_def)

lemma owner_polled: "sessions w' = sessions w \<Longrightarrow> w_now w' = w_now w \<Longrightarrow> device_owner (polled now iv g) w' s = device_owner g w s"
  by (simp add: device_owner_def find_session_def) (simp add: polled_def)

lemma traded_auth: "traded h s w \<Longrightarrow> w_auth w' = w_auth w \<Longrightarrow> traded h s w'"
  by (simp add: traded_def grant_of_def)

lemma grant_of_hash: "grant_of h w = Some g \<Longrightarrow> g_DeviceCodeHash g = h"
  by (auto simp: grant_of_def find_Some_iff)

lemma wp_DeviceToken:
  assumes ok: "grants_ok (grants w)"
  shows "wp (DeviceToken L cfg rq (Some (typ, code))) (\<lambda>r w'. \<forall>st a. r = Reply st a \<longrightarrow>
     (\<exists>g. grant_of (device_hash cfg code) w = Some g \<and> g_Status g = ''approved'' \<and> w_now w \<le> g_ExpiresAt g \<and> device_owner g w (ar_Session a))
     \<and> traded (device_hash cfg code) (ar_Session a) w') w"
  unfolding DeviceToken_def device_hash_def [symmetric]
  apply (intro wp_bind wp_calm [OF quiet_helpers(2) [OF calm_rel]] wp_calm [OF quiet_helpers(3) [OF calm_rel]] wp_control
      wp_calm [OF quiet_auth(4) [OF calm_rel]] wp_Poll wp_nowI wp_createDeviceUserSession wp_createDeviceAdminSession wp_audit)
  apply (simp_all add: bad_json_def)
  using ok apply (auto simp: calm_sel grant_of_calm owner_polled)
   apply (metis grant_of_hash traded_auth)+
  done


text \<open>A device that trades its code for a session gets the session of whoever approved it. The grant of the code was
  approved and not expired; for the user scope the session is one of the approved AS number, for the
  admin scope one of the operator whose still active operator session approved it. The session is
  stored, and the grant is marked as traded for it.\<close>

theorem device_session_owner:
  assumes "run_state (DeviceToken L cfg rq (Some (typ, code))) w = (Reply st a, w')" "grants_ok (grants w)"
  shows "(\<exists>g. grant_of (device_hash cfg code) w = Some g \<and> g_Status g = ''approved'' \<and> w_now w \<le> g_ExpiresAt g \<and> device_owner g w (ar_Session a))
     \<and> traded (device_hash cfg code) (ar_Session a) w'"
  using wp_run [OF wp_DeviceToken [OF assms(2)] assms(1)] by blast

lemma wp_DeviceToken_again:
  assumes "grant_of (device_hash cfg code) w = Some g" "g_Status g = ''exchanged''"
  shows "wp (DeviceToken L cfg rq (Some (typ, code))) (\<lambda>r w'. \<exists>st c m. r = Fail st c m) w"
  unfolding DeviceToken_def device_hash_def [symmetric]
  apply (intro wp_bind wp_calm [OF quiet_helpers(2) [OF calm_rel]] wp_calm [OF quiet_helpers(3) [OF calm_rel]] wp_control
      wp_calm [OF quiet_auth(4) [OF calm_rel]] wp_Poll wp_nowI wp_any [of _ "createDeviceUserSession L cfg rq g" for g]
      wp_any [of _ "createDeviceAdminSession L cfg rq g" for g] wp_audit)
  apply (simp_all add: bad_json_def)
  using assms by (auto simp: calm_sel grant_of_calm)

text \<open>C29. A device code is traded at most once: after it gave a session, no later request with it gives another one,
  whatever authentication requests come in between.\<close>

theorem device_code_once:
  assumes "run_state (DeviceToken L cfg rq (Some (typ, code))) w = (Reply st a, w1)" "grants_ok (grants w)" "auth_run L cfg w1 w2"
  shows "\<exists>st2 c m w3. run_state (DeviceToken L cfg rq2 (Some (typ2, code))) w2 = (Fail st2 c m, w3)"
proof -
  have "traded (device_hash cfg code) (ar_Session a) w1" using wp_run [OF wp_DeviceToken [OF assms(2)] assms(1)] by blast
  then obtain g where "grant_of (device_hash cfg code) w2 = Some g" "g_Status g = ''exchanged''"
    using exchanged_stays [OF assms(3)] by (auto simp: traded_def)
  from wp_DeviceToken_again [OF this, of L rq2 typ2] show ?thesis by (auto simp: wp_def split: prod.splits)
qed

definition device_grant :: auth_device_grant where
  "device_grant = \<lparr>g_ID = ''g1'', g_DeviceCodeHash = device_hash sample_cfg ''ap_dev_x'', g_UserCodeHash = ''u'', g_ClientName = ''autopeer-tui'',
     g_DeviceName = ''laptop'', g_Version = [], g_Scopes = [''user''], g_Status = ''approved'', g_ApprovedASN = Some 4242420456,
     g_ApprovedEmail = ''u@example.net'', g_ApprovedBySessionID = Some ''s-user'', g_ExchangedSessionID = None, g_RequestIP = ''192.0.2.9'',
     g_RequestUserAgent = [], g_ApproveIP = None, g_ApproveUserAgent = [], g_PollCount = 0, g_LastPolledAt = None, g_NextPollAfter = None,
     g_CreatedAt = 500, g_ExpiresAt = 600000, g_ApprovedAt = Some 900, g_DeniedAt = None, g_ExchangedAt = None\<rparr>"

definition device_world :: world where
  "device_world = auth_world\<lparr>w_auth := (w_auth auth_world)\<lparr>t_grants := [device_grant]\<rparr>, w_cache := sample_cache\<lparr>c_db := None\<rparr>, w_rand := [Some (replicate 32 7)]\<rparr>"

lemma sample_ip: "RealIP (bearer t) [] = ''192.0.2.9''" "inet_ok ''192.0.2.9''"
proof -
  have h: "host_of ''192.0.2.9:40000'' = ''192.0.2.9''" by (simp add: host_of_def host_eval)
  show "RealIP (bearer t) [] = ''192.0.2.9''" by (simp add: RealIP_def bearer_def h Let_def split: option.splits)
  show "inet_ok ''192.0.2.9''" by (simp add: inet_ok_def parse_ip_eval)
qed

lemma sample_scope: "first_scope [''user''] = ''user''"
  by (simp add: trim_space_printable printable_def to_lower_def to_lower_char_def is_upper_def)

lemma device_run:
  "\<exists>a. fst (run_state (DeviceToken (sample_lib\<lparr>al_jwt := any_jwt\<rparr>) sample_cfg (bearer [])
     (Some (''urn:ietf:params:oauth:grant-type:device_code'', ''ap_dev_x''))) device_world) = Reply 200 a"
  by (simp add: DeviceToken_def NoStore_def set_header_def checkIPRate_def cache_read_def cache_write_def cache_Get_def cache_Put_def putLocal_def time_now_def Let_def
      trim_space_printable printable_def PollAuthDeviceGrant_def run_db_write db_fails_def device_world_def auth_world_def no_auth_def
      device_grant_def device_hash_def sample_cache_def createDeviceUserSession_def deviceGrantScope_def generateRefreshToken_def
      rand_read_def ExchangeAuthDeviceGrant_def exchangeable_def exchange_subject_ok_def insert_session_def polled_def upd_def
      sample_ip sample_scope new_session_def session_conflict_def take_id_def fresh_uuid_def set_grants_def set_sessions_def subject_ok_def session_row_def sample_session_def
      SignUserSessionJWT_def sign_claims_def new_uuid_def any_jwt_def sample_lib_def setRefreshCookie_def audit_Log_def map_prod_def
      hash_nonempty [symmetric] del: first_scope.simps)


lemma device_grants: "grants_ok (grants device_world)" "grant_of (device_hash sample_cfg ''ap_dev_x'') device_world = Some device_grant"
  by (simp_all add: grants_ok_def device_world_def grant_of_def device_grant_def)

theorem device_session_owner_witness:
  "\<exists>a w'. run_state (DeviceToken (sample_lib\<lparr>al_jwt := any_jwt\<rparr>) sample_cfg (bearer [])
       (Some (''urn:ietf:params:oauth:grant-type:device_code'', ''ap_dev_x''))) device_world = (Reply 200 a, w')
     \<and> s_ASN (ar_Session a) = Some 4242420456"
proof -
  obtain a w' where r: "run_state (DeviceToken (sample_lib\<lparr>al_jwt := any_jwt\<rparr>) sample_cfg (bearer [])
       (Some (''urn:ietf:params:oauth:grant-type:device_code'', ''ap_dev_x''))) device_world = (Reply 200 a, w')"
    using device_run by (metis prod.collapse)
  from device_session_owner [OF this device_grants(1)] have "device_owner device_grant device_world (ar_Session a)"
    by (simp add: device_grants)
  then have "s_ASN (ar_Session a) = Some 4242420456"
    by (simp add: device_owner_def device_grant_def deviceGrantScope_def sample_scope del: first_scope.simps)
  then show ?thesis using r by blast
qed

theorem device_code_once_witness:
  "\<exists>a w1 st c m w3. run_state (DeviceToken (sample_lib\<lparr>al_jwt := any_jwt\<rparr>) sample_cfg (bearer [])
       (Some (''urn:ietf:params:oauth:grant-type:device_code'', ''ap_dev_x''))) device_world = (Reply 200 a, w1)
     \<and> run_state (DeviceToken (sample_lib\<lparr>al_jwt := any_jwt\<rparr>) sample_cfg (bearer [])
       (Some (''urn:ietf:params:oauth:grant-type:device_code'', ''ap_dev_x''))) w1 = (Fail st c m, w3)"
proof -
  obtain a w1 where r: "run_state (DeviceToken (sample_lib\<lparr>al_jwt := any_jwt\<rparr>) sample_cfg (bearer [])
       (Some (''urn:ietf:params:oauth:grant-type:device_code'', ''ap_dev_x''))) device_world = (Reply 200 a, w1)"
    using device_run by (metis prod.collapse)
  from device_code_once [OF r device_grants(1) auth_run.start] r show ?thesis by blast
qed

text \<open>What a decision on a device request does: the pending grant of the code is decided on behalf of a caller
  whose role is the scope of the grant.\<close>

definition decides :: "auth_lib \<Rightarrow> auth_config \<Rightarrow> http_request \<Rightarrow> req_ctx \<Rightarrow> world \<Rightarrow> world \<Rightarrow> bool" where
  "decides L cfg rq cx w w' \<longleftrightarrow> (\<exists>c uh g d. deviceAuthorizeClaims L cfg (w_now w) rq = Inr c \<and> find (\<lambda>g. g_UserCodeHash g = uh) (grants w) = Some g
     \<and> deviceGrantAuthorizeForbidden c g = None
     \<and> grants w' = upd (pending_grant uh (w_now w)) (grant_decided (w_now w) d (if deviceGrantScope g = ''user'' then Some (GetASN cx) else None)
          (GetEmail cx) (GetSessionID cx) (RealIP rq []) (UserAgent rq)) (grants w))"

lemma decides_from: "decides L cfg rq cx w1 w' \<Longrightarrow> grants w1 = grants w \<Longrightarrow> w_now w1 = w_now w \<Longrightarrow> decides L cfg rq cx w w'"
  by (simp add: decides_def)

lemma wp_Authorize:
  assumes "\<And>e w'. grants w' = grants w \<Longrightarrow> Q (Inl e) w'"
    "\<And>g w'. grants w' = upd (pending_grant uh (w_now w)) (grant_decided (w_now w) d asn e sid ip ua) (grants w) \<Longrightarrow> Q (Inr g) w'"
  shows "wp (AuthorizeAuthDeviceGrant uh d asn e sid ip ua) Q w"
  unfolding AuthorizeAuthDeviceGrant_def
  by (rule wp_if) (use assms in \<open>auto simp: wp_def run_db_write Let_def split: option.splits\<close>)

lemma wp_GetGrant:
  assumes "\<And>e w'. calm w w' \<Longrightarrow> Q (Inl e) w'"
    "\<And>g w'. calm w w' \<Longrightarrow> find (\<lambda>g. g_UserCodeHash g = uh) (grants w) = Some g \<Longrightarrow> Q (Inr g) w'"
  shows "wp (GetAuthDeviceGrantByUserCodeHash uh) Q w"
  unfolding GetAuthDeviceGrantByUserCodeHash_def
  by (rule wp_db_readI) (use assms calm_db_next in \<open>auto simp: row_def split: option.splits\<close>)

lemma wp_DeviceAuthorize: "wp (DeviceAuthorize L cfg rq cx body) (\<lambda>r w'. grants w' = grants w \<or> decides L cfg rq cx w w') w"
  unfolding DeviceAuthorize_def
  by (intro wp_bind wp_calm [OF quiet_helpers(2) [OF calm_rel]] wp_nowI wp_control wp_Authorize wp_audit wp_GetGrant)
     (auto simp: calm_sel decides_def)

lemma scope_cases: "deviceGrantScope g = ''user'' \<or> deviceGrantScope g = ''admin''"
proof -
  have "first_scope ss = ''user'' \<or> first_scope ss = ''admin''" for ss by (induction ss) (auto simp: Let_def)
  then show ?thesis by (simp add: deviceGrantScope_def)
qed

lemma decided_grant:
  assumes d: "decides L cfg rq cx w w'" and ok: "grants_ok (grants w)" and g: "grant_of h w = Some g" "g_Status g = ''pending''"
    and g': "grant_of h w' = Some g'" "g_Status g' = ''approved''"
  shows "\<exists>c. deviceAuthorizeClaims L cfg (w_now w) rq = Inr c \<and> c_Role c = deviceGrantScope g
     \<and> g_ApprovedASN g' = (if deviceGrantScope g = ''user'' then Some (GetASN cx) else None)
     \<and> g_ApprovedEmail g' = GetEmail cx \<and> g_ApprovedBySessionID g' = Some (GetSessionID cx)"
proof -
  obtain c uh e dd where c: "deviceAuthorizeClaims L cfg (w_now w) rq = Inr c" "deviceGrantAuthorizeForbidden c e = None"
    and e: "find (\<lambda>g. g_UserCodeHash g = uh) (grants w) = Some e"
    and w': "grants w' = upd (pending_grant uh (w_now w)) (grant_decided (w_now w) dd (if deviceGrantScope e = ''user'' then Some (GetASN cx) else None)
        (GetEmail cx) (GetSessionID cx) (RealIP rq []) (UserAgent rq)) (grants w)" (is "_ = upd ?P ?f _")
    using d unfolding decides_def by blast
  have "g' = (if ?P g then ?f g else g)"
    using grant_of_upd [OF w', of h] g(1) g'(1) by (simp add: grant_decided_def Let_def split: if_splits)
  then have P: "?P g" and f: "g' = ?f g" using g(2) g'(2) by (auto split: if_splits)
  have "g \<in> set (grants w)" "e \<in> set (grants w)" using g(1) e by (auto simp: grant_of_def find_Some_iff)
  moreover have "g_UserCodeHash g = uh" "g_UserCodeHash e = uh" using P e by (auto simp: pending_grant_def find_Some_iff)
  ultimately have "e = g" using ok by (auto simp: grants_ok_def distinct_map inj_on_def)
  moreover have "dd = ''approved''" using f g'(2) by (simp add: grant_decided_def Let_def split: if_splits)
  moreover have "c_Role c = deviceGrantScope g" using c(2) \<open>e = g\<close> scope_cases [of g] by (auto simp: deviceGrantAuthorizeForbidden_def split: if_splits)
  ultimately show ?thesis using c(1) f by (auto simp: grant_decided_def Let_def)
qed

text \<open>C28. Who can approve a device. A pending device request becomes approved by the authorization route only when the
  request's token is admitted by the guard, does not come from an impersonation, and has the role that
  the device asked for: operators approve operator devices, users approve user devices. The approval
  records the AS number, address and session of that token.\<close>

theorem device_approval:
  assumes "run_state (serve_auth L cfg rq (CallDeviceAuthorize body)) w = (r, w')" "grants_ok (grants w)"
    "grant_of h w = Some g" "g_Status g = ''pending''" "grant_of h w' = Some g'" "g_Status g' = ''approved''"
  shows "\<exists>c. admits (al_jwt L) cfg [] True rq w c \<and> c_Role c = deviceGrantScope g
     \<and> c_LoginMethod c \<noteq> ''impersonation'' \<and> c_ImpersonatedByAdminID c = []
     \<and> g_ApprovedASN g' = (if deviceGrantScope g = ''user'' then Some (c_ASN c) else None)
     \<and> g_ApprovedEmail g' = c_Email c \<and> g_ApprovedBySessionID g' = Some (c_SessionID c)"
proof -
  let ?Q = "\<lambda>r w'. grants w' = grants w \<or> (\<exists>c. admits (al_jwt L) cfg [] True rq w c \<and> decides L cfg rq (contextWithClaims empty_ctx c) w w')"
  have t: "grants w1 = grants w \<and> w_now w1 = w_now w" if "touched i w w1" for i w1 using that by (auto simp: touched_def)
  have "wp (serve_auth L cfg rq (CallDeviceAuthorize body)) ?Q w"
    unfolding serve_auth_def Let_def auth_call.case RequireAnyAuthWithSessions_def
  proof (rule wp_requireAuth)
    fix c w1 assume c: "admits (al_jwt L) cfg [] True rq w c" "touched (c_SessionID c) w w1"
    show "wp (answer f (DeviceAuthorize L cfg rq (contextWithClaims empty_ctx c) body)) ?Q w1" for f
      by (rule wp_answer, rule wp_mono [OF wp_DeviceAuthorize]) (use c(1) t [OF c(2)] decides_from in metis)
  qed (simp add: calm_sel)
  from wp_run [OF this assms(1)] have "\<exists>c. admits (al_jwt L) cfg [] True rq w c \<and> decides L cfg rq (contextWithClaims empty_ctx c) w w'"
    using assms(3-6) by (auto simp: grant_of_def)
  then obtain c where c: "admits (al_jwt L) cfg [] True rq w c" "decides L cfg rq (contextWithClaims empty_ctx c) w w'" by blast
  from decided_grant [OF c(2) assms(2-6)] obtain d where d: "deviceAuthorizeClaims L cfg (w_now w) rq = Inr d" "c_Role d = deviceGrantScope g"
     "g_ApprovedASN g' = (if deviceGrantScope g = ''user'' then Some (c_ASN c) else None)" "g_ApprovedEmail g' = c_Email c"
     "g_ApprovedBySessionID g' = Some (c_SessionID c)"
    by (auto simp: contextWithClaims_def GetASN_def GetEmail_def GetSessionID_def or_empty_def Let_def split: if_splits)
  moreover have "d = c" using d(1) c(1) by (auto simp: deviceAuthorizeClaims_def admits_def split: if_splits)
  ultimately show ?thesis using c(1) d(1) by (auto simp: deviceAuthorizeClaims_def admits_def split: if_splits)
qed

definition pending_device :: auth_device_grant where
  "pending_device = device_grant\<lparr>g_UserCodeHash := hashDeviceSecret ''secret'' ''user'' ''ABCDEFGH'', g_Status := ''pending'', g_ApprovedASN := None,
     g_ApprovedEmail := [], g_ApprovedBySessionID := None, g_ApprovedAt := None\<rparr>"

definition pending_world :: world where
  "pending_world = auth_world\<lparr>w_auth := (w_auth auth_world)\<lparr>t_grants := [pending_device]\<rparr>\<rparr>"

lemma user_code: "normalizeDeviceUserCode ''ABCD-EFGH'' = ''ABCDEFGH''" "validDeviceUserCode ''ABCDEFGH''"
  by (simp_all add: normalizeDeviceUserCode_def trim_space_printable printable_def to_upper_def to_upper_char_def is_lower_def
      validDeviceUserCode_def deviceUserAlphabet_def)

lemma approve_word: "to_lower (trim_space ''approve'') = ''approve''"
  by (simp add: trim_space_printable printable_def to_lower_def to_lower_char_def is_upper_def)

lemma pending_scope: "deviceGrantScope pending_device = ''user''"
  by (simp add: deviceGrantScope_def pending_device_def device_grant_def sample_scope del: first_scope.simps)

lemma pending_sel:
  "g_UserCodeHash pending_device = hashDeviceSecret ''secret'' ''user'' ''ABCDEFGH''" "g_Status pending_device = ''pending''"
  "g_ExpiresAt pending_device = 600000" "cfg_JWTSecret sample_cfg = ''secret''"
  by (simp_all add: pending_device_def device_grant_def sample_cfg_def)

lemma approve_run:
  "g_Status (hd (grants (snd (run_state (serve_auth sample_lib sample_cfg (bearer ''tok-user'') (CallDeviceAuthorize (Some (''ABCD-EFGH'', ''approve''))))
     pending_world)))) = ''approved''
   \<and> length (grants (snd (run_state (serve_auth sample_lib sample_cfg (bearer ''tok-user'') (CallDeviceAuthorize (Some (''ABCD-EFGH'', ''approve''))))
     pending_world))) = 1"
  using claims_of(3) pending_scope
  by (simp add: serve_auth_def Let_def RequireAnyAuthWithSessions_def requireAuth_def validateSession_def parent_active_def time_now_def
      pending_world_def sample_auth_defs GetAuthSession_def TouchAuthSession_def run_db_write db_fails_def
      find_session_def row_def session_inactive_def session_role_mismatch_def answer_def respond_def DeviceAuthorize_def set_sessions_def upd_def
      NoStore_def set_header_def deviceAuthorizeClaims_def user_code approve_word GetAuthDeviceGrantByUserCodeHash_def
      AuthorizeAuthDeviceGrant_def pending_grant_def sample_ip contextWithClaims_def GetSessionID_def or_empty_def
      pending_sel deviceGrantAuthorizeForbidden_def set_grants_def grant_decided_def audit_Log_def)


theorem device_approval_witness:
  "\<exists>g' (c :: Claims). grants (snd (run_state (serve_auth sample_lib sample_cfg (bearer ''tok-user'') (CallDeviceAuthorize (Some (''ABCD-EFGH'', ''approve''))))
     pending_world)) = [g'] \<and> c_Role c = ''user'' \<and> g_ApprovedASN g' = Some (c_ASN c)"
proof -
  let ?call = "CallDeviceAuthorize (Some (''ABCD-EFGH'', ''approve''))"
  obtain r w' where r: "run_state (serve_auth sample_lib sample_cfg (bearer ''tok-user'') ?call) pending_world = (r, w')" by fastforce
  have "g_Status (hd (grants w')) = ''approved''" "length (grants w') = 1" using approve_run by (simp_all add: r)
  then obtain g' where g': "grants w' = [g']" "g_Status g' = ''approved''" by (cases "grants w'") auto
  let ?h = "g_DeviceCodeHash pending_device"
  have g: "grants pending_world = [pending_device]" by (simp add: pending_world_def)
  have "grows grant_step (grants pending_world) (grants w')"
    using steps_serve_auth [of sample_lib sample_cfg "bearer ''tok-user''" ?call] r by (simp add: steps_def auth_step_def) (metis snd_conv)
  then have "grant_step pending_device g'" unfolding g g'(1) grows_def by (auto simp: list_all2_Cons1 Cons_eq_append_conv)
  then have "grant_of ?h w' = Some g'" "grant_of ?h pending_world = Some pending_device" "grants_ok (grants pending_world)"
    using g g' by (simp_all add: grant_of_def grant_step_def grants_ok_def)
  from device_approval [OF r this(3,2) pending_sel(2) this(1) g'(2)]
  obtain c :: Claims where "c_Role c = deviceGrantScope pending_device"
    "g_ApprovedASN g' = (if deviceGrantScope pending_device = ''user'' then Some (c_ASN c) else None)" by blast
  then have "c_Role c = ''user''" "g_ApprovedASN g' = Some (c_ASN c)" by (simp_all add: pending_scope)
  then show ?thesis using g'(1) unfolding r snd_conv by blast
qed

section \<open>Login codes\<close>

text \<open>What a login by code leaves: the code is used, and there is a stored user session of the AS number with the
  address that the code was sent to.\<close>

definition code_spent :: "int \<Rightarrow> user_login_code \<Rightarrow> world \<Rightarrow> authResponse \<Rightarrow> bool" where
  "code_spent asn c w' a \<longleftrightarrow> (\<forall>d \<in> set (codes w'). lc_ID d = lc_ID c \<longrightarrow> lc_Used d)
     \<and> ar_Session a \<in> set (sessions w') \<and> s_SubjectType (ar_Session a) = ''user'' \<and> s_ASN (ar_Session a) = Some asn
     \<and> s_Email (ar_Session a) = lc_Email c"

definition code_login :: "auth_lib \<Rightarrow> int \<Rightarrow> string \<Rightarrow> world \<Rightarrow> world \<Rightarrow> authResponse \<Rightarrow> bool" where
  "code_login L asn code w w' a \<longleftrightarrow>
     (\<exists>c \<in> set (codes w). live_code asn (w_now w) c \<and> al_CompareHashAndPassword L (lc_CodeHash c) code \<and> code_spent asn c w' a)"

lemma wp_GetLatest:
  assumes "\<And>e w'. calm w w' \<Longrightarrow> Q (Inl e) w'"
    "\<And>c w'. calm w w' \<Longrightarrow> c \<in> set (codes w) \<Longrightarrow> live_code asn (w_now w) c \<Longrightarrow> Q (Inr c) w'"
  shows "wp (GetLatestValidLoginCode asn) Q w"
  unfolding GetLatestValidLoginCode_def
proof (rule wp_db_readI)
  let ?l = "sort_key (\<lambda>c. - lc_CreatedAt c) (filter (live_code asn (w_now w)) (codes w))"
  have "x \<in> set (codes w) \<and> live_code asn (w_now w) x" if "?l = x # xs" for x xs
    using arg_cong [OF that, of set] by auto
  then show "Q (case sort_key (\<lambda>c. - lc_CreatedAt c) (filter (live_code asn (w_now (db_next w))) (codes (db_next w))) of [] \<Rightarrow> Inl NoRows | c # x \<Rightarrow> Inr c) (db_next w)"
    using assms calm_db_next by (cases ?l) simp_all
qed (use assms calm_db_next in simp)

lemma wp_MarkUsed:
  assumes "\<And>r w'. r \<noteq> Inr True \<Longrightarrow> Q r w'"
    "\<And>w'. list_all (\<lambda>d. lc_ID d = i \<longrightarrow> lc_Used d) (codes w') \<Longrightarrow> sessions w' = sessions w \<Longrightarrow> Q (Inr True) w'"
  shows "wp (MarkLoginCodeUsed i) Q w"
proof -
  let ?P = "\<lambda>c. lc_ID c = i \<and> \<not> lc_Used c" and ?f = "\<lambda>c. c\<lparr>lc_Used := True\<rparr>"
  let ?w = "set_codes (upd ?P ?f (codes w)) (db_next w)"
  have "list_all (\<lambda>d. lc_ID d = i \<longrightarrow> lc_Used d) (codes ?w)" "sessions ?w = sessions w"
    by (simp_all add: upd_def list.pred_map list.pred_True o_def if_distrib cong: if_cong)
  then have "Q (Inr True) ?w" by (rule assms(2))
  then show ?thesis using assms(1) unfolding MarkLoginCodeUsed_def
    by (cases "list_ex ?P (codes w)") (simp_all add: wp_def run_db_write Let_def)
qed

lemma wp_CreateAuthSession:
  assumes "\<And>e w'. Q (Inl e) w'"
    "\<And>i w'. session_row i (w_now w) s \<in> set (sessions w') \<Longrightarrow> codes w' = codes w \<Longrightarrow> Q (Inr (session_row i (w_now w) s)) w'"
  shows "wp (CreateAuthSession s) Q w"
  unfolding CreateAuthSession_def wp_def run_db_write
  using assms insert_session_shape [of s "db_next w"] by (auto split: sum.splits)

lemma wp_createUserSession:
  assumes "\<And>w'. Q None w'"
    "\<And>a w'. ar_Session a \<in> set (sessions w') \<Longrightarrow> codes w' = codes w \<Longrightarrow> s_SubjectType (ar_Session a) = ''user'' \<Longrightarrow>
       s_ASN (ar_Session a) = Some asn \<Longrightarrow> s_Email (ar_Session a) = email \<Longrightarrow> Q (Some a) w'"
  shows "wp (createUserSession L cfg rq asn email m) Q w"
  unfolding createUserSession_def
  by (intro wp_device wp_CreateAuthSession; (rule assms(1))?)
     (use assms(2) in \<open>auto simp: calm_sel\<close>)

lemma wp_login_enabled: "(\<And>w'. calm w w' \<Longrightarrow> wp m Q w') \<Longrightarrow> (\<And>w'. Q login_disabled w') \<Longrightarrow> wp (with_login_enabled m) Q w"
  unfolding with_login_enabled_def
  by (intro wp_bind wp_calm [OF quiet_settings(3) [OF calm_rel]] wp_control) auto

lemma wp_VerifyCode:
  "wp (VerifyCode L cfg rq (Some (asn, code))) (\<lambda>r w'. \<forall>st a. r = Reply st a \<longrightarrow> code_login L asn code w w' a) w"
  unfolding VerifyCode_def
  apply (intro wp_login_enabled wp_bind wp_control wp_calm [OF quiet_helpers(3) [OF calm_rel]] wp_calm [OF quiet_helpers(4) [OF calm_rel]] wp_GetLatest
     wp_MarkUsed wp_createUserSession wp_audit wp_any [of _ "IncrementLoginCodeFailures i" for i] wp_any [of _ "mark_now k" for k])
  apply (simp_all add: login_disabled_def invalid_code_def calm_sel)
  apply (auto simp: code_login_def code_spent_def list_all_iff)
  done


text \<open>C30. A login by code succeeds only with a stored code of that AS number that is unused, not expired, has fewer than
  five failed attempts and matches. The code is used afterwards, and the session is a stored user session of
  the AS number with the address that the code was sent to. A code that was used, had expired or had
  failed five times in any earlier state is not the one: it never logs anyone in again, after any further authentication
  requests.\<close>

theorem login_code_sound:
  assumes "auth_run L cfg w0 w" "distinct (map lc_ID (codes w))"
    "run_state (VerifyCode L cfg rq (Some (asn, code))) w = (Reply st a, w')"
  shows "\<exists>c \<in> set (codes w). lc_ASN c = asn \<and> \<not> lc_Used c \<and> w_now w < lc_ExpiresAt c \<and> lc_FailedAttempts c < 5
    \<and> al_CompareHashAndPassword L (lc_CodeHash c) code \<and> code_spent asn c w' a
    \<and> (\<forall>c0 \<in> set (codes w0). lc_ID c0 = lc_ID c \<longrightarrow> \<not> lc_Used c0 \<and> w_now w0 < lc_ExpiresAt c0 \<and> lc_FailedAttempts c0 < 5)"
proof -
  have "code_login L asn code w w' a" using wp_run [OF wp_VerifyCode assms(3)] by blast
  then obtain c where c: "c \<in> set (codes w)" "live_code asn (w_now w) c" "al_CompareHashAndPassword L (lc_CodeHash c) code" "code_spent asn c w' a"
    unfolding code_login_def by blast
  have later: "auth_later w0 w" by (rule auth_run_later [OF assms(1)])
  then have g: "grows code_step (codes w0) (codes w)" by (simp add: auth_later_def)
  have "\<not> lc_Used c0 \<and> w_now w0 < lc_ExpiresAt c0 \<and> lc_FailedAttempts c0 < 5" if c0: "c0 \<in> set (codes w0)" "lc_ID c0 = lc_ID c" for c0
  proof -
    obtain d where d: "d \<in> set (codes w)" "code_step c0 d" using grows_all [OF g c0(1)] by blast
    then have "lc_ID d = lc_ID c" using c0(2) by (simp add: code_step_def)
    then have "d = c" using c(1) d(1) assms(2) unfolding distinct_map by (metis inj_onD)
    with d(2) c(2) later show ?thesis by (auto simp: live_code_def code_step_def auth_later_def)
  qed
  with c show ?thesis by (auto simp: live_code_def)
qed

definition sample_code :: "string \<Rightarrow> bool \<Rightarrow> user_login_code" where
  "sample_code i used = \<lparr>lc_ID = i, lc_ASN = 4242420456, lc_Email = ''u@example.net'', lc_CodeHash = ''$123456'', lc_ExpiresAt = 600000, lc_Used = used,
     lc_FailedAttempts = 0, lc_CreatedAt = 0\<rparr>"

definition code_world :: world where
  "code_world = auth_world\<lparr>w_auth := no_auth\<lparr>t_codes := [sample_code ''c1'' True, sample_code ''c2'' False]\<rparr>,
     w_cache := sample_cache\<lparr>c_db := None\<rparr>, w_rand := [Some (replicate 32 7)]\<rparr>"

lemma login_run:
  "\<exists>a. fst (run_state (VerifyCode (sample_lib\<lparr>al_jwt := any_jwt\<rparr>) sample_cfg (bearer []) (Some (4242420456, ''123456''))) code_world) = Reply 200 a"
  by (simp add: VerifyCode_def with_login_enabled_def GetSiteSettingValue_def cached_setting_def checkIPRate_def cache_read_def cache_write_def
      cache_Get_def cache_Put_def putLocal_def time_now_def Let_def recently_def GetLatestValidLoginCode_def live_code_def
      run_db_write db_fails_def code_world_def auth_world_def no_auth_def sample_cache_def sample_code_def sample_lib_def
      MarkLoginCodeUsed_def set_codes_def upd_def createUserSession_def generateRefreshToken_def rand_read_def CreateAuthSession_def insert_session_def
      sample_ip new_session_def session_conflict_def take_id_def fresh_uuid_def set_sessions_def subject_ok_def session_row_def
      SignUserSessionJWT_def sign_claims_def new_uuid_def any_jwt_def setRefreshCookie_def audit_Log_def hash_nonempty [symmetric])

theorem login_code_sound_witness:
  "\<exists>a w' c. run_state (VerifyCode (sample_lib\<lparr>al_jwt := any_jwt\<rparr>) sample_cfg (bearer []) (Some (4242420456, ''123456''))) code_world = (Reply 200 a, w')
     \<and> c \<in> set (codes code_world) \<and> lc_ID c \<noteq> ''c1'' \<and> code_spent 4242420456 c w' a"
proof -
  obtain a w' where r: "run_state (VerifyCode (sample_lib\<lparr>al_jwt := any_jwt\<rparr>) sample_cfg (bearer []) (Some (4242420456, ''123456''))) code_world = (Reply 200 a, w')"
    using login_run by (metis prod.collapse)
  have d: "distinct (map lc_ID (codes code_world))" by (simp add: code_world_def sample_code_def)
  have used: "\<forall>c \<in> set (codes code_world). lc_ID c = ''c1'' \<longrightarrow> lc_Used c" by (simp add: code_world_def sample_code_def)
  from login_code_sound [OF auth_run.start d r] obtain c where "c \<in> set (codes code_world)" "\<not> lc_Used c" "code_spent 4242420456 c w' a" by blast
  with used r show ?thesis by blast
qed

section \<open>The rate limit per address\<close>

lemma cache_read_local:
  assumes "local_mode (w_cache w)"
  shows "run_state (cache_read dec b k) w = (Option.bind (local_view (w_cache w) (w_now w) b k) dec, w)"
proof -
  obtain db where db: "c_redis (w_cache w) = None" "c_db (w_cache w) = Some db" using assms by (auto simp: local_mode_def)
  then show ?thesis
    by (auto simp: cache_read_def cache_Get_def local_view_def getLocal_def Let_def split: option.splits)
qed

lemma dec_enc_times: "dec_times (enc_times ts) = Some ts"
proof -
  have "those (map dec_time (map JTime ts)) = Some ts" by (induction ts) (simp_all add: dec_time_def)
  then show ?thesis by (simp add: dec_times_def enc_times_def)
qed

text \<open>A single-node cache whose transactions succeed, at an instant whose expiries fit the stored integers.\<close>

definition rate_cache :: "world \<Rightarrow> bool" where
  "rate_cache w \<longleftrightarrow> local_mode (w_cache w) \<and> c_txfail (w_cache w) = [] \<and> 1000 \<le> w_now w \<and> is_int64 (w_now w + 120000)"

definition rate_times :: "string \<Rightarrow> world \<Rightarrow> int \<Rightarrow> int list" where
  "rate_times ip w t = (case Option.bind (local_view (w_cache w) t BucketRateLimit (IPKey RateLimitIP ip)) dec_times of Some ts \<Rightarrow> ts | None \<Rightarrow> [])"

lemma rate_write:
  assumes r: "rate_cache w"
  shows "\<exists>w'. run_state (cache_write BucketRateLimit (IPKey RateLimitIP ip) (enc_times ts) 120000) w = ((), w') \<and> rate_cache w' \<and> w_now w' = w_now w
     \<and> (\<forall>t. rate_times ip w' t = (if unix t > unix (w_now w + 120000) then [] else ts))"
proof -
  let ?k = "IPKey RateLimitIP ip"
  obtain c' e where p: "cache_Put (w_now w) BucketRateLimit ?k (enc_times ts) 120000 (w_cache w) = (c', e)" by fastforce
  obtain db where db: "c_db (w_cache w) = Some db" using r by (auto simp: rate_cache_def local_mode_def)
  have e: "e = None" "c_txfail c' = []"
    using p r db by (auto simp: rate_cache_def cache_Put_local putLocal_def bolt_update_def Let_def split: option.splits)
  have b: "BucketRateLimit \<in> set cache_buckets" by (simp add: cache_buckets_def)
  have m: "local_mode c'" using local_kv.put_good [of "w_cache w" "w_now w" BucketRateLimit ?k "enc_times ts" 120000] p r by (simp add: rate_cache_def)
  have "local_view c' t BucketRateLimit ?k = (if unix t > unix (w_now w + 120000) then None else Some (enc_times ts))" for t
    using local_kv.put_ok [OF _ _ _ _ b p [unfolded e(1)], of t BucketRateLimit ?k] r by (simp add: rate_cache_def)
  then show ?thesis using m e r by (simp add: cache_write_def p rate_cache_def rate_times_def dec_enc_times)
qed

text \<open>The calls for one address that were let through, with whatever limit each one asked, while other parts
  of the center run and time passes.\<close>

inductive rate_run :: "string \<Rightarrow> int list \<Rightarrow> world \<Rightarrow> bool" for ip where
  start: "rate_cache w \<Longrightarrow> (\<And>t. rate_times ip w t = []) \<Longrightarrow> rate_run ip [] w"
| call: "rate_run ip A w \<Longrightarrow> run_state (checkIPRate ip limit) w = (ok, w') \<Longrightarrow> rate_run ip (if ok then A @ [w_now w] else A) w'"
| other: "rate_run ip A w \<Longrightarrow> rate_cache w' \<Longrightarrow> w_now w \<le> w_now w' \<Longrightarrow> (\<And>t. rate_times ip w' t = rate_times ip w t) \<Longrightarrow> rate_run ip A w'"

abbreviation recent :: "int \<Rightarrow> int list \<Rightarrow> int list" where
  "recent now A \<equiv> filter (\<lambda>t. t > now - 60000) A"

lemma run_checkIPRate:
  assumes "rate_cache w"
  shows "\<exists>w'. run_state (checkIPRate ip limit) w = (length (recent (w_now w) (rate_times ip w (w_now w))) < limit, w') \<and> rate_cache w' \<and> w_now w' = w_now w
     \<and> (\<forall>t. rate_times ip w' t = (if unix t > unix (w_now w + 120000) then []
          else recent (w_now w) (rate_times ip w (w_now w)) @ (if length (recent (w_now w) (rate_times ip w (w_now w))) < limit then [w_now w] else [])))"
proof -
  have m: "local_mode (w_cache w)" using assms by (simp add: rate_cache_def)
  have f: "recent (w_now w) (case Option.bind (local_view (w_cache w) (w_now w) BucketRateLimit (IPKey RateLimitIP ip)) dec_times of Some ts \<Rightarrow> ts | None \<Rightarrow> [])
      = recent (w_now w) (rate_times ip w (w_now w))" by (simp add: rate_times_def)
  show ?thesis
    using rate_write [OF assms, of ip "recent (w_now w) (rate_times ip w (w_now w))"]
      rate_write [OF assms, of ip "recent (w_now w) (rate_times ip w (w_now w)) @ [w_now w]"]
    by (cases "length (recent (w_now w) (rate_times ip w (w_now w))) < limit")
       (auto simp: checkIPRate_def time_now_def cache_read_local [OF m] f Let_def)
qed

lemma recent_trans: "now \<le> t \<Longrightarrow> recent t (recent now A) = recent t A"
  by (induction A) auto

lemma rate_run_inv:
  assumes "rate_run ip A w"
  shows "rate_cache w \<and> (\<forall>a \<in> set A. a \<le> w_now w) \<and> (\<forall>t \<ge> w_now w. recent t (rate_times ip w t) = recent t A)"
  using assms
proof (induction rule: rate_run.induct)
  case (call A w limit ok w')
  let ?r = "recent (w_now w) (rate_times ip w (w_now w))" and ?A = "if ok then A @ [w_now w] else A"
  from call.IH have w: "rate_cache w" "\<forall>a \<in> set A. a \<le> w_now w" "?r = recent (w_now w) A" by auto
  from run_checkIPRate [OF w(1), of ip limit] call.hyps(2)
  have o: "ok \<longleftrightarrow> length ?r < limit" "rate_cache w'" "w_now w' = w_now w"
    "\<And>t. rate_times ip w' t = (if unix t > unix (w_now w + 120000) then [] else ?r @ (if length ?r < limit then [w_now w] else []))" by auto
  have "recent t (rate_times ip w' t) = recent t ?A" if t: "w_now w \<le> t" for t
  proof (cases "unix t > unix (w_now w + 120000)")
    case True
    then have "w_now w < t - 60000" by (simp add: unix_def)
    then have "recent t ?A = []" using w(2) by (fastforce simp: filter_empty_conv)
    then show ?thesis using True o(4) by simp
  next
    case False
    then have "rate_times ip w' t = recent (w_now w) A @ (if ok then [w_now w] else [])" using o(1,4) w(3) by simp
    then show ?thesis using recent_trans [OF t, of A] by simp
  qed
  then show ?case using o(2,3) w(2) by auto
next
  case (other A w w')
  then show ?case by (auto intro: order_trans)
qed auto


text \<open>C31. The limit per address is a sliding window. On a single-node cache a call is let through exactly when fewer than
  its limit of calls for the same address were let through during the last minute, whatever happens in
  between and although entries expire; all callers with that address count, whichever limit they ask
  for.\<close>

theorem rate_limit_correct:
  assumes "rate_run ip A w" "run_state (checkIPRate ip limit) w = (ok, w')"
  shows "ok \<longleftrightarrow> length (recent (w_now w) A) < limit"
proof -
  from rate_run_inv [OF assms(1)] have w: "rate_cache w" "recent (w_now w) (rate_times ip w (w_now w)) = recent (w_now w) A" by auto
  from run_checkIPRate [OF w(1), of ip limit] assms(2) w(2) show ?thesis by auto
qed

theorem rate_limit_correct_witness:
  "\<exists>w1 w2. run_state (checkIPRate ''192.0.2.9'' 1) auth_world = (True, w1) \<and> run_state (checkIPRate ''192.0.2.9'' 1) w1 = (False, w2)"
proof -
  have c: "rate_cache auth_world" using sample_cache_mode by (simp add: rate_cache_def auth_world_def is_int64_def) (simp add: sample_cache_def)
  have "local_view sample_cache t b k = None" for t b k by (simp add: local_view_def sample_cache_def getLocal_def split: option.splits)
  then have s: "rate_run ''192.0.2.9'' [] auth_world" by (intro rate_run.start c) (simp add: rate_times_def auth_world_def)
  obtain ok w1 where r: "run_state (checkIPRate ''192.0.2.9'' 1) auth_world = (ok, w1)" by fastforce
  have ok: "ok" using rate_limit_correct [OF s r] by simp
  obtain ok2 w2 where r2: "run_state (checkIPRate ''192.0.2.9'' 1) w1 = (ok2, w2)" by fastforce
  have "w_now w1 = w_now auth_world" using run_checkIPRate [OF c, of "''192.0.2.9''" 1] r by auto
  then have "\<not> ok2" using rate_limit_correct [OF rate_run.call [OF s r] r2] ok by simp
  then show ?thesis using r r2 ok by auto
qed

text \<open>C25. The keys of the authentication tables. Whatever authentication requests are served, and whatever fails in
  between, session identifiers stay unique, no two sessions have the same refresh token, every session
  has a subject that fits its kind and a parent that exists, and device codes stay unique.\<close>

theorem auth_tables_invariant:
  assumes "auth_run L cfg w w'" "sessions_ok (sessions w)" "grants_ok (grants w)"
  shows "sessions_ok (sessions w') \<and> grants_ok (grants w')"
  using auth_run_later [OF assms(1)] assms(2,3) by (simp add: auth_later_def)

text \<open>A login with a code stores a session.\<close>

theorem auth_tables_invariant_witness:
  "\<exists>w'. w' = snd (run_state (serve_auth (sample_lib\<lparr>al_jwt := any_jwt\<rparr>) sample_cfg (bearer []) (CallVerifyCode (Some (4242420456, ''123456'')))) code_world)
     \<and> sessions w' \<noteq> sessions code_world \<and> sessions_ok (sessions w')"
proof -
  let ?L = "sample_lib\<lparr>al_jwt := any_jwt\<rparr>"
  obtain a w' where v: "run_state (VerifyCode ?L sample_cfg (bearer []) (Some (4242420456, ''123456''))) code_world = (Reply 200 a, w')"
    using login_run by (metis prod.collapse)
  then have r: "run_state (serve_auth ?L sample_cfg (bearer []) (CallVerifyCode (Some (4242420456, ''123456'')))) code_world = (JSONResp 200 (enc_auth a), w')"
    by (simp add: serve_auth_def answer_def respond_def)
  have "ar_Session a \<in> set (sessions w')" using wp_run [OF wp_VerifyCode v] by (auto simp: code_login_def code_spent_def)
  then have "sessions w' \<noteq> sessions code_world" by (auto simp: code_world_def no_auth_def)
  moreover have "sessions_ok (sessions code_world)" "grants_ok (grants code_world)"
    by (simp_all add: sessions_ok_def grants_ok_def code_world_def no_auth_def)
  with auth_tables_invariant [OF auth_run.call [OF auth_run.start r]] have "sessions_ok (sessions w')" by blast
  ultimately show ?thesis by (simp add: r)
qed

end
