(* ===== verification/Crypto.thy ===== *)
theory Crypto
  imports Sha256 AuthHandler
begin

text \<open>
  \<^verbatim>\<open>internal/crypto/crypto.go\<close>: the keys, proofs and encryption of the agent channel. X25519 is the
  Montgomery ladder of RFC 7748, as \<^verbatim>\<open>crypto/ecdh\<close> computes it. HKDF and XChaCha20-Poly1305 come from
  \<^verbatim>\<open>golang.org/x/crypto\<close> and are parameters, and so is the text of JSON values. Keys, nonces and
  ciphertexts are byte strings.
\<close>

section \<open>X25519\<close>

definition p25519 :: int where
  "p25519 = 2 ^ 255 - 19"

fun pow_mod :: "int \<Rightarrow> nat \<Rightarrow> int \<Rightarrow> int" where
  "pow_mod b e m = (if e = 0 then 1 mod m
     else let h = pow_mod (b * b mod m) (e div 2) m in if odd e then h * b mod m else h)"

declare pow_mod.simps [simp del]

definition le_value :: "string \<Rightarrow> nat" where
  "le_value s = foldr (\<lambda>c v. of_char c + 256 * v) s 0"

definition le_bytes :: "nat \<Rightarrow> nat \<Rightarrow> string" where
  "le_bytes n v = map (\<lambda>i. char_of (v div 256 ^ i)) [0..<n]"

definition clamp_scalar :: "string \<Rightarrow> nat" where
  "clamp_scalar s = (let v = le_value s in (v mod 2 ^ 254) div 8 * 8 + 2 ^ 254)"

definition ladder_step :: "int \<Rightarrow> bool \<Rightarrow> int \<times> int \<times> int \<times> int \<Rightarrow> int \<times> int \<times> int \<times> int" where
  "ladder_step u k_t st =
     (let swap = (\<lambda>(x2, z2, x3, z3). if k_t then (x3, z3, x2, z2) else (x2, z2, x3, z3)) in
      case swap st of (x2, z2, x3, z3) \<Rightarrow>
        (let a = x2 + z2; aa = a * a mod p25519; b = x2 - z2; bb = b * b mod p25519; e = aa - bb;
             da = (x3 - z3) * a mod p25519; cb = (x3 + z3) * b mod p25519 in
         swap (aa * bb mod p25519, e * (aa + 121665 * e) mod p25519,
               (da + cb) * (da + cb) mod p25519, u * ((da - cb) * (da - cb) mod p25519) mod p25519)))"

definition scalar_mult :: "string \<Rightarrow> string \<Rightarrow> string" where
  "scalar_mult k u =
     (let n = clamp_scalar k; x = int (le_value u mod 2 ^ 255) in
      case fold (\<lambda>t. ladder_step x (odd (n div 2 ^ t))) (rev [0..<255]) (1, 0, x, 1) of
        (x2, z2, _, _) \<Rightarrow> le_bytes 32 (nat (x2 * pow_mod z2 (nat (p25519 - 2)) p25519 mod p25519)))"

definition base_point :: string where
  "base_point = char_of (9::nat) # replicate 31 (char_of (0::nat))"

text \<open>\<^verbatim>\<open>hex.DecodeString\<close>: digits of either case, an even number of them.\<close>

definition hex_nibble :: "char \<Rightarrow> nat option" where
  "hex_nibble c = (if is_digit c then Some (digit_val c)
     else let l = of_char (to_lower_char c) in if 97 \<le> l \<and> l \<le> (102::nat) then Some (l - 87) else None)"

fun hex_decode :: "string \<Rightarrow> string option" where
  "hex_decode [] = Some []"
| "hex_decode [_] = None"
| "hex_decode (a # b # r) =
     (case (hex_nibble a, hex_nibble b, hex_decode r) of
        (Some x, Some y, Some t) \<Rightarrow> Some (char_of (16 * x + y) # t)
      | _ \<Rightarrow> None)"

section \<open>Keys and proofs\<close>

record KeyPair =
  kp_PrivateKey :: string
  kp_PublicKey :: string

text \<open>\<^verbatim>\<open>io.ReadFull(rand.Reader, b)\<close>: exactly \<open>n\<close> bytes, or an error.\<close>

definition rand_bytes :: "nat \<Rightarrow> string option M" where
  "rand_bytes n = do {
     r \<leftarrow> rand_read;
     ret (map_option (\<lambda>bs. take n (bytes_str bs @ replicate n (char_of (0::nat)))) r)
   }"

definition GenerateKeyPair :: "(string + KeyPair) M" where
  "GenerateKeyPair = do {
     r \<leftarrow> rand_bytes 32;
     ret (case r of None \<Rightarrow> Inl ''generate key pair''
          | Some k \<Rightarrow> Inr \<lparr>kp_PrivateKey = k, kp_PublicKey = scalar_mult k base_point\<rparr>)
   }"

definition PublicKeyFromHex :: "string \<Rightarrow> string + string" where
  "PublicKeyFromHex h = (case hex_decode h of
     None \<Rightarrow> Inl ''decode public key hex''
   | Some d \<Rightarrow> if length d = 32 then Inr d else Inl ''crypto/ecdh: invalid public key'')"

definition PrivateKeyFromHex :: "string \<Rightarrow> string + string" where
  "PrivateKeyFromHex h = (case hex_decode h of
     None \<Rightarrow> Inl ''decode private key hex''
   | Some d \<Rightarrow> if length d = 32 then Inr d else Inl ''crypto/ecdh: invalid private key size'')"

definition PubKeyHex :: "string \<Rightarrow> string" where
  "PubKeyHex pub = hex_encode pub"

definition PrivKeyHex :: "string \<Rightarrow> string" where
  "PrivKeyHex priv = hex_encode priv"

text \<open>\<^verbatim>\<open>PrivateKey.ECDH\<close> refuses a result of zeros, which a point of low order gives.\<close>

definition DeriveSharedSecret :: "string \<Rightarrow> string \<Rightarrow> string + string" where
  "DeriveSharedSecret priv pub = (let out = scalar_mult priv pub in
     if out = replicate 32 (char_of (0::nat)) then Inl ''crypto/ecdh: bad X25519 remote ECDH input: low order point'' else Inr out)"

definition ComputeAuthProof :: "string \<Rightarrow> string \<Rightarrow> string" where
  "ComputeAuthProof shared nonce = hmac_sha256 shared (''autopeer-key-auth'' @ nonce)"

definition VerifyAuthProof :: "string \<Rightarrow> string \<Rightarrow> string \<Rightarrow> bool" where
  "VerifyAuthProof shared nonce proof_bytes \<longleftrightarrow> ComputeAuthProof shared nonce = proof_bytes"

definition NewNonce :: "string option M" where
  "NewNonce = rand_bytes 32"

section \<open>Session keys and encryption\<close>

text \<open>The code from outside: \<^verbatim>\<open>hkdf.New\<close> read for a number of bytes, \<^verbatim>\<open>Seal\<close> and \<^verbatim>\<open>Open\<close> of
  \<^verbatim>\<open>chacha20poly1305.NewX\<close> with empty additional data, and \<^verbatim>\<open>json.Marshal\<close> and \<^verbatim>\<open>json.Unmarshal\<close> of a value.\<close>

record channel_lib =
  x_hkdf :: "string \<Rightarrow> string \<Rightarrow> string \<Rightarrow> nat \<Rightarrow> string"
  x_Seal :: "string \<Rightarrow> string \<Rightarrow> string \<Rightarrow> string"
  x_Open :: "string \<Rightarrow> string \<Rightarrow> string \<Rightarrow> string option"
  x_marshal :: "json \<Rightarrow> string"
  x_unmarshal :: "string \<Rightarrow> json option"

text \<open>An AEAD opens what it sealed and adds a tag of 16 bytes.\<close>

definition aead_ok :: "channel_lib \<Rightarrow> bool" where
  "aead_ok X \<longleftrightarrow> (\<forall>k n p. x_Open X k n (x_Seal X k n p) = Some p \<and> length (x_Seal X k n p) = length p + 16)"

definition NonceSizeX :: nat where "NonceSizeX = 24"
definition Overhead :: nat where "Overhead = 16"

definition DeriveEncKey :: "channel_lib \<Rightarrow> string \<Rightarrow> string \<Rightarrow> string" where
  "DeriveEncKey X shared nonce = x_hkdf X shared nonce ''autopeer-encryption-key'' 32"

definition Encrypt :: "channel_lib \<Rightarrow> string \<Rightarrow> string \<Rightarrow> string option M" where
  "Encrypt X key plaintext = do {
     r \<leftarrow> rand_bytes NonceSizeX;
     ret (map_option (\<lambda>nonce. nonce @ x_Seal X key nonce plaintext) r)
   }"

definition Decrypt :: "channel_lib \<Rightarrow> string \<Rightarrow> string \<Rightarrow> string option" where
  "Decrypt X key data =
     (if length data < NonceSizeX + Overhead then None
      else x_Open X key (take NonceSizeX data) (drop NonceSizeX data))"

lemma rand_bytes_length: "run_state (rand_bytes n) w = (Some b, w') \<Longrightarrow> length b = n"
  by (auto simp: rand_bytes_def split: prod.splits)

lemma rand_bytes_length_fst: "fst (run_state (rand_bytes n) w) = Some b \<Longrightarrow> length b = n"
  by (metis prod.collapse rand_bytes_length)

lemma Encrypt_shape:
  assumes "run_state (Encrypt X k p) w = (Some ct, w')"
  obtains nonce where "length nonce = NonceSizeX" "ct = nonce @ x_Seal X k nonce p"
  using assms that rand_bytes_length_fst [of NonceSizeX w] by (auto simp: Encrypt_def split: prod.splits)

lemma Decrypt_Encrypt:
  assumes "aead_ok X" "run_state (Encrypt X k p) w = (Some ct, w')"
  shows "Decrypt X k ct = Some p"
proof -
  from assms(2) obtain nonce where "length nonce = NonceSizeX" "ct = nonce @ x_Seal X k nonce p" by (rule Encrypt_shape)
  with assms(1) show ?thesis by (simp add: Decrypt_def aead_ok_def Overhead_def)
qed

lemma hex_nibble_digit: "n < 16 \<Longrightarrow> hex_nibble (hex_digits ! n) = Some n"
proof -
  have "list_all (\<lambda>n. hex_nibble (hex_digits ! n) = Some n) [0..<16]" by code_simp
  then show "n < 16 \<Longrightarrow> hex_nibble (hex_digits ! n) = Some n" by (simp add: list_all_iff)
qed

lemma hex_decode_encode: "hex_decode (hex_encode s) = Some s"
proof (induction s)
  case (Cons c s)
  have "of_char c < (256::nat)" by simp
  then have "of_char c div 16 < (16::nat)" by linarith
  moreover have "char_of (16 * (of_char c div 16) + of_char c mod 16 :: nat) = c" by (simp only: mult_div_mod_eq char_of_char)
  ultimately show ?case using Cons by (simp add: hex_encode_def hex_nibble_digit)
qed (simp add: hex_encode_def)

lemma PublicKeyFromHex_PubKeyHex: "length k = 32 \<Longrightarrow> PublicKeyFromHex (PubKeyHex k) = Inr k"
  by (simp add: PublicKeyFromHex_def PubKeyHex_def hex_decode_encode)

end
