(* ===== verification/Heartbeat.thy ===== *)
theory Heartbeat
  imports AuthHandler Notifications PeerRepo
begin

text \<open>
  \<^verbatim>\<open>internal/ws/heartbeat.go\<close>, the alert flags of \<^verbatim>\<open>internal/ws/hub.go\<close>, \<^verbatim>\<open>internal/repository/metrics.go\<close> and
  \<^verbatim>\<open>GetSettingThreshold\<close>: what a node's heartbeat stores and which alarms it raises. A heartbeat is its
  decoded payload, \<open>None\<close> when it does not decode. The callbacks are wired as in \<^verbatim>\<open>cmd/center/deps.go\<close>.
  A message that the code sends from a goroutine of its own is recorded where it is started.
\<close>

section \<open>Metrics and thresholds\<close>

definition mon_upd :: "(monitor \<Rightarrow> monitor) \<Rightarrow> world \<Rightarrow> world" where
  "mon_upd f w = w\<lparr>w_mon := f (w_mon w)\<rparr>"

definition InsertNodeMetric :: "NodeMetric \<Rightarrow> (db_error + unit) M" where
  "InsertNodeMetric m = db_write (\<lambda>w. Inr ((), mon_upd (\<lambda>d. d\<lparr>mo_node_metrics := mo_node_metrics d @ [m\<lparr>nm_Time := w_now w\<rparr>]\<rparr>) w))"

text \<open>\<^verbatim>\<open>INSERT ... SELECT ... FROM peers p WHERE p.id = ? AND p.node_id = ?\<close>: no row when the peer is not on
  the node.\<close>

definition InsertPeerMetricFromHeartbeat :: "string \<Rightarrow> string \<Rightarrow> PeerMetric \<Rightarrow> (db_error + unit) M" where
  "InsertPeerMetricFromHeartbeat peerID nodeID m = db_write (\<lambda>w. Inr ((), mon_upd (\<lambda>d. d\<lparr>mo_peer_metrics := mo_peer_metrics d @
     map (\<lambda>p. m\<lparr>pm_Time := w_now w, pm_PeerID := ID p\<rparr>) (filter (\<lambda>p. ID p = peerID \<and> NodeID p = nodeID) (w_peers w))\<rparr>) w))"

definition InsertPeerMetric :: "PeerMetric \<Rightarrow> (db_error + unit) M" where
  "InsertPeerMetric m = db_write (\<lambda>w. Inr ((), mon_upd (\<lambda>d. d\<lparr>mo_peer_metrics := mo_peer_metrics d @ [m]\<rparr>) w))"

definition zero_metric :: PeerMetric where
  "zero_metric = \<lparr>pm_Time = 0, pm_PeerID = [], pm_RxBytes = 0, pm_TxBytes = 0, pm_BGPState = [], pm_RttMs = None, pm_LastHandshake = None,
     pm_RoutesImported = None, pm_RoutesExported = None, pm_RoutesPreferred = None, pm_BGPUptimeSecs = None, pm_WgActualEndpoint = []\<rparr>"

definition InsertBirdMetric :: "string \<Rightarrow> string \<Rightarrow> string \<Rightarrow> int \<Rightarrow> int \<Rightarrow> int \<Rightarrow> int \<Rightarrow> (db_error + unit) M" where
  "InsertBirdMetric nodeID iface state imported exported preferred uptime = db_write (\<lambda>w. Inr ((), mon_upd (\<lambda>d. d\<lparr>mo_peer_metrics := mo_peer_metrics d @
     map (\<lambda>p. zero_metric\<lparr>pm_Time := w_now w, pm_PeerID := ID p, pm_BGPState := state, pm_RoutesImported := Some imported,
                pm_RoutesExported := Some exported, pm_RoutesPreferred := Some preferred, pm_BGPUptimeSecs := Some uptime\<rparr>)
       (take 1 (filter (\<lambda>p. NodeID p = nodeID \<and> WgInterfaceName p = iface \<and> Status p = ''active'') (w_peers w)))\<rparr>) w))"

definition QueryPeerMetrics :: "string \<Rightarrow> int \<Rightarrow> (db_error + PeerMetric list) M" where
  "QueryPeerMetrics peerID hours = db_read (\<lambda>w. Inr (sort_key pm_Time (filter (\<lambda>m. pm_PeerID m = peerID \<and> pm_Time m > w_now w - hours * 3600000)
     (mo_peer_metrics (w_mon w)))))"

definition latest_metric :: "string \<Rightarrow> world \<Rightarrow> PeerMetric option" where
  "latest_metric peerID w = (case sort_key (\<lambda>m. - pm_Time m)
       (filter (\<lambda>m. pm_PeerID m = peerID \<and> pm_Time m > w_now w - 600000) (mo_peer_metrics (w_mon w))) of
     [] \<Rightarrow> None | m # _ \<Rightarrow> Some m)"

definition GetLatestPeerMetric :: "string \<Rightarrow> (db_error + PeerMetric) M" where
  "GetLatestPeerMetric peerID = db_read (\<lambda>w. row (latest_metric peerID w))"

record PeerMetricSummary =
  ms_RttMs :: "string option"
  ms_BGPState :: string
  ms_LastHandshake :: "int option"
  ms_BGPUptimeSecs :: "int option"
  ms_WgActualEndpoint :: string

definition GetLatestPeerMetricSummary :: "string \<Rightarrow> (db_error + PeerMetricSummary) M" where
  "GetLatestPeerMetricSummary peerID = db_read (\<lambda>w. row (map_option (\<lambda>m.
     \<lparr>ms_RttMs = pm_RttMs m, ms_BGPState = pm_BGPState m, ms_LastHandshake = pm_LastHandshake m,
      ms_BGPUptimeSecs = pm_BGPUptimeSecs m, ms_WgActualEndpoint = pm_WgActualEndpoint m\<rparr>) (latest_metric peerID w)))"

definition GetSettingThreshold :: "string \<Rightarrow> string M" where
  "GetSettingThreshold key = cached_setting SettingThr (\<lambda>w. mo_thresholds (w_mon w)) key"

definition GetEmailLevelForASN :: "int \<Rightarrow> int M" where
  "GetEmailLevelForASN asn = do { r \<leftarrow> GetEmailLevel asn; ret (case r of Inl _ \<Rightarrow> 0 | Inr l \<Rightarrow> l) }"

definition nodes_GetField :: "string \<Rightarrow> string \<Rightarrow> (db_error + string) M" where
  "nodes_GetField nodeID field = db_read (\<lambda>w. row (map_option (\<lambda>n.
     if field = ''name'' then n_Name n else if field = ''location'' then n_Location n
     else if field = ''agent_version'' then n_AgentVersion n else if field = ''agent_state'' then n_AgentState n else [])
     (find_node nodeID (w_nodes w))))"

section \<open>Alert flags\<close>

definition is_notified :: "string \<Rightarrow> string \<Rightarrow> bool M" where
  "is_notified pre ident = do { v \<leftarrow> cache_read dec_bool BucketAlerts (PeerKey pre ident); ret (v = Some True) }"

definition cache_remove :: "string \<Rightarrow> string \<Rightarrow> unit M" where
  "cache_remove bkt key = modify (\<lambda>w. w\<lparr>w_cache := fst (cache_Delete (w_now w) bkt key (w_cache w))\<rparr>)"

definition set_notified :: "string \<Rightarrow> string \<Rightarrow> bool \<Rightarrow> unit M" where
  "set_notified pre ident v =
     (if v then cache_write BucketAlerts (PeerKey pre ident) (JBool True) 86400000
      else cache_remove BucketAlerts (PeerKey pre ident))"

definition isBGPDownNotified :: "string \<Rightarrow> bool M" where
  "isBGPDownNotified peerID = is_notified AlertBGPDown peerID"

definition setBGPDownNotified :: "string \<Rightarrow> bool \<Rightarrow> unit M" where
  "setBGPDownNotified peerID v = set_notified AlertBGPDown peerID v"

definition incBGPFailCount :: "string \<Rightarrow> int M" where
  "incBGPFailCount peerID = State (\<lambda>w.
     case cache_IncInt (w_now w) BucketAlerts (PeerKey AlertBGPFail peerID) 3600000 (w_cache w) of
       (c, r) \<Rightarrow> (case r of Inl _ \<Rightarrow> 0 | Inr n \<Rightarrow> n, w\<lparr>w_cache := c\<rparr>))"

definition resetBGPFailCount :: "string \<Rightarrow> unit M" where
  "resetBGPFailCount peerID = cache_remove BucketAlerts (PeerKey AlertBGPFail peerID)"

definition isHandshakeNotified :: "string \<Rightarrow> bool M" where
  "isHandshakeNotified peerID = is_notified AlertHandshake peerID"

definition setHandshakeNotified :: "string \<Rightarrow> bool \<Rightarrow> unit M" where
  "setHandshakeNotified peerID v = set_notified AlertHandshake peerID v"

definition isNodeOfflineNotified :: "string \<Rightarrow> bool M" where
  "isNodeOfflineNotified nodeID = is_notified AlertNodeOff nodeID"

definition setNodeOfflineNotified :: "string \<Rightarrow> bool \<Rightarrow> unit M" where
  "setNodeOfflineNotified nodeID v = set_notified AlertNodeOff nodeID v"

definition ClearNodeAlerts :: "string \<Rightarrow> unit M" where
  "ClearNodeAlerts nodeID = cache_remove BucketAlerts (PeerKey AlertNodeOff nodeID)"

section \<open>Heartbeats\<close>

record NodeMetrics =
  hm_MemAllocMB :: nat
  hm_MemSysMB :: nat
  hm_NumGoroutine :: int
  hm_UptimeSecs :: int

record PeerHeartbeat =
  hb_PeerID :: string
  hb_ASN :: int
  hb_WgRxBytes :: int
  hb_WgTxBytes :: int
  hb_WgLastHandshake :: string
  hb_BGPState :: string
  hb_RttMs :: "string option"
  hb_RoutesImported :: "int option"
  hb_RoutesExported :: "int option"
  hb_RoutesPreferred :: "int option"
  hb_BGPUptimeSecs :: "int option"
  hb_WgActualEndpoint :: string

record HeartbeatPayload =
  hp_NodeID :: string
  hp_Timestamp :: string
  hp_Peers :: "PeerHeartbeat list"
  hp_Version :: string
  hp_NodeMetrics :: "NodeMetrics option"

definition int64PtrFromU64 :: "nat \<Rightarrow> int option" where
  "int64PtrFromU64 v = (if v = 0 then None else Some (wrap_int64 (int v)))"

definition intPtrFromInt :: "int \<Rightarrow> int option" where
  "intPtrFromInt v = (if v = 0 then None else Some v)"

definition int64PtrFromInt64 :: "int \<Rightarrow> int option" where
  "int64PtrFromInt64 v = (if v = 0 then None else Some v)"

text \<open>\<^verbatim>\<open>strconv.Atoi\<close> of a threshold when it is positive, otherwise the default.\<close>

definition threshold_or :: "int \<Rightarrow> string \<Rightarrow> int" where
  "threshold_or d s = (case atoi s of Some v \<Rightarrow> if v > 0 then v else d | None \<Rightarrow> d)"

definition bgp_down :: "string \<Rightarrow> bool" where
  "bgp_down s \<longleftrightarrow> to_lower s \<noteq> ''established'' \<and> s \<noteq> ''up''"

text \<open>The state of the BGP session: the alarms it raises, by template and by bot event.\<close>

definition check_bgp :: "int \<Rightarrow> bool \<Rightarrow> string \<Rightarrow> string \<Rightarrow> (string \<times> string) list M" where
  "check_bgp t recoveredEnabled peerID state =
     (if bgp_down state then do {
        failCount \<leftarrow> incBGPFailCount peerID;
        notified \<leftarrow> (if failCount \<ge> t then isBGPDownNotified peerID else ret True);
        if notified then ret []
        else do { setBGPDownNotified peerID True; ret [(''peer-bgp-down'', ''peer.bgp_down'')] }
      } else do {
        notified \<leftarrow> isBGPDownNotified peerID;
        setBGPDownNotified peerID False;
        resetBGPFailCount peerID;
        ret (if notified \<and> recoveredEnabled then [(''peer-bgp-recovered'', ''peer.bgp_recovered'')] else [])
      })"

text \<open>\<^verbatim>\<open>time.Since(*lastHandshake).Minutes()\<close> against the threshold in minutes.\<close>

definition check_handshake :: "int \<Rightarrow> string \<Rightarrow> int \<Rightarrow> (string \<times> string) list M" where
  "check_handshake t peerID lastHandshake = do {
     now \<leftarrow> time_now;
     if now - lastHandshake > t * 60000 then do {
       notified \<leftarrow> isHandshakeNotified peerID;
       if notified then ret []
       else do { setHandshakeNotified peerID True; ret [(''peer-handshake-stale'', ''peer.handshake_stale'')] }
     } else do { setHandshakeNotified peerID False; ret [] }
   }"

definition alertTemplateToNotifKey :: "string \<Rightarrow> string" where
  "alertTemplateToNotifKey tpl =
     (if tpl = ''peer-bgp-down'' then ''peer_bgp_down'' else if tpl = ''peer-bgp-recovered'' then ''peer_bgp_recovered''
      else if tpl = ''peer-handshake-stale'' then ''peer_handshake_stale'' else tpl)"

definition botEventToNotifKey :: "string \<Rightarrow> string" where
  "botEventToNotifKey ev =
     (if ev = ''peer.bgp_down'' then ''peer_bgp_down'' else if ev = ''peer.bgp_recovered'' then ''peer_bgp_recovered''
      else if ev = ''peer.handshake_stale'' then ''peer_handshake_stale'' else ev)"

fun dispatch_mails :: "string \<Rightarrow> int \<Rightarrow> string list \<Rightarrow> unit M" where
  "dispatch_mails email asn [] = ret ()"
| "dispatch_mails email asn (tpl # rest) = do {
     ok \<leftarrow> IsNotificationEnabledForASN asn (alertTemplateToNotifKey tpl);
     if \<not> ok then dispatch_mails email asn rest
     else do {
       level \<leftarrow> GetEmailLevelForASN asn;
       if level < 2 then dispatch_mails email asn rest
       else do { notify (Email email tpl asn); dispatch_mails email asn rest }
     }
   }"

fun dispatch_events :: "int \<Rightarrow> int \<Rightarrow> string list \<Rightarrow> unit M" where
  "dispatch_events tg asn [] = ret ()"
| "dispatch_events tg asn (ev # rest) = do {
     ok \<leftarrow> IsTelegramNotificationEnabledForASN asn (botEventToNotifKey ev);
     if ok then do { notify (BotUser tg ev); dispatch_events tg asn rest }
     else dispatch_events tg asn rest
   }"

definition checkAlerts :: "PeerHeartbeat \<Rightarrow> int option \<Rightarrow> (string \<rightharpoonup> string) \<Rightarrow> unit M" where
  "checkAlerts p lastHandshake contactMap = do {
     let contactEmail = (case contactMap (hb_PeerID p) of Some e \<Rightarrow> e | None \<Rightarrow> []);
     bgpDown \<leftarrow> GetSettingValue ''peer_bgp_down_enabled'';
     bgpDownThreshold \<leftarrow> GetSettingThreshold ''peer_bgp_down_enabled'';
     bgpRecovered \<leftarrow> GetSettingValue ''peer_bgp_recovered_enabled'';
     handshakeStale \<leftarrow> GetSettingValue ''peer_handshake_stale_enabled'';
     handshakeThreshold \<leftarrow> GetSettingThreshold ''peer_handshake_stale_enabled'';
     a1 \<leftarrow> (if bgpDown = ''true'' \<and> hb_BGPState p \<noteq> []
            then check_bgp (threshold_or 3 bgpDownThreshold) (bgpRecovered = ''true'') (hb_PeerID p) (hb_BGPState p) else ret []);
     a2 \<leftarrow> (case lastHandshake of
              Some t \<Rightarrow> if handshakeStale = ''true'' then check_handshake (threshold_or 5 handshakeThreshold) (hb_PeerID p) t else ret []
            | None \<Rightarrow> ret []);
     _ \<leftarrow> (if contactEmail \<noteq> [] then dispatch_mails contactEmail (hb_ASN p) (map fst (a1 @ a2)) else ret ());
     if a1 @ a2 = [] then ret ()
     else do {
       b \<leftarrow> bindings_GetByASN (hb_ASN p);
       case b of Inl _ \<Rightarrow> ret () | Inr binding \<Rightarrow> dispatch_events (bb_TgUserID binding) (hb_ASN p) (map snd (a1 @ a2))
     }
   }"

definition parse_handshake :: "string \<Rightarrow> int option" where
  "parse_handshake s =
     (if s = [] \<or> s = ''0'' then None
      else case atoi s of Some ts \<Rightarrow> if ts > 0 then Some (ts * 1000) else None | None \<Rightarrow> None)"

definition peer_metric_of :: "PeerHeartbeat \<Rightarrow> int option \<Rightarrow> PeerMetric" where
  "peer_metric_of p lastHandshake = \<lparr>pm_Time = 0, pm_PeerID = [], pm_RxBytes = hb_WgRxBytes p, pm_TxBytes = hb_WgTxBytes p,
     pm_BGPState = hb_BGPState p, pm_RttMs = hb_RttMs p, pm_LastHandshake = lastHandshake, pm_RoutesImported = hb_RoutesImported p,
     pm_RoutesExported = hb_RoutesExported p, pm_RoutesPreferred = hb_RoutesPreferred p, pm_BGPUptimeSecs = hb_BGPUptimeSecs p,
     pm_WgActualEndpoint = hb_WgActualEndpoint p\<rparr>"

text \<open>The loop over the reported peers; its result is \<^verbatim>\<open>activePeerIDs\<close>.\<close>

fun heartbeat_peers :: "string \<Rightarrow> (string \<rightharpoonup> string) \<Rightarrow> PeerHeartbeat list \<Rightarrow> string list M" where
  "heartbeat_peers nodeID contactMap [] = ret []"
| "heartbeat_peers nodeID contactMap (p # rest) = do {
     now \<leftarrow> time_now;
     let lastHandshake = parse_handshake (hb_WgLastHandshake p);
     let active = (case lastHandshake of Some t \<Rightarrow> now - t \<le> 600000 | None \<Rightarrow> False);
     _ \<leftarrow> InsertPeerMetricFromHeartbeat (hb_PeerID p) nodeID (peer_metric_of p lastHandshake);
     checkAlerts p lastHandshake contactMap;
     ids \<leftarrow> heartbeat_peers nodeID contactMap rest;
     ret (if active then hb_PeerID p # ids else ids)
   }"

definition admin_mails :: "string \<Rightarrow> unit M" where
  "admin_mails tpl = modify (\<lambda>w. w\<lparr>w_out := w_out w @ map (\<lambda>e. AdminEmail e tpl) (filter (\<lambda>e. e \<noteq> []) (mo_adminEmails (w_mon w)))\<rparr>)"

definition or_blank :: "db_error + string \<Rightarrow> string" where
  "or_blank r = (case r of Inl _ \<Rightarrow> [] | Inr s \<Rightarrow> s)"

definition handleHeartbeat :: "string \<Rightarrow> HeartbeatPayload option \<Rightarrow> unit M" where
  "handleHeartbeat nodeID decoded =
     (case decoded of
        None \<Rightarrow> ret ()
      | Some payload \<Rightarrow> do {
          old \<leftarrow> nodes_GetField nodeID ''agent_version'';
          let oldVersion = or_blank old;
          let version = hp_Version payload;
          _ \<leftarrow> (if version \<noteq> [] then nodes_SetAgentVersion nodeID version else nodes_SetAgentState nodeID ''online'');
          _ \<leftarrow> (case hp_NodeMetrics payload of
                 None \<Rightarrow> ret (Inr ())
               | Some nm \<Rightarrow> InsertNodeMetric \<lparr>nm_Time = 0, nm_NodeID = nodeID, nm_MemAllocMB = int64PtrFromU64 (hm_MemAllocMB nm),
                   nm_MemSysMB = int64PtrFromU64 (hm_MemSysMB nm), nm_NumGoroutine = intPtrFromInt (hm_NumGoroutine nm),
                   nm_UptimeSecs = int64PtrFromInt64 (hm_UptimeSecs nm)\<rparr>);
          _ \<leftarrow> (if oldVersion \<noteq> [] \<and> version \<noteq> [] \<and> oldVersion \<noteq> version then do {
                   enabled \<leftarrow> GetSettingValue ''agent_updated_enabled'';
                   if enabled = ''true'' then do {
                     _ \<leftarrow> nodes_GetField nodeID ''name'';
                     admin_mails ''agent-updated'';
                     notify (BotAdmin ''agent.updated'')
                   } else ret ()
                 } else ret ());
          wasOffline \<leftarrow> isNodeOfflineNotified nodeID;
          setNodeOfflineNotified nodeID False;
          _ \<leftarrow> (if wasOffline then do {
                   _ \<leftarrow> nodes_GetField nodeID ''name'';
                   admin_mails ''node-back-online'';
                   notify (BotAdmin ''node.online'')
                 } else ret ());
          contacts \<leftarrow> peers_ListActiveByNode nodeID;
          let contactMap = (case contacts of Inl _ \<Rightarrow> Map.empty | Inr cs \<Rightarrow> map_of (map (\<lambda>(i, e, n). (i, e)) (rev cs)));
          ids \<leftarrow> heartbeat_peers nodeID contactMap (hp_Peers payload);
          now \<leftarrow> time_now;
          _ \<leftarrow> (if ids \<noteq> [] then peers_MarkPeersActive ids now else ret (Inr ()));
          ret ()
        })"

definition notifyNodeOffline :: "string \<Rightarrow> bool \<Rightarrow> unit M" where
  "notifyNodeOffline nodeID skipIfUpdating = do {
     enabled \<leftarrow> GetSettingValue ''node_offline_enabled'';
     if enabled \<noteq> ''true'' then ret ()
     else do {
       notified \<leftarrow> isNodeOfflineNotified nodeID;
       if notified then ret ()
       else do {
         setNodeOfflineNotified nodeID True;
         state \<leftarrow> (if skipIfUpdating then nodes_GetField nodeID ''agent_state'' else ret (Inr []));
         if skipIfUpdating \<and> or_blank state = ''updating'' then ret ()
         else do {
           _ \<leftarrow> nodes_GetByID nodeID;
           admin_mails ''node-offline'';
           notify (BotAdmin ''node.offline'')
         }
       }
     }
   }"

definition handleAgentUpdating :: "string \<Rightarrow> unit M" where
  "handleAgentUpdating nodeID = do {
     _ \<leftarrow> nodes_SetAgentState nodeID ''updating'';
     notifyNodeOffline nodeID True
   }"

section \<open>The bucket of alerts on a single node\<close>

text \<open>The raw entries of the bucket, and a single-node cache whose commits succeed.\<close>

definition alerts :: "'s cache \<Rightarrow> string \<rightharpoonup> json" where
  "alerts c = (case c_db c of None \<Rightarrow> Map.empty | Some db \<Rightarrow> (case db BucketAlerts of None \<Rightarrow> Map.empty | Some b \<Rightarrow> map_of b))"

definition cache_ok :: "'s cache \<Rightarrow> bool" where
  "cache_ok c \<longleftrightarrow> local_mode c \<and> list_all Not (c_txfail c)"

lemma alerts_bucket: "BucketAlerts \<in> set cache_buckets"
  by (simp add: cache_buckets_def)

lemma cache_ok_db:
  assumes "cache_ok c"
  obtains db b where "c_db c = Some db" "db BucketAlerts = Some b" "alerts c = map_of b" "c_redis c = None" "c_fallback c"
    "c_txfail c = [] \<or> \<not> hd (c_txfail c)"
proof -
  from assms alerts_bucket obtain db b where "c_db c = Some db" "db BucketAlerts = Some b" "c_redis c = None" "c_fallback c"
    by (auto simp: cache_ok_def local_mode_def)
  moreover have "c_txfail c = [] \<or> \<not> hd (c_txfail c)"
    using assms by (cases "c_txfail c") (auto simp: cache_ok_def)
  ultimately show thesis using that by (simp add: alerts_def)
qed

lemma cache_ok_commit:
  assumes "cache_ok c" "c_db c = Some db"
  shows "cache_ok (c\<lparr>c_txfail := tl (c_txfail c), c_db := Some (db(BucketAlerts \<mapsto> b'))\<rparr>)"
    and "alerts (c\<lparr>c_txfail := tl (c_txfail c), c_db := Some (db(BucketAlerts \<mapsto> b'))\<rparr>) = map_of b'"
  using assms by (cases "c_txfail c"; auto simp: cache_ok_def local_mode_def alerts_def)+

text \<open>Each operation on the bucket: its result, and the entries after it.\<close>

lemma alerts_put:
  assumes "cache_ok c" "0 < ttl"
  shows "cache_ok (fst (cache_Put now BucketAlerts k v ttl c))"
    and "alerts (fst (cache_Put now BucketAlerts k v ttl c)) = (alerts c)(k \<mapsto> envelope v (unix (now + ttl)))"
proof -
  from assms(1) obtain db b where c: "c_db c = Some db" "db BucketAlerts = Some b" "alerts c = map_of b" "c_redis c = None" "c_fallback c"
    "c_txfail c = [] \<or> \<not> hd (c_txfail c)" by (rule cache_ok_db)
  have "fst (cache_Put now BucketAlerts k v ttl c) = c\<lparr>c_txfail := tl (c_txfail c),
      c_db := Some (db(BucketAlerts \<mapsto> bucket_put k (envelope v (unix (now + ttl))) b))\<rparr>"
    using c assms by (auto simp: cache_Put_local cache_ok_def putLocal_def bolt_update_def Let_def)
  then show "cache_ok (fst (cache_Put now BucketAlerts k v ttl c))"
    and "alerts (fst (cache_Put now BucketAlerts k v ttl c)) = (alerts c)(k \<mapsto> envelope v (unix (now + ttl)))"
    using cache_ok_commit [OF assms(1) c(1)] c(3) by simp_all
qed

lemma alerts_delete:
  assumes "cache_ok c"
  shows "cache_ok (fst (cache_Delete now BucketAlerts k c))"
    and "alerts (fst (cache_Delete now BucketAlerts k c)) = (alerts c)(k := None)"
proof -
  from assms(1) obtain db b where c: "c_db c = Some db" "db BucketAlerts = Some b" "alerts c = map_of b" "c_redis c = None" "c_fallback c"
    "c_txfail c = [] \<or> \<not> hd (c_txfail c)" by (rule cache_ok_db)
  have "fst (cache_Delete now BucketAlerts k c) = c\<lparr>c_txfail := tl (c_txfail c),
      c_db := Some (db(BucketAlerts \<mapsto> bucket_delete k b))\<rparr>"
    using c assms by (auto simp: cache_Delete_def bolt_update_def Let_def)
  then show "cache_ok (fst (cache_Delete now BucketAlerts k c))"
    and "alerts (fst (cache_Delete now BucketAlerts k c)) = (alerts c)(k := None)"
    using cache_ok_commit [OF assms(1) c(1)] c(3) by simp_all
qed

text \<open>The live count of an entry.\<close>

definition count_of :: "int \<Rightarrow> json option \<Rightarrow> int" where
  "count_of now r = counter_old now (case r of None \<Rightarrow> [] | Some raw \<Rightarrow> [([], raw)]) []"

lemma counter_old_entry: "counter_old now b k = count_of now (map_of b k)"
  by (simp add: counter_old_def count_of_def split: option.splits)

lemma alerts_inc:
  assumes "cache_ok c" "0 < ttl"
  shows "cache_ok (fst (cache_IncInt now BucketAlerts k ttl c))"
    and "snd (cache_IncInt now BucketAlerts k ttl c) = Inr (wrap_int64 (count_of now (alerts c k) + 1))"
    and "alerts (fst (cache_IncInt now BucketAlerts k ttl c)) =
      (alerts c)(k \<mapsto> envelope (jint (wrap_int64 (count_of now (alerts c k) + 1))) (unix (now + ttl)))"
proof -
  from assms(1) obtain db b where c: "c_db c = Some db" "db BucketAlerts = Some b" "alerts c = map_of b" "c_redis c = None" "c_fallback c"
    "c_txfail c = [] \<or> \<not> hd (c_txfail c)" by (rule cache_ok_db)
  let ?n = "wrap_int64 (count_of now (alerts c k) + 1)"
  have "cache_IncInt now BucketAlerts k ttl c = (c\<lparr>c_txfail := tl (c_txfail c),
      c_db := Some (db(BucketAlerts \<mapsto> bucket_put k (envelope (jint ?n) (unix (now + ttl))) b))\<rparr>, Inr ?n)"
    using c assms by (auto simp: cache_IncInt_def bolt_update_def Let_def counter_old_entry)
  then show "cache_ok (fst (cache_IncInt now BucketAlerts k ttl c))"
    and "snd (cache_IncInt now BucketAlerts k ttl c) = Inr ?n"
    and "alerts (fst (cache_IncInt now BucketAlerts k ttl c)) = (alerts c)(k \<mapsto> envelope (jint ?n) (unix (now + ttl)))"
    using cache_ok_commit [OF assms(1) c(1)] c(3) by simp_all
qed

text \<open>Whether an entry reads as a set flag.\<close>

definition flag_of :: "int \<Rightarrow> json option \<Rightarrow> bool" where
  "flag_of now r \<longleftrightarrow> (case r of
     None \<Rightarrow> False
   | Some raw \<Rightarrow> (case open_envelope raw of
       Some (v, e) \<Rightarrow> \<not> (e > 0 \<and> unix now > e) \<and> dec_bool v = Some True
     | None \<Rightarrow> dec_bool raw = Some True))"

lemma run_is_notified:
  assumes "cache_ok (w_cache w)"
  shows "run_state (is_notified pre i) w = (flag_of (w_now w) (alerts (w_cache w) (PeerKey pre i)), w)"
proof -
  from assms obtain db b where c: "c_db (w_cache w) = Some db" "db BucketAlerts = Some b" "alerts (w_cache w) = map_of b"
    "c_redis (w_cache w) = None" by (rule cache_ok_db)
  then show ?thesis
    by (auto simp: is_notified_def cache_read_def cache_Get_def getLocal_def flag_of_def split: option.splits)
qed

section \<open>The alarm of a BGP session\<close>

text \<open>What the flag and the counter of a peer amount to: until when the operator counts as told, and the
  failures counted so far with the second at which the count lapses.\<close>

record alarm =
  al_until :: "int option"
  al_fails :: "(int \<times> int) option"

definition told :: "int \<Rightarrow> alarm \<Rightarrow> bool" where
  "told now a \<longleftrightarrow> (case al_until a of None \<Rightarrow> False | Some e \<Rightarrow> unix now \<le> e)"

definition fails :: "int \<Rightarrow> alarm \<Rightarrow> int" where
  "fails now a = (case al_fails a of None \<Rightarrow> 0 | Some (n, e) \<Rightarrow> if unix now \<le> e then n else 0)"

definition alarm_step :: "int \<Rightarrow> bool \<Rightarrow> int \<Rightarrow> bool \<Rightarrow> alarm \<Rightarrow> alarm \<times> string list" where
  "alarm_step t recoveredEnabled now down a =
     (if down then
        (let n = wrap_int64 (fails now a + 1); a' = a\<lparr>al_fails := Some (n, unix (now + 3600000))\<rparr> in
         if n \<ge> t \<and> \<not> told now a then (a'\<lparr>al_until := Some (unix (now + 86400000))\<rparr>, [''peer.bgp_down'']) else (a', []))
      else (\<lparr>al_until = None, al_fails = None\<rparr>, if told now a \<and> recoveredEnabled then [''peer.bgp_recovered''] else []))"

definition alarm_rel :: "string \<Rightarrow> world \<Rightarrow> alarm \<Rightarrow> bool" where
  "alarm_rel pid w a \<longleftrightarrow>
     alerts (w_cache w) (PeerKey AlertBGPDown pid) = map_option (envelope (JBool True)) (al_until a)
     \<and> alerts (w_cache w) (PeerKey AlertBGPFail pid) = map_option (\<lambda>(n, e). envelope (jint n) e) (al_fails a)
     \<and> pred_option (\<lambda>e. 0 < e \<and> is_int64 e) (al_until a)
     \<and> pred_option (\<lambda>(n, e). is_int64 n \<and> 0 < e \<and> is_int64 e) (al_fails a)"

definition clock_ok :: "world \<Rightarrow> bool" where
  "clock_ok w \<longleftrightarrow> 1000 \<le> w_now w \<and> is_int64 (w_now w + 86400000)"

lemma clock_unix:
  assumes "clock_ok w" "0 < ttl" "ttl \<le> 86400000"
  shows "0 < unix (w_now w + ttl)" "is_int64 (unix (w_now w + ttl))"
proof -
  show "0 < unix (w_now w + ttl)" using assms by (simp add: clock_ok_def unix_pos)
  show "is_int64 (unix (w_now w + ttl))" by (rule unix_int64) (use assms in \<open>auto simp: clock_ok_def is_int64_def\<close>)
qed

lemma flag_of_rel: "alarm_rel pid w a \<Longrightarrow> flag_of now (alerts (w_cache w) (PeerKey AlertBGPDown pid)) = told now a"
  by (cases "al_until a") (auto simp: alarm_rel_def flag_of_def told_def)

lemma count_of_rel: "alarm_rel pid w a \<Longrightarrow> count_of now (alerts (w_cache w) (PeerKey AlertBGPFail pid)) = fails now a"
  by (cases "al_fails a") (auto simp: alarm_rel_def count_of_def counter_old_def fails_def)

lemma alert_keys [simp]:
  "PeerKey AlertBGPDown i = PeerKey AlertBGPFail j \<longleftrightarrow> False" "PeerKey AlertBGPFail j = PeerKey AlertBGPDown i \<longleftrightarrow> False"
  by (auto simp: PeerKey_def AlertBGPDown_def AlertBGPFail_def)

lemma run_set_notified:
  assumes "cache_ok (w_cache w)"
  shows "\<exists>c. run_state (set_notified pre i v) w = ((), w\<lparr>w_cache := c\<rparr>) \<and> cache_ok c \<and>
    alerts c = (alerts (w_cache w))(PeerKey pre i := if v then Some (envelope (JBool True) (unix (w_now w + 86400000))) else None)"
  using alerts_put [OF assms, of 86400000 "w_now w" "PeerKey pre i" "JBool True"] alerts_delete [OF assms, of "w_now w" "PeerKey pre i"]
  by (auto simp: set_notified_def cache_write_def cache_remove_def)

lemma run_incBGPFailCount:
  assumes "cache_ok (w_cache w)" "alarm_rel pid w a"
  shows "\<exists>c. run_state (incBGPFailCount pid) w = (wrap_int64 (fails (w_now w) a + 1), w\<lparr>w_cache := c\<rparr>) \<and> cache_ok c \<and>
    alerts c = (alerts (w_cache w))(PeerKey AlertBGPFail pid \<mapsto> envelope (jint (wrap_int64 (fails (w_now w) a + 1))) (unix (w_now w + 3600000)))"
  using alerts_inc [OF assms(1), of 3600000 "w_now w" "PeerKey AlertBGPFail pid"]
  by (auto simp: incBGPFailCount_def count_of_rel [OF assms(2)] split: prod.splits)

lemma run_cache_remove:
  assumes "cache_ok (w_cache w)"
  shows "\<exists>c. run_state (cache_remove BucketAlerts k) w = ((), w\<lparr>w_cache := c\<rparr>) \<and> cache_ok c \<and> alerts c = (alerts (w_cache w))(k := None)"
  using alerts_delete [OF assms, of "w_now w" k] by (auto simp: cache_remove_def)

text \<open>One observation: the code does what the automaton does, and touches only the cache.\<close>

lemma check_bgp_down:
  assumes ok: "cache_ok (w_cache w)" "clock_ok w" "alarm_rel pid w a" and down: "bgp_down s"
  shows "\<exists>c out. run_state (check_bgp t r pid s) w = (out, w\<lparr>w_cache := c\<rparr>) \<and> cache_ok c
    \<and> alarm_rel pid (w\<lparr>w_cache := c\<rparr>) (fst (alarm_step t r (w_now w) True a)) \<and> map snd out = snd (alarm_step t r (w_now w) True a)"
proof -
  let ?n = "wrap_int64 (fails (w_now w) a + 1)"
  obtain c1 where c1: "run_state (incBGPFailCount pid) w = (?n, w\<lparr>w_cache := c1\<rparr>)" "cache_ok c1"
    "alerts c1 = (alerts (w_cache w))(PeerKey AlertBGPFail pid \<mapsto> envelope (jint ?n) (unix (w_now w + 3600000)))"
    using run_incBGPFailCount [OF ok(1,3)] by blast
  let ?w1 = "w\<lparr>w_cache := c1\<rparr>"
  let ?a1 = "a\<lparr>al_fails := Some (?n, unix (w_now w + 3600000))\<rparr>"
  have rel1: "alarm_rel pid ?w1 ?a1"
    using ok(3) clock_unix [OF ok(2), of 3600000] wrap_int64_range [of "fails (w_now w) a + 1"] by (auto simp: alarm_rel_def c1)
  have flag1: "run_state (is_notified AlertBGPDown pid) ?w1 = (told (w_now w) a, ?w1)"
    using run_is_notified [of ?w1 AlertBGPDown pid] flag_of_rel [OF rel1] c1(2) by (simp add: told_def)
  obtain c2 where c2: "run_state (set_notified AlertBGPDown pid True) ?w1 = ((), ?w1\<lparr>w_cache := c2\<rparr>)" "cache_ok c2"
    "alerts c2 = (alerts c1)(PeerKey AlertBGPDown pid \<mapsto> envelope (JBool True) (unix (w_now w + 86400000)))"
    using run_set_notified [of ?w1 AlertBGPDown pid True] c1(2) by auto
  have rel2: "alarm_rel pid (w\<lparr>w_cache := c2\<rparr>) (?a1\<lparr>al_until := Some (unix (w_now w + 86400000))\<rparr>)"
    using rel1 clock_unix [OF ok(2), of 86400000] by (auto simp: alarm_rel_def c2)
  show ?thesis
  proof (cases "?n \<ge> t \<and> \<not> told (w_now w) a")
    case True
    then have "run_state (check_bgp t r pid s) w = ([(''peer-bgp-down'', ''peer.bgp_down'')], w\<lparr>w_cache := c2\<rparr>)"
      using c1(1) flag1 c2(1) down by (simp add: check_bgp_def isBGPDownNotified_def setBGPDownNotified_def)
    with True rel2 c2(2) show ?thesis by (auto simp: alarm_step_def)
  next
    case False
    then have "run_state (check_bgp t r pid s) w = ([], ?w1)"
      using c1(1) flag1 down by (auto simp: check_bgp_def isBGPDownNotified_def)
    with False rel1 c1(2) show ?thesis by (intro exI [of _ c1] exI [of _ "[]"]) (auto simp: alarm_step_def)
  qed
qed

lemma check_bgp_up:
  assumes ok: "cache_ok (w_cache w)" "alarm_rel pid w a" and up: "\<not> bgp_down s"
  shows "\<exists>c out. run_state (check_bgp t r pid s) w = (out, w\<lparr>w_cache := c\<rparr>) \<and> cache_ok c
    \<and> alarm_rel pid (w\<lparr>w_cache := c\<rparr>) (fst (alarm_step t r (w_now w) False a)) \<and> map snd out = snd (alarm_step t r (w_now w) False a)"
proof -
  have flag: "run_state (is_notified AlertBGPDown pid) w = (told (w_now w) a, w)"
    using run_is_notified [OF ok(1)] flag_of_rel [OF ok(2)] by simp
  obtain c1 where c1: "run_state (set_notified AlertBGPDown pid False) w = ((), w\<lparr>w_cache := c1\<rparr>)" "cache_ok c1"
    "alerts c1 = (alerts (w_cache w))(PeerKey AlertBGPDown pid := None)"
    using run_set_notified [OF ok(1), of AlertBGPDown pid False] by auto
  obtain c2 where c2: "run_state (cache_remove BucketAlerts (PeerKey AlertBGPFail pid)) (w\<lparr>w_cache := c1\<rparr>) = ((), w\<lparr>w_cache := c2\<rparr>)"
    "cache_ok c2" "alerts c2 = (alerts c1)(PeerKey AlertBGPFail pid := None)"
    using run_cache_remove [of "w\<lparr>w_cache := c1\<rparr>"] c1(2) by auto
  have "alarm_rel pid (w\<lparr>w_cache := c2\<rparr>) \<lparr>al_until = None, al_fails = None\<rparr>"
    by (simp add: alarm_rel_def c1 c2)
  moreover have "run_state (check_bgp t r pid s) w =
      (if told (w_now w) a \<and> r then [(''peer-bgp-recovered'', ''peer.bgp_recovered'')] else [], w\<lparr>w_cache := c2\<rparr>)"
    using flag c1(1) c2(1) up by (simp add: check_bgp_def isBGPDownNotified_def setBGPDownNotified_def resetBGPFailCount_def)
  ultimately show ?thesis using c2(2) by (auto simp: alarm_step_def)
qed

lemma check_bgp_simulates:
  assumes "cache_ok (w_cache w)" "clock_ok w" "alarm_rel pid w a" "run_state (check_bgp t r pid s) w = (out, w')"
  shows "cache_ok (w_cache w')" "clock_ok w'" "w_now w' = w_now w"
    "alarm_rel pid w' (fst (alarm_step t r (w_now w) (bgp_down s) a))" "map snd out = snd (alarm_step t r (w_now w) (bgp_down s) a)"
  using check_bgp_down [OF assms(1-3), of s t r] check_bgp_up [OF assms(1,3), of s t r] assms(2,4)
  by (cases "bgp_down s"; auto simp: clock_ok_def)+

section \<open>A history of heartbeats\<close>

text \<open>Heartbeats that report the session of one peer, with any other activity in between that leaves the
  two entries of the peer alone and does not turn back the clock. A history lists the instants at
  which the session was seen, down or up, and the alarms raised.\<close>

definition other_activity :: "string \<Rightarrow> world \<Rightarrow> world \<Rightarrow> bool" where
  "other_activity pid w w' \<longleftrightarrow> cache_ok (w_cache w') \<and> clock_ok w' \<and> w_now w \<le> w_now w'
     \<and> (\<forall>pre \<in> {AlertBGPDown, AlertBGPFail}. alerts (w_cache w') (PeerKey pre pid) = alerts (w_cache w) (PeerKey pre pid))"

inductive bgp_history :: "int \<Rightarrow> bool \<Rightarrow> string \<Rightarrow> world \<Rightarrow> (int \<times> bool) list \<Rightarrow> (int \<times> string) list \<Rightarrow> world \<Rightarrow> bool"
  for t r pid w0 where
  start: "bgp_history t r pid w0 [] [] w0"
| other: "bgp_history t r pid w0 obs evs w \<Longrightarrow> other_activity pid w w' \<Longrightarrow> bgp_history t r pid w0 obs evs w'"
| beat: "bgp_history t r pid w0 obs evs w \<Longrightarrow> run_state (check_bgp t r pid s) w = (out, w') \<Longrightarrow>
    bgp_history t r pid w0 (obs @ [(w_now w, bgp_down s)]) (evs @ map (\<lambda>(_, e). (w_now w, e)) out) w'"

fun alarm_run :: "int \<Rightarrow> bool \<Rightarrow> (int \<times> bool) list \<Rightarrow> alarm \<times> (int \<times> string) list \<Rightarrow> alarm \<times> (int \<times> string) list" where
  "alarm_run t r [] st = st"
| "alarm_run t r ((now, down) # obs) (a, evs) =
     (case alarm_step t r now down a of (a', out) \<Rightarrow> alarm_run t r obs (a', evs @ map (Pair now) out))"

lemma alarm_run_append: "alarm_run t r (xs @ ys) st = alarm_run t r ys (alarm_run t r xs st)"
  by (induction t r xs st rule: alarm_run.induct) (auto split: prod.splits)

lemma alarm_run_snoc:
  "alarm_run t r (obs @ [(now, down)]) st =
     (fst (alarm_step t r now down (fst (alarm_run t r obs st))),
      snd (alarm_run t r obs st) @ map (Pair now) (snd (alarm_step t r now down (fst (alarm_run t r obs st)))))"
  by (cases "alarm_run t r obs st") (simp add: alarm_run_append split: prod.splits)

lemma map_events: "map (\<lambda>(_, e). (now, e)) out = map (Pair now) (map snd out)"
  by (simp add: split_beta)

lemma bgp_history_refines:
  assumes "bgp_history t r pid w0 obs evs w" "cache_ok (w_cache w0)" "clock_ok w0" "alarm_rel pid w0 a0"
  shows "cache_ok (w_cache w) \<and> clock_ok w \<and> alarm_rel pid w (fst (alarm_run t r obs (a0, []))) \<and> evs = snd (alarm_run t r obs (a0, []))"
  using assms
proof (induction rule: bgp_history.induct)
  case (other obs evs w w')
  then show ?case by (simp add: other_activity_def alarm_rel_def)
next
  case (beat obs evs w s out w')
  then have IH: "cache_ok (w_cache w)" "clock_ok w" "alarm_rel pid w (fst (alarm_run t r obs (a0, [])))" "evs = snd (alarm_run t r obs (a0, []))"
    by auto
  from check_bgp_simulates [OF IH(1-3) beat.hyps(2)] IH(4) show ?case
    by (simp add: alarm_run_snoc map_events)
qed simp

text \<open>What the automaton guarantees about its own history.\<close>

definition alarm_inv :: "(int \<times> bool) list \<Rightarrow> (int \<times> string) list \<Rightarrow> alarm \<Rightarrow> bool" where
  "alarm_inv obs evs a \<longleftrightarrow>
     (\<forall>t1. (t1, ''peer.bgp_down'') \<in> set evs \<longrightarrow> (\<exists>u \<ge> t1. (u, False) \<in> set obs) \<or> (\<exists>e. al_until a = Some e \<and> unix (t1 + 86400000) \<le> e))
     \<and> (\<forall>e. al_until a = Some e \<longrightarrow> (\<exists>t1. (t1, ''peer.bgp_down'') \<in> set evs \<and> e = unix (t1 + 86400000) \<and> (\<forall>u. (u, False) \<in> set obs \<longrightarrow> u \<le> t1)))
     \<and> (\<forall>n e. al_fails a = Some (n, e) \<longrightarrow> is_int64 n \<and> n \<le> int (length (takeWhile snd (rev obs))))"

lemma wrap_le: "is_int64 x \<Longrightarrow> wrap_int64 (x + 1) \<le> x + 1"
  using zmod_le_nonneg_dividend [of "x + 1 + 9223372036854775808" 18446744073709551616] by (simp add: wrap_int64_def is_int64_def)

lemma unix_mono: "x \<le> y \<Longrightarrow> unix x \<le> unix y"
  by (simp add: unix_def zdiv_mono1)

lemma fails_le: "alarm_inv obs evs a \<Longrightarrow> wrap_int64 (fails now a + 1) \<le> int (length (takeWhile snd (rev obs))) + 1"
  by (cases "al_fails a") (auto simp: alarm_inv_def fails_def wrap_int64_def dest!: wrap_le split: prod.splits)

lemma alarm_inv_step:
  assumes inv: "alarm_inv obs evs a" and times: "\<forall>x \<in> fst ` set obs \<union> fst ` set evs. x \<le> now"
  shows "alarm_inv (obs @ [(now, down)]) (evs @ map (Pair now) (snd (alarm_step t r now down a))) (fst (alarm_step t r now down a))"
proof (cases down)
  case True
  have n: "wrap_int64 (fails now a + 1) \<le> int (length (takeWhile snd (rev obs))) + 1" by (rule fails_le [OF inv])
  show ?thesis
  proof (cases "wrap_int64 (fails now a + 1) \<ge> t \<and> \<not> told now a")
    case raised: True
    have "unix (t1 + 86400000) \<le> unix (now + 86400000)" if "(t1, x) \<in> set evs" for t1 x
      using that times by (intro unix_mono) force
    moreover have "u \<le> now" if "(u, x) \<in> set obs" for u x using that times by force
    ultimately show ?thesis using inv raised n True
      by (auto simp: alarm_inv_def alarm_step_def Let_def wrap_int64_range)
  next
    case False
    then show ?thesis using inv n True by (auto simp: alarm_inv_def alarm_step_def Let_def wrap_int64_range)
  qed
next
  case False
  have "t1 \<le> now" if "(t1, x) \<in> set evs" for t1 x using that times by force
  with False show ?thesis by (auto simp: alarm_inv_def alarm_step_def)
qed

lemma history_inv:
  assumes "bgp_history t r pid w0 obs evs w" "cache_ok (w_cache w0)" "clock_ok w0"
    and fresh: "alarm_rel pid w0 \<lparr>al_until = None, al_fails = None\<rparr>"
  shows "(\<forall>x \<in> fst ` set obs \<union> fst ` set evs. x \<le> w_now w) \<and> alarm_inv obs evs (fst (alarm_run t r obs (\<lparr>al_until = None, al_fails = None\<rparr>, [])))"
  using assms(1)
proof (induction rule: bgp_history.induct)
  case start
  then show ?case by (simp add: alarm_inv_def)
next
  case (other obs evs w w')
  then show ?case by (force simp: other_activity_def)
next
  case (beat obs evs w s out w')
  let ?a = "fst (alarm_run t r obs (\<lparr>al_until = None, al_fails = None\<rparr>, []))"
  have ref: "cache_ok (w_cache w)" "clock_ok w" "alarm_rel pid w ?a"
    using bgp_history_refines [OF beat.hyps(1) assms(2,3) fresh] by auto
  note sim = check_bgp_simulates [OF ref beat.hyps(2)]
  from alarm_inv_step [of obs evs ?a "w_now w" "bgp_down s" t r] beat.IH sim(3,5) show ?case
    by (auto simp: alarm_run_snoc map_events)
qed

lemma alarm_step_events:
  "''peer.bgp_down'' \<in> set (snd (alarm_step t r now d a)) \<Longrightarrow> d \<and> t \<le> wrap_int64 (fails now a + 1) \<and> \<not> told now a"
  "''peer.bgp_recovered'' \<in> set (snd (alarm_step t r now d a)) \<Longrightarrow> \<not> d \<and> r \<and> told now a"
  by (auto simp: alarm_step_def Let_def split: if_splits)

text \<open>C13. BGP alarms of a peer over any history of heartbeats that starts with no entry of the peer: the
  alarms are exactly those of the alarm automaton. A down alarm needs the configured number of down
  reports in a row, the last one now, and follows an earlier down alarm only when the session was
  seen up in between or the 24 hours of the earlier one are over; a recovery notice is sent only when
  the session is up and a down alarm was raised after the last time it was seen up.\<close>

theorem bgp_alarm_discipline:
  assumes "bgp_history t r pid w0 obs evs w" "cache_ok (w_cache w0)" "clock_ok w0"
    and fresh: "alerts (w_cache w0) (PeerKey AlertBGPDown pid) = None" "alerts (w_cache w0) (PeerKey AlertBGPFail pid) = None"
    and beat: "run_state (check_bgp t r pid s) w = (out, w')"
  shows "evs = snd (alarm_run t r obs (\<lparr>al_until = None, al_fails = None\<rparr>, []))
    \<and> (''peer.bgp_down'' \<in> snd ` set out \<longrightarrow>
      bgp_down s \<and> t \<le> int (length (takeWhile snd (rev obs))) + 1
      \<and> (\<forall>t1. (t1, ''peer.bgp_down'') \<in> set evs \<longrightarrow> (\<exists>u \<ge> t1. (u, False) \<in> set obs) \<or> unix (t1 + 86400000) < unix (w_now w)))
    \<and> (''peer.bgp_recovered'' \<in> snd ` set out \<longrightarrow>
      \<not> bgp_down s \<and> r \<and> (\<exists>t1. (t1, ''peer.bgp_down'') \<in> set evs \<and> (\<forall>u. (u, False) \<in> set obs \<longrightarrow> u \<le> t1)))"
proof (intro conjI impI)
  let ?start = "\<lparr>al_until = None, al_fails = None\<rparr>"
  let ?cur = "fst (alarm_run t r obs (?start, []))"
  have fresh0: "alarm_rel pid w0 ?start" using fresh by (simp add: alarm_rel_def)
  have ref: "cache_ok (w_cache w)" "clock_ok w" "alarm_rel pid w ?cur" "evs = snd (alarm_run t r obs (?start, []))"
    using bgp_history_refines [OF assms(1-3) fresh0] by auto
  have inv: "alarm_inv obs evs ?cur" using history_inv [OF assms(1-3) fresh0] by simp
  have out: "snd ` set out = set (snd (alarm_step t r (w_now w) (bgp_down s) ?cur))"
    using check_bgp_simulates(5) [OF ref(1-3) beat] by (metis set_map)
  show "evs = snd (alarm_run t r obs (?start, []))" by (rule ref(4))
  { assume "''peer.bgp_down'' \<in> snd ` set out"
    then have raised: "bgp_down s" "t \<le> wrap_int64 (fails (w_now w) ?cur + 1)" "\<not> told (w_now w) ?cur"
      using alarm_step_events(1) [of t r "w_now w" "bgp_down s" ?cur] unfolding out by blast+
    show "bgp_down s" by (rule raised(1))
    show "t \<le> int (length (takeWhile snd (rev obs))) + 1"
      using raised(2) fails_le [OF inv, of "w_now w"] by simp
    show "\<forall>t1. (t1, ''peer.bgp_down'') \<in> set evs \<longrightarrow> (\<exists>u \<ge> t1. (u, False) \<in> set obs) \<or> unix (t1 + 86400000) < unix (w_now w)"
    proof (intro allI impI)
      fix t1 assume "(t1, ''peer.bgp_down'') \<in> set evs"
      with inv consider "\<exists>u \<ge> t1. (u, False) \<in> set obs" | e where "al_until ?cur = Some e" "unix (t1 + 86400000) \<le> e"
        unfolding alarm_inv_def by blast
      then show "(\<exists>u \<ge> t1. (u, False) \<in> set obs) \<or> unix (t1 + 86400000) < unix (w_now w)"
      proof cases
        case 2
        with raised(3) show ?thesis by (simp add: told_def)
      qed simp
    qed }
  { assume "''peer.bgp_recovered'' \<in> snd ` set out"
    then have up: "\<not> bgp_down s" "r" "told (w_now w) ?cur"
      using alarm_step_events(2) [of t r "w_now w" "bgp_down s" ?cur] unfolding out by blast+
    show "\<not> bgp_down s" "r" by (rule up)+
    show "\<exists>t1. (t1, ''peer.bgp_down'') \<in> set evs \<and> (\<forall>u. (u, False) \<in> set obs \<longrightarrow> u \<le> t1)"
      using up(3) inv by (auto simp: alarm_inv_def told_def split: option.splits) }
qed

definition beat_world :: world where
  "beat_world = \<lparr>w_peers = [], w_nodes = [], w_audit = [], w_bindings = [], w_notification_settings = Map.empty,
     w_site_settings = Map.empty, w_locks = None, w_cache = sample_cache, w_conns = Map.empty, w_sent = [], w_out = [],
     w_replies = [], w_dbfail = [], w_uuids = [], w_rand = [], w_registry = \<lparr>rs_token = [], rs_get = (\<lambda>_ _. Inl ''offline'')\<rparr>,
     w_auth = no_auth, w_mon = no_monitor\<lparr>mo_adminEmails := [''noc@example.net'']\<rparr>, w_bot = no_bot, w_cookies = [], w_headers = [], w_now = 1000,
     w_now_text = ''2025-01-01''\<rparr>"

lemma sample_cache_ok: "cache_ok sample_cache" "alerts sample_cache k = None"
  using sample_cache_mode by (simp_all add: cache_ok_def sample_cache_def alerts_def cache_buckets_def)

theorem bgp_alarm_discipline_witness:
  "fst (run_state (check_bgp 1 True ''p1'' ''Idle'') beat_world) = [(''peer-bgp-down'', ''peer.bgp_down'')]
   \<and> ([] :: (int \<times> string) list) = snd (alarm_run 1 True [] (\<lparr>al_until = None, al_fails = None\<rparr>, [])) \<and> bgp_down ''Idle''"
proof -
  obtain out w' where run: "run_state (check_bgp 1 True ''p1'' ''Idle'') beat_world = (out, w')" by fastforce
  have ev: "out = [(''peer-bgp-down'', ''peer.bgp_down'')]"
    using run by (simp add: check_bgp_def bgp_down_def to_lower_def to_lower_char_def is_upper_def incBGPFailCount_def beat_world_def sample_cache_def
      cache_IncInt_def bolt_update_def cache_buckets_def Let_def isBGPDownNotified_def setBGPDownNotified_def is_notified_def set_notified_def
      cache_read_def cache_write_def cache_Get_def getLocal_def counter_old_def wrap_int64_def PeerKey_def AlertBGPDown_def AlertBGPFail_def bucket_put_def)
  have ok: "cache_ok (w_cache beat_world)" "clock_ok beat_world"
    "alerts (w_cache beat_world) (PeerKey AlertBGPDown ''p1'') = None" "alerts (w_cache beat_world) (PeerKey AlertBGPFail ''p1'') = None"
    by (simp_all add: beat_world_def sample_cache_ok clock_ok_def is_int64_def)
  note th = bgp_alarm_discipline [OF bgp_history.start ok run]
  from th run ev show ?thesis by simp
qed

section \<open>The alarm of a node\<close>

lemma alerts_put_other:
  assumes "cache_ok c" "bkt \<noteq> BucketAlerts"
  shows "cache_ok (fst (cache_Put now bkt k v ttl c))" "alerts (fst (cache_Put now bkt k v ttl c)) = alerts c"
proof -
  from assms(1) obtain db b where c: "c_db c = Some db" "db BucketAlerts = Some b" "alerts c = map_of b" "c_redis c = None" "c_fallback c"
    "c_txfail c = [] \<or> \<not> hd (c_txfail c)" by (rule cache_ok_db)
  from assms(1) have m: "local_mode c" by (simp add: cache_ok_def)
  from assms(1) have t: "list_all Not (tl (c_txfail c))" by (cases "c_txfail c") (auto simp: cache_ok_def)
  show "cache_ok (fst (cache_Put now bkt k v ttl c))" "alerts (fst (cache_Put now bkt k v ttl c)) = alerts c"
    using c m t assms(2) local_kv.put_good [OF m, of now bkt k v ttl]
    by (auto simp: cache_ok_def cache_Put_local putLocal_def bolt_update_def Let_def alerts_def split: option.splits)
qed

text \<open>An operation that leaves the alerts, the nodes and the outgoing messages alone.\<close>

definition same_alerts :: "world \<Rightarrow> world \<Rightarrow> bool" where
  "same_alerts w w' \<longleftrightarrow> cache_ok (w_cache w') \<and> alerts (w_cache w') = alerts (w_cache w) \<and> w_now w' = w_now w \<and> w_out w' = w_out w
     \<and> w_nodes w' = w_nodes w \<and> w_mon w' = w_mon w \<and> (nofault w \<longrightarrow> nofault w')"

lemma cached_setting_same:
  assumes "cache_ok (w_cache w)"
  shows "same_alerts w (snd (run_state (cached_setting pre tbl key) w))"
proof -
  from assms have m: "local_mode (w_cache w)" by (simp add: cache_ok_def)
  obtain v ok err where get: "cache_Get (w_now w) dec_str BucketSettings (SettingKey pre key) (w_cache w) = (w_cache w, v, ok, err)"
    using cache_Get_state [OF m, of "w_now w" dec_str BucketSettings "SettingKey pre key"] by (metis prod.collapse)
  have ne: "BucketSettings \<noteq> BucketAlerts" by (simp add: BucketSettings_def BucketAlerts_def)
  show ?thesis
    using get alerts_put_other [OF assms ne] assms nofault_next [of w]
    by (simp add: cached_setting_def time_now_def same_alerts_def split: option.split)
qed

definition node_key :: "string \<Rightarrow> string" where
  "node_key nodeID = PeerKey AlertNodeOff nodeID"

definition offline_messages :: "world \<Rightarrow> notification list" where
  "offline_messages w = map (\<lambda>e. AdminEmail e ''node-offline'') (filter (\<lambda>e. e \<noteq> []) (mo_adminEmails (w_mon w))) @ [BotAdmin ''node.offline'']"

text \<open>Telling that a node is offline: silent when switched off, when told already, or for an agent that
  is updating; otherwise the messages go out. Unless switched off, the node counts as told.\<close>

lemma notifyNodeOffline_silent:
  assumes "cache_ok (w_cache w)"
    and "fst (run_state (GetSettingValue ''node_offline_enabled'') w) \<noteq> ''true'' \<or> flag_of (w_now w) (alerts (w_cache w) (node_key nodeID))"
  shows "same_alerts w (snd (run_state (notifyNodeOffline nodeID skip) w))"
proof -
  obtain v w1 where get: "run_state (GetSettingValue ''node_offline_enabled'') w = (v, w1)" by fastforce
  then have w1: "same_alerts w w1" using cached_setting_same [OF assms(1)] by (metis GetSettingValue_def snd_conv)
  then have "run_state (is_notified AlertNodeOff nodeID) w1 = (flag_of (w_now w) (alerts (w_cache w) (node_key nodeID)), w1)"
    by (simp add: run_is_notified same_alerts_def node_key_def)
  with get assms(2) w1 show ?thesis by (auto simp: notifyNodeOffline_def isNodeOfflineNotified_def)
qed

lemma notifyNodeOffline_tells:
  assumes ok: "cache_ok (w_cache w)"
    and on: "fst (run_state (GetSettingValue ''node_offline_enabled'') w) = ''true''" "\<not> flag_of (w_now w) (alerts (w_cache w) (node_key nodeID))"
    and run: "run_state (notifyNodeOffline nodeID skip) w = (u, w')"
  shows "cache_ok (w_cache w')" "w_now w' = w_now w"
    "alerts (w_cache w') = (alerts (w_cache w))(node_key nodeID \<mapsto> envelope (JBool True) (unix (w_now w + 86400000)))"
    "w_out w' = w_out w \<or> w_out w' = w_out w @ offline_messages w"
    "skip \<Longrightarrow> nofault w \<Longrightarrow> map_option n_AgentState (find_node nodeID (w_nodes w)) = Some ''updating'' \<Longrightarrow> w_out w' = w_out w \<and> nofault w'"
proof -
  obtain w1 where get: "run_state (GetSettingValue ''node_offline_enabled'') w = (''true'', w1)" using on(1) by (metis prod.collapse)
  then have w1: "same_alerts w w1" using cached_setting_same [OF ok] by (metis GetSettingValue_def snd_conv)
  then have flag: "run_state (is_notified AlertNodeOff nodeID) w1 = (False, w1)"
    using on(2) by (simp add: run_is_notified same_alerts_def node_key_def)
  obtain c where set: "run_state (set_notified AlertNodeOff nodeID True) w1 = ((), w1\<lparr>w_cache := c\<rparr>)" "cache_ok c"
    "alerts c = (alerts (w_cache w))(node_key nodeID \<mapsto> envelope (JBool True) (unix (w_now w + 86400000)))"
    using run_set_notified [of w1 AlertNodeOff nodeID True] w1 by (auto simp: same_alerts_def node_key_def)
  note eval = notifyNodeOffline_def isNodeOfflineNotified_def setNodeOfflineNotified_def nodes_GetField_def nodes_GetByID_def
    admin_mails_def notify_def
  show "cache_ok (w_cache w')" "w_now w' = w_now w"
    "alerts (w_cache w') = (alerts (w_cache w))(node_key nodeID \<mapsto> envelope (JBool True) (unix (w_now w + 86400000)))"
    "w_out w' = w_out w \<or> w_out w' = w_out w @ offline_messages w"
    using run get flag set w1 by (auto simp: eval same_alerts_def offline_messages_def split: if_splits)
  show "w_out w' = w_out w \<and> nofault w'"
    if "skip" "nofault w" "map_option n_AgentState (find_node nodeID (w_nodes w)) = Some ''updating''"
  proof -
    have "\<not> db_fails w1" "nofault w1" using w1 that(2) nofault_not_fails by (auto simp: same_alerts_def)
    with run get flag set w1 that show ?thesis
      by (auto simp: eval same_alerts_def or_blank_def row_def nofault_next db_fails_def split: if_splits)
  qed
qed

lemma flag_until:
  "clock_ok w \<Longrightarrow> flag_of now (Some (envelope (JBool True) (unix (w_now w + 86400000)))) \<longleftrightarrow> unix now \<le> unix (w_now w + 86400000)"
  using clock_unix [of w 86400000] by (auto simp: flag_of_def)

text \<open>The alarm for a node that goes offline, on a single node whose cache commits: when the center
  tells of it at all, every configured operator address gets one mail and the bots one event; until 24
  hours later, or until a heartbeat clears the flag, a further disconnect of the node sends nothing.\<close>

theorem node_offline_alarm_once:
  assumes "cache_ok (w_cache w)" "clock_ok w"
    and first: "run_state (notifyNodeOffline nodeID skip) w = (u, w1)" "w_out w1 \<noteq> w_out w"
    and later: "cache_ok (w_cache w2)" "alerts (w_cache w2) (node_key nodeID) = alerts (w_cache w1) (node_key nodeID)"
      "unix (w_now w2) \<le> unix (w_now w + 86400000)"
    and second: "run_state (notifyNodeOffline nodeID skip') w2 = (v, w3)"
  shows "w_out w1 = w_out w @ offline_messages w \<and> w_out w3 = w_out w2"
proof
  have on: "fst (run_state (GetSettingValue ''node_offline_enabled'') w) = ''true'' \<and> \<not> flag_of (w_now w) (alerts (w_cache w) (node_key nodeID))"
    using notifyNodeOffline_silent [OF assms(1), of nodeID skip] first by (auto simp: same_alerts_def)
  note tells = notifyNodeOffline_tells [OF assms(1) on [THEN conjunct1] on [THEN conjunct2] first(1)]
  from tells(4) first(2) show "w_out w1 = w_out w @ offline_messages w" by simp
  have "flag_of (w_now w2) (alerts (w_cache w2) (node_key nodeID))"
    using later(2,3) tells(3) flag_until [OF assms(2)] by simp
  with notifyNodeOffline_silent [OF later(1), of nodeID skip'] second show "w_out w3 = w_out w2" by (simp add: same_alerts_def)
qed

definition offline_world :: world where
  "offline_world = beat_world\<lparr>w_notification_settings := [''node_offline_enabled'' \<mapsto> ''true'']\<rparr>"

lemma offline_world_ok: "cache_ok (w_cache offline_world)" "clock_ok offline_world"
  by (simp_all add: offline_world_def beat_world_def sample_cache_ok clock_ok_def is_int64_def)

lemma offline_world_setting: "fst (run_state (GetSettingValue ''node_offline_enabled'') offline_world) = ''true''"
  by (simp add: GetSettingValue_def cached_setting_def time_now_def offline_world_def beat_world_def sample_cache_def cache_Get_def getLocal_def
      cache_buckets_def db_fails_def Let_def)

theorem node_offline_alarm_once_witness:
  "\<exists>w1. run_state (notifyNodeOffline ''n1'' False) offline_world = ((), w1)
     \<and> w_out w1 = [AdminEmail ''noc@example.net'' ''node-offline'', BotAdmin ''node.offline'']
     \<and> w_out (snd (run_state (notifyNodeOffline ''n1'' True) w1)) = w_out w1"
proof -
  obtain w1 where r1: "run_state (notifyNodeOffline ''n1'' False) offline_world = ((), w1)" by (metis old.unit.exhaust prod.collapse)
  obtain v w3 where r2: "run_state (notifyNodeOffline ''n1'' True) w1 = (v, w3)" by (metis prod.collapse)
  have off: "\<not> flag_of (w_now offline_world) (alerts (w_cache offline_world) (node_key ''n1''))"
    by (simp add: flag_of_def offline_world_def beat_world_def sample_cache_ok)
  note tells = notifyNodeOffline_tells [OF offline_world_ok(1) offline_world_setting off r1]
  obtain a w' where g: "run_state (GetSettingValue ''node_offline_enabled'') offline_world = (a, w')" by (metis prod.collapse)
  have w': "same_alerts offline_world w'" using cached_setting_same [OF offline_world_ok(1)] g by (metis GetSettingValue_def snd_conv)
  obtain c where set: "run_state (set_notified AlertNodeOff ''n1'' True) w' = ((), w'\<lparr>w_cache := c\<rparr>)"
    using run_set_notified [of w' AlertNodeOff "''n1''" True] w' by (auto simp: same_alerts_def)
  have out: "w_out w1 = w_out offline_world @ offline_messages offline_world"
    using r1 g set w' offline_world_setting off run_is_notified [of w' AlertNodeOff "''n1''"]
    by (auto simp: notifyNodeOffline_def isNodeOfflineNotified_def setNodeOfflineNotified_def nodes_GetByID_def admin_mails_def notify_def
        same_alerts_def offline_messages_def node_key_def)
  then have "w_out w1 \<noteq> w_out offline_world" by (simp add: offline_messages_def)
  from node_offline_alarm_once [OF offline_world_ok r1 this tells(1) refl _ r2] tells(2) r1 r2
  show ?thesis by (simp add: unix_def offline_messages_def offline_world_def beat_world_def)
qed

text \<open>An agent that announces an update and then disconnects for good is never reported: announcing the
  update already marks the node as told.\<close>

theorem update_silences_outage:
  assumes "cache_ok (w_cache w)" "clock_ok w" "nofault w"
    and updating: "map_option n_AgentState (find_node nodeID (w_nodes w)) = Some ''updating''"
    and on: "fst (run_state (GetSettingValue ''node_offline_enabled'') w) = ''true''" "\<not> flag_of (w_now w) (alerts (w_cache w) (node_key nodeID))"
    and first: "run_state (notifyNodeOffline nodeID True) w = (u, w1)"
    and later: "cache_ok (w_cache w2)" "alerts (w_cache w2) (node_key nodeID) = alerts (w_cache w1) (node_key nodeID)"
      "unix (w_now w2) \<le> unix (w_now w + 86400000)"
    and second: "run_state (notifyNodeOffline nodeID skip) w2 = (v, w3)"
  shows "w_out w1 = w_out w \<and> w_out w3 = w_out w2"
proof
  note tells = notifyNodeOffline_tells [OF assms(1) on first]
  show "w_out w1 = w_out w" using tells(5) assms(3) updating by simp
  have "flag_of (w_now w2) (alerts (w_cache w2) (node_key nodeID))"
    using later(2,3) tells(3) flag_until [OF assms(2)] by simp
  with notifyNodeOffline_silent [OF later(1), of nodeID skip] second show "w_out w3 = w_out w2" by (simp add: same_alerts_def)
qed

end
