(* ===== verification/Protocol.thy ===== *)
theory Protocol
  imports Crypto Heartbeat
begin

text \<open>
  \<^verbatim>\<open>internal/ws/protocol.go\<close>: the messages between the center and its agents, as decoded JSON values.
  \<open>dec_field\<close> is how \<^verbatim>\<open>json.Unmarshal\<close> fills a field: names match without regard to case, a later entry
  overrides an earlier one, \<^verbatim>\<open>null\<close> leaves the zero value, a value of the wrong type is an error; unknown
  names are ignored.
\<close>

section \<open>Decoding\<close>

definition field_values :: "string \<Rightarrow> obj \<Rightarrow> json list" where
  "field_values name m = map snd (filter (\<lambda>(k, v). equal_fold k name \<and> v \<noteq> JNull) m)"

definition dec_field :: "(json \<Rightarrow> 'a option) \<Rightarrow> 'a \<Rightarrow> string \<Rightarrow> obj \<Rightarrow> 'a option" where
  "dec_field dec zero name m =
     (let vs = map dec (field_values name m) in
      if list_all (\<lambda>v. v \<noteq> None) vs then (if vs = [] then Some zero else last vs) else None)"

definition dec_obj :: "json \<Rightarrow> obj option" where
  "dec_obj j = (case j of JObj m \<Rightarrow> Some m | JNull \<Rightarrow> Some [] | _ \<Rightarrow> None)"

definition dec_ptr :: "(json \<Rightarrow> 'a option) \<Rightarrow> json \<Rightarrow> 'a option option" where
  "dec_ptr dec j = map_option Some (dec j)"

text \<open>\<^verbatim>\<open>[]byte\<close> is standard base64; a \<^verbatim>\<open>float64\<close> keeps its literal; an unsigned number has no sign.\<close>

definition dec_bytes :: "json \<Rightarrow> string option" where
  "dec_bytes j = (case j of JStr s \<Rightarrow> map_option bytes_str (b64_decode s) | _ \<Rightarrow> None)"

definition enc_bytes :: "string \<Rightarrow> json" where
  "enc_bytes s = JStr (b64_encode (map (\<lambda>c. word_of_nat (of_char c)) s))"

definition dec_float :: "json \<Rightarrow> string option" where
  "dec_float j = (case j of JNum s \<Rightarrow> Some s | _ \<Rightarrow> None)"

definition dec_uint :: "json \<Rightarrow> nat option" where
  "dec_uint j = (case j of
     JNum s \<Rightarrow> (case parse_digits s of Some n \<Rightarrow> if n < 2 ^ 64 then Some n else None | None \<Rightarrow> None)
   | _ \<Rightarrow> None)"

definition dec_list :: "(json \<Rightarrow> 'a option) \<Rightarrow> json \<Rightarrow> 'a list option" where
  "dec_list dec j = (case j of JArr xs \<Rightarrow> those (map dec xs) | _ \<Rightarrow> None)"

section \<open>Messages\<close>

record Message =
  msg_Type :: string
  msg_ID :: string
  msg_Payload :: json
  msg_Success :: "bool option"
  msg_Error :: string

definition dec_Message :: "json \<Rightarrow> Message option" where
  "dec_Message j = do {
     m \<leftarrow> dec_obj j;
     t \<leftarrow> dec_field dec_str [] ''type'' m;
     i \<leftarrow> dec_field dec_str [] ''id'' m;
     p \<leftarrow> dec_field Some JNull ''payload'' m;
     s \<leftarrow> dec_field (dec_ptr dec_bool) None ''success'' m;
     e \<leftarrow> dec_field dec_str [] ''error'' m;
     Some \<lparr>msg_Type = t, msg_ID = i, msg_Payload = p, msg_Success = s, msg_Error = e\<rparr>
   }"

definition enc_Message :: "Message \<Rightarrow> json" where
  "enc_Message m = JObj ([(''type'', JStr (msg_Type m))]
     @ (if msg_ID m = [] then [] else [(''id'', JStr (msg_ID m))])
     @ (if msg_Payload m = JNull then [] else [(''payload'', msg_Payload m)])
     @ (case msg_Success m of None \<Rightarrow> [] | Some b \<Rightarrow> [(''success'', JBool b)])
     @ (if msg_Error m = [] then [] else [(''error'', JStr (msg_Error m))]))"

definition new_message :: "string \<Rightarrow> json \<Rightarrow> Message" where
  "new_message t p = \<lparr>msg_Type = t, msg_ID = [], msg_Payload = p, msg_Success = None, msg_Error = []\<rparr>"

section \<open>Payloads from the agent\<close>

definition dec_KeyInitPayload :: "json \<Rightarrow> string option" where
  "dec_KeyInitPayload j = do { m \<leftarrow> dec_obj j; dec_field dec_str [] ''pubkey'' m }"

record KeyAuthPayload =
  ka_NodeID :: string
  ka_Pubkey :: string
  ka_Nonce :: string
  ka_Proof :: string

definition dec_KeyAuthPayload :: "json \<Rightarrow> KeyAuthPayload option" where
  "dec_KeyAuthPayload j = do {
     m \<leftarrow> dec_obj j;
     n \<leftarrow> dec_field dec_str [] ''node_id'' m;
     p \<leftarrow> dec_field dec_str [] ''pubkey'' m;
     c \<leftarrow> dec_field dec_bytes [] ''nonce'' m;
     f \<leftarrow> dec_field dec_bytes [] ''proof'' m;
     Some \<lparr>ka_NodeID = n, ka_Pubkey = p, ka_Nonce = c, ka_Proof = f\<rparr>
   }"

definition dec_NodeMetrics :: "json \<Rightarrow> NodeMetrics option" where
  "dec_NodeMetrics j = do {
     m \<leftarrow> dec_obj j;
     a \<leftarrow> dec_field dec_uint 0 ''mem_alloc_mb'' m;
     s \<leftarrow> dec_field dec_uint 0 ''mem_sys_mb'' m;
     g \<leftarrow> dec_field dec_int 0 ''num_goroutine'' m;
     u \<leftarrow> dec_field dec_int 0 ''uptime_secs'' m;
     Some \<lparr>hm_MemAllocMB = a, hm_MemSysMB = s, hm_NumGoroutine = g, hm_UptimeSecs = u\<rparr>
   }"

definition dec_PeerHeartbeat :: "json \<Rightarrow> PeerHeartbeat option" where
  "dec_PeerHeartbeat j = do {
     m \<leftarrow> dec_obj j;
     i \<leftarrow> dec_field dec_str [] ''peer_id'' m;
     a \<leftarrow> dec_field dec_int 0 ''asn'' m;
     rx \<leftarrow> dec_field dec_int 0 ''wg_rx_bytes'' m;
     tx \<leftarrow> dec_field dec_int 0 ''wg_tx_bytes'' m;
     h \<leftarrow> dec_field dec_str [] ''wg_last_handshake'' m;
     b \<leftarrow> dec_field dec_str [] ''bgp_state'' m;
     r \<leftarrow> dec_field (dec_ptr dec_float) None ''rtt_ms'' m;
     ri \<leftarrow> dec_field (dec_ptr dec_int) None ''routes_imported'' m;
     re \<leftarrow> dec_field (dec_ptr dec_int) None ''routes_exported'' m;
     rp \<leftarrow> dec_field (dec_ptr dec_int) None ''routes_preferred'' m;
     u \<leftarrow> dec_field (dec_ptr dec_int) None ''bgp_uptime_secs'' m;
     e \<leftarrow> dec_field dec_str [] ''wg_actual_endpoint'' m;
     Some \<lparr>hb_PeerID = i, hb_ASN = a, hb_WgRxBytes = rx, hb_WgTxBytes = tx, hb_WgLastHandshake = h, hb_BGPState = b, hb_RttMs = r,
       hb_RoutesImported = ri, hb_RoutesExported = re, hb_RoutesPreferred = rp, hb_BGPUptimeSecs = u, hb_WgActualEndpoint = e\<rparr>
   }"

definition dec_HeartbeatPayload :: "json \<Rightarrow> HeartbeatPayload option" where
  "dec_HeartbeatPayload j = do {
     m \<leftarrow> dec_obj j;
     n \<leftarrow> dec_field dec_str [] ''node_id'' m;
     t \<leftarrow> dec_field dec_str [] ''timestamp'' m;
     ps \<leftarrow> dec_field (dec_list dec_PeerHeartbeat) [] ''peers'' m;
     v \<leftarrow> dec_field dec_str [] ''version'' m;
     nm \<leftarrow> dec_field (dec_ptr dec_NodeMetrics) None ''node_metrics'' m;
     Some \<lparr>hp_NodeID = n, hp_Timestamp = t, hp_Peers = ps, hp_Version = v, hp_NodeMetrics = nm\<rparr>
   }"

text \<open>The anonymous struct that \<^verbatim>\<open>handleHeartbeat\<close> decodes a message into.\<close>

definition dec_heartbeat_message :: "json \<Rightarrow> HeartbeatPayload option" where
  "dec_heartbeat_message j = do {
     m \<leftarrow> dec_obj j;
     dec_field dec_HeartbeatPayload \<lparr>hp_NodeID = [], hp_Timestamp = [], hp_Peers = [], hp_Version = [], hp_NodeMetrics = None\<rparr> ''payload'' m
   }"

section \<open>Payloads to the agent\<close>

definition enc_opt :: "string \<Rightarrow> ('a \<Rightarrow> json) \<Rightarrow> 'a option \<Rightarrow> obj" where
  "enc_opt name enc v = (case v of None \<Rightarrow> [] | Some x \<Rightarrow> [(name, enc x)])"

definition enc_PeerAddPayload :: "PeerAddPayload \<Rightarrow> json" where
  "enc_PeerAddPayload p = JObj ([(''peer_id'', JStr (pa_PeerID p)), (''asn'', jint (pa_ASN p)), (''remote_endpoint'', JStr (pa_RemoteEndpoint p)),
     (''remote_wg_pubkey'', JStr (pa_RemoteWgPubkey p)), (''remote_lla'', JStr (pa_RemoteLLA p)), (''listen_port'', jint (pa_ListenPort p)),
     (''wg_interface'', JStr (pa_WgInterface p))] @ enc_opt ''mtu'' jint (pa_MTU p) @ enc_opt ''wg_preshared_key'' JStr (pa_WgPreSharedKey p))"

definition enc_PeerRemovePayload :: "PeerRemovePayload \<Rightarrow> json" where
  "enc_PeerRemovePayload p = JObj [(''peer_id'', JStr (pr_PeerID p)), (''asn'', jint (pr_ASN p))]"

definition enc_BirdControlPayload :: "string \<Rightarrow> string \<Rightarrow> json" where
  "enc_BirdControlPayload peerID proto = JObj [(''peer_id'', JStr peerID), (''proto_name'', JStr proto)]"

definition command_type :: "agent_command \<Rightarrow> string" where
  "command_type c = (case c of PeerAdd _ \<Rightarrow> ''peer.add'' | PeerRemove _ \<Rightarrow> ''peer.remove'' | PeersImport \<Rightarrow> ''peers.import''
     | BirdDisable _ _ \<Rightarrow> ''bird.disable'' | BirdEnable _ _ \<Rightarrow> ''bird.enable''
     | BirdDetails \<Rightarrow> ''bird.details'' | AgentUpdate _ \<Rightarrow> ''agent.update'' | AgentRollback \<Rightarrow> ''agent.rollback''
     | NetworkPing _ _ \<Rightarrow> ''network.ping'' | NetworkTrace _ _ \<Rightarrow> ''network.trace'')"

definition command_payload :: "agent_command \<Rightarrow> json" where
  "command_payload c = (case c of PeerAdd p \<Rightarrow> enc_PeerAddPayload p | PeerRemove p \<Rightarrow> enc_PeerRemovePayload p | PeersImport \<Rightarrow> JNull
     | BirdDisable i n \<Rightarrow> enc_BirdControlPayload i n | BirdEnable i n \<Rightarrow> enc_BirdControlPayload i n
     | BirdDetails \<Rightarrow> JNull | AgentUpdate j \<Rightarrow> j | AgentRollback \<Rightarrow> JNull
     | NetworkPing t c \<Rightarrow> JObj [(''target'', JStr t), (''count'', jint c)]
     | NetworkTrace t h \<Rightarrow> JObj [(''target'', JStr t), (''max_hops'', jint h)])"

record PeerSyncEntry =
  ps_PeerID :: string
  ps_ASN :: int
  ps_RemoteEndpoint :: string
  ps_RemoteWgPubkey :: string
  ps_RemoteLLA :: string
  ps_ListenPort :: int
  ps_WgInterface :: string
  ps_BgpProtoName :: string
  ps_BirdConfigFilename :: string
  ps_MTU :: "int option"
  ps_WgPreSharedKey :: "string option"

definition enc_PeerSyncEntry :: "PeerSyncEntry \<Rightarrow> json" where
  "enc_PeerSyncEntry p = JObj ([(''peer_id'', JStr (ps_PeerID p)), (''asn'', jint (ps_ASN p)), (''remote_endpoint'', JStr (ps_RemoteEndpoint p)),
     (''remote_wg_pubkey'', JStr (ps_RemoteWgPubkey p)), (''remote_lla'', JStr (ps_RemoteLLA p)), (''listen_port'', jint (ps_ListenPort p)),
     (''wg_interface'', JStr (ps_WgInterface p)), (''bgp_proto_name'', JStr (ps_BgpProtoName p)),
     (''bird_config_filename'', JStr (ps_BirdConfigFilename p))] @ enc_opt ''mtu'' jint (ps_MTU p) @ enc_opt ''wg_preshared_key'' JStr (ps_WgPreSharedKey p))"

definition enc_KeyInitAckPayload :: "string \<Rightarrow> string \<Rightarrow> json" where
  "enc_KeyInitAckPayload pubkey nonce = JObj [(''pubkey'', JStr pubkey), (''nonce'', enc_bytes nonce)]"

definition enc_KeyAuthAckPayload :: "string \<Rightarrow> string \<Rightarrow> string \<Rightarrow> json" where
  "enc_KeyAuthAckPayload pubkey authNonce centerNonce =
     JObj ([(''pubkey'', JStr pubkey), (''auth_nonce'', enc_bytes authNonce)] @ (if centerNonce = [] then [] else [(''center_nonce'', enc_bytes centerNonce)]))"

section \<open>Round trips\<close>

lemma equal_fold_refl [simp]: "equal_fold s s"
  by (simp add: equal_fold_def)

lemma dec_enc_Message: "dec_Message (enc_Message m) = Some m"
  by (cases m; cases "msg_Success m")
     (auto simp: dec_Message_def enc_Message_def dec_obj_def dec_field_def field_values_def dec_ptr_def equal_fold_def to_lower_def to_lower_char_def
       is_upper_def)

end
