(* ===== verification/Hub.thy ===== *)
theory Hub
  imports Protocol "HOL-Library.AList"
begin

text \<open>
  \<^verbatim>\<open>internal/ws/hub.go\<close>, \<^verbatim>\<open>conn.go\<close>, \<^verbatim>\<open>handshake.go\<close> and \<^verbatim>\<open>internal/handler/agent.go\<close>: the hub of agent
  connections. A connection is an object with identity: \<open>h_acs\<close> holds every connection ever accepted, in
  order, and \<^verbatim>\<open>*AgentConn\<close> is its position; likewise \<open>h_ents\<close> for the entries of \<^verbatim>\<open>nodeUpd\<close>. A buffered
  channel is the list of its elements with the capacity in the sender. What a connection wrote to its
  socket is kept in \<open>ac_wire\<close>. Goroutines are the steps of theory \<open>HubSteps\<close>: a section under \<^verbatim>\<open>h.mu\<close> or the
  handling of one message is one step, except \<^verbatim>\<open>handleKeyInit\<close>, which is two, so that other connections
  can act between its query and its commit, and \<^verbatim>\<open>SendCommandContext\<close>, which waits. \<^verbatim>\<open>handleTrafficReport\<close>
  feeds the optional analytics store and has no effect here. Closing a closed channel panics: \<open>h_panicked\<close>.
\<close>

section \<open>Connections and the hub\<close>

datatype frame = TextMessage string | BinaryMessage string | CloseMessage string | PingMessage

text \<open>The locals of a \<^verbatim>\<open>handleKeyInit\<close> between its query and its commit.\<close>

record key_init =
  ki_Pubkey :: string
  ki_EncKey :: string
  ki_Nonce :: string
  ki_Existing :: string

record AgentConn =
  ac_NodeID :: string
  ac_pending :: "(string \<times> Message option) list"
  ac_sendCh :: "string list"
  ac_closed :: bool
  ac_pendingAuth :: bool
  ac_encrypted :: bool
  ac_aead :: "string option"
  ac_wire :: "frame list"
  ac_reading :: bool
  ac_keyInit :: "key_init option"

record nodeUpdEntry =
  ue_NodeID :: string
  ue_ch :: "bool list"
  ue_done :: bool
  ue_running :: bool

record hub =
  h_acs :: "AgentConn list"
  h_conns :: "string \<rightharpoonup> nat"
  h_ents :: "nodeUpdEntry list"
  h_nodeUpd :: "string \<rightharpoonup> nat"
  h_centerKeyPair :: "KeyPair option"
  h_delayed :: "(nat \<times> string) list"
  h_werr :: "bool list"
  h_panicked :: bool
  h_originSet :: "string list"
  h_keyAuthLast :: "(string \<times> int) list"
  h_keyAuthIPLast :: "(string \<times> int) list"

definition NewHub :: "KeyPair option \<Rightarrow> string list \<Rightarrow> hub" where
  "NewHub kp origins = \<lparr>h_acs = [], h_conns = Map.empty, h_ents = [], h_nodeUpd = Map.empty, h_centerKeyPair = kp, h_delayed = [],
     h_werr = [], h_panicked = False, h_originSet = origins, h_keyAuthLast = [], h_keyAuthIPLast = []\<rparr>"

type_synonym center = "hub \<times> world"
type_synonym 'a H = "(center, 'a) state"

abbreviation hret :: "'a \<Rightarrow> 'a H" where
  "hret x \<equiv> State_Monad.return x"

definition hgets :: "(hub \<Rightarrow> 'a) \<Rightarrow> 'a H" where
  "hgets f = State (\<lambda>(h, w). (f h, (h, w)))"

definition hmodify :: "(hub \<Rightarrow> hub) \<Rightarrow> unit H" where
  "hmodify f = State (\<lambda>(h, w). ((), (f h, w)))"

definition liftW :: "'a M \<Rightarrow> 'a H" where
  "liftW m = State (\<lambda>(h, w). case run_state m w of (r, w') \<Rightarrow> (r, (h, w')))"

definition conn_upd :: "nat \<Rightarrow> (AgentConn \<Rightarrow> AgentConn) \<Rightarrow> hub \<Rightarrow> hub" where
  "conn_upd i f h = h\<lparr>h_acs := (h_acs h)[i := f (h_acs h ! i)]\<rparr>"

definition ent_upd :: "nat \<Rightarrow> (nodeUpdEntry \<Rightarrow> nodeUpdEntry) \<Rightarrow> hub \<Rightarrow> hub" where
  "ent_upd e f h = h\<lparr>h_ents := (h_ents h)[e := f (h_ents h ! e)]\<rparr>"

definition get_conn :: "nat \<Rightarrow> AgentConn H" where
  "get_conn i = hgets (\<lambda>h. h_acs h ! i)"

text \<open>\<^verbatim>\<open>closeOnce\<close> makes a second \<^verbatim>\<open>Close\<close> harmless.\<close>

definition ac_Close :: "nat \<Rightarrow> unit H" where
  "ac_Close i = hmodify (conn_upd i (\<lambda>a. a\<lparr>ac_closed := True\<rparr>))"

definition close_done :: "nat \<Rightarrow> unit H" where
  "close_done e = hmodify (\<lambda>h. if ue_done (h_ents h ! e) then h\<lparr>h_panicked := True\<rparr> else ent_upd e (\<lambda>x. x\<lparr>ue_done := True\<rparr>) h)"

text \<open>A write on the socket: it fails on a closed connection, or when the environment says so.\<close>

definition conn_write :: "nat \<Rightarrow> frame \<Rightarrow> bool H" where
  "conn_write i f = State (\<lambda>(h, w).
     let bad = (ac_closed (h_acs h ! i) \<or> (h_werr h \<noteq> [] \<and> hd (h_werr h))); h1 = h\<lparr>h_werr := tl (h_werr h)\<rparr> in
     if bad then (False, (h1, w)) else (True, (conn_upd i (\<lambda>a. a\<lparr>ac_wire := ac_wire a @ [f]\<rparr>) h1, w)))"

definition EnableEncryption :: "nat \<Rightarrow> string \<Rightarrow> unit H" where
  "EnableEncryption i key = hmodify (conn_upd i (\<lambda>a. a\<lparr>ac_aead := Some key, ac_encrypted := True\<rparr>))"

definition IsEncrypted :: "AgentConn \<Rightarrow> bool" where
  "IsEncrypted a = ac_encrypted a"

section \<open>Registration\<close>

definition new_conn :: "string \<Rightarrow> AgentConn" where
  "new_conn nodeID = \<lparr>ac_NodeID = nodeID, ac_pending = [], ac_sendCh = [], ac_closed = False, ac_pendingAuth = True,
     ac_encrypted = False, ac_aead = None, ac_wire = [], ac_reading = True, ac_keyInit = None\<rparr>"

definition Register :: "string \<Rightarrow> nat H" where
  "Register nodeID = do {
     existing \<leftarrow> hgets (\<lambda>h. h_conns h nodeID);
     _ \<leftarrow> (case existing of
            Some j \<Rightarrow> do { ac_Close j; hmodify (\<lambda>h. h\<lparr>h_conns := (h_conns h)(nodeID := None)\<rparr>) }
          | None \<Rightarrow> hret ());
     i \<leftarrow> hgets (\<lambda>h. length (h_acs h));
     hmodify (\<lambda>h. h\<lparr>h_acs := h_acs h @ [new_conn nodeID]\<rparr>);
     old \<leftarrow> hgets (\<lambda>h. h_nodeUpd h nodeID);
     _ \<leftarrow> (case old of Some e \<Rightarrow> close_done e | None \<Rightarrow> hret ());
     hmodify (\<lambda>h. h\<lparr>h_nodeUpd := (h_nodeUpd h)(nodeID \<mapsto> length (h_ents h)),
       h_ents := h_ents h @ [\<lparr>ue_NodeID = nodeID, ue_ch = [], ue_done = False, ue_running = True\<rparr>]\<rparr>);
     hret i
   }"

definition try_push :: "nat \<Rightarrow> bool \<Rightarrow> bool H" where
  "try_push e v = State (\<lambda>(h, w). if length (ue_ch (h_ents h ! e)) < 4
     then (True, (ent_upd e (\<lambda>x. x\<lparr>ue_ch := ue_ch x @ [v]\<rparr>) h, w)) else (False, (h, w)))"

definition Activate :: "nat \<Rightarrow> unit H" where
  "Activate i = do {
     a \<leftarrow> get_conn i;
     if \<not> ac_pendingAuth a then hret ()
     else do {
       hmodify (conn_upd i (\<lambda>a. a\<lparr>ac_pendingAuth := False\<rparr>));
       existing \<leftarrow> hgets (\<lambda>h. h_conns h (ac_NodeID a));
       _ \<leftarrow> (case existing of Some j \<Rightarrow> if j \<noteq> i then ac_Close j else hret () | None \<Rightarrow> hret ());
       hmodify (\<lambda>h. h\<lparr>h_conns := (h_conns h)(ac_NodeID a \<mapsto> i)\<rparr>);
       ent \<leftarrow> hgets (\<lambda>h. h_nodeUpd h (ac_NodeID a));
       _ \<leftarrow> (case ent of Some e \<Rightarrow> try_push e True | None \<Rightarrow> hret True);
       hret ()
     }
   }"

definition Unregister :: "string \<Rightarrow> nat \<Rightarrow> unit H" where
  "Unregister nodeID i = do {
     cur \<leftarrow> hgets (\<lambda>h. h_conns h nodeID);
     _ \<leftarrow> (if cur = Some i then do { ac_Close i; hmodify (\<lambda>h. h\<lparr>h_conns := (h_conns h)(nodeID := None)\<rparr>) } else hret ());
     a \<leftarrow> get_conn i;
     _ \<leftarrow> (if ac_pendingAuth a then ac_Close i else hret ());
     ent \<leftarrow> hgets (\<lambda>h. h_nodeUpd h nodeID);
     case ent of
       None \<Rightarrow> hret ()
     | Some e \<Rightarrow> do {
         queued \<leftarrow> try_push e False;
         if queued then hret ()
         else do {
           _ \<leftarrow> liftW (nodes_SetAgentState nodeID ''offline'');
           _ \<leftarrow> liftW (notifyNodeOffline nodeID True);
           close_done e;
           hmodify (\<lambda>h. h\<lparr>h_nodeUpd := (h_nodeUpd h)(nodeID := None)\<rparr>)
         }
       }
   }"

text \<open>One turn of \<^verbatim>\<open>drainNodeUpdates\<close>: \<open>drain_stop\<close> when \<^verbatim>\<open>done\<close> is closed, \<open>drain_take\<close> when a value waits.\<close>

definition drain_stop :: "nat \<Rightarrow> unit H" where
  "drain_stop e = hmodify (ent_upd e (\<lambda>x. x\<lparr>ue_running := False\<rparr>))"

definition drain_take :: "nat \<Rightarrow> unit H" where
  "drain_take e = do {
     ent \<leftarrow> hgets (\<lambda>h. h_ents h ! e);
     hmodify (ent_upd e (\<lambda>x. x\<lparr>ue_ch := tl (ue_ch x)\<rparr>));
     if hd (ue_ch ent) then do { _ \<leftarrow> liftW (nodes_SetOnline (ue_NodeID ent) True); hret () }
     else do {
       _ \<leftarrow> liftW (nodes_SetAgentState (ue_NodeID ent) ''offline'');
       _ \<leftarrow> liftW (notifyNodeOffline (ue_NodeID ent) True);
       hmodify (\<lambda>h. if h_nodeUpd h (ue_NodeID ent) = Some e then h\<lparr>h_nodeUpd := (h_nodeUpd h)(ue_NodeID ent := None)\<rparr> else h);
       drain_stop e
     }
   }"

definition GetConn :: "string \<Rightarrow> nat option H" where
  "GetConn nodeID = hgets (\<lambda>h. h_conns h nodeID)"

definition hub_IsOnline :: "string \<Rightarrow> bool H" where
  "hub_IsOnline nodeID = hgets (\<lambda>h. case h_conns h nodeID of Some i \<Rightarrow> \<not> ac_pendingAuth (h_acs h ! i) | None \<Rightarrow> False)"

definition close_all :: "string \<Rightarrow> nat list \<Rightarrow> unit H" where
  "close_all reason is = fold (\<lambda>i m. do { _ \<leftarrow> m; _ \<leftarrow> conn_write i (CloseMessage reason); ac_Close i }) is (hret ())"

text \<open>\<^verbatim>\<open>Shutdown\<close> visits the connections in some order.\<close>

definition Shutdown :: "nat list \<Rightarrow> unit H" where
  "Shutdown order = close_all ''server shutting down'' order"

section \<open>Commands\<close>

definition set_pending :: "string \<Rightarrow> Message option \<Rightarrow> (string \<times> Message option) list \<Rightarrow> (string \<times> Message option) list" where
  "set_pending r v p = AList.update r v p"

definition enqueue :: "nat \<Rightarrow> string \<Rightarrow> bool H" where
  "enqueue i data = State (\<lambda>(h, w). if length (ac_sendCh (h_acs h ! i)) < 64
     then (True, (conn_upd i (\<lambda>a. a\<lparr>ac_sendCh := ac_sendCh a @ [data]\<rparr>) h, w)) else (False, (h, w)))"

text \<open>\<^verbatim>\<open>SendCommandContext\<close> up to its wait: an error, or the connection and request it waits for. The sections under the hub's
  mutex, the mutex of the pending requests and the queue are taken together as one step.\<close>

definition send_start :: "channel_lib \<Rightarrow> string \<Rightarrow> string \<Rightarrow> json \<Rightarrow> (string + nat \<times> string) H" where
  "send_start X nodeID msgType payload = do {
     c \<leftarrow> GetConn nodeID;
     case c of
       None \<Rightarrow> hret (Inl (''agent not connected for node '' @ nodeID))
     | Some i \<Rightarrow> do {
         a \<leftarrow> get_conn i;
         if ac_pendingAuth a then hret (Inl (''agent for node '' @ nodeID @ '' has not completed handshake''))
         else do {
           reqID \<leftarrow> liftW new_uuid;
           let data = x_marshal X (enc_Message (new_message msgType payload\<lparr>msg_ID := reqID\<rparr>));
           hmodify (conn_upd i (\<lambda>a. a\<lparr>ac_pending := set_pending reqID None (ac_pending a)\<rparr>));
           queued \<leftarrow> enqueue i data;
           if queued then hret (Inr (i, reqID))
           else do {
             hmodify (conn_upd i (\<lambda>a. a\<lparr>ac_pending := AList.delete reqID (ac_pending a)\<rparr>));
             hret (Inl (''send buffer full for node '' @ nodeID))
           }
         }
       }
   }"

text \<open>What ends the wait, when it can, and the result.\<close>

datatype wakeup = GotResponse | DeadlineExceeded | Disconnected

definition can_wake :: "AgentConn \<Rightarrow> string \<Rightarrow> wakeup \<Rightarrow> bool" where
  "can_wake a reqID k = (case k of
     GotResponse \<Rightarrow> (case map_of (ac_pending a) reqID of Some (Some _) \<Rightarrow> True | _ \<Rightarrow> False)
   | DeadlineExceeded \<Rightarrow> True
   | Disconnected \<Rightarrow> ac_closed a)"

definition send_finish :: "nat \<Rightarrow> string \<Rightarrow> wakeup \<Rightarrow> (string + Message) H" where
  "send_finish i reqID k = do {
     a \<leftarrow> get_conn i;
     hmodify (conn_upd i (\<lambda>a. a\<lparr>ac_pending := AList.delete reqID (ac_pending a)\<rparr>));
     hret (case k of
       GotResponse \<Rightarrow> (case map_of (ac_pending a) reqID of Some (Some m) \<Rightarrow> Inr m | _ \<Rightarrow> Inl [])
     | DeadlineExceeded \<Rightarrow> Inl ''context deadline exceeded''
     | Disconnected \<Rightarrow> Inl ''agent disconnected during command'')
   }"

text \<open>The channel of a request holds one response; a second one is dropped.\<close>

definition DeliverResponse :: "nat \<Rightarrow> Message \<Rightarrow> unit H" where
  "DeliverResponse i m = hmodify (conn_upd i (\<lambda>a.
     case map_of (ac_pending a) (msg_ID m) of
       Some None \<Rightarrow> a\<lparr>ac_pending := set_pending (msg_ID m) (Some m) (ac_pending a)\<rparr>
     | _ \<Rightarrow> a))"

text \<open>One turn of \<^verbatim>\<open>WritePump\<close> on a waiting message.\<close>

definition write_next :: "channel_lib \<Rightarrow> nat \<Rightarrow> unit H" where
  "write_next X i = do {
     a \<leftarrow> get_conn i;
     case ac_sendCh a of
       [] \<Rightarrow> hret ()
     | data # rest \<Rightarrow> do {
         hmodify (conn_upd i (\<lambda>a. a\<lparr>ac_sendCh := rest\<rparr>));
         wire \<leftarrow> (case (ac_encrypted a, ac_aead a) of
                   (True, Some key) \<Rightarrow> do { ct \<leftarrow> liftW (Encrypt X key data); hret (map_option BinaryMessage ct) }
                 | _ \<Rightarrow> hret (Some (TextMessage data)));
         case wire of
           None \<Rightarrow> ac_Close i
         | Some f \<Rightarrow> do { ok \<leftarrow> conn_write i f; if ok then hret () else ac_Close i }
       }
   }"

definition write_ping :: "nat \<Rightarrow> unit H" where
  "write_ping i = do { ok \<leftarrow> conn_write i PingMessage; if ok then hret () else ac_Close i }"

section \<open>Synchronisation of peers\<close>

definition sync_entry :: "peer \<Rightarrow> PeerSyncEntry" where
  "sync_entry p = \<lparr>ps_PeerID = ID p, ps_ASN = RemoteASN p, ps_RemoteEndpoint = RemoteEndpoint p, ps_RemoteWgPubkey = RemotePubkey p,
     ps_RemoteLLA = RemoteLLA p, ps_ListenPort = WgListenPort p, ps_WgInterface = WgInterfaceName p, ps_BgpProtoName = BgpProtoName p,
     ps_BirdConfigFilename = BirdConfigFilename p, ps_MTU = MTU p, ps_WgPreSharedKey = WgPreSharedKey p\<rparr>"

definition sync_data :: "channel_lib \<Rightarrow> peer list \<Rightarrow> string" where
  "sync_data X ps = x_marshal X (enc_Message (new_message ''peers.sync'' (JObj [(''peers'', JArr (map (enc_PeerSyncEntry \<circ> sync_entry) ps))])))"

text \<open>A full buffer puts the message aside for one more try after two seconds.\<close>

definition pushPeersSync :: "channel_lib \<Rightarrow> nat \<Rightarrow> unit H" where
  "pushPeersSync X i = do {
     a \<leftarrow> get_conn i;
     all \<leftarrow> liftW (peers_ListByNode (ac_NodeID a));
     let data = sync_data X (case all of Inl _ \<Rightarrow> [] | Inr ps \<Rightarrow> filter (\<lambda>p. Status p = ''active'') ps);
     queued \<leftarrow> enqueue i data;
     if queued then hret () else hmodify (\<lambda>h. h\<lparr>h_delayed := h_delayed h @ [(i, data)]\<rparr>)
   }"

definition delayed_send :: "nat \<Rightarrow> unit H" where
  "delayed_send k = do {
     d \<leftarrow> hgets (\<lambda>h. h_delayed h ! k);
     hmodify (\<lambda>h. h\<lparr>h_delayed := take k (h_delayed h) @ drop (Suc k) (h_delayed h)\<rparr>);
     _ \<leftarrow> enqueue (fst d) (snd d);
     hret ()
   }"

definition handlePeersSync :: "channel_lib \<Rightarrow> nat \<Rightarrow> unit H" where
  "handlePeersSync X i = do {
     a \<leftarrow> get_conn i;
     if ac_pendingAuth a then hret () else pushPeersSync X i
   }"

definition TriggerPeersSync :: "channel_lib \<Rightarrow> string \<Rightarrow> bool H" where
  "TriggerPeersSync X nodeID = do {
     c \<leftarrow> GetConn nodeID;
     case c of
       None \<Rightarrow> hret False
     | Some i \<Rightarrow> do {
         a \<leftarrow> get_conn i;
         if ac_pendingAuth a then hret False else do { pushPeersSync X i; hret True }
       }
   }"

section \<open>The handshake\<close>

definition notifyPubkeyReset :: "unit M" where
  "notifyPubkeyReset = modify (\<lambda>w. w\<lparr>w_out := w_out w @ map (\<lambda>e. AdminEmail e ''agent_key_reset'') (mo_adminEmails (w_mon w))\<rparr>)"

text \<open>\<^verbatim>\<open>handleKeyInit\<close> up to the check of the registered key; \<open>None\<close> when it returns there.\<close>

definition keyInit_check :: "channel_lib \<Rightarrow> nat \<Rightarrow> Message \<Rightarrow> key_init option H" where
  "keyInit_check X i msg = do {
     a \<leftarrow> get_conn i;
     case dec_KeyInitPayload (msg_Payload msg) of
       None \<Rightarrow> do { ac_Close i; hret None }
     | Some pubkey \<Rightarrow>
         if pubkey = [] then hret None
         else do {
           kp \<leftarrow> hgets h_centerKeyPair;
           case kp of
             None \<Rightarrow> hret None
           | Some center \<Rightarrow>
               (case PublicKeyFromHex pubkey of
                  Inl _ \<Rightarrow> hret None
                | Inr agentPub \<Rightarrow>
                    (case DeriveSharedSecret (kp_PrivateKey center) agentPub of
                       Inl _ \<Rightarrow> hret None
                     | Inr shared \<Rightarrow> do {
                         n \<leftarrow> liftW NewNonce;
                         case n of
                           None \<Rightarrow> hret None
                         | Some authNonce \<Rightarrow> do {
                             let encKey = DeriveEncKey X shared authNonce;
                             r \<leftarrow> liftW (nodes_GetByID (ac_NodeID a));
                             case r of
                               Inl _ \<Rightarrow> hret None
                             | Inr node \<Rightarrow>
                                 if n_AgentPubkey node \<noteq> [] \<and> n_AgentPubkey node \<noteq> pubkey then do {
                                   liftW notifyPubkeyReset;
                                   _ \<leftarrow> conn_write i (TextMessage (x_marshal X (enc_Message (new_message ''key.init_ack'' JNull\<lparr>msg_Error := ''reset_required''\<rparr>))));
                                   ac_Close i;
                                   hret None
                                 } else hret (Some \<lparr>ki_Pubkey = pubkey, ki_EncKey = encKey, ki_Nonce = authNonce, ki_Existing = n_AgentPubkey node\<rparr>)
                           }
                       }))
         }
   }"

definition keyInit_commit :: "channel_lib \<Rightarrow> nat \<Rightarrow> key_init \<Rightarrow> unit H" where
  "keyInit_commit X i k = do {
     a \<leftarrow> get_conn i;
     stored \<leftarrow> (if ki_Existing k = [] then liftW (nodes_SetAgentPubkey (ac_NodeID a) (ki_Pubkey k)) else hret (Inr ()));
     case stored of
       Inl _ \<Rightarrow> hret ()
     | Inr _ \<Rightarrow> do {
         kp \<leftarrow> hgets h_centerKeyPair;
         ok \<leftarrow> conn_write i (TextMessage (x_marshal X (enc_Message (new_message ''key.init_ack''
                 (enc_KeyInitAckPayload (case kp of Some c \<Rightarrow> PubKeyHex (kp_PublicKey c) | None \<Rightarrow> []) (ki_Nonce k))))));
         if \<not> ok then hret ()
         else do { EnableEncryption i (ki_EncKey k); Activate i }
       }
   }"

definition handleKeyInit :: "channel_lib \<Rightarrow> nat \<Rightarrow> Message \<Rightarrow> unit H" where
  "handleKeyInit X i msg = do {
     r \<leftarrow> keyInit_check X i msg;
     case r of None \<Rightarrow> hret () | Some k \<Rightarrow> keyInit_commit X i k
   }"

text \<open>The checks of \<^verbatim>\<open>handleKeyAuth\<close>: the agent's key, when the proof of a registered key is right. Every failure
  closes the connection.\<close>

definition keyAuth_verify :: "KeyPair \<Rightarrow> string \<Rightarrow> KeyAuthPayload \<Rightarrow> db_error + string \<Rightarrow> string option" where
  "keyAuth_verify center nodeID payload stored =
     (case stored of
        Inl _ \<Rightarrow> None
      | Inr storedPubkey \<Rightarrow>
          if storedPubkey = [] then None
          else if ka_NodeID payload \<noteq> nodeID then None
          else if storedPubkey \<noteq> ka_Pubkey payload then None
          else (case PublicKeyFromHex (ka_Pubkey payload) of
                  Inl _ \<Rightarrow> None
                | Inr agentPub \<Rightarrow>
                    (case DeriveSharedSecret (kp_PrivateKey center) agentPub of
                       Inl _ \<Rightarrow> None
                     | Inr shared \<Rightarrow> if VerifyAuthProof shared (ka_Nonce payload) (ka_Proof payload) then Some agentPub else None)))"

definition handleKeyAuth :: "channel_lib \<Rightarrow> nat \<Rightarrow> Message \<Rightarrow> unit H" where
  "handleKeyAuth X i msg = do {
     a \<leftarrow> get_conn i;
     kp \<leftarrow> hgets h_centerKeyPair;
     case (dec_KeyAuthPayload (msg_Payload msg), kp) of
       (Some payload, Some center) \<Rightarrow>
         if ka_NodeID payload = [] \<or> ka_Pubkey payload = [] \<or> ka_Nonce payload = [] \<or> ka_Proof payload = [] then ac_Close i
         else do {
           stored \<leftarrow> liftW (nodes_GetAgentPubkey (ka_NodeID payload));
           case keyAuth_verify center (ac_NodeID a) payload stored of
             None \<Rightarrow> ac_Close i
           | Some agentPub \<Rightarrow> do {
               g \<leftarrow> liftW GenerateKeyPair;
               case g of
                 Inl _ \<Rightarrow> ac_Close i
               | Inr ephemeral \<Rightarrow>
                   (case DeriveSharedSecret (kp_PrivateKey ephemeral) agentPub of
                      Inl _ \<Rightarrow> ac_Close i
                    | Inr sessionShared \<Rightarrow> do {
                        n \<leftarrow> liftW NewNonce;
                        case n of
                          None \<Rightarrow> ac_Close i
                        | Some centerNonce \<Rightarrow> do {
                            let sessionKey = DeriveEncKey X sessionShared (ka_Nonce payload @ centerNonce);
                            ok \<leftarrow> conn_write i (TextMessage (x_marshal X (enc_Message (new_message ''key.auth_ack''
                                    (enc_KeyAuthAckPayload (PubKeyHex (kp_PublicKey ephemeral)) (ka_Nonce payload) centerNonce)))));
                            if \<not> ok then ac_Close i
                            else do { EnableEncryption i sessionKey; Activate i }
                          }
                      })
             }
         }
     | _ \<Rightarrow> ac_Close i
   }"

section \<open>Reading messages\<close>

text \<open>The bytes that \<^verbatim>\<open>ReadPump\<close> hands on: under encryption a binary frame that opens.\<close>

definition open_frame :: "channel_lib \<Rightarrow> AgentConn \<Rightarrow> frame \<Rightarrow> string option" where
  "open_frame X a f =
     (case (ac_encrypted a, ac_aead a) of
        (True, Some key) \<Rightarrow> (case f of BinaryMessage d \<Rightarrow> Decrypt X key d | _ \<Rightarrow> None)
      | _ \<Rightarrow> (case f of TextMessage d \<Rightarrow> Some d | BinaryMessage d \<Rightarrow> Some d | _ \<Rightarrow> None))"

text \<open>What a message does, apart from \<^verbatim>\<open>key.init\<close>. A \<^verbatim>\<open>traffic.report\<close> goes to the store of traffic figures, which has no model, and
  touches neither the hub nor the tables: it is among the messages without effect.\<close>

definition dispatch :: "channel_lib \<Rightarrow> nat \<Rightarrow> json \<Rightarrow> Message \<Rightarrow> unit H" where
  "dispatch X i j msg =
     (if msg_Type msg = ''response'' \<or> msg_Type msg = ''status.response'' then DeliverResponse i msg
      else if msg_Type msg = ''heartbeat'' then do {
        a \<leftarrow> get_conn i; liftW (handleHeartbeat (ac_NodeID a) (dec_heartbeat_message j)) }
      else if msg_Type msg = ''peers.sync'' then handlePeersSync X i
      else if msg_Type msg = ''agent.updating'' then do {
        a \<leftarrow> get_conn i; liftW (handleAgentUpdating (ac_NodeID a)) }
      else if msg_Type msg = ''key.auth'' then handleKeyAuth X i msg
      else hret ())"

definition decode_frame :: "channel_lib \<Rightarrow> AgentConn \<Rightarrow> frame \<Rightarrow> (json \<times> Message) option" where
  "decode_frame X a f = do {
     d \<leftarrow> open_frame X a f;
     j \<leftarrow> x_unmarshal X d;
     m \<leftarrow> dec_Message j;
     Some (j, m)
   }"

text \<open>One turn of \<^verbatim>\<open>ReadPump\<close>; a \<^verbatim>\<open>key.init\<close> that passes its check stays in \<open>ac_keyInit\<close> until it commits.\<close>

definition read_frame :: "channel_lib \<Rightarrow> nat \<Rightarrow> frame \<Rightarrow> unit H" where
  "read_frame X i f = do {
     a \<leftarrow> get_conn i;
     case decode_frame X a f of
       None \<Rightarrow> hret ()
     | Some (j, msg) \<Rightarrow>
         if msg_Type msg = ''key.init'' then do {
           r \<leftarrow> keyInit_check X i msg;
           hmodify (conn_upd i (\<lambda>a. a\<lparr>ac_keyInit := r\<rparr>))
         } else dispatch X i j msg
   }"

definition finish_keyInit :: "channel_lib \<Rightarrow> nat \<Rightarrow> unit H" where
  "finish_keyInit X i = do {
     a \<leftarrow> get_conn i;
     case ac_keyInit a of
       None \<Rightarrow> hret ()
     | Some k \<Rightarrow> do { hmodify (conn_upd i (\<lambda>a. a\<lparr>ac_keyInit := None\<rparr>)); keyInit_commit X i k }
   }"

text \<open>The end of \<^verbatim>\<open>ReadPump\<close>: the deferred \<^verbatim>\<open>Unregister\<close>.\<close>

definition read_end :: "nat \<Rightarrow> unit H" where
  "read_end i = do {
     a \<leftarrow> get_conn i;
     Unregister (ac_NodeID a) i;
     hmodify (conn_upd i (\<lambda>a. a\<lparr>ac_reading := False\<rparr>))
   }"

section \<open>Accepting connections\<close>

definition trim_right_slash :: "string \<Rightarrow> string" where
  "trim_right_slash s = trim_right (CHR ''/'') s"

definition allowed_origins :: "string \<Rightarrow> string list" where
  "allowed_origins s = filter (\<lambda>o'. o' \<noteq> []) (map (\<lambda>o'. trim_right_slash (trim_space o')) (split_on (CHR '','') s))"

definition CheckOrigin :: "string list \<Rightarrow> http_request \<Rightarrow> bool" where
  "CheckOrigin originSet r =
     (let origin = trim_right_slash (rq_Header r ''Origin'') in
      if origin = [] then rq_Header r ''X-Agent-Token'' \<noteq> [] \<or> rq_Header r ''X-Node-ID'' \<noteq> []
      else origin \<in> set originSet)"

definition fresh_entries :: "int \<Rightarrow> (string \<times> int) list \<Rightarrow> (string \<times> int) list" where
  "fresh_entries cutoff m = filter (\<lambda>(_, t). t > cutoff) m"

definition within :: "(string \<times> int) list \<Rightarrow> string \<Rightarrow> int \<Rightarrow> int \<Rightarrow> bool" where
  "within m k now d = (case map_of m k of Some t \<Rightarrow> now - t < d | None \<Rightarrow> False)"

definition checkKeyAuthRate :: "string \<Rightarrow> http_request \<Rightarrow> bool H" where
  "checkKeyAuthRate nodeID r = do {
     let host = host_of (rq_RemoteAddr r);
     now \<leftarrow> liftW time_now;
     ips \<leftarrow> hgets h_keyAuthIPLast;
     if within ips host now 10000 then hret False
     else do {
       hmodify (\<lambda>h. h\<lparr>h_keyAuthIPLast := fresh_entries (now - 60000) (AList.update host now ips)\<rparr>);
       last \<leftarrow> hgets h_keyAuthLast;
       let fresh0 = fresh_entries (now - 60000) last;
       let fresh = (if length fresh0 > 10000 then [] else fresh0);
       let key = host @ ''/'' @ nodeID;
       if within fresh key now 10000 then do { hmodify (\<lambda>h. h\<lparr>h_keyAuthLast := fresh\<rparr>); hret False }
       else do { hmodify (\<lambda>h. h\<lparr>h_keyAuthLast := AList.update key now fresh\<rparr>); hret True }
     }
   }"

datatype ws_outcome = Refused int string | UpgradeFailed | Connected nat

text \<open>\<^verbatim>\<open>HandleWebSocket\<close> up to the start of the pumps. \<open>query\<close> is the \<^verbatim>\<open>node_id\<close> of the URL; \<open>up\<close> says whether
  the request is a well-formed upgrade.\<close>

definition HandleWebSocket :: "http_request \<Rightarrow> string \<Rightarrow> bool \<Rightarrow> ws_outcome H" where
  "HandleWebSocket r query up = do {
     let token = rq_Header r ''X-Agent-Token'';
     let nodeID0 = (if rq_Header r ''X-Node-ID'' = [] then query else rq_Header r ''X-Node-ID'');
     admitted \<leftarrow>
       (if token \<noteq> [] then do {
          n \<leftarrow> liftW (nodes_GetByAgentToken token);
          hret (case n of Inl _ \<Rightarrow> Inl (401, ''invalid token'') | Inr node \<Rightarrow> Inr (n_ID node))
        } else if nodeID0 \<noteq> [] then do {
          let nodeID = take 128 nodeID0;
          ok \<leftarrow> checkKeyAuthRate nodeID r;
          if \<not> ok then hret (Inl (429, ''too many key-auth attempts''))
          else do {
            pk \<leftarrow> liftW (nodes_GetAgentPubkey nodeID);
            hret (case pk of
                    Inl _ \<Rightarrow> Inl (401, ''key auth not available for this node'')
                  | Inr k \<Rightarrow> if k = [] then Inl (401, ''key auth not available for this node'') else Inr nodeID)
          }
        } else hret (Inl (401, ''missing token or node_id'')));
     case admitted of
       Inl (code, text) \<Rightarrow> hret (Refused code text)
     | Inr nodeID \<Rightarrow> do {
         origins \<leftarrow> hgets h_originSet;
         if \<not> up \<or> \<not> CheckOrigin origins r then hret UpgradeFailed
         else do { i \<leftarrow> Register nodeID; hret (Connected i) }
       }
   }"

end
