(* ===== verification/HubSteps.thy ===== *)
theory HubSteps
  imports Hub
begin

text \<open>
  The goroutines of the hub as a step relation, the weakest preconditions of its operations, and the
  invariant of the hub: who is in the table of connections, what each connection may hold and may have
  written, and which entries of \<^verbatim>\<open>nodeUpd\<close> are open. The operations of the database, the cache and the
  mail are arbitrary here, also between the steps.
\<close>

section \<open>Weakest preconditions\<close>

definition hwp :: "'a H \<Rightarrow> ('a \<Rightarrow> center \<Rightarrow> bool) \<Rightarrow> center \<Rightarrow> bool" where
  "hwp m Q s = (case run_state m s of (r, s') \<Rightarrow> Q r s')"

named_theorems hwp_rules \<open>weakest preconditions of hub operations\<close>

lemma hwp_run: "hwp m Q s \<Longrightarrow> run_state m s = (r, s') \<Longrightarrow> Q r s'"
  by (simp add: hwp_def)

lemma hwp_mono: "hwp m P s \<Longrightarrow> (\<And>r s'. P r s' \<Longrightarrow> Q r s') \<Longrightarrow> hwp m Q s"
  by (auto simp: hwp_def split: prod.splits)

lemma hwp_ret [hwp_rules]: "Q x s \<Longrightarrow> hwp (hret x) Q s"
  by (simp add: hwp_def)

lemma hwp_bind [hwp_rules]: "hwp m (\<lambda>r. hwp (f r) Q) s \<Longrightarrow> hwp (State_Monad.bind m f) Q s"
  by (cases "run_state m s") (simp add: hwp_def)

lemma hwp_if [hwp_rules]: "(b \<Longrightarrow> hwp m Q s) \<Longrightarrow> (\<not> b \<Longrightarrow> hwp n Q s) \<Longrightarrow> hwp (if b then m else n) Q s"
  by simp

lemma hwp_option [hwp_rules]:
  "(x = None \<Longrightarrow> hwp m Q s) \<Longrightarrow> (\<And>y. x = Some y \<Longrightarrow> hwp (g y) Q s) \<Longrightarrow> hwp (case x of None \<Rightarrow> m | Some y \<Rightarrow> g y) Q s"
  by (cases x) auto

lemma hwp_sum [hwp_rules]:
  "(\<And>y. x = Inl y \<Longrightarrow> hwp (f y) Q s) \<Longrightarrow> (\<And>y. x = Inr y \<Longrightarrow> hwp (g y) Q s) \<Longrightarrow> hwp (case x of Inl y \<Rightarrow> f y | Inr y \<Rightarrow> g y) Q s"
  by (cases x) auto

lemma hwp_list [hwp_rules]:
  "(x = [] \<Longrightarrow> hwp m Q s) \<Longrightarrow> (\<And>y ys. x = y # ys \<Longrightarrow> hwp (g y ys) Q s) \<Longrightarrow> hwp (case x of [] \<Rightarrow> m | y # ys \<Rightarrow> g y ys) Q s"
  by (cases x) auto

lemma hwp_pair [hwp_rules]: "(\<And>a b. p = (a, b) \<Longrightarrow> hwp (f a b) Q s) \<Longrightarrow> hwp (case p of (a, b) \<Rightarrow> f a b) Q s"
  by (cases p) auto

lemma hwp_let [hwp_rules]: "hwp (f a) Q s \<Longrightarrow> hwp (let x = a in f x) Q s"
  by simp

lemma hwp_hgets [hwp_rules]: "Q (f h) (h, w) \<Longrightarrow> hwp (hgets f) Q (h, w)"
  by (simp add: hwp_def hgets_def)

lemma hwp_get_conn [hwp_rules]: "Q (h_acs h ! i) (h, w) \<Longrightarrow> hwp (get_conn i) Q (h, w)"
  by (simp add: get_conn_def hwp_hgets)

lemma hwp_hmodify [hwp_rules]: "Q () (f h, w) \<Longrightarrow> hwp (hmodify f) Q (h, w)"
  by (simp add: hwp_def hmodify_def)

lemma hwp_liftW [hwp_rules]: "(\<And>r w'. run_state m w = (r, w') \<Longrightarrow> Q r (h, w')) \<Longrightarrow> hwp (liftW m) Q (h, w)"
  by (simp add: hwp_def liftW_def split: prod.splits)

lemma hwp_GetConn [hwp_rules]: "Q (h_conns h n) (h, w) \<Longrightarrow> hwp (GetConn n) Q (h, w)"
  by (simp add: GetConn_def hwp_hgets)

lemma hwp_ac_Close [hwp_rules]: "Q () (conn_upd i (\<lambda>a. a\<lparr>ac_closed := True\<rparr>) h, w) \<Longrightarrow> hwp (ac_Close i) Q (h, w)"
  by (simp add: ac_Close_def hwp_hmodify)

section \<open>The invariant\<close>

definition ack_text :: "channel_lib \<Rightarrow> string \<Rightarrow> bool" where
  "ack_text X d \<longleftrightarrow> (\<exists>m. d = x_marshal X (enc_Message m) \<and> msg_Type m \<in> {''key.init_ack'', ''key.auth_ack''})"

definition sealed_text :: "channel_lib \<Rightarrow> string \<Rightarrow> bool" where
  "sealed_text X ct \<longleftrightarrow> (\<exists>key nonce d. length nonce = NonceSizeX \<and> ct = nonce @ x_Seal X key nonce d)"

definition frame_ok :: "channel_lib \<Rightarrow> frame \<Rightarrow> bool" where
  "frame_ok X f \<longleftrightarrow> (case f of TextMessage d \<Rightarrow> ack_text X d | BinaryMessage ct \<Rightarrow> sealed_text X ct | _ \<Rightarrow> True)"

text \<open>One connection: once authenticated it is encrypted; before that nothing is queued and no command
  waits; what went out are answers of the handshake and sealed messages.\<close>

definition conn_inv :: "channel_lib \<Rightarrow> AgentConn \<Rightarrow> bool" where
  "conn_inv X a \<longleftrightarrow> (ac_encrypted a \<longleftrightarrow> ac_aead a \<noteq> None) \<and> (\<not> ac_pendingAuth a \<longrightarrow> ac_encrypted a)
     \<and> (ac_pendingAuth a \<longrightarrow> ac_sendCh a = [] \<and> ac_pending a = [])
     \<and> (\<forall>f \<in> set (ac_wire a). frame_ok X f)
     \<and> (ac_keyInit a \<noteq> None \<longrightarrow> ac_reading a) \<and> (\<not> ac_reading a \<longrightarrow> ac_closed a)"

definition conns_inv :: "hub \<Rightarrow> bool" where
  "conns_inv h \<longleftrightarrow>
     (\<forall>n i. h_conns h n = Some i \<longrightarrow> i < length (h_acs h) \<and> ac_NodeID (h_acs h ! i) = n \<and> \<not> ac_pendingAuth (h_acs h ! i) \<and> ac_reading (h_acs h ! i))
     \<and> (\<forall>i < length (h_acs h). \<not> ac_pendingAuth (h_acs h ! i) \<longrightarrow> ac_closed (h_acs h ! i) \<or> h_conns h (ac_NodeID (h_acs h ! i)) = Some i)
     \<and> (\<forall>(i, d) \<in> set (h_delayed h). i < length (h_acs h) \<and> \<not> ac_pendingAuth (h_acs h ! i))"

definition ents_inv :: "hub \<Rightarrow> bool" where
  "ents_inv h \<longleftrightarrow> \<not> h_panicked h
     \<and> (\<forall>n e. h_nodeUpd h n = Some e \<longrightarrow> e < length (h_ents h) \<and> ue_NodeID (h_ents h ! e) = n \<and> \<not> ue_done (h_ents h ! e))
     \<and> (\<forall>e < length (h_ents h). length (ue_ch (h_ents h ! e)) \<le> 4)"

text \<open>A \<^verbatim>\<open>key.init\<close> that waits for its commit carries the key of a session with the presented public key,
  which is the registered one or the first.\<close>

definition keyInit_ok :: "channel_lib \<Rightarrow> KeyPair option \<Rightarrow> key_init option \<Rightarrow> bool" where
  "keyInit_ok X kp p \<longleftrightarrow> (\<forall>k. p = Some k \<longrightarrow> (\<exists>center pub shared. kp = Some center \<and> PublicKeyFromHex (ki_Pubkey k) = Inr pub
     \<and> DeriveSharedSecret (kp_PrivateKey center) pub = Inr shared \<and> ki_EncKey k = DeriveEncKey X shared (ki_Nonce k)
     \<and> ki_Existing k \<in> {[], ki_Pubkey k}))"

lemma keyInit_ok_None [simp]: "keyInit_ok X kp None"
  by (simp add: keyInit_ok_def)

definition keyInits_inv :: "channel_lib \<Rightarrow> hub \<Rightarrow> bool" where
  "keyInits_inv X h \<longleftrightarrow> (\<forall>a \<in> set (h_acs h). keyInit_ok X (h_centerKeyPair h) (ac_keyInit a))"

definition hub_inv :: "channel_lib \<Rightarrow> hub \<Rightarrow> bool" where
  "hub_inv X h \<longleftrightarrow> (\<forall>a \<in> set (h_acs h). conn_inv X a) \<and> conns_inv h \<and> ents_inv h \<and> keyInits_inv X h"

lemma hub_inv_keyInit: "hub_inv X h \<Longrightarrow> i < length (h_acs h) \<Longrightarrow> keyInit_ok X (h_centerKeyPair h) (ac_keyInit (h_acs h ! i))"
  by (simp add: hub_inv_def keyInits_inv_def)

lemma hub_inv_conn: "hub_inv X h \<Longrightarrow> i < length (h_acs h) \<Longrightarrow> conn_inv X (h_acs h ! i)"
  by (simp add: hub_inv_def)

lemma hub_inv_in_table:
  "hub_inv X h \<Longrightarrow> h_conns h n = Some i \<Longrightarrow> i < length (h_acs h) \<and> ac_NodeID (h_acs h ! i) = n \<and> \<not> ac_pendingAuth (h_acs h ! i)"
  by (simp add: hub_inv_def conns_inv_def)

lemma hub_inv_NewHub: "hub_inv X (NewHub kp os)"
  by (simp add: hub_inv_def NewHub_def conns_inv_def ents_inv_def keyInits_inv_def)

section \<open>Updates that keep the invariant\<close>

lemma conn_upd_sel [simp]:
  "length (h_acs (conn_upd i f h)) = length (h_acs h)" "h_conns (conn_upd i f h) = h_conns h" "h_ents (conn_upd i f h) = h_ents h"
  "h_nodeUpd (conn_upd i f h) = h_nodeUpd h" "h_centerKeyPair (conn_upd i f h) = h_centerKeyPair h" "h_delayed (conn_upd i f h) = h_delayed h"
  "h_panicked (conn_upd i f h) = h_panicked h" "h_werr (conn_upd i f h) = h_werr h" "h_originSet (conn_upd i f h) = h_originSet h"
  "i < length (h_acs h) \<Longrightarrow> h_acs (conn_upd i f h) ! j = (if i = j then f (h_acs h ! i) else h_acs h ! j)"
  by (simp_all add: conn_upd_def nth_list_update)

lemma ent_upd_sel [simp]:
  "length (h_ents (ent_upd e f h)) = length (h_ents h)" "h_conns (ent_upd e f h) = h_conns h" "h_acs (ent_upd e f h) = h_acs h"
  "h_nodeUpd (ent_upd e f h) = h_nodeUpd h" "h_centerKeyPair (ent_upd e f h) = h_centerKeyPair h" "h_delayed (ent_upd e f h) = h_delayed h"
  "h_panicked (ent_upd e f h) = h_panicked h"
  "e < length (h_ents h) \<Longrightarrow> h_ents (ent_upd e f h) ! j = (if e = j then f (h_ents h ! e) else h_ents h ! j)"
  by (simp_all add: ent_upd_def nth_list_update)

text \<open>A change of one connection that keeps who it is, does not authenticate it and does not reopen it.\<close>

definition mild :: "AgentConn \<Rightarrow> AgentConn \<Rightarrow> bool" where
  "mild a b \<longleftrightarrow> ac_NodeID b = ac_NodeID a \<and> ac_pendingAuth b = ac_pendingAuth a \<and> ac_reading b = ac_reading a \<and> (ac_closed a \<longrightarrow> ac_closed b)"

text \<open>Which connections still have to authenticate.\<close>

definition auth_of :: "hub \<Rightarrow> bool list" where
  "auth_of h = map ac_pendingAuth (h_acs h)"

lemma auth_of_upd [simp]:
  "i < length (h_acs h) \<Longrightarrow> ac_pendingAuth (f (h_acs h ! i)) = ac_pendingAuth (h_acs h ! i) \<Longrightarrow> auth_of (conn_upd i f h) = auth_of h"
  "auth_of (ent_upd e g h) = auth_of h" "auth_of (h\<lparr>h_conns := a\<rparr>) = auth_of h" "auth_of (h\<lparr>h_nodeUpd := b\<rparr>) = auth_of h"
  "auth_of (h\<lparr>h_delayed := c\<rparr>) = auth_of h" "auth_of (h\<lparr>h_werr := d\<rparr>) = auth_of h" "auth_of (h\<lparr>h_ents := e'\<rparr>) = auth_of h"
  by (simp_all add: auth_of_def conn_upd_def ent_upd_def map_update list_update_same_conv)

lemma auth_of_length: "auth_of h' = auth_of h \<Longrightarrow> length (h_acs h') = length (h_acs h)"
  by (metis auth_of_def length_map)

lemma auth_of_same: "h_acs h' = h_acs h \<Longrightarrow> auth_of h' = auth_of h"
  by (simp add: auth_of_def)

lemma inv_conn_upd:
  assumes "hub_inv X h" "i < length (h_acs h)" "mild (h_acs h ! i) (f (h_acs h ! i))" "conn_inv X (f (h_acs h ! i))"
    and k: "ac_keyInit (f (h_acs h ! i)) = ac_keyInit (h_acs h ! i) \<or> keyInit_ok X (h_centerKeyPair h) (ac_keyInit (f (h_acs h ! i)))"
  shows "hub_inv X (conn_upd i f h)"
proof -
  have "keyInits_inv X (conn_upd i f h)"
    unfolding keyInits_inv_def using k assms(2) hub_inv_keyInit [OF assms(1)] by (auto simp: in_set_conv_nth)
  moreover
  have "\<forall>a \<in> set (h_acs (conn_upd i f h)). conn_inv X a"
    using assms hub_inv_conn [OF assms(1)] by (auto simp: in_set_conv_nth)
  moreover have "conns_inv (conn_upd i f h)"
    using assms by (auto simp: hub_inv_def conns_inv_def mild_def split: prod.splits)
  moreover have "ents_inv (conn_upd i f h)" using assms(1) by (simp add: hub_inv_def ents_inv_def)
  ultimately show ?thesis by (simp add: hub_inv_def)
qed

lemma inv_close: "hub_inv X h \<Longrightarrow> i < length (h_acs h) \<Longrightarrow> hub_inv X (conn_upd i (\<lambda>a. a\<lparr>ac_closed := True\<rparr>) h)"
  by (rule inv_conn_upd) (auto simp: mild_def conn_inv_def dest: hub_inv_conn)

lemma inv_other [simp]:
  "hub_inv X (h\<lparr>h_werr := x\<rparr>) = hub_inv X h" "hub_inv X (h\<lparr>h_keyAuthLast := y\<rparr>) = hub_inv X h" "hub_inv X (h\<lparr>h_keyAuthIPLast := z\<rparr>) = hub_inv X h"
  by (simp_all add: hub_inv_def conns_inv_def ents_inv_def keyInits_inv_def)

lemma hwp_conn_write:
  assumes inv: "hub_inv X h" "i < length (h_acs h)" and f: "frame_ok X f"
    and Q: "\<And>ok h'. hub_inv X h' \<Longrightarrow> auth_of h' = auth_of h \<Longrightarrow> length (h_acs h') = length (h_acs h) \<Longrightarrow> h_conns h' = h_conns h \<Longrightarrow> h_centerKeyPair h' = h_centerKeyPair h \<Longrightarrow>
      ac_NodeID (h_acs h' ! i) = ac_NodeID (h_acs h ! i) \<Longrightarrow> ac_pendingAuth (h_acs h' ! i) = ac_pendingAuth (h_acs h ! i) \<Longrightarrow>
      ac_closed (h_acs h' ! i) = ac_closed (h_acs h ! i) \<Longrightarrow> ac_keyInit (h_acs h' ! i) = ac_keyInit (h_acs h ! i) \<Longrightarrow>
      ac_reading (h_acs h' ! i) = ac_reading (h_acs h ! i) \<Longrightarrow> (ok \<longrightarrow> \<not> ac_closed (h_acs h ! i)) \<Longrightarrow> Q ok (h', w)"
  shows "hwp (conn_write i f) Q (h, w)"
proof -
  let ?h1 = "h\<lparr>h_werr := tl (h_werr h)\<rparr>"
  have inv1: "hub_inv X ?h1" using inv by simp
  have inv2: "hub_inv X (conn_upd i (\<lambda>a. a\<lparr>ac_wire := ac_wire a @ [f]\<rparr>) ?h1)"
    by (rule inv_conn_upd [OF inv1]) (use inv f hub_inv_conn [OF inv] in \<open>auto simp: mild_def conn_inv_def\<close>)
  show ?thesis
  proof (cases "ac_closed (h_acs h ! i) \<or> (h_werr h \<noteq> [] \<and> hd (h_werr h))")
    case True
    then show ?thesis using Q [of ?h1 False] inv1 by (auto simp: hwp_def conn_write_def)
  next
    case False
    then show ?thesis using Q [of "conn_upd i (\<lambda>a. a\<lparr>ac_wire := ac_wire a @ [f]\<rparr>) ?h1" True] inv2 inv(2)
      by (auto simp: hwp_def conn_write_def Let_def)
  qed
qed

section \<open>Registration keeps the invariant\<close>

lemma conn_inv_closed: "conn_inv X a \<Longrightarrow> conn_inv X (a\<lparr>ac_closed := True\<rparr>)"
  by (auto simp: conn_inv_def)

lemma conn_inv_auth: "conn_inv X a \<Longrightarrow> ac_encrypted a \<Longrightarrow> conn_inv X (a\<lparr>ac_pendingAuth := False\<rparr>)"
  by (auto simp: conn_inv_def)

lemma conns_inv_activated:
  assumes inv: "conns_inv h" "i < length (h_acs h)" and a: "ac_pendingAuth (h_acs h ! i)" "ac_reading (h_acs h ! i)" "ac_NodeID (h_acs h ! i) = n"
    and acs: "\<And>k. h_acs h' ! k = (if k = i then (h_acs h ! i)\<lparr>ac_pendingAuth := False\<rparr>
      else if h_conns h n = Some k then (h_acs h ! k)\<lparr>ac_closed := True\<rparr> else h_acs h ! k)"
    and h': "length (h_acs h') = length (h_acs h)" "h_conns h' = (h_conns h)(n \<mapsto> i)" "h_delayed h' = h_delayed h"
  shows "conns_inv h'"
  unfolding conns_inv_def
proof (intro conjI allI impI ballI)
  fix m k assume "h_conns h' m = Some k"
  then consider "m = n" "k = i" | "m \<noteq> n" "h_conns h m = Some k" by (auto simp: h' split: if_splits)
  then have "k < length (h_acs h') \<and> ac_NodeID (h_acs h' ! k) = m \<and> \<not> ac_pendingAuth (h_acs h' ! k) \<and> ac_reading (h_acs h' ! k)"
  proof cases
    case 1
    then show ?thesis using inv(2) a by (simp add: acs h')
  next
    case 2
    then have "k < length (h_acs h)" "ac_NodeID (h_acs h ! k) = m" "\<not> ac_pendingAuth (h_acs h ! k)" "ac_reading (h_acs h ! k)"
      using inv(1) by (auto simp: conns_inv_def)
    then show ?thesis using 2 a(1) by (auto simp: acs h')
  qed
  then show "k < length (h_acs h')" "ac_NodeID (h_acs h' ! k) = m" "\<not> ac_pendingAuth (h_acs h' ! k)" "ac_reading (h_acs h' ! k)" by simp_all
next
  fix k assume k: "k < length (h_acs h')" "\<not> ac_pendingAuth (h_acs h' ! k)"
  show "ac_closed (h_acs h' ! k) \<or> h_conns h' (ac_NodeID (h_acs h' ! k)) = Some k"
  proof (cases "k = i")
    case False
    then have "ac_closed (h_acs h ! k) \<or> h_conns h (ac_NodeID (h_acs h ! k)) = Some k"
      using k inv(1) by (auto simp: conns_inv_def acs h' split: if_splits)
    with False show ?thesis by (auto simp: acs h')
  qed (simp add: acs h' a)
next
  fix x assume "x \<in> set (h_delayed h')"
  then have "fst x < length (h_acs h) \<and> \<not> ac_pendingAuth (h_acs h ! fst x)"
    using inv(1) by (auto simp: h' conns_inv_def)
  then show "case x of (k, d) \<Rightarrow> k < length (h_acs h') \<and> \<not> ac_pendingAuth (h_acs h' ! k)" by (auto simp: acs h' split: prod.splits)
qed

lemma inv_activated:
  assumes inv: "hub_inv X h" "i < length (h_acs h)" and a: "ac_pendingAuth (h_acs h ! i)" "ac_encrypted (h_acs h ! i)" "ac_reading (h_acs h ! i)"
  defines "n \<equiv> ac_NodeID (h_acs h ! i)"
  defines "h1 \<equiv> conn_upd i (\<lambda>a. a\<lparr>ac_pendingAuth := False\<rparr>) h"
  defines "h2 \<equiv> (case h_conns h n of Some j \<Rightarrow> conn_upd j (\<lambda>a. a\<lparr>ac_closed := True\<rparr>) h1 | None \<Rightarrow> h1)"
  shows "hub_inv X (h2\<lparr>h_conns := (h_conns h)(n \<mapsto> i)\<rparr>)"
proof -
  note c = hub_inv_conn [OF inv(1)]
  have tab: "\<And>j. h_conns h n = Some j \<Longrightarrow> j < length (h_acs h) \<and> j \<noteq> i"
    using hub_inv_in_table [OF inv(1)] a(1) by blast
  have acs: "h_acs h2 ! k = (if k = i then (h_acs h ! i)\<lparr>ac_pendingAuth := False\<rparr>
      else if h_conns h n = Some k then (h_acs h ! k)\<lparr>ac_closed := True\<rparr> else h_acs h ! k)"
    and len: "length (h_acs h2) = length (h_acs h)" for k
    using tab inv(2) by (auto simp: h2_def h1_def split: option.splits)
  have rest: "h_delayed h2 = h_delayed h" "h_ents h2 = h_ents h" "h_nodeUpd h2 = h_nodeUpd h" "h_panicked h2 = h_panicked h"
    "h_centerKeyPair h2 = h_centerKeyPair h"
    by (simp_all add: h2_def h1_def split: option.splits)
  have "conn_inv X (h_acs h2 ! k)" if "k < length (h_acs h)" for k
    using c [OF that] c [OF inv(2)] a(2) by (simp add: acs conn_inv_closed conn_inv_auth)
  then have "\<forall>b \<in> set (h_acs h2). conn_inv X b" by (auto simp: in_set_conv_nth len)
  moreover have "conns_inv (h2\<lparr>h_conns := (h_conns h)(n \<mapsto> i)\<rparr>)"
    by (rule conns_inv_activated [of h i n]) (use inv a acs len rest in \<open>auto simp: hub_inv_def n_def\<close>)
  moreover have "ents_inv h2" using inv(1) rest by (simp add: hub_inv_def ents_inv_def)
  moreover have "keyInits_inv X h2"
    unfolding keyInits_inv_def using hub_inv_keyInit [OF inv(1)] by (auto simp: in_set_conv_nth len acs rest)
  ultimately show ?thesis by (simp add: hub_inv_def ents_inv_def keyInits_inv_def)
qed

lemma inv_ent_upd:
  assumes "hub_inv X h" "e < length (h_ents h)" "ue_NodeID (f (h_ents h ! e)) = ue_NodeID (h_ents h ! e)"
    "ue_done (f (h_ents h ! e)) = ue_done (h_ents h ! e)" "length (ue_ch (f (h_ents h ! e))) \<le> 4"
  shows "hub_inv X (ent_upd e f h)"
  using assms by (auto simp: hub_inv_def conns_inv_def ents_inv_def keyInits_inv_def)

lemma hwp_try_push:
  assumes "hub_inv X h" "e < length (h_ents h)"
    and "\<And>ok h'. hub_inv X h' \<Longrightarrow> h_acs h' = h_acs h \<Longrightarrow> h_conns h' = h_conns h \<Longrightarrow> h_nodeUpd h' = h_nodeUpd h \<Longrightarrow> Q ok (h', w)"
  shows "hwp (try_push e v) Q (h, w)"
  using assms(3) [OF inv_ent_upd [OF assms(1,2), of "\<lambda>x. x\<lparr>ue_ch := ue_ch x @ [v]\<rparr>"], of True] assms(3) [OF assms(1), of False]
  by (auto simp: hwp_def try_push_def)

lemma inv_nodeUpd:
  "hub_inv X h \<Longrightarrow> h_nodeUpd h n = Some e \<Longrightarrow> e < length (h_ents h) \<and> \<not> ue_done (h_ents h ! e) \<and> ue_NodeID (h_ents h ! e) = n"
  by (simp add: hub_inv_def ents_inv_def)

lemma hwp_Activate:
  assumes inv: "hub_inv X h" "i < length (h_acs h)" "ac_encrypted (h_acs h ! i)" "ac_reading (h_acs h ! i)"
    and Q: "\<And>h'. hub_inv X h' \<Longrightarrow> length (h_acs h') = length (h_acs h) \<Longrightarrow> auth_of h' = (auth_of h)[i := False] \<Longrightarrow> Q () (h', w)"
  shows "hwp (Activate i) Q (h, w)"
proof (cases "ac_pendingAuth (h_acs h ! i)")
  case False
  then have "(auth_of h)[i := False] = auth_of h" using inv(2) by (simp add: auth_of_def list_update_same_conv)
  with False Q [OF inv(1) refl] show ?thesis by (simp add: Activate_def get_conn_def hgets_def hwp_def)
next
  case True
  let ?n = "ac_NodeID (h_acs h ! i)"
  let ?h1 = "conn_upd i (\<lambda>a. a\<lparr>ac_pendingAuth := False\<rparr>) h"
  let ?h2 = "case h_conns h ?n of Some j \<Rightarrow> conn_upd j (\<lambda>a. a\<lparr>ac_closed := True\<rparr>) ?h1 | None \<Rightarrow> ?h1"
  let ?h3 = "?h2\<lparr>h_conns := (h_conns h)(?n \<mapsto> i)\<rparr>"
  have inv3: "hub_inv X ?h3" by (rule inv_activated [OF inv(1,2) True inv(3,4)])
  have len: "length (h_acs ?h3) = length (h_acs h)" by (simp split: option.splits)
  have j: "\<And>j. h_conns h ?n = Some j \<Longrightarrow> j \<noteq> i \<and> j < length (h_acs h)" using hub_inv_in_table [OF inv(1)] True by blast
  have "auth_of ?h1 = (auth_of h)[i := False]" by (simp add: auth_of_def conn_upd_def map_update)
  then have auth: "auth_of ?h3 = (auth_of h)[i := False]" using j inv(2) by (auto split: option.split)
  let ?tail = "do { ent \<leftarrow> hgets (\<lambda>h. h_nodeUpd h ?n); _ \<leftarrow> (case ent of Some e \<Rightarrow> try_push e True | None \<Rightarrow> hret True); hret () }"
  have tail: "hwp ?tail Q (?h3, w)"
  proof (intro hwp_rules)
    show "Q () (?h3, w)" by (rule Q [OF inv3 len auth])
    fix e assume "h_nodeUpd ?h3 ?n = Some e"
    then have e: "e < length (h_ents ?h3)" using inv_nodeUpd [OF inv3] by blast
    show "hwp (try_push e True) (\<lambda>_. hwp (hret ()) Q) (?h3, w)"
    proof (rule hwp_try_push [OF inv3 e])
      fix ok h' assume h': "hub_inv X h'" "h_acs h' = h_acs ?h3"
      have "auth_of h' = auth_of ?h3" by (rule auth_of_same [OF h'(2)])
      with h' len auth show "hwp (hret ()) Q (h', w)" by (intro hwp_ret Q) (simp_all only:)
    qed
  qed
  have "run_state (Activate i) (h, w) = run_state ?tail (?h3, w)"
    using True j by (cases "h_conns h ?n") (auto simp: Activate_def get_conn_def hgets_def hmodify_def ac_Close_def)
  with tail show ?thesis by (simp add: hwp_def)
qed

lemma conns_inv_unlist:
  assumes "conns_inv h" "h_conns h n = Some i" "ac_closed (h_acs h ! i)"
  shows "conns_inv (h\<lparr>h_conns := (h_conns h)(n := None)\<rparr>)"
  unfolding conns_inv_def
proof (intro conjI allI impI)
  fix k assume "k < length (h_acs (h\<lparr>h_conns := (h_conns h)(n := None)\<rparr>))" "\<not> ac_pendingAuth (h_acs (h\<lparr>h_conns := (h_conns h)(n := None)\<rparr>) ! k)"
  then have "ac_closed (h_acs h ! k) \<or> h_conns h (ac_NodeID (h_acs h ! k)) = Some k" using assms(1) by (simp add: conns_inv_def)
  with assms(2,3) show "ac_closed (h_acs (h\<lparr>h_conns := (h_conns h)(n := None)\<rparr>) ! k)
      \<or> h_conns (h\<lparr>h_conns := (h_conns h)(n := None)\<rparr>) (ac_NodeID (h_acs (h\<lparr>h_conns := (h_conns h)(n := None)\<rparr>) ! k)) = Some k" by auto
qed (use assms(1) in \<open>auto simp: conns_inv_def split: if_splits\<close>)

lemma inv_unlist:
  assumes "hub_inv X h" "h_conns h n = Some i" "ac_closed (h_acs h ! i)"
  shows "hub_inv X (h\<lparr>h_conns := (h_conns h)(n := None)\<rparr>)"
  using assms conns_inv_unlist [OF _ assms(2,3)] by (simp add: hub_inv_def ents_inv_def keyInits_inv_def)

lemma inv_new_conn: "hub_inv X h \<Longrightarrow> hub_inv X (h\<lparr>h_acs := h_acs h @ [new_conn n]\<rparr>)"
  by (auto simp: hub_inv_def conns_inv_def ents_inv_def keyInits_inv_def nth_append new_conn_def conn_inv_def less_Suc_eq)

lemma inv_drop_ent:
  assumes "hub_inv X h" "h_nodeUpd h n = Some e"
  shows "hub_inv X ((ent_upd e (\<lambda>x. x\<lparr>ue_done := True\<rparr>) h)\<lparr>h_nodeUpd := (h_nodeUpd h)(n := None)\<rparr>)" (is "hub_inv X ?h")
proof -
  have e: "e < length (h_ents h)" "ue_NodeID (h_ents h ! e) = n" using inv_nodeUpd [OF assms] by simp_all
  have inv: "ents_inv h" "conns_inv h" "\<forall>a \<in> set (h_acs h). conn_inv X a" "keyInits_inv X h" using assms(1) by (simp_all add: hub_inv_def)
  have "ents_inv ?h"
    unfolding ents_inv_def
  proof (intro conjI allI impI)
    fix m k assume "h_nodeUpd ?h m = Some k"
    then have "m \<noteq> n" "h_nodeUpd h m = Some k" by (auto split: if_splits)
    moreover from this have "k \<noteq> e" using inv(1) e(2) by (auto simp: ents_inv_def)
    ultimately show "k < length (h_ents ?h)" "ue_NodeID (h_ents ?h ! k) = m" "\<not> ue_done (h_ents ?h ! k)"
      using inv(1) e(1) by (simp_all add: ents_inv_def)
  qed (use inv(1) e(1) in \<open>auto simp: ents_inv_def\<close>)
  moreover have "conns_inv ?h" using inv(2) by (simp add: conns_inv_def)
  moreover have "keyInits_inv X ?h" using inv(4) by (simp add: keyInits_inv_def)
  ultimately show ?thesis using inv(3) by (simp add: hub_inv_def)
qed

lemma inv_forget_ent: "hub_inv X h \<Longrightarrow> hub_inv X (h\<lparr>h_nodeUpd := (h_nodeUpd h)(n := None)\<rparr>)"
  by (auto simp: hub_inv_def ents_inv_def conns_inv_def keyInits_inv_def)

lemma inv_new_ent:
  assumes "hub_inv X h" "h_nodeUpd h n = None"
  shows "hub_inv X (h\<lparr>h_nodeUpd := (h_nodeUpd h)(n \<mapsto> length (h_ents h)), h_ents := h_ents h @ [\<lparr>ue_NodeID = n, ue_ch = [], ue_done = False, ue_running = True\<rparr>]\<rparr>)"
  using assms by (auto simp: hub_inv_def conns_inv_def ents_inv_def keyInits_inv_def nth_append less_Suc_eq)

lemma hwp_close_done:
  "\<not> ue_done (h_ents h ! e) \<Longrightarrow> Q () (ent_upd e (\<lambda>x. x\<lparr>ue_done := True\<rparr>) h, w) \<Longrightarrow> hwp (close_done e) Q (h, w)"
  by (simp add: hwp_def close_done_def hmodify_def)

text \<open>The two halves of \<^verbatim>\<open>Register\<close>: dropping the connection in the table, and replacing the entry.\<close>

lemma hwp_unlist:
  assumes "hub_inv X h" and Q: "\<And>h'. hub_inv X h' \<Longrightarrow> auth_of h' = auth_of h \<Longrightarrow> length (h_acs h') = length (h_acs h) \<Longrightarrow> Q () (h', w)"
  shows "hwp (case h_conns h n of Some j \<Rightarrow> do { ac_Close j; hmodify (\<lambda>h. h\<lparr>h_conns := (h_conns h)(n := None)\<rparr>) } | None \<Rightarrow> hret ()) Q (h, w)"
proof (intro hwp_rules)
  fix j assume j: "h_conns h n = Some j"
  then have l: "j < length (h_acs h)" using hub_inv_in_table [OF assms(1)] by blast
  then have "hub_inv X ((conn_upd j (\<lambda>a. a\<lparr>ac_closed := True\<rparr>) h)\<lparr>h_conns := (h_conns (conn_upd j (\<lambda>a. a\<lparr>ac_closed := True\<rparr>) h))(n := None)\<rparr>)"
    by (intro inv_unlist [OF inv_close [OF assms(1)], of j n j]) (simp_all add: j)
  then show "Q () ((conn_upd j (\<lambda>a. a\<lparr>ac_closed := True\<rparr>) h)\<lparr>h_conns := (h_conns (conn_upd j (\<lambda>a. a\<lparr>ac_closed := True\<rparr>) h))(n := None)\<rparr>, w)"
    by (rule Q) (simp_all add: l)
qed (use Q assms(1) in simp)

definition replace_ent :: "string \<Rightarrow> unit H" where
  "replace_ent n = do {
     old \<leftarrow> hgets (\<lambda>h. h_nodeUpd h n);
     _ \<leftarrow> (case old of Some e \<Rightarrow> close_done e | None \<Rightarrow> hret ());
     hmodify (\<lambda>h. h\<lparr>h_nodeUpd := (h_nodeUpd h)(n \<mapsto> length (h_ents h)),
       h_ents := h_ents h @ [\<lparr>ue_NodeID = n, ue_ch = [], ue_done = False, ue_running = True\<rparr>]\<rparr>)
   }"

lemma hwp_replace_ent:
  assumes inv: "hub_inv X h" and Q: "\<And>h'. hub_inv X h' \<Longrightarrow> h_acs h' = h_acs h \<Longrightarrow> Q () (h', w)"
  shows "hwp (replace_ent n) Q (h, w)"
  unfolding replace_ent_def
proof (intro hwp_rules)
  let ?ent = "\<lparr>ue_NodeID = n, ue_ch = [], ue_done = False, ue_running = True\<rparr>"
  assume "h_nodeUpd h n = None"
  then show "Q () (h\<lparr>h_nodeUpd := (h_nodeUpd h)(n \<mapsto> length (h_ents h)), h_ents := h_ents h @ [?ent]\<rparr>, w)"
    by (intro Q inv_new_ent [OF inv]) simp_all
next
  let ?ent = "\<lparr>ue_NodeID = n, ue_ch = [], ue_done = False, ue_running = True\<rparr>"
  fix e assume e: "h_nodeUpd h n = Some e"
  let ?h1 = "(ent_upd e (\<lambda>x. x\<lparr>ue_done := True\<rparr>) h)\<lparr>h_nodeUpd := (h_nodeUpd h)(n := None)\<rparr>"
  have "hub_inv X (?h1\<lparr>h_nodeUpd := (h_nodeUpd ?h1)(n \<mapsto> length (h_ents ?h1)), h_ents := h_ents ?h1 @ [?ent]\<rparr>)"
    by (rule inv_new_ent [OF inv_drop_ent [OF inv e]]) simp
  then show "hwp (close_done e) (\<lambda>r. hwp (hmodify (\<lambda>h. h\<lparr>h_nodeUpd := (h_nodeUpd h)(n \<mapsto> length (h_ents h)), h_ents := h_ents h @ [?ent]\<rparr>)) Q) (h, w)"
    using inv_nodeUpd [OF inv e] by (intro hwp_close_done hwp_hmodify Q) simp_all
qed

lemma Register_halves:
  "Register n = do {
     existing \<leftarrow> hgets (\<lambda>h. h_conns h n);
     _ \<leftarrow> (case existing of Some j \<Rightarrow> do { ac_Close j; hmodify (\<lambda>h. h\<lparr>h_conns := (h_conns h)(n := None)\<rparr>) } | None \<Rightarrow> hret ());
     i \<leftarrow> hgets (\<lambda>h. length (h_acs h));
     hmodify (\<lambda>h. h\<lparr>h_acs := h_acs h @ [new_conn n]\<rparr>);
     replace_ent n;
     hret i
   }"
  by (simp add: Register_def replace_ent_def State_Monad.bind_assoc)

lemma hwp_Register:
  assumes inv: "hub_inv X h"
    and Q: "\<And>h'. hub_inv X h' \<Longrightarrow> auth_of h' = auth_of h @ [True] \<Longrightarrow> length (h_acs h') = Suc (length (h_acs h)) \<Longrightarrow> h_acs h' ! length (h_acs h) = new_conn n \<Longrightarrow> Q (length (h_acs h)) (h', w)"
  shows "hwp (Register n) Q (h, w)"
  unfolding Register_halves
  by (intro hwp_bind hwp_hgets hwp_unlist [OF inv] hwp_hmodify hwp_replace_ent [OF inv_new_conn] hwp_ret)
     (auto intro!: Q simp: nth_append auth_of_def new_conn_def)

section \<open>Every operation keeps the invariant\<close>

definition kept :: "channel_lib \<Rightarrow> hub \<Rightarrow> 'a \<Rightarrow> center \<Rightarrow> bool" where
  "kept X h r s \<longleftrightarrow> hub_inv X (fst s) \<and> auth_of (fst s) = auth_of h"

lemma keptI: "hub_inv X h' \<Longrightarrow> auth_of h' = auth_of h \<Longrightarrow> kept X h r (h', w)"
  by (simp add: kept_def)

text \<open>The two halves of \<^verbatim>\<open>Unregister\<close>: the connection, and the notice that the node is offline.\<close>

definition drop_conn :: "string \<Rightarrow> nat \<Rightarrow> unit H" where
  "drop_conn n i = do {
     cur \<leftarrow> hgets (\<lambda>h. h_conns h n);
     _ \<leftarrow> (if cur = Some i then do { ac_Close i; hmodify (\<lambda>h. h\<lparr>h_conns := (h_conns h)(n := None)\<rparr>) } else hret ());
     a \<leftarrow> get_conn i;
     if ac_pendingAuth a then ac_Close i else hret ()
   }"

definition tell_offline :: "string \<Rightarrow> unit H" where
  "tell_offline n = do {
     ent \<leftarrow> hgets (\<lambda>h. h_nodeUpd h n);
     case ent of None \<Rightarrow> hret () | Some e \<Rightarrow> do {
       queued \<leftarrow> try_push e False;
       if queued then hret ()
       else do { _ \<leftarrow> liftW (nodes_SetAgentState n ''offline''); _ \<leftarrow> liftW (notifyNodeOffline n True); close_done e;
         hmodify (\<lambda>h. h\<lparr>h_nodeUpd := (h_nodeUpd h)(n := None)\<rparr>) } }
   }"

lemma Unregister_halves: "Unregister n i = do { _ \<leftarrow> drop_conn n i; tell_offline n }"
  by (simp add: Unregister_def drop_conn_def tell_offline_def State_Monad.bind_assoc)

lemma hwp_tell_offline:
  assumes inv: "hub_inv X h" and Q: "\<And>h' w'. hub_inv X h' \<Longrightarrow> h_acs h' = h_acs h \<Longrightarrow> h_conns h' = h_conns h \<Longrightarrow> auth_of h' = auth_of h \<Longrightarrow> Q () (h', w')"
  shows "hwp (tell_offline n) Q (h, w)"
  unfolding tell_offline_def
proof (intro hwp_rules)
  fix e assume e: "h_nodeUpd h n = Some e"
  show "hwp (try_push e False) (\<lambda>r. hwp (if r then hret () else do { _ \<leftarrow> liftW (nodes_SetAgentState n ''offline'');
      _ \<leftarrow> liftW (notifyNodeOffline n True); close_done e; hmodify (\<lambda>h. h\<lparr>h_nodeUpd := (h_nodeUpd h)(n := None)\<rparr>) }) Q) (h, w)"
  proof (rule hwp_try_push [OF inv])
    fix ok h3 assume h3: "hub_inv X h3" "h_acs h3 = h_acs h" "h_conns h3 = h_conns h" "h_nodeUpd h3 = h_nodeUpd h"
    have "hub_inv X ((ent_upd e (\<lambda>x. x\<lparr>ue_done := True\<rparr>) h3)\<lparr>h_nodeUpd := (h_nodeUpd h3)(n := None)\<rparr>)"
      by (rule inv_drop_ent [OF h3(1)]) (simp add: h3 e)
    then show "hwp (if ok then hret () else do { _ \<leftarrow> liftW (nodes_SetAgentState n ''offline'');
        _ \<leftarrow> liftW (notifyNodeOffline n True); close_done e; hmodify (\<lambda>h. h\<lparr>h_nodeUpd := (h_nodeUpd h)(n := None)\<rparr>) }) Q (h3, w)"
      using inv_nodeUpd [OF h3(1), of n e] h3 e auth_of_same [OF h3(2)] by (intro hwp_rules hwp_close_done Q) simp_all
  qed (use inv_nodeUpd [OF inv e] in simp)
qed (use Q inv in simp)

lemma hwp_drop_conn:
  assumes inv: "hub_inv X h" "i < length (h_acs h)" and n: "ac_NodeID (h_acs h ! i) = n"
    and Q: "\<And>h'. hub_inv X h' \<Longrightarrow> auth_of h' = auth_of h \<Longrightarrow> length (h_acs h') = length (h_acs h) \<Longrightarrow> h_conns h' n \<noteq> Some i \<Longrightarrow> ac_closed (h_acs h' ! i) \<Longrightarrow>
      ac_keyInit (h_acs h' ! i) = ac_keyInit (h_acs h ! i) \<Longrightarrow> ac_NodeID (h_acs h' ! i) = n \<Longrightarrow> Q () (h', w)"
  shows "hwp (drop_conn n i) Q (h, w)"
proof (cases "h_conns h n = Some i")
  case True
  let ?h1 = "conn_upd i (\<lambda>a. a\<lparr>ac_closed := True\<rparr>) h"
  have "hub_inv X (?h1\<lparr>h_conns := (h_conns ?h1)(n := None)\<rparr>)"
    by (rule inv_unlist [OF inv_close [OF inv], of n i]) (simp_all add: True inv(2))
  moreover have "\<not> ac_pendingAuth (h_acs h ! i)" using hub_inv_in_table [OF inv(1) True] by simp
  ultimately show ?thesis using True inv(2)
    unfolding drop_conn_def by (intro hwp_rules) (auto simp: n intro!: Q hwp_rules)
next
  case False
  have "ac_closed (h_acs h ! i)" if "\<not> ac_pendingAuth (h_acs h ! i)"
    using inv n that False by (auto simp: hub_inv_def conns_inv_def)
  with False show ?thesis using inv n
    unfolding drop_conn_def by (intro hwp_rules) (auto intro!: Q inv_close)
qed

lemma inv_reading_off:
  assumes inv: "hub_inv X h" "i < length (h_acs h)"
    and i: "ac_closed (h_acs h ! i)" "h_conns h (ac_NodeID (h_acs h ! i)) \<noteq> Some i" "ac_keyInit (h_acs h ! i) = None"
  shows "hub_inv X (conn_upd i (\<lambda>a. a\<lparr>ac_reading := False\<rparr>) h)" (is "hub_inv X ?h")
proof -
  have "conn_inv X ((h_acs h ! i)\<lparr>ac_reading := False\<rparr>)" using hub_inv_conn [OF inv] i by (auto simp: conn_inv_def)
  then have "\<forall>a \<in> set (h_acs ?h). conn_inv X a" using hub_inv_conn [OF inv(1)] inv(2) by (auto simp: in_set_conv_nth)
  moreover have "conns_inv ?h"
    unfolding conns_inv_def
  proof (intro conjI allI impI)
    fix m k assume "h_conns ?h m = Some k"
    then have k: "h_conns h m = Some k" by simp
    then have "k < length (h_acs h)" "ac_NodeID (h_acs h ! k) = m" "\<not> ac_pendingAuth (h_acs h ! k)" "ac_reading (h_acs h ! k)"
      using inv(1) by (auto simp: hub_inv_def conns_inv_def)
    moreover have "k \<noteq> i" using k calculation(2) i(2) by auto
    ultimately show "k < length (h_acs ?h)" "ac_NodeID (h_acs ?h ! k) = m" "\<not> ac_pendingAuth (h_acs ?h ! k)" "ac_reading (h_acs ?h ! k)"
      using inv(2) by simp_all
  qed (use inv in \<open>auto simp: hub_inv_def conns_inv_def split: if_splits\<close>)
  moreover have "ents_inv ?h" using inv(1) by (simp add: hub_inv_def ents_inv_def)
  moreover have "keyInits_inv X ?h"
    unfolding keyInits_inv_def using hub_inv_keyInit [OF inv(1)] inv(2) by (auto simp: in_set_conv_nth)
  ultimately show ?thesis by (simp add: hub_inv_def)
qed

lemma read_end_kept:
  assumes inv: "hub_inv X h" "i < length (h_acs h)" "ac_keyInit (h_acs h ! i) = None"
  shows "hwp (read_end i) (kept X h) (h, w)"
  unfolding read_end_def Unregister_halves
  by (intro hwp_bind hwp_get_conn hwp_drop_conn [OF inv(1,2) refl] hwp_tell_offline hwp_hmodify keptI inv_reading_off)
     (use inv in auto)

lemma drain_stop_kept: "hub_inv X h \<Longrightarrow> e < length (h_ents h) \<Longrightarrow> hwp (drain_stop e) (kept X h) (h, w)"
  unfolding drain_stop_def by (intro hwp_rules keptI inv_ent_upd) (auto simp: hub_inv_def ents_inv_def)

lemma drain_take_kept:
  assumes inv: "hub_inv X h" "e < length (h_ents h)"
  shows "hwp (drain_take e) (kept X h) (h, w)"
proof -
  let ?h1 = "ent_upd e (\<lambda>x. x\<lparr>ue_ch := tl (ue_ch x)\<rparr>) h"
  have l: "length (ue_ch (h_ents h ! e)) \<le> 4" using inv by (simp add: hub_inv_def ents_inv_def)
  then have inv1: "hub_inv X ?h1" by (intro inv_ent_upd [OF inv]) simp_all
  have stop: "hub_inv X (ent_upd e (\<lambda>x. x\<lparr>ue_running := False\<rparr>) h')" if "hub_inv X h'" "e < length (h_ents h')" for h'
    using that by (intro inv_ent_upd) (auto simp: hub_inv_def ents_inv_def)
  show ?thesis
    unfolding drain_take_def drain_stop_def
    by (intro hwp_rules keptI stop) (use inv1 inv(2) inv_forget_ent [OF inv1] in auto)
qed

text \<open>Updates of one connection.\<close>

lemma queue_kept:
  assumes "hub_inv X h" "i < length (h_acs h)" "\<not> ac_pendingAuth (h_acs h ! i)"
  shows "hub_inv X (conn_upd i (\<lambda>a. a\<lparr>ac_sendCh := q a\<rparr>) h)" "hub_inv X (conn_upd i (\<lambda>a. a\<lparr>ac_pending := p a\<rparr>) h)"
  by (rule inv_conn_upd; use assms hub_inv_conn [OF assms(1,2)] in \<open>auto simp: mild_def conn_inv_def\<close>)+

lemma hwp_enqueue:
  assumes "hub_inv X h" "i < length (h_acs h)" "\<not> ac_pendingAuth (h_acs h ! i)"
    and "\<And>ok h'. hub_inv X h' \<Longrightarrow> auth_of h' = auth_of h \<Longrightarrow> length (h_acs h') = length (h_acs h) \<Longrightarrow> h_conns h' = h_conns h \<Longrightarrow> h_delayed h' = h_delayed h \<Longrightarrow>
      \<not> ac_pendingAuth (h_acs h' ! i) \<Longrightarrow> Q ok (h', w)"
  shows "hwp (enqueue i d) Q (h, w)"
  using assms(4) [OF queue_kept(1) [OF assms(1-3), of "\<lambda>a. ac_sendCh a @ [d]"], of True] assms(4) [OF assms(1), of False] assms(2,3)
  by (auto simp: hwp_def enqueue_def)

lemma DeliverResponse_kept:
  assumes "hub_inv X h" "i < length (h_acs h)"
  shows "hwp (DeliverResponse i m) (kept X h) (h, w)"
  unfolding DeliverResponse_def
proof (intro hwp_rules keptI inv_conn_upd [OF assms])
  let ?f = "\<lambda>a. case map_of (ac_pending a) (msg_ID m) of Some None \<Rightarrow> a\<lparr>ac_pending := set_pending (msg_ID m) (Some m) (ac_pending a)\<rparr> | _ \<Rightarrow> a"
  show "mild (h_acs h ! i) (?f (h_acs h ! i))" by (simp add: mild_def split: option.split)
  show "conn_inv X (?f (h_acs h ! i))"
    using hub_inv_conn [OF assms] by (auto simp: conn_inv_def split: option.split)
  show "auth_of (conn_upd i ?f h) = auth_of h" using assms(2) by (intro auth_of_upd) (auto split: option.split)
qed (simp split: option.split)

lemma send_finish_kept:
  assumes inv: "hub_inv X h" "i < length (h_acs h)"
  shows "hwp (send_finish i r k) (kept X h) (h, w)"
  unfolding send_finish_def
  by (intro hwp_rules keptI inv_conn_upd [OF inv]) (use hub_inv_conn [OF inv] inv(2) in \<open>auto simp: mild_def conn_inv_def\<close>)

lemma send_start_kept:
  assumes inv: "hub_inv X h"
  shows "hwp (send_start X n t p) (kept X h) (h, w)"
proof (cases "h_conns h n")
  case None
  then show ?thesis unfolding send_start_def by (intro hwp_rules) (simp_all add: kept_def inv)
next
  case (Some i)
  then have t: "i < length (h_acs h)" "\<not> ac_pendingAuth (h_acs h ! i)" using hub_inv_in_table [OF inv] by simp_all
  show ?thesis
    unfolding send_start_def
    by (intro hwp_rules hwp_enqueue [where X = X]) (auto simp: Some t inv intro!: keptI queue_kept(2) hwp_rules)
qed

lemma sealed_Encrypt [intro]: "run_state (Encrypt X k d) w = (Some ct, w') \<Longrightarrow> frame_ok X (BinaryMessage ct)"
  by (erule Encrypt_shape) (auto simp: frame_ok_def sealed_text_def)

lemma write_next_kept:
  assumes inv: "hub_inv X h" "i < length (h_acs h)"
  shows "hwp (write_next X i) (kept X h) (h, w)"
proof (cases "ac_sendCh (h_acs h ! i)")
  case Nil
  then show ?thesis unfolding write_next_def by (intro hwp_bind hwp_get_conn) (simp add: hwp_ret kept_def inv)
next
  case (Cons d rest)
  then obtain key where c: "\<not> ac_pendingAuth (h_acs h ! i)" "ac_encrypted (h_acs h ! i)" "ac_aead (h_acs h ! i) = Some key"
    using hub_inv_conn [OF inv] by (auto simp: conn_inv_def)
  have inv1: "hub_inv X (conn_upd i (\<lambda>a. a\<lparr>ac_sendCh := rest\<rparr>) h)" by (rule queue_kept(1) [OF inv c(1)])
  show ?thesis
    unfolding write_next_def
    by (rule hwp_bind, rule hwp_get_conn) (auto simp: Cons c inv(2) intro!: hwp_rules keptI inv_close inv1 hwp_conn_write [OF inv1] sealed_Encrypt)
qed

lemma write_ping_kept:
  assumes inv: "hub_inv X h" "i < length (h_acs h)"
  shows "hwp (write_ping i) (kept X h) (h, w)"
  unfolding write_ping_def
  by (intro hwp_rules hwp_conn_write [OF inv]) (auto simp: inv frame_ok_def intro!: hwp_rules keptI inv_close)

lemma inv_delayed:
  assumes "hub_inv X h" "\<forall>(i, d) \<in> set ds. i < length (h_acs h) \<and> \<not> ac_pendingAuth (h_acs h ! i)"
  shows "hub_inv X (h\<lparr>h_delayed := ds\<rparr>)"
  using assms by (simp add: hub_inv_def conns_inv_def ents_inv_def keyInits_inv_def)

lemma hub_inv_delayed: "hub_inv X h \<Longrightarrow> (i, d) \<in> set (h_delayed h) \<Longrightarrow> i < length (h_acs h) \<and> \<not> ac_pendingAuth (h_acs h ! i)"
  by (auto simp: hub_inv_def conns_inv_def)

lemma pushPeersSync_kept:
  assumes inv: "hub_inv X h" "i < length (h_acs h)" "\<not> ac_pendingAuth (h_acs h ! i)"
  shows "hwp (pushPeersSync X i) (kept X h) (h, w)"
  unfolding pushPeersSync_def
proof (intro hwp_rules hwp_enqueue [OF inv])
  fix ok h' assume h': "hub_inv X h'" "auth_of h' = auth_of h" "length (h_acs h') = length (h_acs h)" "h_delayed h' = h_delayed h" "\<not> ac_pendingAuth (h_acs h' ! i)"
  show "kept X h () (h', w')" for w' using h' by (simp add: kept_def)
  show "kept X h () (h'\<lparr>h_delayed := h_delayed h' @ [(i, d)]\<rparr>, w')" for d w'
    using h' inv(2) hub_inv_delayed [OF h'(1)] by (intro keptI inv_delayed) auto
qed

lemma delayed_send_kept:
  assumes inv: "hub_inv X h" "k < length (h_delayed h)"
  shows "hwp (delayed_send k) (kept X h) (h, w)"
proof -
  let ?h1 = "h\<lparr>h_delayed := take k (h_delayed h) @ drop (Suc k) (h_delayed h)\<rparr>"
  have d: "fst (h_delayed h ! k) < length (h_acs h)" "\<not> ac_pendingAuth (h_acs h ! fst (h_delayed h ! k))"
    using hub_inv_delayed [OF inv(1), of "fst (h_delayed h ! k)" "snd (h_delayed h ! k)"] inv(2) by simp_all
  have "\<forall>(i, d) \<in> set (take k (h_delayed h) @ drop (Suc k) (h_delayed h)). i < length (h_acs h) \<and> \<not> ac_pendingAuth (h_acs h ! i)"
    using hub_inv_delayed [OF inv(1)] by (auto dest: in_set_takeD in_set_dropD)
  then have inv1: "hub_inv X ?h1" by (rule inv_delayed [OF inv(1)])
  show ?thesis
    unfolding delayed_send_def
    by (intro hwp_rules hwp_enqueue [OF inv1]) (auto simp: d kept_def)
qed

lemma handlePeersSync_kept:
  "hub_inv X h \<Longrightarrow> i < length (h_acs h) \<Longrightarrow> hwp (handlePeersSync X i) (kept X h) (h, w)"
  unfolding handlePeersSync_def by (intro hwp_rules pushPeersSync_kept) (simp_all add: kept_def)

lemma TriggerPeersSync_kept:
  assumes "hub_inv X h"
  shows "hwp (TriggerPeersSync X n) (kept X h) (h, w)"
  unfolding TriggerPeersSync_def
  by (intro hwp_rules hwp_mono [OF pushPeersSync_kept [OF assms]]) (use hub_inv_in_table [OF assms, of n] assms in \<open>auto simp: kept_def hwp_def\<close>)

text \<open>The handshake.\<close>

lemma ack_frames [simp]:
  "frame_ok X (TextMessage (x_marshal X (enc_Message (new_message ''key.init_ack'' p))))"
  "frame_ok X (TextMessage (x_marshal X (enc_Message (new_message ''key.init_ack'' p\<lparr>msg_Error := e\<rparr>))))"
  "frame_ok X (TextMessage (x_marshal X (enc_Message (new_message ''key.auth_ack'' p))))"
  unfolding frame_ok_def ack_text_def frame.case by (rule exI, rule conjI [OF refl], simp add: new_message_def)+

lemma inv_encrypted:
  assumes "hub_inv X h" "i < length (h_acs h)"
  shows "hub_inv X (conn_upd i (\<lambda>a. a\<lparr>ac_aead := Some k, ac_encrypted := True\<rparr>) h)"
  by (rule inv_conn_upd [OF assms]) (use hub_inv_conn [OF assms] in \<open>auto simp: mild_def conn_inv_def\<close>)

text \<open>Enabling encryption and activating, after an answer that went out. Only the connection itself becomes
  authenticated.\<close>

definition kept_but :: "channel_lib \<Rightarrow> hub \<Rightarrow> nat \<Rightarrow> bool \<Rightarrow> 'a \<Rightarrow> center \<Rightarrow> bool" where
  "kept_but X h i allowed r s \<longleftrightarrow> hub_inv X (fst s) \<and> (auth_of (fst s) = auth_of h \<or> (allowed \<and> auth_of (fst s) = (auth_of h)[i := False]))"

lemma authenticate_kept:
  assumes "hub_inv X h" "i < length (h_acs h)" "ac_reading (h_acs h ! i)" "auth_of h = auth_of h0" "ok"
  shows "hwp (EnableEncryption i k) (\<lambda>_. hwp (Activate i) (kept_but X h0 i ok)) (h, w)"
  unfolding EnableEncryption_def
  by (intro hwp_hmodify hwp_Activate [OF inv_encrypted [OF assms(1,2)]]) (use assms in \<open>auto simp: kept_but_def\<close>)

lemma keyInit_commit_kept:
  assumes inv: "hub_inv X h" "i < length (h_acs h)" "ac_reading (h_acs h ! i)"
  shows "hwp (keyInit_commit X i k) (kept_but X h i True) (h, w)"
  unfolding keyInit_commit_def
  by (intro hwp_rules hwp_conn_write [OF inv(1,2)] authenticate_kept) (use inv in \<open>auto simp: kept_but_def\<close>)

lemma keyInit_check_kept:
  assumes inv: "hub_inv X h" "i < length (h_acs h)"
  shows "hwp (keyInit_check X i m) (\<lambda>r s. kept X h r s \<and> ac_reading (h_acs (fst s) ! i) = ac_reading (h_acs h ! i)
    \<and> keyInit_ok X (h_centerKeyPair (fst s)) r) (h, w)"
  unfolding keyInit_check_def
  by (intro hwp_rules hwp_conn_write [OF inv]) (use inv in \<open>auto simp: kept_def keyInit_ok_def intro: inv_close\<close>)

text \<open>The message proves that its sender shares a secret with the center that belongs to the key
  registered for the node, which is enabled.\<close>

definition key_proved :: "hub \<Rightarrow> world \<Rightarrow> nat \<Rightarrow> Message \<Rightarrow> bool" where
  "key_proved h w i m \<longleftrightarrow> (\<exists>payload center agentPub. dec_KeyAuthPayload (msg_Payload m) = Some payload \<and> h_centerKeyPair h = Some center
     \<and> keyAuth_verify center (ac_NodeID (h_acs h ! i)) payload (fst (run_state (nodes_GetAgentPubkey (ka_NodeID payload)) w)) = Some agentPub)"

lemma kept_imp: "kept X h r s \<Longrightarrow> kept_but X h i b r s"
  by (simp add: kept_def kept_but_def)

lemmas hwp_kept = hwp_mono [OF _ kept_imp]

lemma handleKeyAuth_kept:
  assumes inv: "hub_inv X h" "i < length (h_acs h)" "ac_reading (h_acs h ! i)"
  shows "hwp (handleKeyAuth X i m) (kept_but X h i (key_proved h w i m)) (h, w)"
  unfolding handleKeyAuth_def
  by (intro hwp_rules hwp_conn_write [OF inv(1,2)] authenticate_kept)
     (use inv in \<open>auto simp: key_proved_def kept_but_def intro: inv_close\<close>)

lemma dispatch_kept:
  assumes inv: "hub_inv X h" "i < length (h_acs h)" "ac_reading (h_acs h ! i)"
  shows "hwp (dispatch X i j m) (kept_but X h i (msg_Type m = ''key.auth'' \<and> key_proved h w i m)) (h, w)"
  unfolding dispatch_def
  by (intro hwp_rules hwp_kept [OF DeliverResponse_kept] hwp_kept [OF handlePeersSync_kept] hwp_mono [OF handleKeyAuth_kept])
     (use inv in \<open>auto simp: kept_but_def\<close>)

lemma read_frame_kept:
  assumes inv: "hub_inv X h" "i < length (h_acs h)" "ac_reading (h_acs h ! i)"
  shows "hwp (read_frame X i f) (kept_but X h i
    (\<exists>j m. decode_frame X (h_acs h ! i) f = Some (j, m) \<and> msg_Type m = ''key.auth'' \<and> key_proved h w i m)) (h, w)"
  unfolding read_frame_def
proof (intro hwp_rules hwp_mono [OF dispatch_kept [OF inv]])
  fix m
  show "hwp (keyInit_check X i m) (\<lambda>r. hwp (hmodify (conn_upd i (\<lambda>a. a\<lparr>ac_keyInit := r\<rparr>))) (kept_but X h i b)) (h, w)" for b
  proof (rule hwp_mono [OF keyInit_check_kept [OF inv(1,2)]])
    fix r :: "key_init option" and s' assume a: "kept X h r s' \<and> ac_reading (h_acs (fst s') ! i) = ac_reading (h_acs h ! i) \<and> keyInit_ok X (h_centerKeyPair (fst s')) r"
    obtain h' w' where s': "s' = (h', w')" by (cases s')
    have i': "i < length (h_acs h')" using a auth_of_length [of h' h] inv(2) by (simp add: s' kept_def)
    have "hub_inv X (conn_upd i (\<lambda>a. a\<lparr>ac_keyInit := r\<rparr>) h')"
      using a inv i' hub_inv_conn [of X h' i] by (intro inv_conn_upd) (auto simp: s' kept_def mild_def conn_inv_def)
    with a i' show "hwp (hmodify (conn_upd i (\<lambda>a. a\<lparr>ac_keyInit := r\<rparr>))) (kept_but X h i b) s'"
      unfolding s' by (intro hwp_hmodify kept_imp keptI) (simp_all add: kept_def)
  qed
qed (use inv in \<open>auto simp: kept_but_def\<close>)

lemma finish_keyInit_kept:
  assumes inv: "hub_inv X h" "i < length (h_acs h)"
  shows "hwp (finish_keyInit X i) (kept_but X h i (ac_keyInit (h_acs h ! i) \<noteq> None)) (h, w)"
  unfolding finish_keyInit_def
proof (intro hwp_rules)
  fix k assume k: "ac_keyInit (h_acs h ! i) = Some k"
  have "hub_inv X (conn_upd i (\<lambda>a. a\<lparr>ac_keyInit := None\<rparr>) h)"
    using hub_inv_conn [OF inv] by (intro inv_conn_upd [OF inv]) (auto simp: mild_def conn_inv_def)
  moreover have "ac_reading (h_acs h ! i)" using hub_inv_conn [OF inv] k by (simp add: conn_inv_def)
  ultimately show "hwp (keyInit_commit X i k) (kept_but X h i (ac_keyInit (h_acs h ! i) \<noteq> None)) (conn_upd i (\<lambda>a. a\<lparr>ac_keyInit := None\<rparr>) h, w)"
    using inv(2) k by (intro hwp_mono [OF keyInit_commit_kept]) (auto simp: kept_but_def)
qed (use inv in \<open>simp add: kept_but_def\<close>)

lemma HandleWebSocket_kept:
  assumes inv: "hub_inv X h"
  shows "hwp (HandleWebSocket r q up) (\<lambda>_ s. hub_inv X (fst s) \<and> auth_of (fst s) \<in> {auth_of h, auth_of h @ [True]}) (h, w)"
  unfolding HandleWebSocket_def checkKeyAuthRate_def
  by (intro hwp_rules hwp_Register [where X = X]) (use inv in \<open>auto split: prod.splits simp: auth_of_def\<close>)

lemma close_all_kept:
  assumes "hub_inv X h" "\<forall>i \<in> set is. i < length (h_acs h)"
  shows "hwp (Shutdown is) (kept X h) (h, w)"
proof -
  have "hwp (fold (\<lambda>i m. do { _ \<leftarrow> m; _ \<leftarrow> conn_write i (CloseMessage r); ac_Close i }) is m) (kept X h) s"
    if "hwp m (kept X h) s" for m s r
    using that assms(2)
  proof (induction "is" arbitrary: m)
    case (Cons i "is")
    have "hwp (do { _ \<leftarrow> m; _ \<leftarrow> conn_write i (CloseMessage r); ac_Close i }) (kept X h) s"
    proof (intro hwp_bind hwp_mono [OF Cons.prems(1)])
      fix u s' assume k: "kept X h u s'"
      obtain h' w' where s': "s' = (h', w')" by (cases s')
      have h': "hub_inv X h'" "auth_of h' = auth_of h" "i < length (h_acs h')"
        using k Cons.prems(2) auth_of_length [of h' h] by (auto simp: s' kept_def)
      show "hwp (conn_write i (CloseMessage r)) (\<lambda>_. hwp (ac_Close i) (kept X h)) s'"
        unfolding s' by (intro hwp_conn_write [OF h'(1,3)] hwp_ac_Close keptI inv_close) (use h' in \<open>auto simp: frame_ok_def\<close>)
    qed
    with Cons show ?case by simp
  qed simp
  from this [of "hret ()"] show ?thesis using assms(1) by (simp add: Shutdown_def close_all_def hwp_ret kept_def)
qed

end
