(* ===== verification/HubProps.thy ===== *)
theory HubProps
  imports HubSteps Sync
begin

text \<open>
  The agent channel as a whole: the steps of its goroutines, what holds in every reachable state, what
  authenticates a connection, what a response proves, and that the hub's \<^verbatim>\<open>SendCommand\<close> is the one the peer
  operations rely on.
\<close>

section \<open>Steps\<close>

inductive hub_step :: "channel_lib \<Rightarrow> center \<Rightarrow> center \<Rightarrow> bool" for X where
  connect: "run_state (HandleWebSocket r q up) (h, w) = (out, s') \<Longrightarrow> hub_step X (h, w) s'"
| read: "i < length (h_acs h) \<Longrightarrow> ac_reading (h_acs h ! i) \<Longrightarrow> ac_keyInit (h_acs h ! i) = None \<Longrightarrow>
    run_state (read_frame X i f) (h, w) = ((), s') \<Longrightarrow> hub_step X (h, w) s'"
| key_init: "i < length (h_acs h) \<Longrightarrow> ac_keyInit (h_acs h ! i) \<noteq> None \<Longrightarrow>
    run_state (finish_keyInit X i) (h, w) = ((), s') \<Longrightarrow> hub_step X (h, w) s'"
| read_end: "i < length (h_acs h) \<Longrightarrow> ac_reading (h_acs h ! i) \<Longrightarrow> ac_keyInit (h_acs h ! i) = None \<Longrightarrow>
    run_state (read_end i) (h, w) = ((), s') \<Longrightarrow> hub_step X (h, w) s'"
| flush: "i < length (h_acs h) \<Longrightarrow> run_state (write_next X i) (h, w) = ((), s') \<Longrightarrow> hub_step X (h, w) s'"
| ping: "i < length (h_acs h) \<Longrightarrow> run_state (write_ping i) (h, w) = ((), s') \<Longrightarrow> hub_step X (h, w) s'"
| stop: "e < length (h_ents h) \<Longrightarrow> ue_running (h_ents h ! e) \<Longrightarrow> ue_done (h_ents h ! e) \<Longrightarrow>
    run_state (drain_stop e) (h, w) = ((), s') \<Longrightarrow> hub_step X (h, w) s'"
| drain: "e < length (h_ents h) \<Longrightarrow> ue_running (h_ents h ! e) \<Longrightarrow> ue_ch (h_ents h ! e) \<noteq> [] \<Longrightarrow>
    run_state (drain_take e) (h, w) = ((), s') \<Longrightarrow> hub_step X (h, w) s'"
| send: "run_state (send_start X n t p) (h, w) = (out', s') \<Longrightarrow> hub_step X (h, w) s'"
| wake: "i < length (h_acs h) \<Longrightarrow> can_wake (h_acs h ! i) req k \<Longrightarrow>
    run_state (send_finish i req k) (h, w) = (res, s') \<Longrightarrow> hub_step X (h, w) s'"
| sync: "run_state (TriggerPeersSync X n) (h, w) = (b, s') \<Longrightarrow> hub_step X (h, w) s'"
| timer: "k < length (h_delayed h) \<Longrightarrow> run_state (delayed_send k) (h, w) = ((), s') \<Longrightarrow> hub_step X (h, w) s'"
| shutdown: "\<forall>i \<in> set order. i < length (h_acs h) \<Longrightarrow> run_state (Shutdown order) (h, w) = ((), s') \<Longrightarrow> hub_step X (h, w) s'"
| elsewhere: "hub_step X (h, w) (h, w')"

abbreviation hub_run :: "channel_lib \<Rightarrow> center \<Rightarrow> center \<Rightarrow> bool" where
  "hub_run X \<equiv> (hub_step X)\<^sup>*\<^sup>*"

text \<open>What a step may change about who is authenticated.\<close>

definition authenticates :: "channel_lib \<Rightarrow> hub \<Rightarrow> world \<Rightarrow> nat \<Rightarrow> center \<Rightarrow> bool" where
  "authenticates X h w i s' \<longleftrightarrow> (ac_keyInit (h_acs h ! i) \<noteq> None \<and> run_state (finish_keyInit X i) (h, w) = ((), s'))
     \<or> (\<exists>f j m. run_state (read_frame X i f) (h, w) = ((), s') \<and> decode_frame X (h_acs h ! i) f = Some (j, m) \<and> msg_Type m = ''key.auth''
          \<and> key_proved h w i m)"

definition step_effect :: "channel_lib \<Rightarrow> hub \<Rightarrow> world \<Rightarrow> center \<Rightarrow> bool" where
  "step_effect X h w s' \<longleftrightarrow> hub_inv X (fst s') \<and> (auth_of (fst s') \<in> {auth_of h, auth_of h @ [True]}
     \<or> (\<exists>i < length (h_acs h). authenticates X h w i s' \<and> auth_of (fst s') = (auth_of h)[i := False]))"

lemma effect_kept: "hwp m (kept X h) (h, w) \<Longrightarrow> run_state m (h, w) = (r, s') \<Longrightarrow> step_effect X h w s'"
  by (auto simp: step_effect_def kept_def hwp_def)

lemma effect_kept_but:
  "hwp m (kept_but X h i b) (h, w) \<Longrightarrow> i < length (h_acs h) \<Longrightarrow> (b \<Longrightarrow> authenticates X h w i s') \<Longrightarrow> run_state m (h, w) = (r, s') \<Longrightarrow>
   step_effect X h w s'"
  by (auto simp: step_effect_def kept_but_def hwp_def)

lemma hub_step_effect:
  assumes "hub_step X (h, w) s'" "hub_inv X h"
  shows "step_effect X h w s'"
  using assms(1)
proof cases
  case (connect r q up out)
  from hwp_run [OF HandleWebSocket_kept [OF assms(2)] connect] show ?thesis by (auto simp: step_effect_def)
next
  case (read i f)
  show ?thesis
    by (rule effect_kept_but [OF read_frame_kept [OF assms(2) read(1,2)] read(1) _ read(4)]) (use read(4) in \<open>auto simp: authenticates_def\<close>)
next
  case (key_init i)
  show ?thesis
    by (rule effect_kept_but [OF finish_keyInit_kept [OF assms(2) key_init(1)] key_init(1) _ key_init(3)]) (use key_init(3) in \<open>simp add: authenticates_def\<close>)
next
  case (read_end i)
  show ?thesis by (rule effect_kept [OF read_end_kept [OF assms(2) read_end(1,3)] read_end(4)])
next
  case (flush i)
  show ?thesis by (rule effect_kept [OF write_next_kept [OF assms(2) flush(1)] flush(2)])
next
  case (ping i)
  show ?thesis by (rule effect_kept [OF write_ping_kept [OF assms(2) ping(1)] ping(2)])
next
  case (stop e)
  show ?thesis by (rule effect_kept [OF drain_stop_kept [OF assms(2) stop(1)] stop(4)])
next
  case (drain e)
  show ?thesis by (rule effect_kept [OF drain_take_kept [OF assms(2) drain(1)] drain(4)])
next
  case (send n t p out')
  show ?thesis by (rule effect_kept [OF send_start_kept [OF assms(2)] send])
next
  case (wake i req k res)
  show ?thesis by (rule effect_kept [OF send_finish_kept [OF assms(2) wake(1)] wake(3)])
next
  case (sync n b)
  show ?thesis by (rule effect_kept [OF TriggerPeersSync_kept [OF assms(2)] sync])
next
  case (timer k)
  show ?thesis by (rule effect_kept [OF delayed_send_kept [OF assms(2) timer(1)] timer(2)])
next
  case (shutdown order)
  show ?thesis by (rule effect_kept [OF close_all_kept [OF assms(2) shutdown(1)] shutdown(2)])
next
  case (elsewhere w')
  then show ?thesis using assms(2) by (simp add: step_effect_def)
qed

lemma hub_run_inv:
  assumes "hub_run X (NewHub kp os, w) (h, w')"
  shows "hub_inv X h"
proof -
  have "hub_inv X (fst s)" if "hub_run X (NewHub kp os, w) s" for s
    using that
  proof (induction rule: rtranclp_induct)
    case (step s s')
    obtain h1 w1 where s: "s = (h1, w1)" by (cases s)
    from step.IH have "hub_inv X h1" by (simp add: s)
    from hub_step_effect [OF step.hyps(2) [unfolded s] this] show ?case by (simp add: step_effect_def)
  qed (simp add: hub_inv_NewHub)
  from this [OF assms] show ?thesis by simp
qed

section \<open>Properties\<close>

text \<open>C7. In every state the hub can reach, whatever the agents send and however the goroutines interleave:
  nothing panics on a closed channel; the connection in the table of a node is that node's, has
  authenticated and is encrypted; an authenticated connection that is not in the table is closed, so a
  node never has two live ones; a connection that has not authenticated has no queued message and no
  waiting command.\<close>

theorem agent_connections_invariant:
  assumes "hub_run X (NewHub kp os, w) (h, w')"
  shows "\<not> h_panicked h
    \<and> (\<forall>n i. h_conns h n = Some i \<longrightarrow> i < length (h_acs h) \<and> ac_NodeID (h_acs h ! i) = n
         \<and> \<not> ac_pendingAuth (h_acs h ! i) \<and> ac_encrypted (h_acs h ! i) \<and> ac_aead (h_acs h ! i) \<noteq> None)
    \<and> (\<forall>i j. i < length (h_acs h) \<longrightarrow> j < length (h_acs h) \<longrightarrow> i \<noteq> j \<longrightarrow> ac_NodeID (h_acs h ! i) = ac_NodeID (h_acs h ! j) \<longrightarrow>
         \<not> ac_pendingAuth (h_acs h ! i) \<longrightarrow> \<not> ac_pendingAuth (h_acs h ! j) \<longrightarrow> ac_closed (h_acs h ! i) \<or> ac_closed (h_acs h ! j))
    \<and> (\<forall>i < length (h_acs h). ac_pendingAuth (h_acs h ! i) \<longrightarrow> ac_sendCh (h_acs h ! i) = [] \<and> ac_pending (h_acs h ! i) = [])"
proof -
  have inv: "hub_inv X h" by (rule hub_run_inv [OF assms])
  note c = hub_inv_conn [OF inv] and t = hub_inv_in_table [OF inv]
  have listed: "ac_closed (h_acs h ! i) \<or> h_conns h (ac_NodeID (h_acs h ! i)) = Some i" if "i < length (h_acs h)" "\<not> ac_pendingAuth (h_acs h ! i)" for i
    using inv that by (simp add: hub_inv_def conns_inv_def)
  have sealed: "ac_encrypted (h_acs h ! i)" "ac_aead (h_acs h ! i) \<noteq> None" if "i < length (h_acs h)" "\<not> ac_pendingAuth (h_acs h ! i)" for i
    using c [OF that(1)] that(2) by (auto simp: conn_inv_def)
  show ?thesis
  proof (intro conjI allI impI)
    show "\<not> h_panicked h" using inv by (simp add: hub_inv_def ents_inv_def)
  next
    fix n i assume "h_conns h n = Some i"
    with t [OF this] sealed show "i < length (h_acs h)" "ac_NodeID (h_acs h ! i) = n" "\<not> ac_pendingAuth (h_acs h ! i)"
      "ac_encrypted (h_acs h ! i)" "ac_aead (h_acs h ! i) \<noteq> None" by blast+
  next
    fix i j assume "i < length (h_acs h)" "j < length (h_acs h)" "i \<noteq> j" "ac_NodeID (h_acs h ! i) = ac_NodeID (h_acs h ! j)"
      "\<not> ac_pendingAuth (h_acs h ! i)" "\<not> ac_pendingAuth (h_acs h ! j)"
    with listed [of i] listed [of j] show "ac_closed (h_acs h ! i) \<or> ac_closed (h_acs h ! j)" by auto
  next
    fix i assume "i < length (h_acs h)" "ac_pendingAuth (h_acs h ! i)"
    with c [of i] show "ac_sendCh (h_acs h ! i) = []" "ac_pending (h_acs h ! i) = []" by (auto simp: conn_inv_def)
  qed
qed

lemma hwp_try_push_any: "Q False (h, w) \<Longrightarrow> Q True (ent_upd e (\<lambda>x. x\<lparr>ue_ch := ue_ch x @ [v]\<rparr>) h, w) \<Longrightarrow> hwp (try_push e v) Q (h, w)"
  by (simp add: hwp_def try_push_def)

lemma hwp_conn_write_any:
  "Q False (h\<lparr>h_werr := tl (h_werr h)\<rparr>, w) \<Longrightarrow> Q True (conn_upd i (\<lambda>a. a\<lparr>ac_wire := ac_wire a @ [f]\<rparr>) (h\<lparr>h_werr := tl (h_werr h)\<rparr>), w) \<Longrightarrow>
   hwp (conn_write i f) Q (h, w)"
  by (simp add: hwp_def conn_write_def Let_def)










lemma run_send_start:
  assumes "h_conns h n = Some i" "\<not> ac_pendingAuth (h_acs h ! i)" "i < length (h_acs h)"
  shows "run_state (send_start X n t p) (h, w) =
    (let (req, w1) = fresh_uuid w;
         h1 = conn_upd i (\<lambda>a. a\<lparr>ac_pending := set_pending req None (ac_pending a)\<rparr>) h in
     if length (ac_sendCh (h_acs h ! i)) < 64
     then (Inr (i, req), (conn_upd i (\<lambda>a. a\<lparr>ac_sendCh := ac_sendCh a @ [x_marshal X (enc_Message (new_message t p\<lparr>msg_ID := req\<rparr>))]\<rparr>) h1, w1))
     else (Inl (''send buffer full for node '' @ n), (conn_upd i (\<lambda>a. a\<lparr>ac_pending := AList.delete req (ac_pending a)\<rparr>) h1, w1)))"
  using assms by (simp add: send_start_def GetConn_def get_conn_def hgets_def hmodify_def liftW_def new_uuid_def enqueue_def Let_def split: prod.splits)

lemma map_of_set_pending [simp]: "map_of (set_pending r v p) q = (if q = r then Some v else map_of p q)"
  by (simp add: set_pending_def update_conv)

definition queues :: "hub \<Rightarrow> string list list" where
  "queues h = map ac_sendCh (h_acs h)"

lemma sendqueues_upd: "i < length (h_acs h) \<Longrightarrow> queues (conn_upd i f h) = (queues h)[i := ac_sendCh (f (h_acs h ! i))]"
  by (simp add: queues_def conn_upd_def map_update)

section \<open>What is queued\<close>

definition command_queued :: "channel_lib \<Rightarrow> agent_command \<Rightarrow> hub \<Rightarrow> world \<Rightarrow> nat \<Rightarrow> hub \<Rightarrow> world \<Rightarrow> bool" where
  "command_queued X c h w i h1 w1 \<longleftrightarrow> w1 = snd (fresh_uuid w) \<and> map_of (ac_pending (h_acs h1 ! i)) (fst (fresh_uuid w)) = Some None
     \<and> queues h1 = (queues h)[i := queues h ! i @ [x_marshal X (enc_Message \<lparr>msg_Type = command_type c, msg_ID = fst (fresh_uuid w),
          msg_Payload = command_payload c, msg_Success = None, msg_Error = []\<rparr>)]]"

text \<open>C11. What \<^verbatim>\<open>SendCommand\<close> does before it waits. It fails at once exactly when the node has no connection in the
  table or 64 messages wait there, and then nothing is queued for any agent. Otherwise the connection is
  authenticated and exactly one message is queued, behind what waits for that agent and for no other: the
  command under the next generated identifier, for which one unanswered request is registered on that connection. Either
  way the requests that wait under other identifiers stay as they are.\<close>

theorem send_command_starts:
  assumes inv: "hub_inv X h" and run: "run_state (send_start X n (command_type c) (command_payload c)) (h, w) = (r, (h1, w1))"
  shows "(if (case h_conns h n of None \<Rightarrow> True | Some i \<Rightarrow> 64 \<le> length (queues h ! i))
      then (\<exists>e. r = Inl e) \<and> queues h1 = queues h
      else \<exists>i. h_conns h n = Some i \<and> \<not> ac_pendingAuth (h_acs h ! i) \<and> r = Inr (i, fst (fresh_uuid w)) \<and> command_queued X c h w i h1 w1)
    \<and> (\<forall>j q. q \<noteq> fst (fresh_uuid w) \<longrightarrow> map_of (ac_pending (h_acs h1 ! j)) q = map_of (ac_pending (h_acs h ! j)) q)"
proof (cases "h_conns h n")
  case None
  then have "(r, (h1, w1)) = (Inl (''agent not connected for node '' @ n), (h, w))"
    using run by (simp add: send_start_def GetConn_def get_conn_def hgets_def)
  with None show ?thesis by simp
next
  case (Some i)
  then have i: "i < length (h_acs h)" "\<not> ac_pendingAuth (h_acs h ! i)"
    using inv by (auto simp: hub_inv_def conns_inv_def)
  have q: "queues h ! i = ac_sendCh (h_acs h ! i)" using i by (simp add: queues_def)
  have same: "(map ac_sendCh (h_acs h))[i := ac_sendCh (h_acs h ! i)] = map ac_sendCh (h_acs h)"
    by (metis list_update_id map_update)
  show ?thesis
    using run Some i q
    by (cases "length (ac_sendCh (h_acs h ! i)) < 64"; cases "fresh_uuid w")
       (auto simp: run_send_start command_queued_def sendqueues_upd Let_def new_message_def list_update_id nth_list_update
         conn_upd_def delete_conv queues_def map_update same)
qed

definition same_pending :: "hub \<Rightarrow> nat \<Rightarrow> 'a \<Rightarrow> center \<Rightarrow> bool" where
  "same_pending h i r s \<longleftrightarrow> ac_pending (h_acs (fst s) ! i) = ac_pending (h_acs h ! i) \<and> length (h_acs (fst s)) = length (h_acs h)"

lemma upd_pending [simp]:
  "(\<And>a. ac_pending (f a) = ac_pending a) \<Longrightarrow> ac_pending (h_acs (conn_upd j f h) ! i) = ac_pending (h_acs h ! i)"
  by (cases "j < length (h_acs h)") (auto simp: conn_upd_def nth_list_update list_update_beyond)

lemma Activate_pending: "hwp (Activate j) (same_pending h i) (h', w)" if "same_pending h i () (h', w')" for w w'
  using that unfolding Activate_def try_push_def
  by (intro hwp_rules) (auto simp: same_pending_def hwp_def split: option.splits)

lemma keyInit_check_pending: "hwp (keyInit_check X j m) (same_pending h i) (h, w)"
  unfolding keyInit_check_def
  by (intro hwp_rules hwp_conn_write_any) (auto simp: same_pending_def)

lemma handleKeyAuth_pending: "hwp (handleKeyAuth X j m) (same_pending h i) (h, w)"
  unfolding handleKeyAuth_def EnableEncryption_def
  by (intro hwp_rules hwp_conn_write_any Activate_pending [where w' = w]) (auto simp: same_pending_def)

lemma handlePeersSync_pending: "hwp (handlePeersSync X j) (same_pending h i) (h, w)"
  unfolding handlePeersSync_def pushPeersSync_def enqueue_def
  by (intro hwp_rules) (auto simp: same_pending_def hwp_def hmodify_def)

lemma dispatch_pending:
  "msg_Type m \<notin> {''response'', ''status.response''} \<Longrightarrow> hwp (dispatch X j d m) (same_pending h i) (h, w)"
  unfolding dispatch_def
  by (intro hwp_rules handleKeyAuth_pending handlePeersSync_pending) (auto simp: same_pending_def)

text \<open>C10. A response reaches a waiting command only through a frame that opened under the session key of the
  command's own connection, and only the command whose request it names.\<close>

theorem responses_authentic:
  assumes inv: "hub_inv X h" "i < length (h_acs h)" and run: "run_state (read_frame X i f) (h, w) = (u, (h', w'))"
    and waiting: "map_of (ac_pending (h_acs h ! i)) req = Some None" and answered: "map_of (ac_pending (h_acs h' ! i)) req = Some (Some m)"
  shows "\<exists>ct key d j. f = BinaryMessage ct \<and> ac_aead (h_acs h ! i) = Some key \<and> Decrypt X key ct = Some d
    \<and> x_unmarshal X d = Some j \<and> dec_Message j = Some m \<and> msg_ID m = req"
proof -
  have "ac_pending (h_acs h ! i) \<noteq> []" using waiting by auto
  then obtain key where key: "ac_encrypted (h_acs h ! i)" "ac_aead (h_acs h ! i) = Some key"
    using hub_inv_conn [OF inv] by (auto simp: conn_inv_def)
  have changed: "\<not> same_pending h i () (h', w')" using waiting answered by (auto simp: same_pending_def)
  obtain d j m' where dec: "decode_frame X (h_acs h ! i) f = Some (j, m')" and parts: "open_frame X (h_acs h ! i) f = Some d"
    "x_unmarshal X d = Some j" "dec_Message j = Some m'"
  proof (cases "decode_frame X (h_acs h ! i) f")
    case None
    with run have "h' = h" by (simp add: read_frame_def get_conn_def hgets_def)
    with waiting answered show thesis by simp
  next
    case (Some p)
    then show thesis using that by (auto simp: decode_frame_def bind_eq_Some_conv)
  qed
  from parts(1) key obtain ct where ct: "f = BinaryMessage ct" "Decrypt X key ct = Some d"
    by (auto simp: open_frame_def split: frame.splits)
  have "msg_Type m' \<noteq> ''key.init''"
  proof
    assume t: "msg_Type m' = ''key.init''"
    have "hwp (read_frame X i f) (same_pending h i) (h, w)"
      unfolding read_frame_def
      by (rule hwp_bind, rule hwp_get_conn)
         (auto simp: dec t hwp_def same_pending_def hmodify_def split: prod.splits dest!: hwp_run [OF keyInit_check_pending [of X i m' h i w]])
    with run changed show False by (auto simp: hwp_def)
  qed
  then have disp: "run_state (dispatch X i j m') (h, w) = (u, (h', w'))"
    using run by (simp add: read_frame_def get_conn_def hgets_def dec)
  then have "msg_Type m' \<in> {''response'', ''status.response''}"
    using hwp_run [OF dispatch_pending disp, of i] changed by (auto simp: same_pending_def)
  then have "h' = conn_upd i (\<lambda>a. case map_of (ac_pending a) (msg_ID m') of
      Some None \<Rightarrow> a\<lparr>ac_pending := set_pending (msg_ID m') (Some m') (ac_pending a)\<rparr> | _ \<Rightarrow> a) h"
    using disp by (auto simp: dispatch_def DeliverResponse_def hmodify_def)
  with answered waiting inv(2) have "msg_ID m' = req \<and> m = m'"
    by (auto split: option.splits if_splits)
  with ct key parts show ?thesis by blast
qed


section \<open>What is written\<close>

text \<open>What a step may write on a connection: an answer of the handshake, a message that waited there, sealed under
  the session key that the connection has, or a control frame.\<close>

definition sent_ok :: "channel_lib \<Rightarrow> AgentConn \<Rightarrow> frame \<Rightarrow> bool" where
  "sent_ok X a f \<longleftrightarrow> (case f of
     TextMessage d \<Rightarrow> \<exists>m. d = x_marshal X (enc_Message m) \<and> msg_Type m \<in> {''key.init_ack'', ''key.auth_ack''}
   | BinaryMessage ct \<Rightarrow> \<exists>key nonce d rest. ac_aead a = Some key \<and> ac_sendCh a = d # rest \<and> length nonce = 24 \<and> ct = nonce @ x_Seal X key nonce d
   | _ \<Rightarrow> True)"

definition wires :: "channel_lib \<Rightarrow> hub \<Rightarrow> 'a \<Rightarrow> center \<Rightarrow> bool" where
  "wires X h r s \<longleftrightarrow> length (h_acs h) \<le> length (h_acs (fst s)) \<and> (\<forall>i < length (h_acs h).
     \<exists>fs. ac_wire (h_acs (fst s) ! i) = ac_wire (h_acs h ! i) @ fs \<and> (\<forall>f \<in> set fs. sent_ok X (h_acs h ! i) f))"

lemma wires_refl: "wires X h r (h, w)"
  by (simp add: wires_def)

lemma wires_same: "h_acs h1 = h_acs h2 \<Longrightarrow> wires X h r (h1, w) = wires X h r' (h2, w')"
  by (simp add: wires_def)

lemma upd_wire: "(\<And>a. ac_wire (f a) = ac_wire a) \<Longrightarrow> ac_wire (h_acs (conn_upd j f h) ! i) = ac_wire (h_acs h ! i)"
  by (cases "j < length (h_acs h)") (auto simp: conn_upd_def nth_list_update list_update_beyond)

lemma wires_upd: "(\<And>a. ac_wire (f a) = ac_wire a) \<Longrightarrow> wires X h r (conn_upd j f h1, w) = wires X h r' (h1, w')"
  by (simp add: wires_def upd_wire)

lemma wires_append:
  assumes "i < length (h_acs h)" "sent_ok X (h_acs h ! i) f" "wires X h r (h1, w)"
  shows "wires X h r' (conn_upd i (\<lambda>a. a\<lparr>ac_wire := ac_wire a @ [f]\<rparr>) h1, w')"
proof -
  have i: "i < length (h_acs h1)" using assms(1,3) by (simp add: wires_def)
  have "\<exists>fs. ac_wire (h_acs (conn_upd i (\<lambda>a. a\<lparr>ac_wire := ac_wire a @ [f]\<rparr>) h1) ! j) = ac_wire (h_acs h ! j) @ fs \<and> (\<forall>g \<in> set fs. sent_ok X (h_acs h ! j) g)"
    if "j < length (h_acs h)" for j
  proof -
    from assms(3) that obtain fs where fs: "ac_wire (h_acs h1 ! j) = ac_wire (h_acs h ! j) @ fs" "\<forall>g \<in> set fs. sent_ok X (h_acs h ! j) g"
      by (auto simp: wires_def)
    show ?thesis
    proof (cases "i = j")
      case True
      with fs assms(2) i show ?thesis by (intro exI [of _ "fs @ [f]"]) auto
    next
      case False
      with fs i show ?thesis by auto
    qed
  qed
  with assms(3) show ?thesis by (simp add: wires_def)
qed

lemma hwp_enqueue_any:
  "Q False (h, w) \<Longrightarrow> Q True (conn_upd i (\<lambda>a. a\<lparr>ac_sendCh := ac_sendCh a @ [d]\<rparr>) h, w) \<Longrightarrow> hwp (enqueue i d) Q (h, w)"
  by (simp add: hwp_def enqueue_def)

lemma hwp_close_done_any:
  "Q () (h\<lparr>h_panicked := True\<rparr>, w) \<Longrightarrow> Q () (ent_upd e (\<lambda>x. x\<lparr>ue_done := True\<rparr>) h, w) \<Longrightarrow> hwp (close_done e) Q (h, w)"
  by (simp add: hwp_def close_done_def hmodify_def)

lemmas hwp_any = hwp_rules hwp_conn_write_any hwp_enqueue_any hwp_try_push_any hwp_close_done_any

text \<open>Changes that touch no wire.\<close>

lemma wires_fields:
  "wires X h r (h1\<lparr>h_conns := a\<rparr>, w) = wires X h () (h1, w)" "wires X h r (h1\<lparr>h_nodeUpd := b\<rparr>, w) = wires X h () (h1, w)"
  "wires X h r (h1\<lparr>h_ents := c\<rparr>, w) = wires X h () (h1, w)" "wires X h r (h1\<lparr>h_delayed := d\<rparr>, w) = wires X h () (h1, w)"
  "wires X h r (h1\<lparr>h_werr := e\<rparr>, w) = wires X h () (h1, w)" "wires X h r (h1\<lparr>h_panicked := f\<rparr>, w) = wires X h () (h1, w)"
  "wires X h r (h1\<lparr>h_keyAuthLast := g\<rparr>, w) = wires X h () (h1, w)" "wires X h r (h1\<lparr>h_keyAuthIPLast := k\<rparr>, w) = wires X h () (h1, w)"
  "wires X h r (ent_upd n l h1, w) = wires X h () (h1, w)"
  by (simp_all add: wires_def)

lemma wires_world: "wires X h r (h1, w) \<Longrightarrow> wires X h r' (h1, w')"
  by (simp add: wires_def)

lemma wires_quiet:
  "wires X h r (conn_upd j (\<lambda>a. a\<lparr>ac_sendCh := q a\<rparr>) h1, w) = wires X h () (h1, w)" "wires X h r (conn_upd j (\<lambda>a. a\<lparr>ac_pending := p a\<rparr>) h1, w) = wires X h () (h1, w)"
  "wires X h r (conn_upd j (\<lambda>a. a\<lparr>ac_closed := b\<rparr>) h1, w) = wires X h () (h1, w)" "wires X h r (conn_upd j (\<lambda>a. a\<lparr>ac_pendingAuth := b\<rparr>) h1, w) = wires X h () (h1, w)"
  "wires X h r (conn_upd j (\<lambda>a. a\<lparr>ac_reading := b\<rparr>) h1, w) = wires X h () (h1, w)" "wires X h r (conn_upd j (\<lambda>a. a\<lparr>ac_keyInit := k\<rparr>) h1, w) = wires X h () (h1, w)"
  "wires X h r (conn_upd j (\<lambda>a. a\<lparr>ac_aead := m, ac_encrypted := b\<rparr>) h1, w) = wires X h () (h1, w)"
  by (rule wires_upd; simp)+

lemmas wires_simps = wires_fields wires_quiet

lemma ack_ok [simp]:
  "msg_Type m \<in> {''key.init_ack'', ''key.auth_ack''} \<Longrightarrow> sent_ok X a (TextMessage (x_marshal X (enc_Message m)))"
  "sent_ok X a PingMessage" "sent_ok X a (CloseMessage s)"
  by (auto simp: sent_ok_def)

lemma Activate_wires: "wires X h () (h1, w) \<Longrightarrow> hwp (Activate i) (wires X h) (h1, w)"
  unfolding Activate_def by (intro hwp_any) (auto simp: wires_simps intro: wires_world)

lemma Unregister_wires: "wires X h () (h1, w) \<Longrightarrow> hwp (Unregister n i) (wires X h) (h1, w)"
  unfolding Unregister_def by (intro hwp_any) (auto simp: wires_simps intro: wires_world)

lemma pushPeersSync_wires: "wires X h () (h1, w) \<Longrightarrow> hwp (pushPeersSync X i) (wires X h) (h1, w)"
  unfolding pushPeersSync_def by (intro hwp_any) (auto simp: wires_simps intro: wires_world)

lemma wires_grow: "wires X h () (h1, w) \<Longrightarrow> h_acs h1 = acs \<Longrightarrow> wires X h r (h1\<lparr>h_acs := acs @ cs\<rparr>, w)"
  by (auto simp: wires_def nth_append)

lemma connect_wires: "hwp (HandleWebSocket r q up) (wires X h) (h, w)"
  unfolding HandleWebSocket_def Register_def checkKeyAuthRate_def
  by (intro hwp_any) (auto simp: wires_simps intro!: wires_grow intro: wires_refl)

lemma DeliverResponse_wires: "hwp (DeliverResponse i m) (wires X h) (h, w)"
  unfolding DeliverResponse_def
  by (rule hwp_hmodify, subst wires_upd [where r' = "()" and w' = w]) (auto simp: wires_refl split: option.splits)

lemma read_wires: "i < length (h_acs h) \<Longrightarrow> hwp (read_frame X i f) (wires X h) (h, w)"
  unfolding read_frame_def dispatch_def keyInit_check_def handleKeyAuth_def EnableEncryption_def handlePeersSync_def
  by (intro hwp_any DeliverResponse_wires) (auto simp: wires_simps new_message_def wires_refl intro!: wires_append Activate_wires pushPeersSync_wires)

lemma keyInit_wires: "i < length (h_acs h) \<Longrightarrow> hwp (finish_keyInit X i) (wires X h) (h, w)"
  unfolding finish_keyInit_def keyInit_commit_def EnableEncryption_def
  by (intro hwp_any) (auto simp: wires_simps new_message_def wires_refl intro!: wires_append Activate_wires)

lemma read_end_wires: "hwp (read_end i) (wires X h) (h, w)"
  unfolding read_end_def
  by (intro hwp_rules) (auto simp: wires_simps wires_refl intro!: hwp_mono [OF Unregister_wires [where h = h]] hwp_hmodify)

lemma sealed_ok:
  "run_state (Encrypt X key d) w = (Some ct, w') \<Longrightarrow> ac_aead a = Some key \<Longrightarrow> ac_sendCh a = d # rest \<Longrightarrow> sent_ok X a (BinaryMessage ct)"
  by (erule Encrypt_shape) (auto simp: sent_ok_def NonceSizeX_def)

lemma write_next_wires:
  assumes "hub_inv X h" "i < length (h_acs h)"
  shows "hwp (write_next X i) (wires X h) (h, w)"
proof (cases "ac_sendCh (h_acs h ! i)")
  case Nil
  then show ?thesis unfolding write_next_def by (intro hwp_bind hwp_get_conn) (simp add: hwp_ret wires_refl)
next
  case (Cons d rest)
  then obtain key where c: "ac_encrypted (h_acs h ! i)" "ac_aead (h_acs h ! i) = Some key"
    using hub_inv_conn [OF assms] by (auto simp: conn_inv_def)
  show ?thesis
    unfolding write_next_def
    by (rule hwp_bind, rule hwp_get_conn)
       (auto simp: Cons c assms(2) wires_simps wires_refl intro!: hwp_any wires_append sealed_ok [OF _ c(2) Cons])
qed

lemma other_wires:
  "i < length (h_acs h) \<Longrightarrow> hwp (write_ping i) (wires X h) (h, w)"
  "hwp (drain_stop e) (wires X h) (h, w)" "hwp (drain_take e) (wires X h) (h, w)" "hwp (send_start X n t p) (wires X h) (h, w)"
  "hwp (send_finish i req k) (wires X h) (h, w)" "hwp (TriggerPeersSync X n) (wires X h) (h, w)" "hwp (delayed_send k') (wires X h) (h, w)"
proof -
  show "i < length (h_acs h) \<Longrightarrow> hwp (write_ping i) (wires X h) (h, w)"
    unfolding write_ping_def by (intro hwp_any) (auto simp: wires_simps wires_refl intro!: wires_append)
  show "hwp (drain_stop e) (wires X h) (h, w)"
    unfolding drain_stop_def by (intro hwp_any) (simp add: wires_simps wires_refl)
  show "hwp (drain_take e) (wires X h) (h, w)"
    unfolding drain_take_def drain_stop_def by (intro hwp_any) (auto simp: wires_simps wires_refl)
  show "hwp (send_start X n t p) (wires X h) (h, w)"
    unfolding send_start_def by (intro hwp_any) (auto simp: wires_simps wires_refl)
  show "hwp (send_finish i req k) (wires X h) (h, w)"
    unfolding send_finish_def by (intro hwp_any) (auto simp: wires_simps wires_refl)
  show "hwp (TriggerPeersSync X n) (wires X h) (h, w)"
    unfolding TriggerPeersSync_def
    by (intro hwp_any) (auto simp: wires_simps wires_refl intro!: hwp_mono [OF pushPeersSync_wires [where h = h]] hwp_rules elim: wires_world)
  show "hwp (delayed_send k') (wires X h) (h, w)"
    unfolding delayed_send_def by (intro hwp_any) (auto simp: wires_simps wires_refl)
qed

lemma shutdown_wires:
  assumes "\<forall>i \<in> set is. i < length (h_acs h)"
  shows "hwp (Shutdown is) (wires X h) (h, w)"
proof -
  have "hwp (fold (\<lambda>i m. do { _ \<leftarrow> m; _ \<leftarrow> conn_write i (CloseMessage r); ac_Close i }) is m) (wires X h) s"
    if "hwp m (wires X h) s" for m s r
    using that assms
  proof (induction "is" arbitrary: m)
    case (Cons i "is")
    have "hwp (do { _ \<leftarrow> m; _ \<leftarrow> conn_write i (CloseMessage r); ac_Close i }) (wires X h) s"
    proof (intro hwp_bind hwp_mono [OF Cons.prems(1)])
      fix u s' assume k: "wires X h u s'"
      obtain h' w' where s': "s' = (h', w')" by (cases s')
      from k have "wires X h () (h', w')" by (simp add: s' wires_def)
      then show "hwp (conn_write i (CloseMessage r)) (\<lambda>_. hwp (ac_Close i) (wires X h)) s'"
        unfolding s' by (intro hwp_any) (use Cons.prems(2) in \<open>auto simp: wires_simps intro!: wires_append\<close>)
    qed
    with Cons show ?case by simp
  qed simp
  from this [of "hret ()"] show ?thesis by (simp add: Shutdown_def close_all_def hwp_ret wires_refl)
qed

lemma hub_step_wires:
  assumes "hub_step X (h, w) s'" "hub_inv X h"
  shows "wires X h () s'"
proof -
  have any: "wires X h r s' \<Longrightarrow> wires X h () s'" for r :: 'x by (simp add: wires_def)
  from assms(1) show ?thesis
  proof cases
    case connect
    then show ?thesis using hwp_run [OF connect_wires] wires_world by (metis prod.collapse)
  next
    case (read i)
    then show ?thesis using hwp_run [OF read_wires [OF read(1)]] by blast
  next
    case (key_init i)
    then show ?thesis using hwp_run [OF keyInit_wires [OF key_init(1)]] by blast
  next
    case read_end
    then show ?thesis using hwp_run [OF read_end_wires] by blast
  next
    case (flush i)
    then show ?thesis using hwp_run [OF write_next_wires [OF assms(2) flush(1)]] by blast
  next
    case (ping i)
    then show ?thesis using hwp_run [OF other_wires(1) [OF ping(1)]] by blast
  next
    case stop
    then show ?thesis using hwp_run [OF other_wires(2)] by blast
  next
    case drain
    then show ?thesis using hwp_run [OF other_wires(3)] by blast
  next
    case send
    then show ?thesis using hwp_run [OF other_wires(4)] wires_world by (metis prod.collapse)
  next
    case wake
    then show ?thesis using hwp_run [OF other_wires(5)] wires_world by (metis prod.collapse)
  next
    case sync
    then show ?thesis using hwp_run [OF other_wires(6)] wires_world by (metis prod.collapse)
  next
    case timer
    then show ?thesis using hwp_run [OF other_wires(7)] by blast
  next
    case (shutdown order)
    then show ?thesis using hwp_run [OF shutdown_wires [OF shutdown(1)]] by blast
  next
    case elsewhere
    then show ?thesis by (simp add: wires_refl)
  qed
qed

text \<open>C9. What the center writes on an agent's socket in a step, in every state that keeps the invariant of the connections, so in
  every reachable one, is an answer of the handshake, a control frame, or the message at the head of that
  connection's queue, sealed with a nonce of 24 bytes under the session key that this very connection has at that
  moment: no command and no list of peers leaves in clear or under another connection's key.\<close>

theorem commands_sealed:
  assumes "hub_inv X h" "hub_step X (h, w) (h', w')" "i < length (h_acs h)"
  shows "\<exists>fs. ac_wire (h_acs h' ! i) = ac_wire (h_acs h ! i) @ fs \<and> (\<forall>f \<in> set fs.
      (\<exists>m. f = TextMessage (x_marshal X (enc_Message m)) \<and> msg_Type m \<in> {''key.init_ack'', ''key.auth_ack''})
    \<or> (\<exists>key nonce d rest. f = BinaryMessage (nonce @ x_Seal X key nonce d) \<and> length nonce = 24
         \<and> ac_aead (h_acs h ! i) = Some key \<and> ac_sendCh (h_acs h ! i) = d # rest)
    \<or> (\<exists>r. f = CloseMessage r) \<or> f = PingMessage)"
proof -
  have "(\<exists>m. f = TextMessage (x_marshal X (enc_Message m)) \<and> msg_Type m \<in> {''key.init_ack'', ''key.auth_ack''})
    \<or> (\<exists>key nonce d rest. f = BinaryMessage (nonce @ x_Seal X key nonce d) \<and> length nonce = 24
         \<and> ac_aead (h_acs h ! i) = Some key \<and> ac_sendCh (h_acs h ! i) = d # rest)
    \<or> (\<exists>r. f = CloseMessage r) \<or> f = PingMessage" if "sent_ok X (h_acs h ! i) f" for f
    using that by (cases f) (auto simp: sent_ok_def)
  with hub_step_wires [OF assms(2,1)] assms(3) show ?thesis unfolding wires_def fst_conv by meson
qed

section \<open>Weak points of the channel\<close>

text \<open>Between the query and the commit of a \<^verbatim>\<open>key.init\<close> another connection may have registered its own key.
  The store then changes nothing, which nobody looks at: the late connection is acknowledged and becomes
  the node's, with a key that is not the registered one.\<close>

theorem key_init_race:
  assumes i: "i < length (h_acs h)" "ac_keyInit (h_acs h ! i) = Some k" "ki_Existing k = []" "ac_pendingAuth (h_acs h ! i)"
      "\<not> ac_closed (h_acs h ! i)" "h_werr h = []" "\<not> db_fails w"
    and taken: "\<forall>n \<in> set (w_nodes w). n_ID n = ac_NodeID (h_acs h ! i) \<longrightarrow> n_AgentPubkey n \<noteq> [] \<and> n_AgentPubkey n \<noteq> ki_Pubkey k"
    and run: "run_state (finish_keyInit X i) (h, w) = (u, (h', w'))"
  shows "w_nodes w' = w_nodes w \<and> h_conns h' (ac_NodeID (h_acs h ! i)) = Some i \<and> \<not> ac_pendingAuth (h_acs h' ! i)
    \<and> ac_aead (h_acs h' ! i) = Some (ki_EncKey k)"
proof -
  have upd: "w_nodes (update_node (ac_NodeID (h_acs h ! i)) (\<lambda>n. if n_AgentPubkey n = [] then n\<lparr>n_AgentPubkey := ki_Pubkey k\<rparr> else n) (db_next w)) = w_nodes w"
    using taken by (auto simp: update_node_def db_next_def intro!: map_idI)
  show ?thesis
    using run i(1-7) upd
    by (auto simp: finish_keyInit_def keyInit_commit_def get_conn_def hgets_def hmodify_def liftW_def nodes_SetAgentPubkey_def db_write_def
        conn_write_def EnableEncryption_def Activate_def Let_def conn_upd_def ac_Close_def try_push_def ent_upd_def nth_list_update
        split: prod.splits option.splits if_splits)
qed

text \<open>A heartbeat is handled in full on a connection that has not authenticated, which the hub accepts for
  the identifier of a node alone.\<close>

theorem heartbeat_without_auth:
  assumes "ac_pendingAuth (h_acs h ! i)" "decode_frame X (h_acs h ! i) f = Some (j, m)" "msg_Type m = ''heartbeat''"
  shows "run_state (read_frame X i f) (h, w) = ((), (h, snd (run_state (handleHeartbeat (ac_NodeID (h_acs h ! i)) (dec_heartbeat_message j)) w)))"
  using assms(2,3) by (auto simp: read_frame_def dispatch_def get_conn_def hgets_def liftW_def split: prod.splits)

text \<open>When the peers of a node cannot be read, the agent is told that it has none.\<close>

theorem sync_pushes_nothing_on_failure:
  assumes "length (ac_sendCh (h_acs h ! i)) < 64" "db_fails w"
  shows "\<exists>w'. run_state (pushPeersSync X i) (h, w) = ((), (conn_upd i (\<lambda>a. a\<lparr>ac_sendCh := ac_sendCh a @ [sync_data X []]\<rparr>) h, w'))"
  using assms by (auto simp: pushPeersSync_def get_conn_def hgets_def liftW_def peers_ListByNode_def db_read_def enqueue_def Let_def)

text \<open>C12. What \<^verbatim>\<open>WritePump\<close> sends, \<^verbatim>\<open>ReadPump\<close> understands: the frame written for a queued message decodes, at
  an end that holds the same session key, to exactly that message.\<close>

theorem message_roundtrip:
  assumes "aead_ok X" "x_unmarshal X (x_marshal X (enc_Message m)) = Some (enc_Message m)"
    and conn: "i < length (h_acs h)" "ac_encrypted (h_acs h ! i)" "ac_aead (h_acs h ! i) = Some key"
      "ac_sendCh (h_acs h ! i) = x_marshal X (enc_Message m) # rest"
    and agent: "ac_encrypted b" "ac_aead b = Some key"
    and run: "run_state (write_next X i) (h, w) = (u, (h', w'))" and still: "\<not> ac_closed (h_acs h' ! i)"
  shows "ac_sendCh (h_acs h' ! i) = rest
    \<and> (\<exists>f. ac_wire (h_acs h' ! i) = ac_wire (h_acs h ! i) @ [f] \<and> decode_frame X b f = Some (enc_Message m, m))"
proof -
  obtain ct w1 where e: "run_state (Encrypt X key (x_marshal X (enc_Message m))) w = (ct, w1)" by (metis prod.collapse)
  have dec: "ct = Some d \<Longrightarrow> decode_frame X b (BinaryMessage d) = Some (enc_Message m, m)" for d
    using Decrypt_Encrypt [OF assms(1)] e agent assms(2) by (auto simp: decode_frame_def open_frame_def dec_enc_Message)
  show ?thesis
    using run conn still e dec
    by (cases ct) (auto simp: write_next_def get_conn_def hgets_def hmodify_def liftW_def conn_write_def ac_Close_def Let_def split: if_splits)
qed

section \<open>Instances\<close>

text \<open>A stand-in for the libraries: sealing puts the key before the text, and every text is read as the answer
  to the request it names.\<close>

definition toy_lib :: channel_lib where
  "toy_lib = \<lparr>x_hkdf = (\<lambda>_ _ _ n. replicate n (CHR ''x'')), x_Seal = (\<lambda>k n d. replicate 16 (CHR ''t'') @ d),
     x_Open = (\<lambda>k n c. Some (drop 16 c)), x_marshal = (\<lambda>_. ''r1''),
     x_unmarshal = (\<lambda>d. Some (enc_Message \<lparr>msg_Type = ''response'', msg_ID = d, msg_Payload = JNull, msg_Success = Some True, msg_Error = []\<rparr>))\<rparr>"

definition toy_conn :: AgentConn where
  "toy_conn = (new_conn ''n1'')\<lparr>ac_pendingAuth := False, ac_encrypted := True, ac_aead := Some ''k'', ac_pending := [(''r1'', None)]\<rparr>"

definition toy_hub :: hub where
  "toy_hub = (NewHub None [])\<lparr>h_acs := [toy_conn], h_conns := [''n1'' \<mapsto> 0]\<rparr>"

lemma toy_hub_inv: "hub_inv X toy_hub"
  by (simp add: hub_inv_def toy_hub_def toy_conn_def conn_inv_def conns_inv_def ents_inv_def keyInits_inv_def NewHub_def new_conn_def)

lemma toy_aead: "aead_ok toy_lib"
  by (simp add: aead_ok_def toy_lib_def)

abbreviation toy_frame :: frame where
  "toy_frame \<equiv> BinaryMessage (replicate 40 (CHR ''n'') @ ''r1'')"

theorem responses_authentic_witness:
  "map_of (ac_pending (h_acs (fst (snd (run_state (read_frame toy_lib 0 toy_frame) (toy_hub, beat_world)))) ! 0)) ''r1''
     = Some (Some \<lparr>msg_Type = ''response'', msg_ID = ''r1'', msg_Payload = JNull, msg_Success = Some True, msg_Error = []\<rparr>)
   \<and> (\<exists>ct key. toy_frame = BinaryMessage ct \<and> ac_aead (h_acs toy_hub ! 0) = Some key \<and> Decrypt toy_lib key ct \<noteq> None)"
proof
  obtain u h' w' where run: "run_state (read_frame toy_lib 0 toy_frame) (toy_hub, beat_world) = (u, (h', w'))" by (metis prod.collapse)
  have ans: "map_of (ac_pending (h_acs h' ! 0)) ''r1'' = Some (Some \<lparr>msg_Type = ''response'', msg_ID = ''r1'', msg_Payload = JNull,
      msg_Success = Some True, msg_Error = []\<rparr>)"
    using run by (auto simp: read_frame_def get_conn_def hgets_def toy_hub_def toy_conn_def new_conn_def decode_frame_def open_frame_def Decrypt_def
        NonceSizeX_def Overhead_def toy_lib_def dec_enc_Message dispatch_def DeliverResponse_def hmodify_def conn_upd_def)
  with run show "map_of (ac_pending (h_acs (fst (snd (run_state (read_frame toy_lib 0 toy_frame) (toy_hub, beat_world)))) ! 0)) ''r1''
     = Some (Some \<lparr>msg_Type = ''response'', msg_ID = ''r1'', msg_Payload = JNull, msg_Success = Some True, msg_Error = []\<rparr>)" by simp
  have "0 < length (h_acs toy_hub)" "map_of (ac_pending (h_acs toy_hub ! 0)) ''r1'' = Some None" by (simp_all add: toy_hub_def toy_conn_def)
  from responses_authentic [OF toy_hub_inv this(1) run this(2) ans]
  show "\<exists>ct key. toy_frame = BinaryMessage ct \<and> ac_aead (h_acs toy_hub ! 0) = Some key \<and> Decrypt toy_lib key ct \<noteq> None" by fastforce
qed

theorem send_command_starts_witness:
  "fst (run_state (send_start toy_lib ''n1'' (command_type PeersImport) (command_payload PeersImport)) (toy_hub, beat_world))
     = Inr (0, fst (fresh_uuid beat_world))
   \<and> fst (fresh_uuid beat_world) \<noteq> ''r1''
   \<and> map_of (ac_pending (h_acs (fst (snd (run_state (send_start toy_lib ''n1'' (command_type PeersImport) (command_payload PeersImport))
         (toy_hub, beat_world)))) ! 0)) ''r1'' = Some None"
proof -
  obtain r h1 w1 where run: "run_state (send_start toy_lib ''n1'' (command_type PeersImport) (command_payload PeersImport)) (toy_hub, beat_world) = (r, (h1, w1))"
    by (metis prod.collapse)
  have fresh: "fst (fresh_uuid beat_world) \<noteq> ''r1''" by (simp add: fresh_uuid_def beat_world_def)
  show ?thesis using send_command_starts [OF toy_hub_inv run] run fresh
    by (auto simp: toy_hub_def toy_conn_def new_conn_def queues_def)
qed

definition toy_queue :: hub where
  "toy_queue = conn_upd 0 (\<lambda>a. a\<lparr>ac_sendCh := [''r1'']\<rparr>) toy_hub"

definition toy_message :: Message where
  "toy_message = \<lparr>msg_Type = ''response'', msg_ID = ''r1'', msg_Payload = JNull, msg_Success = Some True, msg_Error = []\<rparr>"

theorem message_roundtrip_witness:
  "\<exists>f. ac_wire (h_acs (fst (snd (run_state (write_next toy_lib 0) (toy_queue, beat_world\<lparr>w_rand := [Some []]\<rparr>)))) ! 0) = [f]
     \<and> decode_frame toy_lib toy_conn f = Some (enc_Message toy_message, toy_message)"
proof -
  obtain u h' w' where run: "run_state (write_next toy_lib 0) (toy_queue, beat_world\<lparr>w_rand := [Some []]\<rparr>) = (u, (h', w'))" by (metis prod.collapse)
  have still: "\<not> ac_closed (h_acs h' ! 0)"
    using run by (auto simp: write_next_def get_conn_def hgets_def hmodify_def liftW_def toy_queue_def toy_hub_def toy_conn_def new_conn_def NewHub_def
        conn_upd_def Encrypt_def rand_bytes_def rand_read_def conn_write_def Let_def)
  have conn: "0 < length (h_acs toy_queue)" "ac_encrypted (h_acs toy_queue ! 0)" "ac_aead (h_acs toy_queue ! 0) = Some ''k''"
    "ac_sendCh (h_acs toy_queue ! 0) = x_marshal toy_lib (enc_Message toy_message) # []"
    "ac_encrypted toy_conn" "ac_aead toy_conn = Some ''k''" "ac_wire (h_acs toy_queue ! 0) = []"
    by (simp_all add: toy_queue_def toy_hub_def toy_conn_def conn_upd_def toy_lib_def new_conn_def)
  have "x_unmarshal toy_lib (x_marshal toy_lib (enc_Message toy_message)) = Some (enc_Message toy_message)" by (simp add: toy_lib_def toy_message_def)
  from message_roundtrip [OF toy_aead this conn(1-6) run still] conn(7) run show ?thesis by simp
qed

text \<open>An agent that presents its token is connected but not yet authenticated; the center may only ping it.\<close>

definition token_request :: http_request where
  "token_request = \<lparr>rq_Method = ''GET'', rq_Path = ''/ws/agent'', rq_RemoteAddr = ''192.0.2.1:1'', rq_Host = ''c'', rq_TLS = True,
     rq_Header = (\<lambda>k. if k = ''X-Agent-Token'' then ''t'' else []), rq_Cookie = (\<lambda>_. None)\<rparr>"

definition token_node :: node where
  "token_node = \<lparr>n_ID = ''n1'', n_Name = ''hkg'', n_Location = ''HK'', n_AgentToken = ''t'', n_AgentPubkey = [],
     n_PublicIP = ''192.0.2.1'', n_OurASN = 4242420001, n_OurLLA = ''fe80::1'', n_OurWgPubkey = ''k'', n_BirdPeerDir = [],
     n_WgDir = [], n_WgPortPrefix = 5, n_Online = True, n_Enabled = True, n_AgentVersion = [], n_AgentState = ''running'',
     n_AgentStateChangedAt = 0, n_CreatedAt = 1\<rparr>"

definition token_world :: world where
  "token_world = beat_world\<lparr>w_nodes := [token_node]\<rparr>"

definition connected_hub :: hub where
  "connected_hub = (NewHub None [])\<lparr>h_acs := [new_conn ''n1''], h_nodeUpd := [''n1'' \<mapsto> 0],
     h_ents := [\<lparr>ue_NodeID = ''n1'', ue_ch = [], ue_done = False, ue_running = True\<rparr>]\<rparr>"

definition pinged_hub :: hub where
  "pinged_hub = connected_hub\<lparr>h_acs := [(new_conn ''n1'')\<lparr>ac_wire := [PingMessage]\<rparr>]\<rparr>"

lemma token_connects: "hub_step X (NewHub None [], token_world) (connected_hub, token_world)"
proof (rule hub_step.connect [where r = token_request and q = "[]" and up = True and out = "Connected 0"])
  show "run_state (HandleWebSocket token_request [] True) (NewHub None [], token_world) = (Connected 0, (connected_hub, token_world))"
    by (simp add: HandleWebSocket_def token_request_def nodes_GetByAgentToken_def db_read_def db_fails_def db_next_def row_def token_world_def token_node_def
        beat_world_def liftW_def hgets_def hmodify_def CheckOrigin_def trim_right_slash_def Register_def NewHub_def connected_hub_def Let_def
        trim_right_def)
qed

lemma token_pings: "hub_step X (connected_hub, token_world) (pinged_hub, token_world)"
proof (rule hub_step.ping [where i = 0])
  show "0 < length (h_acs connected_hub)" by (simp add: connected_hub_def)
  show "run_state (write_ping 0) (connected_hub, token_world) = ((), (pinged_hub, token_world))"
    by (simp add: write_ping_def conn_write_def connected_hub_def pinged_hub_def conn_upd_def NewHub_def new_conn_def Let_def)
qed

lemma token_run: "hub_run X (NewHub None [], token_world) (pinged_hub, token_world)"
  using token_connects token_pings by (meson rtranclp.simps)

theorem agent_connections_invariant_witness:
  "\<not> h_panicked pinged_hub \<and> ac_sendCh (h_acs pinged_hub ! 0) = [] \<and> ac_pendingAuth (h_acs pinged_hub ! 0)"
  using agent_connections_invariant [OF token_run [of toy_lib]] by (simp add: pinged_hub_def connected_hub_def NewHub_def new_conn_def)

text \<open>The message that waits is sealed under the key of its connection.\<close>

theorem commands_sealed_witness:
  "\<exists>nonce. ac_wire (h_acs (fst (snd (run_state (write_next toy_lib 0) (toy_queue, beat_world\<lparr>w_rand := [Some []]\<rparr>)))) ! 0)
     = [BinaryMessage (nonce @ x_Seal toy_lib ''k'' nonce ''r1'')] \<and> length nonce = 24"
proof -
  obtain h' w' where run: "run_state (write_next toy_lib 0) (toy_queue, beat_world\<lparr>w_rand := [Some []]\<rparr>) = ((), (h', w'))" by (metis prod.collapse unit.exhaust)
  have binary: "\<exists>ct. ac_wire (h_acs h' ! 0) = [BinaryMessage ct]"
    using run by (auto simp: write_next_def get_conn_def hgets_def hmodify_def liftW_def toy_queue_def toy_hub_def toy_conn_def new_conn_def NewHub_def
        conn_upd_def Encrypt_def rand_bytes_def rand_read_def conn_write_def Let_def)
  have inv: "hub_inv toy_lib toy_queue" "0 < length (h_acs toy_queue)" and conn: "ac_wire (h_acs toy_queue ! 0) = []"
      "ac_aead (h_acs toy_queue ! 0) = Some ''k''" "ac_sendCh (h_acs toy_queue ! 0) = [''r1'']"
    by (simp_all add: hub_inv_def toy_queue_def toy_hub_def toy_conn_def conn_upd_def conn_inv_def conns_inv_def ents_inv_def keyInits_inv_def
        NewHub_def new_conn_def)
  from commands_sealed [OF inv(1) hub_step.flush [OF inv(2) run] inv(2)] binary show ?thesis by (auto simp: conn run)
qed













end
