(* ===== verification/Inactivity.thy ===== *)
theory Inactivity
  imports Heartbeat Sync "HOL-Library.Multiset"
begin

text \<open>
  \<^verbatim>\<open>internal/inactivity/worker.go\<close>: the daily sweep that warns the owners of peers without traffic and deletes the
  peers that stay silent. Durations are milliseconds; the age of a peer is compared in days as the exact
  quotient. The lock of a pass is the one of \<open>Lock\<close> with the way each worker treats an error; renewal is in
  \<open>Lock\<close>. What the code does between the snapshot of the peers and their deletion is \<open>sweep_peer\<close> on a later
  state.
\<close>

section \<open>Passes under a lock\<close>

datatype 'l pass = RunPass "'l option" | SkipPass

definition inactivity_lock ::
  "('s \<Rightarrow> string \<Rightarrow> int \<Rightarrow> 's \<times> 'l option \<times> bool \<times> string option) option \<Rightarrow> 's \<Rightarrow> string \<Rightarrow> int \<Rightarrow> 's \<times> 'l pass" where
  "inactivity_lock lk s key ttl =
     (case lk of
        None \<Rightarrow> (s, RunPass None)
      | Some acquire \<Rightarrow>
          (case acquire s key ttl of (s', lease, ok, err) \<Rightarrow>
             if err \<noteq> None then (s', SkipPass)
             else if \<not> ok then (s', SkipPass)
             else (s', RunPass lease)))"

definition run_pass :: "(local_locker option \<Rightarrow> local_locker option \<times> localLease pass) \<Rightarrow> unit M \<Rightarrow> unit M" where
  "run_pass acquire fn = do {
     p \<leftarrow> State (\<lambda>w. case acquire (w_locks w) of (s, p) \<Rightarrow> (p, w\<lparr>w_locks := s\<rparr>));
     case p of
       SkipPass \<Rightarrow> ret ()
     | RunPass lease \<Rightarrow> do { fn; lock_release lease }
   }"

definition inactivity_withLock :: "string \<Rightarrow> int \<Rightarrow> unit M \<Rightarrow> unit M" where
  "inactivity_withLock key ttl fn = run_pass (\<lambda>s. inactivity_lock (Some local_Acquire) s key ttl) fn"

section \<open>The sweep\<close>

record inactivity_config =
  ic_Enabled :: bool
  ic_WarnFirstDays :: int
  ic_WarnSecondDays :: int
  ic_DeleteDays :: int
  ic_DryRun :: bool

definition NewWorker :: "inactivity_config \<Rightarrow> inactivity_config" where
  "NewWorker cfg = cfg\<lparr>ic_WarnFirstDays := (if ic_WarnFirstDays cfg \<le> 0 then 45 else ic_WarnFirstDays cfg),
     ic_WarnSecondDays := (if ic_WarnSecondDays cfg \<le> 0 then 50 else ic_WarnSecondDays cfg),
     ic_DeleteDays := (if ic_DeleteDays cfg \<le> 0 then 60 else ic_DeleteDays cfg)\<rparr>"

definition sendWarning :: "inactivity_config \<Rightarrow> InactivePeer \<Rightarrow> unit M" where
  "sendWarning cfg peer = do {
     _ \<leftarrow> (if ip_ContactEmail peer \<noteq> [] \<and> \<not> ic_DryRun cfg
           then notify (Email (ip_ContactEmail peer) ''peer-inactive-warning'' (ip_RemoteASN peer)) else ret ());
     b \<leftarrow> bindings_GetByASN (ip_RemoteASN peer);
     case b of
       Inl _ \<Rightarrow> ret ()
     | Inr binding \<Rightarrow> if ic_DryRun cfg then ret () else notify (BotUser (bb_TgUserID binding) ''peer.inactive_warning'')
   }"

definition inactivity_detail :: "InactivePeer \<Rightarrow> obj" where
  "inactivity_detail peer = [(''asn'', jint (ip_RemoteASN peer)), (''nodeName'', JStr (ip_NodeName peer)),
     (''daysInactive'', jint (ip_AgeMs peer div 86400000))]"

definition deletePeer :: "inactivity_config \<Rightarrow> InactivePeer \<Rightarrow> unit M" where
  "deletePeer cfg peer =
     (if ic_DryRun cfg then ret ()
      else do {
        r \<leftarrow> peers_DeleteInactive (ip_PeerID peer);
        case r of
          Inl _ \<Rightarrow> ret ()
        | Inr deleted \<Rightarrow>
            if \<not> deleted then ret ()
            else do {
              _ \<leftarrow> SendCommand (ip_NodeID peer) (PeerRemove \<lparr>pr_PeerID = ip_PeerID peer, pr_ASN = ip_RemoteASN peer\<rparr>);
              audit_Log ''peer.inactivity_delete'' ''system:inactivity_sweep'' (Some (ip_PeerID peer)) (inactivity_detail peer);
              ClearPeerAlerts (ip_PeerID peer)
            }
      })"

text \<open>A warning and the stage it leaves.\<close>

definition warn_to :: "inactivity_config \<Rightarrow> InactivePeer \<Rightarrow> int \<Rightarrow> unit M" where
  "warn_to cfg peer stage =
     (if ip_Stage peer < stage then do {
        sendWarning cfg peer;
        if ic_DryRun cfg then ret ()
        else do { _ \<leftarrow> peers_SetInactivityWarningStage (ip_PeerID peer) stage; ret () }
      } else ret ())"

definition days_ms :: "int \<Rightarrow> int" where
  "days_ms d = d * 86400000"

definition sweep_peer :: "inactivity_config \<Rightarrow> InactivePeer \<Rightarrow> unit M" where
  "sweep_peer cfg peer =
     (if ip_AgeMs peer \<ge> days_ms (ic_DeleteDays cfg) then do { warn_to cfg peer 3; deletePeer cfg peer }
      else if ip_AgeMs peer \<ge> days_ms (ic_WarnSecondDays cfg) then warn_to cfg peer 2
      else if ip_AgeMs peer \<ge> days_ms (ic_WarnFirstDays cfg) then warn_to cfg peer 1
      else ret ())"

fun sweep_peers :: "inactivity_config \<Rightarrow> InactivePeer list \<Rightarrow> unit M" where
  "sweep_peers cfg [] = ret ()"
| "sweep_peers cfg (p # ps) = do { sweep_peer cfg p; sweep_peers cfg ps }"

definition sweep :: "inactivity_config \<Rightarrow> unit M" where
  "sweep cfg =
     (if \<not> ic_Enabled cfg then ret ()
      else do {
        r \<leftarrow> peers_ListInactiveActivePeers;
        case r of Inl _ \<Rightarrow> ret () | Inr peers \<Rightarrow> sweep_peers cfg peers
      })"

definition RunOnce :: "inactivity_config \<Rightarrow> unit M" where
  "RunOnce cfg = inactivity_withLock ''inactivity:run'' 3600000 (sweep cfg)"

section \<open>What a sweep does\<close>

text \<open>The stage a peer has reached by its age, and its row after a sweep.\<close>

definition due_stage :: "inactivity_config \<Rightarrow> int \<Rightarrow> int" where
  "due_stage cfg age = (if age \<ge> days_ms (ic_DeleteDays cfg) then 3 else if age \<ge> days_ms (ic_WarnSecondDays cfg) then 2
     else if age \<ge> days_ms (ic_WarnFirstDays cfg) then 1 else 0)"

definition age_of :: "int \<Rightarrow> peer \<Rightarrow> int" where
  "age_of now p = now - (case LastActiveAt p of None \<Rightarrow> UpdatedAt p | Some t \<Rightarrow> t)"

definition swept :: "inactivity_config \<Rightarrow> int \<Rightarrow> peer \<Rightarrow> peer option" where
  "swept cfg now p =
     (let d = due_stage cfg (age_of now p) in
      if Status p \<noteq> ''active'' \<or> d = 0 then Some p
      else if d = 3 then (if InactivityWarningStage p \<le> 3 then None else Some p)
      else Some (if InactivityWarningStage p < d then p\<lparr>InactivityWarningStage := d\<rparr> else p))"

definition inactive_row :: "int \<Rightarrow> node \<Rightarrow> peer \<Rightarrow> InactivePeer" where
  "inactive_row now n p = \<lparr>ip_PeerID = ID p, ip_NodeID = NodeID p, ip_RemoteASN = RemoteASN p, ip_ContactEmail = ContactEmail p,
     ip_Stage = InactivityWarningStage p, ip_NodeName = n_Name n, ip_AgeMs = age_of now p\<rparr>"

text \<open>The messages of a warning.\<close>

definition warning_of :: "BotUserBinding list \<Rightarrow> InactivePeer \<Rightarrow> notification list" where
  "warning_of bs s = (if ip_ContactEmail s \<noteq> [] then [Email (ip_ContactEmail s) ''peer-inactive-warning'' (ip_RemoteASN s)] else [])
     @ (case find (\<lambda>b. bb_ASN b = ip_RemoteASN s) bs of Some b \<Rightarrow> [BotUser (bb_TgUserID b) ''peer.inactive_warning''] | None \<Rightarrow> [])"

definition sweep_warnings :: "inactivity_config \<Rightarrow> BotUserBinding list \<Rightarrow> InactivePeer \<Rightarrow> notification list" where
  "sweep_warnings cfg bs s = (if ip_Stage s < due_stage cfg (ip_AgeMs s) \<and> due_stage cfg (ip_AgeMs s) > 0 then warning_of bs s else [])"

definition acts :: "world \<Rightarrow> world \<Rightarrow> peer list \<Rightarrow> notification list \<Rightarrow> bool" where
  "acts w w' ps out \<longleftrightarrow> w_peers w' = ps \<and> w_out w' = w_out w @ out \<and> w_bindings w' = w_bindings w \<and> w_now w' = w_now w
     \<and> w_nodes w' = w_nodes w \<and> (nofault w \<longrightarrow> nofault w')"

lemma acts_trans: "acts w w1 ps out \<Longrightarrow> acts w1 w2 ps' out' \<Longrightarrow> acts w w2 ps' (out @ out')"
  by (simp add: acts_def)

lemma acts_refl: "acts w w (w_peers w) []"
  by (simp add: acts_def)

lemma run_lookup: "acts w (db_next w) (w_peers w) []"
  by (simp add: acts_def nofault_next)

lemma sendWarning_acts:
  assumes "run_state (sendWarning cfg s) w = (u, w')"
  shows "\<exists>out. acts w w' (w_peers w) out \<and> (ic_DryRun cfg \<longrightarrow> out = []) \<and> (nofault w \<and> \<not> ic_DryRun cfg \<longrightarrow> out = warning_of (w_bindings w) s)"
  using assms
  by (auto simp: sendWarning_def bindings_GetByASN_def notify_def acts_def warning_of_def row_def nofault_next nofault_not_fails
      split: if_splits option.splits sum.splits)

lemma warn_to_acts:
  assumes "run_state (warn_to cfg s d) w = (u, w')"
  shows "\<exists>ps out. acts w w' ps out \<and> (ic_DryRun cfg \<longrightarrow> ps = w_peers w \<and> out = [])
    \<and> ps \<in> {w_peers w, update_peer (ip_PeerID s) (\<lambda>p. p\<lparr>InactivityWarningStage := d\<rparr>) (w_peers w)}
    \<and> (nofault w \<and> \<not> ic_DryRun cfg \<longrightarrow>
        ps = (if ip_Stage s < d then update_peer (ip_PeerID s) (\<lambda>p. p\<lparr>InactivityWarningStage := d\<rparr>) (w_peers w) else w_peers w)
        \<and> out = (if ip_Stage s < d then warning_of (w_bindings w) s else []))"
proof (cases "ip_Stage s < d")
  case True
  obtain w1 where w1: "run_state (sendWarning cfg s) w = ((), w1)" by (metis old.unit.exhaust prod.collapse)
  from sendWarning_acts [OF w1] obtain out where a: "acts w w1 (w_peers w) out" "ic_DryRun cfg \<longrightarrow> out = []"
    "nofault w \<and> \<not> ic_DryRun cfg \<longrightarrow> out = warning_of (w_bindings w) s" by blast
  show ?thesis
  proof (cases "ic_DryRun cfg \<or> db_fails w1")
    case True
    then have "w' = w1 \<or> w' = db_next w1 \<and> \<not> ic_DryRun cfg" using assms w1 \<open>ip_Stage s < d\<close>
      by (auto simp: warn_to_def peers_SetInactivityWarningStage_def run_db_write split: if_splits)
    then have "acts w w' (w_peers w) out" using a(1) acts_trans [OF a(1) run_lookup [of w1]] by (auto simp: acts_def)
    with a True show ?thesis using \<open>ip_Stage s < d\<close> nofault_not_fails [of w1] by (intro exI [of _ "w_peers w"] exI [of _ out]) (auto simp: acts_def)
  next
    case False
    then have "w' = (db_next w1)\<lparr>w_peers := update_peer (ip_PeerID s) (\<lambda>p. p\<lparr>InactivityWarningStage := d\<rparr>) (w_peers w)\<rparr>"
      using assms w1 \<open>ip_Stage s < d\<close> a(1) by (auto simp: warn_to_def peers_SetInactivityWarningStage_def run_db_write acts_def)
    with a False show ?thesis using \<open>ip_Stage s < d\<close>
      by (intro exI [of _ "update_peer (ip_PeerID s) (\<lambda>p. p\<lparr>InactivityWarningStage := d\<rparr>) (w_peers w)"] exI [of _ out])
         (auto simp: acts_def nofault_next)
  qed
next
  case False
  with assms have "w' = w" by (simp add: warn_to_def)
  with False show ?thesis by (intro exI [of _ "w_peers w"] exI [of _ "[]"]) (auto simp: acts_def)
qed

lemma deletePeer_acts:
  assumes "run_state (deletePeer cfg s) w = (u, w')"
  shows "\<exists>ps. acts w w' ps [] \<and> (ic_DryRun cfg \<longrightarrow> ps = w_peers w)
    \<and> ps \<in> {w_peers w, filter (\<lambda>p. \<not> (ID p = ip_PeerID s \<and> InactivityWarningStage p = 3)) (w_peers w)}
    \<and> (nofault w \<and> \<not> ic_DryRun cfg \<longrightarrow> ps = filter (\<lambda>p. \<not> (ID p = ip_PeerID s \<and> InactivityWarningStage p = 3)) (w_peers w))"
proof (cases "ic_DryRun cfg \<or> db_fails w")
  case True
  then have "w' = w \<or> w' = db_next w" using assms by (auto simp: deletePeer_def peers_DeleteInactive_def run_db_write split: if_splits)
  then have "acts w w' (w_peers w) []" by (auto intro: acts_refl run_lookup)
  with True show ?thesis using nofault_not_fails [of w] by blast
next
  case False
  let ?del = "filter (\<lambda>p. \<not> (ID p = ip_PeerID s \<and> InactivityWarningStage p = 3)) (w_peers w)"
  have "acts w w' ?del []"
    using assms False
    by (auto simp: deletePeer_def peers_DeleteInactive_def run_db_write SendCommand_def audit_Log_def ClearPeerAlerts_def acts_def Let_def
        nofault_def list_all_tl list_ex_iff filter_id_conv split: option.splits if_splits)
  with False show ?thesis by blast
qed

text \<open>One peer: with a database that answers, the sweep does to its row what \<open>swept\<close> says; in any case it leaves
  every other row alone, and its own when nothing is due.\<close>

definition sweep_row :: "inactivity_config \<Rightarrow> int \<Rightarrow> string \<Rightarrow> peer \<Rightarrow> peer option" where
  "sweep_row cfg now i q = (if ID q = i then swept cfg now q else Some q)"

lemma swept_delete:
  assumes "\<forall>q \<in> set ps. ID q = i \<longrightarrow> Status q = ''active'' \<and> due_stage cfg (age_of now q) = 3 \<and> (InactivityWarningStage q < 3 \<longleftrightarrow> b)"
  shows "filter (\<lambda>q. \<not> (ID q = i \<and> InactivityWarningStage q = 3))
      (if b then update_peer i (\<lambda>p. p\<lparr>InactivityWarningStage := 3\<rparr>) ps else ps) = List.map_filter (sweep_row cfg now i) ps"
  using assms
proof (induction ps)
  case Nil
  then show ?case by (simp add: update_peer_def map_filter_simps)
next
  case (Cons q ps)
  then have IH: "filter (\<lambda>q. \<not> (ID q = i \<and> InactivityWarningStage q = 3))
      (if b then update_peer i (\<lambda>p. p\<lparr>InactivityWarningStage := 3\<rparr>) ps else ps) = List.map_filter (sweep_row cfg now i) ps" by simp
  have q: "ID q = i \<longrightarrow> Status q = ''active'' \<and> due_stage cfg (age_of now q) = 3 \<and> (InactivityWarningStage q < 3 \<longleftrightarrow> b)" using Cons.prems by simp
  show ?case
  proof (cases "ID q = i")
    case True
    with q have row: "sweep_row cfg now i q = (if InactivityWarningStage q \<le> 3 then None else Some q)" by (simp add: sweep_row_def swept_def)
    show ?thesis
    proof (cases b)
      case True
      with q \<open>ID q = i\<close> have "InactivityWarningStage q \<le> 3" by simp
      with True \<open>ID q = i\<close> row IH show ?thesis by (simp add: update_peer_def map_filter_simps)
    next
      case False
      with q \<open>ID q = i\<close> have "InactivityWarningStage q \<le> 3 \<longleftrightarrow> InactivityWarningStage q = 3" by linarith
      with False \<open>ID q = i\<close> row IH show ?thesis by (simp add: map_filter_simps)
    qed
  next
    case False
    then have "sweep_row cfg now i q = Some q" by (simp add: sweep_row_def)
    with False IH show ?thesis by (cases b) (simp_all add: update_peer_def map_filter_simps)
  qed
qed

lemma swept_warn:
  assumes "\<forall>q \<in> set ps. ID q = i \<longrightarrow> Status q = ''active'' \<and> due_stage cfg (age_of now q) = d \<and> (InactivityWarningStage q < d \<longleftrightarrow> b)"
    and d: "d \<in> {1, 2}"
  shows "(if b then update_peer i (\<lambda>p. p\<lparr>InactivityWarningStage := d\<rparr>) ps else ps) = List.map_filter (sweep_row cfg now i) ps"
  using assms(1)
proof (induction ps)
  case Nil
  then show ?case by (simp add: update_peer_def map_filter_simps)
next
  case (Cons q ps)
  then have IH: "(if b then update_peer i (\<lambda>p. p\<lparr>InactivityWarningStage := d\<rparr>) ps else ps) = List.map_filter (sweep_row cfg now i) ps" by simp
  have q: "ID q = i \<longrightarrow> Status q = ''active'' \<and> due_stage cfg (age_of now q) = d \<and> (InactivityWarningStage q < d \<longleftrightarrow> b)" using Cons.prems by simp
  have row: "sweep_row cfg now i q = Some (if ID q = i \<and> b then q\<lparr>InactivityWarningStage := d\<rparr> else q)"
  proof (cases "ID q = i")
    case True
    have "d \<noteq> 0" "d \<noteq> 3" using d by auto
    with q True show ?thesis by (cases b) (simp_all add: sweep_row_def swept_def)
  qed (simp add: sweep_row_def)
  have "(if b then update_peer i (\<lambda>p. p\<lparr>InactivityWarningStage := d\<rparr>) (q # ps) else q # ps)
      = (if ID q = i \<and> b then q\<lparr>InactivityWarningStage := d\<rparr> else q) # (if b then update_peer i (\<lambda>p. p\<lparr>InactivityWarningStage := d\<rparr>) ps else ps)"
    by (simp add: update_peer_def)
  also have "\<dots> = List.map_filter (sweep_row cfg now i) (q # ps)" by (simp only: IH map_filter_simps row option.case)
  finally show ?case .
qed

lemma swept_none:
  assumes "\<forall>q \<in> set ps. ID q = i \<longrightarrow> due_stage cfg (age_of now q) = 0"
  shows "List.map_filter (sweep_row cfg now i) ps = ps"
  using assms
proof (induction ps)
  case (Cons q ps)
  then have "sweep_row cfg now i q = Some q" by (cases "ID q = i") (simp_all add: sweep_row_def swept_def)
  with Cons show ?case by (simp add: map_filter_simps)
qed (simp add: map_filter_simps)

lemma sweep_peer_acts:
  assumes run: "run_state (sweep_peer cfg s) w = (u, w')"
    and snap: "s = inactive_row (w_now w) n p" "Status p = ''active''" "\<And>q. q \<in> set (w_peers w) \<Longrightarrow> ID q = ID p \<Longrightarrow> q = p"
  shows "\<exists>ps out. acts w w' ps out \<and> (ic_DryRun cfg \<longrightarrow> ps = w_peers w \<and> out = [])
    \<and> (\<forall>q \<in> set (w_peers w). ID q \<noteq> ID p \<or> due_stage cfg (age_of (w_now w) q) = 0 \<longrightarrow> q \<in> set ps)
    \<and> (\<forall>q \<in> set ps. ID q \<noteq> ID p \<longrightarrow> q \<in> set (w_peers w))
    \<and> (nofault w \<and> \<not> ic_DryRun cfg \<longrightarrow> ps = List.map_filter (sweep_row cfg (w_now w) (ID p)) (w_peers w) \<and> out = sweep_warnings cfg (w_bindings w) s)"
proof -
  let ?d = "due_stage cfg (ip_AgeMs s)"
  have s: "ip_PeerID s = ID p" "ip_Stage s = InactivityWarningStage p" "ip_AgeMs s = age_of (w_now w) p"
    by (simp_all add: snap(1) inactive_row_def)
  have rows: "\<forall>q \<in> set (w_peers w). ID q = ID p \<longrightarrow>
      Status q = ''active'' \<and> due_stage cfg (age_of (w_now w) q) = ?d \<and> (InactivityWarningStage q < x \<longleftrightarrow> ip_Stage s < x)" for x
    using snap s by auto
  have in_upd: "q \<in> set (w_peers w) \<Longrightarrow> ID q \<noteq> ID p \<Longrightarrow> q \<in> set (update_peer (ID p) f (w_peers w))" for q f
    by (force simp: update_peer_def)
  have from_upd: "q \<in> set (update_peer (ID p) f (w_peers w)) \<Longrightarrow> ID q \<noteq> ID p \<Longrightarrow> (\<And>r. ID (f r) = ID r) \<Longrightarrow> q \<in> set (w_peers w)" for q f
    by (auto simp: update_peer_def split: if_splits)
  have "?d \<in> {0, 1, 2, 3}" by (simp add: due_stage_def)
  then consider "?d = 3" | "?d = 2 \<or> ?d = 1" | "?d = 0" by blast
  then show ?thesis
  proof cases
    case 1
    then have late: "ip_AgeMs s \<ge> days_ms (ic_DeleteDays cfg)" by (auto simp: due_stage_def split: if_splits)
    obtain w1 where r1: "run_state (warn_to cfg s 3) w = ((), w1)" by (metis old.unit.exhaust prod.collapse)
    have r2: "run_state (deletePeer cfg s) w1 = (u, w')" using run late r1 by (simp add: sweep_peer_def)
    from warn_to_acts [OF r1] obtain ps1 out where a1: "acts w w1 ps1 out" "ic_DryRun cfg \<longrightarrow> ps1 = w_peers w \<and> out = []"
      "ps1 \<in> {w_peers w, update_peer (ID p) (\<lambda>p. p\<lparr>InactivityWarningStage := 3\<rparr>) (w_peers w)}"
      "nofault w \<and> \<not> ic_DryRun cfg \<longrightarrow> ps1 = (if ip_Stage s < 3 then update_peer (ID p) (\<lambda>p. p\<lparr>InactivityWarningStage := 3\<rparr>) (w_peers w) else w_peers w)
        \<and> out = (if ip_Stage s < 3 then warning_of (w_bindings w) s else [])" unfolding s by blast
    from deletePeer_acts [OF r2] obtain ps where a2: "acts w1 w' ps []" "ic_DryRun cfg \<longrightarrow> ps = w_peers w1"
      "ps \<in> {w_peers w1, filter (\<lambda>q. \<not> (ID q = ID p \<and> InactivityWarningStage q = 3)) (w_peers w1)}"
      "nofault w1 \<and> \<not> ic_DryRun cfg \<longrightarrow> ps = filter (\<lambda>q. \<not> (ID q = ID p \<and> InactivityWarningStage q = 3)) (w_peers w1)" unfolding s by blast
    have w1: "w_peers w1 = ps1" "nofault w \<longrightarrow> nofault w1" using a1(1) by (simp_all add: acts_def)
    have exact: "nofault w \<and> \<not> ic_DryRun cfg \<longrightarrow> ps = List.map_filter (sweep_row cfg (w_now w) (ID p)) (w_peers w) \<and> out = sweep_warnings cfg (w_bindings w) s"
      using swept_delete [where b = "ip_Stage s < 3", OF rows [unfolded 1, of 3]] a1(4) a2(4) w1 1 by (simp add: sweep_warnings_def)
    have keep: "\<forall>q \<in> set (w_peers w). ID q \<noteq> ID p \<or> due_stage cfg (age_of (w_now w) q) = 0 \<longrightarrow> q \<in> set ps"
    proof (intro ballI impI)
      fix q assume q: "q \<in> set (w_peers w)" "ID q \<noteq> ID p \<or> due_stage cfg (age_of (w_now w) q) = 0"
      with rows [of 3] 1 have other: "ID q \<noteq> ID p" by auto
      then have "q \<in> set ps1" using a1(3) q(1) in_upd by auto
      with a2(3) w1(1) other show "q \<in> set ps" by auto
    qed
    from acts_trans [OF a1(1) a2(1)] have "acts w w' ps out" by simp
    moreover have "ic_DryRun cfg \<longrightarrow> ps = w_peers w \<and> out = []" using a1(2) a2(2) w1(1) by simp
    moreover have "\<forall>q \<in> set ps. ID q \<noteq> ID p \<longrightarrow> q \<in> set (w_peers w)"
      using a1(3) a2(3) w1(1) from_upd [of _ "\<lambda>p. p\<lparr>InactivityWarningStage := 3\<rparr>"] by auto
    ultimately show ?thesis using exact keep by blast
  next
    case 2
    then have r: "run_state (warn_to cfg s ?d) w = (u, w')" using run by (auto simp: sweep_peer_def due_stage_def split: if_splits)
    from warn_to_acts [OF r] obtain ps out where a: "acts w w' ps out" "ic_DryRun cfg \<longrightarrow> ps = w_peers w \<and> out = []"
      "ps \<in> {w_peers w, update_peer (ID p) (\<lambda>p. p\<lparr>InactivityWarningStage := ?d\<rparr>) (w_peers w)}"
      "nofault w \<and> \<not> ic_DryRun cfg \<longrightarrow> ps = (if ip_Stage s < ?d then update_peer (ID p) (\<lambda>p. p\<lparr>InactivityWarningStage := ?d\<rparr>) (w_peers w) else w_peers w)
        \<and> out = (if ip_Stage s < ?d then warning_of (w_bindings w) s else [])" unfolding s(1) by blast
    have "ps = List.map_filter (sweep_row cfg (w_now w) (ID p)) (w_peers w) \<and> out = sweep_warnings cfg (w_bindings w) s" if "nofault w \<and> \<not> ic_DryRun cfg"
      using swept_warn [where b = "ip_Stage s < ?d", OF rows [of ?d]] a(4) that 2 by (auto simp: sweep_warnings_def)
    moreover have "\<forall>q \<in> set (w_peers w). ID q \<noteq> ID p \<or> due_stage cfg (age_of (w_now w) q) = 0 \<longrightarrow> q \<in> set ps"
      using a(3) in_upd rows [of 3] 2 by force
    moreover have "\<forall>q \<in> set ps. ID q \<noteq> ID p \<longrightarrow> q \<in> set (w_peers w)"
      using a(3) from_upd [of _ "\<lambda>p. p\<lparr>InactivityWarningStage := ?d\<rparr>"] by auto
    ultimately show ?thesis using a(1,2) by blast
  next
    case 3
    then have "w' = w" using run by (auto simp: sweep_peer_def due_stage_def split: if_splits)
    moreover have "List.map_filter (sweep_row cfg (w_now w) (ID p)) (w_peers w) = w_peers w"
      by (rule swept_none) (use rows [of 3] 3 in auto)
    ultimately show ?thesis using 3 by (intro exI [of _ "w_peers w"] exI [of _ "[]"]) (auto simp: acts_def sweep_warnings_def)
  qed
qed

definition sweep_rows :: "inactivity_config \<Rightarrow> int \<Rightarrow> string set \<Rightarrow> peer \<Rightarrow> peer option" where
  "sweep_rows cfg now D q = (if ID q \<in> D then swept cfg now q else Some q)"

lemma swept_ID: "swept cfg now q = Some r \<Longrightarrow> ID r = ID q"
  by (auto simp: swept_def Let_def split: if_splits)

lemma sweep_rows_step:
  assumes "i \<notin> D"
  shows "List.map_filter (sweep_rows cfg now D) (List.map_filter (sweep_row cfg now i) ps) = List.map_filter (sweep_rows cfg now (insert i D)) ps"
proof (induction ps)
  case (Cons q ps)
  show ?case
  proof (cases "ID q = i")
    case True
    then have rows: "sweep_row cfg now i q = swept cfg now q" "sweep_rows cfg now (insert i D) q = swept cfg now q"
      by (simp_all add: sweep_row_def sweep_rows_def)
    have "sweep_rows cfg now D r = Some r" if "swept cfg now q = Some r" for r
      using assms swept_ID [OF that] True by (simp add: sweep_rows_def)
    with rows Cons show ?thesis by (cases "swept cfg now q") (simp_all add: map_filter_simps)
  next
    case False
    then have "sweep_row cfg now i q = Some q" "sweep_rows cfg now (insert i D) q = sweep_rows cfg now D q"
      by (simp_all add: sweep_row_def sweep_rows_def)
    with Cons show ?thesis by (cases "sweep_rows cfg now D q") (simp_all add: map_filter_simps)
  qed
qed (simp add: map_filter_simps)

definition snapshots :: "world \<Rightarrow> InactivePeer list \<Rightarrow> bool" where
  "snapshots w L \<longleftrightarrow> distinct (map ip_PeerID L) \<and> (\<forall>s \<in> set L. \<exists>n p. s = inactive_row (w_now w) n p \<and> Status p = ''active''
     \<and> (\<forall>q \<in> set (w_peers w). ID q = ID p \<longrightarrow> q = p))"

lemma sweep_peers_acts:
  assumes "run_state (sweep_peers cfg L) w = (u, w')" "snapshots w L"
  shows "\<exists>ps out. acts w w' ps out \<and> (ic_DryRun cfg \<longrightarrow> ps = w_peers w \<and> out = [])
    \<and> (\<forall>q \<in> set (w_peers w). ID q \<notin> ip_PeerID ` set L \<or> due_stage cfg (age_of (w_now w) q) = 0 \<longrightarrow> q \<in> set ps)
    \<and> (nofault w \<and> \<not> ic_DryRun cfg \<longrightarrow> ps = List.map_filter (sweep_rows cfg (w_now w) (ip_PeerID ` set L)) (w_peers w)
        \<and> out = concat (map (sweep_warnings cfg (w_bindings w)) L))"
  using assms
proof (induction L arbitrary: w)
  case Nil
  have "List.map_filter (sweep_rows cfg now {}) ps = ps" for now ps
    by (induction ps) (simp_all add: map_filter_simps sweep_rows_def)
  with Nil show ?case by (intro exI [of _ "w_peers w"] exI [of _ "[]"]) (auto simp: acts_def)
next
  case (Cons s L)
  obtain w1 where r1: "run_state (sweep_peer cfg s) w = ((), w1)" by (metis old.unit.exhaust prod.collapse)
  have r2: "run_state (sweep_peers cfg L) w1 = (u, w')" using Cons.prems(1) r1 by simp
  from Cons.prems(2) obtain n p where s: "s = inactive_row (w_now w) n p" "Status p = ''active''"
    "\<And>q. q \<in> set (w_peers w) \<Longrightarrow> ID q = ID p \<Longrightarrow> q = p" by (auto simp: snapshots_def)
  have i: "ip_PeerID s = ID p" by (simp add: s(1) inactive_row_def)
  from sweep_peer_acts [OF r1 s] obtain ps1 out1 where a1: "acts w w1 ps1 out1" "ic_DryRun cfg \<longrightarrow> ps1 = w_peers w \<and> out1 = []"
    "\<forall>q \<in> set (w_peers w). ID q \<noteq> ID p \<or> due_stage cfg (age_of (w_now w) q) = 0 \<longrightarrow> q \<in> set ps1"
    "\<forall>q \<in> set ps1. ID q \<noteq> ID p \<longrightarrow> q \<in> set (w_peers w)"
    "nofault w \<and> \<not> ic_DryRun cfg \<longrightarrow> ps1 = List.map_filter (sweep_row cfg (w_now w) (ID p)) (w_peers w) \<and> out1 = sweep_warnings cfg (w_bindings w) s"
    by blast
  then have w1: "w_peers w1 = ps1" "w_now w1 = w_now w" "w_bindings w1 = w_bindings w" "nofault w \<longrightarrow> nofault w1" by (simp_all add: acts_def)
  have fresh: "ID p \<notin> ip_PeerID ` set L" using Cons.prems(2) by (simp add: snapshots_def i)
  have "snapshots w1 L"
    unfolding snapshots_def
  proof (intro conjI ballI)
    show "distinct (map ip_PeerID L)" using Cons.prems(2) by (simp add: snapshots_def)
    fix s' assume s': "s' \<in> set L"
    with Cons.prems(2) obtain n' p' where p': "s' = inactive_row (w_now w) n' p'" "Status p' = ''active''"
      "\<forall>q \<in> set (w_peers w). ID q = ID p' \<longrightarrow> q = p'" by (auto simp: snapshots_def)
    have "ip_PeerID s' = ID p'" by (simp add: p'(1) inactive_row_def)
    with fresh s' have "ID p' \<noteq> ID p" by (metis image_eqI)
    with p' a1(4) w1 show "\<exists>n p. s' = inactive_row (w_now w1) n p \<and> Status p = ''active'' \<and> (\<forall>q \<in> set (w_peers w1). ID q = ID p \<longrightarrow> q = p)"
      by (metis)
  qed
  from Cons.IH [OF r2 this] obtain ps out2 where a2: "acts w1 w' ps out2" "ic_DryRun cfg \<longrightarrow> ps = w_peers w1 \<and> out2 = []"
    "\<forall>q \<in> set (w_peers w1). ID q \<notin> ip_PeerID ` set L \<or> due_stage cfg (age_of (w_now w1) q) = 0 \<longrightarrow> q \<in> set ps"
    "nofault w1 \<and> \<not> ic_DryRun cfg \<longrightarrow> ps = List.map_filter (sweep_rows cfg (w_now w1) (ip_PeerID ` set L)) (w_peers w1)
        \<and> out2 = concat (map (sweep_warnings cfg (w_bindings w1)) L)" by blast
  show ?case
  proof (intro exI [of _ ps] exI [of _ "out1 @ out2"] conjI)
    show "acts w w' ps (out1 @ out2)" by (rule acts_trans [OF a1(1) a2(1)])
    show "ic_DryRun cfg \<longrightarrow> ps = w_peers w \<and> out1 @ out2 = []" using a1(2) a2(2) w1(1) by simp
    show "\<forall>q \<in> set (w_peers w). ID q \<notin> ip_PeerID ` set (s # L) \<or> due_stage cfg (age_of (w_now w) q) = 0 \<longrightarrow> q \<in> set ps"
      using a1(3) a2(3) w1(1,2) i by auto
    show "nofault w \<and> \<not> ic_DryRun cfg \<longrightarrow> ps = List.map_filter (sweep_rows cfg (w_now w) (ip_PeerID ` set (s # L))) (w_peers w)
        \<and> out1 @ out2 = concat (map (sweep_warnings cfg (w_bindings w)) (s # L))"
      using a1(5) a2(4) w1 i sweep_rows_step [OF fresh, of cfg "w_now w" "w_peers w"] by simp
  qed
qed

definition inactive_listing :: "world \<Rightarrow> InactivePeer list" where
  "inactive_listing w = sort_key (\<lambda>r. - ip_AgeMs r) (map (\<lambda>(p, n). inactive_row (w_now w) n p)
     (List.map_filter (join_node w) (filter (\<lambda>p. Status p = ''active'') (w_peers w))))"

lemma run_ListInactive:
  "run_state peers_ListInactiveActivePeers w = (if db_fails w then Inl DbFail else Inr (inactive_listing w), db_next w)"
  by (simp add: peers_ListInactiveActivePeers_def inactive_listing_def inactive_row_def age_of_def join_node_def [abs_def] case_prod_unfold)

lemma joined_ids:
  "map (\<lambda>(p, n). ip_PeerID (inactive_row now n p)) (List.map_filter (join_node w) ps) = map ID (filter (\<lambda>p. find_node (NodeID p) (w_nodes w) \<noteq> None) ps)"
  by (induction ps) (auto simp: map_filter_simps join_node_def inactive_row_def split: option.splits)

lemma listing_distinct: "distinct (map ID (w_peers w)) \<Longrightarrow> distinct (map ip_PeerID (inactive_listing w))"
proof -
  assume d: "distinct (map ID (w_peers w))"
  let ?js = "List.map_filter (join_node w) (filter (\<lambda>p. Status p = ''active'') (w_peers w))"
  have "mset (map ip_PeerID (inactive_listing w)) = mset (map (\<lambda>(p, n). ip_PeerID (inactive_row (w_now w) n p)) ?js)"
    by (simp add: inactive_listing_def mset_sort case_prod_unfold multiset.map_comp comp_def)
  moreover have "distinct (map (\<lambda>(p, n). ip_PeerID (inactive_row (w_now w) n p)) ?js)"
    unfolding joined_ids using d by (simp add: distinct_map_filter)
  ultimately show ?thesis by (metis mset_eq_imp_distinct_iff)
qed

lemma listing_rows:
  assumes "s \<in> set (inactive_listing w)"
  obtains p n where "p \<in> set (w_peers w)" "Status p = ''active''" "s = inactive_row (w_now w) n p"
  using assms that by (auto simp: inactive_listing_def map_filter_def join_node_def)

lemma listing_ids:
  assumes "tables_ok w"
  shows "ip_PeerID ` set (inactive_listing w) = ID ` {p \<in> set (w_peers w). Status p = ''active''}"
proof -
  have nodes: "find_node (NodeID p) (w_nodes w) \<noteq> None" if "p \<in> set (w_peers w)" for p
  proof -
    from assms that have "NodeID p \<in> n_ID ` set (w_nodes w)" by (simp add: tables_ok_def list_all_iff)
    then obtain n where "n \<in> set (w_nodes w)" "n_ID n = NodeID p" by auto
    then show ?thesis unfolding find_node_def by (auto simp: find_None_iff)
  qed
  have "ip_PeerID ` set (inactive_listing w) = set (map (\<lambda>(p, n). ip_PeerID (inactive_row (w_now w) n p))
      (List.map_filter (join_node w) (filter (\<lambda>p. Status p = ''active'') (w_peers w))))"
    by (force simp: inactive_listing_def)
  also have "\<dots> = ID ` {p \<in> set (w_peers w). Status p = ''active''}" unfolding joined_ids using nodes by auto
  finally show ?thesis .
qed

lemma snapshots_listing:
  assumes "tables_ok w"
  shows "snapshots w (inactive_listing w)"
  unfolding snapshots_def
proof (intro conjI ballI)
  have d: "distinct (map ID (w_peers w))" using assms by (simp add: tables_ok_def)
  then show "distinct (map ip_PeerID (inactive_listing w))" by (rule listing_distinct)
  fix s assume "s \<in> set (inactive_listing w)"
  then obtain p n where "p \<in> set (w_peers w)" "Status p = ''active''" "s = inactive_row (w_now w) n p" by (rule listing_rows)
  with d show "\<exists>n p. s = inactive_row (w_now w) n p \<and> Status p = ''active'' \<and> (\<forall>q \<in> set (w_peers w). ID q = ID p \<longrightarrow> q = p)"
    by (metis distinct_map inj_onD)
qed

lemma map_filter_cong: "(\<And>x. x \<in> set xs \<Longrightarrow> f x = g x) \<Longrightarrow> List.map_filter f xs = List.map_filter g xs"
  by (induction xs) (auto simp: map_filter_simps split: option.splits)

text \<open>C18. What an enabled sweep does. Whatever the database does, it leaves a peer alone that is not active or
  was heard of recently enough. A dry run changes nothing and tells nobody. When the database answers, the
  table afterwards is exactly the one in which every active peer past the last threshold is gone and the
  others carry the warning stage that their silence has reached, and the owners of exactly those that moved
  to a new stage are told, by mail and by bot, the longest silent first.\<close>

theorem sweep_correct:
  assumes "tables_ok w" "ic_Enabled cfg" "run_state (sweep cfg) w = (u, w')"
  shows "(\<forall>p \<in> set (w_peers w). Status p \<noteq> ''active'' \<or> due_stage cfg (age_of (w_now w) p) = 0 \<longrightarrow> p \<in> set (w_peers w'))
    \<and> (ic_DryRun cfg \<longrightarrow> w_peers w' = w_peers w \<and> w_out w' = w_out w)
    \<and> (nofault w \<and> \<not> ic_DryRun cfg \<longrightarrow> w_peers w' = List.map_filter (swept cfg (w_now w)) (w_peers w)
        \<and> w_out w' = w_out w @ concat (map (sweep_warnings cfg (w_bindings w)) (inactive_listing w)))"
proof (cases "db_fails w")
  case True
  then have "w' = db_next w" using assms by (simp add: sweep_def run_ListInactive)
  then show ?thesis using True nofault_not_fails [of w] by auto
next
  case False
  then have run: "run_state (sweep_peers cfg (inactive_listing w)) (db_next w) = (u, w')" using assms by (simp add: sweep_def run_ListInactive)
  have "snapshots (db_next w) (inactive_listing w)" using snapshots_listing [OF assms(1)] by (simp add: snapshots_def)
  from sweep_peers_acts [OF run this] obtain ps out where a: "acts (db_next w) w' ps out" "ic_DryRun cfg \<longrightarrow> ps = w_peers w \<and> out = []"
    "\<forall>q \<in> set (w_peers w). ID q \<notin> ip_PeerID ` set (inactive_listing w) \<or> due_stage cfg (age_of (w_now w) q) = 0 \<longrightarrow> q \<in> set ps"
    "nofault (db_next w) \<and> \<not> ic_DryRun cfg \<longrightarrow> ps = List.map_filter (sweep_rows cfg (w_now w) (ip_PeerID ` set (inactive_listing w))) (w_peers w)
        \<and> out = concat (map (sweep_warnings cfg (w_bindings w)) (inactive_listing w))" by auto
  have inj: "inj_on ID (set (w_peers w))" using assms(1) by (simp add: tables_ok_def distinct_map)
  have listed: "ID q \<in> ip_PeerID ` set (inactive_listing w) \<longleftrightarrow> Status q = ''active''" if "q \<in> set (w_peers w)" for q
    unfolding listing_ids [OF assms(1)] using that inj by (auto dest: inj_onD)
  have "List.map_filter (sweep_rows cfg (w_now w) (ip_PeerID ` set (inactive_listing w))) (w_peers w) = List.map_filter (swept cfg (w_now w)) (w_peers w)"
    by (rule map_filter_cong) (auto simp: sweep_rows_def listed swept_def)
  with a listed nofault_next [of w] show ?thesis by (auto simp: acts_def)
qed

text \<open>C22. The guard of the deletion. A peer that comes back between the snapshot and its turn is spared when it had
  already been warned for the last time; otherwise the sweep itself writes the last stage over the reset
  and deletes the peer that is live again.\<close>

theorem reactivated_peer_deleted:
  assumes "nofault w" "\<not> ic_DryRun cfg" "distinct (map ID (w_peers w))" "p \<in> set (w_peers w)"
    and late: "due_stage cfg (ip_AgeMs (inactive_row now n p)) = 3"
    and again: "run_state (peers_MarkPeersActive [ID p] at) w = (r, w1)"
    and turn: "run_state (sweep_peer cfg (inactive_row now n p)) w1 = (u, w2)"
  shows "if InactivityWarningStage p < 3 then ID p \<notin> ID ` set (w_peers w2)
    else p\<lparr>LastActiveAt := Some at, InactivityWarningStage := 0\<rparr> \<in> set (w_peers w2)"
proof -
  let ?s = "inactive_row now n p" and ?live = "\<lambda>q. if ID q \<in> set [ID p] then q\<lparr>LastActiveAt := Some at, InactivityWarningStage := 0\<rparr> else q"
  have s: "ip_PeerID ?s = ID p" "ip_Stage ?s = InactivityWarningStage p" by (simp_all add: inactive_row_def)
  have w1: "w_peers w1 = map ?live (w_peers w)" "nofault w1"
    using again assms(1) nofault_not_fails [OF assms(1)] nofault_next [OF assms(1)] by (auto simp: peers_MarkPeersActive_def run_db_write)
  obtain w3 where r1: "run_state (warn_to cfg ?s 3) w1 = ((), w3)" by (metis old.unit.exhaust prod.collapse)
  have "days_ms (ic_DeleteDays cfg) \<le> ip_AgeMs ?s" using late by (auto simp: due_stage_def split: if_splits)
  then have r2: "run_state (deletePeer cfg ?s) w3 = (u, w2)" using turn r1 by (simp add: sweep_peer_def)
  from warn_to_acts [OF r1] w1(2) assms(2) s have w3: "nofault w3"
    "w_peers w3 = (if InactivityWarningStage p < 3 then update_peer (ID p) (\<lambda>p. p\<lparr>InactivityWarningStage := 3\<rparr>) (w_peers w1) else w_peers w1)"
    by (auto simp: acts_def)
  from deletePeer_acts [OF r2] w3(1) assms(2) s
  have w2: "w_peers w2 = filter (\<lambda>q. \<not> (ID q = ID p \<and> InactivityWarningStage q = 3)) (w_peers w3)" by (auto simp: acts_def)
  show ?thesis
  proof (cases "InactivityWarningStage p < 3")
    case True
    then show ?thesis by (auto simp: w2 w3(2) update_peer_def)
  next
    case False
    then show ?thesis using assms(4) by (auto simp: w2 w3(2) w1(1) image_iff intro: bexI [of _ p])
  qed
qed

section \<open>An instance\<close>

definition default_cfg :: inactivity_config where
  "default_cfg = NewWorker \<lparr>ic_Enabled = True, ic_WarnFirstDays = 0, ic_WarnSecondDays = 0, ic_DeleteDays = 0, ic_DryRun = False\<rparr>"

definition silent_peer :: peer where
  "silent_peer = zero_peer\<lparr>ID := ''p1'', NodeID := ''n1'', RemoteASN := 4242420123, ContactEmail := ''a@b.c'', Status := ''active'',
     LastActiveAt := Some 0\<rparr>"

definition silent_node :: node where
  "silent_node = \<lparr>n_ID = ''n1'', n_Name = ''hkg'', n_Location = ''HK'', n_AgentToken = ''t'', n_AgentPubkey = [],
     n_PublicIP = ''192.0.2.1'', n_OurASN = 4242420001, n_OurLLA = ''fe80::1'', n_OurWgPubkey = ''k'', n_BirdPeerDir = [],
     n_WgDir = [], n_WgPortPrefix = 5, n_Online = True, n_Enabled = True, n_AgentVersion = [], n_AgentState = ''running'',
     n_AgentStateChangedAt = 0, n_CreatedAt = 1\<rparr>"

definition silent_world :: "int \<Rightarrow> world" where
  "silent_world days = beat_world\<lparr>w_peers := [silent_peer], w_nodes := [silent_node], w_now := days_ms days\<rparr>"

lemmas silent_defs = silent_world_def silent_peer_def silent_node_def beat_world_def zero_peer_def

lemma silent_world_ok: "tables_ok (silent_world d)" "nofault (silent_world d)"
  by (simp_all add: tables_ok_def nofault_def silent_defs)

theorem sweep_correct_witness:
  "w_peers (snd (run_state (sweep default_cfg) (silent_world 46))) = [silent_peer\<lparr>InactivityWarningStage := 1\<rparr>]
   \<and> w_out (snd (run_state (sweep default_cfg) (silent_world 46))) = [Email ''a@b.c'' ''peer-inactive-warning'' 4242420123]"
proof -
  obtain u w' where run: "run_state (sweep default_cfg) (silent_world 46) = (u, w')" by (metis prod.collapse)
  have "ic_Enabled default_cfg" "\<not> ic_DryRun default_cfg" by (simp_all add: default_cfg_def NewWorker_def)
  with sweep_correct [OF silent_world_ok(1) this(1) run] silent_world_ok(2)
  have "w_peers w' = List.map_filter (swept default_cfg (w_now (silent_world 46))) (w_peers (silent_world 46))
    \<and> w_out w' = w_out (silent_world 46) @ concat (map (sweep_warnings default_cfg (w_bindings (silent_world 46))) (inactive_listing (silent_world 46)))"
    by simp
  then show ?thesis using run
    by (simp add: silent_defs map_filter_simps swept_def age_of_def due_stage_def default_cfg_def NewWorker_def days_ms_def sweep_warnings_def
        inactive_listing_def join_node_def find_node_def inactive_row_def warning_of_def)
qed

theorem reactivated_peer_deleted_witness:
  "ID silent_peer \<notin> ID ` set (w_peers (snd (run_state (sweep_peer default_cfg (inactive_row (days_ms 61) silent_node silent_peer))
     (snd (run_state (peers_MarkPeersActive [''p1''] (days_ms 61)) (silent_world 61))))))"
proof -
  obtain r w1 where again: "run_state (peers_MarkPeersActive [ID silent_peer] (days_ms 61)) (silent_world 61) = (r, w1)" by (metis prod.collapse)
  obtain u w2 where turn: "run_state (sweep_peer default_cfg (inactive_row (days_ms 61) silent_node silent_peer)) w1 = (u, w2)" by (metis prod.collapse)
  have c: "\<not> ic_DryRun default_cfg" "distinct (map ID (w_peers (silent_world 61)))" "silent_peer \<in> set (w_peers (silent_world 61))"
    "due_stage default_cfg (ip_AgeMs (inactive_row (days_ms 61) silent_node silent_peer)) = 3"
    by (simp_all add: silent_defs default_cfg_def NewWorker_def due_stage_def inactive_row_def age_of_def days_ms_def)
  from reactivated_peer_deleted [OF silent_world_ok(2) c again turn] again turn show ?thesis by (simp add: silent_defs)
qed

end
