(* ===== verification/Endpoint.thy ===== *)
theory Endpoint
  imports Heartbeat Sync
begin

text \<open>
  \<^verbatim>\<open>internal/endpoint\<close>: the periodic comparison of the endpoint a user configured with the one the agent sees.
  \<^verbatim>\<open>compare.go\<close> resolves and compares, \<^verbatim>\<open>checker.go\<close> remembers since when a peer mismatches and tells its owner.
  The resolver is the parameter \<open>dns\<close>. The goroutines of one pass work on different peers; the model runs them
  in the order of the list. A duration is compared in nanoseconds, where \<^verbatim>\<open>time.Duration\<close> wraps.
\<close>

section \<open>Comparing endpoints\<close>

type_synonym resolver = "string \<Rightarrow> string + ip list"

definition trim_brackets :: "string \<Rightarrow> string" where
  "trim_brackets s = (let s1 = (if has_prefix s ''['' then drop 1 s else s) in
     if s1 \<noteq> [] \<and> last s1 = CHR '']'' then butlast s1 else s1)"

definition normalizeIPPort :: "string \<Rightarrow> string \<Rightarrow> string" where
  "normalizeIPPort ip port =
     (let i = trim_brackets ip in
      case parse_ip i of None \<Rightarrow> join_host_port i port | Some b \<Rightarrow> join_host_port (ip_string b) port)"

definition resolveAllEndpoints :: "resolver \<Rightarrow> string \<Rightarrow> string + string list" where
  "resolveAllEndpoints dns endpoint =
     (case split_host_port endpoint of
        None \<Rightarrow> Inl ''parse endpoint''
      | Some (host, port) \<Rightarrow>
          (case parse_ip host of
             Some ip \<Rightarrow> Inr [normalizeIPPort (ip_string ip) port]
           | None \<Rightarrow>
               (case dns host of
                  Inl e \<Rightarrow> Inl (''DNS lookup: '' @ e)
                | Inr ips \<Rightarrow> if ips = [] then Inl ''no DNS results''
                             else Inr (map (\<lambda>ip. normalizeIPPort (ip_string ip) port) ips))))"

definition resolveEndpoint :: "resolver \<Rightarrow> string \<Rightarrow> string + string" where
  "resolveEndpoint dns endpoint =
     (case split_host_port endpoint of
        None \<Rightarrow> Inl ''parse endpoint''
      | Some (host, port) \<Rightarrow>
          (case parse_ip host of
             Some ip \<Rightarrow> Inr (normalizeIPPort (ip_string ip) port)
           | None \<Rightarrow>
               (case dns host of
                  Inl e \<Rightarrow> Inl (''DNS lookup: '' @ e)
                | Inr ips \<Rightarrow> if ips = [] then Inl ''no DNS results'' else Inr (normalizeIPPort (ip_string (hd ips)) port))))"

definition endpointsMatch :: "resolver \<Rightarrow> string \<Rightarrow> string \<Rightarrow> string + bool" where
  "endpointsMatch dns userEndpoint actualEndpoint =
     (case resolveAllEndpoints dns userEndpoint of
        Inl e \<Rightarrow> Inl e
      | Inr allowed \<Rightarrow>
          (case resolveEndpoint dns actualEndpoint of
             Inl e \<Rightarrow> Inl e
           | Inr resolvedActual \<Rightarrow> Inr (resolvedActual \<in> set allowed)))"

section \<open>The rows of a check\<close>

record PeerEndpointCheck =
  pe_PeerID :: string
  pe_NodeID :: string
  pe_RemoteASN :: int
  pe_RemoteEndpoint :: string
  pe_WgActualEndpoint :: string
  pe_BgpProtoName :: string
  pe_ContactEmail :: string
  pe_NodeName :: string
  pe_EndpointMismatchSince :: "int option"
  pe_BGPSuspendedByEndpoint :: bool

text \<open>The endpoint of the newest metric that has one, however old it is.\<close>

definition actual_endpoint :: "world \<Rightarrow> string \<Rightarrow> string" where
  "actual_endpoint w peerID = (case sort_key (\<lambda>m. - pm_Time m)
       (filter (\<lambda>m. pm_PeerID m = peerID \<and> pm_WgActualEndpoint m \<noteq> []) (mo_peer_metrics (w_mon w))) of
     [] \<Rightarrow> [] | m # _ \<Rightarrow> pm_WgActualEndpoint m)"

definition check_row :: "string \<Rightarrow> peer \<Rightarrow> node \<Rightarrow> PeerEndpointCheck" where
  "check_row actual p n = \<lparr>pe_PeerID = ID p, pe_NodeID = NodeID p, pe_RemoteASN = RemoteASN p, pe_RemoteEndpoint = RemoteEndpoint p,
     pe_WgActualEndpoint = actual, pe_BgpProtoName = BgpProtoName p, pe_ContactEmail = ContactEmail p, pe_NodeName = n_Name n,
     pe_EndpointMismatchSince = EndpointMismatchSince p, pe_BGPSuspendedByEndpoint = BGPSuspendedByEndpoint p\<rparr>"

definition peers_ListActivePeersForEndpointCheck :: "(db_error + PeerEndpointCheck list) M" where
  "peers_ListActivePeersForEndpointCheck = db_read (\<lambda>w. Inr (map (\<lambda>(p, n). check_row (actual_endpoint w (ID p)) p n)
     (List.map_filter (join_node w) (sort_key ID (filter (\<lambda>p. Status p = ''active'' \<and> RemoteEndpoint p \<noteq> []) (w_peers w))))))"

definition peers_ListPeersSuspendedByEndpoint :: "(db_error + PeerEndpointCheck list) M" where
  "peers_ListPeersSuspendedByEndpoint = db_read (\<lambda>w. Inr (map (\<lambda>(p, n). check_row [] p n)
     (List.map_filter (join_node w) (sort_key ID (filter (\<lambda>p. BGPSuspendedByEndpoint p \<and> Status p = ''active'') (w_peers w))))))"

section \<open>The checker\<close>

definition NotifyPeerBot :: "int \<Rightarrow> string \<Rightarrow> string \<Rightarrow> unit M" where
  "NotifyPeerBot asn notifKey event = do {
     b \<leftarrow> bindings_GetByASN asn;
     case b of
       Inl _ \<Rightarrow> ret ()
     | Inr binding \<Rightarrow> do {
         ok \<leftarrow> IsTelegramNotificationEnabledForASN asn notifKey;
         if ok then notify (BotUser (bb_TgUserID binding) event) else ret ()
       }
   }"

definition tell_owner :: "PeerEndpointCheck \<Rightarrow> string \<Rightarrow> string \<Rightarrow> string \<Rightarrow> unit M" where
  "tell_owner p key template event = do {
     _ \<leftarrow> (if pe_ContactEmail p \<noteq> [] then do {
             ok \<leftarrow> IsNotificationEnabledForASN (pe_RemoteASN p) key;
             if ok then notify (Email (pe_ContactEmail p) template (pe_RemoteASN p)) else ret ()
           } else ret ());
     NotifyPeerBot (pe_RemoteASN p) key event
   }"

text \<open>\<^verbatim>\<open>resumeBGP\<close> and \<^verbatim>\<open>suspendBGP\<close> fail when there is no answer; what the answer says is not looked at.\<close>

definition bird_control :: "(string \<Rightarrow> string \<Rightarrow> agent_command) \<Rightarrow> PeerEndpointCheck \<Rightarrow> bool M" where
  "bird_control cmd p = do {
     r \<leftarrow> SendCommand (pe_NodeID p) (cmd (pe_PeerID p) (pe_BgpProtoName p));
     ret (case r of Answer _ \<Rightarrow> True | _ \<Rightarrow> False)
   }"

definition resumeBGP :: "PeerEndpointCheck \<Rightarrow> bool M" where
  "resumeBGP p = bird_control BirdEnable p"

definition suspendBGP :: "PeerEndpointCheck \<Rightarrow> bool M" where
  "suspendBGP p = bird_control BirdDisable p"

definition match_resolved :: "PeerEndpointCheck \<Rightarrow> unit M" where
  "match_resolved p = do {
     _ \<leftarrow> peers_SetEndpointMismatchSince (pe_PeerID p) None;
     tell_owner p ''peer_endpoint_recovered'' ''peer-endpoint-recovered'' ''peer.endpoint_recovered''
   }"

definition handleMatch :: "PeerEndpointCheck \<Rightarrow> unit M" where
  "handleMatch p =
     (if pe_EndpointMismatchSince p = None then ret ()
      else if pe_BGPSuspendedByEndpoint p then do {
        ok \<leftarrow> resumeBGP p;
        if \<not> ok then ret ()
        else do { _ \<leftarrow> peers_SetBGPSuspendedByEndpoint (pe_PeerID p) False; match_resolved p }
      } else match_resolved p)"

definition clamp_int64 :: "int \<Rightarrow> int" where
  "clamp_int64 x = max (- 9223372036854775808) (min 9223372036854775807 x)"

text \<open>\<^verbatim>\<open>now.Sub(since) < time.Duration(threshold) * time.Minute\<close>\<close>

definition below_threshold :: "int \<Rightarrow> int \<Rightarrow> int \<Rightarrow> bool" where
  "below_threshold now since thresholdMinutes \<longleftrightarrow> clamp_int64 ((now - since) * 1000000) < wrap_int64 (thresholdMinutes * 60000000000)"

definition handleMismatch :: "PeerEndpointCheck \<Rightarrow> int \<Rightarrow> unit M" where
  "handleMismatch p thresholdMinutes = do {
     now \<leftarrow> time_now;
     case pe_EndpointMismatchSince p of
       None \<Rightarrow> do { _ \<leftarrow> peers_SetEndpointMismatchSince (pe_PeerID p) (Some now); ret () }
     | Some since \<Rightarrow>
         if below_threshold now since thresholdMinutes then ret ()
         else if pe_BGPSuspendedByEndpoint p then ret ()
         else tell_owner p ''peer_endpoint_mismatch'' ''peer-endpoint-mismatch'' ''peer.endpoint_mismatch''
   }"

definition checkPeer :: "resolver \<Rightarrow> PeerEndpointCheck \<Rightarrow> int \<Rightarrow> unit M" where
  "checkPeer dns p thresholdMinutes =
     (if pe_WgActualEndpoint p = [] then ret ()
      else if pe_RemoteEndpoint p = [] then ret ()
      else case endpointsMatch dns (pe_RemoteEndpoint p) (pe_WgActualEndpoint p) of
             Inl _ \<Rightarrow> ret ()
           | Inr m \<Rightarrow> if m then handleMatch p else handleMismatch p thresholdMinutes)"

fun check_peers :: "resolver \<Rightarrow> int \<Rightarrow> PeerEndpointCheck list \<Rightarrow> unit M" where
  "check_peers dns t [] = ret ()"
| "check_peers dns t (p # ps) = do { checkPeer dns p t; check_peers dns t ps }"

definition endpoint_checkAll :: "resolver \<Rightarrow> unit M" where
  "endpoint_checkAll dns = do {
     enabled \<leftarrow> GetSettingValue ''endpoint_verification_enabled'';
     if enabled \<noteq> ''true'' then ret ()
     else do {
       r \<leftarrow> peers_ListActivePeersForEndpointCheck;
       case r of
         Inl _ \<Rightarrow> ret ()
       | Inr peers \<Rightarrow>
           if peers = [] then ret ()
           else do {
             v \<leftarrow> GetSettingValue ''endpoint_mismatch_threshold_minutes'';
             check_peers dns (threshold_or 30 v) peers
           }
     }
   }"

fun resume_peers :: "PeerEndpointCheck list \<Rightarrow> unit M" where
  "resume_peers [] = ret ()"
| "resume_peers (p # ps) = do {
     ok \<leftarrow> resumeBGP p;
     _ \<leftarrow> (if \<not> ok then ret ()
           else do {
             _ \<leftarrow> peers_SetBGPSuspendedByEndpoint (pe_PeerID p) False;
             _ \<leftarrow> (if pe_EndpointMismatchSince p \<noteq> None then peers_SetEndpointMismatchSince (pe_PeerID p) None else ret (Inr ()));
             ret ()
           });
     resume_peers ps
   }"

definition resumeAllSuspended :: "unit M" where
  "resumeAllSuspended = do {
     r \<leftarrow> peers_ListPeersSuspendedByEndpoint;
     case r of Inl _ \<Rightarrow> ret () | Inr peers \<Rightarrow> resume_peers peers
   }"

section \<open>What the checker remembers and tells\<close>

definition since_of :: "string \<Rightarrow> world \<Rightarrow> int option" where
  "since_of i w = Option.bind (find_peer i (w_peers w)) EndpointMismatchSince"

text \<open>Since when a peer mismatches, from the results of its checks and from whether the mark could be stored.\<close>

fun track :: "int option \<Rightarrow> int \<Rightarrow> bool \<Rightarrow> bool \<Rightarrow> int option" where
  "track since now m False = since"
| "track since now True True = None"
| "track None now False True = Some now"
| "track (Some t) now False True = Some t"

text \<open>A check of the peer \<open>i\<close> on its current row, when the two endpoints could be compared.\<close>

definition checks :: "resolver \<Rightarrow> int \<Rightarrow> string \<Rightarrow> world \<Rightarrow> bool \<Rightarrow> world \<Rightarrow> bool" where
  "checks dns t i w m w' \<longleftrightarrow> (\<exists>p n actual. find_peer i (w_peers w) = Some p \<and> \<not> BGPSuspendedByEndpoint p \<and> RemoteEndpoint p \<noteq> [] \<and> actual \<noteq> []
     \<and> endpointsMatch dns (RemoteEndpoint p) actual = Inr m \<and> snd (run_state (checkPeer dns (check_row actual p n) t) w) = w')"

lemma keeps_tell_owner: "insensitive I \<Longrightarrow> keeps I (tell_owner p k tp ev)"
  unfolding tell_owner_def NotifyPeerBot_def IsNotificationEnabledForASN_def IsTelegramNotificationEnabledForASN_def
    ListNotificationPreferences_def GetEmailLevel_def bindings_GetByASN_def
  by (intro keeps_intros; (auto intro: keeps_intros split: list.splits)?)

lemma tell_owner_same: "run_state (tell_owner p k tp ev) w = (u, w') \<Longrightarrow> same w w'"
  by (rule keepsD [OF keeps_tell_owner [OF insensitive_becomes] same_refl])

lemma since_same: "same w w' \<Longrightarrow> since_of i w' = since_of i w"
  by (simp add: becomes_def since_of_def)

lemma run_set_since:
  "run_state (peers_SetEndpointMismatchSince i s) w = (if db_fails w then (Inl DbFail, db_next w)
     else (Inr (), (db_next w)\<lparr>w_peers := update_peer i (\<lambda>p. p\<lparr>EndpointMismatchSince := s\<rparr>) (w_peers w)\<rparr>))"
  by (simp add: peers_SetEndpointMismatchSince_def run_db_write)

lemma since_set: "find_peer i (w_peers w) = Some p \<Longrightarrow>
  since_of i ((db_next w)\<lparr>w_peers := update_peer i (\<lambda>p. p\<lparr>EndpointMismatchSince := s\<rparr>) (w_peers w)\<rparr>) = s"
  by (simp add: since_of_def peer_rows.look_upd)

lemma since_next [simp]: "since_of i (db_next w) = since_of i w"
  by (simp add: since_of_def)

lemma checks_track:
  assumes "checks dns t i w m w'"
  shows "since_of i w' = track (since_of i w) (w_now w) m (\<not> db_fails w)
    \<and> (w_out w' \<noteq> w_out w \<longrightarrow> (if m then since_of i w \<noteq> None else \<exists>s. since_of i w = Some s \<and> \<not> below_threshold (w_now w) s t))"
proof -
  from assms obtain p n actual where p: "find_peer i (w_peers w) = Some p" "\<not> BGPSuspendedByEndpoint p" "RemoteEndpoint p \<noteq> []" "actual \<noteq> []"
    "endpointsMatch dns (RemoteEndpoint p) actual = Inr m" and run: "snd (run_state (checkPeer dns (check_row actual p n) t) w) = w'"
    by (auto simp: checks_def)
  let ?s = "check_row actual p n"
  have s: "pe_PeerID ?s = i" "pe_EndpointMismatchSince ?s = since_of i w" "\<not> pe_BGPSuspendedByEndpoint ?s" "pe_RemoteEndpoint ?s = RemoteEndpoint p"
    "pe_WgActualEndpoint ?s = actual"
    using p(1,2) find_peer_ID [OF p(1)] by (simp_all add: check_row_def since_of_def)
  have keep: "track (since_of i w) now False ok = since_of i w" if "since_of i w \<noteq> None" for now ok using that by (cases ok) auto
  define w1 where "w1 = (\<lambda>v. snd (run_state (peers_SetEndpointMismatchSince i v) w))"
  have w1: "since_of i (w1 v) = (if db_fails w then since_of i w else v)" "w_out (w1 v) = w_out w" for v
    using since_set [OF p(1)] by (simp_all add: w1_def run_set_since)
  have tell: "since_of i (snd (run_state (tell_owner ?s k tp ev) v)) = since_of i v" for k tp ev v by (metis prod.collapse tell_owner_same since_same)
  show ?thesis
  proof (cases m)
    case True
    show ?thesis
    proof (cases "since_of i w")
      case None
      with run True p s have "w' = w" by (simp add: checkPeer_def handleMatch_def)
      with None True show ?thesis by (cases "db_fails w") auto
    next
      case (Some t0)
      from run True p s Some have "w' = snd (run_state (tell_owner ?s ''peer_endpoint_recovered'' ''peer-endpoint-recovered'' ''peer.endpoint_recovered'') (w1 None))"
        by (cases "db_fails w") (simp_all add: checkPeer_def handleMatch_def match_resolved_def run_set_since w1_def)
      then show ?thesis using tell w1 True Some by (cases "db_fails w") auto
    qed
  next
    case False
    show ?thesis
    proof (cases "since_of i w")
      case None
      with run False p s have "w' = w1 (Some (w_now w))"
        by (cases "db_fails w") (simp_all add: checkPeer_def handleMismatch_def time_now_def run_set_since w1_def)
      with w1 None False show ?thesis by (cases "db_fails w") auto
    next
      case (Some t0)
      have "w' = (if below_threshold (w_now w) t0 t then w else snd (run_state (tell_owner ?s ''peer_endpoint_mismatch'' ''peer-endpoint-mismatch'' ''peer.endpoint_mismatch'') w))"
        using run False p s Some by (cases "below_threshold (w_now w) t0 t") (simp_all add: checkPeer_def handleMismatch_def time_now_def)
      then have "since_of i w' = since_of i w \<and> (w_out w' \<noteq> w_out w \<longrightarrow> \<not> below_threshold (w_now w) t0 t)" using tell by auto
      then show ?thesis using keep Some False by auto
    qed
  qed
qed

text \<open>A run of checks of one peer, with anything between them that leaves its mark alone. An observation says when the
  check ran, whether it found a match, whether the database answered its first call, which is the one that stores
  the mark, and whether the check sent something.\<close>

inductive endpoint_history :: "resolver \<Rightarrow> int \<Rightarrow> string \<Rightarrow> world \<Rightarrow> (int \<times> bool \<times> bool \<times> bool) list \<Rightarrow> world \<Rightarrow> bool" for dns t i w0 where
  start: "endpoint_history dns t i w0 [] w0"
| check: "endpoint_history dns t i w0 obs w \<Longrightarrow> since_of i w1 = since_of i w \<Longrightarrow> checks dns t i w1 m w2 \<Longrightarrow>
    endpoint_history dns t i w0 (obs @ [(w_now w1, m, \<not> db_fails w1, w_out w2 \<noteq> w_out w1)]) w2"

text \<open>The check at time \<open>s\<close> found a mismatch and stored it, and no later one found a match and cleared the mark.\<close>

definition mismatching_since :: "(int \<times> bool \<times> bool \<times> bool) list \<Rightarrow> int \<Rightarrow> bool" where
  "mismatching_since obs s \<longleftrightarrow> (\<exists>before sent after. obs = before @ (s, False, True, sent) # after
     \<and> list_all (\<lambda>(_, match, stored, _). \<not> (match \<and> stored)) after)"

lemma mismatching_start: "mismatching_since (obs @ [(s, False, True, sent)]) s"
  unfolding mismatching_since_def by (rule exI [of _ obs], rule exI [of _ sent], rule exI [of _ "[]"]) simp

lemma mismatching_more:
  assumes "mismatching_since obs s" "\<not> (m \<and> ok)"
  shows "mismatching_since (obs @ [(now, m, ok, sent)]) s"
proof -
  from assms(1) obtain before sent0 after where "obs = before @ (s, False, True, sent0) # after" "list_all (\<lambda>(_, match, stored, _). \<not> (match \<and> stored)) after"
    unfolding mismatching_since_def by blast
  then show ?thesis
    unfolding mismatching_since_def
    by (intro exI [of _ before] exI [of _ sent0] exI [of _ "after @ [(now, m, ok, sent)]"]) (use assms(2) in simp)
qed

lemma history_since:
  assumes "endpoint_history dns t i w0 obs w" "since_of i w0 = None"
  shows "since_of i w = Some s \<Longrightarrow> mismatching_since obs s"
  using assms
proof (induction arbitrary: s rule: endpoint_history.induct)
  case (check obs w w1 m w2)
  have c: "track (since_of i w1) (w_now w1) m (\<not> db_fails w1) = Some s" using checks_track [OF check.hyps(3)] check.prems(1) by simp
  then have live: "\<not> (m \<and> \<not> db_fails w1)" by (cases m; cases "db_fails w1") simp_all
  show ?case
  proof (cases "since_of i w1")
    case None
    with c have "m = False" "\<not> db_fails w1" "s = w_now w1" by (cases m; cases "db_fails w1"; simp)+
    then show ?thesis by (simp add: mismatching_start)
  next
    case (Some s')
    with c have "s' = s" by (cases m; cases "db_fails w1"; simp)
    then have "since_of i w = Some s" using Some check.hyps(2) by simp
    from check.IH [OF this check.prems(2)] live show ?thesis by (rule mismatching_more)
  qed
qed simp

lemma past_threshold:
  assumes "0 \<le> t" "t \<le> 153722867" "\<not> below_threshold now s t"
  shows "t * 60000 \<le> now - s"
proof -
  have "wrap_int64 (t * 60000000000) = t * 60000000000" using assms(1,2) by (simp add: is_int64_def)
  with assms show ?thesis by (simp add: below_threshold_def clamp_int64_def max_def min_def split: if_splits)
qed

text \<open>C20. Over any number of checks of a peer on its current row, as long as the checker has not suspended its BGP session
  (which nothing in the code does), with anything else happening between them and with a database that may fail at
  any check: the owner of a peer hears of a mismatch only when some check at least the threshold of \<open>t\<close> minutes ago found one
  and stored it, and no check since then found a match and cleared the mark; the owner hears that it is over only when
  some check before found a mismatch and stored it, and no check since then found a match and cleared the mark. A
  match whose clearing fails is only logged: it ends nothing.\<close>

theorem endpoint_alarm_justified:
  assumes "endpoint_history dns t i w0 (obs @ [(now, m, ok, True)]) w" "since_of i w0 = None" "0 \<le> t" "t \<le> 153722867"
  shows "\<exists>s before sent after. obs = before @ (s, False, True, sent) # after \<and> list_all (\<lambda>(_, match, stored, _). \<not> (match \<and> stored)) after
    \<and> (\<not> m \<longrightarrow> t * 60000 \<le> now - s)"
  using assms(1)
proof cases
  case (check obs' w1 w2 m2)
  then have eq: "obs' = obs" "now = w_now w2" "m2 = m" "w_out w \<noteq> w_out w2" by auto
  note c = checks_track [OF check(4)]
  from c eq obtain s where s: "since_of i w2 = Some s" "\<not> m \<longrightarrow> \<not> below_threshold now s t" by (auto split: if_splits)
  with check(3) have "since_of i w1 = Some s" by simp
  from history_since [OF check(2) assms(2) this] eq(1) s(2) past_threshold [OF assms(3,4)] show ?thesis unfolding mismatching_since_def by blast
qed simp

text \<open>A clear that fails is dropped: the mark stays, so that the end is told again at the next match, and the
  next mismatch counts from the old mark.\<close>

theorem failed_clear_keeps_mark:
  assumes "checks dns t i w True w'" "db_fails w"
  shows "since_of i w' = since_of i w"
  using checks_track [OF assms(1)] assms(2) by simp

text \<open>Nothing remembers that the owner was told: while the mismatch lasts, every check tells again.\<close>

theorem mismatch_told_again:
  assumes "find_peer i (w_peers w) = Some p" "EndpointMismatchSince p = Some s" "\<not> BGPSuspendedByEndpoint p"
    "RemoteEndpoint p \<noteq> []" "actual \<noteq> []" "endpointsMatch dns (RemoteEndpoint p) actual = Inr False" "\<not> below_threshold (w_now w) s t"
  shows "run_state (checkPeer dns (check_row actual p n) t) w =
    run_state (tell_owner (check_row actual p n) ''peer_endpoint_mismatch'' ''peer-endpoint-mismatch'' ''peer.endpoint_mismatch'') w"
  using assms by (simp add: checkPeer_def check_row_def handleMismatch_def time_now_def)

section \<open>An instance\<close>

definition moved_peer :: "int option \<Rightarrow> peer" where
  "moved_peer since = zero_peer\<lparr>ID := ''p1'', NodeID := ''n1'', RemoteASN := 4242420123, RemoteEndpoint := ''192.0.2.7:1'',
     ContactEmail := ''a@b.c'', Status := ''active'', EndpointMismatchSince := since\<rparr>"

definition moved_world :: "int option \<Rightarrow> int \<Rightarrow> world" where
  "moved_world since now = beat_world\<lparr>w_peers := [moved_peer since], w_now := now, w_auth := no_auth\<lparr>t_email_levels := [4242420123 \<mapsto> 2]\<rparr>\<rparr>"

lemmas moved_defs = moved_world_def moved_peer_def beat_world_def zero_peer_def

lemma moved_match: "endpointsMatch dns ''192.0.2.7:1'' ''192.0.2.8:1'' = Inr False"
  by code_simp

lemma moved_checks: "checks dns 30 ''p1'' (moved_world since now) False
    (snd (run_state (checkPeer dns (check_row ''192.0.2.8:1'' (moved_peer since) n) 30) (moved_world since now)))"
  unfolding checks_def
  by (rule exI [of _ "moved_peer since"], rule exI [of _ n], rule exI [of _ "''192.0.2.8:1''"]) (simp add: moved_defs find_peer_def moved_match)

lemma moved_tells: "w_out (snd (run_state (checkPeer dns (check_row ''192.0.2.8:1'' (moved_peer (Some 0)) n) 30) (moved_world (Some 0) 1800000)))
    = [Email ''a@b.c'' ''peer-endpoint-mismatch'' 4242420123]"
  by (simp add: checkPeer_def check_row_def moved_match moved_defs handleMismatch_def time_now_def below_threshold_def clamp_int64_def wrap_int64_def
      tell_owner_def IsNotificationEnabledForASN_def NotificationOptionByKey_def notificationOptions_def mk_option_def ListNotificationPreferences_def
      GetEmailLevel_def db_fails_def notify_def NotifyPeerBot_def bindings_GetByASN_def row_def no_auth_def NotificationAuthLoginCode_def)

theorem endpoint_alarm_justified_witness:
  "\<exists>w. endpoint_history (\<lambda>_. Inl []) 30 ''p1'' (moved_world None 0) [(0, False, True, False), (1800000, False, True, True)] w
     \<and> (30 :: int) * 60000 \<le> 1800000 - 0"
proof -
  let ?dns = "\<lambda>_. Inl []" and ?w0 = "moved_world None 0" and ?w1 = "moved_world (Some 0) 1800000"
  obtain n :: node where True by blast
  let ?chk = "\<lambda>s w. snd (run_state (checkPeer ?dns (check_row ''192.0.2.8:1'' (moved_peer s) n) 30) w)"
  have none: "since_of ''p1'' ?w0 = None" by (simp add: since_of_def moved_defs find_peer_def)
  have ok: "\<not> db_fails (moved_world since now)" for since now by (simp add: db_fails_def moved_defs)
  have first: "since_of ''p1'' (?chk None ?w0) = Some 0 \<and> w_out (?chk None ?w0) = w_out ?w0"
    using checks_track [OF moved_checks [where dns = ?dns and since = None and now = 0 and n = n]] none ok by (auto simp: moved_world_def beat_world_def)
  have "endpoint_history ?dns 30 ''p1'' ?w0 ([] @ [(w_now ?w0, False, \<not> db_fails ?w0, w_out (?chk None ?w0) \<noteq> w_out ?w0)]) (?chk None ?w0)"
    by (rule endpoint_history.check [OF endpoint_history.start refl moved_checks])
  then have h1: "endpoint_history ?dns 30 ''p1'' ?w0 [(0, False, True, False)] (?chk None ?w0)" using first ok by (simp add: moved_world_def)
  have s1: "since_of ''p1'' ?w1 = since_of ''p1'' (?chk None ?w0)" using first by (simp add: since_of_def moved_defs find_peer_def)
  have tells: "w_out (?chk (Some 0) ?w1) \<noteq> w_out ?w1" by (simp add: moved_tells) (simp add: moved_defs)
  have "endpoint_history ?dns 30 ''p1'' ?w0 ([(0, False, True, False)] @ [(w_now ?w1, False, \<not> db_fails ?w1, w_out (?chk (Some 0) ?w1) \<noteq> w_out ?w1)]) (?chk (Some 0) ?w1)"
    by (rule endpoint_history.check [OF h1 s1 moved_checks])
  then have h2: "endpoint_history ?dns 30 ''p1'' ?w0 ([(0, False, True, False)] @ [(1800000, False, True, True)]) (?chk (Some 0) ?w1)"
    using tells ok by (simp add: moved_world_def)
  from endpoint_alarm_justified [OF h2 none] obtain s before sent after
    where "[(0 :: int, False, True, False)] = before @ (s, False, True, sent) # after" "30 * 60000 \<le> 1800000 - s" by auto
  then have "30 * 60000 \<le> 1800000 - s" "s = 0" by (auto simp: Cons_eq_append_conv)
  then show ?thesis using h2 by auto
qed

end
