(* ===== verification/Cleanup.thy ===== *)
theory Cleanup
  imports AuthProps Inactivity
begin

text \<open>
  \<^verbatim>\<open>internal/cleanup/cleanup.go\<close> and the deletions of \<^verbatim>\<open>internal/repository/audit.go\<close>: what is deleted daily, and
  the node updates that time out. Deleting a session takes its impersonations along and clears the
  references of device grants, as the foreign keys say. The request log and the WebAuthn sessions are not part of
  the state: their statements only take their turn at the database.
\<close>

section \<open>Deletions\<close>

definition DeleteExpiredAuditLogs :: "(db_error + nat) M" where
  "DeleteExpiredAuditLogs = db_write (\<lambda>w.
     let old = (\<lambda>a. a_CreatedAt a < w_now w - 30 * 86400000) in
     Inr (length (filter old (w_audit w)), w\<lparr>w_audit := filter (\<lambda>a. \<not> old a) (w_audit w)\<rparr>))"

definition DeleteExpiredLoginCodes :: "(db_error + nat) M" where
  "DeleteExpiredLoginCodes = db_write (\<lambda>w.
     let old = (\<lambda>c. lc_ExpiresAt c < w_now w - 86400000) in
     Inr (length (filter old (codes w)), set_codes (filter (\<lambda>c. \<not> old c) (codes w)) w))"

definition DeleteExpiredGPGChallenges :: "(db_error + nat) M" where
  "DeleteExpiredGPGChallenges = db_write (\<lambda>w.
     let old = (\<lambda>c. gc_ExpiresAt c < w_now w - 86400000) in
     Inr (length (filter old (challenges w)), set_challenges (filter (\<lambda>c. \<not> old c) (challenges w)) w))"

definition DeleteExpiredBotCommandStats :: "(db_error + nat) M" where
  "DeleteExpiredBotCommandStats = db_write (\<lambda>w.
     let old = (\<lambda>s. st_CreatedAt s < w_now w - 90 * 86400000); stats = bt_stats (w_bot w) in
     Inr (length (filter old stats), w\<lparr>w_bot := (w_bot w)\<lparr>bt_stats := filter (\<lambda>s. \<not> old s) stats\<rparr>\<rparr>))"

text \<open>\<^verbatim>\<open>ON DELETE CASCADE\<close>: the identifiers that go with the given ones; each round adds a row, so the number of
  rows is enough.\<close>

fun cascade :: "nat \<Rightarrow> auth_session list \<Rightarrow> string list \<Rightarrow> string list" where
  "cascade 0 ss dead = dead"
| "cascade (Suc n) ss dead =
     (let more = map s_ID (filter (\<lambda>s. s_ID s \<notin> set dead \<and> (case s_ParentSessionID s of None \<Rightarrow> False | Some p \<Rightarrow> p \<in> set dead)) ss) in
      if more = [] then dead else cascade n ss (dead @ more))"

definition session_expired :: "int \<Rightarrow> auth_session \<Rightarrow> bool" where
  "session_expired now s \<longleftrightarrow> s_ExpiresAt s < now - 7 * 86400000"

definition dead_sessions :: "int \<Rightarrow> auth_session list \<Rightarrow> string list" where
  "dead_sessions now ss = cascade (length ss) ss (map s_ID (filter (session_expired now) ss))"

definition forget_session :: "string list \<Rightarrow> string option \<Rightarrow> string option" where
  "forget_session dead r = (case r of Some i \<Rightarrow> if i \<in> set dead then None else Some i | None \<Rightarrow> None)"

definition DeleteExpiredAuthSessions :: "(db_error + nat) M" where
  "DeleteExpiredAuthSessions = db_write (\<lambda>w.
     let dead = dead_sessions (w_now w) (sessions w) in
     Inr (length (filter (session_expired (w_now w)) (sessions w)),
          set_grants (map (\<lambda>g. g\<lparr>g_ApprovedBySessionID := forget_session dead (g_ApprovedBySessionID g),
                                 g_ExchangedSessionID := forget_session dead (g_ExchangedSessionID g)\<rparr>) (grants w))
            (set_sessions (filter (\<lambda>s. s_ID s \<notin> set dead) (sessions w)) w)))"

definition other_table :: "(db_error + nat) M" where
  "other_table = db_read (\<lambda>w. Inr 0)"

section \<open>The passes\<close>

definition runCleanup :: "unit M" where
  "runCleanup = do {
     _ \<leftarrow> DeleteExpiredAuditLogs;
     _ \<leftarrow> other_table;
     _ \<leftarrow> DeleteExpiredLoginCodes;
     _ \<leftarrow> DeleteExpiredGPGChallenges;
     _ \<leftarrow> DeleteExpiredBotCommandStats;
     _ \<leftarrow> DeleteExpiredAuthSessions;
     _ \<leftarrow> other_table;
     ret ()
   }"

definition timeoutUpdating :: "unit M" where
  "timeoutUpdating = do { _ \<leftarrow> nodes_MarkStaleUpdating; ret () }"

text \<open>Here an error of the locker does not stop the pass.\<close>

definition cleanup_lock ::
  "('s \<Rightarrow> string \<Rightarrow> int \<Rightarrow> 's \<times> 'l option \<times> bool \<times> string option) option \<Rightarrow> 's \<Rightarrow> string \<Rightarrow> int \<Rightarrow> 's \<times> 'l pass" where
  "cleanup_lock lk s key ttl =
     (case lk of
        None \<Rightarrow> (s, RunPass None)
      | Some acquire \<Rightarrow>
          (case acquire s key ttl of (s', lease, ok, err) \<Rightarrow>
             if err \<noteq> None then (s', RunPass None)
             else if \<not> ok then (s', SkipPass)
             else (s', RunPass lease)))"

definition cleanup_daily :: "unit M" where
  "cleanup_daily = run_pass (\<lambda>s. cleanup_lock (Some local_Acquire) s ''cleanup:daily'' 3600000) runCleanup"

definition cleanup_timeout :: "unit M" where
  "cleanup_timeout = run_pass (\<lambda>s. cleanup_lock (Some local_Acquire) s ''cleanup:timeout-updating'' 25000) timeoutUpdating"

section \<open>Nobody notices\<close>

text \<open>Only impersonations have a parent, and a parent has none, as the handlers create them.\<close>

definition flat_parents :: "auth_session list \<Rightarrow> bool" where
  "flat_parents ss \<longleftrightarrow> list_all (\<lambda>s. case s_ParentSessionID s of None \<Rightarrow> True
     | Some p \<Rightarrow> s_SubjectType s = ''impersonation'' \<and> list_all (\<lambda>q. s_ID q = p \<longrightarrow> s_ParentSessionID q = None) ss) ss"

definition gone :: "int \<Rightarrow> auth_session list \<Rightarrow> string \<Rightarrow> bool" where
  "gone now ss i \<longleftrightarrow> (\<exists>s \<in> set ss. s_ID s = i \<and> (session_expired now s \<or>
     (\<exists>q \<in> set ss. s_ParentSessionID s = Some (s_ID q) \<and> session_expired now q)))"

lemma flat_parentsD:
  assumes "flat_parents ss" "s \<in> set ss" "s_ParentSessionID s = Some p"
  shows "s_SubjectType s = ''impersonation''" "q \<in> set ss \<Longrightarrow> s_ID q = p \<Longrightarrow> s_ParentSessionID q = None"
proof -
  have "\<forall>s \<in> set ss. case s_ParentSessionID s of None \<Rightarrow> True
     | Some p \<Rightarrow> s_SubjectType s = ''impersonation'' \<and> list_all (\<lambda>q. s_ID q = p \<longrightarrow> s_ParentSessionID q = None) ss"
    using assms(1) unfolding flat_parents_def by (simp only: list_all_iff)
  from bspec [OF this assms(2)] assms(3)
  have "s_SubjectType s = ''impersonation'' \<and> list_all (\<lambda>q. s_ID q = p \<longrightarrow> s_ParentSessionID q = None) ss" by simp
  then show "s_SubjectType s = ''impersonation''" "q \<in> set ss \<Longrightarrow> s_ID q = p \<Longrightarrow> s_ParentSessionID q = None"
    by (simp_all add: list_all_iff)
qed

lemma find_key: "distinct (map f xs) \<Longrightarrow> x \<in> set xs \<Longrightarrow> find (\<lambda>y. f y = f x) xs = Some x"
  by (induction xs) auto

lemma child_gone:
  assumes "flat_parents ss" "distinct (map s_ID ss)" "s \<in> set ss" "s_ParentSessionID s = Some p" "gone now ss p"
  shows "gone now ss (s_ID s)"
proof -
  from assms(5) obtain q where q: "q \<in> set ss" "s_ID q = p" "session_expired now q \<or> s_ParentSessionID q \<noteq> None" by (auto simp: gone_def)
  have "s_ParentSessionID q = None" by (rule flat_parentsD(2) [OF assms(1,3,4) q(1,2)])
  with q assms(3,4) show ?thesis by (auto simp: gone_def)
qed

lemma cascade_gone:
  assumes "flat_parents ss" "distinct (map s_ID ss)"
  shows "list_all (gone now ss) dead \<Longrightarrow> list_all (gone now ss) (cascade n ss dead)"
proof (induction n arbitrary: dead)
  case (Suc n)
  let ?more = "map s_ID (filter (\<lambda>s. s_ID s \<notin> set dead \<and> (case s_ParentSessionID s of None \<Rightarrow> False | Some p \<Rightarrow> p \<in> set dead)) ss)"
  have "list_all (gone now ss) ?more"
    using child_gone [OF assms] Suc.prems by (auto simp: list_all_iff split: option.splits)
  with Suc show ?case by (simp add: Let_def)
qed simp

lemma dead_gone:
  assumes "flat_parents ss" "distinct (map s_ID ss)" "i \<in> set (dead_sessions now ss)"
  shows "gone now ss i"
proof -
  have "list_all (gone now ss) (map s_ID (filter (session_expired now) ss))" by (auto simp: gone_def list_all_iff)
  from cascade_gone [OF assms(1,2) this] assms(3) show ?thesis by (auto simp: dead_sessions_def list_all_iff)
qed

lemma find_filter: "(\<And>x. x \<in> set xs \<Longrightarrow> P x \<Longrightarrow> Q x) \<Longrightarrow> find P (filter Q xs) = find P xs"
  by (induction xs) auto

lemma expired_inactive: "session_expired now s \<Longrightarrow> session_inactive now s"
  by (simp add: session_expired_def session_inactive_def)

text \<open>What the requests read of the authentication tables.\<close>

definition auth_view :: "world \<Rightarrow> (Claims \<Rightarrow> bool) \<times> (int \<Rightarrow> user_login_code list) \<times> (string \<Rightarrow> int \<Rightarrow> gpg_challenge option)" where
  "auth_view w = (usable w, (\<lambda>asn. filter (live_code asn (w_now w)) (codes w)),
     (\<lambda>i asn. find (\<lambda>c. gc_ID c = i \<and> gc_ASN c = asn \<and> \<not> gc_Used c \<and> gc_ExpiresAt c > w_now w) (challenges w)))"

lemma usable_filter:
  assumes ok: "flat_parents (sessions w)" "distinct (map s_ID (sessions w))"
    and w': "sessions w' = filter (\<lambda>s. s_ID s \<notin> set (dead_sessions (w_now w) (sessions w))) (sessions w)" "w_now w' = w_now w"
  shows "usable w' c = usable w c"
proof -
  let ?dead = "set (dead_sessions (w_now w) (sessions w))"
  have lookup: "find_session i w' = (if i \<in> ?dead then None else find_session i w)" for i
    unfolding find_session_def w'(1)
    by (cases "i \<in> ?dead") (auto simp: find_None_iff intro!: find_filter)
  have row: "find_session (s_ID s) w = Some s" if "s \<in> set (sessions w)" for s
    unfolding find_session_def by (rule find_key [OF ok(2) that])
  have dead_parent: "\<not> parent_ok w s" if s: "s \<in> set (sessions w)" "s_ParentSessionID s = Some p" and "gone (w_now w) (sessions w) p" for s p
  proof -
    from that(3) obtain q where q: "q \<in> set (sessions w)" "s_ID q = p" "session_expired (w_now w) q \<or> s_ParentSessionID q \<noteq> None" by (auto simp: gone_def)
    with flat_parentsD [OF ok(1) s] have "session_expired (w_now w) q" "s_SubjectType s = ''impersonation''" by auto
    with row [OF q(1)] q(2) s(2) expired_inactive show ?thesis by (auto simp: parent_ok_def)
  qed
  show ?thesis
  proof (cases "c_SessionID c = [] \<or> find_session (c_SessionID c) w = None")
    case True
    then show ?thesis by (auto simp: usable_def lookup)
  next
    case False
    then obtain s where s: "find_session (c_SessionID c) w = Some s" "c_SessionID c \<noteq> []" by auto
    then have s': "s \<in> set (sessions w)" "s_ID s = c_SessionID c" using find_Some_in by (fastforce simp: find_session_def)+
    show ?thesis
    proof (cases "c_SessionID c \<in> ?dead")
      case True
      with dead_gone [OF ok] s'(2) have "gone (w_now w) (sessions w) (s_ID s)" by simp
      then obtain r where r: "r \<in> set (sessions w)" "s_ID r = s_ID s" "session_expired (w_now w) r \<or>
          (\<exists>q \<in> set (sessions w). s_ParentSessionID r = Some (s_ID q) \<and> session_expired (w_now w) q)" by (auto simp: gone_def)
      have "r = s" using row [OF r(1)] row [OF s'(1)] r(2) by (metis option.inject)
      from r(3) [unfolded \<open>r = s\<close>] have "session_inactive (w_now w) s \<or> \<not> parent_ok w s"
      proof
        assume "session_expired (w_now w) s"
        then show ?thesis using expired_inactive by simp
      next
        assume "\<exists>q \<in> set (sessions w). s_ParentSessionID s = Some (s_ID q) \<and> session_expired (w_now w) q"
        then obtain q where q: "q \<in> set (sessions w)" "s_ParentSessionID s = Some (s_ID q)" "session_expired (w_now w) q" by auto
        then have "gone (w_now w) (sessions w) (s_ID q)" unfolding gone_def by blast
        from dead_parent [OF s'(1) q(2) this] show ?thesis by simp
      qed
      with s True lookup show ?thesis by (auto simp: usable_def)
    next
      case False
      have "parent_ok w' s = parent_ok w s"
      proof (cases "s_ParentSessionID s")
        case (Some p)
        show ?thesis
        proof (cases "p \<in> ?dead")
          case True
          then have "\<not> parent_ok w s" using dead_parent [OF s'(1) Some] dead_gone [OF ok] by blast
          moreover have "\<not> parent_ok w' s" using True lookup Some flat_parentsD(1) [OF ok(1) s'(1) Some] by (simp add: parent_ok_def)
          ultimately show ?thesis by simp
        qed (simp add: parent_ok_def lookup Some w'(2))
      qed (simp add: parent_ok_def)
      with s False lookup w'(2) show ?thesis by (simp add: usable_def)
    qed
  qed
qed

text \<open>The rounds of the cascade are enough: no child of a deleted session stays.\<close>

lemma cascade_mono: "set dead \<subseteq> set (cascade n ss dead)"
proof (induction n arbitrary: dead)
  case (Suc n)
  show ?case using Suc.IH [of "dead @ map s_ID (filter (\<lambda>s. s_ID s \<notin> set dead \<and> (case s_ParentSessionID s of None \<Rightarrow> False | Some p \<Rightarrow> p \<in> set dead)) ss)"]
    by (simp add: Let_def)
qed simp

lemma cascade_closed:
  assumes "length (filter (\<lambda>s. s_ID s \<notin> set dead) ss) \<le> n" "s \<in> set ss" "s_ParentSessionID s = Some p" "p \<in> set (cascade n ss dead)"
  shows "s_ID s \<in> set (cascade n ss dead)"
  using assms(1,4)
proof (induction n arbitrary: dead)
  case 0
  then show ?case using assms(2) by (auto simp: filter_empty_conv)
next
  case (Suc n)
  let ?new = "\<lambda>s. s_ID s \<notin> set dead \<and> (case s_ParentSessionID s of None \<Rightarrow> False | Some p \<Rightarrow> p \<in> set dead)"
  let ?dead = "dead @ map s_ID (filter ?new ss)"
  show ?case
  proof (cases "filter ?new ss = []")
    case True
    then have "cascade (Suc n) ss dead = dead" by (simp add: Let_def)
    with Suc.prems(2) True assms(2,3) show ?thesis by (auto simp: filter_empty_conv)
  next
    case False
    then have c: "cascade (Suc n) ss dead = cascade n ss ?dead" by (simp add: Let_def)
    from False obtain t where t: "t \<in> set ss" "?new t" by (auto simp: filter_empty_conv)
    have "length (filter (\<lambda>s. s_ID s \<notin> set ?dead) ss) < length (filter (\<lambda>s. s_ID s \<notin> set dead) ss)"
    proof -
      have eq: "filter (\<lambda>s. s_ID s \<notin> set ?dead) ss = filter (\<lambda>s. s_ID s \<notin> set ?dead) (filter (\<lambda>s. s_ID s \<notin> set dead) ss)" by (auto simp: filter_filter intro: filter_cong)
      have "t \<in> set (filter (\<lambda>s. s_ID s \<notin> set dead) ss)" "\<not> s_ID t \<notin> set ?dead" using t by auto
      from length_filter_less [of t _ "\<lambda>s. s_ID s \<notin> set ?dead", OF this] show ?thesis by (simp only: eq [symmetric])
    qed
    with Suc.prems(1) have "length (filter (\<lambda>s. s_ID s \<notin> set ?dead) ss) \<le> n" by linarith
    from Suc.IH [OF this] Suc.prems(2) show ?thesis unfolding c by simp
  qed
qed

lemma dead_closed:
  assumes "s \<in> set ss" "s_ParentSessionID s = Some p" "p \<in> set (dead_sessions now ss)"
  shows "s_ID s \<in> set (dead_sessions now ss)"
  using cascade_closed [OF _ assms(1,2)] assms(3) by (auto simp: dead_sessions_def)

lemma expired_dead: "s \<in> set ss \<Longrightarrow> session_expired now s \<Longrightarrow> s_ID s \<in> set (dead_sessions now ss)"
  using cascade_mono [of "map s_ID (filter (session_expired now) ss)" "length ss" ss] by (auto simp: dead_sessions_def)

lemma sessions_ok_dead:
  assumes "sessions_ok ss"
  shows "sessions_ok (filter (\<lambda>s. s_ID s \<notin> set (dead_sessions now ss)) ss)"
  unfolding sessions_ok_def
proof (intro conjI ballI allI impI)
  show "distinct (map s_ID (filter (\<lambda>s. s_ID s \<notin> set (dead_sessions now ss)) ss))"
    using assms by (simp add: sessions_ok_def distinct_map_filter)
next
  fix s t assume "s \<in> set (filter (\<lambda>s. s_ID s \<notin> set (dead_sessions now ss)) ss)" "t \<in> set (filter (\<lambda>s. s_ID s \<notin> set (dead_sessions now ss)) ss)"
    "s_RefreshTokenHash s \<noteq> []" "s_RefreshTokenHash s = s_RefreshTokenHash t"
  with assms show "s_ID s = s_ID t" by (simp add: sessions_ok_def)
next
  fix s assume "s \<in> set (filter (\<lambda>s. s_ID s \<notin> set (dead_sessions now ss)) ss)"
  with assms show "subject_ok s" by (simp add: sessions_ok_def)
next
  fix s p assume s: "s \<in> set (filter (\<lambda>s. s_ID s \<notin> set (dead_sessions now ss)) ss)" "s_ParentSessionID s = Some p"
  have "\<forall>s \<in> set ss. \<forall>p. s_ParentSessionID s = Some p \<longrightarrow> p \<in> s_ID ` set ss" using assms by (simp add: sessions_ok_def)
  with s have "p \<in> s_ID ` set ss" by auto
  moreover have "p \<notin> set (dead_sessions now ss)" using dead_closed [of s ss p now] s by auto
  ultimately show "p \<in> s_ID ` set (filter (\<lambda>s. s_ID s \<notin> set (dead_sessions now ss)) ss)" by auto
qed

text \<open>What a statement of the cleanup may change.\<close>

definition unseen :: "world \<Rightarrow> world \<Rightarrow> bool" where
  "unseen w w' \<longleftrightarrow> auth_view w' = auth_view w \<and> sessions w' = sessions w \<and> w_now w' = w_now w \<and> w_peers w' = w_peers w \<and> w_nodes w' = w_nodes w
     \<and> w_cache w' = w_cache w \<and> (nofault w \<longrightarrow> nofault w')"

lemma view_eq:
  assumes "sessions w' = sessions w" "w_now w' = w_now w"
    "\<And>asn. filter (live_code asn (w_now w)) (codes w') = filter (live_code asn (w_now w)) (codes w)"
    "\<And>i asn. find (\<lambda>c. gc_ID c = i \<and> gc_ASN c = asn \<and> \<not> gc_Used c \<and> gc_ExpiresAt c > w_now w) (challenges w')
      = find (\<lambda>c. gc_ID c = i \<and> gc_ASN c = asn \<and> \<not> gc_Used c \<and> gc_ExpiresAt c > w_now w) (challenges w)"
  shows "auth_view w' = auth_view w"
proof -
  have "find_session i w' = find_session i w" for i by (simp add: find_session_def assms(1))
  then have "usable w' = usable w" by (simp add: fun_eq_iff usable_def parent_ok_def assms(2))
  with assms(2-4) show ?thesis by (simp add: auth_view_def)
qed

lemma unseen_next: "unseen w (db_next w)"
  unfolding unseen_def by (auto simp: nofault_next intro!: view_eq)

lemma other_table_unseen: "run_state other_table w = (r, w') \<Longrightarrow> unseen w w'"
  using unseen_next [of w] by (simp add: other_table_def)

lemma audit_unseen: "run_state DeleteExpiredAuditLogs w = (r, w') \<Longrightarrow> unseen w w'"
  by (auto simp: DeleteExpiredAuditLogs_def run_db_write Let_def unseen_next split: if_splits)
     (auto simp: unseen_def nofault_next intro!: view_eq)

lemma stats_unseen: "run_state DeleteExpiredBotCommandStats w = (r, w') \<Longrightarrow> unseen w w'"
  by (auto simp: DeleteExpiredBotCommandStats_def run_db_write Let_def unseen_next split: if_splits)
     (auto simp: unseen_def nofault_next nofault_def list_all_tl intro!: view_eq)

lemma filter_live: "filter (live_code asn now) (filter (\<lambda>c. \<not> lc_ExpiresAt c < now - 86400000) cs) = filter (live_code asn now) cs"
  by (induction cs) (auto simp: live_code_def)

lemma codes_unseen: "run_state DeleteExpiredLoginCodes w = (r, w') \<Longrightarrow> unseen w w'"
  by (auto simp: DeleteExpiredLoginCodes_def run_db_write Let_def unseen_next split: if_splits)
     (auto simp: unseen_def nofault_next nofault_def set_codes_def list_all_tl filter_live simp del: filter_filter intro!: view_eq)

lemma challenges_unseen: "run_state DeleteExpiredGPGChallenges w = (r, w') \<Longrightarrow> unseen w w'"
  by (auto simp: DeleteExpiredGPGChallenges_def run_db_write Let_def unseen_next split: if_splits)
     (auto simp: unseen_def nofault_next nofault_def set_challenges_def list_all_tl intro!: view_eq find_filter)

lemma unseen_trans: "unseen w w1 \<Longrightarrow> unseen w1 w2 \<Longrightarrow> unseen w w2"
  by (simp add: unseen_def)

text \<open>The deletion of sessions.\<close>

definition sessions_cleaned :: "world \<Rightarrow> world \<Rightarrow> bool" where
  "sessions_cleaned w w' \<longleftrightarrow> sessions_ok (sessions w') \<and> auth_view w' = auth_view w \<and> w_now w' = w_now w \<and> w_peers w' = w_peers w \<and> w_nodes w' = w_nodes w
     \<and> (nofault w \<longrightarrow> nofault w' \<and> list_all (\<lambda>s. \<not> session_expired (w_now w) s) (sessions w'))"

lemma sessions_unseen:
  assumes "run_state DeleteExpiredAuthSessions w = (r, w')" "sessions_ok (sessions w)" "flat_parents (sessions w)"
  shows "sessions_cleaned w w'"
proof (cases "db_fails w")
  case True
  with assms have "w' = db_next w" by (simp add: DeleteExpiredAuthSessions_def run_db_write)
  with True assms(2) unseen_next [of w] nofault_not_fails [of w] show ?thesis by (auto simp: sessions_cleaned_def unseen_def)
next
  case False
  then have w': "sessions w' = filter (\<lambda>s. s_ID s \<notin> set (dead_sessions (w_now w) (sessions w))) (sessions w)" "w_now w' = w_now w"
    "codes w' = codes w" "challenges w' = challenges w" "w_peers w' = w_peers w" "w_nodes w' = w_nodes w" "w_dbfail w' = tl (w_dbfail w)"
    using assms(1) by (auto simp: DeleteExpiredAuthSessions_def run_db_write Let_def set_grants_def set_sessions_def)
  have "distinct (map s_ID (sessions w))" using assms(2) by (simp add: sessions_ok_def)
  from usable_filter [OF assms(3) this w'(1,2)] w'(2-4) have "auth_view w' = auth_view w" by (simp add: auth_view_def fun_eq_iff)
  moreover have "sessions_ok (sessions w')" unfolding w'(1) by (rule sessions_ok_dead [OF assms(2)])
  moreover have "list_all (\<lambda>s. \<not> session_expired (w_now w) s) (sessions w')" unfolding w'(1) using expired_dead by (auto simp: list_all_iff)
  ultimately show ?thesis using w' by (simp add: sessions_cleaned_def nofault_def list_all_tl)
qed

text \<open>C21. The daily cleanup cannot be noticed. Whatever fails, every token is accepted or refused as before, every
  login code and challenge that could be used still can, peers and nodes are untouched, and the keys of the
  session table stay valid, parents included. When the database answers, no session that expired more than
  seven days ago is left. Assumed of the table is that only impersonations have a parent and that a parent has none, as the
  handlers create sessions: an impersonation starts from the session of an admin.\<close>

theorem cleanup_invisible:
  assumes "run_state runCleanup w = (u, w')" "sessions_ok (sessions w)" "flat_parents (sessions w)"
  shows "auth_view w' = auth_view w \<and> w_peers w' = w_peers w \<and> w_nodes w' = w_nodes w \<and> sessions_ok (sessions w')
    \<and> (nofault w \<longrightarrow> list_all (\<lambda>s. \<not> session_expired (w_now w) s) (sessions w'))"
proof -
  obtain r1 w1 where r1: "run_state DeleteExpiredAuditLogs w = (r1, w1)" by (metis prod.collapse)
  obtain r2 w2 where r2: "run_state other_table w1 = (r2, w2)" by (metis prod.collapse)
  obtain r3 w3 where r3: "run_state DeleteExpiredLoginCodes w2 = (r3, w3)" by (metis prod.collapse)
  obtain r4 w4 where r4: "run_state DeleteExpiredGPGChallenges w3 = (r4, w4)" by (metis prod.collapse)
  obtain r5 w5 where r5: "run_state DeleteExpiredBotCommandStats w4 = (r5, w5)" by (metis prod.collapse)
  obtain r6 w6 where r6: "run_state DeleteExpiredAuthSessions w5 = (r6, w6)" by (metis prod.collapse)
  obtain r7 w7 where r7: "run_state other_table w6 = (r7, w7)" by (metis prod.collapse)
  have w7: "w7 = w'" using assms(1) r1 r2 r3 r4 r5 r6 r7 by (simp add: runCleanup_def)
  have a: "unseen w w5"
    using audit_unseen [OF r1] other_table_unseen [OF r2] codes_unseen [OF r3] challenges_unseen [OF r4] stats_unseen [OF r5]
    by (meson unseen_trans)
  have "sessions_cleaned w5 w6" using sessions_unseen [OF r6] assms(2,3) a by (simp add: unseen_def)
  with a other_table_unseen [OF r7] show ?thesis unfolding w7 by (simp add: unseen_def sessions_cleaned_def)
qed

definition old_world :: world where
  "old_world = auth_world\<lparr>w_now := 700000000\<rparr>"

theorem cleanup_invisible_witness:
  "list_ex (session_expired 700000000) (sessions old_world)
   \<and> list_all (\<lambda>s. \<not> session_expired 700000000 s) (sessions (snd (run_state runCleanup old_world)))
   \<and> auth_view (snd (run_state runCleanup old_world)) = auth_view old_world"
proof -
  obtain u w' where run: "run_state runCleanup old_world = (u, w')" by (metis prod.collapse)
  have "sessions_ok (sessions old_world)" "flat_parents (sessions old_world)" "nofault old_world" "w_now old_world = 700000000"
    "list_ex (session_expired 700000000) (sessions old_world)"
    by (simp_all add: sessions_ok_def flat_parents_def old_world_def auth_world_def sample_session_def no_auth_def subject_ok_def nofault_def session_expired_def)
  with cleanup_invisible [OF run this(1,2)] run show ?thesis by simp
qed

end
