(* ===== verification/Reconcile.thy ===== *)
theory Reconcile
  imports HubProps Inactivity
begin

text \<open>
  \<^verbatim>\<open>internal/reconcile/reconcile.go\<close>: the periodic push of the active peers to every online node, on the hub of
  \<open>Hub\<close>. The loop with its ticker is one pass after the other; cancellation has no model.
\<close>

fun sync_nodes :: "channel_lib \<Rightarrow> node list \<Rightarrow> unit H" where
  "sync_nodes X [] = hret ()"
| "sync_nodes X (n # ns) = do {
     ok \<leftarrow> TriggerPeersSync X (n_ID n);
     _ \<leftarrow> (if ok then liftW (audit_Log ''node.reconcile.sync'' ''system:reconcile'' None
             [(''node_id'', JStr (n_ID n)), (''node_name'', JStr (n_Name n))]) else hret ());
     sync_nodes X ns
   }"

definition runPass :: "channel_lib \<Rightarrow> unit H" where
  "runPass X = do {
     r \<leftarrow> liftW nodes_ListEnabled;
     case r of Inl _ \<Rightarrow> hret () | Inr nodes \<Rightarrow> sync_nodes X nodes
   }"

definition reconcile_tick :: "channel_lib \<Rightarrow> unit H" where
  "reconcile_tick X = do {
     p \<leftarrow> liftW (State (\<lambda>w. case inactivity_lock (Some local_Acquire) (w_locks w) ''reconcile:run'' 300000 of (s, p) \<Rightarrow> (p, w\<lparr>w_locks := s\<rparr>)));
     case p of
       SkipPass \<Rightarrow> hret ()
     | RunPass lease \<Rightarrow> do { runPass X; liftW (lock_release lease) }
   }"

text \<open>The message that brings a node in line with the table.\<close>

definition sync_of :: "channel_lib \<Rightarrow> world \<Rightarrow> string \<Rightarrow> string" where
  "sync_of X w nodeID = sync_data X (filter (\<lambda>p. NodeID p = nodeID \<and> Status p = ''active'') (w_peers w))"

definition pushed :: "channel_lib \<Rightarrow> world \<Rightarrow> string set \<Rightarrow> hub \<Rightarrow> hub \<Rightarrow> bool" where
  "pushed X w N h h' \<longleftrightarrow> h_conns h' = h_conns h \<and> length (h_acs h') = length (h_acs h)
     \<and> (\<forall>n i. h_conns h n = Some i \<longrightarrow> n \<in> N \<longrightarrow> length (ac_sendCh (h_acs h ! i)) < 64 \<longrightarrow>
          ac_sendCh (h_acs h' ! i) = ac_sendCh (h_acs h ! i) @ [sync_of X w n])
     \<and> (\<forall>i. (\<forall>n \<in> N. h_conns h n \<noteq> Some i) \<longrightarrow> h_acs h' ! i = h_acs h ! i)"

definition calm_tables :: "world \<Rightarrow> world \<Rightarrow> bool" where
  "calm_tables w w' \<longleftrightarrow> w_peers w' = w_peers w \<and> w_nodes w' = w_nodes w \<and> (nofault w \<longrightarrow> nofault w')"

lemma trigger_pushes:
  assumes inv: "hub_inv X h" and ok: "nofault w" and run: "run_state (TriggerPeersSync X n) (h, w) = (b, (h', w'))"
  shows "pushed X w {n} h h' \<and> calm_tables w w'"
proof (cases "h_conns h n")
  case None
  with run show ?thesis by (auto simp: TriggerPeersSync_def GetConn_def hgets_def pushed_def calm_tables_def)
next
  case (Some i)
  with hub_inv_in_table [OF inv] have i: "i < length (h_acs h)" "\<not> ac_pendingAuth (h_acs h ! i)" "ac_NodeID (h_acs h ! i) = n" by auto
  have only: "h_conns h m = Some i \<Longrightarrow> m = n" for m using hub_inv_in_table [OF inv, of m i] i(3) by simp
  have sync: "sync_data X (filter (\<lambda>p. Status p = ''active'') (filter (\<lambda>p. NodeID p = n) (w_peers w))) = sync_of X w n"
    by (simp add: sync_of_def conj_commute)
  have "w' = db_next w \<and> h' = (if length (ac_sendCh (h_acs h ! i)) < 64 then conn_upd i (\<lambda>a. a\<lparr>ac_sendCh := ac_sendCh a @ [sync_of X w n]\<rparr>) h
      else h\<lparr>h_delayed := h_delayed h @ [(i, sync_of X w n)]\<rparr>)"
    using run Some i nofault_not_fails [OF ok]
    by (simp add: TriggerPeersSync_def GetConn_def hgets_def get_conn_def pushPeersSync_def liftW_def peers_ListByNode_def enqueue_def Let_def
        hmodify_def sync del: filter_filter split: if_splits)
  then have w': "w' = db_next w" and h': "h_conns h' = h_conns h" "length (h_acs h') = length (h_acs h)" "\<And>j. j \<noteq> i \<Longrightarrow> h_acs h' ! j = h_acs h ! j"
      "length (ac_sendCh (h_acs h ! i)) < 64 \<Longrightarrow> ac_sendCh (h_acs h' ! i) = ac_sendCh (h_acs h ! i) @ [sync_of X w n]"
    using i(1) by (auto simp: conn_upd_def)
  have "pushed X w {n} h h'"
    unfolding pushed_def
  proof (intro conjI allI impI)
    fix m j assume "h_conns h m = Some j" "m \<in> {n}" "length (ac_sendCh (h_acs h ! j)) < 64"
    with Some h'(4) show "ac_sendCh (h_acs h' ! j) = ac_sendCh (h_acs h ! j) @ [sync_of X w m]" by simp
  next
    fix j assume "\<forall>m \<in> {n}. h_conns h m \<noteq> Some j"
    with Some h'(3) show "h_acs h' ! j = h_acs h ! j" by auto
  qed (use h' in auto)
  then show ?thesis using w' nofault_next [OF ok] by (simp add: calm_tables_def)
qed

lemma sync_nodes_pushes:
  assumes "hub_inv X h" "nofault w" "distinct (map n_ID ns)" "run_state (sync_nodes X ns) (h, w) = (u, (h', w'))"
  shows "pushed X w (n_ID ` set ns) h h' \<and> calm_tables w w' \<and> hub_inv X h'"
  using assms
proof (induction ns arbitrary: h w)
  case Nil
  then show ?case by (simp add: pushed_def calm_tables_def)
next
  case (Cons n ns)
  obtain b h1 w1 where r1: "run_state (TriggerPeersSync X (n_ID n)) (h, w) = (b, (h1, w1))" by (metis prod.collapse)
  from trigger_pushes [OF Cons.prems(1,2) r1] have p1: "pushed X w {n_ID n} h h1" "calm_tables w w1" by auto
  have inv1: "hub_inv X h1" using hwp_run [OF TriggerPeersSync_kept [OF Cons.prems(1)] r1] by (simp add: kept_def)
  obtain w2 where r2: "run_state (sync_nodes X ns) (h1, w2) = (u, (h', w'))" and c2: "calm_tables w1 w2"
  proof (cases b)
    case True
    let ?w2 = "snd (run_state (audit_Log ''node.reconcile.sync'' ''system:reconcile'' None [(''node_id'', JStr (n_ID n)), (''node_name'', JStr (n_Name n))]) w1)"
    have "run_state (sync_nodes X ns) (h1, ?w2) = (u, (h', w'))" using Cons.prems(4) r1 True by (simp add: liftW_def split: prod.splits)
    moreover have "calm_tables w1 ?w2" by (auto simp: audit_Log_def run_db_write calm_tables_def nofault_next)
    ultimately show thesis by (rule that)
  next
    case False
    then have "run_state (sync_nodes X ns) (h1, w1) = (u, (h', w'))" using Cons.prems(4) r1 by simp
    then show thesis by (rule that) (simp add: calm_tables_def)
  qed
  have w2: "w_peers w2 = w_peers w" "nofault w2" using p1(2) c2 Cons.prems(2) by (auto simp: calm_tables_def)
  from Cons.IH [OF inv1 w2(2) _ r2] Cons.prems(3) have p2: "pushed X w2 (n_ID ` set ns) h1 h'" "calm_tables w2 w'" "hub_inv X h'" by auto
  have same: "sync_of X w2 m = sync_of X w m" for m by (simp add: sync_of_def w2(1))
  have fresh: "n_ID n \<notin> n_ID ` set ns" using Cons.prems(3) by simp
  have conns: "h_conns h1 = h_conns h" using p1(1) by (simp add: pushed_def)
  have one: "h_conns h m = Some i \<Longrightarrow> h_conns h m' = Some i \<Longrightarrow> m = m'" for m m' i
    using hub_inv_in_table [OF Cons.prems(1)] by blast
  have "pushed X w (n_ID ` set (n # ns)) h h'"
    unfolding pushed_def
  proof (intro conjI allI impI)
    show "h_conns h' = h_conns h" "length (h_acs h') = length (h_acs h)" using p1(1) p2(1) by (simp_all add: pushed_def)
  next
    fix m i assume m: "h_conns h m = Some i" "m \<in> n_ID ` set (n # ns)" "length (ac_sendCh (h_acs h ! i)) < 64"
    show "ac_sendCh (h_acs h' ! i) = ac_sendCh (h_acs h ! i) @ [sync_of X w m]"
    proof (cases "m = n_ID n")
      case True
      then have "ac_sendCh (h_acs h1 ! i) = ac_sendCh (h_acs h ! i) @ [sync_of X w m]" using p1(1) m by (auto simp: pushed_def)
      moreover have "\<forall>m' \<in> n_ID ` set ns. h_conns h1 m' \<noteq> Some i" using one [OF m(1)] fresh True conns by metis
      then have "h_acs h' ! i = h_acs h1 ! i" using p2(1) by (simp add: pushed_def)
      ultimately show ?thesis by simp
    next
      case False
      then have "\<forall>m' \<in> {n_ID n}. h_conns h m' \<noteq> Some i" using one [OF m(1)] by auto
      then have "h_acs h1 ! i = h_acs h ! i" using p1(1) by (simp add: pushed_def)
      moreover have "m \<in> n_ID ` set ns" using m(2) False by auto
      ultimately show ?thesis using p2(1) m(1,3) conns same unfolding pushed_def by metis
    qed
  next
    fix i assume none: "\<forall>m \<in> n_ID ` set (n # ns). h_conns h m \<noteq> Some i"
    then have "h_acs h1 ! i = h_acs h ! i" using p1(1) by (simp add: pushed_def)
    moreover have "h_acs h' ! i = h_acs h1 ! i" using p2(1) none conns by (simp add: pushed_def)
    ultimately show "h_acs h' ! i = h_acs h ! i" by simp
  qed
  then show ?case using p1(2) c2 p2(2,3) by (simp add: calm_tables_def)
qed

text \<open>C19. When the database answers, a pass of the reconciler queues, for every enabled node whose agent is
  connected and whose queue has room, exactly one message with exactly the active peers that the table has for
  that node, and queues nothing for any other connection.\<close>

theorem reconcile_converges:
  assumes "hub_inv X h" "nofault w" "tables_ok w" "run_state (runPass X) (h, w) = (u, (h', w'))"
  shows "(\<forall>n \<in> set (w_nodes w). \<forall>i. n_Enabled n \<and> h_conns h (n_ID n) = Some i \<and> length (ac_sendCh (h_acs h ! i)) < 64 \<longrightarrow>
      ac_sendCh (h_acs h' ! i) = ac_sendCh (h_acs h ! i)
        @ [sync_data X (filter (\<lambda>p. NodeID p = n_ID n \<and> Status p = ''active'') (w_peers w))])
    \<and> (\<forall>i. (\<forall>n \<in> set (w_nodes w). n_Enabled n \<longrightarrow> h_conns h (n_ID n) \<noteq> Some i) \<longrightarrow> h_acs h' ! i = h_acs h ! i)"
proof -
  let ?ns = "sort_key n_Name (filter n_Enabled (w_nodes w))"
  have run: "run_state (sync_nodes X ?ns) (h, db_next w) = (u, (h', w'))"
    using assms(4) nofault_not_fails [OF assms(2)] by (simp add: runPass_def liftW_def nodes_ListEnabled_def)
  have "distinct (map n_ID ?ns)"
  proof -
    have "distinct (map n_ID (filter n_Enabled (w_nodes w)))" using assms(3) by (simp add: tables_ok_def distinct_map_filter)
    moreover have "mset (map n_ID ?ns) = mset (map n_ID (filter n_Enabled (w_nodes w)))" by simp
    ultimately show ?thesis by (metis mset_eq_imp_distinct_iff)
  qed
  from sync_nodes_pushes [OF assms(1) nofault_next [OF assms(2)] this run] have "pushed X (db_next w) (n_ID ` set ?ns) h h'" by simp
  then show ?thesis by (auto simp: pushed_def sync_of_def)
qed

text \<open>A node with an active and a suspended peer.\<close>

definition synced_peer :: "string \<Rightarrow> int \<Rightarrow> string \<Rightarrow> peer" where
  "synced_peer i asn st = zero_peer\<lparr>ID := i, NodeID := ''n1'', RemoteASN := asn, WgListenPort := asn, Status := st\<rparr>"

definition synced_world :: world where
  "synced_world = token_world\<lparr>w_peers := [synced_peer ''p1'' 50001 ''active'', synced_peer ''p2'' 50002 ''suspended'']\<rparr>"

theorem reconcile_converges_witness:
  "ac_sendCh (h_acs (fst (snd (run_state (runPass toy_lib) (toy_hub, synced_world)))) ! 0)
     = [sync_data toy_lib [synced_peer ''p1'' 50001 ''active'']]"
proof -
  obtain u h' w' where run: "run_state (runPass toy_lib) (toy_hub, synced_world) = (u, (h', w'))" by (metis prod.collapse)
  have "nofault synced_world" "tables_ok synced_world"
    by (simp_all add: nofault_def tables_ok_def synced_world_def token_world_def beat_world_def synced_peer_def zero_peer_def asn_key_def port_key_def
        token_node_def)
  from reconcile_converges [OF toy_hub_inv this run] run show ?thesis
    by (simp add: synced_world_def synced_peer_def token_world_def token_node_def beat_world_def toy_hub_def toy_conn_def new_conn_def zero_peer_def)
qed

end
