(* ===== verification/BotBinding.thy ===== *)
theory BotBinding
  imports AuthProps
begin

text \<open>
  \<^verbatim>\<open>internal/ws/bot_bind_handler.go\<close>, \<^verbatim>\<open>internal/repository/bot_binding.go\<close> and the binding handlers of
  \<^verbatim>\<open>internal/handler/telegram_binding.go\<close>: how a Telegram account comes to act for an AS number, by a code mailed
  to the registered contact or by a link that a logged-in user creates. The functions that the hub is given at
  start-up (\<^verbatim>\<open>cmd/center/deps.go\<close>) are the repository's. A handler returns the message that the source passes to
  \<^verbatim>\<open>sendToBot\<close>.
\<close>

section \<open>Repository\<close>

definition set_tokens :: "BotWebBindToken list \<Rightarrow> world \<Rightarrow> world" where
  "set_tokens ts w = w\<lparr>w_bot := (w_bot w)\<lparr>bt_tokens := ts\<rparr>\<rparr>"

abbreviation bind_tokens :: "world \<Rightarrow> BotWebBindToken list" where "bind_tokens w \<equiv> bt_tokens (w_bot w)"

text \<open>An insert that updates the row of the same Telegram user; \<^verbatim>\<open>is_admin\<close> is not among the updated columns. The
  model has no default for \<^verbatim>\<open>bound_at\<close> and no caller sets it, so an insert stores the zero time.\<close>

definition upsert_binding :: "int \<Rightarrow> BotUserBinding \<Rightarrow> BotUserBinding list \<Rightarrow> BotUserBinding list" where
  "upsert_binding now b bs =
     (if list_ex (\<lambda>c. bb_TgUserID c = bb_TgUserID b) bs
      then upd (\<lambda>c. bb_TgUserID c = bb_TgUserID b)
        (\<lambda>c. c\<lparr>bb_TgUsername := bb_TgUsername b, bb_ASN := bb_ASN b, bb_BoundAt := now, bb_BoundVia := bb_BoundVia b\<rparr>) bs
      else bs @ [b])"

definition bindings_Create :: "BotUserBinding \<Rightarrow> (db_error + unit) M" where
  "bindings_Create b = db_write (\<lambda>w. Inr ((), w\<lparr>w_bindings := upsert_binding (w_now w) b (w_bindings w)\<rparr>))"

definition bindings_Delete :: "int \<Rightarrow> (db_error + unit) M" where
  "bindings_Delete tg = db_write (\<lambda>w. Inr ((), w\<lparr>w_bindings := filter (\<lambda>b. bb_TgUserID b \<noteq> tg) (w_bindings w)\<rparr>))"

definition bindings_SetAdmin :: "int \<Rightarrow> bool \<Rightarrow> (db_error + unit) M" where
  "bindings_SetAdmin tg adm = db_write (\<lambda>w.
     Inr ((), w\<lparr>w_bindings := upd (\<lambda>b. bb_TgUserID b = tg) (\<lambda>b. b\<lparr>bb_IsAdmin := adm\<rparr>) (w_bindings w)\<rparr>))"

definition CreateWebBindToken :: "string \<Rightarrow> int \<Rightarrow> int \<Rightarrow> (db_error + unit) M" where
  "CreateWebBindToken token asn expiresAt = db_write (\<lambda>w.
     if list_ex (\<lambda>t. wt_Token t = token) (bind_tokens w) then Inl (UniqueViolation ''bot_web_bind_tokens_token_key'')
     else Inr ((), set_tokens (bind_tokens w @ [\<lparr>wt_Token = token, wt_ASN = asn, wt_ExpiresAt = expiresAt, wt_Used = False\<rparr>]) w))"

definition GetWebBindToken :: "string \<Rightarrow> (db_error + BotWebBindToken) M" where
  "GetWebBindToken token = db_read (\<lambda>w. row (find (\<lambda>t. wt_Token t = token) (bind_tokens w)))"

definition MarkWebBindTokenUsed :: "string \<Rightarrow> (db_error + unit) M" where
  "MarkWebBindTokenUsed token = db_write (\<lambda>w.
     Inr ((), set_tokens (upd (\<lambda>t. wt_Token t = token) (\<lambda>t. t\<lparr>wt_Used := True\<rparr>) (bind_tokens w)) w))"

section \<open>The bot\<close>

datatype bind_reply =
    BindResult bool string string
  | BindPending string int
  | UnbindResult bool string string
  | WhoamiResult "BotUserBinding option"

definition bind_error :: "string \<Rightarrow> bind_reply" where
  "bind_error e = BindResult False e []"

definition already_bound :: "int \<Rightarrow> string" where
  "already_bound asn = ''already bound to ASN '' @ show_int asn @ ''. Use /unbind first.''"

definition bound_elsewhere :: "int \<Rightarrow> string" where
  "bound_elsewhere asn = ''ASN '' @ show_int asn @ '' is already bound to another Telegram account.''"

definition bound_message :: "int \<Rightarrow> string" where
  "bound_message asn = ''Successfully bound ASN '' @ show_int asn @ '' to your Telegram account.''"

definition generateBotBindCode :: "string option M" where
  "generateBotBindCode = do { n \<leftarrow> rand_int 1000000; ret (map_option pad6 n) }"

text \<open>Errors of the two lookups count as not bound.\<close>

definition check_unbound :: "int \<Rightarrow> int \<Rightarrow> bind_reply M \<Rightarrow> bind_reply M" where
  "check_unbound tg asn m = do {
     existing \<leftarrow> bindings_GetByTgUserID tg;
     case existing of
       Inr b \<Rightarrow> ret (bind_error (already_bound (bb_ASN b)))
     | Inl _ \<Rightarrow> do {
         existingASN \<leftarrow> bindings_GetByASN asn;
         case existingASN of
           Inr _ \<Rightarrow> ret (bind_error (bound_elsewhere asn))
         | Inl _ \<Rightarrow> m
       }
   }"

definition handleBotBindRequest :: "auth_lib \<Rightarrow> int \<Rightarrow> int \<Rightarrow> bind_reply M" where
  "handleBotBindRequest L tg asn =
     (if asn \<le> 0 then ret (bind_error ''invalid ASN'')
      else if tg = 0 then ret (bind_error ''missing tg_user_id'')
      else check_unbound tg asn (do {
        lookup \<leftarrow> LookupASNEmail asn;
        case lookup of
          None \<Rightarrow> ret (bind_error ''ASN not found in DN42 registry'')
        | Some email \<Rightarrow> do {
            gen \<leftarrow> generateBotBindCode;
            case gen of
              None \<Rightarrow> ret (bind_error ''internal error'')
            | Some code \<Rightarrow> do {
                salt \<leftarrow> rand_read;
                case (case salt of None \<Rightarrow> None | Some bs \<Rightarrow> al_GenerateFromPassword L (bytes_str bs) code) of
                  None \<Rightarrow> ret (bind_error ''internal error'')
                | Some codeHash \<Rightarrow> do {
                    now \<leftarrow> time_now;
                    r \<leftarrow> CreateLoginCode \<lparr>lc_ID = [], lc_ASN = asn, lc_Email = email, lc_CodeHash = codeHash,
                           lc_ExpiresAt = now + 300000, lc_Used = False, lc_FailedAttempts = 0, lc_CreatedAt = 0\<rparr>;
                    case r of
                      Inl _ \<Rightarrow> ret (bind_error ''failed to create verification code'')
                    | Inr _ \<Rightarrow> do {
                        sent \<leftarrow> SendVerificationCode (al_smtp L) email asn code;
                        if \<not> sent then ret (bind_error ''failed to send verification email'')
                        else ret (BindPending (MaskEmail email) 300)
                      }
                  }
              }
          }
      }))"

definition new_binding :: "int \<Rightarrow> string \<Rightarrow> int \<Rightarrow> string \<Rightarrow> BotUserBinding" where
  "new_binding tg username asn via = \<lparr>bb_TgUserID = tg, bb_TgUsername = username, bb_ASN = asn, bb_IsAdmin = False, bb_BoundAt = 0,
     bb_BoundVia = via\<rparr>"

text \<open>Whether the code could be marked as used is not looked at.\<close>

definition handleBotBindVerify :: "auth_lib \<Rightarrow> int \<Rightarrow> string \<Rightarrow> int \<Rightarrow> string \<Rightarrow> bind_reply M" where
  "handleBotBindVerify L tg username asn code =
     (if tg = 0 \<or> asn \<le> 0 \<or> code = [] then ret (bind_error ''missing required fields'')
      else do {
        found \<leftarrow> GetLatestValidLoginCode asn;
        case found of
          Inl _ \<Rightarrow> ret (bind_error ''no pending verification. Use /bind <ASN> first.'')
        | Inr loginCode \<Rightarrow>
            if lc_ASN loginCode \<noteq> asn then ret (bind_error ''code does not match ASN'')
            else if \<not> al_CompareHashAndPassword L (lc_CodeHash loginCode) code
            then do {
              _ \<leftarrow> IncrementLoginCodeFailures (lc_ID loginCode);
              ret (bind_error ''invalid verification code'')
            }
            else do {
              _ \<leftarrow> MarkLoginCodeUsed (lc_ID loginCode);
              r \<leftarrow> bindings_Create (new_binding tg username asn ''code'');
              case r of
                Inl _ \<Rightarrow> ret (bind_error ''failed to create binding'')
              | Inr _ \<Rightarrow> ret (BindResult True [] (bound_message asn))
            }
      })"

definition handleBotWebBind :: "int \<Rightarrow> string \<Rightarrow> string \<Rightarrow> bind_reply M" where
  "handleBotWebBind tg username tok =
     (if tok = [] \<or> tg = 0 then ret (bind_error ''missing required fields'')
      else do {
        found \<leftarrow> GetWebBindToken tok;
        case found of
          Inl _ \<Rightarrow> ret (bind_error ''invalid or expired token'')
        | Inr token \<Rightarrow>
            if wt_Used token then ret (bind_error ''token already used'')
            else do {
              now \<leftarrow> time_now;
              if wt_ExpiresAt token < now then ret (bind_error ''token expired'')
              else check_unbound tg (wt_ASN token) (do {
                r \<leftarrow> bindings_Create (new_binding tg username (wt_ASN token) ''web'');
                case r of
                  Inl _ \<Rightarrow> ret (bind_error ''failed to create binding'')
                | Inr _ \<Rightarrow> do {
                    _ \<leftarrow> MarkWebBindTokenUsed tok;
                    ret (BindResult True [] (bound_message (wt_ASN token)))
                  }
              })
            }
      })"

definition handleBotUnbind :: "int \<Rightarrow> bind_reply M" where
  "handleBotUnbind tg =
     (if tg = 0 then ret (UnbindResult False ''missing tg_user_id'' [])
      else do {
        existing \<leftarrow> bindings_GetByTgUserID tg;
        case existing of
          Inl _ \<Rightarrow> ret (UnbindResult False ''no binding found'' [])
        | Inr b \<Rightarrow> do {
            d \<leftarrow> bindings_Delete tg;
            case d of
              Inl _ \<Rightarrow> ret (UnbindResult False ''failed to unbind'' [])
            | Inr _ \<Rightarrow> ret (UnbindResult True [] (''Successfully unbound ASN '' @ show_int (bb_ASN b) @ ''.''))
          }
      })"

definition handleBotWhoami :: "int \<Rightarrow> bind_reply M" where
  "handleBotWhoami tg =
     (if tg = 0 then ret (WhoamiResult None)
      else do {
        b \<leftarrow> bindings_GetByTgUserID tg;
        case b of Inl _ \<Rightarrow> ret (WhoamiResult None) | Inr binding \<Rightarrow> ret (WhoamiResult (Some binding))
      })"

section \<open>The web side\<close>

definition GetBinding :: "string \<Rightarrow> int \<Rightarrow> response M" where
  "GetBinding botUsername asn = do {
     r \<leftarrow> bindings_GetByASN asn;
     case r of
       Inl _ \<Rightarrow> ret (JSONResp 200 (JObj [(''bound'', JBool False), (''bot_username'', JStr botUsername)]))
     | Inr b \<Rightarrow> ret (JSONResp 200 (JObj [(''bound'', JBool True), (''tg_username'', JStr (bb_TgUsername b)), (''bound_at'', JTime (bb_BoundAt b)),
         (''bound_via'', JStr (bb_BoundVia b)), (''bot_username'', JStr botUsername)]))
   }"

definition CreateBindToken :: "string \<Rightarrow> int \<Rightarrow> response M" where
  "CreateBindToken botUsername asn =
     (if botUsername = [] then ret (ErrorResp 503 ''not_configured'' ''Telegram bot is not configured'')
      else do {
        existing \<leftarrow> bindings_GetByASN asn;
        case existing of
          Inr _ \<Rightarrow> ret (ErrorResp 409 ''already_bound'' ''This ASN is already bound to a Telegram account. Unbind first.'')
        | Inl _ \<Rightarrow> do {
            b \<leftarrow> rand_read;
            case b of
              None \<Rightarrow> ret (ErrorResp 500 ''internal_error'' ''Failed to generate token'')
            | Some bs \<Rightarrow> do {
                now \<leftarrow> time_now;
                let token = hex_encode (bytes_str bs);
                r \<leftarrow> CreateWebBindToken token asn (now + 600000);
                case r of
                  Inl _ \<Rightarrow> ret (ErrorResp 500 ''internal_error'' ''Failed to create token'')
                | Inr _ \<Rightarrow> ret (JSONResp 200 (JObj [(''deeplink'', JStr (''https://t.me/'' @ botUsername @ ''?start=bind_'' @ token)),
                    (''expires_at'', JTime (now + 600000))]))
              }
          }
      })"

definition DeleteBinding :: "int \<Rightarrow> response M" where
  "DeleteBinding asn = do {
     r \<leftarrow> bindings_GetByASN asn;
     case r of
       Inl _ \<Rightarrow> ret (ErrorResp 404 ''not_bound'' ''No Telegram binding found for this account'')
     | Inr b \<Rightarrow> do {
         d \<leftarrow> bindings_Delete (bb_TgUserID b);
         case d of
           Inl _ \<Rightarrow> ret (ErrorResp 500 ''internal_error'' ''Failed to unbind'')
         | Inr _ \<Rightarrow> ret (JSONResp 200 (JObj [(''status'', JStr ''unbound'')]))
       }
   }"

section \<open>Who can bind\<close>

datatype bind_request =
    BindRequest int int
  | BindVerify int string int string
  | WebBind int string string
  | Unbind int
  | Whoami int
  | WebToken int
  | WebUnbind int
  | WebBinding int

text \<open>The messages of the bot and, for a logged-in AS number, the requests over the web.\<close>

fun bind_serve :: "auth_lib \<Rightarrow> string \<Rightarrow> bind_request \<Rightarrow> unit M" where
  "bind_serve L uname (BindRequest tg asn) = do { _ \<leftarrow> handleBotBindRequest L tg asn; ret () }"
| "bind_serve L uname (BindVerify tg name asn code) = do { _ \<leftarrow> handleBotBindVerify L tg name asn code; ret () }"
| "bind_serve L uname (WebBind tg name tok) = do { _ \<leftarrow> handleBotWebBind tg name tok; ret () }"
| "bind_serve L uname (Unbind tg) = do { _ \<leftarrow> handleBotUnbind tg; ret () }"
| "bind_serve L uname (Whoami tg) = do { _ \<leftarrow> handleBotWhoami tg; ret () }"
| "bind_serve L uname (WebToken asn) = do { _ \<leftarrow> CreateBindToken uname asn; ret () }"
| "bind_serve L uname (WebUnbind asn) = do { _ \<leftarrow> DeleteBinding asn; ret () }"
| "bind_serve L uname (WebBinding asn) = do { _ \<leftarrow> GetBinding uname asn; ret () }"

text \<open>What a request may do to the bindings and to the tokens.\<close>

definition unbound_view :: "world \<Rightarrow> BotUserBinding list \<times> BotWebBindToken list \<times> int" where
  "unbound_view w = (w_bindings w, bind_tokens w, w_now w)"

definition token_used :: "string \<Rightarrow> BotWebBindToken list \<Rightarrow> BotWebBindToken list" where
  "token_used tok = upd (\<lambda>t. wt_Token t = tok) (\<lambda>t. t\<lparr>wt_Used := True\<rparr>)"

inductive bind_effect :: "auth_lib \<Rightarrow> world \<Rightarrow> bind_request \<Rightarrow> BotUserBinding list \<Rightarrow> BotWebBindToken list \<Rightarrow> bool" for L w where
  none: "bind_effect L w r (w_bindings w) (bind_tokens w)"
| code: "c \<in> set (codes w) \<Longrightarrow> live_code asn (w_now w) c \<Longrightarrow> al_CompareHashAndPassword L (lc_CodeHash c) code \<Longrightarrow>
    bind_effect L w (BindVerify tg name asn code) (upsert_binding (w_now w) (new_binding tg name asn ''code'') (w_bindings w)) (bind_tokens w)"
| web: "t \<in> set (bind_tokens w) \<Longrightarrow> wt_Token t = tok \<Longrightarrow> \<not> wt_Used t \<Longrightarrow> w_now w \<le> wt_ExpiresAt t \<Longrightarrow>
    nofault w \<longrightarrow> list_all (\<lambda>b. bb_TgUserID b \<noteq> tg \<and> bb_ASN b \<noteq> wt_ASN t) (w_bindings w) \<and> ts = token_used tok (bind_tokens w) \<Longrightarrow>
    ts \<in> {bind_tokens w, token_used tok (bind_tokens w)} \<Longrightarrow>
    bind_effect L w (WebBind tg name tok) (upsert_binding (w_now w) (new_binding tg name (wt_ASN t) ''web'') (w_bindings w)) ts"
| unbind: "bind_effect L w (Unbind tg) (filter (\<lambda>b. bb_TgUserID b \<noteq> tg) (w_bindings w)) (bind_tokens w)"
| web_unbind: "find (\<lambda>b. bb_ASN b = asn) (w_bindings w) = Some b \<Longrightarrow>
    bind_effect L w (WebUnbind asn) (filter (\<lambda>c. bb_TgUserID c \<noteq> bb_TgUserID b) (w_bindings w)) (bind_tokens w)"
| token: "tok \<notin> wt_Token ` set (bind_tokens w) \<Longrightarrow> bind_effect L w (WebToken asn) (w_bindings w)
    (bind_tokens w @ [\<lparr>wt_Token = tok, wt_ASN = asn, wt_ExpiresAt = w_now w + 600000, wt_Used = False\<rparr>])"

lemma set_tables_view [simp]:
  "w_bindings (set_codes x w) = w_bindings w" "bind_tokens (set_codes x w) = bind_tokens w" "w_now (set_codes x w) = w_now w"
  "w_bindings (set_tokens y w) = w_bindings w" "bind_tokens (set_tokens y w) = y" "w_now (set_tokens y w) = w_now w"
  "codes (set_codes x w) = x" "codes (set_tokens y w) = codes w" "w_dbfail (set_codes x w) = w_dbfail w" "w_dbfail (set_tokens y w) = w_dbfail w"
  by (simp_all add: set_codes_def set_tokens_def)

lemma latest_live: "sort_key f (filter P xs) = c # cs \<Longrightarrow> c \<in> set xs \<and> P c"
  by (metis (no_types, lifting) filter_is_subset list.set_intros(1) mem_Collect_eq set_filter set_sort subsetD)

lemma run_GetLatest:
  "run_state (GetLatestValidLoginCode asn) w = (r, w1) \<Longrightarrow> w1 = db_next w \<and> (case r of Inl _ \<Rightarrow> True | Inr c \<Rightarrow> c \<in> set (codes w) \<and> live_code asn (w_now w) c)"
  by (auto simp: GetLatestValidLoginCode_def dest: latest_live split: if_splits list.splits)

lemma run_check_unbound:
  assumes "run_state (check_unbound tg asn m) w = (r, w')"
  shows "w' = db_next w \<or> w' = db_next (db_next w) \<or> (run_state m (db_next (db_next w)) = (r, w')
    \<and> (nofault w \<longrightarrow> list_all (\<lambda>b. bb_TgUserID b \<noteq> tg \<and> bb_ASN b \<noteq> asn) (w_bindings w)))"
proof (cases "run_state (bindings_GetByTgUserID tg) w")
  case (Pair e w1)
  then have w1: "w1 = db_next w" and e: "nofault w \<longrightarrow> e = row (find (\<lambda>b. bb_TgUserID b = tg) (w_bindings w))"
    by (auto simp: bindings_GetByTgUserID_def nofault_not_fails)
  obtain f w2 where f: "run_state (bindings_GetByASN asn) w1 = (f, w2)" by (metis prod.collapse)
  then have w2: "w2 = db_next w1" and f': "nofault w \<longrightarrow> f = row (find (\<lambda>b. bb_ASN b = asn) (w_bindings w))"
    using w1 nofault_next [of w] by (auto simp: bindings_GetByASN_def nofault_not_fails)
  show ?thesis
  proof (cases e)
    case (Inr b)
    with assms Pair w1 show ?thesis by (simp add: check_unbound_def)
  next
    case e': (Inl x)
    show ?thesis
    proof (cases f)
      case (Inr b)
      with assms Pair w1 f w2 e' show ?thesis by (simp add: check_unbound_def)
    next
      case (Inl y)
      with e e' f' have "nofault w \<longrightarrow> list_all (\<lambda>b. bb_TgUserID b \<noteq> tg \<and> bb_ASN b \<noteq> asn) (w_bindings w)"
        by (auto simp: row_def list_all_iff find_None_iff split: option.splits)
      with assms Pair w1 f w2 e' Inl show ?thesis by (simp add: check_unbound_def)
    qed
  qed
qed

lemma request_effect: "keeps (\<lambda>w'. unbound_view w' = v) (handleBotBindRequest L tg asn)"
proof -
  have i: "insensitive (\<lambda>w'. unbound_view w' = v)" by (auto simp: insensitive_def unbound_view_def)
  have c: "keeps (\<lambda>w'. unbound_view w' = v) (CreateLoginCode x)" for x
    unfolding CreateLoginCode_def
    by (rule keeps_db_write [OF i]) (auto simp: unbound_view_def take_id_def fresh_uuid_def split: if_splits prod.splits list.splits)
  have r: "keeps (\<lambda>w'. unbound_view w' = v) generateBotBindCode"
    unfolding generateBotBindCode_def
    by (intro keeps_intros) (auto simp: keeps_def rand_int_def unbound_view_def split: prod.splits)
  have s: "keeps (\<lambda>w'. unbound_view w' = v) (SendVerificationCode a b d e)" for a b d e
    unfolding SendVerificationCode_def send_gated_def IsNotificationEnabledForASN_def ListNotificationPreferences_def GetEmailLevel_def
    by (intro keeps_intros i; (auto intro: keeps_intros i split: list.splits)?)
  show ?thesis
    unfolding handleBotBindRequest_def check_unbound_def bindings_GetByTgUserID_def bindings_GetByASN_def
    by (intro keeps_intros i c r s)
qed

lemma verify_effect:
  assumes "run_state (handleBotBindVerify L tg name asn code) w = (r, w')"
  shows "w_now w' = w_now w \<and> bind_effect L w (BindVerify tg name asn code) (w_bindings w') (bind_tokens w')"
proof (cases "tg = 0 \<or> asn \<le> 0 \<or> code = []")
  case True
  with assms show ?thesis by (auto simp: handleBotBindVerify_def intro: bind_effect.none)
next
  case False
  obtain f w1 where f: "run_state (GetLatestValidLoginCode asn) w = (f, w1)" by (metis prod.collapse)
  note g = run_GetLatest [OF f]
  show ?thesis
  proof (cases f)
    case (Inl x)
    with assms f g False show ?thesis by (auto simp: handleBotBindVerify_def intro: bind_effect.none)
  next
    case (Inr c)
    show ?thesis
    proof (cases "lc_ASN c = asn \<and> al_CompareHashAndPassword L (lc_CodeHash c) code")
      case True
      obtain u w2 where m: "run_state (MarkLoginCodeUsed (lc_ID c)) w1 = (u, w2)" by (metis prod.collapse)
      then have w2: "w_bindings w2 = w_bindings w" "bind_tokens w2 = bind_tokens w" "w_now w2 = w_now w"
        using g by (auto simp: MarkLoginCodeUsed_def run_db_write Let_def split: if_splits)
      obtain v w3 where v: "run_state (bindings_Create (new_binding tg name asn ''code'')) w2 = (v, w3)" by (metis prod.collapse)
      have w3: "w' = w3" using assms False f Inr True m v by (auto simp: handleBotBindVerify_def split: sum.splits)
      from v show ?thesis unfolding w3
        using w2 bind_effect.code [of c w asn L code tg name] bind_effect.none [of L w] g True Inr
        by (auto simp: bindings_Create_def run_db_write split: if_splits)
    next
      case other: False
      with assms False f Inr g show ?thesis
        by (auto simp: handleBotBindVerify_def IncrementLoginCodeFailures_def run_db_write intro: bind_effect.none split: if_splits)
    qed
  qed
qed

lemma web_effect:
  assumes "run_state (handleBotWebBind tg name tok) w = (r, w')"
  shows "w_now w' = w_now w \<and> bind_effect L w (WebBind tg name tok) (w_bindings w') (bind_tokens w')"
proof (cases "tok = [] \<or> tg = 0")
  case True
  with assms show ?thesis by (auto simp: handleBotWebBind_def intro: bind_effect.none)
next
  case False
  obtain f w1 where f: "run_state (GetWebBindToken tok) w = (f, w1)" by (metis prod.collapse)
  then have w1: "w1 = db_next w" and t: "\<And>t. f = Inr t \<Longrightarrow> t \<in> set (bind_tokens w) \<and> wt_Token t = tok"
    by (auto simp: GetWebBindToken_def row_def find_Some_iff split: if_splits option.splits)
  show ?thesis
  proof (cases f)
    case (Inl x)
    with assms f w1 False show ?thesis by (auto simp: handleBotWebBind_def intro: bind_effect.none)
  next
    case (Inr t)
    show ?thesis
    proof (cases "\<not> wt_Used t \<and> w_now w \<le> wt_ExpiresAt t")
      case ok: True
      let ?m = "do { r \<leftarrow> bindings_Create (new_binding tg name (wt_ASN t) ''web'');
                case r of Inl _ \<Rightarrow> ret (bind_error ''failed to create binding'')
                | Inr _ \<Rightarrow> do { _ \<leftarrow> MarkWebBindTokenUsed tok; ret (BindResult True [] (bound_message (wt_ASN t))) } }"
      have run: "run_state (check_unbound tg (wt_ASN t) ?m) (db_next w) = (r, w')"
        using assms False f w1 Inr ok by (simp add: handleBotWebBind_def time_now_def)
      from run_check_unbound [OF run] consider (early) "w' = db_next (db_next w) \<or> w' = db_next (db_next (db_next w))"
        | (late) "run_state ?m (db_next (db_next (db_next w))) = (r, w')"
          "nofault w \<longrightarrow> list_all (\<lambda>b. bb_TgUserID b \<noteq> tg \<and> bb_ASN b \<noteq> wt_ASN t) (w_bindings w)"
        using nofault_next [of w] by auto
      then show ?thesis
      proof cases
        case early
        then show ?thesis using bind_effect.none [of L w] by auto
      next
        case late
        let ?w3 = "db_next (db_next (db_next w))"
        have n: "nofault w \<longrightarrow> nofault ?w3" by (simp add: nofault_next)
        obtain v w4 where v: "run_state (bindings_Create (new_binding tg name (wt_ASN t) ''web'')) ?w3 = (v, w4)" by (metis prod.collapse)
        show ?thesis
        proof (cases v)
          case (Inl x)
          with late v show ?thesis using bind_effect.none [of L w] by (auto simp: bindings_Create_def run_db_write split: if_splits)
        next
          case vr: (Inr x)
          with v have w4: "w_bindings w4 = upsert_binding (w_now w) (new_binding tg name (wt_ASN t) ''web'') (w_bindings w)"
            "bind_tokens w4 = bind_tokens w" "w_now w4 = w_now w" "nofault w \<longrightarrow> nofault w4"
            using n nofault_next [of ?w3] by (auto simp: bindings_Create_def run_db_write nofault_def split: if_splits)
          obtain y w5 where y: "run_state (MarkWebBindTokenUsed tok) w4 = (y, w5)" by (metis prod.collapse)
          then have w5: "w_bindings w5 = w_bindings w4" "w_now w5 = w_now w4" "bind_tokens w5 \<in> {bind_tokens w, token_used tok (bind_tokens w)}"
            "nofault w \<longrightarrow> bind_tokens w5 = token_used tok (bind_tokens w)"
            using w4 nofault_not_fails [of w4] by (auto simp: MarkWebBindTokenUsed_def run_db_write token_used_def split: if_splits)
          have "w' = w5" using late(1) v vr y by simp
          then show ?thesis using bind_effect.web [of t w tok tg "bind_tokens w5" L name] t [OF Inr] ok late(2) w4 w5 by auto
        qed
      qed
    next
      case bad: False
      with assms False f w1 Inr show ?thesis
        by (auto simp: handleBotWebBind_def time_now_def intro: bind_effect.none split: if_splits)
    qed
  qed
qed

lemma bind_serve_effect:
  assumes "run_state (bind_serve L uname r) w = (u, w')"
  shows "w_now w' = w_now w \<and> bind_effect L w r (w_bindings w') (bind_tokens w')"
proof (cases r)
  case (BindRequest tg asn)
  then show ?thesis using assms keepsD [OF request_effect [of "unbound_view w" L tg asn], of w]
    by (auto simp: unbound_view_def intro: bind_effect.none split: prod.splits)
next
  case (BindVerify tg name asn code)
  then show ?thesis using assms verify_effect by (auto split: prod.splits)
next
  case (WebBind tg name tok)
  then show ?thesis using assms web_effect by (auto split: prod.splits)
next
  case (Unbind tg)
  then show ?thesis using assms
    by (auto simp: handleBotUnbind_def bindings_GetByTgUserID_def bindings_Delete_def run_db_write intro: bind_effect.none bind_effect.unbind
        split: if_splits sum.splits)
next
  case (Whoami tg)
  then show ?thesis using assms
    by (auto simp: handleBotWhoami_def bindings_GetByTgUserID_def intro: bind_effect.none split: if_splits sum.splits)
next
  case (WebToken asn)
  then show ?thesis using assms
    by (auto simp: CreateBindToken_def bindings_GetByASN_def rand_read_def time_now_def CreateWebBindToken_def run_db_write list_ex_iff Let_def image_iff
        intro: bind_effect.none split: if_splits sum.splits option.splits list.splits) (rule bind_effect.token, auto)+
next
  case (WebUnbind asn)
  then show ?thesis using assms
    by (auto simp: DeleteBinding_def bindings_GetByASN_def bindings_Delete_def run_db_write row_def intro: bind_effect.none bind_effect.web_unbind
        split: if_splits sum.splits option.splits)
next
  case (WebBinding asn)
  then show ?thesis using assms
    by (auto simp: GetBinding_def bindings_GetByASN_def intro: bind_effect.none split: if_splits sum.splits)
qed

text \<open>Requests one after the other, each with its time, and anything between them that leaves the two tables alone.\<close>

inductive bind_trace :: "auth_lib \<Rightarrow> string \<Rightarrow> world \<Rightarrow> (int \<times> bind_request) list \<Rightarrow> world \<Rightarrow> bool" for L uname w0 where
  start: "bind_trace L uname w0 [] w0"
| request: "bind_trace L uname w0 rs w \<Longrightarrow> run_state (bind_serve L uname r) w = (u, w') \<Longrightarrow> bind_trace L uname w0 (rs @ [(w_now w, r)]) w'"
| other: "bind_trace L uname w0 rs w \<Longrightarrow> w_bindings w' = w_bindings w \<Longrightarrow> bind_tokens w' = bind_tokens w \<Longrightarrow> bind_trace L uname w0 rs w'"

definition one_per_user :: "world \<Rightarrow> bool" where
  "one_per_user w \<longleftrightarrow> distinct (map bb_TgUserID (w_bindings w))"

definition links_issued :: "(int \<times> bind_request) list \<Rightarrow> BotWebBindToken list \<Rightarrow> bool" where
  "links_issued rs ts \<longleftrightarrow> (\<forall>t \<in> set ts. \<exists>at. (at, WebToken (wt_ASN t)) \<in> set rs \<and> wt_ExpiresAt t = at + 600000)"

lemma upsert_cases:
  "b \<in> set (upsert_binding now x bs) \<Longrightarrow> b \<in> set bs \<or> (bb_TgUserID b = bb_TgUserID x \<and> bb_ASN b = bb_ASN x)"
  by (auto simp: upsert_binding_def upd_def split: if_splits)

lemma upsert_keeps: "b \<in> set bs \<Longrightarrow> bb_TgUserID b \<noteq> bb_TgUserID x \<Longrightarrow> b \<in> set (upsert_binding now x bs)"
  by (auto simp: upsert_binding_def upd_def image_iff)

lemma new_binding_sel [simp]: "bb_TgUserID (new_binding tg name asn via) = tg" "bb_ASN (new_binding tg name asn via) = asn"
  by (simp_all add: new_binding_def)

lemma upsert_users: "map bb_TgUserID (upsert_binding now x bs) = (if bb_TgUserID x \<in> bb_TgUserID ` set bs then map bb_TgUserID bs else map bb_TgUserID bs @ [bb_TgUserID x])"
  by (simp add: upsert_binding_def upd_def list_ex_iff image_iff comp_def) (metis (mono_tags, lifting))

lemma effect_users:
  assumes "bind_effect L w r bs ts" "distinct (map bb_TgUserID (w_bindings w))"
  shows "distinct (map bb_TgUserID bs)"
  using assms by (cases rule: bind_effect.cases) (auto simp: upsert_users distinct_map_filter)

lemma effect_tokens:
  assumes "bind_effect L w r bs ts" "t \<in> set ts"
  shows "(\<exists>t0 \<in> set (bind_tokens w). wt_ASN t = wt_ASN t0 \<and> wt_ExpiresAt t = wt_ExpiresAt t0 \<and> wt_Token t = wt_Token t0 \<and> (wt_Used t0 \<longrightarrow> wt_Used t))
    \<or> (r = WebToken (wt_ASN t) \<and> wt_ExpiresAt t = w_now w + 600000)"
  using assms by (cases rule: bind_effect.cases) (fastforce simp: token_used_def upd_def)+

lemma trace_invariant:
  assumes "bind_trace L uname w0 rs w" "links_issued [] (bind_tokens w0)" "one_per_user w0"
  shows "links_issued rs (bind_tokens w) \<and> one_per_user w"
  using assms
proof (induction rule: bind_trace.induct)
  case (request rs w r u w')
  note e = bind_serve_effect [OF request.hyps(2), THEN conjunct2]
  have "links_issued (rs @ [(w_now w, r)]) (bind_tokens w')"
    unfolding links_issued_def
  proof
    fix t assume "t \<in> set (bind_tokens w')"
    from effect_tokens [OF e this] request show "\<exists>at. (at, WebToken (wt_ASN t)) \<in> set (rs @ [(w_now w, r)]) \<and> wt_ExpiresAt t = at + 600000"
      by (fastforce simp: links_issued_def)
  qed
  then show ?case using effect_users [OF e] request by (simp add: one_per_user_def)
qed (auto simp: one_per_user_def)

text \<open>A proof by code names a code that is stored for the AS number, was not used, has not expired and has failed fewer
  than five times. A proof by link presents the very token of a link that the AS number asked for over the
  web, unused and at most ten minutes old.\<close>

definition proved_by_code :: "auth_lib \<Rightarrow> world \<Rightarrow> bind_request \<Rightarrow> BotUserBinding \<Rightarrow> bool" where
  "proved_by_code L w r b \<longleftrightarrow> (\<exists>name code. r = BindVerify (bb_TgUserID b) name (bb_ASN b) code
     \<and> list_ex (\<lambda>c. lc_ASN c = bb_ASN b \<and> \<not> lc_Used c \<and> w_now w < lc_ExpiresAt c \<and> lc_FailedAttempts c < 5
          \<and> al_CompareHashAndPassword L (lc_CodeHash c) code) (codes w))"

definition proved_by_link :: "(int \<times> bind_request) list \<Rightarrow> world \<Rightarrow> bind_request \<Rightarrow> BotUserBinding \<Rightarrow> bool" where
  "proved_by_link rs w r b \<longleftrightarrow> (\<exists>name t at. r = WebBind (bb_TgUserID b) name (wt_Token t) \<and> t \<in> set (bind_tokens w)
     \<and> wt_ASN t = bb_ASN b \<and> \<not> wt_Used t \<and> wt_ExpiresAt t = at + 600000 \<and> w_now w \<le> at + 600000 \<and> (at, WebToken (bb_ASN b)) \<in> set rs)"

definition of_owner :: "bind_request \<Rightarrow> BotUserBinding \<Rightarrow> bool" where
  "of_owner r b \<longleftrightarrow> r = Unbind (bb_TgUserID b) \<or> r = WebUnbind (bb_ASN b)
     \<or> (\<exists>name asn code. r = BindVerify (bb_TgUserID b) name asn code) \<or> (\<exists>name tok. r = WebBind (bb_TgUserID b) name tok)"

lemma effect_gains:
  assumes "bind_effect L w r bs ts" "b \<in> set bs" "b \<notin> set (w_bindings w)" "links_issued rs (bind_tokens w)"
  shows "proved_by_code L w r b \<or> proved_by_link rs w r b"
  using assms
proof (cases rule: bind_effect.cases)
  case (code c asn code tg name)
  then have "bb_TgUserID b = tg" "bb_ASN b = asn" using upsert_cases [OF assms(2) [unfolded code(2)]] assms(3) by auto
  then show ?thesis using code by (auto simp: proved_by_code_def list_ex_iff live_code_def)
next
  case (web t tok tg name)
  then have b: "bb_TgUserID b = tg" "bb_ASN b = wt_ASN t" using upsert_cases [OF assms(2) [unfolded web(2)]] assms(3) by auto
  from assms(4) web(3) obtain at where "(at, WebToken (wt_ASN t)) \<in> set rs" "wt_ExpiresAt t = at + 600000" unfolding links_issued_def by blast
  then show ?thesis using web b by (auto simp: proved_by_link_def intro!: exI [of _ t])
qed auto

lemma effect_losses:
  assumes "bind_effect L w r bs ts" "b \<in> set (w_bindings w)" "b \<notin> set bs" "one_per_user w"
  shows "of_owner r b"
  using assms
proof (cases rule: bind_effect.cases)
  case (code c asn code tg name)
  then have "bb_TgUserID b = tg" using upsert_keeps [OF assms(2), of "new_binding tg name asn ''code''" "w_now w"] assms(3) by auto
  then show ?thesis using code by (simp add: of_owner_def)
next
  case (web t tok tg name)
  then have "bb_TgUserID b = tg" using upsert_keeps [OF assms(2), of "new_binding tg name (wt_ASN t) ''web''" "w_now w"] assms(3) by auto
  then show ?thesis using web by (simp add: of_owner_def)
next
  case (web_unbind asn c)
  then have c: "c \<in> set (w_bindings w)" "bb_ASN c = asn" by (auto simp: find_Some_iff)
  have "bb_TgUserID b = bb_TgUserID c" using web_unbind assms(2,3) by auto
  with c(1) assms(2,4) have "b = c" by (auto simp: one_per_user_def distinct_map dest: inj_onD)
  then show ?thesis using web_unbind c by (simp add: of_owner_def)
qed (auto simp: of_owner_def)

text \<open>C14. Who can bind. After any requests, with anything else between them that leaves the two tables alone: a
  request adds the binding of a Telegram account to an AS number only with a code that matches one stored for that AS
  number, unused, unexpired and with fewer than five failures, or with the unused token of a link that the AS number
  itself requested over the web at most ten minutes before; it
  removes or replaces a binding only on behalf of the bound Telegram account or of the bound AS number; and no
  Telegram account ever has two bindings.\<close>

theorem binding_needs_proof:
  assumes "bind_trace L uname w0 rs w" "bind_tokens w0 = []" "one_per_user w0" "run_state (bind_serve L uname r) w = (u, w')"
  shows "one_per_user w'
    \<and> (\<forall>b \<in> set (w_bindings w') - set (w_bindings w). proved_by_code L w r b \<or> proved_by_link rs w r b)
    \<and> (\<forall>b \<in> set (w_bindings w) - set (w_bindings w'). of_owner r b)"
proof -
  have i: "links_issued rs (bind_tokens w)" "one_per_user w"
    using trace_invariant [OF assms(1)] assms(2,3) by (simp_all add: links_issued_def)
  note e = bind_serve_effect [OF assms(4), THEN conjunct2]
  show ?thesis
    using effect_users [OF e] effect_gains [OF e _ _ i(1)] effect_losses [OF e _ _ i(2)] i(2) by (auto simp: one_per_user_def)
qed

text \<open>A link binds once.\<close>

definition spent :: "string \<Rightarrow> world \<Rightarrow> bool" where
  "spent tok w \<longleftrightarrow> tok \<in> wt_Token ` set (bind_tokens w) \<and> (\<forall>t \<in> set (bind_tokens w). wt_Token t = tok \<longrightarrow> wt_Used t)"

lemma token_used_names: "wt_Token ` set (token_used tok ts) = wt_Token ` set ts"
proof -
  have "map wt_Token (token_used tok ts) = map wt_Token ts" by (simp add: token_used_def upd_def)
  then show ?thesis by (metis set_map)
qed

lemma token_used_used:
  "t \<in> set (token_used tok ts) \<Longrightarrow> (wt_Token t = tok \<longrightarrow> wt_Used t) \<and> (\<exists>t0 \<in> set ts. wt_Token t0 = wt_Token t \<and> (wt_Used t0 \<longrightarrow> wt_Used t))"
  unfolding token_used_def upd_def set_map by (elim imageE) (simp split: if_splits; blast)

lemma spent_used: "spent tok w \<Longrightarrow> bind_tokens w' = token_used s (bind_tokens w) \<Longrightarrow> spent tok w'"
  unfolding spent_def by (simp add: token_used_names) (metis token_used_used)

lemma spent_effect:
  assumes "bind_effect L w r bs ts" "spent tok w" "bind_tokens w' = ts"
  shows "spent tok w'"
  using assms
proof (cases rule: bind_effect.cases)
  case (web t tok' tg name)
  then consider "bind_tokens w' = bind_tokens w" | "bind_tokens w' = token_used tok' (bind_tokens w)" using assms(3) by auto
  then show ?thesis using assms(2) spent_used by cases (simp_all add: spent_def)
qed (auto simp: spent_def)

lemma spent_trace: "bind_trace L uname w0 rs w \<Longrightarrow> spent tok w0 \<Longrightarrow> spent tok w"
proof (induction rule: bind_trace.induct)
  case (request rs w r u w')
  then show ?case using bind_serve_effect [OF request.hyps(2), THEN conjunct2] spent_effect by blast
qed (auto simp: spent_def)

lemma check_unbound_passes:
  assumes "run_state (check_unbound tg asn m) w = (BindResult True e msg, w')"
  shows "run_state m (db_next (db_next w)) = (BindResult True e msg, w')"
  using assms
  by (auto simp: check_unbound_def bind_error_def bindings_GetByTgUserID_def bindings_GetByASN_def split: sum.splits if_splits)

lemma web_bind_spends:
  assumes "nofault w" "run_state (handleBotWebBind tg name tok) w = (BindResult True e m, w')"
  shows "spent tok w'"
proof -
  obtain f w1 where f: "run_state (GetWebBindToken tok) w = (f, w1)" by (metis prod.collapse)
  then have w1: "w1 = db_next w" "nofault w1" and t: "\<And>t. f = Inr t \<Longrightarrow> t \<in> set (bind_tokens w) \<and> wt_Token t = tok"
    using nofault_next [OF assms(1)] by (auto simp: GetWebBindToken_def row_def find_Some_iff split: if_splits option.splits)
  obtain t where i: "f = Inr t" "tok \<noteq> []" "tg \<noteq> 0" "\<not> wt_Used t" "w_now w \<le> wt_ExpiresAt t"
    using assms(2) f w1 by (cases f) (auto simp: handleBotWebBind_def bind_error_def time_now_def split: if_splits)
  let ?m = "do { r \<leftarrow> bindings_Create (new_binding tg name (wt_ASN t) ''web'');
                case r of Inl _ \<Rightarrow> ret (bind_error ''failed to create binding'')
                | Inr _ \<Rightarrow> do { _ \<leftarrow> MarkWebBindTokenUsed tok; ret (BindResult True [] (bound_message (wt_ASN t))) } }"
  have run: "run_state (check_unbound tg (wt_ASN t) ?m) (db_next w) = (BindResult True e m, w')"
    using assms(2) f w1 i by (simp add: handleBotWebBind_def time_now_def)
  note late = check_unbound_passes [OF run]
  have n: "nofault (db_next (db_next (db_next w)))" using assms(1) by (simp add: nofault_next)
  obtain v w4 where v: "run_state (bindings_Create (new_binding tg name (wt_ASN t) ''web'')) (db_next (db_next (db_next w))) = (v, w4)" by (metis prod.collapse)
  then have w4: "v = Inr ()" "bind_tokens w4 = bind_tokens w" "nofault w4"
    using n nofault_not_fails [OF n] nofault_next [OF n] by (auto simp: bindings_Create_def run_db_write nofault_def)
  have "bind_tokens w' = token_used tok (bind_tokens w)"
    using late v w4 nofault_not_fails [OF w4(3)] by (auto simp: MarkWebBindTokenUsed_def run_db_write token_used_def)
  with t [OF i(1)] show ?thesis unfolding spent_def by (simp add: token_used_names) (metis image_eqI token_used_used)
qed

lemma bind_link_once:
  assumes "nofault w" "run_state (handleBotWebBind tg name tok) w = (BindResult True e m, w1)"
    "bind_trace L uname w1 rs w2" "run_state (handleBotWebBind tg' name' tok) w2 = (r, w3)"
  shows "w_bindings w3 = w_bindings w2"
proof -
  have "spent tok w2" using spent_trace [OF assms(3)] web_bind_spends [OF assms(1,2)] by blast
  with web_effect [OF assms(4), of L] show ?thesis by (auto simp: spent_def elim!: bind_effect.cases)
qed

definition bind_world :: world where
  "bind_world = auth_world\<lparr>w_rand := [Some [193]]\<rparr>"

lemma c1_hex: "hex_encode (bytes_str [193]) = ''c1''"
  by code_simp

theorem binding_needs_proof_witness:
  "let w1 = snd (run_state (bind_serve sample_lib ''peerbot'' (WebToken 4242420123)) bind_world);
       r = WebBind 77 ''user'' ''c1'';
       w2 = snd (run_state (bind_serve sample_lib ''peerbot'' r) w1);
       b = new_binding 77 ''user'' 4242420123 ''web'' in
   w_bindings w2 = [b] \<and> one_per_user w2
   \<and> (proved_by_code sample_lib w1 r b \<or> proved_by_link [(w_now bind_world, WebToken 4242420123)] w1 r b)"
proof -
  let ?r = "WebBind 77 ''user'' ''c1''"
  obtain u w1 where s1: "run_state (bind_serve sample_lib ''peerbot'' (WebToken 4242420123)) bind_world = (u, w1)" by (metis prod.collapse)
  obtain v w2 where s2: "run_state (bind_serve sample_lib ''peerbot'' ?r) w1 = (v, w2)" by (metis prod.collapse)
  have w1: "w_bindings w1 = []" "bind_tokens w1 = [\<lparr>wt_Token = ''c1'', wt_ASN = 4242420123, wt_ExpiresAt = w_now bind_world + 600000, wt_Used = False\<rparr>]"
    "w_now w1 = w_now bind_world" "w_dbfail w1 = []"
    using s1 by (auto simp: CreateBindToken_def bindings_GetByASN_def row_def rand_read_def time_now_def CreateWebBindToken_def run_db_write Let_def
        bind_world_def auth_world_def no_bot_def db_fails_def c1_hex set_tokens_def)
  have w2: "w_bindings w2 = [new_binding 77 ''user'' 4242420123 ''web'']"
    using s2 w1 by (auto simp: handleBotWebBind_def GetWebBindToken_def row_def time_now_def check_unbound_def bindings_GetByTgUserID_def
        bindings_GetByASN_def bindings_Create_def MarkWebBindTokenUsed_def run_db_write db_fails_def upsert_binding_def)
  have "bind_trace sample_lib ''peerbot'' bind_world [(w_now bind_world, WebToken 4242420123)] w1"
    using bind_trace.request [OF bind_trace.start s1] by simp
  moreover have "bind_tokens bind_world = []" "one_per_user bind_world"
    by (simp_all add: bind_world_def auth_world_def no_bot_def one_per_user_def)
  ultimately show ?thesis using binding_needs_proof [OF _ _ _ s2] s1 s2 w1(1) w2 by (simp add: Let_def)
qed

end
