(* ===== verification/BotAdmin.thy ===== *)
theory BotAdmin
  imports BotBinding Lifecycle Heartbeat
begin

text \<open>
  \<^verbatim>\<open>internal/ws/bot_admin_handler.go\<close>: what the bot does for operators. The handlers trust the bot: they look
  neither at who asks nor at the bindings, write no audit entry and take no peer lock. A page of peers comes
  without its metrics columns, an audit entry without its identifier. The notification at the end of an action
  runs in its own goroutine; the model runs it last.
\<close>

section \<open>Replies\<close>

record BotAdminPeerInfo =
  bp_ID :: string
  bp_NodeName :: string
  bp_NodeLocation :: string
  bp_RemoteASN :: int
  bp_Status :: string
  bp_ContactEmail :: string
  bp_RejectReason :: "string option"
  bp_LatestRtt :: "string option"
  bp_LatestBGPState :: string
  bp_CreatedAt :: int

record BotAdminNodeInfo =
  bn_ID :: string
  bn_Name :: string
  bn_Location :: string
  bn_ASN :: int
  bn_Online :: bool
  bn_AgentVersion :: string
  bn_AgentState :: string
  bn_PeerCount :: nat

datatype admin_reply =
    AdminPeersResult "BotAdminPeerInfo list" int int string
  | AdminActionResult bool string string
  | AdminPeerDetailResult "BotAdminPeerInfo option"
  | AdminNodesResult "BotAdminNodeInfo list" string
  | AdminNodeDetailResult "BotAdminNodeInfo option"
  | AdminNodeUpdateResult bool string string
  | AdminAuditResult "audit_log list" int int string

definition action_failed :: "string \<Rightarrow> admin_reply" where
  "action_failed e = AdminActionResult False e []"

section \<open>Peers\<close>

definition peer_info :: "peer \<Rightarrow> node \<Rightarrow> BotAdminPeerInfo" where
  "peer_info p n = \<lparr>bp_ID = ID p, bp_NodeName = n_Name n, bp_NodeLocation = n_Location n, bp_RemoteASN = RemoteASN p, bp_Status = Status p,
     bp_ContactEmail = ContactEmail p, bp_RejectReason = RejectReason p, bp_LatestRtt = None, bp_LatestBGPState = [], bp_CreatedAt = CreatedAt p\<rparr>"

definition handleBotAdminPeers :: "string \<Rightarrow> int \<Rightarrow> admin_reply M" where
  "handleBotAdminPeers status page = do {
     let pg = (if page < 1 then 1 else page);
     r \<leftarrow> peers_List \<lparr>lp_Status = status, lp_NodeID = [], lp_ASN = 0, lp_Page = pg, lp_PageSize = 10\<rparr>;
     case r of
       Inl _ \<Rightarrow> ret (AdminPeersResult [] 0 0 ''query failed'')
     | Inr (rows, count) \<Rightarrow> ret (AdminPeersResult (map (\<lambda>(p, n). peer_info p n) rows) count pg [])
   }"

definition NotifyPeerEvent :: "int \<Rightarrow> string \<Rightarrow> unit M" where
  "NotifyPeerEvent asn event = do {
     b \<leftarrow> bindings_GetByASN asn;
     case b of Inl _ \<Rightarrow> ret () | Inr binding \<Rightarrow> notify (BotUser (bb_TgUserID binding) event)
   }"

definition handleBotAdminApprove :: "string \<Rightarrow> admin_reply M" where
  "handleBotAdminApprove peerID = do {
     r \<leftarrow> peers_GetByIDWithNode peerID;
     case r of
       Inl _ \<Rightarrow> ret (action_failed ''peer not found'')
     | Inr (peer, node) \<Rightarrow>
         if Status peer \<noteq> ''pending'' then ret (action_failed ''peer is not pending'')
         else do {
           online \<leftarrow> IsOnline (NodeID peer);
           if \<not> online then ret (action_failed ''node is offline'')
           else do {
             resp \<leftarrow> SendCommand (NodeID peer) (PeerAdd (add_payload peer));
             case resp of
               NotSent e \<Rightarrow> ret (action_failed e)
             | NoAnswer e \<Rightarrow> ret (action_failed e)
             | Answer m \<Rightarrow>
                 if refused m then ret (action_failed (m_Error m))
                 else do {
                   u \<leftarrow> peers_UpdateStatus (ID peer) ''active'' [];
                   case u of
                     Inl _ \<Rightarrow> do {
                       _ \<leftarrow> SendCommand (NodeID peer) (PeerRemove (remove_payload peer));
                       ret (action_failed ''db update failed'')
                     }
                   | Inr _ \<Rightarrow> do {
                       NotifyPeerEvent (RemoteASN peer) ''peer.approved'';
                       ret (AdminActionResult True [] ''peer approved'')
                     }
                 }
           }
         }
   }"

definition handleBotAdminReject :: "string \<Rightarrow> string \<Rightarrow> admin_reply M" where
  "handleBotAdminReject peerID reason = do {
     r \<leftarrow> peers_GetByIDWithNode peerID;
     case r of
       Inl _ \<Rightarrow> ret (action_failed ''peer not found'')
     | Inr (peer, node) \<Rightarrow>
         if Status peer \<noteq> ''pending'' then ret (action_failed ''peer is not pending'')
         else do {
           u \<leftarrow> peers_UpdateStatus (ID peer) ''rejected'' (WithRejectReason reason);
           case u of
             Inl _ \<Rightarrow> ret (action_failed ''db update failed'')
           | Inr _ \<Rightarrow> do {
               NotifyPeerEvent (RemoteASN peer) ''peer.rejected'';
               ret (AdminActionResult True [] ''peer rejected'')
             }
         }
   }"

text \<open>What the agent answers to the next two is dropped.\<close>

definition handleBotAdminSuspend :: "string \<Rightarrow> admin_reply M" where
  "handleBotAdminSuspend peerID = do {
     r \<leftarrow> peers_GetByID peerID;
     case r of
       Inl _ \<Rightarrow> ret (action_failed ''peer not found'')
     | Inr peer \<Rightarrow>
         if Status peer \<noteq> ''active'' then ret (action_failed ''peer is not active'')
         else do {
           online \<leftarrow> IsOnline (NodeID peer);
           _ \<leftarrow> (if online then do { _ \<leftarrow> SendCommand (NodeID peer) (PeerRemove (remove_payload peer)); ret () } else ret ());
           u \<leftarrow> peers_UpdateStatus (ID peer) ''suspended'' [];
           case u of
             Inl _ \<Rightarrow> ret (action_failed ''db update failed'')
           | Inr _ \<Rightarrow> do {
               ClearPeerAlerts (ID peer);
               NotifyPeerEvent (RemoteASN peer) ''peer.suspended'';
               ret (AdminActionResult True [] ''peer suspended'')
             }
         }
   }"

definition handleBotAdminUnsuspend :: "string \<Rightarrow> admin_reply M" where
  "handleBotAdminUnsuspend peerID = do {
     r \<leftarrow> peers_GetByID peerID;
     case r of
       Inl _ \<Rightarrow> ret (action_failed ''peer not found'')
     | Inr peer \<Rightarrow>
         if Status peer \<noteq> ''suspended'' then ret (action_failed ''peer is not suspended'')
         else do {
           online \<leftarrow> IsOnline (NodeID peer);
           _ \<leftarrow> (if online then do { _ \<leftarrow> SendCommand (NodeID peer) (PeerAdd (add_payload peer)); ret () } else ret ());
           u \<leftarrow> peers_UpdateStatus (ID peer) ''active'' [];
           case u of
             Inl _ \<Rightarrow> ret (action_failed ''db update failed'')
           | Inr _ \<Rightarrow> do {
               NotifyPeerEvent (RemoteASN peer) ''peer.unsuspended'';
               ret (AdminActionResult True [] ''peer unsuspended'')
             }
         }
   }"

definition handleBotAdminPeerAction :: "string \<Rightarrow> string \<Rightarrow> string \<Rightarrow> admin_reply M" where
  "handleBotAdminPeerAction peerID action reason =
     (if action = ''approve'' then handleBotAdminApprove peerID
      else if action = ''reject'' then handleBotAdminReject peerID reason
      else if action = ''suspend'' then handleBotAdminSuspend peerID
      else if action = ''unsuspend'' then handleBotAdminUnsuspend peerID
      else ret (action_failed (''unknown action: '' @ action)))"

definition handleBotAdminPeerDetail :: "string \<Rightarrow> admin_reply M" where
  "handleBotAdminPeerDetail peerID = do {
     r \<leftarrow> peers_GetByIDWithNode peerID;
     case r of
       Inl _ \<Rightarrow> ret (AdminPeerDetailResult None)
     | Inr (peer, node) \<Rightarrow> do {
         summary \<leftarrow> GetLatestPeerMetricSummary (ID peer);
         ret (AdminPeerDetailResult (Some (case summary of
            Inl _ \<Rightarrow> peer_info peer node
          | Inr s \<Rightarrow> (peer_info peer node)\<lparr>bp_LatestRtt := ms_RttMs s, bp_LatestBGPState := ms_BGPState s\<rparr>)))
       }
   }"

section \<open>Nodes and the audit log\<close>

definition node_info :: "node \<Rightarrow> BotAdminNodeInfo M" where
  "node_info n = do {
     ps \<leftarrow> peers_ListByNode (n_ID n);
     ret \<lparr>bn_ID = n_ID n, bn_Name = n_Name n, bn_Location = n_Location n, bn_ASN = n_OurASN n, bn_Online = n_Online n,
       bn_AgentVersion = n_AgentVersion n, bn_AgentState = n_AgentState n, bn_PeerCount = (case ps of Inl _ \<Rightarrow> 0 | Inr l \<Rightarrow> length l)\<rparr>
   }"

fun node_infos :: "node list \<Rightarrow> BotAdminNodeInfo list M" where
  "node_infos [] = ret []"
| "node_infos (n # ns) = do { i \<leftarrow> node_info n; is \<leftarrow> node_infos ns; ret (i # is) }"

definition handleBotAdminNodes :: "admin_reply M" where
  "handleBotAdminNodes = do {
     r \<leftarrow> nodes_ListEnabled;
     case r of
       Inl _ \<Rightarrow> ret (AdminNodesResult [] ''query failed'')
     | Inr nodes \<Rightarrow> do { is \<leftarrow> node_infos nodes; ret (AdminNodesResult is []) }
   }"

definition handleBotAdminNodeDetail :: "string \<Rightarrow> admin_reply M" where
  "handleBotAdminNodeDetail nodeID = do {
     r \<leftarrow> nodes_GetByID nodeID;
     case r of
       Inl _ \<Rightarrow> ret (AdminNodeDetailResult None)
     | Inr node \<Rightarrow> do { i \<leftarrow> node_info node; ret (AdminNodeDetailResult (Some i)) }
   }"

text \<open>The update command goes out without version, address and checksum.\<close>

definition handleBotAdminNodeUpdate :: "string \<Rightarrow> admin_reply M" where
  "handleBotAdminNodeUpdate nodeID = do {
     r \<leftarrow> nodes_GetByID nodeID;
     case r of
       Inl _ \<Rightarrow> ret (AdminNodeUpdateResult False ''node not found'' [])
     | Inr node \<Rightarrow> do {
         online \<leftarrow> IsOnline (n_ID node);
         if \<not> online then ret (AdminNodeUpdateResult False ''node is offline'' [])
         else do {
           resp \<leftarrow> SendCommand (n_ID node) (AgentUpdate JNull);
           case resp of
             NotSent e \<Rightarrow> ret (AdminNodeUpdateResult False e [])
           | NoAnswer e \<Rightarrow> ret (AdminNodeUpdateResult False e [])
           | Answer m \<Rightarrow> if refused m then ret (AdminNodeUpdateResult False (m_Error m) [])
                         else ret (AdminNodeUpdateResult True [] ''update triggered'')
         }
       }
   }"

definition audit_ListFiltered :: "string \<Rightarrow> string \<Rightarrow> int \<Rightarrow> int \<Rightarrow> (db_error + audit_log list \<times> int) M" where
  "audit_ListFiltered action operator page perPage = do {
     let pg = (if page < 1 then 1 else page);
     let pp = (if perPage < 1 then 25 else if perPage > 200 then 200 else perPage);
     let match = filter (\<lambda>a. (action \<noteq> [] \<longrightarrow> a_Action a = action) \<and> (operator \<noteq> [] \<longrightarrow> a_Operator a = operator));
     tot \<leftarrow> db_read (\<lambda>w. Inr (int (length (match (w_audit w)))));
     case tot of
       Inl e \<Rightarrow> ret (Inl e)
     | Inr t \<Rightarrow> do {
         rows \<leftarrow> db_read (\<lambda>w. Inr (take (nat pp) (drop (nat ((pg - 1) * pp)) (sort_key (\<lambda>a. - a_CreatedAt a) (match (w_audit w))))));
         ret (case rows of Inl e \<Rightarrow> Inl e | Inr l \<Rightarrow> Inr (l, t))
       }
   }"

definition handleBotAdminAudit :: "int \<Rightarrow> admin_reply M" where
  "handleBotAdminAudit page = do {
     let pg = (if page < 1 then 1 else page);
     r \<leftarrow> audit_ListFiltered [] [] pg 10;
     case r of
       Inl _ \<Rightarrow> ret (AdminAuditResult [] 0 0 ''query failed'')
     | Inr (l, count) \<Rightarrow> ret (AdminAuditResult l count pg [])
   }"

section \<open>Actions of operators\<close>

lemma wp_GetByIDWithNode [wp_rules]:
  assumes "\<And>e w'. same w w' \<Longrightarrow> Q (Inl e) w'"
    and "\<And>p n w'. same w w' \<Longrightarrow> find_peer i (w_peers w) = Some p \<Longrightarrow> Q (Inr (p, n)) w'"
  shows "wp (peers_GetByIDWithNode i) Q w"
  unfolding peers_GetByIDWithNode_def
  by (rule wp_db_read) (use assms in \<open>auto simp: join_node_def bind_eq_Some_conv split: option.splits\<close>)

lemma wp_NotifyPeerEvent [wp_rules]: "(\<And>w'. same w w' \<Longrightarrow> Q () w') \<Longrightarrow> wp (NotifyPeerEvent asn ev) Q w"
  by (rule wp_quiet) (auto simp: NotifyPeerEvent_def bindings_GetByASN_def intro!: keeps_intros)

lemma wp_online [wp_rules]: "(\<And>b w'. same w w' \<Longrightarrow> Q b w') \<Longrightarrow> wp (IsOnline n) Q w"
  by (rule wp_quiet) (auto intro!: keeps_intros)

text \<open>An action that reports success and leaves the agent with what it had.\<close>

definition agent_left_behind :: "admin_reply \<Rightarrow> world \<Rightarrow> world \<Rightarrow> bool" where
  "agent_left_behind r w w' \<longleftrightarrow> (\<exists>msg. r = AdminActionResult True [] msg) \<and> agent_view w' = agent_view w"

lemma act_bot_approve: "wp (handleBotAdminApprove i) (\<lambda>r w'. peer_act None (w_peers w) (w_peers w')) w"
  unfolding handleBotAdminApprove_def
  by (intro wp_rules; clarsimp simp: find_peer_ID dest!: becomes_peers; erule one_step(1); simp)

lemma act_bot_reject: "wp (handleBotAdminReject i s) (\<lambda>r w'. peer_act None (w_peers w) (w_peers w')) w"
  unfolding handleBotAdminReject_def
  by (intro wp_rules; clarsimp simp: find_peer_ID dest!: becomes_peers; erule one_step(2); simp)

lemma act_bot_suspend: "wp (handleBotAdminSuspend i) (\<lambda>r w'. peer_act None (w_peers w) (w_peers w')) w"
  unfolding handleBotAdminSuspend_def
  by (intro wp_rules; clarsimp simp: find_peer_ID dest!: becomes_peers; erule one_step(3); simp)

lemma act_bot_unsuspend: "wp (handleBotAdminUnsuspend i) (\<lambda>r w'. peer_act None (w_peers w) (w_peers w')) w"
  unfolding handleBotAdminUnsuspend_def
  by (intro wp_rules; clarsimp simp: find_peer_ID dest!: becomes_peers; erule one_step(4); simp)

lemma sync_bot_approve:
  assumes "nofault w" "in_sync w" shows "wp (handleBotAdminApprove i) (\<lambda>r w'. in_sync w') w"
  unfolding handleBotAdminApprove_def using assms by (intro wp_rules; clarsimp simp: find_peer_ID; clarsimp simp: sync_simps)

lemma sync_bot_reject:
  assumes "nofault w" "in_sync w" shows "wp (handleBotAdminReject i s) (\<lambda>r w'. in_sync w') w"
  unfolding handleBotAdminReject_def using assms by (intro wp_rules; clarsimp simp: find_peer_ID; clarsimp simp: sync_simps)

lemma sync_bot_suspend:
  assumes "nofault w" "in_sync w" shows "wp (handleBotAdminSuspend i) (\<lambda>r w'. in_sync w' \<or> agent_left_behind r w w') w"
  unfolding handleBotAdminSuspend_def agent_left_behind_def using assms by (intro wp_rules; clarsimp simp: find_peer_ID; clarsimp simp: sync_simps)

lemma sync_bot_unsuspend:
  assumes "nofault w" "in_sync w" shows "wp (handleBotAdminUnsuspend i) (\<lambda>r w'. in_sync w' \<or> agent_left_behind r w w') w"
  unfolding handleBotAdminUnsuspend_def agent_left_behind_def using assms by (intro wp_rules; clarsimp simp: find_peer_ID; clarsimp simp: sync_simps)

end
