(* ===== verification/BotConn.thy ===== *)
theory BotConn
  imports BotAdmin
begin

text \<open>
  The connection of the Telegram bot: \<^verbatim>\<open>internal/ws/bot_conn.go\<close> and \<^verbatim>\<open>bot_handler.go\<close>, the bot side of
  \<^verbatim>\<open>internal/ws/hub.go\<close>, \<^verbatim>\<open>internal/repository/bot.go\<close> and \<^verbatim>\<open>internal/handler/admin_bot.go\<close>. A message carries its
  decoded payload, in which missing and undecodable fields have their zero values. A handler that runs in its own
  goroutine is a job: it is created when the semaphore has room, and runs as a whole at some later time. The order
  in which the hub ranges over its agent connections is an argument. Of a probe the measured values are left out.
  Times are columns without a database default in the model structs, so inserts store the zero time. The deadlines
  of the handlers' contexts (10 and 15 seconds) have no model: a call that runs into one is a failing call.
\<close>

section \<open>Repository\<close>

abbreviation bot_settings :: "world \<Rightarrow> BotSetting list" where "bot_settings w \<equiv> bt_settings (w_bot w)"

definition bot_upd :: "(bot_tables \<Rightarrow> bot_tables) \<Rightarrow> world \<Rightarrow> world" where
  "bot_upd f w = w\<lparr>w_bot := f (w_bot w)\<rparr>"

definition LoadAllSettings :: "(db_error + BotSetting list) M" where
  "LoadAllSettings = db_read (\<lambda>w. Inr (bot_settings w))"

definition bot_GetSetting :: "string \<Rightarrow> (db_error + BotSetting) M" where
  "bot_GetSetting key = db_read (\<lambda>w. row (find (\<lambda>s. bs_SettingKey s = key) (bot_settings w)))"

definition bot_UpdateSetting :: "string \<Rightarrow> string \<Rightarrow> (db_error + unit) M" where
  "bot_UpdateSetting key val = db_write (\<lambda>w. Inr ((), bot_upd (\<lambda>b. b\<lparr>bt_settings :=
     upd (\<lambda>s. bs_SettingKey s = key) (\<lambda>s. s\<lparr>bs_SettingValue := val\<rparr>) (bt_settings b)\<rparr>) w))"

definition UpdateSettingWithHash :: "string \<Rightarrow> string \<Rightarrow> (db_error + unit) M" where
  "UpdateSettingWithHash key hash = db_write (\<lambda>w. Inr ((), bot_upd (\<lambda>b. b\<lparr>bt_settings :=
     upd (\<lambda>s. bs_SettingKey s = key) (\<lambda>s. s\<lparr>bs_SettingValueHash := Some hash\<rparr>) (bt_settings b)\<rparr>) w))"

definition ResetToken :: "string \<Rightarrow> string \<Rightarrow> (db_error + unit) M" where
  "ResetToken hash currentValue = db_write (\<lambda>w. Inr ((), bot_upd (\<lambda>b. b\<lparr>bt_settings :=
     upd (\<lambda>s. bs_SettingKey s = ''bot_auth_token'' \<and> bs_SettingValue s = currentValue)
         (\<lambda>s. s\<lparr>bs_SettingValueHash := Some hash, bs_SettingValue := []\<rparr>) (bt_settings b)\<rparr>) w))"

definition InsertCommandStat :: "BotCommandStat \<Rightarrow> (db_error + unit) M" where
  "InsertCommandStat st = db_write (\<lambda>w. Inr ((), bot_upd (\<lambda>b. b\<lparr>bt_stats := bt_stats b @ [st]\<rparr>) w))"

definition ListBlockedUsers :: "(db_error + BotBlockedUser list) M" where
  "ListBlockedUsers = db_read (\<lambda>w. Inr (sort_key (\<lambda>u. - bu_BlockedAt u) (bt_blocked (w_bot w))))"

definition BlockUser :: "BotBlockedUser \<Rightarrow> (db_error + unit) M" where
  "BlockUser u = db_write (\<lambda>w. Inr ((), bot_upd (\<lambda>b. b\<lparr>bt_blocked :=
     (if list_ex (\<lambda>v. bu_TgUserID v = bu_TgUserID u) (bt_blocked b)
      then upd (\<lambda>v. bu_TgUserID v = bu_TgUserID u)
        (\<lambda>v. v\<lparr>bu_Username := bu_Username u, bu_Reason := bu_Reason u, bu_BlockedBy := bu_BlockedBy u, bu_BlockedAt := w_now w\<rparr>) (bt_blocked b)
      else bt_blocked b @ [u\<lparr>bu_ID := Suc (fold (max \<circ> bu_ID) (bt_blocked b) 0)\<rparr>])\<rparr>) w))"

text \<open>A new row gets an identifier above those in the table. The identifier of a request comes as text; one that is no number is an error of the database.\<close>

definition UnblockUser :: "string \<Rightarrow> (db_error + unit) M" where
  "UnblockUser idStr = db_write (\<lambda>w.
     case atoi idStr of
       None \<Rightarrow> Inl InvalidText
     | Some n \<Rightarrow> Inr ((), bot_upd (\<lambda>b. b\<lparr>bt_blocked := filter (\<lambda>u. int (bu_ID u) \<noteq> n) (bt_blocked b)\<rparr>) w))"

section \<open>State of the connections\<close>

record probe_entry =
  pb_NodeID :: string
  pb_NodeName :: string
  pb_Success :: bool
  pb_Error :: string

record BotNodeInfo =
  ni_ID :: string
  ni_Name :: string
  ni_Location :: string
  ni_Online :: bool
  ni_ASN :: int

datatype bot_reply =
    AuthAck bool string
  | SettingsUpdate "(string \<times> string) list"
  | PingResult string "probe_entry list"
  | TraceResult string "probe_entry list"
  | StatusResult int int int int
  | NodesResult "BotNodeInfo list"
  | BindReply bind_reply
  | UserPeersResult "(peer \<times> node) list"
  | UserPeerDetailResult "(peer \<times> node \<times> PeerMetricSummary option) option" string
  | UserPeerCreateResult bot_result
  | UserPeerDeleteResult bot_result
  | UserPeerMetricsResult bool "PeerMetric list" string
  | UserPeerUpdateResult bot_result
  | AdminReply admin_reply
  | Notification string int string

datatype bot_request =
    BotAuth string
  | BotPing string string
  | BotTrace string string
  | BotStatus
  | BotNodes
  | BotCommandStats string int string int
  | BotBind bind_request
  | BotUserPeers int
  | BotUserPeerDetail int string
  | BotUserPeerCreate bot_create
  | BotUserPeerDelete int string
  | BotUserPeerMetrics int string
  | BotUserPeerUpdate int string peerUpdateBody
  | BotAdminPeers string int
  | BotAdminPeerAction string string string
  | BotAdminPeerDetail string
  | BotAdminNodes
  | BotAdminNodeDetail string
  | BotAdminNodeUpdate string
  | BotAdminAudit int
  | BotUnknown string

record bot_conn =
  bo_ID :: string
  bo_sendCh :: "(string \<times> bot_reply) list"
  bo_closed :: bool
  bo_authenticated :: bool

record bot_hub =
  bh_bcs :: "bot_conn list"
  bh_botConns :: "string \<rightharpoonup> nat"
  bh_jobs :: "(nat \<times> string \<times> bot_request) list"
  bh_migrations :: "string list"
  bh_botAuthToken :: string
  bh_botAuthTokenHash :: string

type_synonym 'a B = "(bot_hub \<times> world, 'a) state"

abbreviation bret :: "'a \<Rightarrow> 'a B" where
  "bret x \<equiv> State_Monad.return x"

definition liftB :: "'a M \<Rightarrow> 'a B" where
  "liftB m = State (\<lambda>(h, w). case run_state m w of (r, w') \<Rightarrow> (r, (h, w')))"

definition bgets :: "(bot_hub \<Rightarrow> 'a) \<Rightarrow> 'a B" where
  "bgets f = State (\<lambda>(h, w). (f h, (h, w)))"

definition bmodify :: "(bot_hub \<Rightarrow> bot_hub) \<Rightarrow> unit B" where
  "bmodify f = State (\<lambda>(h, w). ((), (f h, w)))"

definition bc_upd :: "nat \<Rightarrow> (bot_conn \<Rightarrow> bot_conn) \<Rightarrow> bot_hub \<Rightarrow> bot_hub" where
  "bc_upd i f h = (if i < length (bh_bcs h) then h\<lparr>bh_bcs := (bh_bcs h)[i := f (bh_bcs h ! i)]\<rparr> else h)"

definition NewBotConn :: "string \<Rightarrow> bot_conn" where
  "NewBotConn ident = \<lparr>bo_ID = ident, bo_sendCh = [], bo_closed = False, bo_authenticated = False\<rparr>"

definition bot_Close :: "nat \<Rightarrow> unit B" where
  "bot_Close i = bmodify (bc_upd i (\<lambda>c. c\<lparr>bo_closed := True\<rparr>))"

text \<open>A full queue drops the message.\<close>

definition bot_queue :: "string \<times> bot_reply \<Rightarrow> bot_conn \<Rightarrow> bot_conn" where
  "bot_queue m c = (if length (bo_sendCh c) < 64 then c\<lparr>bo_sendCh := bo_sendCh c @ [m]\<rparr> else c)"

definition sendToBot :: "nat \<Rightarrow> string \<Rightarrow> bot_reply \<Rightarrow> unit B" where
  "sendToBot i msgID payload = bmodify (bc_upd i (bot_queue (msgID, payload)))"

definition RegisterBot :: "nat \<Rightarrow> unit B" where
  "RegisterBot i = bmodify (\<lambda>h. h\<lparr>bh_botConns := (bh_botConns h)(bo_ID (bh_bcs h ! i) \<mapsto> i)\<rparr>)"

definition UnregisterBot :: "nat \<Rightarrow> unit B" where
  "UnregisterBot i = bmodify (\<lambda>h.
     let k = bo_ID (bh_bcs h ! i) in
     if bh_botConns h k = Some i then bc_upd i (\<lambda>c. c\<lparr>bo_closed := True\<rparr>) (h\<lparr>bh_botConns := (bh_botConns h)(k := None)\<rparr>) else h)"

text \<open>A message to every registered connection.\<close>

definition BroadcastToBots :: "bot_reply \<Rightarrow> unit B" where
  "BroadcastToBots payload = bmodify (\<lambda>h. h\<lparr>bh_bcs := map (\<lambda>(i, c). if bh_botConns h (bo_ID c) = Some i then bot_queue ([], payload) c else c)
     (List.enumerate 0 (bh_bcs h))\<rparr>)"

definition NotifyBotUser :: "int \<Rightarrow> string \<Rightarrow> unit B" where
  "NotifyBotUser tg event = BroadcastToBots (Notification [] tg event)"

definition NotifyBotAdmin :: "string \<Rightarrow> unit B" where
  "NotifyBotAdmin event = BroadcastToBots (Notification ''admin'' 0 event)"


section \<open>Settings\<close>

definition GetBotSetting :: "string \<Rightarrow> string M" where
  "GetBotSetting key = do {
     r \<leftarrow> bot_GetSetting key;
     ret (case r of
        Inl _ \<Rightarrow> []
      | Inr s \<Rightarrow> if key = ''bot_auth_token'' then (case bs_SettingValueHash s of Some h \<Rightarrow> if h \<noteq> [] then h else bs_SettingValue s | None \<Rightarrow> bs_SettingValue s)
                 else bs_SettingValue s)
   }"

definition load_token :: "BotSetting \<Rightarrow> bot_hub \<Rightarrow> bot_hub" where
  "load_token s h =
     (if bs_SettingKey s \<noteq> ''bot_auth_token'' then h
      else case bs_SettingValueHash s of
        Some hash \<Rightarrow> if hash \<noteq> [] then h\<lparr>bh_botAuthToken := [], bh_botAuthTokenHash := hash\<rparr>
                     else if bs_SettingValue s \<noteq> [] then h\<lparr>bh_botAuthToken := bs_SettingValue s, bh_botAuthTokenHash := []\<rparr> else h
      | None \<Rightarrow> if bs_SettingValue s \<noteq> [] then h\<lparr>bh_botAuthToken := bs_SettingValue s, bh_botAuthTokenHash := []\<rparr> else h)"

definition LoadBotSettings :: "unit B" where
  "LoadBotSettings = do {
     r \<leftarrow> liftB LoadAllSettings;
     case r of Inl _ \<Rightarrow> bret () | Inr ss \<Rightarrow> bmodify (fold load_token ss)
   }"

definition redacted :: "BotSetting \<Rightarrow> string \<times> string" where
  "redacted s = (bs_SettingKey s, if bs_SettingKey s = ''bot_auth_token'' then ''[REDACTED]'' else bs_SettingValue s)"

definition loadAllBotSettings :: "(string \<times> string) list M" where
  "loadAllBotSettings = do {
     r \<leftarrow> LoadAllSettings;
     ret (case r of Inl _ \<Rightarrow> [] | Inr ss \<Rightarrow> map redacted ss)
   }"

definition PushSettingsToBots :: "unit B" where
  "PushSettingsToBots = do {
     settings \<leftarrow> liftB loadAllBotSettings;
     if settings = [] then bret ()
     else BroadcastToBots (SettingsUpdate (filter (\<lambda>(k, _). k \<noteq> ''bot_auth_token'') settings))
   }"

section \<open>Operators\<close>

text \<open>The value of the token is shown as it is stored.\<close>

definition GetBotSettings :: "response M" where
  "GetBotSettings = do {
     r \<leftarrow> LoadAllSettings;
     case r of
       Inl _ \<Rightarrow> ret (ErrorResp 500 ''internal_error'' ''Failed to fetch bot settings'')
     | Inr ss \<Rightarrow> ret (JSONResp 200 (JObj [(''settings'', JArr (map (\<lambda>s. JObj [(''key'', JStr (bs_SettingKey s)), (''value'', JStr (bs_SettingValue s))]) ss))]))
   }"

definition UpdateBotSetting :: "string \<Rightarrow> (string \<times> string option) option \<Rightarrow> response B" where
  "UpdateBotSetting adminEmail body =
     (case body of
        Some (key, Some val) \<Rightarrow>
          if key = [] then bret (ErrorResp 400 ''bad_request'' ''key and value are required'')
          else do {
            g \<leftarrow> liftB (bot_GetSetting key);
            case g of
              Inl _ \<Rightarrow> bret (ErrorResp 404 ''not_found'' ''Setting key not found'')
            | Inr _ \<Rightarrow> do {
                u \<leftarrow> liftB (bot_UpdateSetting key val);
                case u of
                  Inl _ \<Rightarrow> bret (ErrorResp 500 ''internal_error'' ''Failed to update bot setting'')
                | Inr _ \<Rightarrow> do {
                    liftB (audit_Log ''bot.setting.update'' adminEmail None
                      [(''key'', JStr key), (''value'', JStr (if key = ''bot_auth_token'' then ''[REDACTED]'' else val))]);
                    LoadBotSettings;
                    PushSettingsToBots;
                    bret (JSONResp 200 (status_body ''updated''))
                  }
              }
          }
      | _ \<Rightarrow> bret (ErrorResp 400 ''bad_request'' ''key and value are required''))"

definition ListBotBlockedUsers :: "response M" where
  "ListBotBlockedUsers = do {
     r \<leftarrow> ListBlockedUsers;
     case r of
       Inl _ \<Rightarrow> ret (ErrorResp 500 ''internal_error'' ''Failed to fetch blocked users'')
     | Inr us \<Rightarrow> ret (JSONResp 200 (JObj [(''blocked_users'', JArr (map (\<lambda>u. JObj [(''id'', jint (int (bu_ID u))), (''tg_user_id'', jint (bu_TgUserID u)),
         (''username'', JStr (bu_Username u)), (''reason'', JStr (bu_Reason u)), (''blocked_by'', JStr (bu_BlockedBy u)), (''blocked_at'', JTime (bu_BlockedAt u))]) us))]))
   }"

definition BlockBotUser :: "string \<Rightarrow> (int \<times> string \<times> string) option \<Rightarrow> response B" where
  "BlockBotUser adminEmail body =
     (case body of
        None \<Rightarrow> bret (ErrorResp 400 ''bad_request'' ''tg_user_id is required'')
      | Some (tg, username, reason) \<Rightarrow>
          if tg = 0 then bret (ErrorResp 400 ''bad_request'' ''tg_user_id is required'')
          else do {
            r \<leftarrow> liftB (BlockUser \<lparr>bu_ID = 0, bu_TgUserID = tg, bu_Username = username, bu_Reason = reason, bu_BlockedBy = adminEmail, bu_BlockedAt = 0\<rparr>);
            case r of
              Inl _ \<Rightarrow> bret (ErrorResp 500 ''internal_error'' ''Failed to block user'')
            | Inr _ \<Rightarrow> do {
                liftB (audit_Log ''bot.user.block'' adminEmail None [(''tg_user_id'', jint tg), (''username'', JStr username), (''reason'', JStr reason)]);
                PushSettingsToBots;
                bret (JSONResp 200 (status_body ''blocked''))
              }
          })"

definition UnblockBotUser :: "string \<Rightarrow> string \<Rightarrow> response B" where
  "UnblockBotUser adminEmail idStr = do {
     r \<leftarrow> liftB (UnblockUser idStr);
     case r of
       Inl _ \<Rightarrow> bret (ErrorResp 500 ''internal_error'' ''Failed to unblock user'')
     | Inr _ \<Rightarrow> do {
         liftB (audit_Log ''bot.user.unblock'' adminEmail None [(''id'', JStr idStr)]);
         PushSettingsToBots;
         bret (JSONResp 200 (status_body ''unblocked''))
       }
   }"

definition generateSecureToken :: "string option M" where
  "generateSecureToken = do { b \<leftarrow> rand_read; ret (map_option (\<lambda>bs. hex_encode (bytes_str bs)) b) }"

definition ResetBotToken :: "auth_lib \<Rightarrow> string \<Rightarrow> response B" where
  "ResetBotToken L adminEmail = do {
     t \<leftarrow> liftB generateSecureToken;
     case t of
       None \<Rightarrow> bret (ErrorResp 500 ''internal_error'' ''Failed to generate token'')
     | Some newToken \<Rightarrow> do {
         salt \<leftarrow> liftB rand_read;
         case (case salt of None \<Rightarrow> None | Some bs \<Rightarrow> al_GenerateFromPassword L (bytes_str bs) newToken) of
           None \<Rightarrow> bret (ErrorResp 500 ''internal_error'' ''Failed to hash token'')
         | Some hash \<Rightarrow> do {
             c \<leftarrow> liftB (bot_UpdateSetting ''bot_auth_token'' []);
             case c of
               Inl _ \<Rightarrow> bret (ErrorResp 500 ''internal_error'' ''Failed to clear token value'')
             | Inr _ \<Rightarrow> do {
                 u \<leftarrow> liftB (UpdateSettingWithHash ''bot_auth_token'' hash);
                 case u of
                   Inl _ \<Rightarrow> bret (ErrorResp 500 ''internal_error'' ''Failed to update token'')
                 | Inr _ \<Rightarrow> do {
                     liftB (audit_Log ''bot.token.reset'' adminEmail None []);
                     LoadBotSettings;
                     bret (JSONResp 200 (JObj [(''status'', JStr ''token_updated''), (''new_token'', JStr newToken)]))
                   }
               }
           }
       }
   }"

definition ExportBotSettings :: "response M" where
  "ExportBotSettings = do {
     r \<leftarrow> LoadAllSettings;
     case r of
       Inl _ \<Rightarrow> ret (ErrorResp 500 ''internal_error'' ''Failed to export settings'')
     | Inr ss \<Rightarrow> do {
         b \<leftarrow> ListBlockedUsers;
         ret (JSONResp 200 (JObj [(''settings'', JObj (map (\<lambda>s. (fst (redacted s), JStr (snd (redacted s)))) ss)),
           (''blocked_users'', JArr (map (\<lambda>u. JObj [(''tg_user_id'', jint (bu_TgUserID u)), (''username'', JStr (bu_Username u)), (''reason'', JStr (bu_Reason u))])
              (case b of Inl _ \<Rightarrow> [] | Inr us \<Rightarrow> us)))]))
       }
   }"


section \<open>Probes\<close>

text \<open>\<^verbatim>\<open>IP.IsLoopback\<close> and the other predicates of package \<^verbatim>\<open>net\<close>, on sixteen bytes.\<close>

definition is_loopback :: "ip \<Rightarrow> bool" where
  "is_loopback b = (if is_ipv4 b then b ! 12 = 127 else b = replicate 15 0 @ [1])"

definition is_multicast :: "ip \<Rightarrow> bool" where
  "is_multicast b = (if is_ipv4 b then (b ! 12 AND 240) = 224 else b ! 0 = 255)"

definition is_link_local_multicast :: "ip \<Rightarrow> bool" where
  "is_link_local_multicast b = (if is_ipv4 b then b ! 12 = 224 \<and> b ! 13 = 0 \<and> b ! 14 = 0 else b ! 0 = 255 \<and> (b ! 1 AND 15) = 2)"

definition is_interface_local_multicast :: "ip \<Rightarrow> bool" where
  "is_interface_local_multicast b \<longleftrightarrow> \<not> is_ipv4 b \<and> b ! 0 = 255 \<and> (b ! 1 AND 15) = 1"

definition is_unspecified :: "ip \<Rightarrow> bool" where
  "is_unspecified b \<longleftrightarrow> b = ipv4_mapped [0, 0, 0, 0] \<or> b = replicate 16 0"

definition bytesEqualVal :: "byte list \<Rightarrow> byte list \<Rightarrow> bool" where
  "bytesEqualVal a b \<longleftrightarrow> length a = length b \<and> list_all (\<lambda>i. a ! i = b ! i) [0..<length a]"

definition validateBotTarget :: "string \<Rightarrow> string option" where
  "validateBotTarget target =
     (case parse_ip target of
        None \<Rightarrow> Some (''target '' @ target @ '' is not a valid IP address (hostnames are not allowed)'')
      | Some ip \<Rightarrow>
          if is_loopback ip \<or> is_link_local_unicast ip \<or> is_link_local_multicast ip \<or> is_multicast ip \<or> is_unspecified ip
             \<or> is_interface_local_multicast ip
          then Some (''target '' @ target @ '' is a reserved address'')
          else (case to4 ip of
                  None \<Rightarrow> None
                | Some v \<Rightarrow>
                    if v ! 0 = 10 \<or> (v ! 0 = 172 \<and> 16 \<le> v ! 1 \<and> v ! 1 \<le> 31) \<or> (v ! 0 = 192 \<and> v ! 1 = 168) \<or> (v ! 0 = 169 \<and> v ! 1 = 254)
                    then Some (''target '' @ target @ '' is a private/link-local address'')
                    else if v ! 0 = 127 then Some (''target '' @ target @ '' is a loopback address'')
                    else if bytesEqualVal v [0, 0, 0, 0] \<or> bytesEqualVal v [255, 255, 255, 255]
                    then Some (''target '' @ target @ '' is a broadcast/unspecified address'')
                    else None))"

definition getOnlineNodes :: "string list \<Rightarrow> string \<Rightarrow> string list M" where
  "getOnlineNodes order nodeID = gets (\<lambda>w.
     if nodeID \<noteq> [] then (if w_conns w nodeID \<noteq> None then [nodeID] else [])
     else filter (\<lambda>n. w_conns w n \<noteq> None) (remdups order))"

definition no_probe :: "string \<Rightarrow> probe_entry list" where
  "no_probe e = [\<lparr>pb_NodeID = [], pb_NodeName = [], pb_Success = False, pb_Error = e\<rparr>]"

text \<open>The answer of one node; without a success flag it counts as a failure.\<close>

definition probe_node :: "agent_command \<Rightarrow> string \<Rightarrow> probe_entry M" where
  "probe_node cmd nid = do {
     name \<leftarrow> nodes_GetField nid ''name'';
     r \<leftarrow> SendCommand nid cmd;
     let e = \<lparr>pb_NodeID = nid, pb_NodeName = or_blank name, pb_Success = False, pb_Error = []\<rparr>;
     ret (case r of
        NotSent x \<Rightarrow> e\<lparr>pb_Error := x\<rparr>
      | NoAnswer x \<Rightarrow> e\<lparr>pb_Error := x\<rparr>
      | Answer m \<Rightarrow> if m_Success m = Some True then e\<lparr>pb_Success := True\<rparr> else e\<lparr>pb_Error := m_Error m\<rparr>)
   }"

fun probe_nodes :: "agent_command \<Rightarrow> string list \<Rightarrow> probe_entry list M" where
  "probe_nodes cmd [] = ret []"
| "probe_nodes cmd (n # ns) = do { e \<leftarrow> probe_node cmd n; es \<leftarrow> probe_nodes cmd ns; ret (e # es) }"

definition bot_probe :: "(string \<Rightarrow> agent_command) \<Rightarrow> string list \<Rightarrow> string \<Rightarrow> string \<Rightarrow> (string \<times> probe_entry list) M" where
  "bot_probe cmd order target nodeID =
     (if target = [] then ret ([], no_probe ''missing target'')
      else case validateBotTarget target of
        Some e \<Rightarrow> ret (target, no_probe e)
      | None \<Rightarrow> do {
          nodeIDs \<leftarrow> getOnlineNodes order nodeID;
          if nodeIDs = [] then ret (target, no_probe ''no online nodes available'')
          else do { es \<leftarrow> probe_nodes (cmd target) nodeIDs; ret (target, es) }
        })"

definition handleBotPing :: "string list \<Rightarrow> string \<Rightarrow> string \<Rightarrow> bot_reply M" where
  "handleBotPing order target nodeID = do { r \<leftarrow> bot_probe (\<lambda>t. NetworkPing t 4) order target nodeID; ret (PingResult (fst r) (snd r)) }"

definition handleBotTrace :: "string list \<Rightarrow> string \<Rightarrow> string \<Rightarrow> bot_reply M" where
  "handleBotTrace order target nodeID = do { r \<leftarrow> bot_probe (\<lambda>t. NetworkTrace t 30) order target nodeID; ret (TraceResult (fst r) (snd r)) }"

section \<open>Other commands\<close>

text \<open>The counts of \<^verbatim>\<open>stats.Admin\<close> that the bot shows; its third statement counts recent peers.\<close>

definition handleBotStatus :: "bot_reply M" where
  "handleBotStatus = do {
     a \<leftarrow> db_read (\<lambda>w. Inr (length (filter (\<lambda>p. Status p = ''active'') (w_peers w)), length (filter (\<lambda>p. Status p = ''pending'') (w_peers w))));
     case a of
       Inl _ \<Rightarrow> ret (StatusResult 0 0 0 0)
     | Inr (active, pending) \<Rightarrow> do {
         n \<leftarrow> db_read (\<lambda>w. Inr (length (w_nodes w), length (filter n_Online (w_nodes w))));
         case n of
           Inl _ \<Rightarrow> ret (StatusResult 0 0 0 0)
         | Inr (nodes, online) \<Rightarrow> do {
             t \<leftarrow> db_read (\<lambda>w. Inr (length (filter (\<lambda>p. CreatedAt p > w_now w - 86400000) (w_peers w))));
             ret (case t of Inl _ \<Rightarrow> StatusResult 0 0 0 0 | Inr _ \<Rightarrow> StatusResult (int nodes) (int online) (int active) (int pending))
           }
       }
   }"

definition handleBotNodes :: "bot_reply M" where
  "handleBotNodes = do {
     r \<leftarrow> nodes_ListEnabled;
     ret (NodesResult (case r of Inl _ \<Rightarrow> [] | Inr ns \<Rightarrow>
       map (\<lambda>n. \<lparr>ni_ID = n_ID n, ni_Name = n_Name n, ni_Location = n_Location n, ni_Online = n_Online n, ni_ASN = n_OurASN n\<rparr>) ns))
   }"

definition handleBotCommandStats :: "string \<Rightarrow> int \<Rightarrow> string \<Rightarrow> int \<Rightarrow> unit M" where
  "handleBotCommandStats command tg username chat =
     (if command = [] then ret ()
      else if command \<notin> set [''ping'', ''trace'', ''status'', ''nodes'', ''start'', ''help''] then ret ()
      else do {
        _ \<leftarrow> InsertCommandStat \<lparr>st_Command = command, st_TgUserID = tg, st_Username = trim_space (take 64 username), st_ChatID = chat, st_CreatedAt = 0\<rparr>;
        ret ()
      })"

definition handleBotUserPeers :: "int \<Rightarrow> bot_reply M" where
  "handleBotUserPeers tg = do {
     b \<leftarrow> bindings_GetByTgUserID tg;
     case b of
       Inl _ \<Rightarrow> ret (UserPeersResult [])
     | Inr binding \<Rightarrow> do {
         r \<leftarrow> peers_ListByASN (bb_ASN binding);
         ret (UserPeersResult (case r of Inl _ \<Rightarrow> [] | Inr ps \<Rightarrow> ps))
       }
   }"

definition handleBotUserPeerDetail :: "int \<Rightarrow> string \<Rightarrow> bot_reply M" where
  "handleBotUserPeerDetail tg peerID = do {
     b \<leftarrow> bindings_GetByTgUserID tg;
     case b of
       Inl _ \<Rightarrow> ret (UserPeerDetailResult None ''not bound'')
     | Inr binding \<Rightarrow> do {
         r \<leftarrow> peers_GetByIDAndASNWithNode peerID (bb_ASN binding);
         case r of
           Inl _ \<Rightarrow> ret (UserPeerDetailResult None [])
         | Inr (p, n) \<Rightarrow> do {
             s \<leftarrow> GetLatestPeerMetricSummary peerID;
             ret (UserPeerDetailResult (Some (p, n, case s of Inl _ \<Rightarrow> None | Inr m \<Rightarrow> Some m)) [])
           }
       }
   }"

definition handleBotUserPeerMetrics :: "int \<Rightarrow> string \<Rightarrow> bot_reply M" where
  "handleBotUserPeerMetrics tg peerID = do {
     b \<leftarrow> bindings_GetByTgUserID tg;
     case b of
       Inl _ \<Rightarrow> ret (UserPeerMetricsResult False [] ''not bound'')
     | Inr binding \<Rightarrow> do {
         r \<leftarrow> peers_GetByIDAndASN peerID (bb_ASN binding);
         case r of
           Inl _ \<Rightarrow> ret (UserPeerMetricsResult False [] [])
         | Inr _ \<Rightarrow> do {
             m \<leftarrow> QueryPeerMetrics peerID 24;
             ret (UserPeerMetricsResult True (case m of Inl _ \<Rightarrow> [] | Inr l \<Rightarrow> l) [])
           }
       }
   }"

section \<open>Authentication of the bot\<close>

definition migrateBotTokenToHash :: "auth_lib \<Rightarrow> string \<Rightarrow> unit M" where
  "migrateBotTokenToHash L plainToken = do {
     salt \<leftarrow> rand_read;
     case (case salt of None \<Rightarrow> None | Some bs \<Rightarrow> al_GenerateFromPassword L (bytes_str bs) plainToken) of
       None \<Rightarrow> ret ()
     | Some hash \<Rightarrow> do { _ \<leftarrow> ResetToken hash plainToken; ret () }
   }"

definition hash_matches :: "auth_lib \<Rightarrow> BotSetting \<Rightarrow> string \<Rightarrow> bool" where
  "hash_matches L s token = (case bs_SettingValueHash s of None \<Rightarrow> False | Some h \<Rightarrow> h \<noteq> [] \<and> al_CompareHashAndPassword L h token)"

definition plain_matches :: "BotSetting \<Rightarrow> string \<Rightarrow> bool" where
  "plain_matches s token \<longleftrightarrow> bs_SettingValue s \<noteq> [] \<and> token = bs_SettingValue s"

definition auth_refused :: "nat \<Rightarrow> string \<Rightarrow> string \<Rightarrow> unit B" where
  "auth_refused i msgID e = do { sendToBot i msgID (AuthAck False e); bot_Close i }"

definition handleBotAuth :: "auth_lib \<Rightarrow> nat \<Rightarrow> string \<Rightarrow> string \<Rightarrow> unit B" where
  "handleBotAuth L i msgID token = do {
     enabled \<leftarrow> liftB (GetBotSetting ''bot_enabled'');
     if enabled \<noteq> ''true'' then auth_refused i msgID ''bot is disabled''
     else if token = [] then auth_refused i msgID ''invalid token''
     else do {
       r \<leftarrow> liftB (bot_GetSetting ''bot_auth_token'');
       case r of
         Inl _ \<Rightarrow> auth_refused i msgID ''invalid token''
       | Inr setting \<Rightarrow>
           if \<not> hash_matches L setting token \<and> \<not> plain_matches setting token then auth_refused i msgID ''invalid token''
           else do {
             _ \<leftarrow> (if hash_matches L setting token then bret () else bmodify (\<lambda>h. h\<lparr>bh_migrations := bh_migrations h @ [bs_SettingValue setting]\<rparr>));
             bmodify (bc_upd i (\<lambda>c. c\<lparr>bo_authenticated := True\<rparr>));
             sendToBot i msgID (AuthAck True []);
             settings \<leftarrow> liftB loadAllBotSettings;
             sendToBot i [] (SettingsUpdate settings)
           }
     }
   }"

section \<open>Reading\<close>

text \<open>What is answered when there is no room for another handler, or when a command is disabled.\<close>

fun busy_reply :: "bot_request \<Rightarrow> bot_reply option" where
  "busy_reply (BotPing t n) = Some (PingResult [] (no_probe ''too many concurrent commands''))"
| "busy_reply (BotTrace t n) = Some (TraceResult [] (no_probe ''too many concurrent commands''))"
| "busy_reply BotStatus = Some (StatusResult 0 0 0 0)"
| "busy_reply BotNodes = Some (NodesResult [])"
| "busy_reply (BotBind (Unbind tg)) = Some (BindReply (UnbindResult False ''too many concurrent commands'' []))"
| "busy_reply (BotBind (Whoami tg)) = Some (BindReply (WhoamiResult None))"
| "busy_reply (BotBind b) = Some (BindReply (bind_error ''too many concurrent commands''))"
| "busy_reply (BotUserPeers tg) = Some (UserPeersResult [])"
| "busy_reply (BotUserPeerDetail tg p) = Some (UserPeerDetailResult None [])"
| "busy_reply (BotUserPeerCreate b) = Some (UserPeerCreateResult (False, ''too many concurrent commands''))"
| "busy_reply (BotUserPeerDelete tg p) = Some (UserPeerDeleteResult (False, ''too many concurrent commands''))"
| "busy_reply (BotUserPeerMetrics tg p) = Some (UserPeerMetricsResult False [] [])"
| "busy_reply (BotUserPeerUpdate tg p b) = Some (UserPeerUpdateResult (False, ''too many concurrent commands''))"
| "busy_reply (BotAdminPeers s p) = Some (AdminReply (AdminPeersResult [] 0 0 []))"
| "busy_reply (BotAdminPeerAction p a r) = Some (AdminReply (action_failed ''too many concurrent commands''))"
| "busy_reply (BotAdminPeerDetail p) = Some (AdminReply (AdminPeerDetailResult None))"
| "busy_reply BotAdminNodes = Some (AdminReply (AdminNodesResult [] []))"
| "busy_reply (BotAdminNodeDetail n) = Some (AdminReply (AdminNodeDetailResult None))"
| "busy_reply (BotAdminNodeUpdate n) = Some (AdminReply (AdminNodeUpdateResult False ''too many concurrent commands'' []))"
| "busy_reply (BotAdminAudit p) = Some (AdminReply (AdminAuditResult [] 0 0 []))"
| "busy_reply _ = None"

fun command_gate :: "bot_request \<Rightarrow> (string \<times> bot_reply) option" where
  "command_gate (BotPing t n) = Some (''bot_ping_enabled'', PingResult [] (no_probe ''ping command is disabled''))"
| "command_gate (BotTrace t n) = Some (''bot_trace_enabled'', TraceResult [] (no_probe ''trace command is disabled''))"
| "command_gate BotStatus = Some (''bot_status_enabled'', StatusResult 0 0 0 0)"
| "command_gate BotNodes = Some (''bot_nodes_enabled'', NodesResult [])"
| "command_gate _ = None"

definition spawn :: "nat \<Rightarrow> string \<Rightarrow> bot_request \<Rightarrow> unit B" where
  "spawn i msgID r = do {
     running \<leftarrow> bgets (\<lambda>h. length (bh_jobs h));
     if running < 64 then bmodify (\<lambda>h. h\<lparr>bh_jobs := bh_jobs h @ [(i, msgID, r)]\<rparr>)
     else (case busy_reply r of None \<Rightarrow> bret () | Some p \<Rightarrow> sendToBot i msgID p)
   }"

text \<open>The requests over the web are no bot messages; another \<^verbatim>\<open>bot.auth\<close> and unknown types are only logged.\<close>

fun is_command :: "bot_request \<Rightarrow> bool" where
  "is_command (BotAuth t) = False"
| "is_command (BotUnknown t) = False"
| "is_command (BotBind (WebToken a)) = False"
| "is_command (BotBind (WebUnbind a)) = False"
| "is_command (BotBind (WebBinding a)) = False"
| "is_command _ = True"

definition bot_dispatch :: "nat \<Rightarrow> string \<Rightarrow> bot_request \<Rightarrow> unit B" where
  "bot_dispatch i msgID r =
     (if \<not> is_command r then bret ()
      else case command_gate r of
        None \<Rightarrow> spawn i msgID r
      | Some (key, off) \<Rightarrow> do {
          v \<leftarrow> liftB (GetBotSetting key);
          if v = ''true'' then spawn i msgID r else sendToBot i msgID off
        })"

text \<open>What a read gives: an error, bytes that are no message, or a message.\<close>

datatype bot_frame = ReadError | Garbage | BotMessage string bot_request

definition bot_read_end :: "nat \<Rightarrow> unit B" where
  "bot_read_end i = do {
     c \<leftarrow> bgets (\<lambda>h. bh_bcs h ! i);
     if bo_authenticated c then UnregisterBot i else bot_Close i
   }"

definition bot_read :: "auth_lib \<Rightarrow> nat \<Rightarrow> bot_frame \<Rightarrow> unit B" where
  "bot_read L i f =
     (case f of
        ReadError \<Rightarrow> bot_read_end i
      | Garbage \<Rightarrow> bret ()
      | BotMessage msgID r \<Rightarrow> do {
          c \<leftarrow> bgets (\<lambda>h. bh_bcs h ! i);
          if \<not> bo_authenticated c
          then (case r of
                  BotAuth token \<Rightarrow> do {
                    handleBotAuth L i msgID token;
                    ok \<leftarrow> bgets (\<lambda>h. bo_authenticated (bh_bcs h ! i));
                    if ok then RegisterBot i else bret ()
                  }
                | _ \<Rightarrow> do { bot_Close i; bot_read_end i })
          else bot_dispatch i msgID r
        })"

fun bot_job :: "auth_lib \<Rightarrow> string list \<Rightarrow> bot_request \<Rightarrow> bot_reply option M" where
  "bot_job L order (BotPing t n) = do { r \<leftarrow> handleBotPing order t n; ret (Some r) }"
| "bot_job L order (BotTrace t n) = do { r \<leftarrow> handleBotTrace order t n; ret (Some r) }"
| "bot_job L order BotStatus = do { r \<leftarrow> handleBotStatus; ret (Some r) }"
| "bot_job L order BotNodes = do { r \<leftarrow> handleBotNodes; ret (Some r) }"
| "bot_job L order (BotCommandStats c tg u ch) = do { handleBotCommandStats c tg u ch; ret None }"
| "bot_job L order (BotBind (BindRequest tg asn)) = do { r \<leftarrow> handleBotBindRequest L tg asn; ret (Some (BindReply r)) }"
| "bot_job L order (BotBind (BindVerify tg n asn c)) = do { r \<leftarrow> handleBotBindVerify L tg n asn c; ret (Some (BindReply r)) }"
| "bot_job L order (BotBind (WebBind tg n tok)) = do { r \<leftarrow> handleBotWebBind tg n tok; ret (Some (BindReply r)) }"
| "bot_job L order (BotBind (Unbind tg)) = do { r \<leftarrow> handleBotUnbind tg; ret (Some (BindReply r)) }"
| "bot_job L order (BotBind (Whoami tg)) = do { r \<leftarrow> handleBotWhoami tg; ret (Some (BindReply r)) }"
| "bot_job L order (BotUserPeers tg) = do { r \<leftarrow> handleBotUserPeers tg; ret (Some r) }"
| "bot_job L order (BotUserPeerDetail tg p) = do { r \<leftarrow> handleBotUserPeerDetail tg p; ret (Some r) }"
| "bot_job L order (BotUserPeerCreate b) = do { r \<leftarrow> handleBotUserPeerCreate b; ret (Some (UserPeerCreateResult r)) }"
| "bot_job L order (BotUserPeerDelete tg p) = do { r \<leftarrow> handleBotUserPeerDelete tg p; ret (Some (UserPeerDeleteResult r)) }"
| "bot_job L order (BotUserPeerMetrics tg p) = do { r \<leftarrow> handleBotUserPeerMetrics tg p; ret (Some r) }"
| "bot_job L order (BotUserPeerUpdate tg p b) = do { r \<leftarrow> handleBotUserPeerUpdate tg p b; ret (Some (UserPeerUpdateResult r)) }"
| "bot_job L order (BotAdminPeers s p) = do { r \<leftarrow> handleBotAdminPeers s p; ret (Some (AdminReply r)) }"
| "bot_job L order (BotAdminPeerAction p a s) = do { r \<leftarrow> handleBotAdminPeerAction p a s; ret (Some (AdminReply r)) }"
| "bot_job L order (BotAdminPeerDetail p) = do { r \<leftarrow> handleBotAdminPeerDetail p; ret (Some (AdminReply r)) }"
| "bot_job L order BotAdminNodes = do { r \<leftarrow> handleBotAdminNodes; ret (Some (AdminReply r)) }"
| "bot_job L order (BotAdminNodeDetail n) = do { r \<leftarrow> handleBotAdminNodeDetail n; ret (Some (AdminReply r)) }"
| "bot_job L order (BotAdminNodeUpdate n) = do { r \<leftarrow> handleBotAdminNodeUpdate n; ret (Some (AdminReply r)) }"
| "bot_job L order (BotAdminAudit p) = do { r \<leftarrow> handleBotAdminAudit p; ret (Some (AdminReply r)) }"
| "bot_job L order _ = ret None"

text \<open>One waiting job runs and gives back its slot; one waiting migration of the token runs; one message is written.\<close>

definition run_job :: "auth_lib \<Rightarrow> string list \<Rightarrow> nat \<Rightarrow> unit B" where
  "run_job L order k = do {
     jobs \<leftarrow> bgets bh_jobs;
     if k < length jobs then (case jobs ! k of (i, msgID, r) \<Rightarrow> do {
       p \<leftarrow> liftB (bot_job L order r);
       _ \<leftarrow> (case p of None \<Rightarrow> bret () | Some x \<Rightarrow> sendToBot i msgID x);
       bmodify (\<lambda>h. h\<lparr>bh_jobs := take k (bh_jobs h) @ drop (Suc k) (bh_jobs h)\<rparr>)
     }) else bret ()
   }"

definition run_migration :: "auth_lib \<Rightarrow> unit B" where
  "run_migration L = do {
     ms \<leftarrow> bgets bh_migrations;
     case ms of
       [] \<Rightarrow> bret ()
     | m # rest \<Rightarrow> do { bmodify (\<lambda>h. h\<lparr>bh_migrations := rest\<rparr>); liftB (migrateBotTokenToHash L m) }
   }"

definition bot_write :: "nat \<Rightarrow> (string \<times> bot_reply) option B" where
  "bot_write i = do {
     c \<leftarrow> bgets (\<lambda>h. bh_bcs h ! i);
     if bo_closed c \<or> bo_sendCh c = [] then bret None
     else do { bmodify (bc_upd i (\<lambda>c. c\<lparr>bo_sendCh := tl (bo_sendCh c)\<rparr>)); bret (Some (hd (bo_sendCh c))) }
   }"

definition bot_connect :: "string \<Rightarrow> unit B" where
  "bot_connect ident = bmodify (\<lambda>h. h\<lparr>bh_bcs := bh_bcs h @ [NewBotConn ident]\<rparr>)"

section \<open>Who gets in\<close>

lemma run_B [simp]:
  "run_state (bgets f) s = (f (fst s), s)" "run_state (bmodify g) s = ((), (g (fst s), snd s))"
  "run_state (liftB m) s = (fst (run_state m (snd s)), (fst s, snd (run_state m (snd s))))"
  by (simp_all add: bgets_def bmodify_def liftB_def split: prod.splits)

lemma bc_upd_sel [simp]:
  "length (bh_bcs (bc_upd i f h)) = length (bh_bcs h)" "bh_botConns (bc_upd i f h) = bh_botConns h" "bh_jobs (bc_upd i f h) = bh_jobs h"
  "bh_migrations (bc_upd i f h) = bh_migrations h"
  by (simp_all add: bc_upd_def)

lemma bc_upd_nth: "bh_bcs (bc_upd i f h) ! j = (if i = j \<and> j < length (bh_bcs h) then f (bh_bcs h ! j) else bh_bcs h ! j)"
  by (simp add: bc_upd_def nth_list_update)

lemma bot_queue_sel [simp]:
  "bo_ID (bot_queue m c) = bo_ID c" "bo_authenticated (bot_queue m c) = bo_authenticated c" "bo_closed (bot_queue m c) = bo_closed c"
  by (simp_all add: bot_queue_def)

lemma bot_queue_bound: "length (bo_sendCh c) \<le> 64 \<Longrightarrow> length (bo_sendCh (bot_queue m c)) \<le> 64"
  by (simp add: bot_queue_def)

text \<open>The token that the settings accept.\<close>

definition setting_of :: "string \<Rightarrow> world \<Rightarrow> BotSetting option" where
  "setting_of key w = find (\<lambda>s. bs_SettingKey s = key) (bot_settings w)"

definition token_accepted :: "auth_lib \<Rightarrow> world \<Rightarrow> string \<Rightarrow> bool" where
  "token_accepted L w token \<longleftrightarrow> token \<noteq> []
     \<and> (case setting_of ''bot_enabled'' w of Some s \<Rightarrow> bs_SettingValue s = ''true'' | None \<Rightarrow> False)
     \<and> (case setting_of ''bot_auth_token'' w of Some s \<Rightarrow> hash_matches L s token \<or> plain_matches s token | None \<Rightarrow> False)"

text \<open>States of the hub. Registered connections and running handlers belong to authenticated connections, the
  semaphore and the queues bound what is waiting, and only a stored token waits for its migration.\<close>

definition bot_inv :: "bot_hub \<Rightarrow> bool" where
  "bot_inv h \<longleftrightarrow> (\<forall>k i. bh_botConns h k = Some i \<longrightarrow> i < length (bh_bcs h) \<and> bo_authenticated (bh_bcs h ! i) \<and> bo_ID (bh_bcs h ! i) = k)
     \<and> list_all (\<lambda>(i, _, r). i < length (bh_bcs h) \<and> bo_authenticated (bh_bcs h ! i) \<and> is_command r) (bh_jobs h)
     \<and> length (bh_jobs h) \<le> 64 \<and> list_all (\<lambda>c. length (bo_sendCh c) \<le> 64) (bh_bcs h) \<and> list_all (\<lambda>m. m \<noteq> []) (bh_migrations h)"

text \<open>A change of connections that forgets no identity or authentication.\<close>

lemma bot_inv_bcs:
  assumes "bot_inv h" "length (bh_bcs h') = length (bh_bcs h)" "bh_botConns h' = bh_botConns h" "bh_jobs h' = bh_jobs h" "bh_migrations h' = bh_migrations h"
    and "\<And>i. i < length (bh_bcs h) \<Longrightarrow> bo_ID (bh_bcs h' ! i) = bo_ID (bh_bcs h ! i)
      \<and> (bo_authenticated (bh_bcs h ! i) \<longrightarrow> bo_authenticated (bh_bcs h' ! i))
      \<and> (length (bo_sendCh (bh_bcs h ! i)) \<le> 64 \<longrightarrow> length (bo_sendCh (bh_bcs h' ! i)) \<le> 64)"
  shows "bot_inv h'"
  using assms unfolding bot_inv_def by (auto simp: list_all_length split: prod.splits)

lemma bot_inv_upd:
  assumes "bot_inv h" "\<And>c. bo_ID (f c) = bo_ID c \<and> (bo_authenticated c \<longrightarrow> bo_authenticated (f c)) \<and> (length (bo_sendCh c) \<le> 64 \<longrightarrow> length (bo_sendCh (f c)) \<le> 64)"
  shows "bot_inv (bc_upd i f h)"
  by (rule bot_inv_bcs [OF assms(1)]) (use assms(2) in \<open>auto simp: bc_upd_nth\<close>)

lemma bot_inv_queue [simp]: "bot_inv h \<Longrightarrow> bot_inv (bc_upd i (bot_queue m) h)"
  by (rule bot_inv_upd) (auto simp: bot_queue_bound)

lemma bot_inv_close [simp]: "bot_inv h \<Longrightarrow> bot_inv (bc_upd i (\<lambda>c. c\<lparr>bo_closed := True\<rparr>) h)"
  by (rule bot_inv_upd) auto

lemma bot_inv_migration: "bot_inv h \<Longrightarrow> m \<noteq> [] \<Longrightarrow> bot_inv (h\<lparr>bh_migrations := bh_migrations h @ [m]\<rparr>)"
  by (simp add: bot_inv_def)

text \<open>What an authentication does.\<close>

lemma run_GetBotSetting: "run_state (GetBotSetting key) w = (r, w') \<Longrightarrow> key \<noteq> ''bot_auth_token'' \<Longrightarrow> w' = db_next w \<and>
   (r \<noteq> [] \<longrightarrow> (\<exists>s. setting_of key w = Some s \<and> bs_SettingValue s = r))"
  by (auto simp: GetBotSetting_def bot_GetSetting_def setting_of_def row_def split: if_splits option.splits)

lemma run_bot_GetSetting: "run_state (bot_GetSetting key) w = (r, w') \<Longrightarrow> w' = db_next w \<and> (\<forall>s. r = Inr s \<longrightarrow> setting_of key w = Some s)"
  by (auto simp: bot_GetSetting_def setting_of_def row_def split: if_splits option.splits)

lemma run_loadAll: "snd (run_state loadAllBotSettings w) = db_next w"
  by (simp add: loadAllBotSettings_def LoadAllSettings_def split: sum.splits)

definition auth_turns :: "world \<Rightarrow> world \<Rightarrow> bool" where
  "auth_turns w w' \<longleftrightarrow> (\<exists>n. w' = (db_next ^^ n) w)"

lemma auth_turns_iter: "auth_turns w w" "auth_turns w (db_next w)" "auth_turns w (db_next (db_next w))" "auth_turns w (db_next (db_next (db_next w)))"
  unfolding auth_turns_def
  by (rule exI [of _ 0], simp, rule exI [of _ 1], simp, rule exI [of _ 2], simp add: numeral_2_eq_2, rule exI [of _ 3], simp add: numeral_3_eq_3)

lemma handleBotAuth_effect:
  assumes "run_state (handleBotAuth L i msgID token) (h, w) = (u, (h', w'))" "i < length (bh_bcs h)" "bot_inv h"
  shows "bot_inv h' \<and> auth_turns w w' \<and> length (bh_bcs h') = length (bh_bcs h) \<and> bh_botConns h' = bh_botConns h \<and> bh_jobs h' = bh_jobs h
    \<and> (\<forall>j. bo_ID (bh_bcs h' ! j) = bo_ID (bh_bcs h ! j) \<and> (bo_authenticated (bh_bcs h' ! j) \<longrightarrow> bo_authenticated (bh_bcs h ! j) \<or> (j = i \<and> token_accepted L w token)))
    \<and> (bh_migrations h' = bh_migrations h \<or> (\<exists>s. setting_of ''bot_auth_token'' w = Some s \<and> bs_SettingValue s \<noteq> [] \<and> bh_migrations h' = bh_migrations h @ [bs_SettingValue s]))"
proof -
  obtain en w1 where en: "run_state (GetBotSetting ''bot_enabled'') w = (en, w1)" by (metis prod.collapse)
  note e = run_GetBotSetting [OF en, simplified]
  obtain r w2 where r: "run_state (bot_GetSetting ''bot_auth_token'') w1 = (r, w2)" by (metis prod.collapse)
  note g = run_bot_GetSetting [OF r]
  have s1: "setting_of k w1 = setting_of k w" for k using e by (simp add: setting_of_def)
  consider (refuse) x where "run_state (auth_refused i msgID x) (h, w1) = (u, (h', w'))" | (late) x where "run_state (auth_refused i msgID x) (h, w2) = (u, (h', w'))"
    | (accept) s where "en = ''true''" "token \<noteq> []" "r = Inr s" "hash_matches L s token \<or> plain_matches s token"
    using assms(1) en r by (cases r) (auto simp: handleBotAuth_def split: if_splits)
  then show ?thesis
  proof cases
    case refuse
    then have "h' = bc_upd i (\<lambda>c. c\<lparr>bo_closed := True\<rparr>) (bc_upd i (bot_queue (msgID, AuthAck False x)) h)" "w' = w1"
      by (auto simp: auth_refused_def sendToBot_def bot_Close_def)
    then show ?thesis using e auth_turns_iter assms(3) by (auto simp: bc_upd_nth)
  next
    case late
    then have "h' = bc_upd i (\<lambda>c. c\<lparr>bo_closed := True\<rparr>) (bc_upd i (bot_queue (msgID, AuthAck False x)) h)" "w' = w2"
      by (auto simp: auth_refused_def sendToBot_def bot_Close_def)
    then show ?thesis using e g auth_turns_iter assms(3) by (auto simp: bc_upd_nth)
  next
    case accept
    define h1 where "h1 = (if hash_matches L s token then h else h\<lparr>bh_migrations := bh_migrations h @ [bs_SettingValue s]\<rparr>)"
    have tok: "token_accepted L w token" using accept e g s1 by (auto simp: token_accepted_def)
    have h': "h' = bc_upd i (bot_queue ([], SettingsUpdate (fst (run_state loadAllBotSettings w2)))) (bc_upd i (bot_queue (msgID, AuthAck True []))
        (bc_upd i (\<lambda>c. c\<lparr>bo_authenticated := True\<rparr>) h1))" "w' = db_next w2"
      using assms(1) en r accept run_loadAll [of w2] by (cases "hash_matches L s token"; simp add: handleBotAuth_def sendToBot_def h1_def)+
    have "bot_inv h1" unfolding h1_def using assms(3) accept by (auto simp: plain_matches_def intro: bot_inv_migration)
    then have "bot_inv (bc_upd i (\<lambda>c. c\<lparr>bo_authenticated := True\<rparr>) h1)" by (rule bot_inv_upd) auto
    then have "bot_inv h'" by (simp add: h')
    moreover have "auth_turns w w'" using h'(2) e g auth_turns_iter by simp
    moreover have "bh_migrations h' = bh_migrations h \<or> (\<exists>s. setting_of ''bot_auth_token'' w = Some s \<and> bs_SettingValue s \<noteq> [] \<and> bh_migrations h' = bh_migrations h @ [bs_SettingValue s])"
      using accept g s1 by (auto simp: h' h1_def plain_matches_def)
    ultimately show ?thesis using tok by (auto simp: h' bc_upd_nth h1_def)
  qed
qed

text \<open>Reading a frame.\<close>

lemma spawn_inv:
  assumes "run_state (spawn i msgID r) (h, w) = (u, (h', w'))" "bot_inv h" "i < length (bh_bcs h)" "bo_authenticated (bh_bcs h ! i)" "is_command r"
  shows "bot_inv h' \<and> w' = w \<and> bh_migrations h' = bh_migrations h \<and> length (bh_bcs h') = length (bh_bcs h)
    \<and> (\<forall>j. bo_authenticated (bh_bcs h' ! j) = bo_authenticated (bh_bcs h ! j))"
proof (cases "length (bh_jobs h) < 64")
  case True
  then have "h' = h\<lparr>bh_jobs := bh_jobs h @ [(i, msgID, r)]\<rparr>" "w' = w" using assms(1) by (auto simp: spawn_def)
  then show ?thesis using assms True by (auto simp: bot_inv_def)
next
  case False
  then have "w' = w \<and> (h' = h \<or> (\<exists>m. h' = bc_upd i (bot_queue m) h))"
    using assms(1) by (cases "busy_reply r") (auto simp: spawn_def sendToBot_def)
  then show ?thesis using assms(2) by (auto simp: bc_upd_nth split: if_splits)
qed

lemma dispatch_inv:
  assumes "run_state (bot_dispatch i msgID r) (h, w) = (u, (h', w'))" "bot_inv h" "i < length (bh_bcs h)" "bo_authenticated (bh_bcs h ! i)"
  shows "bot_inv h' \<and> auth_turns w w' \<and> bh_migrations h' = bh_migrations h \<and> length (bh_bcs h') = length (bh_bcs h)
    \<and> (\<forall>j. bo_authenticated (bh_bcs h' ! j) = bo_authenticated (bh_bcs h ! j))"
proof (cases "is_command r")
  case False
  then show ?thesis using assms auth_turns_iter by (simp add: bot_dispatch_def)
next
  case cmd: True
  show ?thesis
  proof (cases "command_gate r")
    case None
    then show ?thesis using assms cmd spawn_inv auth_turns_iter by (fastforce simp: bot_dispatch_def)
  next
    case (Some p)
    obtain key off where p: "p = (key, off)" by fastforce
    have "key \<noteq> ''bot_auth_token''" using Some p by (cases r) auto
    then have w1: "snd (run_state (GetBotSetting key) w) = db_next w" using run_GetBotSetting by (metis prod.collapse)
    from assms(1) Some p cmd w1 consider "run_state (spawn i msgID r) (h, db_next w) = (u, (h', w'))" | "h' = bc_upd i (bot_queue (msgID, off)) h" "w' = db_next w"
      by (auto simp: bot_dispatch_def sendToBot_def split: if_splits)
    then show ?thesis
    proof cases
      case 1
      from spawn_inv [OF this assms(2-4) cmd] show ?thesis using auth_turns_iter by auto
    next
      case 2
      then show ?thesis using assms(2) auth_turns_iter by (auto simp: bc_upd_nth split: if_splits)
    qed
  qed
qed

lemma RegisterBot_inv:
  assumes "bot_inv h" "i < length (bh_bcs h)" "bo_authenticated (bh_bcs h ! i)"
  shows "bot_inv (h\<lparr>bh_botConns := (bh_botConns h)(bo_ID (bh_bcs h ! i) \<mapsto> i)\<rparr>)"
  using assms by (simp add: bot_inv_def)

lemma read_end_inv:
  assumes "run_state (bot_read_end i) (h, w) = (u, (h', w'))" "bot_inv h"
  shows "bot_inv h' \<and> w' = w \<and> bh_migrations h' = bh_migrations h \<and> length (bh_bcs h') = length (bh_bcs h) \<and> bh_jobs h' = bh_jobs h
    \<and> (\<forall>j. bo_authenticated (bh_bcs h' ! j) = bo_authenticated (bh_bcs h ! j))"
proof -
  have *: "bot_inv (h\<lparr>bh_botConns := (bh_botConns h)(k := None)\<rparr>)" for k using assms(2) by (simp add: bot_inv_def)
  show ?thesis using assms * by (auto simp: bot_read_end_def UnregisterBot_def bot_Close_def Let_def bc_upd_nth split: if_splits)
qed

text \<open>What a frame can do to a connection that has not authenticated, and to the others.\<close>

lemma bot_read_effect:
  assumes "run_state (bot_read L i f) (h, w) = (u, (h', w'))" "i < length (bh_bcs h)" "bot_inv h"
  shows "bot_inv h' \<and> auth_turns w w' \<and> length (bh_bcs h') = length (bh_bcs h)
    \<and> (\<forall>j. bo_authenticated (bh_bcs h' ! j) \<longrightarrow> bo_authenticated (bh_bcs h ! j) \<or> (j = i \<and> (\<exists>m t. f = BotMessage m (BotAuth t) \<and> token_accepted L w t)))
    \<and> (\<not> bo_authenticated (bh_bcs h ! i) \<longrightarrow> bh_jobs h' = bh_jobs h)
    \<and> (bh_migrations h' = bh_migrations h \<or> (\<exists>s. setting_of ''bot_auth_token'' w = Some s \<and> bs_SettingValue s \<noteq> [] \<and> bh_migrations h' = bh_migrations h @ [bs_SettingValue s]))"
proof (cases f)
  case ReadError
  then show ?thesis using read_end_inv [of i h w] assms auth_turns_iter by (auto simp: bot_read_def)
next
  case Garbage
  then show ?thesis using assms auth_turns_iter by (simp add: bot_read_def)
next
  case (BotMessage msgID r)
  show ?thesis
  proof (cases "bo_authenticated (bh_bcs h ! i)")
    case True
    then have "run_state (bot_dispatch i msgID r) (h, w) = (u, (h', w'))" using assms(1) BotMessage by (simp add: bot_read_def)
    from dispatch_inv [OF this assms(3,2) True] True show ?thesis by auto
  next
    case False
    show ?thesis
    proof (cases "\<exists>t. r = BotAuth t")
      case True
      then obtain t where t: "r = BotAuth t" by blast
      obtain v h1 w1 where a: "run_state (handleBotAuth L i msgID t) (h, w) = (v, (h1, w1))" by (metis prod.collapse)
      note e = handleBotAuth_effect [OF a assms(2,3)]
      have "w' = w1 \<and> (h' = h1 \<or> (bo_authenticated (bh_bcs h1 ! i) \<and> h' = h1\<lparr>bh_botConns := (bh_botConns h1)(bo_ID (bh_bcs h1 ! i) \<mapsto> i)\<rparr>))"
        using assms(1) BotMessage False t a by (auto simp: bot_read_def RegisterBot_def split: if_splits)
      then show ?thesis using e RegisterBot_inv [of h1 i] assms(2) t BotMessage by auto
    next
      case other: False
      then have "run_state (do { bot_Close i; bot_read_end i }) (h, w) = (u, (h', w'))"
        using assms(1) BotMessage False by (cases r) (simp_all add: bot_read_def)
      then have run: "run_state (bot_read_end i) (bc_upd i (\<lambda>c. c\<lparr>bo_closed := True\<rparr>) h, w) = (u, (h', w'))" by (simp add: bot_Close_def)
      from read_end_inv [OF run bot_inv_close [OF assms(3)]] auth_turns_iter show ?thesis by (auto simp: bc_upd_nth split: if_splits)
    qed
  qed
qed

section \<open>Steps of the bot side\<close>

inductive bot_step :: "auth_lib \<Rightarrow> bot_hub \<times> world \<Rightarrow> bot_hub \<times> world \<Rightarrow> bool" for L where
  connect: "run_state (bot_connect ident) s = (u, s') \<Longrightarrow> bot_step L s s'"
| read: "i < length (bh_bcs (fst s)) \<Longrightarrow> run_state (bot_read L i f) s = (u, s') \<Longrightarrow> bot_step L s s'"
| job: "run_state (run_job L order k) s = (u, s') \<Longrightarrow> bot_step L s s'"
| migrate: "run_state (run_migration L) s = (u, s') \<Longrightarrow> bot_step L s s'"
| write_out: "run_state (bot_write i) s = (m, s') \<Longrightarrow> bot_step L s s'"
| tell: "run_state (BroadcastToBots p) s = (u, s') \<Longrightarrow> bot_step L s s'"
| update: "run_state (UpdateBotSetting a b) s = (r, s') \<Longrightarrow> bot_step L s s'"
| reset: "run_state (ResetBotToken L a) s = (r, s') \<Longrightarrow> bot_step L s s'"
| block: "run_state (BlockBotUser a c) s = (r, s') \<Longrightarrow> bot_step L s s'"
| unblock: "run_state (UnblockBotUser a d) s = (r, s') \<Longrightarrow> bot_step L s s'"
| env: "bot_step L (h, w) (h, w')"

definition bot_start :: bot_hub where
  "bot_start = \<lparr>bh_bcs = [], bh_botConns = Map.empty, bh_jobs = [], bh_migrations = [], bh_botAuthToken = [], bh_botAuthTokenHash = []\<rparr>"

text \<open>Messages to the bots change queues only.\<close>

definition queues_only :: "bot_hub \<Rightarrow> bot_hub \<Rightarrow> bool" where
  "queues_only h h' \<longleftrightarrow> length (bh_bcs h') = length (bh_bcs h) \<and> bh_botConns h' = bh_botConns h \<and> bh_jobs h' = bh_jobs h
     \<and> bh_migrations h' = bh_migrations h \<and> (\<forall>i < length (bh_bcs h). bo_ID (bh_bcs h' ! i) = bo_ID (bh_bcs h ! i)
       \<and> bo_authenticated (bh_bcs h' ! i) = bo_authenticated (bh_bcs h ! i)
       \<and> (length (bo_sendCh (bh_bcs h ! i)) \<le> 64 \<longrightarrow> length (bo_sendCh (bh_bcs h' ! i)) \<le> 64))"

lemma queues_inv: "queues_only h h' \<Longrightarrow> bot_inv h \<Longrightarrow> bot_inv h'"
  by (rule bot_inv_bcs) (auto simp: queues_only_def)

lemma queues_refl [simp]: "queues_only h h"
  by (simp add: queues_only_def)

lemma queues_trans: "queues_only h h' \<Longrightarrow> queues_only h' h'' \<Longrightarrow> queues_only h h''"
  by (auto simp: queues_only_def)

lemma queues_upd: "(\<And>c. bo_ID (f c) = bo_ID c \<and> bo_authenticated (f c) = bo_authenticated c \<and> (length (bo_sendCh c) \<le> 64 \<longrightarrow> length (bo_sendCh (f c)) \<le> 64))
    \<Longrightarrow> queues_only h (bc_upd i f h)"
  by (auto simp: queues_only_def bc_upd_nth)

lemma queues_broadcast: "queues_only h (fst (snd (run_state (BroadcastToBots p) (h, w))))"
  by (auto simp: queues_only_def BroadcastToBots_def nth_enumerate_eq bot_queue_bound)

lemma queues_load: "queues_only h (fold load_token ss h)"
proof (induction ss arbitrary: h)
  case (Cons s ss)
  have "queues_only h (load_token s h)" by (simp add: queues_only_def load_token_def split: option.splits)
  then show ?case using Cons queues_trans by (metis fold_simps(2))
qed simp

text \<open>\<open>quiet_bots m\<close>: whatever \<open>m\<close> does, it changes queues only.\<close>

definition quiet_bots :: "'a B \<Rightarrow> bool" where
  "quiet_bots m \<longleftrightarrow> (\<forall>s. queues_only (fst s) (fst (snd (run_state m s))))"

named_theorems quiet_intros \<open>operations that change queues only\<close>

lemma quiet_return [quiet_intros]: "quiet_bots (bret x)" and quiet_lift [quiet_intros]: "quiet_bots (liftB m)"
  by (simp_all add: quiet_bots_def)

lemma quiet_bind [quiet_intros]: "quiet_bots m \<Longrightarrow> (\<And>x. quiet_bots (f x)) \<Longrightarrow> quiet_bots (State_Monad.bind m f)"
proof -
  assume m: "quiet_bots m" and f: "\<And>x. quiet_bots (f x)"
  have "queues_only (fst s) (fst (snd (run_state (State_Monad.bind m f) s)))" for s
  proof -
    obtain r s1 where r: "run_state m s = (r, s1)" by (metis prod.collapse)
    have "queues_only (fst s) (fst s1)" using m r unfolding quiet_bots_def by (metis snd_conv)
    moreover have "queues_only (fst s1) (fst (snd (run_state (f r) s1)))" using f unfolding quiet_bots_def by blast
    ultimately show ?thesis using queues_trans r by simp
  qed
  then show ?thesis by (simp add: quiet_bots_def)
qed

lemma quiet_cases [quiet_intros]:
  "(\<And>x. quiet_bots (f x)) \<Longrightarrow> (\<And>y. quiet_bots (g y)) \<Longrightarrow> quiet_bots (case r of Inl x \<Rightarrow> f x | Inr y \<Rightarrow> g y)"
  "quiet_bots a \<Longrightarrow> (\<And>y. quiet_bots (g' y)) \<Longrightarrow> quiet_bots (case q of None \<Rightarrow> a | Some y \<Rightarrow> g' y)"
  "quiet_bots a \<Longrightarrow> quiet_bots b \<Longrightarrow> quiet_bots (if c then a else b)"
  "(\<And>x y. quiet_bots (k x y)) \<Longrightarrow> quiet_bots (case z of (x, y) \<Rightarrow> k x y)"
  by (auto split: sum.splits option.splits prod.splits)

lemma quiet_tell [quiet_intros]: "quiet_bots (BroadcastToBots p)"
  using queues_broadcast by (auto simp: quiet_bots_def)

lemma quiet_LoadBotSettings [quiet_intros]: "quiet_bots LoadBotSettings"
  unfolding LoadBotSettings_def by (intro quiet_intros) (simp add: quiet_bots_def queues_load)

lemma quiet_PushSettings [quiet_intros]: "quiet_bots PushSettingsToBots"
  unfolding PushSettingsToBots_def by (intro quiet_intros)

lemma quiet_operators:
  "quiet_bots (UpdateBotSetting a b)" "quiet_bots (ResetBotToken L a)" "quiet_bots (BlockBotUser a c)" "quiet_bots (UnblockBotUser a d)"
  unfolding UpdateBotSetting_def ResetBotToken_def BlockBotUser_def UnblockBotUser_def by (intro quiet_intros)+

lemma quiet_send [quiet_intros]: "quiet_bots (sendToBot i m p)"
  by (auto simp: quiet_bots_def sendToBot_def bot_queue_bound intro!: queues_upd)

lemma quiet_write: "quiet_bots (bot_write i)"
  by (auto simp: quiet_bots_def bot_write_def intro!: queues_upd)

lemma quietD: "quiet_bots m \<Longrightarrow> run_state m s = (r, s') \<Longrightarrow> queues_only (fst s) (fst s')"
  by (metis quiet_bots_def snd_conv)

text \<open>A step keeps the invariant, and only a frame can authenticate a connection.\<close>

definition lets_in :: "bot_hub \<times> world \<Rightarrow> bot_hub \<times> world \<Rightarrow> nat \<Rightarrow> bool" where
  "lets_in s s' j \<longleftrightarrow> j < length (bh_bcs (fst s')) \<and> bo_authenticated (bh_bcs (fst s') ! j)
     \<and> \<not> (j < length (bh_bcs (fst s)) \<and> bo_authenticated (bh_bcs (fst s) ! j))"

lemma queues_lets_in: "queues_only (fst s) (fst s') \<Longrightarrow> \<not> lets_in s s' j"
  by (auto simp: queues_only_def lets_in_def)

lemma run_job_effect:
  assumes "run_state (run_job L order k) (h, w) = (u, (h', w'))" "bot_inv h"
  shows "bot_inv h' \<and> \<not> lets_in (h, w) (h', w') j"
proof (cases "k < length (bh_jobs h)")
  case False
  then show ?thesis using assms by (auto simp: run_job_def lets_in_def)
next
  case True
  obtain i m r where job: "bh_jobs h ! k = (i, m, r)" by (metis prod.exhaust)
  obtain p w1 where p: "run_state (bot_job L order r) w = (p, w1)" by (metis prod.collapse)
  define h1 where "h1 = (case p of None \<Rightarrow> h | Some x \<Rightarrow> bc_upd i (bot_queue (m, x)) h)"
  have q: "queues_only h h1" by (auto simp: h1_def bot_queue_bound intro!: queues_upd split: option.splits)
  have h': "h' = h1\<lparr>bh_jobs := take k (bh_jobs h1) @ drop (Suc k) (bh_jobs h1)\<rparr>"
    using assms(1) True job p by (cases p) (auto simp: run_job_def sendToBot_def h1_def)
  have "bot_inv h1" by (rule queues_inv [OF q assms(2)])
  then have "bot_inv h'" unfolding h' bot_inv_def by (auto simp: list_all_iff dest: in_set_takeD in_set_dropD)
  moreover have "\<not> lets_in (h, w) (h', w') j" using queues_lets_in [of "(h, w)" "(h1, w')"] q by (simp add: lets_in_def h')
  ultimately show ?thesis by blast
qed

lemma bot_step_effect:
  assumes "bot_step L s s'" "bot_inv (fst s)"
  shows "bot_inv (fst s') \<and> (lets_in s s' j \<longrightarrow> (\<exists>m t u. run_state (bot_read L j (BotMessage m (BotAuth t))) s = (u, s') \<and> token_accepted L (snd s) t))"
  using assms(1)
proof cases
  case (connect ident u)
  then have s': "fst s' = (fst s)\<lparr>bh_bcs := bh_bcs (fst s) @ [NewBotConn ident]\<rparr>" by (auto simp: bot_connect_def)
  have "bot_inv (fst s')" unfolding s' using assms(2) by (force simp: bot_inv_def nth_append NewBotConn_def list_all_iff)
  then show ?thesis by (auto simp: lets_in_def s' nth_append NewBotConn_def split: if_splits)
next
  case (read i f u)
  then obtain h w h' w' where s: "s = (h, w)" "s' = (h', w')" by (metis prod.collapse)
  have e: "bot_inv h'" "length (bh_bcs h') = length (bh_bcs h)" "\<And>j. bo_authenticated (bh_bcs h' ! j) \<Longrightarrow> bo_authenticated (bh_bcs h ! j) \<or> (j = i \<and> (\<exists>m t. f = BotMessage m (BotAuth t) \<and> token_accepted L w t))"
    using bot_read_effect [of L i f h w u h' w'] read assms(2) by (simp_all add: s)
  show ?thesis
  proof (intro conjI impI)
    assume "lets_in s s' j"
    then have "j = i \<and> (\<exists>m t. f = BotMessage m (BotAuth t) \<and> token_accepted L w t)" using e(2,3) by (auto simp: lets_in_def s)
    then show "\<exists>m t u. run_state (bot_read L j (BotMessage m (BotAuth t))) s = (u, s') \<and> token_accepted L (snd s) t" using read(2) s by auto
  qed (simp add: s e(1))
next
  case (job order k u)
  then show ?thesis using run_job_effect [of L order k "fst s" "snd s" u "fst s'" "snd s'"] assms(2) by simp
next
  case (migrate u)
  have "bot_inv h \<Longrightarrow> bh_migrations h = m # ms \<Longrightarrow> bot_inv (h\<lparr>bh_migrations := ms\<rparr>)" for h m ms by (simp add: bot_inv_def)
  then show ?thesis using migrate assms(2) by (cases "bh_migrations (fst s)") (auto simp: run_migration_def lets_in_def)
next
  case (env h w w')
  then show ?thesis using assms(2) by (auto simp: lets_in_def)
next
  case write_out
  from quietD [OF quiet_write this] show ?thesis using queues_inv queues_lets_in assms(2) by blast
next
  case tell
  from quietD [OF quiet_tell this] show ?thesis using queues_inv queues_lets_in assms(2) by blast
next
  case update
  from quietD [OF quiet_operators(1) this] show ?thesis using queues_inv queues_lets_in assms(2) by blast
next
  case reset
  from quietD [OF quiet_operators(2) this] show ?thesis using queues_inv queues_lets_in assms(2) by blast
next
  case block
  from quietD [OF quiet_operators(3) this] show ?thesis using queues_inv queues_lets_in assms(2) by blast
next
  case unblock
  from quietD [OF quiet_operators(4) this] show ?thesis using queues_inv queues_lets_in assms(2) by blast
qed

lemma bot_reachable_inv: "rtranclp (bot_step L) (bot_start, w0) s \<Longrightarrow> bot_inv (fst s)"
proof (induction rule: rtranclp_induct)
  case base
  show ?case by (simp add: bot_inv_def bot_start_def)
next
  case (step s s')
  then show ?case using bot_step_effect by blast
qed

text \<open>C16. The gate of the bot. In every state that connections, frames, running handlers, changes of the settings and
  anything else in the world lead to: registered connections and running handlers belong to authenticated
  connections, at most 64 handlers run and at most 64 messages wait for a connection; a connection becomes
  authenticated only by its own \<^verbatim>\<open>bot.auth\<close> with a token that the settings accept at that moment; and any frame
  of a connection that has not authenticated starts no handler and changes nothing outside the hub.\<close>

theorem bot_gate:
  assumes "rtranclp (bot_step L) (bot_start, w0) s"
  shows "bot_inv (fst s)
    \<and> (\<forall>s' j. bot_step L s s' \<and> lets_in s s' j \<longrightarrow>
         (\<exists>m t u. run_state (bot_read L j (BotMessage m (BotAuth t))) s = (u, s') \<and> token_accepted L (snd s) t))
    \<and> (\<forall>i f u s'. i < length (bh_bcs (fst s)) \<and> \<not> bo_authenticated (bh_bcs (fst s) ! i) \<and> run_state (bot_read L i f) s = (u, s') \<longrightarrow>
         bh_jobs (fst s') = bh_jobs (fst s) \<and> auth_turns (snd s) (snd s'))"
proof (intro conjI allI impI)
  show inv: "bot_inv (fst s)" by (rule bot_reachable_inv [OF assms])
  show "\<exists>m t u. run_state (bot_read L j (BotMessage m (BotAuth t))) s = (u, s') \<and> token_accepted L (snd s) t"
    if "bot_step L s s' \<and> lets_in s s' j" for s' j using bot_step_effect [OF _ inv] that by blast
  fix i f u s'
  assume a: "i < length (bh_bcs (fst s)) \<and> \<not> bo_authenticated (bh_bcs (fst s) ! i) \<and> run_state (bot_read L i f) s = (u, s')"
  then have "run_state (bot_read L i f) (fst s, snd s) = (u, (fst s', snd s'))" by simp
  from bot_read_effect [OF this _ inv] a show "bh_jobs (fst s') = bh_jobs (fst s)" "auth_turns (snd s) (snd s')" by blast+
qed

section \<open>Changing the token\<close>

text \<open>What may happen after the token was reset: frames, late migrations, and anything that leaves the settings and
  the waiting migrations alone.\<close>

inductive settings_kept :: "auth_lib \<Rightarrow> bot_hub \<times> world \<Rightarrow> bot_hub \<times> world \<Rightarrow> bool" for L s0 where
  start: "settings_kept L s0 s0"
| frame: "settings_kept L s0 s \<Longrightarrow> i < length (bh_bcs (fst s)) \<Longrightarrow> run_state (bot_read L i f) s = (u, s') \<Longrightarrow> settings_kept L s0 s'"
| late: "settings_kept L s0 s \<Longrightarrow> run_state (run_migration L) s = (u, s') \<Longrightarrow> settings_kept L s0 s'"
| other: "settings_kept L s0 s \<Longrightarrow> bot_inv (fst s') \<Longrightarrow> bh_migrations (fst s') = bh_migrations (fst s) \<Longrightarrow>
    bot_settings (snd s') = bot_settings (snd s) \<Longrightarrow> settings_kept L s0 s'"

definition only_hash :: "string \<Rightarrow> world \<Rightarrow> bool" where
  "only_hash hash w \<longleftrightarrow> list_ex (\<lambda>s. bs_SettingKey s = ''bot_auth_token'') (bot_settings w) \<and> (\<forall>s \<in> set (bot_settings w). bs_SettingKey s = ''bot_auth_token'' \<longrightarrow> bs_SettingValue s = [] \<and> bs_SettingValueHash s = Some hash)"

definition bot_on :: "world \<Rightarrow> bool" where
  "bot_on w = (case setting_of ''bot_enabled'' w of Some s \<Rightarrow> bs_SettingValue s = ''true'' | None \<Rightarrow> False)"

lemma only_hash_accepts:
  assumes "only_hash hash w"
  shows "token_accepted L w t \<longleftrightarrow> t \<noteq> [] \<and> bot_on w \<and> hash \<noteq> [] \<and> al_CompareHashAndPassword L hash t"
proof -
  obtain s where s: "setting_of ''bot_auth_token'' w = Some s"
    using assms by (cases "setting_of ''bot_auth_token'' w") (auto simp: only_hash_def setting_of_def find_None_iff list_ex_iff)
  then have "bs_SettingValue s = [] \<and> bs_SettingValueHash s = Some hash" using assms by (auto simp: only_hash_def setting_of_def find_Some_iff)
  then show ?thesis using s by (auto simp: token_accepted_def bot_on_def hash_matches_def plain_matches_def)
qed

lemma auth_turns_settings: "auth_turns w w' \<Longrightarrow> bot_settings w' = bot_settings w"
proof -
  have "bot_settings ((db_next ^^ n) w) = bot_settings w" for n by (induction n) auto
  then show "auth_turns w w' \<Longrightarrow> bot_settings w' = bot_settings w" by (auto simp: auth_turns_def)
qed

lemma late_migration:
  assumes "only_hash hash w" "m \<noteq> []" "run_state (migrateBotTokenToHash L m) w = (u, w')"
  shows "bot_settings w' = bot_settings w"
proof -
  have id: "upd (\<lambda>s. bs_SettingKey s = ''bot_auth_token'' \<and> bs_SettingValue s = m) g (bot_settings w) = bot_settings w" for g
    using assms(1,2) by (auto simp: upd_def only_hash_def intro!: map_idI)
  show ?thesis using assms(3)
    by (auto simp: migrateBotTokenToHash_def rand_read_def ResetToken_def run_db_write bot_upd_def id split: option.splits list.splits if_splits)
qed

lemma only_hash_kept:
  assumes "settings_kept L s0 s" "bot_inv (fst s0)" "only_hash hash (snd s0)"
  shows "bot_inv (fst s) \<and> only_hash hash (snd s)"
  using assms
proof (induction rule: settings_kept.induct)
  case (frame s i f u s')
  then have run: "run_state (bot_read L i f) (fst s, snd s) = (u, (fst s', snd s'))" by simp
  from bot_read_effect [OF run frame.hyps(2)] frame have "bot_inv (fst s') \<and> auth_turns (snd s) (snd s')" by blast
  then show ?case using frame auth_turns_settings [of "snd s" "snd s'"] by (simp add: only_hash_def)
next
  case (late s u s')
  then have inv: "bot_inv (fst s)" "only_hash hash (snd s)" by blast+
  show ?case
  proof (cases "bh_migrations (fst s)")
    case Nil
    then show ?thesis using late inv by (auto simp: run_migration_def)
  next
    case (Cons m ms)
    then have s': "fst s' = (fst s)\<lparr>bh_migrations := ms\<rparr>" "run_state (migrateBotTokenToHash L m) (snd s) = (fst (run_state (migrateBotTokenToHash L m) (snd s)), snd s')"
      using late(2) by (simp_all add: run_migration_def prod_eq_iff)
    have "m \<noteq> []" using inv(1) Cons by (simp add: bot_inv_def)
    then show ?thesis using late_migration [OF inv(2) _ s'(2)] inv Cons by (simp add: s' only_hash_def bot_inv_def)
  qed
qed (auto simp: only_hash_def)

lemma reset_effect:
  assumes "nofault w" "list_ex (\<lambda>s. bs_SettingKey s = ''bot_auth_token'') (bot_settings w)"
    "run_state (ResetBotToken L a) (h, w) = (JSONResp 200 body, (h', w'))"
  shows "\<exists>new salt hash. body = JObj [(''status'', JStr ''token_updated''), (''new_token'', JStr new)]
    \<and> al_GenerateFromPassword L salt new = Some hash \<and> only_hash hash w'"
proof -
  obtain bs1 rs where r1: "w_rand w = Some bs1 # rs"
    using assms(3) by (cases "w_rand w") (auto simp: ResetBotToken_def generateSecureToken_def rand_read_def split: option.splits)
  obtain bs2 rs' where r2: "rs = Some bs2 # rs'"
    using assms(3) r1 by (cases rs) (auto simp: ResetBotToken_def generateSecureToken_def rand_read_def split: option.splits)
  define new where "new = hex_encode (bytes_str bs1)"
  obtain hash where hash: "al_GenerateFromPassword L (bytes_str bs2) new = Some hash"
    using assms(3) r1 r2 by (auto simp: ResetBotToken_def generateSecureToken_def rand_read_def new_def split: option.splits)
  let ?w = "w\<lparr>w_rand := rs'\<rparr>"
  have n: "nofault ?w" using assms(1) by (simp add: nofault_def)
  define w1 where "w1 = snd (run_state (bot_UpdateSetting ''bot_auth_token'' []) ?w)"
  have w1: "run_state (bot_UpdateSetting ''bot_auth_token'' []) ?w = (Inr (), w1)" "nofault w1"
    "bot_settings w1 = upd (\<lambda>s. bs_SettingKey s = ''bot_auth_token'') (\<lambda>s. s\<lparr>bs_SettingValue := []\<rparr>) (bot_settings w)"
    using nofault_not_fails [OF n] nofault_next [OF n] by (simp_all add: w1_def bot_UpdateSetting_def run_db_write bot_upd_def nofault_def)
  define w2 where "w2 = snd (run_state (UpdateSettingWithHash ''bot_auth_token'' hash) w1)"
  have w2: "run_state (UpdateSettingWithHash ''bot_auth_token'' hash) w1 = (Inr (), w2)"
    "bot_settings w2 = upd (\<lambda>s. bs_SettingKey s = ''bot_auth_token'') (\<lambda>s. s\<lparr>bs_SettingValueHash := Some hash\<rparr>) (bot_settings w1)"
    using nofault_not_fails [OF w1(2)] by (simp_all add: w2_def UpdateSettingWithHash_def run_db_write bot_upd_def)
  obtain v w3 where w3: "run_state (audit_Log ''bot.token.reset'' a None []) w2 = (v, w3)" by (metis prod.collapse)
  then have s3: "bot_settings w3 = bot_settings w2" by (auto simp: audit_Log_def run_db_write split: if_splits)
  obtain v' h4 w4 where w4: "run_state LoadBotSettings (h, w3) = (v', (h4, w4))" by (metis prod.collapse)
  then have s4: "bot_settings w4 = bot_settings w3" by (auto simp: LoadBotSettings_def LoadAllSettings_def split: sum.splits if_splits)
  have "body = JObj [(''status'', JStr ''token_updated''), (''new_token'', JStr new)]" "w' = w4"
    using assms(3) r1 r2 hash w1(1) w2(1) w3 w4
    by (auto simp: ResetBotToken_def generateSecureToken_def rand_read_def new_def [symmetric])
  moreover have keys: "map bs_SettingKey (bot_settings w4) = map bs_SettingKey (bot_settings w)" unfolding s4 s3 w2(2) w1(3) by (simp add: upd_def)
  have "list_ex (\<lambda>s. bs_SettingKey s = ''bot_auth_token'') (bot_settings w4)" using assms(2) keys by (simp add: list_ex_iff) (metis imageE image_eqI set_map)
  moreover from this have "only_hash hash w4" unfolding only_hash_def s4 s3 w2(2) w1(3) by (auto simp: upd_def)
  ultimately show ?thesis using hash by blast
qed

text \<open>C17. Resetting the token is final. When the database answers and the reset reports a new token, then from that
  moment on, whatever frames arrive, whenever a migration of the old token that was already under way ends, and
  whatever else happens without touching the settings, exactly those tokens are accepted that match the hash
  stored for the new one, as long as the bot is enabled.\<close>

theorem token_reset_final:
  assumes "nofault w" "bot_inv h" "list_ex (\<lambda>s. bs_SettingKey s = ''bot_auth_token'') (bot_settings w)"
    and reset: "run_state (ResetBotToken L a) (h, w) = (JSONResp 200 body, (h1, w1))" and later: "settings_kept L (h1, w1) (h2, w2)"
  shows "\<exists>new salt hash. body = JObj [(''status'', JStr ''token_updated''), (''new_token'', JStr new)]
    \<and> al_GenerateFromPassword L salt new = Some hash
    \<and> (\<forall>t. token_accepted L w2 t \<longleftrightarrow> t \<noteq> [] \<and> bot_on w2 \<and> hash \<noteq> [] \<and> al_CompareHashAndPassword L hash t)"
proof -
  from reset_effect [OF assms(1,3) reset] obtain new salt hash where
    r: "body = JObj [(''status'', JStr ''token_updated''), (''new_token'', JStr new)]" "al_GenerateFromPassword L salt new = Some hash" "only_hash hash w1"
    by blast
  have "bot_inv h1" using quietD [OF quiet_operators(2) reset] queues_inv assms(2) by (metis fst_conv)
  then have "only_hash hash w2" using only_hash_kept [OF later] r(3) by simp
  then show ?thesis using r only_hash_accepts by blast
qed

text \<open>Setting a token like any other setting leaves the old one valid: the stored hash is not cleared.\<close>

theorem setting_update_keeps_token:
  assumes "nofault w" "setting_of ''bot_auth_token'' w = Some s" "hash_matches L s t" "t \<noteq> []" "bot_on w"
    and "run_state (UpdateBotSetting a (Some (''bot_auth_token'', Some val))) (h, w) = (r, (h', w'))"
  shows "token_accepted L w' t"
proof -
  have g: "run_state (bot_GetSetting ''bot_auth_token'') w = (Inr s, db_next w)" "nofault (db_next w)"
    using assms(1,2) nofault_not_fails [OF assms(1)] nofault_next [OF assms(1)] by (auto simp: bot_GetSetting_def setting_of_def row_def)
  define w1 where "w1 = snd (run_state (bot_UpdateSetting ''bot_auth_token'' val) (db_next w))"
  have w1: "run_state (bot_UpdateSetting ''bot_auth_token'' val) (db_next w) = (Inr (), w1)"
    "bot_settings w1 = upd (\<lambda>s. bs_SettingKey s = ''bot_auth_token'') (\<lambda>s. s\<lparr>bs_SettingValue := val\<rparr>) (bot_settings w)"
    using nofault_not_fails [OF g(2)] by (simp_all add: w1_def bot_UpdateSetting_def run_db_write bot_upd_def)
  have quiet: "bot_settings (snd (run_state (audit_Log b1 b2 b3 b4) x)) = bot_settings x" for b1 b2 b3 b4 x
    by (auto simp: audit_Log_def run_db_write)
  have load: "bot_settings (snd (snd (run_state LoadBotSettings y))) = bot_settings (snd y)" for y
    by (auto simp: LoadBotSettings_def LoadAllSettings_def split: sum.splits)
  have push: "bot_settings (snd (snd (run_state PushSettingsToBots y))) = bot_settings (snd y)" for y
    by (auto simp: PushSettingsToBots_def loadAllBotSettings_def LoadAllSettings_def BroadcastToBots_def split: sum.splits)
  have w': "bot_settings w' = bot_settings w1"
    using assms(6) g(1) w1(1) quiet load push by (auto simp: UpdateBotSetting_def split: prod.splits) (metis snd_conv)
  have find_upd: "find (\<lambda>s. bs_SettingKey s = key) (upd P (\<lambda>s. s\<lparr>bs_SettingValue := val\<rparr>) ss)
      = map_option (\<lambda>s. if P s then s\<lparr>bs_SettingValue := val\<rparr> else s) (find (\<lambda>s. bs_SettingKey s = key) ss)" for key P ss
    by (induction ss) (auto simp: upd_def)
  have "setting_of ''bot_enabled'' w' = setting_of ''bot_enabled'' w"
    unfolding setting_of_def w' w1(2) find_upd
    by (cases "find (\<lambda>s. bs_SettingKey s = ''bot_enabled'') (bot_settings w)") (auto dest: find_Some_in)
  moreover have "\<exists>s'. setting_of ''bot_auth_token'' w' = Some s' \<and> bs_SettingValueHash s' = bs_SettingValueHash s"
    using assms(2) unfolding setting_of_def w' w1(2) find_upd by auto
  ultimately show ?thesis using assms(3-5) by (auto simp: token_accepted_def bot_on_def hash_matches_def)
qed

section \<open>Examples\<close>

definition sample_setting :: "string \<Rightarrow> string \<Rightarrow> string option \<Rightarrow> BotSetting" where
  "sample_setting k v h = \<lparr>bs_SettingKey = k, bs_SettingValue = v, bs_SettingValueHash = h\<rparr>"

definition bot_world :: world where
  "bot_world = auth_world\<lparr>w_rand := [Some [193], Some [7]],
     w_bot := no_bot\<lparr>bt_settings := [sample_setting ''bot_enabled'' ''true'' None, sample_setting ''bot_auth_token'' ''old'' None]\<rparr>\<rparr>"

definition one_bot :: bot_hub where
  "one_bot = bot_start\<lparr>bh_bcs := [NewBotConn ''b1'']\<rparr>"

lemma one_bot_reached: "rtranclp (bot_step L) (bot_start, w) (one_bot, w)"
proof -
  have "run_state (bot_connect ''b1'') (bot_start, w) = ((), (one_bot, w))" by (simp add: bot_connect_def one_bot_def bot_start_def)
  then show ?thesis by (blast intro: bot_step.connect)
qed

theorem bot_gate_witness:
  "bot_inv one_bot \<and> bh_jobs (fst (snd (run_state (bot_read sample_lib 0 (BotMessage ''m'' BotStatus)) (one_bot, bot_world)))) = []
   \<and> (let s' = snd (run_state (bot_read sample_lib 0 (BotMessage ''m'' (BotAuth ''old''))) (one_bot, bot_world)) in
      lets_in (one_bot, bot_world) s' 0 \<and> (\<exists>t. token_accepted sample_lib bot_world t))"
proof -
  note g = bot_gate [OF one_bot_reached [of sample_lib bot_world]]
  obtain u s' where a: "run_state (bot_read sample_lib 0 (BotMessage ''m'' (BotAuth ''old''))) (one_bot, bot_world) = (u, s')" by (metis prod.collapse)
  obtain v s2 where b: "run_state (bot_read sample_lib 0 (BotMessage ''m'' BotStatus)) (one_bot, bot_world) = (v, s2)" by (metis prod.collapse)
  have "lets_in (one_bot, bot_world) s' 0"
    using a by (auto simp: lets_in_def bot_read_def handleBotAuth_def GetBotSetting_def bot_GetSetting_def row_def db_fails_def bot_world_def auth_world_def
        no_bot_def sample_setting_def one_bot_def bot_start_def NewBotConn_def bc_upd_def hash_matches_def plain_matches_def sendToBot_def bot_queue_def
        loadAllBotSettings_def LoadAllSettings_def RegisterBot_def sample_lib_def)
  moreover have "bot_step sample_lib (one_bot, bot_world) s'" by (rule bot_step.read [OF _ a]) (simp add: one_bot_def)
  moreover have "bh_jobs (fst s2) = []"
  proof -
    have "0 < length (bh_bcs one_bot)" "\<not> bo_authenticated (bh_bcs one_bot ! 0)" "bh_jobs one_bot = []"
      by (simp_all add: one_bot_def NewBotConn_def bot_start_def)
    with g [THEN conjunct2, THEN conjunct2, rule_format, of 0 "BotMessage ''m'' BotStatus" v s2] b show ?thesis by simp
  qed
  moreover from calculation(1,2) have "\<exists>t. token_accepted sample_lib bot_world t"
    using g [THEN conjunct2, THEN conjunct1, rule_format, of s' 0] by auto
  ultimately show ?thesis using g [THEN conjunct1] a b by simp
qed

theorem token_reset_final_witness:
  "let s1 = snd (run_state (ResetBotToken sample_lib ''root'') (one_bot\<lparr>bh_migrations := [''old'']\<rparr>, bot_world));
       s2 = snd (run_state (run_migration sample_lib) s1) in
   token_accepted sample_lib (snd s2) ''c1'' \<and> \<not> token_accepted sample_lib (snd s2) ''old''"
proof -
  let ?h = "one_bot\<lparr>bh_migrations := [''old'']\<rparr>"
  have c1: "hex_encode (bytes_str [193]) = ''c1''" by code_simp
  obtain r h1 w1 where reset: "run_state (ResetBotToken sample_lib ''root'') (?h, bot_world) = (r, (h1, w1))" by (metis prod.collapse)
  have r: "r = JSONResp 200 (JObj [(''status'', JStr ''token_updated''), (''new_token'', JStr ''c1'')])"
    and settings: "bot_settings w1 = [sample_setting ''bot_enabled'' ''true'' None, sample_setting ''bot_auth_token'' [] (Some ''$c1'')]" "w_dbfail w1 = []" "w_rand w1 = []"
      "bh_migrations h1 = [''old'']"
    using reset by (auto simp: ResetBotToken_def generateSecureToken_def rand_read_def bot_world_def auth_world_def c1 sample_lib_def bot_UpdateSetting_def
        UpdateSettingWithHash_def run_db_write db_fails_def bot_upd_def no_bot_def sample_setting_def upd_def audit_Log_def LoadBotSettings_def LoadAllSettings_def load_token_def
        db_next_def one_bot_def bot_start_def)
  obtain u h2 w2 where m: "run_state (run_migration sample_lib) (h1, w1) = (u, (h2, w2))" by (metis prod.collapse)
  have later: "settings_kept sample_lib (h1, w1) (h2, w2)" by (rule settings_kept.late [OF settings_kept.start m])
  have pre: "nofault bot_world" "bot_inv ?h" "list_ex (\<lambda>s. bs_SettingKey s = ''bot_auth_token'') (bot_settings bot_world)"
    by (simp_all add: nofault_def bot_world_def auth_world_def bot_inv_def one_bot_def bot_start_def NewBotConn_def sample_setting_def)
  from token_reset_final [OF pre reset [unfolded r] later] obtain new salt hash where
    h: "JObj [(''status'', JStr ''token_updated''), (''new_token'', JStr ''c1'')] = JObj [(''status'', JStr ''token_updated''), (''new_token'', JStr new)]"
      "al_GenerateFromPassword sample_lib salt new = Some hash"
      "\<forall>t. token_accepted sample_lib w2 t \<longleftrightarrow> t \<noteq> [] \<and> bot_on w2 \<and> hash \<noteq> [] \<and> al_CompareHashAndPassword sample_lib hash t"
    by (elim exE conjE) blast
  have "bot_on w2"
    using m settings by (auto simp: run_migration_def migrateBotTokenToHash_def rand_read_def bot_on_def setting_of_def sample_setting_def)
  moreover have "hash = ''$c1''" "al_CompareHashAndPassword sample_lib hash t \<longleftrightarrow> hash = CHR ''$'' # t" for t
    using h(1,2) by (simp_all add: sample_lib_def)
  ultimately have "token_accepted sample_lib w2 ''c1''" "\<not> token_accepted sample_lib w2 ''old''" using h(3) by simp_all
  then show ?thesis using reset m by simp
qed

end
