(* ===== verification/Spec2Isabelle.thy ===== *)
theory Spec2Isabelle
  imports Peering ApiVersion Lock Cache Lifecycle AuthProps Notifications HubProps Inactivity Endpoint Cleanup Reconcile BotConn
begin

text \<open>
  Autopeer Center, the control plane of a DN42 network: users ask for peerings with the network's nodes,
  operators decide, and an agent on every node configures WireGuard and BIRD. This development models the
  center as it is written in Go under \<^verbatim>\<open>src/internal\<close> and proves what makes it correct.

  \<^bold>\<open>How the program is modelled.\<close> A handler is a value of the state monad over the record \<open>world\<close> (theory
  \<open>World\<close>): the tables, the in-process locks, the cache, the connections of agents, the commands sent and the
  messages going out. What the environment decides is a script inside the state: which database calls fail
  (\<open>w_dbfail\<close>), what agents reply (\<open>w_replies\<close>), generated identifiers and random bytes, the clock. So every error
  return of the code is a branch of the model, and a theorem without a hypothesis on the scripts holds for every
  failure of the database and every behaviour of the agents. The premise \<open>nofault\<close> says that the database
  answers. A panic is a value (\<open>Panicked\<close>, \<open>h_panicked\<close>). Times are milliseconds, integers are unbounded with the
  wrap-around of \<^verbatim>\<open>int64\<close> written out where values can get there, bytes and digests are words. Libraries outside
  the repository are parameters: Redis (\<open>redis_ops\<close>, \<open>redis_kv\<close>), JWT, bcrypt, OpenPGP, Turnstile (\<open>auth_lib\<close>, \<open>jwt_lib\<close>),
  HKDF, the AEAD and the JSON text (\<open>channel_lib\<close>), HTTP to the registry. SHA-256, HMAC and X25519 are computed.
  Log output, metrics, tracing, request contexts and their deadlines have no model.

  \<^bold>\<open>Foundations.\<close> \<open>Prelude\<close> (Go's integers and strings, fact collections), \<open>GoNet\<close> (the parts of \<^verbatim>\<open>net\<close> in use),
  \<open>Json\<close>, \<open>Sha256\<close>. The calculus is in \<open>World\<close>: \<open>keeps\<close> for invariants, \<open>wp\<close> for weakest preconditions, with one rule
  per operation in \<open>Sync\<close>; \<open>hwp\<close> in \<open>HubSteps\<close> is its counterpart for the hub.

  \<^bold>\<open>Rules and stores.\<close> \<open>Peering\<close> (\<^verbatim>\<open>peering/peering.go\<close>: names, ports, validators, new rows), \<open>ApiVersion\<close> (\<^verbatim>\<open>apiversion\<close>), \<open>Lock\<close> (\<^verbatim>\<open>lock/lock.go\<close>; the contract of a locker is a locale,
  interpreted on the in-process one), \<open>Cache\<close> (\<^verbatim>\<open>cache/cache.go\<close>, likewise), \<open>Registry\<close> (\<^verbatim>\<open>service/registry.go\<close>),
  \<open>PeerRepo\<close> (\<^verbatim>\<open>repository/peer.go\<close>, \<^verbatim>\<open>node.go\<close>: statements on tables with their unique and foreign keys; addressing a
  row is a locale with two interpretations).

  \<^bold>\<open>Peers.\<close> \<open>AdminPeer\<close> (\<^verbatim>\<open>handler/admin_peer.go\<close>) and \<open>PeerHandler\<close> (\<^verbatim>\<open>handler/peer.go\<close>, \<^verbatim>\<open>ws/bot_peer_handler.go\<close>) are the
  handlers. \<open>Sync\<close> defines when the configuration that the agents acknowledged and the table agree, and what
  the agents may have besides when answers got lost; \<open>Lifecycle\<close> the abstract machine of
  a peer and the refinement. The theorems on requests are in this theory: agreement with the agents, refinement,
  the table invariant, isolation of users, the lifecycle of a row.

  \<^bold>\<open>Accounts.\<close> \<open>AuthData\<close>, \<open>AuthRepo\<close> (\<^verbatim>\<open>repository/auth.go\<close>), \<open>Middleware\<close> (\<^verbatim>\<open>middleware/middleware.go\<close>), \<open>AuthHandler\<close>
  and \<open>AuthFlows\<close> (\<^verbatim>\<open>handler/auth.go\<close>), \<open>Notifications\<close> (\<^verbatim>\<open>service/notifications.go\<close>, preferences). \<open>Session\<close> proves what
  every authentication request may do to the tables; \<open>AuthProps\<close> derives that the end of a session is final,
  what the guards admit, rotation and replay of refresh tokens, device codes, login codes, rate limits.

  \<^bold>\<open>Agents.\<close> \<open>Crypto\<close> (\<^verbatim>\<open>crypto/crypto.go\<close>), \<open>Protocol\<close> (\<^verbatim>\<open>ws/protocol.go\<close>), \<open>Hub\<close> (\<^verbatim>\<open>ws/hub.go\<close>, \<^verbatim>\<open>conn.go\<close>,
  \<^verbatim>\<open>handshake.go\<close>, \<^verbatim>\<open>handler/agent.go\<close>). The goroutines are the steps of \<open>hub_step\<close> (\<open>HubProps\<close>): a section under the
  hub's mutex, one message read or written, one turn of a queue; \<^verbatim>\<open>handleKeyInit\<close> is two steps and a command waits
  between two, so that others can act in between. \<open>HubSteps\<close> shows that every operation keeps the invariant.
  \<open>MonitorData\<close> and \<open>Heartbeat\<close> (\<^verbatim>\<open>ws/heartbeat.go\<close>, \<^verbatim>\<open>repository/metrics.go\<close>) are the heartbeats and alarms.

  \<^bold>\<open>Workers.\<close> \<open>Inactivity\<close> (\<^verbatim>\<open>inactivity/worker.go\<close>: what a sweep warns about and deletes), \<open>Endpoint\<close> (\<^verbatim>\<open>endpoint/checker.go\<close>,
  \<^verbatim>\<open>compare.go\<close>: a mismatch is reported only after the threshold, also when the database fails), \<open>Cleanup\<close> (\<^verbatim>\<open>cleanup/cleanup.go\<close>, \<^verbatim>\<open>repository/audit.go\<close>:
  nobody notices the daily deletions), \<open>Reconcile\<close>
  (\<^verbatim>\<open>reconcile/reconcile.go\<close>: a pass queues the peers of every connected node).

  \<^bold>\<open>The bot.\<close> \<open>BotBinding\<close> (\<^verbatim>\<open>ws/bot_bind_handler.go\<close>, \<^verbatim>\<open>repository/bot_binding.go\<close>, \<^verbatim>\<open>handler/telegram_binding.go\<close>: a Telegram
  account is bound to an AS number only with a live code stored for it or with the token of a fresh link of its owner), \<open>BotAdmin\<close>
  (\<^verbatim>\<open>ws/bot_admin_handler.go\<close>: the actions of operators refine the peer machine; the theorem is in this theory),
  \<open>BotConn\<close> (\<^verbatim>\<open>ws/bot_conn.go\<close>, \<^verbatim>\<open>bot_handler.go\<close>, the bot side of \<^verbatim>\<open>hub.go\<close>, \<^verbatim>\<open>repository/bot.go\<close>, \<^verbatim>\<open>handler/admin_bot.go\<close>): the
  connections are the steps of \<open>bot_step\<close>, in which a handler in its own goroutine is a job that waits for its turn.
  The semaphore has 64 slots and a queue 64 places, as in the code; a full queue drops the message.

  \<^bold>\<open>Termination.\<close> Every definition is total. Loops of the code that could run on are bounded by what they
  consume: \<open>ipv6_loop\<close> has as fuel the eight groups of an address, \<open>rand_below\<close> ends with the script of random
  bytes, \<open>cascade\<close>, the foreign key's deletion of child sessions, has a round for every session, so that it can reach all of them. The pumps, tickers and drains are
  step relations.

  \<^bold>\<open>Not modelled.\<close> SMTP and the text of mails, the ClickHouse store and the handlers over it, process start-up and
  configuration, the Sentry and metrics side, the task queue and its dashboard, WebAuthn ceremonies, the MCP
  servers, the flap agents, the administration of nodes and releases. The manifest lists every part with its status.
\<close>

section \<open>A small center\<close>

text \<open>One enabled node with a connected agent that acknowledges every command, one active and one pending
  peer; the pending one is about to be approved.\<close>

definition sample_node :: node where
  "sample_node = \<lparr>n_ID = ''n1'', n_Name = ''hkg'', n_Location = ''HK'', n_AgentToken = ''t'', n_AgentPubkey = [],
     n_PublicIP = ''192.0.2.1'', n_OurASN = 4242420001, n_OurLLA = ''fe80::1'', n_OurWgPubkey = ''k'', n_BirdPeerDir = [],
     n_WgDir = [], n_WgPortPrefix = 5, n_Online = True, n_Enabled = True, n_AgentVersion = [], n_AgentState = ''running'',
     n_AgentStateChangedAt = 0, n_CreatedAt = 1\<rparr>"

definition sample_key :: string where
  "sample_key = ''abcdefghijklmnopqrstuvwxyzABCDEFGHIJKLMN=''"

definition sample_peer :: peer where
  "sample_peer = zero_peer\<lparr>ID := ''p1'', NodeID := ''n1'', RemoteASN := 4242420123, RemotePubkey := sample_key,
     RemoteEndpoint := ''192.0.2.7:51820'', RemoteLLA := ''fe80::7'', WgListenPort := 50123, WgInterfaceName := ''dn424242420123'',
     WgManaged := True, Status := ''pending'', CreatedAt := 1, UpdatedAt := 1\<rparr>"

definition sample_active :: peer where
  "sample_active = sample_peer\<lparr>ID := ''p2'', RemoteASN := 4242420456, WgListenPort := 50456, WgInterfaceName := ''dn424242420456'',
     Status := ''active''\<rparr>"

definition ack :: agent_reply where
  "ack = Answer \<lparr>m_Success = Some True, m_Error = [], m_Peers = []\<rparr>"

definition sample_binding :: "int \<Rightarrow> int \<Rightarrow> BotUserBinding" where
  "sample_binding tg asn = \<lparr>bb_TgUserID = tg, bb_TgUsername = [], bb_ASN = asn, bb_IsAdmin = False, bb_BoundAt = 1, bb_BoundVia = ''code''\<rparr>"

definition sample_world :: world where
  "sample_world = \<lparr>w_peers = [sample_peer, sample_active], w_nodes = [sample_node], w_audit = [], w_bindings = [sample_binding 77 4242420123],
     w_notification_settings = Map.empty, w_site_settings = [''peer_creation_enabled'' \<mapsto> ''true''], w_locks = Some NewLocalLocker,
     w_cache = sample_cache, w_conns = [''n1'' \<mapsto> False], w_sent = [(''n1'', PeerAdd (add_payload sample_active), ack)], w_out = [],
     w_replies = [ack, ack, ack, ack], w_dbfail = [], w_uuids = [''u1'', ''u2''], w_rand = [], w_registry = \<lparr>rs_token = [], rs_get = (\<lambda>_ _. Inl ''offline'')\<rparr>, w_auth = no_auth, w_mon = no_monitor, w_bot = no_bot, w_cookies = [], w_headers = [], w_now = 1000,
     w_now_text = ''2025-01-01''\<rparr>"

lemma sample_tables: "tables_ok sample_world"
  by (simp add: tables_ok_def sample_world_def sample_active_def sample_peer_def zero_peer_def asn_key_def port_key_def sample_node_def)

lemma sample_nofault: "nofault sample_world"
  by (simp add: nofault_def sample_world_def)

lemma sample_in_sync: "in_sync sample_world"
  by (auto simp: in_sync_def agent_view_def expected_def sample_world_def ack_def acked_def refused_def find_peer_def
      sample_active_def sample_peer_def zero_peer_def add_payload_def fun_eq_iff)

lemma sample_key_valid: "ValidatePubkey sample_key = Inr ()"
  by (simp add: ValidatePubkey_def sample_key_def host_eval)

lemma sample_valid: "valid_rows sample_world"
proof -
  have "ValidateEndpoint ''192.0.2.7:51820'' = Inr ()" "ValidateLLA ''fe80::7'' = Inr ()"
    by (simp_all add: ValidateEndpoint_def ValidateLLA_def host_eval parse_ip_eval)
  then show ?thesis
    by (simp add: valid_rows_def sample_world_def valid_config_def sample_active_def sample_peer_def zero_peer_def sample_key_valid ValidateMTU_def)
qed

lemma sample_plain: "list_all plain_row (w_peers sample_world)"
  using sample_valid valid_config_not_now by (auto simp: valid_rows_def list_all_iff)

text \<open>The definitions that evaluate a handler on a concrete state.\<close>

lemmas run_ops = with_peer_lock_def lock_acquire_def lock_release_def acquirePeerLock_def local_Acquire_def local_Release_def
  NewLocalLocker_def peers_GetByID_def peers_UpdateStatus_def nodes_GetByID_def SendCommand_def refreshContactEmail_def
  run_LookupASNEmail notify_def audit_Log_def run_db_write db_fails_def db_next_def row_def find_peer_def find_node_def
  update_peer_def sql_text_def refused_def Let_def

lemmas sample_defs = sample_world_def sample_binding_def sample_peer_def sample_active_def zero_peer_def sample_node_def ack_def

section \<open>The lifecycle of peers\<close>

text \<open>C1. Database and agents stay in step. When the configuration that the agents have acknowledged is the
  one the table asks for (the active peers of each node, with their settings), a request of any kind but the
  bot's delete leaves it so as long as the database answers, whatever the agents reply. The agents then really have
  what the table asks for, at every peer whose unanswered commands, if any, were followed by an acknowledged one: an
  unanswered command may or may not have been applied. The only exception is an edit of an active peer that ends with an error to
  the caller: the agent has then acknowledged the removal of the peer but neither the new settings nor the old ones, and
  lacks this one peer. The rows are assumed to hold no key, endpoint or address that reads \<^verbatim>\<open>now()\<close>, which the
  repository would replace by the time; valid settings never do.\<close>

theorem request_in_sync:
  assumes "run_state (serve r) w = (resp, w')" "in_sync w" "nofault w" "tables_ok w" "list_all plain_row (w_peers w)" "\<not> is_bot_delete r"
  shows "in_sync w' \<and> (\<forall>c k. agents_may (w_sent w') c \<and> k \<notin> unsure (w_sent w') \<longrightarrow> c k = expected (w_peers w') k)
    \<or> is_update r \<and> failure resp \<and> lost_peer w'"
proof -
  have "c k = expected (w_peers w') k" if "in_sync w'" "agents_may (w_sent w') c" "k \<notin> unsure (w_sent w')" for c k
    using agents_may_known [OF that(2,3)] that(1) by (simp add: in_sync_def agent_view_def)
  with wp_run [OF serve_sync [OF assms(3,2,4,5,6)] assms(1)] show ?thesis by blast
qed

text \<open>An approval whose command stays without an answer: the other peer of the node is configured in any case.\<close>

theorem request_in_sync_witness:
  "\<exists>resp w'. run_state (serve (ReqApprove ''p1'' ''root'')) (sample_world\<lparr>w_replies := []\<rparr>) = (resp, w') \<and> in_sync w'
     \<and> unsure (w_sent w') = {(''n1'', ''p1'')}
     \<and> (\<forall>c. agents_may (w_sent w') c \<longrightarrow> c (''n1'', ''p2'') = Some (add_payload sample_active))"
proof -
  let ?w = "sample_world\<lparr>w_replies := []\<rparr>"
  obtain resp w' where r: "run_state (serve (ReqApprove ''p1'' ''root'')) ?w = (resp, w')" by (metis surj_pair)
  have "in_sync ?w" "nofault ?w" "tables_ok ?w" "list_all plain_row (w_peers ?w)"
    using sample_in_sync sample_nofault sample_tables sample_plain by (simp_all add: in_sync_def agent_view_def nofault_def tables_ok_def)
  from request_in_sync [OF r this]
  have t: "in_sync w' \<and> (\<forall>c k. agents_may (w_sent w') c \<and> k \<notin> unsure (w_sent w') \<longrightarrow> c k = expected (w_peers w') k)" by simp
  have w': "w_sent w' = w_sent sample_world @ [(''n1'', PeerAdd (add_payload sample_peer), NoAnswer ''context deadline exceeded'')]"
      "w_peers w' = w_peers sample_world"
    using r by (auto simp: ApprovePeer_def approvePeerCore_def run_ops sample_defs)
  then have "unsure (w_sent w') = {(''n1'', ''p1'')}" by (simp add: unsure_def sample_world_def ack_def acked_def refused_def sample_peer_def)
  moreover have "expected (w_peers w') (''n1'', ''p2'') = Some (add_payload sample_active)"
    by (simp add: w' expected_def find_peer_def sample_defs)
  ultimately show ?thesis using r t by auto
qed

text \<open>C2. Every request refines the abstract peer machine: it leaves the table alone or makes one step of
  \<open>peer_step\<close> on behalf of its caller, with the guards of that machine: only pending peers are approved or rejected,
  only active ones suspended, only suspended ones resumed, a new row is pending or approved at once and
  carries valid settings, and a user touches only rows of its AS number and never changes a status.\<close>

theorem request_refines_machine:
  assumes "run_state (serve r) w = (resp, w')" "tables_ok w"
  shows "w_peers w' = w_peers w \<or> peer_step (actor w r) (w_peers w) (w_peers w')"
  using wp_run [OF serve_act [OF assms(2)] assms(1)] by (simp add: peer_act_def)

theorem request_refines_machine_witness:
  "\<exists>resp w'. run_state (serve (ReqDelete 4242420123 ''p1'')) sample_world = (resp, w')
     \<and> (w_peers w' = w_peers sample_world \<or> peer_step (Some 4242420123) (w_peers sample_world) (w_peers w'))"
proof -
  obtain resp w' where r: "run_state (serve (ReqDelete 4242420123 ''p1'')) sample_world = (resp, w')" by (metis surj_pair)
  from request_refines_machine [OF r sample_tables] r show ?thesis by auto
qed

text \<open>C3. The constraints of the tables hold in every reachable state: identifiers are unique, a node has at
  most one peer per AS number and per WireGuard port, and every peer belongs to a node, through any sequence of
  requests and imports, with any answers of the agents and any failures of the database in between.\<close>

theorem tables_invariant:
  assumes "reachable w0 w" "tables_ok w0"
  shows "distinct (map ID (w_peers w)) \<and> distinct (map (\<lambda>p. (NodeID p, RemoteASN p)) (w_peers w))
    \<and> distinct (map (\<lambda>p. (NodeID p, WgListenPort p)) (w_peers w)) \<and> (\<forall>p \<in> set (w_peers w). \<exists>n \<in> set (w_nodes w). n_ID n = NodeID p)"
proof -
  have "asn_key = (\<lambda>p. (NodeID p, RemoteASN p))" "port_key = (\<lambda>p. (NodeID p, WgListenPort p))"
    by (simp_all add: asn_key_def port_key_def fun_eq_iff)
  with reachable_tables_ok [OF assms] show ?thesis by (fastforce simp: tables_ok_def list_all_iff)
qed

theorem tables_invariant_witness:
  "distinct (map ID (w_peers (perform (OpRequest (ReqApprove ''p1'' ''root'')) sample_world)))"
  using tables_invariant [OF reachable.op [OF reachable.start] sample_tables] by blast

text \<open>C4. Users are isolated from each other: a request of a user, over HTTP or over the bot, leaves the rows of
  all other AS numbers exactly as they were, in content and in order.\<close>

theorem user_isolation:
  assumes "run_state (serve r) w = (resp, w')" "tables_ok w" "actor w r = Some n"
  shows "filter (\<lambda>p. RemoteASN p \<noteq> n) (w_peers w') = filter (\<lambda>p. RemoteASN p \<noteq> n) (w_peers w)"
  using wp_run [OF serve_act [OF assms(2)] assms(1)] assms(2,3) by (auto intro: peer_act_isolated simp: tables_ok_def)

theorem user_isolation_witness:
  "\<exists>resp w'. run_state (serve (ReqDelete 4242420123 ''p2'')) sample_world = (resp, w') \<and> sample_active \<in> set (w_peers w')"
proof -
  obtain resp w' where r: "run_state (serve (ReqDelete 4242420123 ''p2'')) sample_world = (resp, w')" by (metis surj_pair)
  have "sample_active \<in> set (filter (\<lambda>p. RemoteASN p \<noteq> 4242420123) (w_peers sample_world))"
    by (simp add: sample_world_def sample_active_def)
  moreover have "filter (\<lambda>p. RemoteASN p \<noteq> 4242420123) (w_peers w') = filter (\<lambda>p. RemoteASN p \<noteq> 4242420123) (w_peers sample_world)"
    by (rule user_isolation [OF r sample_tables]) simp
  ultimately have "sample_active \<in> set (filter (\<lambda>p. RemoteASN p \<noteq> 4242420123) (w_peers w'))" by simp
  with r show ?thesis unfolding set_filter by blast
qed

text \<open>C5. The identity of a peer is fixed and its status moves along the lifecycle: over one request a row that stays
  keeps its node, AS number, port, interface and pre-shared key, and its status stays or goes from pending to active
  or rejected, from active to suspended or from suspended to active. A rejected peer stays rejected.\<close>

theorem row_lifecycle:
  assumes "run_state (serve r) w = (resp, w')" "tables_ok w" "find_peer i (w_peers w) = Some p" "find_peer i (w_peers w') = Some q"
  shows "NodeID q = NodeID p \<and> RemoteASN q = RemoteASN p \<and> WgListenPort q = WgListenPort p \<and> WgInterfaceName q = WgInterfaceName p
    \<and> WgPreSharedKey q = WgPreSharedKey p
    \<and> (Status q = Status p \<or> (Status p, Status q) \<in> {(''pending'', ''active''), (''pending'', ''rejected''), (''active'', ''suspended''), (''suspended'', ''active'')})"
  using peer_act_row [OF wp_run [OF serve_act [OF assms(2)] assms(1)] assms(3,4)] by (simp add: row_change_def next_status_def)

theorem row_lifecycle_witness:
  "\<exists>resp w' q. run_state (serve (ReqApprove ''p1'' ''root'')) sample_world = (resp, w') \<and> find_peer ''p1'' (w_peers w') = Some q
     \<and> Status q = ''active'' \<and> WgListenPort q = 50123"
proof -
  obtain resp w' where r: "run_state (serve (ReqApprove ''p1'' ''root'')) sample_world = (resp, w')" by (metis surj_pair)
  have "map (\<lambda>p. (ID p, Status p)) (w_peers (snd (run_state (ApprovePeer ''p1'' ''root'') sample_world))) = [(''p1'', ''active''), (''p2'', ''active'')]"
    by (simp add: ApprovePeer_def approvePeerCore_def run_ops sample_defs)
  then obtain q where q: "find_peer ''p1'' (w_peers w') = Some q" "Status q = ''active''" using r by (auto simp: find_peer_def)
  have p: "find_peer ''p1'' (w_peers sample_world) = Some sample_peer"
    by (simp add: sample_world_def sample_active_def sample_peer_def find_peer_def)
  from row_lifecycle [OF r sample_tables p q(1)] r q show ?thesis by (auto simp: sample_peer_def)
qed

text \<open>C6. Stored settings stay valid: every request but the bot's update keeps the keys, endpoints, link-local
  addresses and MTUs of all rows within the validators.\<close>

theorem settings_stay_valid:
  assumes "run_state (serve r) w = (resp, w')" "tables_ok w" "\<forall>p \<in> set (w_peers w). valid_config p" "\<not> is_bot_update r"
  shows "\<forall>p \<in> set (w_peers w'). valid_config p"
  using wp_run [OF serve_valid [OF assms(2) _ assms(4)] assms(1)] assms(3) by (simp add: valid_rows_def list_all_iff)

theorem settings_stay_valid_witness:
  "\<exists>resp w'. run_state (serve (ReqApprove ''p1'' ''root'')) sample_world = (resp, w') \<and> (\<forall>p \<in> set (w_peers w'). valid_config p)"
proof -
  obtain resp w' where r: "run_state (serve (ReqApprove ''p1'' ''root'')) sample_world = (resp, w')" by (metis surj_pair)
  from settings_stay_valid [OF r sample_tables] sample_valid have "\<forall>p \<in> set (w_peers w'). valid_config p"
    by (simp add: valid_rows_def list_all_iff)
  with r show ?thesis by blast
qed

section \<open>Where the handlers fall short\<close>

lemma in_sync_eqI: "w_peers w' = w_peers w \<Longrightarrow> w_sent w' = w_sent w \<Longrightarrow> in_sync w \<Longrightarrow> in_sync w'"
  by (simp add: in_sync_def agent_view_def)

lemma tables_eqI: "w_peers w' = w_peers w \<Longrightarrow> w_nodes w' = w_nodes w \<Longrightarrow> tables_ok w \<Longrightarrow> tables_ok w'"
  by (simp add: tables_ok_def)

definition cleared :: "string \<Rightarrow> world \<Rightarrow> unit cache" where
  "cleared i w = w_cache (snd (run_state (ClearPeerAlerts i) w))"

lemma run_ClearPeerAlerts: "run_state (ClearPeerAlerts i) w = ((), w\<lparr>w_cache := cleared i w\<rparr>)"
  by (simp add: cleared_def ClearPeerAlerts_def Let_def)

lemma ex_Not [simp]: "Ex Not"
  by blast

text \<open>The bot's delete drops the agent's answer: here the agent does not answer the removal, the user is
  told that the peer is gone, and the row is gone, but the agent still carries the tunnel, which no later
  request can address.\<close>

theorem bot_delete_orphans_tunnel:
  "\<exists>w w'. tables_ok w \<and> nofault w \<and> in_sync w \<and> run_state (handleBotUserPeerDelete 78 ''p2'') w = ((True, []), w')
     \<and> find_peer ''p2'' (w_peers w') = None \<and> agent_view w' (''n1'', ''p2'') = Some (add_payload sample_active)"
proof -
  let ?w = "sample_world\<lparr>w_bindings := [sample_binding 78 4242420456], w_replies := []\<rparr>"
  let ?r = "run_state (handleBotUserPeerDelete 78 ''p2'') ?w"
  have "tables_ok ?w" by (rule tables_eqI [OF _ _ sample_tables]) simp_all
  moreover have "nofault ?w" by (simp add: nofault_def sample_world_def)
  moreover have "in_sync ?w" by (rule in_sync_eqI [OF _ _ sample_in_sync]) simp_all
  moreover have "fst ?r = (True, [])" "find_peer ''p2'' (w_peers (snd ?r)) = None"
     "w_sent (snd ?r) = w_sent sample_world @ [(''n1'', PeerRemove (remove_payload sample_active), NoAnswer ''context deadline exceeded'')]"
    by (simp_all add: handleBotUserPeerDelete_def bindings_GetByTgUserID_def peers_GetByIDAndASN_def peers_Delete_def delete_peer_def
        run_ClearPeerAlerts run_ops sample_defs)
  moreover from this(3) have "agent_view (snd ?r) (''n1'', ''p2'') = Some (add_payload sample_active)"
    by (simp add: agent_view_def sample_world_def ack_def refused_def) (simp add: sample_active_def sample_peer_def)
  ultimately show ?thesis by (metis prod.collapse)
qed

text \<open>The bot's update validates the trimmed key and stores the untrimmed one: a key with a leading blank is
  accepted, although the validator that every other path applies rejects what is then stored.\<close>

theorem bot_update_stores_untrimmed_key:
  "\<exists>w w' p. tables_ok w \<and> nofault w \<and> valid_rows w
     \<and> run_state (handleBotUserPeerUpdate 77 ''p1'' \<lparr>ub_RemotePubkey = Some ('' '' @ sample_key), ub_RemoteEndpoint = None,
           ub_RemoteLLA = None, ub_MTU = None, ub_MTUSet = False\<rparr>) w = ((True, []), w')
     \<and> find_peer ''p1'' (w_peers w') = Some p \<and> \<not> valid_config p"
proof -
  let ?b = "\<lparr>ub_RemotePubkey = Some ('' '' @ sample_key), ub_RemoteEndpoint = None, ub_RemoteLLA = None, ub_MTU = None, ub_MTUSet = False\<rparr>"
  let ?r = "run_state (handleBotUserPeerUpdate 77 ''p1'' ?b) sample_world"
  have "trim_space ('' '' @ sample_key) = sample_key"
    unfolding trim_space_blank by (rule trim_space_printable) (simp add: sample_key_def printable_def)
  then have c: "bot_check_update ?b = None"
    using sample_key_valid by (simp add: bot_check_update_def ValidatePubkey_iff)
  have k: "sample_key \<noteq> ''now()''" "CHR '' '' # sample_key \<noteq> ''now()''" by (simp_all add: sample_key_def)
  have "fst ?r = (True, [])" and s: "map RemotePubkey (w_peers (snd ?r)) = ['' '' @ sample_key, sample_key]"
      "map ID (w_peers (snd ?r)) = [''p1'', ''p2'']"
    by (simp_all add: handleBotUserPeerUpdate_def c [simplified] k bindings_GetByTgUserID_def peers_GetByIDAndASN_def commit_update_def peers_UpdateFields_def
        update_fields_def merge_update_def run_ops sample_defs)
  then obtain p where "find_peer ''p1'' (w_peers (snd ?r)) = Some p" "RemotePubkey p = '' '' @ sample_key"
    by (auto simp: find_peer_def)
  moreover from this(2) have "\<not> valid_config p"
    by (simp add: valid_config_def ValidatePubkey_iff sample_key_def host_eval)
  ultimately have "run_state (handleBotUserPeerUpdate 77 ''p1'' ?b) sample_world = ((True, []), snd ?r)
      \<and> find_peer ''p1'' (w_peers (snd ?r)) = Some p \<and> \<not> valid_config p"
    using \<open>fst ?r = (True, [])\<close> by (simp add: prod_eq_iff)
  then show ?thesis using sample_tables sample_nofault sample_valid by blast
qed

text \<open>A deletion is not rolled back: when the database fails after the agent has removed an active peer, the
  caller gets an error, the row stays active and the agent lacks the peer.\<close>

theorem delete_fault_loses_tunnel:
  "\<exists>w w'. tables_ok w \<and> in_sync w \<and> run_state (DeletePeer ''p2'' ''root'') w = (ErrorResp 500 ''internal_error'' ''Failed to delete peer'', w')
     \<and> w_peers w' = w_peers w \<and> agent_view w' (''n1'', ''p2'') = None \<and> \<not> in_sync w'"
proof -
  let ?w = "sample_world\<lparr>w_dbfail := [False, False, True]\<rparr>"
  let ?r = "run_state (DeletePeer ''p2'' ''root'') ?w"
  have "tables_ok ?w" by (rule tables_eqI [OF _ _ sample_tables]) simp_all
  moreover have i: "in_sync ?w" by (rule in_sync_eqI [OF _ _ sample_in_sync]) simp_all
  moreover have f: "fst ?r = ErrorResp 500 ''internal_error'' ''Failed to delete peer''" "w_peers (snd ?r) = w_peers ?w"
     "w_sent (snd ?r) = w_sent sample_world @ [(''n1'', PeerRemove (remove_payload sample_active), ack)]"
    by (simp_all add: DeletePeer_def peers_Delete_def remove_refusal_def run_ops sample_defs)
  moreover from this(3) have v: "agent_view (snd ?r) (''n1'', ''p2'') = None"
    by (simp add: agent_view_def sample_world_def ack_def refused_def sample_active_def sample_peer_def)
  moreover have "expected (w_peers (snd ?r)) (''n1'', ''p2'') \<noteq> None"
    unfolding f(2) by (simp add: expected_def find_peer_def sample_defs)
  ultimately show ?thesis unfolding in_sync_def by (metis prod.collapse)
qed

text \<open>What a rejection stores: the operator's reason, except that a reason reading \<^verbatim>\<open>now()\<close> is taken for SQL
  and replaced by the time stamp of the database. A rejection that reports success has changed exactly the
  status, the reason and the time stamp of a pending row.\<close>

theorem reject_stores_reason:
  assumes "run_state (RejectPeer i adminEmail (Some reason)) w = (JSONResp 200 body, w')"
  shows "\<exists>p. find_peer i (w_peers w) = Some p \<and> Status p = ''pending''
     \<and> w_peers w' = update_peer i (\<lambda>q. q\<lparr>Status := ''rejected'', UpdatedAt := w_now w,
          RejectReason := Some (if reason = ''now()'' then w_now_text w else reason)\<rparr>) (w_peers w)"
proof -
  have f: "(\<lambda>q. q\<lparr>Status := ''rejected'', UpdatedAt := w_now w, RejectReason := Some (if reason = ''now()'' then w_now_text w else reason)\<rparr>)
      = set_rejected (w_now w) (sql_text (w_now_text w) reason)" by (simp add: set_rejected_def sql_text_def fun_eq_iff)
  have "wp (RejectPeer i adminEmail (Some reason)) (\<lambda>r w'. r = JSONResp 200 body \<longrightarrow>
     (\<exists>p. find_peer i (w_peers w) = Some p \<and> Status p = ''pending'' \<and> w_peers w' = update_peer i (set_rejected (w_now w) (sql_text (w_now_text w) reason)) (w_peers w))) w"
    unfolding RejectPeer_def by (intro wp_rules; clarsimp simp: becomes_def)
  from wp_run [OF this assms] f show ?thesis by simp
qed


lemma reject_succeeds:
  assumes "nofault w" "find_peer i (w_peers w) = Some p" "Status p = ''pending''" "find_node (NodeID p) (w_nodes w) = Some n" "reason \<noteq> []"
  shows "wp (RejectPeer i a (Some reason)) (\<lambda>r w'. \<exists>b. r = JSONResp 200 b) w"
  unfolding RejectPeer_def using assms by (intro wp_rules; clarsimp simp: becomes_def)

theorem reject_stores_reason_witness:
  "\<exists>body w' q. run_state (RejectPeer ''p1'' ''root'' (Some ''now()'')) sample_world = (JSONResp 200 body, w')
     \<and> find_peer ''p1'' (w_peers w') = Some q \<and> Status q = ''rejected'' \<and> RejectReason q = Some ''2025-01-01''"
proof -
  obtain r w' where r: "run_state (RejectPeer ''p1'' ''root'' (Some ''now()'')) sample_world = (r, w')" by (metis surj_pair)
  have "wp (RejectPeer ''p1'' ''root'' (Some ''now()'')) (\<lambda>r w'. \<exists>b. r = JSONResp 200 b) sample_world"
    by (rule reject_succeeds [OF sample_nofault, where p = sample_peer and n = sample_node]) (simp_all add: find_peer_def find_node_def sample_defs)
  from wp_run [OF this r] obtain b where b: "r = JSONResp 200 b" by blast
  from reject_stores_reason [OF r [unfolded b]]
  have "w_peers w' = update_peer ''p1'' (\<lambda>q. q\<lparr>Status := ''rejected'', UpdatedAt := 1000, RejectReason := Some ''2025-01-01''\<rparr>) (w_peers sample_world)"
    by (auto simp: sample_world_def)
  with r b show ?thesis by (simp add: update_peer_def find_peer_def sample_defs)
qed

text \<open>C15. What an action of an operator over the bot does: at most one step of the lifecycle, as over the web. When the
  agents hold exactly the active peers and the database answers, this still holds afterwards, with one
  exception: a suspension or its end that reports success and leaves the agent with what it had.\<close>

theorem bot_action_refines:
  assumes "run_state (handleBotAdminPeerAction i a reason) w = (r, w')"
  shows "peer_act None (w_peers w) (w_peers w')
    \<and> (nofault w \<and> in_sync w \<longrightarrow> in_sync w' \<or> ((a = ''suspend'' \<or> a = ''unsuspend'') \<and> agent_left_behind r w w'))"
proof -
  note acts = act_bot_approve act_bot_reject act_bot_suspend act_bot_unsuspend
  note syncs = sync_bot_approve sync_bot_reject sync_bot_suspend sync_bot_unsuspend
  consider "a = ''approve''" "run_state (handleBotAdminApprove i) w = (r, w')" | "a = ''reject''" "run_state (handleBotAdminReject i reason) w = (r, w')"
    | "a = ''suspend''" "run_state (handleBotAdminSuspend i) w = (r, w')" | "a = ''unsuspend''" "run_state (handleBotAdminUnsuspend i) w = (r, w')"
    | "w' = w"
    using assms by (auto simp: handleBotAdminPeerAction_def split: if_splits)
  then show ?thesis
  proof cases
    case 1
    then show ?thesis using wp_run [OF acts(1)] wp_run [OF syncs(1)] by blast
  next
    case 2
    then show ?thesis using wp_run [OF acts(2)] wp_run [OF syncs(2)] by blast
  next
    case 3
    then show ?thesis using wp_run [OF acts(3)] wp_run [OF syncs(3)] by blast
  next
    case 4
    then show ?thesis using wp_run [OF acts(4)] wp_run [OF syncs(4)] by blast
  qed simp
qed

theorem bot_action_refines_witness:
  "in_sync (snd (run_state (handleBotAdminPeerAction ''p1'' ''approve'' []) sample_world))
   \<and> peer_act None (w_peers sample_world) (w_peers (snd (run_state (handleBotAdminPeerAction ''p1'' ''approve'' []) sample_world)))"
proof -
  obtain r w' where run: "run_state (handleBotAdminPeerAction ''p1'' ''approve'' []) sample_world = (r, w')" by (metis prod.collapse)
  from bot_action_refines [OF run] sample_nofault sample_in_sync run show ?thesis by simp
qed

text \<open>The exception happens: the agent does not answer, the operator reads that the peer is suspended, and the tunnel
  stays up.\<close>

theorem bot_suspend_keeps_tunnel:
  "\<exists>w w'. tables_ok w \<and> nofault w \<and> in_sync w
     \<and> run_state (handleBotAdminPeerAction ''p2'' ''suspend'' []) w = (AdminActionResult True [] ''peer suspended'', w')
     \<and> map Status (w_peers w') = [''pending'', ''suspended''] \<and> agent_view w' (''n1'', ''p2'') = Some (add_payload sample_active)"
proof -
  let ?w = "sample_world\<lparr>w_replies := []\<rparr>"
  let ?r = "run_state (handleBotAdminPeerAction ''p2'' ''suspend'' []) ?w"
  have "tables_ok ?w" by (rule tables_eqI [OF _ _ sample_tables]) simp_all
  moreover have "nofault ?w" by (simp add: nofault_def sample_world_def)
  moreover have "in_sync ?w" by (rule in_sync_eqI [OF _ _ sample_in_sync]) simp_all
  moreover have "fst ?r = AdminActionResult True [] ''peer suspended''" "map Status (w_peers (snd ?r)) = [''pending'', ''suspended'']"
     "w_sent (snd ?r) = w_sent sample_world @ [(''n1'', PeerRemove (remove_payload sample_active), NoAnswer ''context deadline exceeded'')]"
    by (simp_all add: handleBotAdminPeerAction_def handleBotAdminSuspend_def NotifyPeerEvent_def bindings_GetByASN_def IsOnline_def peers_UpdateStatus_def
        run_ClearPeerAlerts run_ops sample_defs)
  moreover from this(3) have "agent_view (snd ?r) (''n1'', ''p2'') = Some (add_payload sample_active)"
    by (simp add: agent_view_def sample_world_def ack_def refused_def) (simp add: sample_active_def sample_peer_def)
  ultimately show ?thesis by (metis prod.collapse)
qed

end
